(* ===== verification/Prelude.thy ===== *)
theory Prelude
  imports Main "HOL-Library.Word" "HOL-Library.Sublist"
begin

text \<open>
  What the components share: names for the machine types, results and their combinators,
  the string operations of the Rust standard library that the suite uses, decimal
  printing and parsing, and updates of a table kept as a list of rows.

  Strings are Rust's \<open>String\<close>/\<open>str\<close> as their UTF-8 bytes, one \<open>char\<close> per byte, so
  \<open>length\<close> is \<open>str::len\<close>. Case conversion is exact on ASCII letters and leaves the bytes
  of other characters alone; \<open>trim\<close> removes every Unicode \<open>White_Space\<close> character.
\<close>

section \<open>Names for the machine types\<close>

type_synonym u8 = "8 word"
type_synonym u16 = "16 word"
type_synonym u32 = "32 word"
type_synonym u64 = "64 word"

text \<open>A \<open>uuid::Uuid\<close> is its 128 bits; a \<open>chrono::DateTime<Utc>\<close> is the number of
  microseconds since the epoch, the precision PostgreSQL keeps.\<close>

type_synonym uuid = "128 word"
type_synonym instant = int

definition seconds :: "int \<Rightarrow> int" where
  "seconds n = n * 1000000"

definition hours :: "int \<Rightarrow> int" where
  "hours n = seconds (n * 3600)"

definition days :: "int \<Rightarrow> int" where
  "days n = hours (n * 24)"

text \<open>\<open>DateTime::timestamp\<close>: whole seconds since the epoch.\<close>

definition timestamp :: "instant \<Rightarrow> int" where
  "timestamp t = t div 1000000"

named_theorems duration_simps "unfolding of durations into microseconds"

lemmas [duration_simps] = seconds_def hours_def days_def

lemma days_mono: "m \<le> n \<Longrightarrow> days m \<le> days n"
  by (simp add: duration_simps)

lemma days_pos: "0 < n \<Longrightarrow> 0 < days n"
  by (simp add: duration_simps)

section \<open>Results\<close>

text \<open>\<open>Result<A, E>\<close> is \<open>'e + 'a\<close> with \<open>Inl\<close> for \<open>Err\<close>. \<open>bind_res\<close> is the \<open>?\<close> operator,
  \<open>ok_or\<close> is \<open>Option::ok_or\<close> and \<open>map_err\<close> is \<open>Result::map_err\<close>.\<close>

definition is_ok :: "'e + 'a \<Rightarrow> bool" where
  "is_ok r = (case r of Inl _ \<Rightarrow> False | Inr _ \<Rightarrow> True)"

definition bind_res :: "'e + 'a \<Rightarrow> ('a \<Rightarrow> 'e + 'b) \<Rightarrow> 'e + 'b" where
  "bind_res r f = (case r of Inl e \<Rightarrow> Inl e | Inr a \<Rightarrow> f a)"

definition ok_or :: "'e \<Rightarrow> 'a option \<Rightarrow> 'e + 'a" where
  "ok_or e a = (case a of None \<Rightarrow> Inl e | Some v \<Rightarrow> Inr v)"

definition map_err :: "('e \<Rightarrow> 'f) \<Rightarrow> 'e + 'a \<Rightarrow> 'f + 'a" where
  "map_err f r = (case r of Inl e \<Rightarrow> Inl (f e) | Inr a \<Rightarrow> Inr a)"

definition ensure :: "bool \<Rightarrow> 'e \<Rightarrow> 'e + unit" where
  "ensure b e = (if b then Inr () else Inl e)"

text \<open>\<open>Option<Result<_>>::transpose\<close> after \<open>Option::map\<close>, and \<open>collect\<close> of results.\<close>

definition transpose_map :: "('a \<Rightarrow> 'e + 'b) \<Rightarrow> 'a option \<Rightarrow> 'e + 'b option" where
  "transpose_map f a = (case a of None \<Rightarrow> Inr None
                        | Some v \<Rightarrow> (case f v of Inl e \<Rightarrow> Inl e | Inr b \<Rightarrow> Inr (Some b)))"

fun collect_res :: "('a \<Rightarrow> 'e + 'b) \<Rightarrow> 'a list \<Rightarrow> 'e + 'b list" where
  "collect_res f [] = Inr []"
| "collect_res f (x # xs) =
     bind_res (f x) (\<lambda>y. bind_res (collect_res f xs) (\<lambda>ys. Inr (y # ys)))"

text \<open>\<open>Option::or\<close> and \<open>Option::unwrap_or\<close>.\<close>

definition or_else :: "'a option \<Rightarrow> 'a option \<Rightarrow> 'a option" where
  "or_else a b = (case a of Some v \<Rightarrow> Some v | None \<Rightarrow> b)"

definition unwrap_or :: "'a option \<Rightarrow> 'a \<Rightarrow> 'a" where
  "unwrap_or a b = (case a of Some v \<Rightarrow> v | None \<Rightarrow> b)"

named_theorems res_simps "evaluation of result combinators"

lemma is_ok_simps [simp]: "\<not> is_ok (Inl e)" "is_ok (Inr a)"
  by (simp_all add: is_ok_def)

lemma is_ok_iff: "is_ok r \<longleftrightarrow> (\<exists>a. r = Inr a)"
  by (cases r) auto

lemma bind_res_simps [simp]: "bind_res (Inl e) f = Inl e" "bind_res (Inr a) f = f a"
  by (simp_all add: bind_res_def)

lemma bind_res_Inr: "bind_res r f = Inr b \<longleftrightarrow> (\<exists>a. r = Inr a \<and> f a = Inr b)"
  by (cases r) auto

lemma ok_or_simps [simp]: "ok_or e None = Inl e" "ok_or e (Some a) = Inr a"
  by (simp_all add: ok_or_def)

lemma ok_or_Inr: "ok_or e a = Inr v \<longleftrightarrow> a = Some v"
  by (cases a) auto

lemma map_err_simps [simp]: "map_err f (Inl e) = Inl (f e)" "map_err f (Inr a) = Inr a"
  by (simp_all add: map_err_def)

lemma map_err_Inr: "map_err f r = Inr a \<longleftrightarrow> r = Inr a"
  by (cases r) auto

lemma ensure_Inr: "ensure b e = Inr u \<longleftrightarrow> b"
  by (simp add: ensure_def)

lemma ensure_simps [simp]: "ensure True e = Inr ()" "ensure False e = Inl e"
  by (simp_all add: ensure_def)

lemma transpose_map_simps [simp]:
  "transpose_map f None = Inr None"
  "f v = Inr b \<Longrightarrow> transpose_map f (Some v) = Inr (Some b)"
  "f v = Inl e \<Longrightarrow> transpose_map f (Some v) = Inl e"
  by (simp_all add: transpose_map_def)

lemma transpose_map_Inr_Some:
  "transpose_map f a = Inr (Some b) \<longleftrightarrow> (\<exists>v. a = Some v \<and> f v = Inr b)"
  by (auto simp: transpose_map_def split: option.splits sum.splits)

lemma transpose_map_Inr_None: "transpose_map f a = Inr None \<longleftrightarrow> a = None"
  by (auto simp: transpose_map_def split: option.splits sum.splits)

lemmas [res_simps] = bind_res_Inr ok_or_Inr map_err_Inr ensure_Inr
  transpose_map_Inr_Some transpose_map_Inr_None

lemma collect_res_map: "(\<And>x. x \<in> set xs \<Longrightarrow> f (g x) = Inr x) \<Longrightarrow> collect_res f (map g xs) = Inr xs"
  by (induction xs) auto

lemma collect_res_length: "collect_res f xs = Inr ys \<Longrightarrow> length ys = length xs"
  by (induction xs arbitrary: ys) (auto simp: res_simps)

section \<open>Characters and strings\<close>

abbreviation code :: "char \<Rightarrow> nat" where
  "code c \<equiv> of_char c"

definition is_ascii_digit :: "char \<Rightarrow> bool" where
  "is_ascii_digit c \<longleftrightarrow> 48 \<le> code c \<and> code c \<le> 57"

definition is_ascii_upper :: "char \<Rightarrow> bool" where
  "is_ascii_upper c \<longleftrightarrow> 65 \<le> code c \<and> code c \<le> 90"

definition is_ascii_lower :: "char \<Rightarrow> bool" where
  "is_ascii_lower c \<longleftrightarrow> 97 \<le> code c \<and> code c \<le> 122"

definition is_ascii_alphabetic :: "char \<Rightarrow> bool" where
  "is_ascii_alphabetic c \<longleftrightarrow> is_ascii_upper c \<or> is_ascii_lower c"

definition is_ascii_alphanumeric :: "char \<Rightarrow> bool" where
  "is_ascii_alphanumeric c \<longleftrightarrow> is_ascii_digit c \<or> is_ascii_alphabetic c"

definition is_ascii_hexdigit :: "char \<Rightarrow> bool" where
  "is_ascii_hexdigit c \<longleftrightarrow> is_ascii_digit c \<or> (65 \<le> code c \<and> code c \<le> 70)
     \<or> (97 \<le> code c \<and> code c \<le> 102)"

definition lower_char :: "char \<Rightarrow> char" where
  "lower_char c = (if is_ascii_upper c then char_of (code c + 32) else c)"

definition upper_char :: "char \<Rightarrow> char" where
  "upper_char c = (if is_ascii_lower c then char_of (code c - 32) else c)"

definition to_lowercase :: "string \<Rightarrow> string" where
  "to_lowercase s = map lower_char s"

definition to_uppercase :: "string \<Rightarrow> string" where
  "to_uppercase s = map upper_char s"

named_theorems char_simps "character classes by code"

lemmas [char_simps] = is_ascii_digit_def is_ascii_upper_def is_ascii_lower_def
  is_ascii_alphabetic_def is_ascii_alphanumeric_def is_ascii_hexdigit_def

lemma code_lower_char: "code (lower_char c) = (if is_ascii_upper c then code c + 32 else code c)"
  by (auto simp: lower_char_def char_simps)

lemma code_upper_char: "code (upper_char c) = (if is_ascii_lower c then code c - 32 else code c)"
  by (auto simp: upper_char_def char_simps)

lemma code_inject: "code c = code d \<longleftrightarrow> c = d"
  by (metis char_of_char)

lemma lower_char_idem [simp]: "lower_char (lower_char c) = lower_char c"
  by (auto simp: code_inject [symmetric] code_lower_char char_simps)

lemma upper_char_idem [simp]: "upper_char (upper_char c) = upper_char c"
  by (auto simp: code_inject [symmetric] code_upper_char char_simps)

lemma lower_char_not_upper: "\<not> is_ascii_upper (lower_char c)"
  by (auto simp: code_lower_char char_simps)

lemma lower_char_id: "\<not> is_ascii_upper c \<Longrightarrow> lower_char c = c"
  by (simp add: lower_char_def)

lemma upper_char_id: "\<not> is_ascii_lower c \<Longrightarrow> upper_char c = c"
  by (simp add: upper_char_def)

lemma to_lowercase_idem [simp]: "to_lowercase (to_lowercase s) = to_lowercase s"
  by (simp add: to_lowercase_def)

lemma to_uppercase_idem [simp]: "to_uppercase (to_uppercase s) = to_uppercase s"
  by (simp add: to_uppercase_def)

lemma length_to_lowercase [simp]: "length (to_lowercase s) = length s"
  by (simp add: to_lowercase_def)

lemma length_to_uppercase [simp]: "length (to_uppercase s) = length s"
  by (simp add: to_uppercase_def)

text \<open>The UTF-8 encodings of the \<open>White_Space\<close> characters, and \<open>str::trim\<close>.\<close>

definition utf8 :: "nat list \<Rightarrow> string" where
  "utf8 bs = map char_of bs"

definition white_space :: "string list" where
  "white_space =
     [[CHR 0x09], [CHR 0x0A], [CHR 0x0B], [CHR 0x0C], [CHR 0x0D], [CHR 0x20], [CHR 0xC2,
     CHR 0x85], [CHR 0xC2, CHR 0xA0], [CHR 0xE1, CHR 0x9A, CHR 0x80], [CHR 0xE2, CHR 0x80,
     CHR 0x80], [CHR 0xE2, CHR 0x80, CHR 0x81], [CHR 0xE2, CHR 0x80, CHR 0x82], [CHR 0xE2,
     CHR 0x80, CHR 0x83], [CHR 0xE2, CHR 0x80, CHR 0x84], [CHR 0xE2, CHR 0x80, CHR 0x85],
     [CHR 0xE2, CHR 0x80, CHR 0x86], [CHR 0xE2, CHR 0x80, CHR 0x87], [CHR 0xE2, CHR 0x80,
     CHR 0x88], [CHR 0xE2, CHR 0x80, CHR 0x89], [CHR 0xE2, CHR 0x80, CHR 0x8A], [CHR 0xE2,
     CHR 0x80, CHR 0xA8], [CHR 0xE2, CHR 0x80, CHR 0xA9], [CHR 0xE2, CHR 0x80, CHR 0xAF],
     [CHR 0xE2, CHR 0x81, CHR 0x9F], [CHR 0xE3, CHR 0x80, CHR 0x80]]"

fun strip_one :: "string list \<Rightarrow> string \<Rightarrow> string option" where
  "strip_one [] s = None"
| "strip_one (e # es) s =
     (if e \<noteq> [] \<and> take (length e) s = e then Some (drop (length e) s) else strip_one es s)"

lemma strip_one_shorter: "strip_one es s = Some t \<Longrightarrow> length t < length s"
proof (induction es)
  case (Cons e es)
  show ?case
  proof (cases "e \<noteq> [] \<and> take (length e) s = e")
    case True
    then have "s \<noteq> []" by auto
    with True Cons.prems show ?thesis by auto
  next
    case False
    with Cons show ?thesis by (auto split: if_splits)
  qed
qed simp

function strip_all :: "string list \<Rightarrow> string \<Rightarrow> string" where
  "strip_all es s = (case strip_one es s of None \<Rightarrow> s | Some t \<Rightarrow> strip_all es t)"
  by pat_completeness auto
termination
  by (relation "measure (\<lambda>(es, s). length s)") (auto dest: strip_one_shorter)

declare strip_all.simps [simp del]

definition trim_start :: "string \<Rightarrow> string" where
  "trim_start s = strip_all white_space s"

definition trim_end :: "string \<Rightarrow> string" where
  "trim_end s = rev (strip_all (map rev white_space) (rev s))"

definition trim :: "string \<Rightarrow> string" where
  "trim s = trim_end (trim_start s)"

text \<open>A string is trimmed when no white space character starts or ends it.\<close>

definition trimmed :: "string \<Rightarrow> bool" where
  "trimmed s \<longleftrightarrow> strip_one white_space s = None \<and> strip_one (map rev white_space) (rev s) = None"

lemma take_length_prefix: "take (length e) s = e \<longleftrightarrow> prefix e s"
  by (metis append_eq_conv_conj prefix_def)

lemma strip_one_None: "strip_one es s = None \<longleftrightarrow> (\<forall>e \<in> set es. e \<noteq> [] \<longrightarrow> \<not> prefix e s)"
  by (induction es) (auto simp: take_length_prefix)

lemma strip_one_Some: "strip_one es s = Some t \<Longrightarrow> \<exists>e \<in> set es. e \<noteq> [] \<and> s = e @ t"
  by (induction es) (auto simp: take_length_prefix prefix_def split: if_splits)

lemma strip_all_stripped: "strip_one es (strip_all es s) = None"
proof (induction es s rule: strip_all.induct)
  case (1 es s)
  then show ?case by (cases "strip_one es s") (simp_all add: strip_all.simps [of es s])
qed

lemma strip_all_id: "strip_one es s = None \<Longrightarrow> strip_all es s = s"
  by (simp add: strip_all.simps [of es s])

lemma strip_all_suffix: "suffix (strip_all es s) s"
proof (induction es s rule: strip_all.induct)
  case (1 es s)
  show ?case
  proof (cases "strip_one es s")
    case (Some t)
    then have "suffix t s" by (auto dest: strip_one_Some simp: suffix_def)
    with 1 Some show ?thesis
      by (auto simp: strip_all.simps [of es s] intro: suffix_order.trans)
  qed (simp add: strip_all.simps [of es s])
qed

lemma trim_end_prefix: "prefix (trim_end s) s"
  using strip_all_suffix [of "map rev white_space" "rev s"]
  by (simp add: trim_end_def suffix_to_prefix)

lemma trimmed_trim: "trimmed (trim s)"
proof -
  have "strip_one white_space (trim_start s) = None"
    by (simp add: trim_start_def strip_all_stripped)
  moreover have "prefix (trim s) (trim_start s)"
    by (simp add: trim_def trim_end_prefix)
  ultimately have "strip_one white_space (trim s) = None"
    by (auto simp: strip_one_None dest: prefix_order.trans)
  then show ?thesis
    by (simp add: trimmed_def trim_def trim_end_def strip_all_stripped)
qed

lemma trim_trimmed: "trimmed s \<Longrightarrow> trim s = s"
  by (simp add: trimmed_def trim_def trim_start_def trim_end_def strip_all_id)

lemma trim_idem [simp]: "trim (trim s) = trim s"
  by (simp add: trim_trimmed trimmed_trim)

lemma white_space_not_alphabetic:
  "e \<in> set white_space \<Longrightarrow> c \<in> set e \<Longrightarrow> \<not> is_ascii_alphabetic c"
proof -
  have "list_all (list_all (\<lambda>c. \<not> is_ascii_alphabetic c)) white_space"
    by (simp add: white_space_def utf8_def char_simps)
  then show "e \<in> set white_space \<Longrightarrow> c \<in> set e \<Longrightarrow> \<not> is_ascii_alphabetic c"
    by (auto simp: list_all_iff)
qed

text \<open>Case conversion neither makes nor destroys white space.\<close>

lemma map_prefix_back:
  "prefix e (map f s) \<Longrightarrow> \<forall>c \<in> set e. \<forall>d. f d = c \<longrightarrow> d = c \<Longrightarrow> prefix e s"
proof (induction e arbitrary: s)
  case (Cons c e)
  from Cons.prems(1) obtain d t where s: "s = d # t" "f d = c" and t: "prefix e (map f t)"
    by (cases s) auto
  have "prefix e t" by (rule Cons.IH [OF t]) (use Cons.prems(2) in simp)
  moreover have "d = c" using Cons.prems(2) s(2) by force
  ultimately show ?case by (simp only: s(1) Cons_prefix_Cons simp_thms)
qed simp

lemma trimmed_map:
  assumes "trimmed s" and f: "\<And>c d. \<not> is_ascii_alphabetic c \<Longrightarrow> f d = c \<Longrightarrow> d = c"
  shows "trimmed (map f s)"
proof -
  have pre: "prefix e t"
    if "e \<in> set white_space \<or> e \<in> rev ` set white_space" and "prefix e (map f t)" for e t
  proof (rule map_prefix_back [OF that(2)])
    have "\<forall>c \<in> set e. \<not> is_ascii_alphabetic c"
      using that(1) white_space_not_alphabetic by auto
    then show "\<forall>c \<in> set e. \<forall>d. f d = c \<longrightarrow> d = c" using f by blast
  qed
  show ?thesis
    using assms(1) unfolding trimmed_def strip_one_None rev_map set_map by (meson pre image_eqI)
qed

lemma lower_char_back: "\<not> is_ascii_alphabetic c \<Longrightarrow> lower_char d = c \<Longrightarrow> d = c"
  by (auto simp: lower_char_def char_simps split: if_splits)

lemma upper_char_back: "\<not> is_ascii_alphabetic c \<Longrightarrow> upper_char d = c \<Longrightarrow> d = c"
  by (auto simp: upper_char_def char_simps split: if_splits)

lemma trimmed_to_lowercase: "trimmed s \<Longrightarrow> trimmed (to_lowercase s)"
  unfolding to_lowercase_def by (rule trimmed_map) (auto dest: lower_char_back)

lemma trimmed_to_uppercase: "trimmed s \<Longrightarrow> trimmed (to_uppercase s)"
  unfolding to_uppercase_def by (rule trimmed_map) (auto dest: upper_char_back)

end
