(* ===== verification/Text.thy ===== *)
theory Text
  imports Prelude
begin

text \<open>
  The string algorithms of the suite that more than one component uses: splitting, prefixes,
  decimal and hexadecimal rendering, the integer parser of the standard library, and the
  constant-time comparison that guards every long-lived token (the same function in
  \<open>apps/cloud-api/src/main.rs\<close> and \<open>apps/local-node/src/main.rs\<close>).
\<close>

unbundle bit_operations_syntax

section \<open>Splitting\<close>

text \<open>\<open>str::split(c)\<close>: always at least one piece. \<open>str::split_once(c)\<close>: around the first one.\<close>

fun split_on :: "char \<Rightarrow> string \<Rightarrow> string list" where
  "split_on c [] = [[]]"
| "split_on c (x # xs) =
     (if x = c then [] # split_on c xs
      else (case split_on c xs of [] \<Rightarrow> [[x]] | p # ps \<Rightarrow> (x # p) # ps))"

fun split_once :: "char \<Rightarrow> string \<Rightarrow> (string \<times> string) option" where
  "split_once c [] = None"
| "split_once c (x # xs) =
     (if x = c then Some ([], xs)
      else map_option (\<lambda>(a, b). (x # a, b)) (split_once c xs))"

definition strip_prefix :: "string \<Rightarrow> string \<Rightarrow> string option" where
  "strip_prefix p s = (if take (length p) s = p then Some (drop (length p) s) else None)"

definition starts_with :: "string \<Rightarrow> string \<Rightarrow> bool" where
  "starts_with s p \<longleftrightarrow> take (length p) s = p"

text \<open>\<open>str::trim_end_matches(c)\<close>.\<close>

definition trim_end_matches :: "char \<Rightarrow> string \<Rightarrow> string" where
  "trim_end_matches c s = rev (dropWhile (\<lambda>x. x = c) (rev s))"

definition join :: "string \<Rightarrow> string list \<Rightarrow> string" where
  "join sep ps = (case ps of [] \<Rightarrow> [] | q # qs \<Rightarrow> q @ concat (map ((@) sep) qs))"

lemma split_on_nonempty: "split_on c s \<noteq> []"
  by (induction c s rule: split_on.induct) (auto split: list.splits)

lemma join_split_on: "join [c] (split_on c s) = s"
proof (induction c s rule: split_on.induct)
  case (2 c x xs)
  then show ?case using split_on_nonempty [of c xs]
    by (cases "split_on c xs") (auto simp: join_def)
qed (simp add: join_def)

lemma split_on_no_sep: "p \<in> set (split_on c s) \<Longrightarrow> c \<notin> set p"
  by (induction c s arbitrary: p rule: split_on.induct) (auto split: list.splits if_splits)

lemma split_on_chars: "p \<in> set (split_on c s) \<Longrightarrow> set p \<subseteq> set s"
  by (induction c s arbitrary: p rule: split_on.induct)
    (auto split: list.splits if_splits, blast+)

lemma split_on_id: "c \<notin> set s \<Longrightarrow> split_on c s = [s]"
  by (induction c s rule: split_on.induct) auto

lemma split_on_append: "c \<notin> set p \<Longrightarrow> split_on c (p @ c # s) = p # split_on c s"
  by (induction p) auto

lemma map_split_on:
  "(\<And>x. f x = c \<longleftrightarrow> x = c) \<Longrightarrow> split_on c (map f s) = map (map f) (split_on c s)"
proof (induction s)
  case (Cons x xs)
  then show ?case using split_on_nonempty [of c xs] by (cases "split_on c xs") auto
qed simp

lemma split_once_Some: "split_once c s = Some (a, b) \<longleftrightarrow> s = a @ c # b \<and> c \<notin> set a"
proof (induction s arbitrary: a)
  case (Cons x xs)
  then show ?case by (cases a) auto
qed simp

lemma split_once_None: "split_once c s = None \<longleftrightarrow> c \<notin> set s"
  by (induction s) auto

lemma strip_prefix_Some: "strip_prefix p s = Some t \<longleftrightarrow> s = p @ t"
  by (auto simp: strip_prefix_def) (metis append_take_drop_id)

lemma starts_with_prefix: "starts_with s p \<longleftrightarrow> prefix p s"
  by (simp add: starts_with_def take_length_prefix)

section \<open>Decimal numbers\<close>

definition digit_char :: "nat \<Rightarrow> char" where
  "digit_char d = char_of (48 + d)"

fun show_nat :: "nat \<Rightarrow> string" where
  "show_nat n = (if n < 10 then [digit_char n] else show_nat (n div 10) @ [digit_char (n mod 10)])"

declare show_nat.simps [simp del]

definition show_int :: "int \<Rightarrow> string" where
  "show_int i = (if i < 0 then ''-'' @ show_nat (nat (- i)) else show_nat (nat i))"

fun parse_digits :: "nat \<Rightarrow> string \<Rightarrow> nat option" where
  "parse_digits acc [] = Some acc"
| "parse_digits acc (c # cs) =
     (if is_ascii_digit c then parse_digits (acc * 10 + (code c - 48)) cs else None)"

text \<open>\<open>str::parse::<i64>\<close>: an optional sign, at least one digit, and a value in range.\<close>

definition parse_i64 :: "string \<Rightarrow> int option" where
  "parse_i64 s =
     (let (neg, ds) = (case s of c # cs \<Rightarrow> if c = CHR ''-'' then (True, cs)
                                    else if c = CHR ''+'' then (False, cs) else (False, s)
                              | [] \<Rightarrow> (False, s))
      in if ds = [] then None
         else (case parse_digits 0 ds of None \<Rightarrow> None
               | Some n \<Rightarrow> (let i = (if neg then - int n else int n)
                           in if - (2 ^ 63) \<le> i \<and> i < 2 ^ 63 then Some i else None)))"

text \<open>\<open>str::parse\<close> for an unsigned type of the given largest value, with the text of its error;
  as in the standard library, each step multiplies before it looks at the digit and reports
  the overflow after it.\<close>

fun parse_unsigned_digits :: "nat \<Rightarrow> nat \<Rightarrow> string \<Rightarrow> string + nat" where
  "parse_unsigned_digits hi acc [] = Inr acc"
| "parse_unsigned_digits hi acc (c # cs) =
     (if \<not> is_ascii_digit c then Inl ''invalid digit found in string''
      else if hi < acc * 10 \<or> hi < acc * 10 + (code c - 48)
      then Inl ''number too large to fit in target type''
      else parse_unsigned_digits hi (acc * 10 + (code c - 48)) cs)"

definition parse_unsigned :: "nat \<Rightarrow> string \<Rightarrow> string + nat" where
  "parse_unsigned hi s =
     (if s = [] then Inl ''cannot parse integer from empty string''
      else if s = ''+'' \<or> s = ''-'' then Inl ''invalid digit found in string''
      else parse_unsigned_digits hi 0 (if hd s = CHR ''+'' then tl s else s))"

definition parse_bool :: "string \<Rightarrow> bool option" where
  "parse_bool s =
     (if s = ''true'' then Some True else if s = ''false'' then Some False else None)"

lemma parse_unsigned_digits_bound: "parse_unsigned_digits hi acc s = Inr n \<Longrightarrow> acc \<le> hi \<Longrightarrow> n \<le> hi"
  by (induction hi acc s rule: parse_unsigned_digits.induct) (auto split: if_splits)

lemma parse_unsigned_bound: "parse_unsigned hi s = Inr n \<Longrightarrow> n \<le> hi"
  by (auto simp: parse_unsigned_def split: if_splits dest: parse_unsigned_digits_bound)

lemma digit_char_digit: "d < 10 \<Longrightarrow> is_ascii_digit (digit_char d) \<and> code (digit_char d) = 48 + d"
  by (simp add: digit_char_def char_simps)

lemma parse_digits_append:
  "parse_digits acc (s @ t) = (case parse_digits acc s of None \<Rightarrow> None | Some n \<Rightarrow> parse_digits n t)"
  by (induction acc s rule: parse_digits.induct) auto

lemma parse_show_nat: "parse_digits 0 (show_nat n) = Some n"
proof (induction n rule: show_nat.induct)
  case (1 n)
  show ?case
  proof (cases "n < 10")
    case True
    then show ?thesis by (simp add: show_nat.simps [of n] digit_char_digit)
  next
    case False
    with 1 show ?thesis
      by (simp add: show_nat.simps [of n] parse_digits_append digit_char_digit)
  qed
qed

lemma show_nat_digits: "c \<in> set (show_nat n) \<Longrightarrow> is_ascii_digit c"
proof (induction n rule: show_nat.induct)
  case (1 n)
  then show ?case
    by (cases "n < 10") (auto simp: show_nat.simps [of n] digit_char_digit)
qed

lemma show_nat_nonempty: "show_nat n \<noteq> []"
  by (simp add: show_nat.simps [of n])

lemma parse_show_int:
  assumes "- (2 ^ 63) \<le> i" "i < 2 ^ 63"
  shows "parse_i64 (show_int i) = Some i"
proof -
  obtain c cs where n: "show_nat (nat i) = c # cs"
    using show_nat_nonempty [of "nat i"] by (cases "show_nat (nat i)") auto
  then have "is_ascii_digit c" using show_nat_digits [of c "nat i"] by simp
  then have "c \<noteq> CHR ''-''" "c \<noteq> CHR ''+''" by (auto simp: char_simps)
  with n assms show ?thesis
    using parse_show_nat [of "nat i"] parse_show_nat [of "nat (- i)"] show_nat_nonempty [of "nat (- i)"]
    by (auto simp: parse_i64_def show_int_def)
qed

section \<open>Hexadecimal\<close>

definition hex_digit :: "nat \<Rightarrow> char" where
  "hex_digit d = (if d < 10 then char_of (48 + d) else char_of (87 + d))"

text \<open>\<open>format!("{byte:02x}")\<close> for every byte.\<close>

definition hex_byte :: "char \<Rightarrow> string" where
  "hex_byte c = [hex_digit (code c div 16), hex_digit (code c mod 16)]"

definition hex_lower :: "string \<Rightarrow> string" where
  "hex_lower bs = concat (map hex_byte bs)"

lemma hex_digit_hexdigit: "d < 16 \<Longrightarrow> is_ascii_hexdigit (hex_digit d)"
  by (simp add: hex_digit_def char_simps)

lemma length_hex_lower: "length (hex_lower bs) = 2 * length bs"
  by (induction bs) (simp_all add: hex_lower_def hex_byte_def)

lemma hex_lower_hexdigits: "c \<in> set (hex_lower bs) \<Longrightarrow> is_ascii_hexdigit c"
  by (auto simp: hex_lower_def hex_byte_def less_mult_imp_div_less intro!: hex_digit_hexdigit)

lemma hex_digit_inject: "d < 16 \<Longrightarrow> e < 16 \<Longrightarrow> hex_digit d = hex_digit e \<longleftrightarrow> d = e"
  by (auto simp: hex_digit_def char_of_eq_iff take_bit_eq_mod split: if_splits)

lemma hex_byte_inject: "hex_byte c = hex_byte d \<longleftrightarrow> c = d"
proof
  assume "hex_byte c = hex_byte d"
  then have "code c div 16 = code d div 16" "code c mod 16 = code d mod 16"
    by (simp_all add: hex_byte_def hex_digit_inject less_mult_imp_div_less)
  then have "code c = code d" by (metis div_mult_mod_eq)
  then show "c = d" by (simp add: code_inject)
qed simp

lemma hex_lower_inject: "hex_lower bs = hex_lower cs \<Longrightarrow> bs = cs"
proof (induction bs arbitrary: cs)
  case Nil
  then show ?case by (cases cs) (simp_all add: hex_lower_def hex_byte_def)
next
  case (Cons b bs)
  then obtain c cs' where "cs = c # cs'"
    by (cases cs) (simp_all add: hex_lower_def hex_byte_def)
  with Cons show ?case
    by (auto simp: hex_lower_def hex_byte_inject [symmetric]) (simp_all add: hex_byte_def)
qed

section \<open>Constant-time comparison\<close>

definition byte_at :: "string \<Rightarrow> nat \<Rightarrow> nat" where
  "byte_at s i = (if i < length s then code (s ! i) else 0)"

text \<open>The loop folds the exclusive-or of every byte pair into \<open>diff\<close>, which starts as the
  exclusive-or of the lengths; it never leaves early.\<close>

definition constant_time_eq :: "string \<Rightarrow> string \<Rightarrow> bool" where
  "constant_time_eq left right =
     (foldl (\<lambda>diff i. diff OR (byte_at left i XOR byte_at right i))
        (length left XOR length right) [0..<max (length left) (length right)] = 0)"

lemma xor_nat_eq_0: "(m :: nat) XOR n = 0 \<longleftrightarrow> m = n"
  by (auto simp: bit_eq_iff bit_xor_iff)

lemma foldl_or_eq_0:
  "foldl (\<lambda>d i. d OR f i) (a :: nat) xs = 0 \<longleftrightarrow> a = 0 \<and> (\<forall>i \<in> set xs. f i = 0)"
  by (induction xs arbitrary: a) (auto simp: or_eq_0_iff)

lemma constant_time_eq_iff: "constant_time_eq left right \<longleftrightarrow> left = right"
proof
  assume "constant_time_eq left right"
  then have len: "length left = length right"
    and bytes: "\<forall>i < length left. byte_at left i = byte_at right i"
    by (auto simp: constant_time_eq_def foldl_or_eq_0 xor_nat_eq_0)
  then show "left = right"
    by (intro nth_equalityI) (auto simp: byte_at_def code_inject)
qed (unfold constant_time_eq_def foldl_or_eq_0, simp)

end
