(* ===== verification/Domain.thy ===== *)
theory Domain
  imports Text
begin

text \<open>
  The shared domain model, \<open>crates/domain/src/lib.rs\<close>: the identifiers, the parsed contact
  and identity strings (\<open>Email\<close>, \<open>PhoneNumber\<close>, \<open>NebulaId\<close>), the commercial records
  (\<open>User\<close>, \<open>Order\<close>, \<open>CardKey\<close>, \<open>Device\<close>, \<open>Entitlement\<close>, \<open>EntitlementLease\<close>), and the task
  model with its transition table. \<open>Uuid::new_v4\<close> and \<open>Utc::now\<close> are arguments; the name
  hashing of \<open>Uuid::new_v5\<close> and the rendering of a UUID belong to the \<open>uuid\<close> crate and are
  parameters of \<open>device_id_for\<close>.
\<close>

section \<open>Identifiers\<close>

datatype tenant_id = TenantId (tenant_uuid: uuid)
datatype user_id = UserId (user_uuid: uuid)
datatype order_id = OrderId (order_uuid: uuid)
datatype card_key_id = CardKeyId (card_key_uuid: uuid)
datatype device_id = DeviceId (device_uuid: uuid)
datatype entitlement_id = EntitlementId (entitlement_uuid: uuid)
datatype task_id = TaskId uuid
datatype approval_id = ApprovalId uuid
datatype audit_event_id = AuditEventId (audit_uuid: uuid)

text \<open>\<open>device_id_for\<close>: the UUIDv5 of \<open>"<user>:<fingerprint>"\<close> in a fixed namespace.\<close>

definition device_namespace :: uuid where
  "device_namespace = 0x6f7a6f6e36365f6465766963655f6964"

definition device_id_for ::
  "(uuid \<Rightarrow> string) \<Rightarrow> (uuid \<Rightarrow> string \<Rightarrow> uuid) \<Rightarrow> user_id \<Rightarrow> string \<Rightarrow> device_id" where
  "device_id_for show_uuid new_v5 user fingerprint =
     DeviceId (new_v5 device_namespace (show_uuid (user_uuid user) @ '':'' @ fingerprint))"

section \<open>Task states and operations\<close>

datatype task_source = LocalUi | OpenClaw | ChromeExtension | AdminSource

datatype operation_kind =
    OzonProductsCount | OzonProductsList | OzonProductsGet
  | OzonUpdatePriceMock | OzonUpdateInventoryMock | OzonJoinPromotionMock
  | DraftUploadMock | Import1688Mock

definition is_write :: "operation_kind \<Rightarrow> bool" where
  "is_write k \<longleftrightarrow> \<not> (k = OzonProductsCount \<or> k = OzonProductsList \<or> k = OzonProductsGet)"

datatype task_state =
    Draft | PendingApproval | Queued | Running | Succeeded | Failed | Cancelled

fun can_transition_to :: "task_state \<Rightarrow> task_state \<Rightarrow> bool" where
  "can_transition_to Draft PendingApproval = True"
| "can_transition_to Draft Queued = True"
| "can_transition_to PendingApproval Queued = True"
| "can_transition_to PendingApproval Cancelled = True"
| "can_transition_to Queued Running = True"
| "can_transition_to Queued Cancelled = True"
| "can_transition_to Running Succeeded = True"
| "can_transition_to Running Failed = True"
| "can_transition_to Running Cancelled = True"
| "can_transition_to _ _ = False"

datatype risk_level = LowRisk | MediumRisk | HighRisk | CriticalRisk

text \<open>\<open>RiskLevel\<close> derives \<open>Ord\<close>: declaration order.\<close>

fun risk_rank :: "risk_level \<Rightarrow> nat" where
  "risk_rank LowRisk = 0"
| "risk_rank MediumRisk = 1"
| "risk_rank HighRisk = 2"
| "risk_rank CriticalRisk = 3"

lemma risk_rank_inject: "risk_rank a = risk_rank b \<longleftrightarrow> a = b"
  by (cases a; cases b) simp_all

instantiation risk_level :: linorder
begin

definition less_eq_risk_level :: "risk_level \<Rightarrow> risk_level \<Rightarrow> bool" where
  "less_eq_risk_level a b \<longleftrightarrow> risk_rank a \<le> risk_rank b"

definition less_risk_level :: "risk_level \<Rightarrow> risk_level \<Rightarrow> bool" where
  "less_risk_level a b \<longleftrightarrow> risk_rank a < risk_rank b"

instance
  by standard (auto simp: less_eq_risk_level_def less_risk_level_def risk_rank_inject)

end

datatype domain_error =
    InvalidEmail | InvalidPhoneNumber | InvalidNebulaId
  | InvalidTaskTransition task_state task_state
  | WriteRequiresApproval

section \<open>Email, phone number and Nebula id\<close>

datatype email = Email (email_str: string)
datatype phone_number = PhoneNumber (phone_str: string)
datatype nebula_id = NebulaId (nebula_str: string)

definition email_parse :: "string \<Rightarrow> domain_error + email" where
  "email_parse raw =
     (let v = to_lowercase (trim raw) in
      if CHR '' '' \<in> set v then Inl InvalidEmail
      else case split_once (CHR ''@'') v of
             None \<Rightarrow> Inl InvalidEmail
           | Some (local, domain) \<Rightarrow>
               if local = [] \<or> CHR ''@'' \<in> set domain then Inl InvalidEmail
               else let labels = split_on (CHR ''.'') domain in
                    if length labels < 2 \<or> [] \<in> set labels then Inl InvalidEmail
                    else Inr (Email v))"

text \<open>The scan over \<open>raw.trim().chars().enumerate()\<close>. A character outside ASCII is refused
  at its first byte, and only position 0 is compared, so bytes and characters agree.\<close>

fun phone_scan :: "nat \<Rightarrow> string \<Rightarrow> domain_error + string" where
  "phone_scan i [] = Inr []"
| "phone_scan i (c # cs) =
     (if is_ascii_digit c \<or> (c = CHR ''+'' \<and> i = 0)
      then bind_res (phone_scan (Suc i) cs) (\<lambda>n. Inr (c # n))
      else if c = CHR '' '' \<or> c = CHR ''-'' \<or> c = CHR ''('' \<or> c = CHR '')''
      then phone_scan (Suc i) cs
      else Inl InvalidPhoneNumber)"

definition phone_parse :: "string \<Rightarrow> domain_error + phone_number" where
  "phone_parse raw =
     bind_res (phone_scan 0 (trim raw)) (\<lambda>normalized.
       let digit_count = length (filter is_ascii_digit normalized) in
       if \<not> (6 \<le> digit_count \<and> digit_count \<le> 15) \<or> normalized = ''+''
       then Inl InvalidPhoneNumber
       else if CHR ''+'' \<in> set normalized \<and> \<not> starts_with normalized ''+''
       then Inl InvalidPhoneNumber
       else Inr (PhoneNumber normalized))"

definition nebula_parse :: "string \<Rightarrow> domain_error + nebula_id" where
  "nebula_parse raw =
     (let v = to_uppercase (trim raw); parts = split_on (CHR ''-'') v in
      if length parts \<noteq> 3
         \<or> parts ! 0 \<noteq> ''NEBULA''
         \<or> length (parts ! 1) \<noteq> 4
         \<or> \<not> list_all is_ascii_digit (parts ! 1)
         \<or> \<not> (8 \<le> length (parts ! 2) \<and> length (parts ! 2) \<le> 40)
         \<or> \<not> list_all is_ascii_alphanumeric (parts ! 2)
      then Inl InvalidNebulaId
      else Inr (NebulaId v))"

section \<open>Commercial records\<close>

datatype nebula_source = Skybridge | LocalDev
datatype user_role = UserRole | AdminRole

record user =
  usr_id :: user_id
  usr_tenant_id :: tenant_id
  usr_nebula_id :: nebula_id
  usr_nebula_source :: nebula_source
  usr_skybridge_user_id :: "uuid option"
  usr_email :: "email option"
  usr_phone :: "phone_number option"
  usr_name :: "string option"
  usr_password_hash :: string
  usr_role :: user_role
  usr_email_verified_at :: "instant option"
  usr_phone_verified_at :: "instant option"
  usr_created_at :: instant

datatype plan_code = PlanCode (plan_str: string)

definition standard_30d :: plan_code where
  "standard_30d = PlanCode ''standard_30d''"

datatype order_status =
  PendingManualPayment | PendingProviderPayment | OrderConfirmed | OrderCancelled

datatype payment_provider = Manual | Stripe | Alipay | WechatPay

record order =
  ord_id :: order_id
  ord_tenant_id :: tenant_id
  ord_user_id :: user_id
  ord_plan_code :: plan_code
  ord_status :: order_status
  ord_payment_provider :: payment_provider
  ord_payment_reference :: string
  ord_amount_minor :: int
  ord_currency :: string
  ord_checkout_session_id :: "string option"
  ord_payment_intent_id :: "string option"
  ord_paid_at :: "instant option"
  ord_created_at :: instant
  ord_confirmed_at :: "instant option"

datatype card_key_status = CardAvailable | CardRedeemed | CardRevoked

record card_key =
  ck_id :: card_key_id
  ck_tenant_id :: tenant_id
  ck_plan_code :: plan_code
  ck_code_hash :: string
  ck_code_fingerprint :: string
  ck_duration_days :: u16
  ck_max_devices :: u8
  ck_status :: card_key_status
  ck_redeemed_by :: "user_id option"
  ck_redeemed_at :: "instant option"
  ck_created_at :: instant

datatype device_status = DeviceActive | DeviceRevoked

record device =
  dev_id :: device_id
  dev_tenant_id :: tenant_id
  dev_user_id :: user_id
  dev_name :: string
  dev_fingerprint_hash :: string
  dev_status :: device_status
  dev_activated_at :: instant
  dev_last_seen_at :: "instant option"

datatype feature =
  OzonRead | OzonWriteMock | DraftImport1688Mock | OpenClawBridge | LocalApproval

record entitlement =
  ent_id :: entitlement_id
  ent_tenant_id :: tenant_id
  ent_user_id :: user_id
  ent_plan_code :: plan_code
  ent_source_card_key_id :: card_key_id
  ent_features :: "feature list"
  ent_expires_at :: instant
  ent_revoked_at :: "instant option"

record lease_signature =
  sig_alg :: string
  sig_kid :: string
  sig_issuer :: string
  sig_audience :: string
  sig_value :: string

record lease_claims =
  lc_lease_id :: uuid
  lc_tenant_id :: tenant_id
  lc_user_id :: user_id
  lc_device_id :: device_id
  lc_entitlement_id :: entitlement_id
  lc_features :: "feature list"
  lc_issued_at :: instant
  lc_expires_at :: instant

record entitlement_lease =
  lease_id :: uuid
  lease_tenant_id :: tenant_id
  lease_user_id :: user_id
  lease_device_id :: device_id
  lease_entitlement_id :: entitlement_id
  lease_features :: "feature list"
  lease_issued_at :: instant
  lease_expires_at :: instant
  lease_signature :: "lease_signature option"

text \<open>\<open>EntitlementLease::new\<close>, which reads the clock and draws the lease id.\<close>

definition lease_new ::
  "uuid \<Rightarrow> instant \<Rightarrow> tenant_id \<Rightarrow> user_id \<Rightarrow> device_id \<Rightarrow> entitlement \<Rightarrow> entitlement_lease" where
  "lease_new fresh now tenant user device e =
     (let issued_at = now; requested_expiry = issued_at + hours 24 in
      \<lparr> lease_id = fresh, lease_tenant_id = tenant, lease_user_id = user,
        lease_device_id = device, lease_entitlement_id = ent_id e,
        lease_features = ent_features e, lease_issued_at = issued_at,
        lease_expires_at = min requested_expiry (ent_expires_at e),
        lease_signature = None \<rparr>)"

definition lease_claims_of :: "entitlement_lease \<Rightarrow> lease_claims" where
  "lease_claims_of l =
     \<lparr> lc_lease_id = lease_id l, lc_tenant_id = lease_tenant_id l,
       lc_user_id = lease_user_id l, lc_device_id = lease_device_id l,
       lc_entitlement_id = lease_entitlement_id l, lc_features = lease_features l,
       lc_issued_at = lease_issued_at l, lc_expires_at = lease_expires_at l \<rparr>"

section \<open>Tasks\<close>

record field_change =
  fc_object_id :: string
  fc_field :: string
  fc_before :: "string option"
  fc_after :: "string option"

record dry_run_diff =
  dr_summary :: string
  dr_target_count :: u32
  dr_changes :: "field_change list"
  dr_warnings :: "string list"

record approval_record =
  apr_id :: approval_id
  apr_approved_by :: string
  apr_approved_at :: instant
  apr_note :: "string option"

record execution_receipt =
  rcp_external_request_id :: "string option"
  rcp_executed_at :: instant
  rcp_result_summary :: string

record task =
  tsk_id :: task_id
  tsk_tenant_id :: tenant_id
  tsk_shop_id :: string
  tsk_source :: task_source
  tsk_operation :: operation_kind
  tsk_state :: task_state
  tsk_dry_run :: dry_run_diff
  tsk_risk :: risk_level
  tsk_idempotency_key :: string
  tsk_approval :: "approval_record option"
  tsk_receipt :: "execution_receipt option"
  tsk_created_at :: instant
  tsk_updated_at :: instant

record audit_event =
  aud_id :: audit_event_id
  aud_tenant_id :: "tenant_id option"
  aud_actor :: string
  aud_action :: string
  aud_target :: string
  aud_summary :: string
  aud_created_at :: instant

section \<open>Parsed strings are canonical\<close>

text \<open>The only constructor the crate exports for each string type is its \<open>parse\<close>; a value is
  canonical when parsing its text gives it back, which is what the database layer relies on
  when it parses a stored column again.\<close>

definition email_ok :: "email \<Rightarrow> bool" where
  "email_ok e \<longleftrightarrow> email_parse (email_str e) = Inr e"

definition phone_ok :: "phone_number \<Rightarrow> bool" where
  "phone_ok p \<longleftrightarrow> phone_parse (phone_str p) = Inr p"

definition nebula_ok :: "nebula_id \<Rightarrow> bool" where
  "nebula_ok n \<longleftrightarrow> nebula_parse (nebula_str n) = Inr n"

lemma trimmed_graphic:
  assumes "\<And>c. c \<in> set s \<Longrightarrow> 33 \<le> code c \<and> code c \<le> 126"
  shows "trimmed s"
proof -
  have "list_all (list_all (\<lambda>c. \<not> (33 \<le> code c \<and> code c \<le> 126))) white_space"
    by (simp add: white_space_def utf8_def)
  then have ws: "c \<in> set e \<Longrightarrow> \<not> (33 \<le> code c \<and> code c \<le> 126)" if "e \<in> set white_space" for e c
    using that by (auto simp: list_all_iff)
  have no: "\<not> prefix e t" if "e \<in> set white_space \<or> e \<in> rev ` set white_space" "e \<noteq> []" "set t = set s" for e t
  proof
    assume "prefix e t"
    then have "set e \<subseteq> set s" using set_mono_prefix that(3) by metis
    then have "hd e \<in> set s" using hd_in_set [OF that(2)] by (rule subsetD)
    moreover have "\<not> (33 \<le> code (hd e) \<and> code (hd e) \<le> 126)"
      using that(1,2) by (metis hd_in_set imageE set_rev ws)
    ultimately show False using assms by blast
  qed
  show ?thesis unfolding trimmed_def strip_one_None set_map
    by (intro conjI ballI impI no) auto
qed

lemma digit_graphic: "is_ascii_digit c \<Longrightarrow> 33 \<le> code c \<and> code c \<le> 126"
  by (simp add: char_simps)

lemma alphanumeric_graphic: "is_ascii_alphanumeric c \<Longrightarrow> 33 \<le> code c \<and> code c \<le> 126"
  by (auto simp: char_simps)

text \<open>The shape every parsed email has: no space, exactly one \<open>@\<close> with something before it,
  and a domain of at least two non-empty labels.\<close>

definition email_shape :: "string \<Rightarrow> bool" where
  "email_shape v \<longleftrightarrow> CHR '' '' \<notin> set v \<and>
     (\<exists>local domain. v = local @ CHR ''@'' # domain \<and> local \<noteq> [] \<and>
        CHR ''@'' \<notin> set local \<and> CHR ''@'' \<notin> set domain \<and>
        2 \<le> length (split_on (CHR ''.'') domain) \<and> [] \<notin> set (split_on (CHR ''.'') domain))"

lemma email_parse_Inr:
  "email_parse raw = Inr e \<longleftrightarrow> e = Email (to_lowercase (trim raw)) \<and> email_shape (email_str e)"
proof (cases "split_once (CHR ''@'') (to_lowercase (trim raw))")
  case None
  then have "CHR ''@'' \<notin> set (to_lowercase (trim raw))" by (rule iffD1 [OF split_once_None])
  moreover have "email_parse raw = Inl InvalidEmail" by (simp add: email_parse_def Let_def None)
  ultimately show ?thesis by (auto simp: email_shape_def)
next
  case (Some p)
  obtain l d where p: "p = (l, d)" by (cases p)
  with Some have v: "to_lowercase (trim raw) = l @ CHR ''@'' # d" "CHR ''@'' \<notin> set l"
    by (simp_all add: split_once_Some)
  have uniq: "l @ CHR ''@'' # d = l' @ CHR ''@'' # d' \<longleftrightarrow> l' = l \<and> d' = d"
    if "CHR ''@'' \<notin> set l'" for l' d'
    using that v(2) by (metis option.inject prod.inject split_once_Some)
  have "email_shape (l @ CHR ''@'' # d) \<longleftrightarrow> CHR '' '' \<notin> set (l @ CHR ''@'' # d) \<and> l \<noteq> [] \<and>
      CHR ''@'' \<notin> set d \<and> 2 \<le> length (split_on (CHR ''.'') d) \<and> [] \<notin> set (split_on (CHR ''.'') d)"
    unfolding email_shape_def using v(2) uniq by blast
  with Some p v show ?thesis by (auto simp: email_parse_def Let_def)
qed

lemma email_parse_ok: "email_parse raw = Inr e \<Longrightarrow> email_ok e"
  by (auto simp: email_ok_def email_parse_Inr trim_trimmed trimmed_to_lowercase trimmed_trim)

lemma phone_scan_digits: "list_all is_ascii_digit n \<Longrightarrow> phone_scan i n = Inr n"
  by (induction n arbitrary: i) auto

lemma phone_scan_later: "phone_scan (Suc i) s = Inr n \<Longrightarrow> list_all is_ascii_digit n"
  by (induction s arbitrary: i n) (auto simp: res_simps split: if_splits)

lemma phone_scan_shape:
  "phone_scan 0 s = Inr n \<Longrightarrow> \<exists>ds. list_all is_ascii_digit ds \<and> (n = ds \<or> n = CHR ''+'' # ds)"
proof (cases s)
  case (Cons c cs)
  moreover assume "phone_scan 0 s = Inr n"
  ultimately consider m where "phone_scan (Suc 0) cs = Inr m" "n = c # m"
      "is_ascii_digit c \<or> c = CHR ''+''"
    | "phone_scan (Suc 0) cs = Inr n"
    by (auto simp: res_simps split: if_splits)
  then show ?thesis
  proof cases
    case (1 m)
    then have "list_all is_ascii_digit m" by (simp add: phone_scan_later)
    with 1 show ?thesis by (cases "is_ascii_digit c") (auto intro: exI [of _ "c # m"])
  qed (auto dest: phone_scan_later)
qed simp

lemma phone_parse_shape:
  assumes "phone_parse raw = Inr p"
  obtains ds where "list_all is_ascii_digit ds" "6 \<le> length ds" "length ds \<le> 15"
    "phone_str p = ds \<or> phone_str p = CHR ''+'' # ds"
proof -
  obtain n where n: "phone_scan 0 (trim raw) = Inr n" "p = PhoneNumber n"
    "6 \<le> length (filter is_ascii_digit n)" "length (filter is_ascii_digit n) \<le> 15"
    using assms by (auto simp: phone_parse_def res_simps Let_def split: if_splits)
  obtain ds where ds: "list_all is_ascii_digit ds" "n = ds \<or> n = CHR ''+'' # ds"
    using phone_scan_shape [OF n(1)] by blast
  then have "filter is_ascii_digit n = ds"
    by (auto simp: list_all_iff char_simps filter_id_conv)
  with n ds that show ?thesis by auto
qed

lemma phone_parse_ok:
  assumes "phone_parse raw = Inr p"
  shows "phone_ok p"
proof -
  obtain ds where ds: "list_all is_ascii_digit ds" "6 \<le> length ds" "length ds \<le> 15"
    and p: "phone_str p = ds \<or> phone_str p = CHR ''+'' # ds"
    using assms by (rule phone_parse_shape)
  have flt: "filter is_ascii_digit ds = ds" "CHR ''+'' \<notin> set ds"
    using ds(1) by (auto simp: list_all_iff filter_id_conv char_simps)
  have "c \<in> set (phone_str p) \<Longrightarrow> 33 \<le> code c \<and> code c \<le> 126" for c
    using p ds(1) digit_graphic by (auto simp: list_all_iff)
  then have t: "trim (phone_str p) = phone_str p" by (simp add: trim_trimmed trimmed_graphic)
  have scan: "phone_scan 0 (phone_str p) = Inr (phone_str p)"
    using p ds(1) by (auto simp: phone_scan_digits)
  have "\<not> is_ascii_digit (CHR ''+'')" by (simp add: char_simps)
  with p flt ds t scan show ?thesis
    by (cases p) (auto simp: phone_ok_def phone_parse_def Let_def starts_with_def)
qed

definition nebula_shape :: "string \<Rightarrow> bool" where
  "nebula_shape v \<longleftrightarrow>
     (\<exists>year rest. split_on (CHR ''-'') v = [''NEBULA'', year, rest] \<and>
        length year = 4 \<and> list_all is_ascii_digit year \<and>
        8 \<le> length rest \<and> length rest \<le> 40 \<and> list_all is_ascii_alphanumeric rest)"

lemma nebula_parse_Inr:
  "nebula_parse raw = Inr n \<longleftrightarrow> n = NebulaId (to_uppercase (trim raw)) \<and> nebula_shape (nebula_str n)"
proof -
  have three: "length ps = 3 \<longleftrightarrow> (\<exists>a b c. ps = [a, b, c])" for ps :: "string list"
    by (auto simp: numeral_3_eq_3 length_Suc_conv)
  show ?thesis
    by (auto simp: nebula_parse_def nebula_shape_def Let_def three split: if_splits)
qed

lemma nebula_parse_ok: "nebula_parse raw = Inr n \<Longrightarrow> nebula_ok n"
  by (auto simp: nebula_ok_def nebula_parse_Inr trim_trimmed trimmed_to_uppercase trimmed_trim)

section \<open>Task transitions\<close>

text \<open>A rank that every transition raises: a task changes state at most four times.\<close>

fun state_rank :: "task_state \<Rightarrow> nat" where
  "state_rank Draft = 0"
| "state_rank PendingApproval = 1"
| "state_rank Queued = 2"
| "state_rank Running = 3"
| "state_rank Succeeded = 4"
| "state_rank Failed = 4"
| "state_rank Cancelled = 4"

lemma transition_raises_rank: "can_transition_to s t \<Longrightarrow> state_rank s < state_rank t"
  by (cases s; cases t) simp_all

section \<open>Leases\<close>

lemma lease_new_bounds:
  "lease_expires_at (lease_new fresh now t u d e) \<le> ent_expires_at e"
  "lease_expires_at (lease_new fresh now t u d e) \<le> now + hours 24"
  by (simp_all add: lease_new_def Let_def)

lemma lease_new_fields [simp]:
  "lease_user_id (lease_new fresh now t u d e) = u"
  "lease_device_id (lease_new fresh now t u d e) = d"
  "lease_tenant_id (lease_new fresh now t u d e) = t"
  "lease_entitlement_id (lease_new fresh now t u d e) = ent_id e"
  "lease_features (lease_new fresh now t u d e) = ent_features e"
  "lease_issued_at (lease_new fresh now t u d e) = now"
  by (simp_all add: lease_new_def Let_def)

end
