(* ===== verification/Effect.thy ===== *)
theory Effect
  imports Prelude
begin

text \<open>
  Stateful operations that can fail: a function from the state to a result and the next
  state. The combinators are the Rust control flow of the handlers: \<open>andthen m f\<close> is
  \<open>let x = m?; f(x)\<close>, \<open>throw\<close> is \<open>return Err(e)\<close>, \<open>lift\<close> injects a pure \<open>Result\<close>, and
  \<open>map_error\<close> is \<open>.map_err(f)\<close>.

  The locale \<open>step_relation\<close> is the interface between the storage operations of a component
  and the handlers that use them: a reflexive and transitive relation between the states
  before and after. What every storage operation keeps, every composition of them keeps.
\<close>

type_synonym ('s, 'e, 'a) act = "'s \<Rightarrow> ('e + 'a) \<times> 's"

definition ret :: "'a \<Rightarrow> ('s, 'e, 'a) act" where
  "ret a s = (Inr a, s)"

definition throw :: "'e \<Rightarrow> ('s, 'e, 'a) act" where
  "throw e s = (Inl e, s)"

definition lift :: "'e + 'a \<Rightarrow> ('s, 'e, 'a) act" where
  "lift r s = (r, s)"

definition andthen :: "('s, 'e, 'a) act \<Rightarrow> ('a \<Rightarrow> ('s, 'e, 'b) act) \<Rightarrow> ('s, 'e, 'b) act" where
  "andthen m f s = (case m s of (Inl e, t) \<Rightarrow> (Inl e, t) | (Inr a, t) \<Rightarrow> f a t)"

definition map_error :: "('e \<Rightarrow> 'f) \<Rightarrow> ('s, 'e, 'a) act \<Rightarrow> ('s, 'f, 'a) act" where
  "map_error f m s = (case m s of (r, t) \<Rightarrow> (map_err f r, t))"

text \<open>\<open>match m { Ok(a) => f(a), Err(e) => h(e) }\<close>.\<close>

definition match_res ::
  "('s, 'e, 'a) act \<Rightarrow> ('a \<Rightarrow> ('s, 'f, 'b) act) \<Rightarrow> ('e \<Rightarrow> ('s, 'f, 'b) act) \<Rightarrow> ('s, 'f, 'b) act" where
  "match_res m f h s = (case m s of (Inl e, t) \<Rightarrow> h e t | (Inr a, t) \<Rightarrow> f a t)"

definition gets :: "('s \<Rightarrow> 'a) \<Rightarrow> ('s, 'e, 'a) act" where
  "gets f s = (Inr (f s), s)"

definition modify :: "('s \<Rightarrow> 's) \<Rightarrow> ('s, 'e, unit) act" where
  "modify f s = (Inr (), f s)"

text \<open>The \<open>for _ in 0..n\<close> loop that collects a value in each round.\<close>

fun repeat_act :: "nat \<Rightarrow> ('s, 'e, 'a) act \<Rightarrow> ('s, 'e, 'a list) act" where
  "repeat_act 0 m = ret []"
| "repeat_act (Suc n) m = andthen m (\<lambda>x. andthen (repeat_act n m) (\<lambda>xs. ret (x # xs)))"

named_theorems act_simps "evaluation of operations"

lemma act_run [act_simps]:
  "ret a s = (Inr a, s)" "throw e s = (Inl e, s)" "lift r s = (r, s)"
  "gets f s = (Inr (f s), s)" "modify g s = (Inr (), g s)"
  by (simp_all add: ret_def throw_def lift_def gets_def modify_def)

lemma andthen_run [act_simps]:
  "andthen m f s = (case fst (m s) of Inl e \<Rightarrow> (Inl e, snd (m s)) | Inr a \<Rightarrow> f a (snd (m s)))"
  by (simp add: andthen_def split: prod.split sum.split)

lemma andthen_Inr:
  "andthen m f s = (Inr b, u) \<longleftrightarrow> (\<exists>a t. m s = (Inr a, t) \<and> f a t = (Inr b, u))"
  by (auto simp: andthen_def split: prod.splits sum.splits)

lemma andthen_ok: "m s = (Inr a, t) \<Longrightarrow> andthen m f s = f a t"
  by (simp add: andthen_def)

lemma andthen_err: "m s = (Inl e, t) \<Longrightarrow> andthen m f s = (Inl e, t)"
  by (simp add: andthen_def)

lemma ret_Inr: "ret a s = (Inr b, u) \<longleftrightarrow> b = a \<and> u = s"
  by (auto simp: ret_def)

lemma throw_Inr: "throw e s = (Inr b, u) \<longleftrightarrow> False"
  by (simp add: throw_def)

lemma lift_Inr: "lift r s = (Inr b, u) \<longleftrightarrow> r = Inr b \<and> u = s"
  by (auto simp: lift_def)

lemma gets_Inr: "gets f s = (Inr b, u) \<longleftrightarrow> b = f s \<and> u = s"
  by (auto simp: gets_def)

lemma modify_Inr: "modify g s = (Inr b, u) \<longleftrightarrow> u = g s"
  by (auto simp: modify_def)

lemma map_error_Inr: "map_error f m s = (Inr b, u) \<longleftrightarrow> m s = (Inr b, u)"
  by (auto simp: map_error_def res_simps split: prod.splits)

lemma snd_map_error [simp]: "snd (map_error f m s) = snd (m s)"
  by (simp add: map_error_def split: prod.split)

lemma fst_map_error [simp]: "fst (map_error f m s) = map_err f (fst (m s))"
  by (simp add: map_error_def split: prod.split)

text \<open>Inversion of a successful run: each step of it succeeded.\<close>

lemmas run_inv = andthen_Inr ret_Inr throw_Inr lift_Inr gets_Inr modify_Inr map_error_Inr

section \<open>Relations that every step keeps\<close>

definition keeps :: "('s \<Rightarrow> 's \<Rightarrow> bool) \<Rightarrow> ('s, 'e, 'a) act \<Rightarrow> bool" where
  "keeps R m \<longleftrightarrow> (\<forall>s. R s (snd (m s)))"

named_theorems keeps_intros "operations that keep a relation"

locale step_relation =
  fixes R :: "'s \<Rightarrow> 's \<Rightarrow> bool"
  assumes R_refl: "R s s"
    and R_trans: "R s t \<Longrightarrow> R t u \<Longrightarrow> R s u"
begin

lemma keeps_pure [keeps_intros]:
  "keeps R (ret a)" "keeps R (throw e)" "keeps R (lift r)" "keeps R (gets f)"
  by (simp_all add: keeps_def act_simps R_refl)

lemma keeps_modify: "(\<And>s. R s (f s)) \<Longrightarrow> keeps R (modify f)"
  by (simp add: keeps_def act_simps)

lemma keeps_andthen [keeps_intros]:
  assumes "keeps R m" and "\<And>a. keeps R (f a)"
  shows "keeps R (andthen m f)"
proof -
  have "R s (snd (andthen m f s))" for s
    using assms by (auto simp: keeps_def andthen_run split: sum.split intro: R_trans)
  then show ?thesis by (simp add: keeps_def)
qed

lemma keeps_andthen_lift: "(\<And>a. r = Inr a \<Longrightarrow> keeps R (f a)) \<Longrightarrow> keeps R (andthen (lift r) f)"
  by (cases r) (simp_all add: keeps_def act_simps R_refl)

lemma keeps_map_error [keeps_intros]: "keeps R m \<Longrightarrow> keeps R (map_error f m)"
  by (simp add: keeps_def)

lemma keeps_match_res [keeps_intros]:
  assumes "keeps R m" and "\<And>a. keeps R (f a)" and "\<And>e. keeps R (h e)"
  shows "keeps R (match_res m f h)"
proof -
  have "R s (snd (match_res m f h s))" for s
    using assms by (auto simp: keeps_def match_res_def split: prod.split sum.split intro: R_trans)
  then show ?thesis by (simp add: keeps_def)
qed

lemma keeps_repeat [keeps_intros]: "keeps R m \<Longrightarrow> keeps R (repeat_act n m)"
  by (induction n) (simp_all add: keeps_intros)

lemma keeps_if [keeps_intros]: "keeps R m \<Longrightarrow> keeps R n \<Longrightarrow> keeps R (if b then m else n)"
  by simp

lemma keeps_case_option [keeps_intros]:
  "keeps R m \<Longrightarrow> (\<And>a. keeps R (f a)) \<Longrightarrow> keeps R (case x of None \<Rightarrow> m | Some a \<Rightarrow> f a)"
  by (cases x) simp_all

end

end
