(* ===== verification/Ambient.thy ===== *)
theory Ambient
  imports Effect
begin

text \<open>
  What every component draws from its surroundings: the readings of \<open>Utc::now\<close>, the values of
  \<open>Uuid::new_v4\<close>, the characters of the \<open>Alphanumeric\<close> sampler and the blocks of the
  operating system's generator, each as a fixed stream with the number of values drawn so far.
  A component's state extends this record, so that two reads of the clock in one handler are
  two readings, as in the code. Nothing is assumed of the streams here.
\<close>

record ambient =
  src_clock :: "nat \<Rightarrow> instant"
  clock_n :: nat
  src_uuid :: "nat \<Rightarrow> uuid"
  uuid_n :: nat
  src_alnum :: "nat \<Rightarrow> char"
  alnum_n :: nat
  src_os :: "nat \<Rightarrow> string"
  os_n :: nat

definition utc_now :: "('z ambient_scheme, 'e, instant) act" where
  "utc_now s = (Inr (src_clock s (clock_n s)), s\<lparr>clock_n := Suc (clock_n s)\<rparr>)"

definition new_v4 :: "('z ambient_scheme, 'e, uuid) act" where
  "new_v4 s = (Inr (src_uuid s (uuid_n s)), s\<lparr>uuid_n := Suc (uuid_n s)\<rparr>)"

definition os_random :: "('z ambient_scheme, 'e, string) act" where
  "os_random s = (Inr (src_os s (os_n s)), s\<lparr>os_n := Suc (os_n s)\<rparr>)"

text \<open>\<open>rand::rng().sample_iter(&Alphanumeric).take(n)\<close>.\<close>

definition sample_alnum :: "nat \<Rightarrow> ('z ambient_scheme, 'e, string) act" where
  "sample_alnum n s =
     (Inr (map (src_alnum s) [alnum_n s..<alnum_n s + n]), s\<lparr>alnum_n := alnum_n s + n\<rparr>)"

lemma ambient_run [act_simps]:
  "utc_now s = (Inr (src_clock s (clock_n s)), s\<lparr>clock_n := Suc (clock_n s)\<rparr>)"
  "new_v4 s = (Inr (src_uuid s (uuid_n s)), s\<lparr>uuid_n := Suc (uuid_n s)\<rparr>)"
  "os_random s = (Inr (src_os s (os_n s)), s\<lparr>os_n := Suc (os_n s)\<rparr>)"
  "sample_alnum n s =
     (Inr (map (src_alnum s) [alnum_n s..<alnum_n s + n]), s\<lparr>alnum_n := alnum_n s + n\<rparr>)"
  by (simp_all add: utc_now_def new_v4_def os_random_def sample_alnum_def)

lemma utc_now_Inr: "utc_now s = (Inr t, u) \<longleftrightarrow>
    t = src_clock s (clock_n s) \<and> u = s\<lparr>clock_n := Suc (clock_n s)\<rparr>"
  by (auto simp: utc_now_def)

lemma new_v4_Inr: "new_v4 s = (Inr t, u) \<longleftrightarrow>
    t = src_uuid s (uuid_n s) \<and> u = s\<lparr>uuid_n := Suc (uuid_n s)\<rparr>"
  by (auto simp: new_v4_def)

lemma os_random_Inr: "os_random s = (Inr t, u) \<longleftrightarrow>
    t = src_os s (os_n s) \<and> u = s\<lparr>os_n := Suc (os_n s)\<rparr>"
  by (auto simp: os_random_def)

lemma sample_alnum_Inr: "sample_alnum n s = (Inr t, u) \<longleftrightarrow>
    t = map (src_alnum s) [alnum_n s..<alnum_n s + n] \<and> u = s\<lparr>alnum_n := alnum_n s + n\<rparr>"
  by (auto simp: sample_alnum_def)

lemmas ambient_inv = utc_now_Inr new_v4_Inr os_random_Inr sample_alnum_Inr

text \<open>A concrete source, for evaluating the operations on concrete inputs.\<close>

definition sample_ambient :: ambient where
  "sample_ambient =
     \<lparr> src_clock = (\<lambda>n. 1700000000000000 + int n), clock_n = 0,
       src_uuid = (\<lambda>n. word_of_nat (n + 1)), uuid_n = 0,
       src_alnum = (\<lambda>n. CHR ''A''), alnum_n = 0,
       src_os = (\<lambda>n. ''r''), os_n = 0 \<rparr>"

end
