(* ===== verification/TaskEngine.thy ===== *)
theory TaskEngine
  imports Domain Ambient "HOL-Library.AList"
begin

text \<open>
  The task engine, \<open>crates/task-engine/src/lib.rs\<close>: the in-memory \<open>TaskStore\<close> with its task
  table, its idempotency index, its audit log and the events it has broadcast. The two hash
  maps are association lists updated by key. Each method takes the store's write lock for
  all of its effects on the tables, so a method is one step.
\<close>

section \<open>State\<close>

datatype task_event = Changed task

record task_store = ambient +
  ts_inner :: "(task_id \<times> task) list"
  ts_by_idempotency :: "((tenant_id \<times> string) \<times> task_id) list"
  ts_audit :: "audit_event list"
  ts_events :: "task_event list"

datatype task_engine_error =
    TaskNotFound
  | ApprovalNotRequired
  | DomainFailure domain_error

type_synonym 'a engine = "(task_store, task_engine_error, 'a) act"

record create_task =
  ct_tenant_id :: tenant_id
  ct_shop_id :: string
  ct_source :: task_source
  ct_operation :: operation_kind
  ct_dry_run :: dry_run_diff
  ct_risk :: risk_level
  ct_idempotency_key :: string

text \<open>\<open>TaskStore::new\<close>, over a given ambient source.\<close>

definition store_new :: "ambient \<Rightarrow> task_store" where
  "store_new a = ambient.extend a
     \<lparr> ts_inner = [], ts_by_idempotency = [], ts_audit = [], ts_events = [] \<rparr>"

section \<open>Operations\<close>

definition is_terminal :: "task_state \<Rightarrow> bool" where
  "is_terminal s \<longleftrightarrow> s = Succeeded \<or> s = Failed \<or> s = Cancelled"

lemma terminal_no_transition: "is_terminal s \<longleftrightarrow> (\<forall>t. \<not> can_transition_to s t)"
proof -
  have "can_transition_to Draft Queued" "can_transition_to PendingApproval Queued"
    "can_transition_to Queued Running" "can_transition_to Running Failed" by simp_all
  moreover have "is_terminal s \<Longrightarrow> \<not> can_transition_to s t" for t
    by (cases s; cases t) (simp_all add: is_terminal_def)
  ultimately show ?thesis by (cases s) (simp_all only: is_terminal_def, blast+)
qed

definition debug_operation :: "operation_kind \<Rightarrow> string" where
  "debug_operation k = (case k of
      OzonProductsCount \<Rightarrow> ''OzonProductsCount''
    | OzonProductsList \<Rightarrow> ''OzonProductsList''
    | OzonProductsGet \<Rightarrow> ''OzonProductsGet''
    | OzonUpdatePriceMock \<Rightarrow> ''OzonUpdatePriceMock''
    | OzonUpdateInventoryMock \<Rightarrow> ''OzonUpdateInventoryMock''
    | OzonJoinPromotionMock \<Rightarrow> ''OzonJoinPromotionMock''
    | DraftUploadMock \<Rightarrow> ''DraftUploadMock''
    | Import1688Mock \<Rightarrow> ''Import1688Mock'')"

definition debug_task_id :: "(uuid \<Rightarrow> string) \<Rightarrow> task_id \<Rightarrow> string" where
  "debug_task_id show_uuid i = (case i of TaskId u \<Rightarrow> ''TaskId('' @ show_uuid u @ '')'')"

definition engine_audit ::
  "tenant_id option \<Rightarrow> string \<Rightarrow> string \<Rightarrow> string \<Rightarrow> string \<Rightarrow> unit engine" where
  "engine_audit tenant actor action target summary =
     andthen new_v4 (\<lambda>i. andthen utc_now (\<lambda>now.
       modify (\<lambda>s. s\<lparr>ts_audit := ts_audit s @
         [\<lparr> aud_id = AuditEventId i, aud_tenant_id = tenant, aud_actor = actor, aud_action = action,
            aud_target = target, aud_summary = summary, aud_created_at = now \<rparr>]\<rparr>)))"

definition send_changed :: "task \<Rightarrow> unit engine" where
  "send_changed t = modify (\<lambda>s. s\<lparr>ts_events := ts_events s @ [Changed t]\<rparr>)"

text \<open>\<open>inner.get_mut(&id).ok_or(TaskNotFound)?\<close> and the write-back of the mutated task.\<close>

definition get_task :: "task_id \<Rightarrow> task engine" where
  "get_task i = andthen (gets (\<lambda>s. map_of (ts_inner s) i)) (\<lambda>t. lift (ok_or TaskNotFound t))"

definition write_back :: "task_id \<Rightarrow> task \<Rightarrow> unit engine" where
  "write_back i t = modify (\<lambda>s. s\<lparr>ts_inner := AList.update i t (ts_inner s)\<rparr>)"

definition transition :: "task \<Rightarrow> task_state \<Rightarrow> task engine" where
  "transition t next =
     (if \<not> can_transition_to (tsk_state t) next
      then throw (DomainFailure (InvalidTaskTransition (tsk_state t) next))
      else andthen utc_now (\<lambda>now. ret (t\<lparr>tsk_state := next, tsk_updated_at := now\<rparr>)))"

definition existing_open_task :: "tenant_id \<times> string \<Rightarrow> task_store \<Rightarrow> task option" where
  "existing_open_task key s =
     (case map_of (ts_by_idempotency s) key of
        None \<Rightarrow> None
      | Some i \<Rightarrow> (case map_of (ts_inner s) i of
                    None \<Rightarrow> None
                  | Some t \<Rightarrow> if is_terminal (tsk_state t) then None else Some t))"

definition create_dry_run :: "(uuid \<Rightarrow> string) \<Rightarrow> create_task \<Rightarrow> task engine" where
  "create_dry_run show_uuid i =
     andthen utc_now (\<lambda>now.
       let state = (if is_write (ct_operation i) then PendingApproval else Queued);
           idem_key = (ct_tenant_id i, ct_idempotency_key i) in
       andthen (gets (existing_open_task idem_key)) (\<lambda>existing.
         case existing of
           Some t \<Rightarrow> ret t
         | None \<Rightarrow>
             andthen new_v4 (\<lambda>u.
               let t = \<lparr> tsk_id = TaskId u, tsk_tenant_id = ct_tenant_id i,
                         tsk_shop_id = ct_shop_id i, tsk_source = ct_source i,
                         tsk_operation = ct_operation i, tsk_state = state,
                         tsk_dry_run = ct_dry_run i, tsk_risk = ct_risk i,
                         tsk_idempotency_key = ct_idempotency_key i,
                         tsk_approval = None, tsk_receipt = None,
                         tsk_created_at = now, tsk_updated_at = now \<rparr> in
               andthen (write_back (tsk_id t) t) (\<lambda>_.
               andthen (modify (\<lambda>s. s\<lparr>ts_by_idempotency :=
                           AList.update idem_key (tsk_id t) (ts_by_idempotency s)\<rparr>)) (\<lambda>_.
               andthen (engine_audit (Some (tsk_tenant_id t)) ''system'' ''task.created''
                          (debug_task_id show_uuid (tsk_id t))
                          (debug_operation (tsk_operation t) @ '' dry-run created'')) (\<lambda>_.
               andthen (send_changed t) (\<lambda>_. ret t)))))))"

definition task_get :: "task_id \<Rightarrow> task_store \<Rightarrow> task option" where
  "task_get i s = map_of (ts_inner s) i"

definition task_list :: "task_store \<Rightarrow> task list" where
  "task_list s = sort_key tsk_created_at (map snd (ts_inner s))"

definition approve :: "(uuid \<Rightarrow> string) \<Rightarrow> task_id \<Rightarrow> string \<Rightarrow> string option \<Rightarrow> task engine" where
  "approve show_uuid i approved_by note =
     andthen (get_task i) (\<lambda>t0.
       if \<not> is_write (tsk_operation t0) then throw ApprovalNotRequired
       else
       andthen (transition t0 Queued) (\<lambda>t1.
       andthen new_v4 (\<lambda>a.
       andthen utc_now (\<lambda>now.
       let t = t1\<lparr>tsk_approval := Some \<lparr> apr_id = ApprovalId a, apr_approved_by = approved_by,
                                        apr_approved_at = now, apr_note = note \<rparr>\<rparr> in
       andthen (write_back i t) (\<lambda>_.
       andthen (engine_audit (Some (tsk_tenant_id t)) ''approver'' ''task.approved''
                  (debug_task_id show_uuid (tsk_id t)) ''write task approved and queued'') (\<lambda>_.
       andthen (send_changed t) (\<lambda>_. ret t)))))))"

definition cancel :: "(uuid \<Rightarrow> string) \<Rightarrow> task_id \<Rightarrow> string \<Rightarrow> task engine" where
  "cancel show_uuid i actor =
     andthen (get_task i) (\<lambda>t0.
     andthen (transition t0 Cancelled) (\<lambda>t.
     andthen (write_back i t) (\<lambda>_.
     andthen (engine_audit (Some (tsk_tenant_id t)) actor ''task.cancelled''
                (debug_task_id show_uuid (tsk_id t)) ''task cancelled'') (\<lambda>_.
     andthen (send_changed t) (\<lambda>_. ret t)))))"

definition mark_running :: "task_id \<Rightarrow> task engine" where
  "mark_running i =
     andthen (get_task i) (\<lambda>t0.
       if is_write (tsk_operation t0) \<and> tsk_approval t0 = None
       then throw (DomainFailure WriteRequiresApproval)
       else
       andthen (transition t0 Running) (\<lambda>t.
       andthen (write_back i t) (\<lambda>_.
       andthen (send_changed t) (\<lambda>_. ret t))))"

definition mark_succeeded :: "task_id \<Rightarrow> execution_receipt \<Rightarrow> task engine" where
  "mark_succeeded i receipt =
     andthen (get_task i) (\<lambda>t0.
     andthen (transition t0 Succeeded) (\<lambda>t1.
     let t = t1\<lparr>tsk_receipt := Some receipt\<rparr> in
     andthen (write_back i t) (\<lambda>_.
     andthen (send_changed t) (\<lambda>_. ret t))))"

definition mark_failed :: "task_id \<Rightarrow> string \<Rightarrow> task engine" where
  "mark_failed i reason =
     andthen (get_task i) (\<lambda>t0.
     andthen (transition t0 Failed) (\<lambda>t1.
     andthen utc_now (\<lambda>now.
     let t = t1\<lparr>tsk_receipt := Some \<lparr> rcp_external_request_id = None, rcp_executed_at = now,
                                       rcp_result_summary = reason \<rparr>\<rparr> in
     andthen (write_back i t) (\<lambda>_.
     andthen (send_changed t) (\<lambda>_. ret t)))))"

section \<open>Runs of the operations\<close>

text \<open>Each method in one equation: its early returns leave the store as it is, and its success
  is one update of the tables.\<close>

definition audit_entry ::
  "task_store \<Rightarrow> tenant_id option \<Rightarrow> string \<Rightarrow> string \<Rightarrow> string \<Rightarrow> string \<Rightarrow> audit_event" where
  "audit_entry s tenant actor action target summary =
     \<lparr> aud_id = AuditEventId (src_uuid s (uuid_n s)), aud_tenant_id = tenant, aud_actor = actor,
       aud_action = action, aud_target = target, aud_summary = summary,
       aud_created_at = src_clock s (clock_n s) \<rparr>"

definition moved :: "task_store \<Rightarrow> task \<Rightarrow> task_state \<Rightarrow> task" where
  "moved s t next = t\<lparr>tsk_state := next, tsk_updated_at := src_clock s (clock_n s)\<rparr>"

lemma transition_run:
  "transition t next s =
     (if can_transition_to (tsk_state t) next
      then (Inr (moved s t next), s\<lparr>clock_n := Suc (clock_n s)\<rparr>)
      else (Inl (DomainFailure (InvalidTaskTransition (tsk_state t) next)), s))"
  by (simp add: transition_def act_simps moved_def)

lemma get_task_run:
  "get_task i s = (case map_of (ts_inner s) i of None \<Rightarrow> (Inl TaskNotFound, s) | Some t \<Rightarrow> (Inr t, s))"
  by (simp add: get_task_def act_simps split: option.split)

lemmas engine_run = act_simps get_task_run transition_run write_back_def send_changed_def
  engine_audit_def Let_def

lemma cancel_run:
  "cancel show_uuid i actor s =
     (case map_of (ts_inner s) i of
        None \<Rightarrow> (Inl TaskNotFound, s)
      | Some t0 \<Rightarrow>
          if \<not> can_transition_to (tsk_state t0) Cancelled
          then (Inl (DomainFailure (InvalidTaskTransition (tsk_state t0) Cancelled)), s)
          else (let t = moved s t0 Cancelled; s1 = s\<lparr>clock_n := Suc (clock_n s)\<rparr> in
            (Inr t, s\<lparr>clock_n := clock_n s + 2, uuid_n := Suc (uuid_n s),
               ts_inner := AList.update i t (ts_inner s),
               ts_audit := ts_audit s @ [audit_entry s1 (Some (tsk_tenant_id t)) actor
                 ''task.cancelled'' (debug_task_id show_uuid (tsk_id t)) ''task cancelled''],
               ts_events := ts_events s @ [Changed t]\<rparr>)))"
  by (simp add: cancel_def engine_run audit_entry_def split: option.split)

lemma mark_running_run:
  "mark_running i s =
     (case map_of (ts_inner s) i of
        None \<Rightarrow> (Inl TaskNotFound, s)
      | Some t0 \<Rightarrow>
          if is_write (tsk_operation t0) \<and> tsk_approval t0 = None
          then (Inl (DomainFailure WriteRequiresApproval), s)
          else if \<not> can_transition_to (tsk_state t0) Running
          then (Inl (DomainFailure (InvalidTaskTransition (tsk_state t0) Running)), s)
          else (let t = moved s t0 Running in
            (Inr t, s\<lparr>clock_n := Suc (clock_n s), ts_inner := AList.update i t (ts_inner s),
               ts_events := ts_events s @ [Changed t]\<rparr>)))"
  by (simp add: mark_running_def engine_run split: option.split)

lemma mark_succeeded_run:
  "mark_succeeded i receipt s =
     (case map_of (ts_inner s) i of
        None \<Rightarrow> (Inl TaskNotFound, s)
      | Some t0 \<Rightarrow>
          if \<not> can_transition_to (tsk_state t0) Succeeded
          then (Inl (DomainFailure (InvalidTaskTransition (tsk_state t0) Succeeded)), s)
          else (let t = (moved s t0 Succeeded)\<lparr>tsk_receipt := Some receipt\<rparr> in
            (Inr t, s\<lparr>clock_n := Suc (clock_n s), ts_inner := AList.update i t (ts_inner s),
               ts_events := ts_events s @ [Changed t]\<rparr>)))"
  by (simp add: mark_succeeded_def engine_run split: option.split)

lemma mark_failed_run:
  "mark_failed i reason s =
     (case map_of (ts_inner s) i of
        None \<Rightarrow> (Inl TaskNotFound, s)
      | Some t0 \<Rightarrow>
          if \<not> can_transition_to (tsk_state t0) Failed
          then (Inl (DomainFailure (InvalidTaskTransition (tsk_state t0) Failed)), s)
          else (let t = (moved s t0 Failed)\<lparr>tsk_receipt :=
                   Some \<lparr> rcp_external_request_id = None,
                          rcp_executed_at = src_clock s (Suc (clock_n s)),
                          rcp_result_summary = reason \<rparr>\<rparr> in
            (Inr t, s\<lparr>clock_n := clock_n s + 2, ts_inner := AList.update i t (ts_inner s),
               ts_events := ts_events s @ [Changed t]\<rparr>)))"
  by (simp add: mark_failed_def engine_run split: option.split)

lemma approve_run:
  "approve show_uuid i approved_by note s =
     (case map_of (ts_inner s) i of
        None \<Rightarrow> (Inl TaskNotFound, s)
      | Some t0 \<Rightarrow>
          if \<not> is_write (tsk_operation t0) then (Inl ApprovalNotRequired, s)
          else if \<not> can_transition_to (tsk_state t0) Queued
          then (Inl (DomainFailure (InvalidTaskTransition (tsk_state t0) Queued)), s)
          else (let t = (moved s t0 Queued)\<lparr>tsk_approval :=
                   Some \<lparr> apr_id = ApprovalId (src_uuid s (uuid_n s)), apr_approved_by = approved_by,
                          apr_approved_at = src_clock s (Suc (clock_n s)), apr_note = note \<rparr>\<rparr>;
                    s1 = s\<lparr>clock_n := clock_n s + 2, uuid_n := Suc (uuid_n s)\<rparr> in
            (Inr t, s\<lparr>clock_n := clock_n s + 3, uuid_n := uuid_n s + 2,
               ts_inner := AList.update i t (ts_inner s),
               ts_audit := ts_audit s @ [audit_entry s1 (Some (tsk_tenant_id t)) ''approver''
                 ''task.approved'' (debug_task_id show_uuid (tsk_id t)) ''write task approved and queued''],
               ts_events := ts_events s @ [Changed t]\<rparr>)))"
  by (simp add: approve_def engine_run audit_entry_def eval_nat_numeral split: option.split)

definition fresh_task :: "create_task \<Rightarrow> task_store \<Rightarrow> task" where
  "fresh_task i s =
     (let now = src_clock s (clock_n s) in
      \<lparr> tsk_id = TaskId (src_uuid s (uuid_n s)), tsk_tenant_id = ct_tenant_id i,
        tsk_shop_id = ct_shop_id i, tsk_source = ct_source i, tsk_operation = ct_operation i,
        tsk_state = (if is_write (ct_operation i) then PendingApproval else Queued),
        tsk_dry_run = ct_dry_run i, tsk_risk = ct_risk i,
        tsk_idempotency_key = ct_idempotency_key i, tsk_approval = None, tsk_receipt = None,
        tsk_created_at = now, tsk_updated_at = now \<rparr>)"

lemma create_dry_run_run:
  "create_dry_run show_uuid i s =
     (case existing_open_task (ct_tenant_id i, ct_idempotency_key i) s of
        Some t \<Rightarrow> (Inr t, s\<lparr>clock_n := Suc (clock_n s)\<rparr>)
      | None \<Rightarrow>
          (let t = fresh_task i s;
               s1 = s\<lparr>clock_n := Suc (clock_n s), uuid_n := Suc (uuid_n s)\<rparr> in
            (Inr t, s\<lparr>clock_n := clock_n s + 2, uuid_n := uuid_n s + 2,
               ts_inner := AList.update (tsk_id t) t (ts_inner s),
               ts_by_idempotency := AList.update (ct_tenant_id i, ct_idempotency_key i) (tsk_id t)
                 (ts_by_idempotency s),
               ts_audit := ts_audit s @ [audit_entry s1 (Some (tsk_tenant_id t)) ''system''
                 ''task.created'' (debug_task_id show_uuid (tsk_id t))
                 (debug_operation (tsk_operation t) @ '' dry-run created'')],
               ts_events := ts_events s @ [Changed t]\<rparr>)))"
proof -
  have ex: "existing_open_task k (s\<lparr>clock_n := n\<rparr>) = existing_open_task k s" for k n
    by (simp add: existing_open_task_def cong: option.case_cong)
  show ?thesis
    by (simp add: create_dry_run_def engine_run audit_entry_def fresh_task_def ex
        split: option.split)
qed

section \<open>The store invariant\<close>

text \<open>
  What the table holds at any time: a task that needs approval has one in every state past
  \<open>PendingApproval\<close>; a read task is never approved; a receipt exists exactly in the two
  executed end states.\<close>

definition task_ok :: "task \<Rightarrow> bool" where
  "task_ok t \<longleftrightarrow>
     tsk_state t \<noteq> Draft \<and>
     (is_write (tsk_operation t) \<longrightarrow>
        (tsk_state t \<in> {Queued, Running, Succeeded, Failed} \<longrightarrow> tsk_approval t \<noteq> None)) \<and>
     (\<not> is_write (tsk_operation t) \<longrightarrow> tsk_approval t = None \<and> tsk_state t \<noteq> PendingApproval) \<and>
     (tsk_receipt t \<noteq> None \<longleftrightarrow> tsk_state t \<in> {Succeeded, Failed})"

text \<open>The table and the index agree, and every task that is still open is the one its
  idempotency key points to.\<close>

definition tables_ok :: "task_store \<Rightarrow> bool" where
  "tables_ok s \<longleftrightarrow>
     (\<forall>i t. map_of (ts_inner s) i = Some t \<longrightarrow>
        tsk_id t = i \<and> task_ok t \<and>
        (\<not> is_terminal (tsk_state t) \<longrightarrow>
           map_of (ts_by_idempotency s) (tsk_tenant_id t, tsk_idempotency_key t) = Some i)) \<and>
     (\<forall>key i. map_of (ts_by_idempotency s) key = Some i \<longrightarrow>
        (\<exists>t. map_of (ts_inner s) i = Some t \<and> (tsk_tenant_id t, tsk_idempotency_key t) = key))"

definition store_ok :: "task_store \<Rightarrow> bool" where
  "store_ok s \<longleftrightarrow> tables_ok s"

text \<open>What the engine relies on from \<open>Uuid::new_v4\<close>: the next value names no stored task.\<close>

definition next_id_fresh :: "task_store \<Rightarrow> bool" where
  "next_id_fresh s \<longleftrightarrow> map_of (ts_inner s) (TaskId (src_uuid s (uuid_n s))) = None"

text \<open>A later version of the same task: what no method ever changes, and the rank that only
  grows.\<close>

definition evolves :: "task \<Rightarrow> task \<Rightarrow> bool" where
  "evolves t u \<longleftrightarrow>
     tsk_id u = tsk_id t \<and> tsk_tenant_id u = tsk_tenant_id t \<and> tsk_shop_id u = tsk_shop_id t \<and>
     tsk_source u = tsk_source t \<and> tsk_operation u = tsk_operation t \<and>
     tsk_dry_run u = tsk_dry_run t \<and> tsk_risk u = tsk_risk t \<and>
     tsk_idempotency_key u = tsk_idempotency_key t \<and> tsk_created_at u = tsk_created_at t \<and>
     (u = t \<or> state_rank (tsk_state t) < state_rank (tsk_state u))"

text \<open>The history of a store: no task disappears, tasks only evolve, and the audit log and the
  event stream only grow at the end.\<close>

definition store_history :: "task_store \<Rightarrow> task_store \<Rightarrow> bool" where
  "store_history s u \<longleftrightarrow>
     (\<forall>i t. map_of (ts_inner s) i = Some t \<longrightarrow>
        (\<exists>t'. map_of (ts_inner u) i = Some t' \<and> evolves t t')) \<and>
     prefix (ts_audit s) (ts_audit u) \<and> prefix (ts_events s) (ts_events u)"

definition keeps_store :: "task_store \<Rightarrow> task_store \<Rightarrow> bool" where
  "keeps_store s u \<longleftrightarrow> (store_ok s \<longrightarrow> store_ok u \<and> store_history s u)"

lemma evolves_refl: "evolves t t"
  by (simp add: evolves_def)

lemma evolves_trans: "evolves t u \<Longrightarrow> evolves u v \<Longrightarrow> evolves t v"
  by (auto simp: evolves_def)

lemma store_history_refl: "store_history s s"
  by (auto simp: store_history_def evolves_refl)

lemma store_history_trans: "store_history s t \<Longrightarrow> store_history t u \<Longrightarrow> store_history s u"
  unfolding store_history_def by (meson evolves_trans prefix_order.trans)

interpretation engine: step_relation keeps_store
  by unfold_locales (auto simp: keeps_store_def store_history_refl intro: store_history_trans)

lemma stored_task:
  assumes "tables_ok s" "map_of (ts_inner s) i = Some t"
  shows "tsk_id t = i" "task_ok t"
    "\<not> is_terminal (tsk_state t) \<Longrightarrow>
       map_of (ts_by_idempotency s) (tsk_tenant_id t, tsk_idempotency_key t) = Some i"
  using assms by (auto simp: tables_ok_def)

lemma indexed_task:
  assumes "tables_ok s" "map_of (ts_by_idempotency s) key = Some i"
  obtains t where "map_of (ts_inner s) i = Some t"
    "tsk_tenant_id t = fst key" "tsk_idempotency_key t = snd key"
  using assms unfolding tables_ok_def by (metis fst_conv snd_conv)

lemma tables_okI:
  assumes "\<And>i t. map_of (ts_inner s) i = Some t \<Longrightarrow> tsk_id t = i \<and> task_ok t"
    and "\<And>i t. map_of (ts_inner s) i = Some t \<Longrightarrow> \<not> is_terminal (tsk_state t) \<Longrightarrow>
      map_of (ts_by_idempotency s) (tsk_tenant_id t, tsk_idempotency_key t) = Some i"
    and "\<And>key i. map_of (ts_by_idempotency s) key = Some i \<Longrightarrow>
      \<exists>t. map_of (ts_inner s) i = Some t \<and> (tsk_tenant_id t, tsk_idempotency_key t) = key"
  shows "tables_ok s"
  unfolding tables_ok_def using assms by blast

text \<open>The two ways a method writes the tables.\<close>

lemma update_keeps_store:
  assumes "map_of (ts_inner s) i = Some t0"
    and inner: "ts_inner u = AList.update i t (ts_inner s)"
    and index: "ts_by_idempotency u = ts_by_idempotency s"
    and logs: "prefix (ts_audit s) (ts_audit u)" "prefix (ts_events s) (ts_events u)"
    and t: "evolves t0 t" "task_ok t0 \<Longrightarrow> task_ok t" "\<not> is_terminal (tsk_state t0)"
  shows "keeps_store s u"
  unfolding keeps_store_def
proof
  assume ok: "store_ok s"
  have m: "map_of (ts_inner u) = (map_of (ts_inner s))(i \<mapsto> t)"
    by (simp add: inner update_conv')
  have same: "tsk_id t = tsk_id t0" "tsk_tenant_id t = tsk_tenant_id t0"
    "tsk_idempotency_key t = tsk_idempotency_key t0"
    using t(1) by (simp_all add: evolves_def)
  have tok: "tables_ok s" using ok by (simp add: store_ok_def)
  note t0 = stored_task [OF tok assms(1)]
  have "tables_ok u"
  proof (rule tables_okI, unfold m index)
    fix j t' assume "((map_of (ts_inner s))(i \<mapsto> t)) j = Some t'"
    then show "tsk_id t' = j \<and> task_ok t'"
      using t0 t(2) same stored_task(1,2) [OF tok] by (auto split: if_splits)
  next
    fix j t' assume "((map_of (ts_inner s))(i \<mapsto> t)) j = Some t'" "\<not> is_terminal (tsk_state t')"
    then show "map_of (ts_by_idempotency s) (tsk_tenant_id t', tsk_idempotency_key t') = Some j"
      using t0 t(3) same stored_task(3) [OF tok] by (auto split: if_splits)
  next
    fix key j assume "map_of (ts_by_idempotency s) key = Some j"
    then obtain t' where "map_of (ts_inner s) j = Some t'"
      "tsk_tenant_id t' = fst key" "tsk_idempotency_key t' = snd key"
      by (rule indexed_task [OF tok])
    then show "\<exists>t'. ((map_of (ts_inner s))(i \<mapsto> t)) j = Some t' \<and>
        (tsk_tenant_id t', tsk_idempotency_key t') = key"
      using assms(1) same by (cases "j = i") auto
  qed
  moreover have "store_history s u"
    using assms(1) t(1) logs by (auto simp: store_history_def m evolves_refl)
  ultimately show "store_ok u \<and> store_history s u" by (simp add: store_ok_def)
qed

lemma insert_keeps_store:
  assumes none: "existing_open_task (tsk_tenant_id t, tsk_idempotency_key t) s = None"
    and new: "map_of (ts_inner s) (tsk_id t) = None"
    and inner: "ts_inner u = AList.update (tsk_id t) t (ts_inner s)"
    and index: "ts_by_idempotency u =
      AList.update (tsk_tenant_id t, tsk_idempotency_key t) (tsk_id t) (ts_by_idempotency s)"
    and logs: "prefix (ts_audit s) (ts_audit u)" "prefix (ts_events s) (ts_events u)"
    and t: "task_ok t"
  shows "keeps_store s u"
  unfolding keeps_store_def
proof
  assume ok: "store_ok s"
  have tok: "tables_ok s" using ok by (simp add: store_ok_def)
  have m: "map_of (ts_inner u) = (map_of (ts_inner s))(tsk_id t \<mapsto> t)"
    and x: "map_of (ts_by_idempotency u) =
      (map_of (ts_by_idempotency s))((tsk_tenant_id t, tsk_idempotency_key t) \<mapsto> tsk_id t)"
    by (simp_all add: inner index update_conv')
  have closed: "is_terminal (tsk_state t')"
    if "map_of (ts_inner s) j = Some t'" "tsk_tenant_id t' = tsk_tenant_id t"
      "tsk_idempotency_key t' = tsk_idempotency_key t" for j t'
  proof (rule ccontr)
    assume "\<not> is_terminal (tsk_state t')"
    with stored_task(3) [OF tok that(1)] that
    have "existing_open_task (tsk_tenant_id t, tsk_idempotency_key t) s = Some t'"
      by (simp add: existing_open_task_def)
    with none show False by simp
  qed
  have "tables_ok u"
  proof (rule tables_okI, unfold m x)
    fix j t' assume "((map_of (ts_inner s))(tsk_id t \<mapsto> t)) j = Some t'"
    then show "tsk_id t' = j \<and> task_ok t'"
      using t stored_task(1,2) [OF tok] by (auto split: if_splits)
  next
    fix j t' assume "((map_of (ts_inner s))(tsk_id t \<mapsto> t)) j = Some t'" "\<not> is_terminal (tsk_state t')"
    then show "((map_of (ts_by_idempotency s))
        ((tsk_tenant_id t, tsk_idempotency_key t) \<mapsto> tsk_id t))
        (tsk_tenant_id t', tsk_idempotency_key t') = Some j"
      using closed stored_task(3) [OF tok] by (auto split: if_splits)
  next
    fix key j assume j: "((map_of (ts_by_idempotency s))
        ((tsk_tenant_id t, tsk_idempotency_key t) \<mapsto> tsk_id t)) key = Some j"
    show "\<exists>t'. ((map_of (ts_inner s))(tsk_id t \<mapsto> t)) j = Some t' \<and>
        (tsk_tenant_id t', tsk_idempotency_key t') = key"
    proof (cases "key = (tsk_tenant_id t, tsk_idempotency_key t)")
      case False
      with j have "map_of (ts_by_idempotency s) key = Some j" by simp
      then obtain t' where "map_of (ts_inner s) j = Some t'"
        "tsk_tenant_id t' = fst key" "tsk_idempotency_key t' = snd key"
        by (rule indexed_task [OF tok])
      with new show ?thesis by (cases "j = tsk_id t") auto
    qed (use j in auto)
  qed
  moreover have "store_history s u"
    using new logs by (auto simp: store_history_def m evolves_refl)
  ultimately show "store_ok u \<and> store_history s u" by (simp add: store_ok_def)
qed

section \<open>Every operation keeps the store\<close>

lemma tick_keeps_store: "keeps_store s (s\<lparr>clock_n := n\<rparr>)"
  by (simp add: keeps_store_def store_ok_def tables_ok_def store_history_def evolves_refl)

lemma moved_evolves:
  assumes "can_transition_to (tsk_state t) next"
  shows "evolves t (moved s t next)" "evolves t ((moved s t next)\<lparr>tsk_approval := a\<rparr>)"
    "evolves t ((moved s t next)\<lparr>tsk_receipt := r\<rparr>)" "\<not> is_terminal (tsk_state t)"
  using assms transition_raises_rank terminal_no_transition
  by (auto simp: evolves_def moved_def)

lemma moved_ok:
  assumes "can_transition_to (tsk_state t) next" "task_ok t"
  shows "next = Cancelled \<Longrightarrow> task_ok (moved s t next)"
    "next = Running \<Longrightarrow> task_ok (moved s t next)"
    "next = Queued \<Longrightarrow> is_write (tsk_operation t) \<Longrightarrow>
       task_ok ((moved s t next)\<lparr>tsk_approval := Some a\<rparr>)"
    "next = Succeeded \<or> next = Failed \<Longrightarrow> task_ok ((moved s t next)\<lparr>tsk_receipt := Some r\<rparr>)"
  using assms by (cases "tsk_state t"; auto simp: task_ok_def moved_def)+

lemma cancel_keeps [keeps_intros]: "keeps keeps_store (cancel show_uuid i actor)"
  by (auto simp: keeps_def cancel_run Let_def moved_evolves moved_ok engine.R_refl
      split: option.split intro!: update_keeps_store)

lemma mark_running_keeps [keeps_intros]: "keeps keeps_store (mark_running i)"
  by (auto simp: keeps_def mark_running_run Let_def moved_evolves moved_ok engine.R_refl
      split: option.split intro!: update_keeps_store)

lemma mark_succeeded_keeps [keeps_intros]: "keeps keeps_store (mark_succeeded i receipt)"
  by (auto simp: keeps_def mark_succeeded_run Let_def moved_evolves moved_ok engine.R_refl
      split: option.split intro!: update_keeps_store)

lemma mark_failed_keeps [keeps_intros]: "keeps keeps_store (mark_failed i reason)"
  by (auto simp: keeps_def mark_failed_run Let_def moved_evolves moved_ok engine.R_refl
      split: option.split intro!: update_keeps_store)

lemma approve_keeps [keeps_intros]: "keeps keeps_store (approve show_uuid i approved_by note)"
  by (auto simp: keeps_def approve_run Let_def moved_evolves moved_ok engine.R_refl
      split: option.split intro!: update_keeps_store)

lemma fresh_task_ok: "task_ok (fresh_task i s)"
  by (simp add: fresh_task_def Let_def task_ok_def)

lemma fresh_task_key:
  "tsk_tenant_id (fresh_task i s) = ct_tenant_id i"
  "tsk_idempotency_key (fresh_task i s) = ct_idempotency_key i"
  "tsk_id (fresh_task i s) = TaskId (src_uuid s (uuid_n s))"
  by (simp_all add: fresh_task_def Let_def)

lemma create_dry_run_keeps:
  assumes "next_id_fresh s"
  shows "keeps_store s (snd (create_dry_run show_uuid i s))"
proof (cases "existing_open_task (ct_tenant_id i, ct_idempotency_key i) s")
  case None
  with assms show ?thesis
    by (simp add: create_dry_run_run Let_def next_id_fresh_def)
      (rule insert_keeps_store [of "fresh_task i s"], simp_all add: fresh_task_key fresh_task_ok)
qed (simp add: create_dry_run_run tick_keeps_store)

section \<open>Reachable stores\<close>

text \<open>A store's life: created over an ambient source, then any sequence of method calls,
  failing ones included.\<close>

inductive engine_step :: "(uuid \<Rightarrow> string) \<Rightarrow> task_store \<Rightarrow> task_store \<Rightarrow> bool" for sh where
  step_create: "engine_step sh s (snd (create_dry_run sh i s))"
    if "next_id_fresh s"
| step_approve: "engine_step sh s (snd (approve sh i approved_by note s))"
| step_cancel: "engine_step sh s (snd (cancel sh i actor s))"
| step_running: "engine_step sh s (snd (mark_running i s))"
| step_succeeded: "engine_step sh s (snd (mark_succeeded i receipt s))"
| step_failed: "engine_step sh s (snd (mark_failed i reason s))"

inductive engine_reachable :: "(uuid \<Rightarrow> string) \<Rightarrow> task_store \<Rightarrow> bool" for sh where
  start: "engine_reachable sh (store_new a)"
| step: "engine_reachable sh s \<Longrightarrow> engine_step sh s t \<Longrightarrow> engine_reachable sh t"

lemma engine_step_keeps: "engine_step sh s t \<Longrightarrow> keeps_store s t"
  by (induction rule: engine_step.induct)
    (use keeps_intros create_dry_run_keeps in \<open>auto simp: keeps_def\<close>)

lemma store_new_ok: "store_ok (store_new a)"
  by (simp add: store_ok_def tables_ok_def store_new_def ambient.defs)

lemma reachable_store_ok: "engine_reachable sh s \<Longrightarrow> store_ok s"
proof (induction rule: engine_reachable.induct)
  case (step s t)
  then show ?case using engine_step_keeps by (auto simp: keeps_store_def)
qed (rule store_new_ok)

lemma reachable_task_ok:
  "engine_reachable sh s \<Longrightarrow> map_of (ts_inner s) i = Some t \<Longrightarrow> task_ok t"
  by (rule stored_task(2)) (simp_all add: reachable_store_ok [unfolded store_ok_def])

lemma reachable_history:
  "(engine_step sh)\<^sup>*\<^sup>* s t \<Longrightarrow> store_ok s \<Longrightarrow> store_ok t \<and> store_history s t"
proof (induction rule: rtranclp_induct)
  case (step t u)
  then show ?case using engine_step_keeps by (auto simp: keeps_store_def intro: store_history_trans)
qed (simp add: store_history_refl)

section \<open>Properties\<close>

text \<open>A concrete life of a store, on which the properties are instantiated: a price update is
  prepared, approved and started.\<close>

definition sample_create :: create_task where
  "sample_create =
     \<lparr> ct_tenant_id = TenantId 7, ct_shop_id = ''shop-1'', ct_source = OpenClaw,
       ct_operation = OzonUpdatePriceMock,
       ct_dry_run = \<lparr> dr_summary = ''price'', dr_target_count = 1, dr_changes = [], dr_warnings = [] \<rparr>,
       ct_risk = HighRisk, ct_idempotency_key = ''idem-1'' \<rparr>"

definition sample_created :: task_store where
  "sample_created = snd (create_dry_run (\<lambda>_. ''u'') sample_create (store_new sample_ambient))"

definition sample_approved :: task_store where
  "sample_approved = snd (approve (\<lambda>_. ''u'') (TaskId 1) ''operator'' None sample_created)"

definition sample_running :: task_store where
  "sample_running = snd (mark_running (TaskId 1) sample_approved)"

definition sample_failed :: task_store where
  "sample_failed = snd (mark_failed (TaskId 1) ''timeout'' sample_running)"

lemma store_new_fields [simp]:
  "ts_inner (store_new a) = []" "ts_by_idempotency (store_new a) = []"
  "ts_audit (store_new a) = []" "ts_events (store_new a) = []"
  "src_uuid (store_new a) = src_uuid a" "uuid_n (store_new a) = uuid_n a"
  "src_clock (store_new a) = src_clock a" "clock_n (store_new a) = clock_n a"
  by (simp_all add: store_new_def ambient.defs)

lemmas sample_run = sample_created_def sample_approved_def sample_running_def sample_failed_def
  create_dry_run_run approve_run mark_running_run mark_failed_run existing_open_task_def
  fresh_task_def sample_create_def sample_ambient_def moved_def Let_def

lemma sample_lookup:
  "map_of (ts_inner sample_created) (TaskId 1) = Some (fresh_task sample_create (store_new sample_ambient))"
  "\<exists>t. map_of (ts_inner sample_running) (TaskId 1) = Some t \<and> tsk_state t = Running \<and>
     tsk_operation t = OzonUpdatePriceMock"
  "\<exists>t. map_of (ts_inner sample_failed) (TaskId 1) = Some t \<and> tsk_state t = Failed"
  "\<exists>t. map_of (ts_inner sample_approved) (TaskId 1) = Some t \<and> tsk_state t = Queued"
  by (simp_all add: sample_run is_write_def)

lemma sample_reachable:
  "engine_reachable (\<lambda>_. ''u'') sample_created" "engine_reachable (\<lambda>_. ''u'') sample_approved"
  "engine_reachable (\<lambda>_. ''u'') sample_running"
proof -
  have "next_id_fresh (store_new sample_ambient)" by (simp add: next_id_fresh_def)
  then show c: "engine_reachable (\<lambda>_. ''u'') sample_created"
    unfolding sample_created_def by (blast intro: engine_reachable.intros engine_step.intros)
  show a: "engine_reachable (\<lambda>_. ''u'') sample_approved"
    using c unfolding sample_approved_def by (blast intro: engine_reachable.intros engine_step.intros)
  show "engine_reachable (\<lambda>_. ''u'') sample_running"
    using a unfolding sample_running_def by (blast intro: engine_reachable.intros engine_step.intros)
qed

text \<open>In every store the engine can reach, a write operation that is queued for execution,
  running or executed carries an approval record: no sequence of calls, whatever its order and
  its failures, gets a store-affecting task past approval.\<close>

lemma write_tasks_are_approved:
  assumes "engine_reachable sh s" "map_of (ts_inner s) i = Some t"
    and "is_write (tsk_operation t)" "tsk_state t \<in> {Queued, Running, Succeeded, Failed}"
  shows "\<exists>a. tsk_approval t = Some a"
proof -
  have "task_ok t" using assms(1,2) by (rule reachable_task_ok)
  with assms(3,4) show ?thesis by (auto simp: task_ok_def)
qed

lemma write_tasks_are_approved_witness:
  "\<exists>s t a. engine_reachable (\<lambda>_. ''u'') s \<and> map_of (ts_inner s) (TaskId 1) = Some t \<and>
     is_write (tsk_operation t) \<and> tsk_state t = Running \<and> tsk_approval t = Some a"
proof -
  obtain t where t: "map_of (ts_inner sample_running) (TaskId 1) = Some t" "tsk_state t = Running"
    "tsk_operation t = OzonUpdatePriceMock" using sample_lookup(2) by blast
  then have w: "is_write (tsk_operation t)" by (simp add: is_write_def)
  have "\<exists>a. tsk_approval t = Some a"
    by (rule write_tasks_are_approved [OF sample_reachable(3) t(1) w]) (simp add: t(2))
  with t w sample_reachable(3) show ?thesis by blast
qed

text \<open>At any time at most one open (non-terminal) task exists per tenant and idempotency
  key.\<close>

lemma one_open_task_per_key:
  assumes "engine_reachable sh s"
    and "map_of (ts_inner s) i = Some t" "map_of (ts_inner s) j = Some u"
    and "\<not> is_terminal (tsk_state t)" "\<not> is_terminal (tsk_state u)"
    and "tsk_tenant_id t = tsk_tenant_id u" "tsk_idempotency_key t = tsk_idempotency_key u"
  shows "i = j"
proof -
  have ok: "tables_ok s" using assms(1) reachable_store_ok by (simp add: store_ok_def)
  show ?thesis
    using stored_task(3) [OF ok assms(2,4)] stored_task(3) [OF ok assms(3,5)] assms(6,7) by simp
qed

lemma one_open_task_per_key_witness:
  "\<exists>s t. engine_reachable (\<lambda>_. ''u'') s \<and> map_of (ts_inner s) (TaskId 1) = Some t \<and>
     \<not> is_terminal (tsk_state t) \<and> (\<forall>j. map_of (ts_inner s) j = Some t \<longrightarrow> TaskId 1 = j)"
proof -
  let ?t = "fresh_task sample_create (store_new sample_ambient)"
  have open_task: "\<not> is_terminal (tsk_state ?t)"
    by (simp add: sample_run is_terminal_def is_write_def)
  have "TaskId 1 = j" if "map_of (ts_inner sample_created) j = Some ?t" for j
    by (rule one_open_task_per_key [OF sample_reachable(1) sample_lookup(1) that open_task open_task])
      simp_all
  with open_task sample_lookup(1) sample_reachable(1) show ?thesis by blast
qed

text \<open>Preparing a task is idempotent: once a call has returned a task, any later call with
  the same tenant and idempotency key returns that same task and changes nothing but the
  reading of the clock, whatever else the second request says.\<close>

lemma create_dry_run_idempotent:
  assumes "create_dry_run sh i s = (Inr t, u)"
    and "ct_tenant_id j = ct_tenant_id i" "ct_idempotency_key j = ct_idempotency_key i"
  shows "create_dry_run sh j u = (Inr t, u\<lparr>clock_n := Suc (clock_n u)\<rparr>)"
proof (cases "existing_open_task (ct_tenant_id i, ct_idempotency_key i) s")
  case None
  with assms(1) have t: "t = fresh_task i s"
    and tables: "map_of (ts_inner u) (tsk_id t) = Some t"
      "map_of (ts_by_idempotency u) (ct_tenant_id i, ct_idempotency_key i) = Some (tsk_id t)"
    by (auto simp: create_dry_run_run Let_def update_conv')
  have "\<not> is_terminal (tsk_state t)"
    by (simp add: t fresh_task_def Let_def is_terminal_def)
  with assms(2,3) tables show ?thesis by (simp add: create_dry_run_run existing_open_task_def)
next
  case (Some t0)
  with assms have "t = t0" "existing_open_task (ct_tenant_id j, ct_idempotency_key j) u = Some t0"
    by (auto simp: create_dry_run_run existing_open_task_def cong: option.case_cong)
  then show ?thesis by (simp add: create_dry_run_run)
qed

lemma create_dry_run_idempotent_witness:
  "\<exists>t u. create_dry_run (\<lambda>_. ''u'') sample_create (store_new sample_ambient) = (Inr t, u) \<and>
     create_dry_run (\<lambda>_. ''u'') (sample_create\<lparr>ct_shop_id := ''other''\<rparr>) u =
       (Inr t, u\<lparr>clock_n := Suc (clock_n u)\<rparr>)"
proof -
  obtain t u where r: "create_dry_run (\<lambda>_. ''u'') sample_create (store_new sample_ambient) = (Inr t, u)"
    by (simp add: create_dry_run_run existing_open_task_def Let_def)
  show ?thesis
    using r create_dry_run_idempotent [OF r, of "sample_create\<lparr>ct_shop_id := ''other''\<rparr>"] by simp
qed

text \<open>In a reachable store, starting a task succeeds exactly when the task exists and is
  queued; the approval check of \<open>mark_running\<close> never refuses a queued task, because queuing
  a write task is what records its approval.\<close>

lemma mark_running_exactly_queued:
  assumes "engine_reachable sh s"
  shows "is_ok (fst (mark_running i s)) \<longleftrightarrow>
    (\<exists>t. map_of (ts_inner s) i = Some t \<and> tsk_state t = Queued)"
proof (cases "map_of (ts_inner s) i")
  case (Some t)
  have "task_ok t" using assms Some by (rule reachable_task_ok)
  with Some show ?thesis
    by (cases "tsk_state t") (auto simp: mark_running_run Let_def task_ok_def)
qed (simp add: mark_running_run)

lemma mark_running_exactly_queued_witness:
  "is_ok (fst (mark_running (TaskId 1) sample_approved)) \<and>
   \<not> is_ok (fst (mark_running (TaskId 1) sample_running))"
  using mark_running_exactly_queued [OF sample_reachable(2), of "TaskId 1"]
    mark_running_exactly_queued [OF sample_reachable(3), of "TaskId 1"]
    sample_lookup(2,4) by auto

text \<open>C31: along any run the store only gains history: a task that reached an end state stays
  byte for byte what it was, every other task keeps its identity, tenant, operation and
  creation time and never moves back, and the audit log and the event stream only grow at
  their ends.\<close>

theorem engine_history:
  assumes "engine_reachable sh s" "(engine_step sh)\<^sup>*\<^sup>* s u" "map_of (ts_inner s) i = Some t"
  shows "\<exists>t'. map_of (ts_inner u) i = Some t' \<and> evolves t t' \<and>
      (is_terminal (tsk_state t) \<longrightarrow> t' = t) \<and>
      state_rank (tsk_state t) \<le> state_rank (tsk_state t') \<and>
      prefix (ts_audit s) (ts_audit u) \<and> prefix (ts_events s) (ts_events u)"
proof -
  have h: "store_history s u" using assms(1,2) reachable_history reachable_store_ok by blast
  then obtain t' where t': "map_of (ts_inner u) i = Some t'" "evolves t t'"
    using assms(3) by (auto simp: store_history_def)
  have top: "state_rank st \<le> 4" for st by (cases st) simp_all
  have "is_terminal (tsk_state t) \<Longrightarrow> state_rank (tsk_state t) = 4"
    by (auto simp: is_terminal_def)
  with t' top have "is_terminal (tsk_state t) \<longrightarrow> t' = t"
    by (metis evolves_def linorder_not_less)
  moreover have "state_rank (tsk_state t) \<le> state_rank (tsk_state t')"
    using t'(2) by (auto simp: evolves_def)
  ultimately show ?thesis using t' h unfolding store_history_def by blast
qed

lemma engine_history_witness:
  "\<exists>t t'. map_of (ts_inner sample_running) (TaskId 1) = Some t \<and>
     map_of (ts_inner sample_failed) (TaskId 1) = Some t' \<and> evolves t t' \<and>
     prefix (ts_events sample_running) (ts_events sample_failed)"
proof -
  have run: "(engine_step (\<lambda>_. ''u''))\<^sup>*\<^sup>* sample_running sample_failed"
    unfolding sample_failed_def by (blast intro: engine_step.intros)
  obtain t where t: "map_of (ts_inner sample_running) (TaskId 1) = Some t"
    using sample_lookup(2) by blast
  show ?thesis
    using t engine_history [OF sample_reachable(3) run t] by blast
qed

end
