(* ===== verification/CloudSchema.thy ===== *)
theory CloudSchema
  imports Effect Domain
begin

text \<open>
  The cloud database: the tables of \<open>apps/cloud-api/migrations\<close> as lists of rows in the column
  types of the schema, its constraints under their PostgreSQL names, and every statement of
  \<open>apps/cloud-api/src/main.rs\<close> that writes a table. A statement is atomic: it fails with the
  name of the first violated constraint and changes nothing, or it changes the table.
  PostgreSQL evaluates check constraints first (by name), then unique indexes (in the order
  of their creation), then foreign keys, and the lists below are in that order.

  The locales at the end are the interface between the statements and the handlers: a
  reflexive and transitive relation on databases (\<open>db_relation\<close>) that the plain statements
  keep (\<open>db_contract\<close>), or that every statement keeps (\<open>statement_contract\<close>).
\<close>

section \<open>Rows\<close>

record tenant_row =
  tr_id :: uuid
  tr_created_at :: instant

record user_row =
  ur_id :: uuid
  ur_tenant_id :: uuid
  ur_nebula_id :: string
  ur_nebula_source :: string
  ur_skybridge_user_id :: "uuid option"
  ur_email :: "string option"
  ur_phone :: "string option"
  ur_name :: "string option"
  ur_password_hash :: string
  ur_role :: string
  ur_email_verified_at :: "instant option"
  ur_phone_verified_at :: "instant option"
  ur_created_at :: instant

record order_row =
  or_id :: uuid
  or_tenant_id :: uuid
  or_user_id :: uuid
  or_plan_code :: string
  or_status :: string
  or_payment_provider :: string
  or_payment_reference :: string
  or_amount_minor :: int
  or_currency :: string
  or_checkout_session_id :: "string option"
  or_payment_intent_id :: "string option"
  or_paid_at :: "instant option"
  or_created_at :: instant
  or_confirmed_at :: "instant option"

record card_key_row =
  cr_id :: uuid
  cr_tenant_id :: uuid
  cr_order_id :: "uuid option"
  cr_plan_code :: string
  cr_code_hash :: string
  cr_code_fingerprint :: string
  cr_duration_days :: int
  cr_max_devices :: int
  cr_status :: string
  cr_redeemed_by :: "uuid option"
  cr_redeemed_at :: "instant option"
  cr_created_at :: instant

record device_row =
  dvr_id :: uuid
  dvr_tenant_id :: uuid
  dvr_user_id :: uuid
  dvr_name :: string
  dvr_fingerprint_hash :: string
  dvr_status :: string
  dvr_activated_at :: instant
  dvr_last_seen_at :: "instant option"

record entitlement_row =
  er_id :: uuid
  er_tenant_id :: uuid
  er_user_id :: uuid
  er_plan_code :: string
  er_source_card_key_id :: uuid
  er_features :: "string list"
  er_expires_at :: instant
  er_revoked_at :: "instant option"

record payment_event_row =
  pr_provider :: string
  pr_event_id :: string
  pr_event_type :: string
  pr_order_id :: "uuid option"
  pr_payload_hash :: string
  pr_received_at :: instant

record audit_row =
  ar_id :: uuid
  ar_tenant_id :: "uuid option"
  ar_actor :: string
  ar_action :: string
  ar_target :: string
  ar_summary :: string
  ar_created_at :: instant

record database =
  db_tenants :: "tenant_row list"
  db_users :: "user_row list"
  db_orders :: "order_row list"
  db_card_keys :: "card_key_row list"
  db_devices :: "device_row list"
  db_entitlements :: "entitlement_row list"
  db_payment_events :: "payment_event_row list"
  db_audit_events :: "audit_row list"

definition empty_database :: database where
  "empty_database =
     \<lparr> db_tenants = [], db_users = [], db_orders = [], db_card_keys = [], db_devices = [],
       db_entitlements = [], db_payment_events = [], db_audit_events = [] \<rparr>"

section \<open>Constraints\<close>

datatype sql_error = Violates string | RowNotFound

type_synonym checks = "(string \<times> bool) list"

fun violation :: "checks \<Rightarrow> sql_error option" where
  "violation [] = None"
| "violation ((name, holds) # cs) = (if holds then violation cs else Some (Violates name))"

lemma violation_None: "violation cs = None \<longleftrightarrow> (\<forall>(n, b) \<in> set cs. b)"
  by (induction cs rule: violation.induct) auto

lemma violation_Some: "violation cs = Some e \<Longrightarrow> \<exists>n. e = Violates n \<and> (n, False) \<in> set cs"
  by (induction cs rule: violation.induct) (auto split: if_splits)

text \<open>A unique index ignores NULLs, and a nullable reference may be NULL.\<close>

definition fresh_in :: "('r \<Rightarrow> 'k) \<Rightarrow> 'r list \<Rightarrow> 'r \<Rightarrow> bool" where
  "fresh_in k rows r \<longleftrightarrow> k r \<notin> set (map k rows)"

definition fresh_opt :: "('r \<Rightarrow> 'k option) \<Rightarrow> 'r list \<Rightarrow> 'r \<Rightarrow> bool" where
  "fresh_opt k rows r \<longleftrightarrow> k r = None \<or> k r \<notin> set (map k rows)"

definition refers :: "('r \<Rightarrow> 'k) \<Rightarrow> 'r list \<Rightarrow> 'k \<Rightarrow> bool" where
  "refers k rows v \<longleftrightarrow> v \<in> set (map k rows)"

definition refers_opt :: "('r \<Rightarrow> 'k) \<Rightarrow> 'r list \<Rightarrow> 'k option \<Rightarrow> bool" where
  "refers_opt k rows v \<longleftrightarrow> (case v of None \<Rightarrow> True | Some x \<Rightarrow> refers k rows x)"

definition currency_code :: "string \<Rightarrow> bool" where
  "currency_code c \<longleftrightarrow> length c = 3 \<and> list_all is_ascii_lower c"

definition known_features :: "string list" where
  "known_features = [''ozon_read'', ''ozon_write_mock'', ''draft_import1688_mock'',
     ''open_claw_bridge'', ''local_approval'']"

definition identity_anchor :: "user_row \<Rightarrow> bool" where
  "identity_anchor r \<longleftrightarrow>
     (ur_nebula_source r = ''skybridge'' \<and> ur_skybridge_user_id r \<noteq> None) \<or>
     (ur_nebula_source r = ''local_dev'' \<and> ur_skybridge_user_id r = None \<and>
        (ur_email r \<noteq> None \<or> ur_phone r \<noteq> None))"

text \<open>The checks of a row against the other rows of its table and the tables it refers to.\<close>

definition user_checks :: "database \<Rightarrow> user_row list \<Rightarrow> user_row \<Rightarrow> checks" where
  "user_checks d others r =
     [(''chk_users_identity_anchor'', identity_anchor r),
      (''chk_users_nebula_source'', ur_nebula_source r \<in> {''skybridge'', ''local_dev''}),
      (''users_role_check'', ur_role r \<in> {''user'', ''admin''}),
      (''users_pkey'', fresh_in ur_id others r),
      (''uq_users_email'', fresh_opt ur_email others r),
      (''uq_users_nebula_id'', fresh_in ur_nebula_id others r),
      (''uq_users_phone'', fresh_opt ur_phone others r),
      (''uq_users_skybridge_user_id'', fresh_opt ur_skybridge_user_id others r),
      (''users_tenant_id_fkey'', refers tr_id (db_tenants d) (ur_tenant_id r))]"

definition order_checks :: "database \<Rightarrow> order_row list \<Rightarrow> order_row \<Rightarrow> checks" where
  "order_checks d others r =
     [(''orders_amount_minor_check'', 0 \<le> or_amount_minor r),
      (''orders_currency_check'', currency_code (or_currency r)),
      (''orders_payment_provider_check'',
         or_payment_provider r \<in> {''manual'', ''stripe'', ''alipay'', ''wechat_pay''}),
      (''orders_status_check'',
         or_status r \<in> {''pending_manual_payment'', ''pending_provider_payment'', ''confirmed'', ''cancelled''}),
      (''orders_pkey'', fresh_in or_id others r),
      (''uq_orders_payment_reference'', fresh_in or_payment_reference others r),
      (''uq_orders_checkout_session_id'', fresh_opt or_checkout_session_id others r),
      (''orders_tenant_id_fkey'', refers tr_id (db_tenants d) (or_tenant_id r)),
      (''orders_user_id_fkey'', refers ur_id (db_users d) (or_user_id r))]"

definition card_key_checks :: "database \<Rightarrow> card_key_row list \<Rightarrow> card_key_row \<Rightarrow> checks" where
  "card_key_checks d others r =
     [(''card_keys_duration_days_check'', 0 < cr_duration_days r \<and> cr_duration_days r \<le> 65535),
      (''card_keys_max_devices_check'', 0 < cr_max_devices r \<and> cr_max_devices r \<le> 255),
      (''card_keys_status_check'', cr_status r \<in> {''available'', ''redeemed'', ''revoked''}),
      (''card_keys_pkey'', fresh_in cr_id others r),
      (''uq_card_keys_order_id'', fresh_opt cr_order_id others r),
      (''uq_card_keys_code_fingerprint'', fresh_in cr_code_fingerprint others r),
      (''card_keys_tenant_id_fkey'', refers tr_id (db_tenants d) (cr_tenant_id r)),
      (''card_keys_order_id_fkey'', refers_opt or_id (db_orders d) (cr_order_id r)),
      (''card_keys_redeemed_by_fkey'', refers_opt ur_id (db_users d) (cr_redeemed_by r))]"

definition device_checks :: "database \<Rightarrow> device_row list \<Rightarrow> device_row \<Rightarrow> checks" where
  "device_checks d others r =
     [(''devices_status_check'', dvr_status r \<in> {''active'', ''revoked''}),
      (''devices_pkey'', fresh_in dvr_id others r),
      (''uq_devices_user_fingerprint'',
         fresh_in (\<lambda>x. (dvr_user_id x, dvr_fingerprint_hash x)) others r),
      (''devices_tenant_id_fkey'', refers tr_id (db_tenants d) (dvr_tenant_id r)),
      (''devices_user_id_fkey'', refers ur_id (db_users d) (dvr_user_id r))]"

definition entitlement_checks ::
  "database \<Rightarrow> entitlement_row list \<Rightarrow> entitlement_row \<Rightarrow> checks" where
  "entitlement_checks d others r =
     [(''entitlements_features_check'', set (er_features r) \<subseteq> set known_features),
      (''entitlements_pkey'', fresh_in er_id others r),
      (''uq_entitlements_source_card_key'', fresh_in er_source_card_key_id others r),
      (''entitlements_tenant_id_fkey'', refers tr_id (db_tenants d) (er_tenant_id r)),
      (''entitlements_user_id_fkey'', refers ur_id (db_users d) (er_user_id r)),
      (''entitlements_source_card_key_id_fkey'',
         refers cr_id (db_card_keys d) (er_source_card_key_id r))]"

definition audit_checks :: "database \<Rightarrow> audit_row list \<Rightarrow> audit_row \<Rightarrow> checks" where
  "audit_checks d others r =
     [(''audit_events_pkey'', fresh_in ar_id others r),
      (''audit_events_tenant_id_fkey'', refers_opt tr_id (db_tenants d) (ar_tenant_id r))]"

section \<open>Statements\<close>

type_synonym 'a stmt = "(database, sql_error, 'a) act"

text \<open>An \<open>INSERT\<close> of one row, and an \<open>UPDATE ... WHERE ... RETURNING\<close>: each matching row is
  rewritten and checked against the rest of the table as it stands.\<close>

definition insert_checked :: "checks \<Rightarrow> (database \<Rightarrow> database) \<Rightarrow> unit stmt" where
  "insert_checked cs f d =
     (case violation cs of Some e \<Rightarrow> (Inl e, d) | None \<Rightarrow> (Inr (), f d))"

fun update_rows ::
  "('r \<Rightarrow> bool) \<Rightarrow> ('r \<Rightarrow> 'r) \<Rightarrow> ('r list \<Rightarrow> 'r \<Rightarrow> checks) \<Rightarrow> 'r list \<Rightarrow> 'r list \<Rightarrow>
     sql_error + ('r list \<times> 'r list)" where
  "update_rows P f chk seen [] = Inr ([], seen)"
| "update_rows P f chk seen (r # rs) =
     (if P r then
        (case violation (chk (seen @ rs) (f r)) of
           Some e \<Rightarrow> Inl e
         | None \<Rightarrow> bind_res (update_rows P f chk (seen @ [f r]) rs)
                     (\<lambda>(out, t). Inr (f r # out, t)))
      else update_rows P f chk (seen @ [r]) rs)"

lemma update_rows_result:
  "update_rows P f chk seen rows = Inr (out, t) \<Longrightarrow>
     t = seen @ map (\<lambda>r. if P r then f r else r) rows \<and> out = map f (filter P rows)"
proof (induction rows arbitrary: seen out t)
  case (Cons r rs)
  show ?case
  proof (cases "P r")
    case True
    with Cons.prems obtain out' where "update_rows P f chk (seen @ [f r]) rs = Inr (out', t)"
      "out = f r # out'"
      by (auto simp: bind_res_Inr split: option.splits)
    with True Cons.IH [of "seen @ [f r]" out' t] show ?thesis by simp
  next
    case False
    with Cons.prems Cons.IH [of "seen @ [r]" out t] show ?thesis by simp
  qed
qed simp

lemma update_rows_none: "\<forall>r \<in> set rows. \<not> P r \<Longrightarrow> update_rows P f chk seen rows = Inr ([], seen @ rows)"
  by (induction rows arbitrary: seen) auto

lemma update_rows_one:
  assumes "\<forall>x \<in> set as \<union> set bs. \<not> P x" and "P r"
  shows "update_rows P f chk seen (as @ r # bs) =
    (case violation (chk (seen @ as @ bs) (f r)) of
       Some e \<Rightarrow> Inl e | None \<Rightarrow> Inr ([f r], seen @ as @ f r # bs))"
  using assms
proof (induction as arbitrary: seen)
  case Nil
  then show ?case by (simp add: update_rows_none split: option.split)
qed (simp split: option.split)

text \<open>The update of a table as a statement.\<close>

definition update_checked ::
  "(database \<Rightarrow> 'r list) \<Rightarrow> ('r list \<Rightarrow> database \<Rightarrow> database) \<Rightarrow>
   (database \<Rightarrow> 'r list \<Rightarrow> 'r \<Rightarrow> checks) \<Rightarrow> ('r \<Rightarrow> bool) \<Rightarrow> ('r \<Rightarrow> 'r) \<Rightarrow> 'r list stmt" where
  "update_checked table put chk P f d =
     (case update_rows P f (chk d) [] (table d) of
        Inl e \<Rightarrow> (Inl e, d)
      | Inr (out, t) \<Rightarrow> (Inr out, put t d))"

lemma update_checked_Inr:
  "update_checked table put chk P f d = (Inr out, e) \<Longrightarrow>
     out = map f (filter P (table d)) \<and> e = put (map (\<lambda>r. if P r then f r else r) (table d)) d"
  by (auto simp: update_checked_def dest!: update_rows_result split: sum.splits prod.splits)

lemma update_checked_Inl: "update_checked table put chk P f d = (Inl x, e) \<Longrightarrow> e = d"
  by (auto simp: update_checked_def split: sum.splits prod.splits)

definition put_users :: "user_row list \<Rightarrow> database \<Rightarrow> database" where
  "put_users t d = d\<lparr>db_users := t\<rparr>"

definition put_orders :: "order_row list \<Rightarrow> database \<Rightarrow> database" where
  "put_orders t d = d\<lparr>db_orders := t\<rparr>"

definition put_card_keys :: "card_key_row list \<Rightarrow> database \<Rightarrow> database" where
  "put_card_keys t d = d\<lparr>db_card_keys := t\<rparr>"

definition put_devices :: "device_row list \<Rightarrow> database \<Rightarrow> database" where
  "put_devices t d = d\<lparr>db_devices := t\<rparr>"

definition put_entitlements :: "entitlement_row list \<Rightarrow> database \<Rightarrow> database" where
  "put_entitlements t d = d\<lparr>db_entitlements := t\<rparr>"

lemmas put_defs = put_users_def put_orders_def put_card_keys_def put_devices_def put_entitlements_def

text \<open>\<open>insert_tenant\<close>: \<open>ON CONFLICT (id) DO NOTHING\<close>.\<close>

definition sql_insert_tenant :: "tenant_row \<Rightarrow> unit stmt" where
  "sql_insert_tenant r d =
     (if fresh_in tr_id (db_tenants d) r
      then (Inr (), d\<lparr>db_tenants := db_tenants d @ [r]\<rparr>) else (Inr (), d))"

definition sql_insert_user :: "user_row \<Rightarrow> unit stmt" where
  "sql_insert_user r d =
     insert_checked (user_checks d (db_users d) r) (\<lambda>d. d\<lparr>db_users := db_users d @ [r]\<rparr>) d"

text \<open>The statement of \<open>update_skybridge_user\<close>, with its bound values as arguments.\<close>

definition sql_update_skybridge_user ::
  "uuid \<Rightarrow> string \<Rightarrow> uuid \<Rightarrow> string option \<Rightarrow> string option \<Rightarrow> string option \<Rightarrow> instant
   \<Rightarrow> user_row list stmt" where
  "sql_update_skybridge_user i nebula sky email phone name now =
     update_checked db_users put_users user_checks (\<lambda>r. ur_id r = i)
       (\<lambda>r. r\<lparr> ur_nebula_id := nebula, ur_nebula_source := ''skybridge'',
              ur_skybridge_user_id := Some sky, ur_email := email, ur_phone := phone,
              ur_name := (case name of None \<Rightarrow> ur_name r | Some _ \<Rightarrow> name),
              ur_email_verified_at :=
                (case ur_email_verified_at r of None \<Rightarrow> Some now | v \<Rightarrow> v) \<rparr>)"

definition sql_insert_order :: "order_row \<Rightarrow> unit stmt" where
  "sql_insert_order r d =
     insert_checked (order_checks d (db_orders d) r) (\<lambda>d. d\<lparr>db_orders := db_orders d @ [r]\<rparr>) d"

definition confirmed_row :: "instant \<Rightarrow> order_row \<Rightarrow> order_row" where
  "confirmed_row now r =
     r\<lparr> or_status := ''confirmed'', or_paid_at := Some now, or_confirmed_at := Some now \<rparr>"

definition sql_confirm_pending :: "uuid \<Rightarrow> instant \<Rightarrow> order_row list stmt" where
  "sql_confirm_pending i now =
     update_checked db_orders put_orders order_checks
       (\<lambda>r. or_id r = i \<and> or_status r = ''pending_manual_payment'') (confirmed_row now)"

definition sql_confirm_pending_by_reference :: "string \<Rightarrow> instant \<Rightarrow> order_row list stmt" where
  "sql_confirm_pending_by_reference reference now =
     update_checked db_orders put_orders order_checks
       (\<lambda>r. or_payment_reference r = reference \<and> or_status r = ''pending_manual_payment'')
       (confirmed_row now)"

definition sql_attach_checkout_session :: "uuid \<Rightarrow> string \<Rightarrow> order_row list stmt" where
  "sql_attach_checkout_session i session =
     update_checked db_orders put_orders order_checks
       (\<lambda>r. or_id r = i \<and> or_status r = ''pending_provider_payment'')
       (\<lambda>r. r\<lparr> or_checkout_session_id := Some session, or_payment_reference := session \<rparr>)"

definition sql_confirm_provider ::
  "uuid \<Rightarrow> string option \<Rightarrow> instant \<Rightarrow> order_row list stmt" where
  "sql_confirm_provider i intent paid_at =
     update_checked db_orders put_orders order_checks
       (\<lambda>r. or_id r = i \<and> or_status r = ''pending_provider_payment'')
       (\<lambda>r. (confirmed_row paid_at r)\<lparr> or_payment_intent_id := intent \<rparr>)"

text \<open>\<open>insert_payment_event\<close>: \<open>ON CONFLICT (provider, event_id) DO NOTHING\<close>, returning the
  number of rows inserted; the check constraint is evaluated before the conflict is, the
  foreign key only for a row that was inserted.\<close>

definition sql_insert_payment_event :: "payment_event_row \<Rightarrow> nat stmt" where
  "sql_insert_payment_event r d =
     (if pr_provider r \<notin> {''stripe'', ''alipay'', ''wechat_pay''}
      then (Inl (Violates ''payment_events_provider_check''), d)
      else if \<not> fresh_in (\<lambda>x. (pr_provider x, pr_event_id x)) (db_payment_events d) r
      then (Inr 0, d)
      else if \<not> refers_opt or_id (db_orders d) (pr_order_id r)
      then (Inl (Violates ''payment_events_order_id_fkey''), d)
      else (Inr 1, d\<lparr>db_payment_events := db_payment_events d @ [r]\<rparr>))"

definition sql_insert_card_key :: "card_key_row \<Rightarrow> unit stmt" where
  "sql_insert_card_key r d =
     insert_checked (card_key_checks d (db_card_keys d) r)
       (\<lambda>d. d\<lparr>db_card_keys := db_card_keys d @ [r]\<rparr>) d"

definition redeemed_row :: "uuid \<Rightarrow> instant \<Rightarrow> card_key_row \<Rightarrow> card_key_row" where
  "redeemed_row user at r =
     r\<lparr> cr_status := ''redeemed'', cr_redeemed_by := Some user, cr_redeemed_at := Some at \<rparr>"

definition sql_mark_card_key_redeemed :: "uuid \<Rightarrow> uuid \<Rightarrow> instant \<Rightarrow> card_key_row list stmt" where
  "sql_mark_card_key_redeemed i user at =
     update_checked db_card_keys put_card_keys card_key_checks
       (\<lambda>r. cr_id r = i \<and> cr_status r = ''available'') (redeemed_row user at)"

definition sql_insert_entitlement :: "entitlement_row \<Rightarrow> unit stmt" where
  "sql_insert_entitlement r d =
     insert_checked (entitlement_checks d (db_entitlements d) r)
       (\<lambda>d. d\<lparr>db_entitlements := db_entitlements d @ [r]\<rparr>) d"

text \<open>\<open>upsert_device\<close>: \<open>ON CONFLICT ON CONSTRAINT uq_devices_user_fingerprint DO UPDATE\<close>.\<close>

definition same_device :: "device_row \<Rightarrow> device_row \<Rightarrow> bool" where
  "same_device r x \<longleftrightarrow> dvr_user_id x = dvr_user_id r \<and> dvr_fingerprint_hash x = dvr_fingerprint_hash r"

definition sql_upsert_device :: "device_row \<Rightarrow> device_row list stmt" where
  "sql_upsert_device r d =
     (if dvr_status r \<notin> {''active'', ''revoked''} then (Inl (Violates ''devices_status_check''), d)
      else if list_ex (same_device r) (db_devices d)
      then update_checked db_devices put_devices device_checks (same_device r)
             (\<lambda>x. x\<lparr> dvr_name := dvr_name r, dvr_status := ''active'',
                    dvr_last_seen_at := dvr_last_seen_at r \<rparr>) d
      else andthen (insert_checked (device_checks d (db_devices d) r)
             (\<lambda>d. d\<lparr>db_devices := db_devices d @ [r]\<rparr>)) (\<lambda>_. ret [r]) d)"

definition sql_touch_device :: "uuid \<Rightarrow> instant \<Rightarrow> device_row list stmt" where
  "sql_touch_device i seen_at =
     update_checked db_devices put_devices device_checks (\<lambda>r. dvr_id r = i)
       (\<lambda>r. r\<lparr> dvr_last_seen_at := Some seen_at \<rparr>)"

definition sql_revoke_entitlement :: "uuid \<Rightarrow> instant \<Rightarrow> entitlement_row list stmt" where
  "sql_revoke_entitlement i now =
     update_checked db_entitlements put_entitlements entitlement_checks (\<lambda>r. er_id r = i)
       (\<lambda>r. r\<lparr> er_revoked_at := Some now \<rparr>)"

definition sql_insert_audit :: "audit_row \<Rightarrow> unit stmt" where
  "sql_insert_audit r d =
     insert_checked (audit_checks d (db_audit_events d) r)
       (\<lambda>d. d\<lparr>db_audit_events := db_audit_events d @ [r]\<rparr>) d"

text \<open>One write of the database. The plain writes leave the settlement of orders and
  entitlements alone; the settling writes, with any values bound, are the rest.\<close>

inductive plain_write :: "database \<Rightarrow> database \<Rightarrow> bool" where
  "plain_write d (snd (sql_insert_tenant t d))"
| "plain_write d (snd (sql_insert_user u d))"
| "plain_write d (snd (sql_update_skybridge_user i nebula sky em ph nm now d))"
| "or_status o1 \<noteq> ''confirmed'' \<Longrightarrow> plain_write d (snd (sql_insert_order o1 d))"
| "plain_write d (snd (sql_attach_checkout_session i session d))"
| "plain_write d (snd (sql_insert_payment_event p d))"
| "cr_order_id c = None \<Longrightarrow> plain_write d (snd (sql_insert_card_key c d))"
| "plain_write d (snd (sql_mark_card_key_redeemed i usr now d))"
| "plain_write d (snd (sql_upsert_device v d))"
| "plain_write d (snd (sql_touch_device i now d))"
| "plain_write d (snd (sql_revoke_entitlement i now d))"
| "plain_write d (snd (sql_insert_audit a d))"

inductive settling_write :: "database \<Rightarrow> database \<Rightarrow> bool" where
  "settling_write d (snd (sql_insert_order o1 d))"
| "settling_write d (snd (sql_confirm_pending i now d))"
| "settling_write d (snd (sql_confirm_pending_by_reference rf now d))"
| "settling_write d (snd (sql_confirm_provider i intent now d))"
| "settling_write d (snd (sql_insert_card_key c d))"
| "settling_write d (snd (sql_insert_entitlement e d))"

inductive_cases plain_write_cases: "plain_write d e"
inductive_cases settling_write_cases: "settling_write d e"

section \<open>The contracts of the statements\<close>

locale db_relation =
  fixes Q :: "database \<Rightarrow> database \<Rightarrow> bool"
  assumes Q_refl: "Q d d"
    and Q_trans: "Q d e \<Longrightarrow> Q e f \<Longrightarrow> Q d f"

locale db_contract = db_relation +
  assumes Q_plain: "plain_write d e \<Longrightarrow> Q d e"
begin

lemma plain_writes_keep [keeps_intros]:
  "keeps Q (sql_insert_tenant t)" "keeps Q (sql_insert_user u)"
  "keeps Q (sql_update_skybridge_user i nebula sky em ph nm now)"
  "or_status o1 \<noteq> ''confirmed'' \<Longrightarrow> keeps Q (sql_insert_order o1)"
  "keeps Q (sql_attach_checkout_session i session)" "keeps Q (sql_insert_payment_event p)"
  "cr_order_id c = None \<Longrightarrow> keeps Q (sql_insert_card_key c)"
  "keeps Q (sql_mark_card_key_redeemed i usr now)" "keeps Q (sql_upsert_device v)"
  "keeps Q (sql_touch_device i now)" "keeps Q (sql_revoke_entitlement i now)"
  "keeps Q (sql_insert_audit a)"
  unfolding keeps_def by (blast intro: Q_plain plain_write.intros)+

end

locale statement_contract = db_contract +
  assumes Q_settling: "settling_write d e \<Longrightarrow> Q d e"
begin

lemma settling_writes_keep [keeps_intros]:
  "keeps Q (sql_confirm_pending i now)" "keeps Q (sql_confirm_pending_by_reference rf now)"
  "keeps Q (sql_confirm_provider i intent now)" "keeps Q (sql_insert_card_key c)"
  "keeps Q (sql_insert_entitlement e)"
  unfolding keeps_def by (blast intro: Q_settling settling_write.intros)+

end

end
