(* ===== verification/CloudRows.thy ===== *)
theory CloudRows
  imports CloudSchema
begin

text \<open>
  The boundary between the domain records and the database rows
  (\<open>apps/cloud-api/src/main.rs\<close>): the API error type, the text encodings of the enums, the
  values each \<open>INSERT\<close> binds, and the decoders \<open>row_to_*\<close> with their error branches. A row
  that was bound from a well-formed record decodes to that record.
\<close>

section \<open>Errors\<close>

record api_error =
  err_status :: nat
  err_message :: string

definition bad_request :: "string \<Rightarrow> api_error" where
  "bad_request m = \<lparr> err_status = 400, err_message = m \<rparr>"

definition unauthorized :: "string \<Rightarrow> api_error" where
  "unauthorized m = \<lparr> err_status = 401, err_message = m \<rparr>"

definition forbidden :: "string \<Rightarrow> api_error" where
  "forbidden m = \<lparr> err_status = 403, err_message = m \<rparr>"

definition not_found :: "string \<Rightarrow> api_error" where
  "not_found m = \<lparr> err_status = 404, err_message = m \<rparr>"

definition conflict :: "string \<Rightarrow> api_error" where
  "conflict m = \<lparr> err_status = 409, err_message = m \<rparr>"

definition bad_gateway :: "string \<Rightarrow> api_error" where
  "bad_gateway m = \<lparr> err_status = 502, err_message = m \<rparr>"

definition service_unavailable :: "string \<Rightarrow> api_error" where
  "service_unavailable m = \<lparr> err_status = 503, err_message = m \<rparr>"

definition internal :: "string \<Rightarrow> api_error" where
  "internal m = \<lparr> err_status = 500, err_message = m \<rparr>"

lemmas error_defs = bad_request_def unauthorized_def forbidden_def not_found_def conflict_def
  bad_gateway_def service_unavailable_def internal_def

definition db_internal :: "sql_error \<Rightarrow> api_error" where
  "db_internal e = internal ''database operation failed''"

definition map_unique_conflict :: "string \<Rightarrow> string \<Rightarrow> sql_error \<Rightarrow> api_error" where
  "map_unique_conflict constraint message e =
     (case e of
        Violates c \<Rightarrow> if c = constraint then conflict message else db_internal e
      | RowNotFound \<Rightarrow> db_internal e)"

definition map_identity_unique_conflict :: "sql_error \<Rightarrow> api_error" where
  "map_identity_unique_conflict e =
     (case e of
        Violates c \<Rightarrow>
          if c = ''uq_users_email'' then conflict ''email already registered''
          else if c = ''uq_users_phone'' then conflict ''phone already registered''
          else if c = ''uq_users_nebula_id'' then conflict ''nebula id already allocated''
          else if c = ''uq_users_skybridge_user_id'' then conflict ''SkyBridge user already linked''
          else db_internal e
      | RowNotFound \<Rightarrow> db_internal e)"

section \<open>Enums as text\<close>

fun user_role_to_db :: "user_role \<Rightarrow> string" where
  "user_role_to_db UserRole = ''user''"
| "user_role_to_db AdminRole = ''admin''"

definition user_role_from_db :: "string \<Rightarrow> api_error + user_role" where
  "user_role_from_db v =
     (if v = ''user'' then Inr UserRole
      else if v = ''admin'' then Inr AdminRole
      else Inl (internal ''invalid user role in database''))"

fun nebula_source_to_db :: "nebula_source \<Rightarrow> string" where
  "nebula_source_to_db Skybridge = ''skybridge''"
| "nebula_source_to_db LocalDev = ''local_dev''"

definition nebula_source_from_db :: "string \<Rightarrow> api_error + nebula_source" where
  "nebula_source_from_db v =
     (if v = ''skybridge'' then Inr Skybridge
      else if v = ''local_dev'' then Inr LocalDev
      else Inl (internal ''invalid nebula source in database''))"

fun order_status_to_db :: "order_status \<Rightarrow> string" where
  "order_status_to_db PendingManualPayment = ''pending_manual_payment''"
| "order_status_to_db PendingProviderPayment = ''pending_provider_payment''"
| "order_status_to_db OrderConfirmed = ''confirmed''"
| "order_status_to_db OrderCancelled = ''cancelled''"

definition order_status_from_db :: "string \<Rightarrow> api_error + order_status" where
  "order_status_from_db v =
     (if v = ''pending_manual_payment'' then Inr PendingManualPayment
      else if v = ''pending_provider_payment'' then Inr PendingProviderPayment
      else if v = ''confirmed'' then Inr OrderConfirmed
      else if v = ''cancelled'' then Inr OrderCancelled
      else Inl (internal ''invalid order status in database''))"

fun payment_provider_to_db :: "payment_provider \<Rightarrow> string" where
  "payment_provider_to_db Manual = ''manual''"
| "payment_provider_to_db Stripe = ''stripe''"
| "payment_provider_to_db Alipay = ''alipay''"
| "payment_provider_to_db WechatPay = ''wechat_pay''"

definition payment_provider_from_db :: "string \<Rightarrow> api_error + payment_provider" where
  "payment_provider_from_db v =
     (if v = ''manual'' then Inr Manual
      else if v = ''stripe'' then Inr Stripe
      else if v = ''alipay'' then Inr Alipay
      else if v = ''wechat_pay'' then Inr WechatPay
      else Inl (internal ''invalid payment provider in database''))"

fun card_key_status_to_db :: "card_key_status \<Rightarrow> string" where
  "card_key_status_to_db CardAvailable = ''available''"
| "card_key_status_to_db CardRedeemed = ''redeemed''"
| "card_key_status_to_db CardRevoked = ''revoked''"

definition card_key_status_from_db :: "string \<Rightarrow> api_error + card_key_status" where
  "card_key_status_from_db v =
     (if v = ''available'' then Inr CardAvailable
      else if v = ''redeemed'' then Inr CardRedeemed
      else if v = ''revoked'' then Inr CardRevoked
      else Inl (internal ''invalid card key status in database''))"

fun device_status_to_db :: "device_status \<Rightarrow> string" where
  "device_status_to_db DeviceActive = ''active''"
| "device_status_to_db DeviceRevoked = ''revoked''"

definition device_status_from_db :: "string \<Rightarrow> api_error + device_status" where
  "device_status_from_db v =
     (if v = ''active'' then Inr DeviceActive
      else if v = ''revoked'' then Inr DeviceRevoked
      else Inl (internal ''invalid device status in database''))"

fun feature_to_db :: "feature \<Rightarrow> string" where
  "feature_to_db OzonRead = ''ozon_read''"
| "feature_to_db OzonWriteMock = ''ozon_write_mock''"
| "feature_to_db DraftImport1688Mock = ''draft_import1688_mock''"
| "feature_to_db OpenClawBridge = ''open_claw_bridge''"
| "feature_to_db LocalApproval = ''local_approval''"

definition feature_from_db :: "string \<Rightarrow> api_error + feature" where
  "feature_from_db v =
     (if v = ''ozon_read'' then Inr OzonRead
      else if v = ''ozon_write_mock'' then Inr OzonWriteMock
      else if v = ''draft_import1688_mock'' then Inr DraftImport1688Mock
      else if v = ''open_claw_bridge'' then Inr OpenClawBridge
      else if v = ''local_approval'' then Inr LocalApproval
      else Inl (internal ''invalid feature in database''))"

definition i32_to_u16 :: "int \<Rightarrow> string \<Rightarrow> api_error + u16" where
  "i32_to_u16 v field =
     (if 0 \<le> v \<and> v < 65536 then Inr (word_of_int v)
      else Inl (internal (''invalid '' @ field @ '' in database'')))"

definition i32_to_u8 :: "int \<Rightarrow> string \<Rightarrow> api_error + u8" where
  "i32_to_u8 v field =
     (if 0 \<le> v \<and> v < 256 then Inr (word_of_int v)
      else Inl (internal (''invalid '' @ field @ '' in database'')))"

named_theorems code_simps "evaluation of the text encodings"

lemmas [code_simps] = user_role_from_db_def nebula_source_from_db_def order_status_from_db_def
  payment_provider_from_db_def card_key_status_from_db_def device_status_from_db_def
  feature_from_db_def

lemma enum_codes [simp]:
  "user_role_from_db (user_role_to_db a) = Inr a"
  "nebula_source_from_db (nebula_source_to_db b) = Inr b"
  "order_status_from_db (order_status_to_db c) = Inr c"
  "payment_provider_from_db (payment_provider_to_db d) = Inr d"
  "card_key_status_from_db (card_key_status_to_db e) = Inr e"
  "device_status_from_db (device_status_to_db f) = Inr f"
  "feature_from_db (feature_to_db g) = Inr g"
  by - ((cases a; simp add: code_simps), (cases b; simp add: code_simps),
    (cases c; simp add: code_simps), (cases d; simp add: code_simps),
    (cases e; simp add: code_simps), (cases f; simp add: code_simps),
    (cases g; simp add: code_simps))

lemma int_codes [simp]:
  "i32_to_u16 (uint d) field = Inr d" "i32_to_u8 (uint m) field = Inr m"
  using uint_lt2p [of d] uint_lt2p [of m] by (simp_all add: i32_to_u16_def i32_to_u8_def)

section \<open>Rows from records\<close>

text \<open>The values bound by \<open>insert_user\<close>, \<open>insert_order\<close>, \<open>insert_card_key\<close>,
  \<open>insert_entitlement\<close>, \<open>upsert_device\<close> and \<open>insert_audit\<close>.\<close>

definition user_row_of :: "user \<Rightarrow> user_row" where
  "user_row_of u =
     \<lparr> ur_id = user_uuid (usr_id u), ur_tenant_id = tenant_uuid (usr_tenant_id u),
       ur_nebula_id = nebula_str (usr_nebula_id u),
       ur_nebula_source = nebula_source_to_db (usr_nebula_source u),
       ur_skybridge_user_id = usr_skybridge_user_id u,
       ur_email = map_option email_str (usr_email u),
       ur_phone = map_option phone_str (usr_phone u),
       ur_name = usr_name u, ur_password_hash = usr_password_hash u,
       ur_role = user_role_to_db (usr_role u),
       ur_email_verified_at = usr_email_verified_at u,
       ur_phone_verified_at = usr_phone_verified_at u,
       ur_created_at = usr_created_at u \<rparr>"

definition order_row_of :: "order \<Rightarrow> order_row" where
  "order_row_of r =
     \<lparr> or_id = order_uuid (ord_id r), or_tenant_id = tenant_uuid (ord_tenant_id r),
       or_user_id = user_uuid (ord_user_id r), or_plan_code = plan_str (ord_plan_code r),
       or_status = order_status_to_db (ord_status r),
       or_payment_provider = payment_provider_to_db (ord_payment_provider r),
       or_payment_reference = ord_payment_reference r, or_amount_minor = ord_amount_minor r,
       or_currency = ord_currency r, or_checkout_session_id = ord_checkout_session_id r,
       or_payment_intent_id = ord_payment_intent_id r, or_paid_at = ord_paid_at r,
       or_created_at = ord_created_at r, or_confirmed_at = ord_confirmed_at r \<rparr>"

definition card_key_row_of :: "card_key \<Rightarrow> order_id option \<Rightarrow> card_key_row" where
  "card_key_row_of c i =
     \<lparr> cr_id = card_key_uuid (ck_id c), cr_tenant_id = tenant_uuid (ck_tenant_id c),
       cr_order_id = map_option order_uuid i, cr_plan_code = plan_str (ck_plan_code c),
       cr_code_hash = ck_code_hash c, cr_code_fingerprint = ck_code_fingerprint c,
       cr_duration_days = uint (ck_duration_days c), cr_max_devices = uint (ck_max_devices c),
       cr_status = card_key_status_to_db (ck_status c),
       cr_redeemed_by = map_option user_uuid (ck_redeemed_by c),
       cr_redeemed_at = ck_redeemed_at c, cr_created_at = ck_created_at c \<rparr>"

definition device_row_of :: "device \<Rightarrow> device_row" where
  "device_row_of v =
     \<lparr> dvr_id = device_uuid (dev_id v), dvr_tenant_id = tenant_uuid (dev_tenant_id v),
       dvr_user_id = user_uuid (dev_user_id v), dvr_name = dev_name v,
       dvr_fingerprint_hash = dev_fingerprint_hash v,
       dvr_status = device_status_to_db (dev_status v),
       dvr_activated_at = dev_activated_at v, dvr_last_seen_at = dev_last_seen_at v \<rparr>"

definition entitlement_row_of :: "entitlement \<Rightarrow> entitlement_row" where
  "entitlement_row_of e =
     \<lparr> er_id = entitlement_uuid (ent_id e), er_tenant_id = tenant_uuid (ent_tenant_id e),
       er_user_id = user_uuid (ent_user_id e), er_plan_code = plan_str (ent_plan_code e),
       er_source_card_key_id = card_key_uuid (ent_source_card_key_id e),
       er_features = map feature_to_db (ent_features e),
       er_expires_at = ent_expires_at e, er_revoked_at = ent_revoked_at e \<rparr>"

definition audit_row_of :: "audit_event \<Rightarrow> audit_row" where
  "audit_row_of a =
     \<lparr> ar_id = audit_uuid (aud_id a), ar_tenant_id = map_option tenant_uuid (aud_tenant_id a),
       ar_actor = aud_actor a, ar_action = aud_action a, ar_target = aud_target a,
       ar_summary = aud_summary a, ar_created_at = aud_created_at a \<rparr>"

section \<open>Records from rows\<close>

definition row_to_user :: "user_row \<Rightarrow> api_error + user" where
  "row_to_user r =
     bind_res (map_err (\<lambda>_. internal ''invalid nebula id in database'') (nebula_parse (ur_nebula_id r)))
       (\<lambda>nebula. bind_res (nebula_source_from_db (ur_nebula_source r))
       (\<lambda>source. bind_res (map_err (\<lambda>_. internal ''invalid email in database'')
                            (transpose_map email_parse (ur_email r)))
       (\<lambda>email. bind_res (map_err (\<lambda>_. internal ''invalid phone number in database'')
                            (transpose_map phone_parse (ur_phone r)))
       (\<lambda>phone. bind_res (user_role_from_db (ur_role r))
       (\<lambda>role. Inr
     \<lparr> usr_id = UserId (ur_id r), usr_tenant_id = TenantId (ur_tenant_id r),
       usr_nebula_id = nebula, usr_nebula_source = source,
       usr_skybridge_user_id = ur_skybridge_user_id r, usr_email = email, usr_phone = phone,
       usr_name = ur_name r, usr_password_hash = ur_password_hash r, usr_role = role,
       usr_email_verified_at = ur_email_verified_at r,
       usr_phone_verified_at = ur_phone_verified_at r, usr_created_at = ur_created_at r \<rparr>)))))"

definition row_to_order :: "order_row \<Rightarrow> api_error + order" where
  "row_to_order r =
     bind_res (order_status_from_db (or_status r))
       (\<lambda>status. bind_res (payment_provider_from_db (or_payment_provider r))
       (\<lambda>provider. Inr
     \<lparr> ord_id = OrderId (or_id r), ord_tenant_id = TenantId (or_tenant_id r),
       ord_user_id = UserId (or_user_id r), ord_plan_code = PlanCode (or_plan_code r),
       ord_status = status, ord_payment_provider = provider,
       ord_payment_reference = or_payment_reference r, ord_amount_minor = or_amount_minor r,
       ord_currency = or_currency r, ord_checkout_session_id = or_checkout_session_id r,
       ord_payment_intent_id = or_payment_intent_id r, ord_paid_at = or_paid_at r,
       ord_created_at = or_created_at r, ord_confirmed_at = or_confirmed_at r \<rparr>))"

definition row_to_card_key :: "card_key_row \<Rightarrow> api_error + card_key" where
  "row_to_card_key r =
     bind_res (i32_to_u16 (cr_duration_days r) ''duration_days'')
       (\<lambda>duration. bind_res (i32_to_u8 (cr_max_devices r) ''max_devices'')
       (\<lambda>devices. bind_res (card_key_status_from_db (cr_status r))
       (\<lambda>status. Inr
     \<lparr> ck_id = CardKeyId (cr_id r), ck_tenant_id = TenantId (cr_tenant_id r),
       ck_plan_code = PlanCode (cr_plan_code r), ck_code_hash = cr_code_hash r,
       ck_code_fingerprint = cr_code_fingerprint r, ck_duration_days = duration,
       ck_max_devices = devices, ck_status = status,
       ck_redeemed_by = map_option UserId (cr_redeemed_by r),
       ck_redeemed_at = cr_redeemed_at r, ck_created_at = cr_created_at r \<rparr>)))"

definition row_to_device :: "device_row \<Rightarrow> api_error + device" where
  "row_to_device r =
     bind_res (device_status_from_db (dvr_status r)) (\<lambda>status. Inr
     \<lparr> dev_id = DeviceId (dvr_id r), dev_tenant_id = TenantId (dvr_tenant_id r),
       dev_user_id = UserId (dvr_user_id r), dev_name = dvr_name r,
       dev_fingerprint_hash = dvr_fingerprint_hash r, dev_status = status,
       dev_activated_at = dvr_activated_at r, dev_last_seen_at = dvr_last_seen_at r \<rparr>)"

definition row_to_entitlement :: "entitlement_row \<Rightarrow> api_error + entitlement" where
  "row_to_entitlement r =
     bind_res (collect_res feature_from_db (er_features r)) (\<lambda>features. Inr
     \<lparr> ent_id = EntitlementId (er_id r), ent_tenant_id = TenantId (er_tenant_id r),
       ent_user_id = UserId (er_user_id r), ent_plan_code = PlanCode (er_plan_code r),
       ent_source_card_key_id = CardKeyId (er_source_card_key_id r), ent_features = features,
       ent_expires_at = er_expires_at r, ent_revoked_at = er_revoked_at r \<rparr>)"

definition row_to_entitlement_device_limit :: "card_key_row \<Rightarrow> api_error + u8" where
  "row_to_entitlement_device_limit r = i32_to_u8 (cr_max_devices r) ''max_devices''"

definition row_to_audit :: "audit_row \<Rightarrow> audit_event" where
  "row_to_audit r =
     \<lparr> aud_id = AuditEventId (ar_id r), aud_tenant_id = map_option TenantId (ar_tenant_id r),
       aud_actor = ar_actor r, aud_action = ar_action r, aud_target = ar_target r,
       aud_summary = ar_summary r, aud_created_at = ar_created_at r \<rparr>"

section \<open>Round trips\<close>

definition user_ok :: "user \<Rightarrow> bool" where
  "user_ok u \<longleftrightarrow> nebula_ok (usr_nebula_id u)
     \<and> (\<forall>e \<in> set_option (usr_email u). email_ok e) \<and> (\<forall>p \<in> set_option (usr_phone u). phone_ok p)"

named_theorems decode_simps "decoding a bound row"

lemma order_decode [decode_simps]: "row_to_order (order_row_of r) = Inr r"
  by (simp add: row_to_order_def order_row_of_def)

lemma card_key_decode [decode_simps]: "row_to_card_key (card_key_row_of c i) = Inr c"
  by (simp add: row_to_card_key_def card_key_row_of_def option.map_comp comp_def option.map_ident)

lemma device_decode [decode_simps]: "row_to_device (device_row_of v) = Inr v"
  by (simp add: row_to_device_def device_row_of_def)

lemma features_decode [simp]: "collect_res feature_from_db (map feature_to_db fs) = Inr fs"
  by (rule collect_res_map) simp

lemma entitlement_decode [decode_simps]: "row_to_entitlement (entitlement_row_of e) = Inr e"
  by (simp add: row_to_entitlement_def entitlement_row_of_def)

lemma audit_decode [decode_simps]: "row_to_audit (audit_row_of a) = a"
  by (simp add: row_to_audit_def audit_row_of_def option.map_comp comp_def option.map_ident)

lemma user_decode:
  assumes "user_ok u"
  shows "row_to_user (user_row_of u) = Inr u"
proof -
  have e: "transpose_map email_parse (map_option email_str (usr_email u)) = Inr (usr_email u)"
    using assms by (cases "usr_email u") (simp_all add: user_ok_def email_ok_def)
  have p: "transpose_map phone_parse (map_option phone_str (usr_phone u)) = Inr (usr_phone u)"
    using assms by (cases "usr_phone u") (simp_all add: user_ok_def phone_ok_def)
  have n: "nebula_parse (nebula_str (usr_nebula_id u)) = Inr (usr_nebula_id u)"
    using assms by (simp add: user_ok_def nebula_ok_def)
  show ?thesis by (simp add: row_to_user_def user_row_of_def e p n)
qed

end
