(* ===== verification/Crates.thy ===== *)
theory Crates
  imports Ambient Domain
begin

text \<open>
  The third-party code the suite calls. What the crates compute is not in the repository, so
  it is a parameter of the model: the fields of \<open>crates\<close> are the functions of the crates that
  the source calls, and the definitions that use them take such a record as their argument
  \<open>x\<close>. So are the Unicode tables behind \<open>to_lowercase\<close> and \<open>{:?}\<close>, of which
  the prelude only has the ASCII part. RSA keys are the bytes of their DER encoding. JSON documents are \<open>serde_json::Value\<close>;
  the deserializers that \<open>derive(Deserialize)\<close> produces from the struct declarations of the
  source are the \<open>_of_json\<close> functions of the components, built from the accessors below (an
  \<open>Option\<close> field may be absent or null, any other field must be there, unknown fields are
  ignored). HTTP is a request sent and the answer the network gives; \<open>x_request_error\<close> is the
  error of a request the client cannot build (a URL or a header that does not parse), which is
  never sent. \<open>x_json_f64\<close> is the JSON of the number a text parses to (\<open>json!\<close> of an \<open>f64\<close>),
  \<open>x_json_error\<close> the message of the error with which parsing a text fails.
\<close>

section \<open>JSON\<close>

datatype json =
    JNull
  | JBool bool
  | JInt int
  | JFloat string
  | JString string
  | JArray "json list"
  | JObject "(string \<times> json) list"

type_synonym 'a de = "json \<Rightarrow> 'a option"

fun de_string :: "string de" where
  "de_string (JString s) = Some s"
| "de_string _ = None"

fun de_bool :: "bool de" where
  "de_bool (JBool b) = Some b"
| "de_bool _ = None"

fun de_int :: "int \<Rightarrow> int \<Rightarrow> int de" where
  "de_int lo hi (JInt i) = (if lo \<le> i \<and> i \<le> hi then Some i else None)"
| "de_int _ _ _ = None"

definition de_i64 :: "int de" where
  "de_i64 = de_int (- (2 ^ 63)) (2 ^ 63 - 1)"

definition de_option :: "'a de \<Rightarrow> 'a option de" where
  "de_option d j = (case j of JNull \<Rightarrow> Some None | _ \<Rightarrow> map_option Some (d j))"

fun de_list :: "'a de \<Rightarrow> json list \<Rightarrow> 'a list option" where
  "de_list d [] = Some []"
| "de_list d (j # js) = (case d j of None \<Rightarrow> None | Some a \<Rightarrow> map_option ((#) a) (de_list d js))"

definition de_array :: "'a de \<Rightarrow> 'a list de" where
  "de_array d j = (case j of JArray js \<Rightarrow> de_list d js | _ \<Rightarrow> None)"

fun de_entries :: "'a de \<Rightarrow> (string \<times> json) list \<Rightarrow> (string \<times> 'a) list option" where
  "de_entries d [] = Some []"
| "de_entries d ((k, j) # es) =
     (case d j of None \<Rightarrow> None | Some a \<Rightarrow> map_option ((#) (k, a)) (de_entries d es))"

definition de_map :: "'a de \<Rightarrow> (string \<times> 'a) list de" where
  "de_map d j = (case j of JObject es \<Rightarrow> de_entries d es | _ \<Rightarrow> None)"

definition json_get :: "json \<Rightarrow> string \<Rightarrow> json option" where
  "json_get j k = (case j of JObject es \<Rightarrow> map_of es k | _ \<Rightarrow> None)"

definition is_object :: "json \<Rightarrow> bool" where
  "is_object j = (case j of JObject _ \<Rightarrow> True | _ \<Rightarrow> False)"

text \<open>A required field and an \<open>Option\<close> field of a struct.\<close>

definition field :: "string \<Rightarrow> 'a de \<Rightarrow> 'a de" where
  "field k d j = (case json_get j k of None \<Rightarrow> None | Some v \<Rightarrow> d v)"

definition field_opt :: "string \<Rightarrow> 'a de \<Rightarrow> 'a option de" where
  "field_opt k d j =
     (if is_object j then (case json_get j k of None \<Rightarrow> Some None | Some v \<Rightarrow> de_option d v)
      else None)"

text \<open>\<open>Value::as_str\<close>.\<close>

definition as_str :: "json \<Rightarrow> string option" where
  "as_str = de_string"

section \<open>URLs and HTTP\<close>

text \<open>The port is the explicit one or the one the scheme implies.\<close>

record url =
  url_scheme :: string
  url_host :: "string option"
  url_port :: "nat option"
  url_path :: string

text \<open>A part of a multipart form: a text field, or a file with its name, its type and its bytes.\<close>

datatype form_part =
    TextPart string string
  | FilePart string string string string

datatype body =
    NoBody
  | TextBody string
  | FormBody "(string \<times> string) list"
  | MultipartBody "form_part list"

record http_request =
  hr_method :: string
  hr_url :: string
  hr_headers :: "(string \<times> string) list"
  hr_body :: body

text \<open>A response whose body could not be read has no body here.\<close>

record http_response =
  rsp_status :: nat
  rsp_body :: "string option"

definition is_success :: "nat \<Rightarrow> bool" where
  "is_success st \<longleftrightarrow> 200 \<le> st \<and> st < 300"

text \<open>The headers of a request: the value of a name where it is present and readable as text
  (\<open>headers.get(name).and_then(|v| v.to_str().ok())\<close>).\<close>

type_synonym headers = "string \<Rightarrow> string option"

section \<open>The crates\<close>

record crates =
  x_uuid_string :: "uuid \<Rightarrow> string"
  x_uuid_simple :: "uuid \<Rightarrow> string"
  x_uuid_parse :: "string \<Rightarrow> uuid option"
  x_uuid_v5 :: "uuid \<Rightarrow> string \<Rightarrow> uuid"
  x_sha256 :: "string \<Rightarrow> string"
  x_hmac_sha256 :: "string \<Rightarrow> string \<Rightarrow> string option"
  x_argon_hash :: "string \<Rightarrow> string \<Rightarrow> string option"
  x_argon_verify :: "string \<Rightarrow> string \<Rightarrow> bool option"
  x_rsa_from_pkcs8 :: "string \<Rightarrow> string option"
  x_rsa_from_pkcs1 :: "string \<Rightarrow> string option"
  x_rsa_public_pem :: "string \<Rightarrow> string option"
  x_rsa_sign :: "string \<Rightarrow> string \<Rightarrow> string \<Rightarrow> string"
  x_rsa_signature :: "string \<Rightarrow> bool"
  x_rsa_verify :: "string \<Rightarrow> string \<Rightarrow> string \<Rightarrow> bool"
  x_base64_encode :: "string \<Rightarrow> string"
  x_base64_decode :: "string \<Rightarrow> string option"
  x_base64url_encode :: "string \<Rightarrow> string"
  x_aes_key :: "string \<Rightarrow> bool"
  x_aes_decrypt :: "string \<Rightarrow> string \<Rightarrow> string \<Rightarrow> string \<Rightarrow> string option"
  x_jwt_encode :: "string \<Rightarrow> json \<Rightarrow> string option"
  x_jwt_decode :: "string \<Rightarrow> instant \<Rightarrow> string \<Rightarrow> json option"
  x_url_parse :: "string \<Rightarrow> url option"
  x_url_join :: "string \<Rightarrow> string \<Rightarrow> string + string"
  x_url_with_fragment :: "string \<Rightarrow> string \<Rightarrow> string"
  x_url_with_query :: "string \<Rightarrow> string \<Rightarrow> string \<Rightarrow> string"
  x_request_error :: "http_request \<Rightarrow> string option"
  x_json_parse :: "string \<Rightarrow> json option"
  x_json_print :: "json \<Rightarrow> string"
  x_json_f64 :: "string \<Rightarrow> json option"
  x_json_error :: "string \<Rightarrow> string"
  x_rfc3339_parse :: "string \<Rightarrow> instant option"
  x_rfc3339_print :: "instant \<Rightarrow> string"
  x_to_rfc3339 :: "instant \<Rightarrow> string"
  x_unicode_lowercase :: "string \<Rightarrow> string"
  x_debug_str :: "string \<Rightarrow> string"
  x_format_year :: "instant \<Rightarrow> string"
  x_format_basic :: "instant \<Rightarrow> string"
  x_utf8_lossy :: "string \<Rightarrow> string"
  x_header_value :: "string \<Rightarrow> bool"
  x_http_client :: bool
  x_decode_error :: "string option \<Rightarrow> string"

text \<open>\<open>{:?}\<close> of an id newtype is its name around the rendered UUID.\<close>

definition debug_user_id :: "crates \<Rightarrow> user_id \<Rightarrow> string" where
  "debug_user_id x i = ''UserId('' @ x_uuid_string x (user_uuid i) @ '')''"

definition debug_order_id :: "crates \<Rightarrow> order_id \<Rightarrow> string" where
  "debug_order_id x i = ''OrderId('' @ x_uuid_string x (order_uuid i) @ '')''"

definition debug_card_key_id :: "crates \<Rightarrow> card_key_id \<Rightarrow> string" where
  "debug_card_key_id x i = ''CardKeyId('' @ x_uuid_string x (card_key_uuid i) @ '')''"

definition debug_device_id :: "crates \<Rightarrow> device_id \<Rightarrow> string" where
  "debug_device_id x i = ''DeviceId('' @ x_uuid_string x (device_uuid i) @ '')''"

definition debug_entitlement_id :: "crates \<Rightarrow> entitlement_id \<Rightarrow> string" where
  "debug_entitlement_id x i = ''EntitlementId('' @ x_uuid_string x (entitlement_uuid i) @ '')''"

text \<open>An RSA private key in either PEM form.\<close>

definition rsa_private_key :: "crates \<Rightarrow> string \<Rightarrow> string option" where
  "rsa_private_key x pem =
     (case x_rsa_from_pkcs8 x pem of Some k \<Rightarrow> Some k | None \<Rightarrow> x_rsa_from_pkcs1 x pem)"

section \<open>A concrete instance\<close>

text \<open>Functions with the documented shape of the crates, for evaluating the model on concrete
  inputs: they are no cryptography. A signature is the key followed by the message, a token is
  the secret followed by the printed claims, a password hash is the text itself and a digest its first byte.\<close>

fun toy_json :: "json \<Rightarrow> string" where
  "toy_json JNull = ''null''"
| "toy_json (JBool b) = (if b then ''true'' else ''false'')"
| "toy_json (JInt i) = show_int i"
| "toy_json (JFloat s) = s"
| "toy_json (JString s) = ''\"'' @ s @ ''\"''"
| "toy_json (JArray js) = ''['' @ concat (map toy_json js) @ '']''"
| "toy_json (JObject es) = ''{'' @ concat (map (\<lambda>(k, j). k @ '':'' @ toy_json j) es) @ ''}''"

text \<open>Names for a few UUIDs, and their parser.\<close>

definition toy_uuid :: "uuid \<Rightarrow> string" where
  "toy_uuid u = (if u = 1 then ''i'' else if u = 2 then ''ii'' else if u = 11 then ''xi'' else ''many'')"

definition toy_uuid_parse :: "string \<Rightarrow> uuid option" where
  "toy_uuid_parse s =
     (if s = ''i'' then Some 1 else if s = ''ii'' then Some 2 else if s = ''xi'' then Some 11 else None)"

definition toy_crates :: crates where
  "toy_crates =
     \<lparr> x_uuid_string = toy_uuid, x_uuid_simple = toy_uuid, x_uuid_parse = toy_uuid_parse,
       x_uuid_v5 = (\<lambda>n s. word_of_nat (length s)),
       x_sha256 = (\<lambda>s. take 1 s), x_hmac_sha256 = (\<lambda>k m. Some (k @ m)),
       x_argon_hash = (\<lambda>salt p. Some p), x_argon_verify = (\<lambda>h p. Some (h = p)),
       x_rsa_from_pkcs8 = Some, x_rsa_from_pkcs1 = (\<lambda>_. None), x_rsa_public_pem = Some,
       x_rsa_sign = (\<lambda>k r m. k @ m), x_rsa_signature = (\<lambda>_. True),
       x_rsa_verify = (\<lambda>k m sg. sg = k @ m),
       x_base64_encode = (\<lambda>s. s), x_base64_decode = Some, x_base64url_encode = (\<lambda>s. s),
       x_aes_key = (\<lambda>k. length k = 32), x_aes_decrypt = (\<lambda>k n a c. Some c),
       x_jwt_encode = (\<lambda>k j. Some (k @ toy_json j)), x_jwt_decode = (\<lambda>k t s. None),
       x_url_parse = (\<lambda>s. Some \<lparr> url_scheme = ''https'', url_host = Some s,
         url_port = Some 443, url_path = ''/'' \<rparr>), x_url_join = (\<lambda>b p. Inr (b @ p)),
       x_url_with_fragment = (\<lambda>u f. u @ ''#'' @ f),
       x_url_with_query = (\<lambda>u k v. u @ ''?'' @ k @ ''='' @ v), x_request_error = (\<lambda>_. None),
       x_json_parse = (\<lambda>_. None), x_json_print = toy_json,
       x_json_f64 = (\<lambda>s. Some (JFloat s)), x_json_error = (\<lambda>_. ''expected value''),
       x_rfc3339_parse = (\<lambda>_. None), x_rfc3339_print = show_int, x_to_rfc3339 = show_int, x_unicode_lowercase = to_lowercase,
       x_debug_str = (\<lambda>s. ''\"'' @ s @ ''\"''),
       x_format_year = (\<lambda>t. ''2026''), x_format_basic = show_int, x_utf8_lossy = (\<lambda>s. s),
       x_header_value = (\<lambda>_. True), x_http_client = True,
       x_decode_error = (\<lambda>_. ''error decoding response body'') \<rparr>"

end
