(* ===== verification/CloudStore.thy ===== *)
theory CloudStore
  imports CloudRows Crates "HOL-Library.Product_Lexorder"
begin

text \<open>
  The state the cloud API works on and its queries (\<open>apps/cloud-api/src/main.rs\<close>, from
  \<open>insert_tenant\<close> to \<open>list_audit_events\<close>). A world is the ambient sources, the database, the
  cached release manifest, and the network: the answer to a request may depend on every
  request sent before. A query function binds the values, runs its statement, maps the
  database error and decodes the row, in the order of the code. A \<open>FOR UPDATE\<close> lock has no
  effect of its own here: a transaction is one step.
\<close>

section \<open>World\<close>

record release_artifact =
  ra_url :: string
  ra_sha256 :: string

record local_node_release_manifest =
  rm_version :: string
  rm_commit :: string
  rm_msi :: release_artifact
  rm_exe :: release_artifact
  rm_macos_aarch64_dmg :: "release_artifact option"
  rm_dmg :: "release_artifact option"

record cached_release_manifest =
  cm_manifest :: local_node_release_manifest
  cm_fetched_at :: instant

record world = ambient +
  w_db :: database
  w_cache :: "cached_release_manifest option"
  w_net :: "http_request list \<Rightarrow> http_response option"
  w_sent :: "http_request list"

type_synonym 'a handler = "(world, api_error, 'a) act"

definition http_send :: "http_request \<Rightarrow> (world, 'e, http_response option) act" where
  "http_send r w = (Inr (w_net w (w_sent w @ [r])), w\<lparr>w_sent := w_sent w @ [r]\<rparr>)"

definition query :: "(database \<Rightarrow> 'a) \<Rightarrow> (world, 'e, 'a) act" where
  "query f = gets (\<lambda>w. f (w_db w))"

definition execute :: "'a stmt \<Rightarrow> (world, sql_error, 'a) act" where
  "execute m w = (case m (w_db w) of (r, d) \<Rightarrow> (r, w\<lparr>w_db := d\<rparr>))"

text \<open>A transaction commits on success; on an early return of an error it is dropped and
  rolled back, while clock readings, random draws and requests sent are not undone.\<close>

definition transaction :: "'a handler \<Rightarrow> 'a handler" where
  "transaction m w =
     (case m w of (Inr a, v) \<Rightarrow> (Inr a, v) | (Inl e, v) \<Rightarrow> (Inl e, v\<lparr>w_db := w_db w\<rparr>))"

text \<open>\<open>fetch_optional(..)?.map(row_to_x).transpose()\<close>\<close>

definition fetch_optional ::
  "('r \<Rightarrow> api_error + 'a) \<Rightarrow> (database \<Rightarrow> 'r option) \<Rightarrow> 'a option handler" where
  "fetch_optional decode q = andthen (query q) (\<lambda>r. lift (transpose_map decode r))"

text \<open>The same over the rows an \<open>UPDATE ... RETURNING\<close> gives.\<close>

definition first :: "'a list \<Rightarrow> 'a option" where
  "first xs = (case xs of [] \<Rightarrow> None | x # _ \<Rightarrow> Some x)"

definition execute_optional ::
  "('r \<Rightarrow> api_error + 'a) \<Rightarrow> 'r list stmt \<Rightarrow> 'a option handler" where
  "execute_optional decode m =
     andthen (map_error db_internal (execute m)) (\<lambda>rs. lift (transpose_map decode (first rs)))"

text \<open>\<open>fetch_one\<close> of a writing statement.\<close>

definition execute_one :: "('r \<Rightarrow> api_error + 'a) \<Rightarrow> 'r list stmt \<Rightarrow> 'a handler" where
  "execute_one decode m =
     andthen (map_error db_internal (execute m))
       (\<lambda>rs. lift (bind_res (ok_or (db_internal RowNotFound) (first rs)) decode))"

definition require :: "bool \<Rightarrow> api_error \<Rightarrow> unit handler" where
  "require b e = lift (ensure b e)"

definition require_some :: "api_error \<Rightarrow> 'a option handler \<Rightarrow> 'a handler" where
  "require_some e m = andthen m (\<lambda>a. lift (ok_or e a))"

section \<open>Tenants and users\<close>

definition insert_tenant :: "tenant_id \<Rightarrow> unit handler" where
  "insert_tenant t = andthen utc_now (\<lambda>now.
     map_error db_internal (execute (sql_insert_tenant
       \<lparr> tr_id = tenant_uuid t, tr_created_at = now \<rparr>)))"

definition insert_user :: "user \<Rightarrow> (world, sql_error, unit) act" where
  "insert_user u = execute (sql_insert_user (user_row_of u))"

definition find_user_by_skybridge_user_id_for_update :: "uuid \<Rightarrow> user option handler" where
  "find_user_by_skybridge_user_id_for_update i =
     fetch_optional row_to_user (\<lambda>d. find (\<lambda>r. ur_skybridge_user_id r = Some i) (db_users d))"

record skybridge_profile =
  sp_user_id :: uuid
  sp_nebula_id :: nebula_id
  sp_email :: "email option"
  sp_phone :: "phone_number option"
  sp_display_name :: "string option"

definition update_skybridge_user :: "user_id \<Rightarrow> skybridge_profile \<Rightarrow> user handler" where
  "update_skybridge_user i p = andthen utc_now (\<lambda>now.
     execute_one row_to_user (sql_update_skybridge_user (user_uuid i)
       (nebula_str (sp_nebula_id p)) (sp_user_id p) (map_option email_str (sp_email p))
       (map_option phone_str (sp_phone p)) (sp_display_name p) now))"

definition skybridge_password_sentinel :: string where
  "skybridge_password_sentinel = ''skybridge-session-only''"

definition upsert_skybridge_user :: "skybridge_profile \<Rightarrow> user handler" where
  "upsert_skybridge_user p = transaction
     (andthen (find_user_by_skybridge_user_id_for_update (sp_user_id p)) (\<lambda>existing.
        case existing of
          Some u \<Rightarrow> update_skybridge_user (usr_id u) p
        | None \<Rightarrow>
            andthen new_v4 (\<lambda>t. andthen new_v4 (\<lambda>i. andthen utc_now (\<lambda>verified.
            andthen utc_now (\<lambda>created.
              let tenant = TenantId t;
                  u = \<lparr> usr_id = UserId i, usr_tenant_id = tenant,
                        usr_nebula_id = sp_nebula_id p, usr_nebula_source = Skybridge,
                        usr_skybridge_user_id = Some (sp_user_id p),
                        usr_email = sp_email p, usr_phone = sp_phone p,
                        usr_name = sp_display_name p,
                        usr_password_hash = skybridge_password_sentinel,
                        usr_role = UserRole, usr_email_verified_at = Some verified,
                        usr_phone_verified_at = None, usr_created_at = created \<rparr>
              in andthen (insert_tenant tenant) (\<lambda>_.
                 andthen (map_error map_identity_unique_conflict (insert_user u)) (\<lambda>_.
                 ret u))))))))"

datatype login_identity =
  LoginEmail email | LoginPhone phone_number | LoginNebulaId nebula_id

fun matches_identity :: "login_identity \<Rightarrow> user_row \<Rightarrow> bool" where
  "matches_identity (LoginEmail e) r \<longleftrightarrow> ur_email r = Some (email_str e)"
| "matches_identity (LoginPhone p) r \<longleftrightarrow> ur_phone r = Some (phone_str p)"
| "matches_identity (LoginNebulaId n) r \<longleftrightarrow> ur_nebula_id r = nebula_str n"

definition find_user_by_login_identity :: "login_identity \<Rightarrow> user option handler" where
  "find_user_by_login_identity i =
     fetch_optional row_to_user (\<lambda>d. find (matches_identity i) (db_users d))"

definition nebula_id_exists :: "nebula_id \<Rightarrow> bool handler" where
  "nebula_id_exists n =
     query (\<lambda>d. find (\<lambda>r. ur_nebula_id r = nebula_str n) (db_users d) \<noteq> None)"

definition find_user_by_id :: "user_id \<Rightarrow> user option handler" where
  "find_user_by_id i =
     fetch_optional row_to_user (\<lambda>d. find (\<lambda>r. ur_id r = user_uuid i) (db_users d))"

definition lock_user_for_update :: "user_id \<Rightarrow> unit handler" where
  "lock_user_for_update i =
     andthen (query (\<lambda>d. find (\<lambda>r. ur_id r = user_uuid i) (db_users d))) (\<lambda>r.
       require (r \<noteq> None) (unauthorized ''user not found''))"

section \<open>Orders and payment events\<close>

definition insert_order :: "order \<Rightarrow> unit handler" where
  "insert_order r = map_error db_internal (execute (sql_insert_order (order_row_of r)))"

definition order_row_by_id :: "order_id \<Rightarrow> database \<Rightarrow> order_row option" where
  "order_row_by_id i d = find (\<lambda>r. or_id r = order_uuid i) (db_orders d)"

definition find_order_by_id :: "order_id \<Rightarrow> order option handler" where
  "find_order_by_id i = fetch_optional row_to_order (order_row_by_id i)"

definition find_order_by_id_for_update :: "order_id \<Rightarrow> order option handler" where
  "find_order_by_id_for_update i = fetch_optional row_to_order (order_row_by_id i)"

definition find_provider_order_by_reference_for_update ::
  "payment_provider \<Rightarrow> string \<Rightarrow> order option handler" where
  "find_provider_order_by_reference_for_update p reference =
     fetch_optional row_to_order (\<lambda>d. find (\<lambda>r.
       or_payment_provider r = payment_provider_to_db p \<and> or_payment_reference r = reference)
       (db_orders d))"

text \<open>The tail of both manual confirmations: the updated row, or the reason there is none.\<close>

definition confirmed_or_reason ::
  "order_row list \<Rightarrow> (database \<Rightarrow> order_row option) \<Rightarrow> order handler" where
  "confirmed_or_reason rows existing =
     (case first rows of
        Some r \<Rightarrow> lift (row_to_order r)
      | None \<Rightarrow> andthen (query existing) (\<lambda>e. case e of
            Some _ \<Rightarrow> throw (conflict ''order is not pending manual payment'')
          | None \<Rightarrow> throw (not_found ''order not found'')))"

definition confirm_pending_order :: "order_id \<Rightarrow> order handler" where
  "confirm_pending_order i = andthen utc_now (\<lambda>now.
     andthen (map_error db_internal (execute (sql_confirm_pending (order_uuid i) now))) (\<lambda>rows.
       confirmed_or_reason rows (order_row_by_id i)))"

definition confirm_pending_order_by_reference :: "string \<Rightarrow> order handler" where
  "confirm_pending_order_by_reference reference = andthen utc_now (\<lambda>now.
     andthen (map_error db_internal (execute (sql_confirm_pending_by_reference reference now)))
       (\<lambda>rows. confirmed_or_reason rows
          (\<lambda>d. find (\<lambda>r. or_payment_reference r = reference) (db_orders d))))"

definition attach_checkout_session :: "order_id \<Rightarrow> string \<Rightarrow> order handler" where
  "attach_checkout_session i session =
     require_some (conflict ''order cannot attach checkout session'')
       (execute_optional row_to_order (sql_attach_checkout_session (order_uuid i) session))"

definition confirm_provider_order ::
  "order_id \<Rightarrow> string option \<Rightarrow> instant \<Rightarrow> order handler" where
  "confirm_provider_order i intent paid_at =
     require_some (conflict ''order is not pending provider payment'')
       (execute_optional row_to_order (sql_confirm_provider (order_uuid i) intent paid_at))"

definition insert_payment_event ::
  "payment_provider \<Rightarrow> string \<Rightarrow> string \<Rightarrow> order_id option \<Rightarrow> string \<Rightarrow> bool handler" where
  "insert_payment_event p event_id event_type i payload_hash = andthen utc_now (\<lambda>now.
     andthen (map_error db_internal (execute (sql_insert_payment_event
       \<lparr> pr_provider = payment_provider_to_db p, pr_event_id = event_id,
         pr_event_type = event_type, pr_order_id = map_option order_uuid i,
         pr_payload_hash = payload_hash, pr_received_at = now \<rparr>))) (\<lambda>rows_affected.
       ret (0 < rows_affected)))"

section \<open>Card keys and entitlements\<close>

definition insert_card_key :: "card_key \<Rightarrow> order_id option \<Rightarrow> (world, sql_error, unit) act" where
  "insert_card_key c i = execute (sql_insert_card_key (card_key_row_of c i))"

definition find_card_key_by_fingerprint_for_update :: "string \<Rightarrow> card_key option handler" where
  "find_card_key_by_fingerprint_for_update fingerprint =
     fetch_optional row_to_card_key
       (\<lambda>d. find (\<lambda>r. cr_code_fingerprint r = fingerprint) (db_card_keys d))"

definition mark_card_key_redeemed :: "card_key_id \<Rightarrow> user_id \<Rightarrow> instant \<Rightarrow> unit handler" where
  "mark_card_key_redeemed i user at =
     andthen (map_error db_internal
       (execute (sql_mark_card_key_redeemed (card_key_uuid i) (user_uuid user) at))) (\<lambda>rows.
       require (rows \<noteq> []) (conflict ''card key is not available''))"

definition insert_entitlement :: "entitlement \<Rightarrow> (world, sql_error, unit) act" where
  "insert_entitlement e = execute (sql_insert_entitlement (entitlement_row_of e))"

definition list_entitlements_for_user :: "user_id \<Rightarrow> entitlement list handler" where
  "list_entitlements_for_user i =
     andthen (query (\<lambda>d. sort_key (\<lambda>r. - er_expires_at r)
         (filter (\<lambda>r. er_user_id r = user_uuid i) (db_entitlements d))))
       (\<lambda>rows. lift (collect_res row_to_entitlement rows))"

text \<open>The join of the entitlements with the card keys they came from.\<close>

definition backed_entitlements :: "database \<Rightarrow> (entitlement_row \<times> card_key_row) list" where
  "backed_entitlements d =
     [(e, c). e \<leftarrow> db_entitlements d, c \<leftarrow> db_card_keys d, cr_id c = er_source_card_key_id e]"

definition active_for :: "uuid \<Rightarrow> instant \<Rightarrow> entitlement_row \<Rightarrow> bool" where
  "active_for user now e \<longleftrightarrow>
     er_user_id e = user \<and> er_revoked_at e = None \<and> now < er_expires_at e"

text \<open>\<open>ORDER BY cardinality(e.features) DESC, c.max_devices DESC, e.expires_at DESC LIMIT 1\<close>.\<close>

definition best_active ::
  "uuid \<Rightarrow> instant \<Rightarrow> database \<Rightarrow> (entitlement_row \<times> card_key_row) option" where
  "best_active user now d =
     first (sort_key (\<lambda>(e, c). (- int (length (er_features e)), - cr_max_devices c, - er_expires_at e))
       (filter (\<lambda>(e, c). active_for user now e) (backed_entitlements d)))"

definition find_active_entitlement_for_user :: "user_id \<Rightarrow> entitlement option handler" where
  "find_active_entitlement_for_user i = andthen utc_now (\<lambda>now.
     fetch_optional row_to_entitlement (\<lambda>d. map_option fst (best_active (user_uuid i) now d)))"

definition find_active_entitlement_with_card_limit_for_user :: "user_id \<Rightarrow> u8 option handler" where
  "find_active_entitlement_with_card_limit_for_user i = andthen utc_now (\<lambda>now.
     fetch_optional row_to_entitlement_device_limit
       (\<lambda>d. map_option snd (best_active (user_uuid i) now d)))"

definition default_features :: "feature list" where
  "default_features = [OzonRead, OzonWriteMock, DraftImport1688Mock, OpenClawBridge, LocalApproval]"

definition has_active_full_access_entitlement :: "user_id \<Rightarrow> u8 \<Rightarrow> bool handler" where
  "has_active_full_access_entitlement i min_max_devices = andthen utc_now (\<lambda>now.
     query (\<lambda>d. list_ex (\<lambda>(e, c). active_for (user_uuid i) now e
         \<and> er_plan_code e = plan_str standard_30d
         \<and> uint min_max_devices \<le> cr_max_devices c
         \<and> set (map feature_to_db default_features) \<subseteq> set (er_features e))
       (backed_entitlements d)))"

definition revoke_entitlement_by_id :: "entitlement_id \<Rightarrow> entitlement option handler" where
  "revoke_entitlement_by_id i = andthen utc_now (\<lambda>now.
     execute_optional row_to_entitlement (sql_revoke_entitlement (entitlement_uuid i) now))"

section \<open>Devices\<close>

definition upsert_device :: "device \<Rightarrow> device handler" where
  "upsert_device v = execute_one row_to_device (sql_upsert_device (device_row_of v))"

definition find_device_by_fingerprint :: "user_id \<Rightarrow> string \<Rightarrow> device option handler" where
  "find_device_by_fingerprint i fingerprint_hash =
     fetch_optional row_to_device (\<lambda>d. find (\<lambda>r.
       dvr_user_id r = user_uuid i \<and> dvr_fingerprint_hash r = fingerprint_hash) (db_devices d))"

definition find_active_device :: "device_id \<Rightarrow> user_id \<Rightarrow> device option handler" where
  "find_active_device i user =
     fetch_optional row_to_device (\<lambda>d. find (\<lambda>r.
       dvr_id r = device_uuid i \<and> dvr_user_id r = user_uuid user \<and> dvr_status r = ''active'')
       (db_devices d))"

definition active_devices :: "uuid \<Rightarrow> database \<Rightarrow> device_row list" where
  "active_devices user d =
     filter (\<lambda>r. dvr_user_id r = user \<and> dvr_status r = ''active'') (db_devices d)"

definition count_active_devices_for_user :: "user_id \<Rightarrow> int handler" where
  "count_active_devices_for_user i =
     query (\<lambda>d. int (length (active_devices (user_uuid i) d)))"

definition touch_device_last_seen :: "device_id \<Rightarrow> instant \<Rightarrow> unit handler" where
  "touch_device_last_seen i seen_at =
     andthen (map_error db_internal (execute (sql_touch_device (device_uuid i) seen_at)))
       (\<lambda>_. ret ())"

definition device_limit_allows_new_activation :: "int \<Rightarrow> u8 \<Rightarrow> bool" where
  "device_limit_allows_new_activation active_count max_devices \<longleftrightarrow> active_count < uint max_devices"

definition device_limit_allows_active_fleet :: "int \<Rightarrow> u8 \<Rightarrow> bool" where
  "device_limit_allows_active_fleet active_count max_devices \<longleftrightarrow> active_count \<le> uint max_devices"

definition show_fleet :: "int \<Rightarrow> u8 \<Rightarrow> string" where
  "show_fleet active_count max_devices =
     ''('' @ show_int active_count @ ''/'' @ show_nat (unat max_devices) @ '')''"

definition enforce_device_limit_for_lease :: "user_id \<Rightarrow> unit handler" where
  "enforce_device_limit_for_lease i =
     andthen (require_some (forbidden ''no active entitlement'')
       (find_active_entitlement_with_card_limit_for_user i)) (\<lambda>max_devices.
     andthen (count_active_devices_for_user i) (\<lambda>active_count.
       require (device_limit_allows_active_fleet active_count max_devices)
         (forbidden (''device limit exceeded for this entitlement ''
            @ show_fleet active_count max_devices))))"

section \<open>Audit log\<close>

definition audit ::
  "tenant_id option \<Rightarrow> string \<Rightarrow> string \<Rightarrow> string \<Rightarrow> string \<Rightarrow> audit_event handler" where
  "audit tenant actor action target summary =
     andthen new_v4 (\<lambda>i. andthen utc_now (\<lambda>now. ret
       \<lparr> aud_id = AuditEventId i, aud_tenant_id = tenant, aud_actor = actor,
         aud_action = action, aud_target = target, aud_summary = summary,
         aud_created_at = now \<rparr>))"

definition insert_audit :: "audit_event \<Rightarrow> unit handler" where
  "insert_audit a = map_error db_internal (execute (sql_insert_audit (audit_row_of a)))"

definition insert_audit_pool :: "audit_event \<Rightarrow> unit handler" where
  "insert_audit_pool a = map_error db_internal (execute (sql_insert_audit (audit_row_of a)))"

text \<open>\<open>insert_audit(&mut tx, &audit(..)).await?\<close>.\<close>

definition record_audit ::
  "tenant_id option \<Rightarrow> string \<Rightarrow> string \<Rightarrow> string \<Rightarrow> string \<Rightarrow> unit handler" where
  "record_audit tenant actor action target summary =
     andthen (audit tenant actor action target summary) insert_audit"

definition list_audit_events :: "audit_event list handler" where
  "list_audit_events =
     query (\<lambda>d. map row_to_audit (sort_key ar_created_at (db_audit_events d)))"

section \<open>What every query keeps\<close>

text \<open>A relation on databases that every statement keeps is kept by every query and every
  transaction, whatever else happens to the world.\<close>

definition on_db :: "(database \<Rightarrow> database \<Rightarrow> bool) \<Rightarrow> world \<Rightarrow> world \<Rightarrow> bool" where
  "on_db Q v w \<longleftrightarrow> Q (w_db v) (w_db w)"

sublocale db_relation \<subseteq> world: step_relation "on_db Q"
  by unfold_locales (auto simp: on_db_def intro: Q_refl Q_trans)

context db_relation begin

lemma keeps_same_db: "(\<And>w. w_db (snd (m w)) = w_db w) \<Longrightarrow> keeps (on_db Q) m"
  by (simp add: keeps_def on_db_def Q_refl)

lemma keeps_ambient [keeps_intros]:
  "keeps (on_db Q) utc_now" "keeps (on_db Q) new_v4" "keeps (on_db Q) os_random"
  "keeps (on_db Q) (sample_alnum n)" "keeps (on_db Q) (http_send r)"
  by (simp_all add: keeps_same_db act_simps http_send_def)

lemma keeps_query [keeps_intros]:
  "keeps (on_db Q) (query f)" "keeps (on_db Q) (require b e)" "keeps (on_db Q) (fetch_optional g h)"
  by (simp_all add: keeps_same_db act_simps query_def require_def fetch_optional_def)

lemma keeps_execute [keeps_intros]: "keeps Q m \<Longrightarrow> keeps (on_db Q) (execute m)"
  by (simp add: keeps_def on_db_def execute_def split: prod.split)
    (metis snd_conv)

lemma keeps_transaction [keeps_intros]: "keeps (on_db Q) m \<Longrightarrow> keeps (on_db Q) (transaction m)"
  by (auto simp: keeps_def on_db_def transaction_def Q_refl split: prod.split sum.split)
    (metis snd_conv)

lemma keeps_require_some [keeps_intros]:
  "keeps (on_db Q) m \<Longrightarrow> keeps (on_db Q) (require_some e m)"
  by (simp add: require_some_def keeps_intros)

lemma keeps_execute_rows [keeps_intros]:
  "keeps Q m \<Longrightarrow> keeps (on_db Q) (execute_optional f m)"
  "keeps Q m \<Longrightarrow> keeps (on_db Q) (execute_one f m)"
  by (simp_all add: execute_optional_def execute_one_def keeps_intros)

lemma keeps_let [keeps_intros]: "keeps (on_db Q) (f a) \<Longrightarrow> keeps (on_db Q) (let x = a in f x)"
  by simp

end

lemmas query_defs = insert_tenant_def insert_user_def find_user_by_skybridge_user_id_for_update_def
  update_skybridge_user_def upsert_skybridge_user_def find_user_by_login_identity_def
  nebula_id_exists_def find_user_by_id_def lock_user_for_update_def insert_order_def
  find_order_by_id_def find_order_by_id_for_update_def
  find_provider_order_by_reference_for_update_def confirmed_or_reason_def confirm_pending_order_def
  confirm_pending_order_by_reference_def attach_checkout_session_def confirm_provider_order_def
  insert_payment_event_def insert_card_key_def find_card_key_by_fingerprint_for_update_def
  mark_card_key_redeemed_def insert_entitlement_def list_entitlements_for_user_def
  find_active_entitlement_for_user_def find_active_entitlement_with_card_limit_for_user_def
  has_active_full_access_entitlement_def revoke_entitlement_by_id_def upsert_device_def
  find_device_by_fingerprint_def find_active_device_def count_active_devices_for_user_def
  touch_device_last_seen_def enforce_device_limit_for_lease_def audit_def insert_audit_def
  insert_audit_pool_def record_audit_def list_audit_events_def

context db_contract begin

lemma keeps_users [keeps_intros]:
  "keeps (on_db Q) (insert_tenant t)" "keeps (on_db Q) (insert_user u)"
  "keeps (on_db Q) (find_user_by_skybridge_user_id_for_update i)"
  "keeps (on_db Q) (update_skybridge_user j p)" "keeps (on_db Q) (upsert_skybridge_user p)"
  "keeps (on_db Q) (find_user_by_login_identity l)" "keeps (on_db Q) (nebula_id_exists n)"
  "keeps (on_db Q) (find_user_by_id j)" "keeps (on_db Q) (lock_user_for_update j)"
  unfolding query_defs by (intro keeps_intros)+

lemma keeps_orders [keeps_intros]:
  "ord_status r \<noteq> OrderConfirmed \<Longrightarrow> keeps (on_db Q) (insert_order r)"
  "keeps (on_db Q) (find_order_by_id i)"
  "keeps (on_db Q) (find_order_by_id_for_update i)"
  "keeps (on_db Q) (find_provider_order_by_reference_for_update p reference)"
  "keeps (on_db Q) (attach_checkout_session i session)"
  "keeps (on_db Q) (insert_payment_event p reference kind oi hash)"
  unfolding query_defs
  by (cases "ord_status r"; (intro keeps_intros; simp add: order_row_of_def)) (intro keeps_intros)+

lemma keeps_entitlements [keeps_intros]:
  "keeps (on_db Q) (insert_card_key c None)"
  "keeps (on_db Q) (find_card_key_by_fingerprint_for_update f)"
  "keeps (on_db Q) (mark_card_key_redeemed ci u at)"
  "keeps (on_db Q) (list_entitlements_for_user u)"
  "keeps (on_db Q) (find_active_entitlement_for_user u)"
  "keeps (on_db Q) (find_active_entitlement_with_card_limit_for_user u)"
  "keeps (on_db Q) (has_active_full_access_entitlement u m)"
  "keeps (on_db Q) (revoke_entitlement_by_id i)"
  unfolding query_defs by (intro keeps_intros; simp add: card_key_row_of_def) (intro keeps_intros)+

lemma keeps_devices [keeps_intros]:
  "keeps (on_db Q) (upsert_device v)" "keeps (on_db Q) (find_device_by_fingerprint u f)"
  "keeps (on_db Q) (find_active_device i u)" "keeps (on_db Q) (count_active_devices_for_user u)"
  "keeps (on_db Q) (touch_device_last_seen i now)"
  "keeps (on_db Q) (enforce_device_limit_for_lease u)"
  "keeps (on_db Q) (insert_audit a)" "keeps (on_db Q) (insert_audit_pool a)"
  "keeps (on_db Q) (record_audit t actor action target summary)"
  "keeps (on_db Q) (audit t actor action target summary)"
  "keeps (on_db Q) list_audit_events"
  unfolding query_defs by (intro keeps_intros)+

end

context statement_contract begin

lemma keeps_settling_queries [keeps_intros]:
  "keeps (on_db Q) (confirm_pending_order oid)"
  "keeps (on_db Q) (confirm_pending_order_by_reference reference)"
  "keeps (on_db Q) (confirm_provider_order oid intent paid_at)"
  "keeps (on_db Q) (insert_card_key c oi)" "keeps (on_db Q) (insert_entitlement e)"
  unfolding query_defs by (intro keeps_intros)+

end

end
