(* ===== verification/DomainJson.thy ===== *)
theory DomainJson
  imports Crates
begin

text \<open>
  The JSON form of the domain types that travel between the programs
  (\<open>crates/domain/src/lib.rs\<close>, the \<open>derive(Serialize, Deserialize)\<close> of the lease and its
  parts): the claims the cloud signs and the node verifies, and the lease the node stores.
\<close>

section \<open>Leaves\<close>

fun feature_serde :: "feature \<Rightarrow> string" where
  "feature_serde OzonRead = ''ozon_read''"
| "feature_serde OzonWriteMock = ''ozon_write_mock''"
| "feature_serde DraftImport1688Mock = ''draft_import1688_mock''"
| "feature_serde OpenClawBridge = ''open_claw_bridge''"
| "feature_serde LocalApproval = ''local_approval''"

definition de_feature :: "feature de" where
  "de_feature j = (case de_string j of None \<Rightarrow> None | Some s \<Rightarrow>
     find (\<lambda>f. feature_serde f = s)
       [OzonRead, OzonWriteMock, DraftImport1688Mock, OpenClawBridge, LocalApproval])"

definition de_uuid :: "crates \<Rightarrow> uuid de" where
  "de_uuid x j = Option.bind (de_string j) (x_uuid_parse x)"

definition de_time :: "crates \<Rightarrow> instant de" where
  "de_time x j = Option.bind (de_string j) (x_rfc3339_parse x)"

abbreviation j_uuid :: "crates \<Rightarrow> uuid \<Rightarrow> json" where
  "j_uuid x u \<equiv> JString (x_uuid_string x u)"

abbreviation j_time :: "crates \<Rightarrow> instant \<Rightarrow> json" where
  "j_time x t \<equiv> JString (x_rfc3339_print x t)"

section \<open>Leases\<close>

definition lease_claims_to_json :: "crates \<Rightarrow> lease_claims \<Rightarrow> json" where
  "lease_claims_to_json x l = JObject
     [(''lease_id'', j_uuid x (lc_lease_id l)),
      (''tenant_id'', j_uuid x (tenant_uuid (lc_tenant_id l))),
      (''user_id'', j_uuid x (user_uuid (lc_user_id l))),
      (''device_id'', j_uuid x (device_uuid (lc_device_id l))),
      (''entitlement_id'', j_uuid x (entitlement_uuid (lc_entitlement_id l))),
      (''features'', JArray (map (\<lambda>f. JString (feature_serde f)) (lc_features l))),
      (''issued_at'', j_time x (lc_issued_at l)),
      (''expires_at'', j_time x (lc_expires_at l))]"

definition lease_signature_to_json :: "lease_signature \<Rightarrow> json" where
  "lease_signature_to_json g = JObject
     [(''alg'', JString (sig_alg g)), (''kid'', JString (sig_kid g)),
      (''issuer'', JString (sig_issuer g)), (''audience'', JString (sig_audience g)),
      (''value'', JString (sig_value g))]"

definition lease_signature_of_json :: "lease_signature de" where
  "lease_signature_of_json j =
     Option.bind (field ''alg'' de_string j) (\<lambda>alg.
     Option.bind (field ''kid'' de_string j) (\<lambda>kid.
     Option.bind (field ''issuer'' de_string j) (\<lambda>issuer.
     Option.bind (field ''audience'' de_string j) (\<lambda>audience.
     Option.bind (field ''value'' de_string j) (\<lambda>value.
       Some \<lparr> sig_alg = alg, sig_kid = kid, sig_issuer = issuer, sig_audience = audience,
         sig_value = value \<rparr>)))))"

text \<open>The signature is left out when there is none.\<close>

definition lease_to_json :: "crates \<Rightarrow> entitlement_lease \<Rightarrow> json" where
  "lease_to_json x l = JObject
     ([(''lease_id'', j_uuid x (lease_id l)),
       (''tenant_id'', j_uuid x (tenant_uuid (lease_tenant_id l))),
       (''user_id'', j_uuid x (user_uuid (lease_user_id l))),
       (''device_id'', j_uuid x (device_uuid (lease_device_id l))),
       (''entitlement_id'', j_uuid x (entitlement_uuid (lease_entitlement_id l))),
       (''features'', JArray (map (\<lambda>f. JString (feature_serde f)) (lease_features l))),
       (''issued_at'', j_time x (lease_issued_at l)),
       (''expires_at'', j_time x (lease_expires_at l))]
      @ (case lease_signature l of None \<Rightarrow> [] | Some g \<Rightarrow> [(''signature'', lease_signature_to_json g)]))"

definition lease_of_json :: "crates \<Rightarrow> entitlement_lease de" where
  "lease_of_json x j =
     Option.bind (field ''lease_id'' (de_uuid x) j) (\<lambda>i.
     Option.bind (field ''tenant_id'' (de_uuid x) j) (\<lambda>tenant.
     Option.bind (field ''user_id'' (de_uuid x) j) (\<lambda>user.
     Option.bind (field ''device_id'' (de_uuid x) j) (\<lambda>device.
     Option.bind (field ''entitlement_id'' (de_uuid x) j) (\<lambda>e.
     Option.bind (field ''features'' (de_array de_feature) j) (\<lambda>features.
     Option.bind (field ''issued_at'' (de_time x) j) (\<lambda>issued.
     Option.bind (field ''expires_at'' (de_time x) j) (\<lambda>expires.
     Option.bind (field_opt ''signature'' lease_signature_of_json j) (\<lambda>signature.
       Some \<lparr> lease_id = i, lease_tenant_id = TenantId tenant, lease_user_id = UserId user,
         lease_device_id = DeviceId device, lease_entitlement_id = EntitlementId e,
         lease_features = features, lease_issued_at = issued, lease_expires_at = expires,
         lease_signature = signature \<rparr>)))))))))"

section \<open>Reading back\<close>

text \<open>What the crates document of these leaves: parsing what was printed gives it back.\<close>

definition leaves_read_back :: "crates \<Rightarrow> bool" where
  "leaves_read_back x \<longleftrightarrow> (\<forall>u. x_uuid_parse x (x_uuid_string x u) = Some u)
     \<and> (\<forall>t. x_rfc3339_parse x (x_rfc3339_print x t) = Some t)"

lemma feature_reads_back: "de_feature (JString (feature_serde f)) = Some f"
  by (cases f) (simp_all add: de_feature_def)

lemma features_read_back:
  "de_list de_feature (map (\<lambda>f. JString (feature_serde f)) fs) = Some fs"
  by (induction fs) (simp_all add: feature_reads_back)

lemma signature_reads_back: "lease_signature_of_json (lease_signature_to_json g) = Some g"
  by (simp add: lease_signature_of_json_def lease_signature_to_json_def field_def json_get_def)

lemma de_option_present: "j \<noteq> JNull \<Longrightarrow> de_option d j = map_option Some (d j)"
  by (cases j) (simp_all add: de_option_def)

lemma signature_not_null: "lease_signature_to_json g \<noteq> JNull"
  by (simp add: lease_signature_to_json_def)

lemma lease_reads_back:
  assumes "leaves_read_back x"
  shows "lease_of_json x (lease_to_json x l) = Some l"
proof -
  have tail: "field_opt ''signature'' lease_signature_of_json (lease_to_json x l) = Some (lease_signature l)"
    by (cases "lease_signature l")
      (simp_all add: field_opt_def is_object_def json_get_def lease_to_json_def
        de_option_present signature_not_null signature_reads_back)
  show ?thesis
    using assms
    by (simp add: lease_of_json_def tail)
      (simp add: lease_to_json_def field_def json_get_def de_uuid_def de_time_def de_array_def
        features_read_back leaves_read_back_def)
qed

end
