(* ===== verification/CloudIdentity.thy ===== *)
theory CloudIdentity
  imports CloudStore CloudConfig DomainJson
begin

text \<open>
  Identity in the cloud API (\<open>apps/cloud-api/src/main.rs\<close>): tokens and the two guards
  \<open>require_user\<close> and \<open>require_admin\<close>, passwords, the parsing of registration and login
  requests, Nebula ids, the SkyBridge identity provider, and the handlers \<open>register\<close>,
  \<open>login\<close> and \<open>auth_skybridge\<close>.
\<close>

section \<open>Tokens and guards\<close>

record auth_claims =
  ac_sub :: user_id
  ac_tenant_id :: tenant_id
  ac_role :: user_role
  ac_exp :: u64

text \<open>What \<open>derive(Serialize, Deserialize)\<close> makes of \<open>AuthClaims\<close>.\<close>

definition claims_to_json :: "crates \<Rightarrow> auth_claims \<Rightarrow> json" where
  "claims_to_json x c = JObject
     [(''sub'', JString (x_uuid_string x (user_uuid (ac_sub c)))),
      (''tenant_id'', JString (x_uuid_string x (tenant_uuid (ac_tenant_id c)))),
      (''role'', JString (user_role_to_db (ac_role c))),
      (''exp'', JInt (uint (ac_exp c)))]"

definition de_user_role :: "user_role de" where
  "de_user_role j = Option.bind (de_string j) (\<lambda>s. case user_role_from_db s of Inr r \<Rightarrow> Some r | Inl _ \<Rightarrow> None)"

definition claims_of_json :: "crates \<Rightarrow> auth_claims de" where
  "claims_of_json x j =
     (case (field ''sub'' (de_uuid x) j, field ''tenant_id'' (de_uuid x) j,
            field ''role'' de_user_role j, field ''exp'' (de_int 0 (2 ^ 64 - 1)) j) of
        (Some u, Some t, Some r, Some e) \<Rightarrow> Some
          \<lparr> ac_sub = UserId u, ac_tenant_id = TenantId t, ac_role = r, ac_exp = word_of_int e \<rparr>
      | _ \<Rightarrow> None)"

definition require_user :: "crates \<Rightarrow> app_config \<Rightarrow> headers \<Rightarrow> auth_claims handler" where
  "require_user x c h =
     (case h ''authorization'' of
        None \<Rightarrow> throw (unauthorized ''missing bearer token'')
      | Some v \<Rightarrow> (case strip_prefix ''Bearer '' v of
            None \<Rightarrow> throw (unauthorized ''missing bearer token'')
          | Some token \<Rightarrow> andthen utc_now (\<lambda>now.
              lift (ok_or (unauthorized ''invalid bearer token'')
                (Option.bind (x_jwt_decode x (cfg_jwt_secret c) now token) (claims_of_json x))))))"

definition admin_token_matches :: "app_config \<Rightarrow> headers \<Rightarrow> bool" where
  "admin_token_matches c h =
     (case h ''x-admin-token'' of None \<Rightarrow> False | Some t \<Rightarrow> constant_time_eq t (cfg_admin_token c))"

definition require_admin :: "crates \<Rightarrow> app_config \<Rightarrow> headers \<Rightarrow> unit handler" where
  "require_admin x c h =
     (if admin_token_matches c h then ret ()
      else andthen (require_user x c h) (\<lambda>claims.
        if ac_role claims = AdminRole then ret ()
        else throw (forbidden ''admin access required'')))"

definition issue_jwt ::
  "crates \<Rightarrow> app_config \<Rightarrow> user_id \<Rightarrow> tenant_id \<Rightarrow> user_role \<Rightarrow> string handler" where
  "issue_jwt x c user tenant role = andthen utc_now (\<lambda>now.
     let claims = \<lparr> ac_sub = user, ac_tenant_id = tenant, ac_role = role,
                    ac_exp = word_of_int (timestamp (now + hours 12)) \<rparr>
     in lift (ok_or (internal ''failed to issue token'')
          (x_jwt_encode x (cfg_jwt_secret c) (claims_to_json x claims))))"

definition hash_password :: "crates \<Rightarrow> string \<Rightarrow> string handler" where
  "hash_password x secret = andthen os_random (\<lambda>salt.
     lift (ok_or (internal ''failed to hash secret'') (x_argon_hash x salt secret)))"

definition verify_password :: "crates \<Rightarrow> string \<Rightarrow> string \<Rightarrow> api_error + unit" where
  "verify_password x hash secret =
     (case x_argon_verify x hash secret of
        None \<Rightarrow> Inl (unauthorized ''invalid credentials'')
      | Some ok \<Rightarrow> ensure ok (unauthorized ''invalid credentials''))"

section \<open>Requests\<close>

datatype login_method = ByEmail | ByPhone | ByNebula

record register_request =
  rr_email :: "string option"
  rr_phone :: "string option"
  rr_login_method :: "login_method option"
  rr_identifier :: "string option"
  rr_password :: string
  rr_name :: "string option"

record login_request =
  lr_email :: "string option"
  lr_phone :: "string option"
  lr_nebula_id :: "string option"
  lr_login_method :: "login_method option"
  lr_identifier :: "string option"
  lr_password :: string

record registration_identity =
  ri_email :: "email option"
  ri_phone :: "phone_number option"

definition requested_login_method ::
  "login_method option \<Rightarrow> string option \<Rightarrow> string option \<Rightarrow> login_method" where
  "requested_login_method m email phone =
     (case m of Some v \<Rightarrow> v
      | None \<Rightarrow> if phone \<noteq> None \<and> email = None then ByPhone else ByEmail)"

definition registration_identity_from_request ::
  "register_request \<Rightarrow> api_error + registration_identity" where
  "registration_identity_from_request r =
     (case requested_login_method (rr_login_method r) (rr_email r) (rr_phone r) of
        ByEmail \<Rightarrow>
          bind_res (ok_or (bad_request ''email is required'') (or_else (rr_identifier r) (rr_email r)))
            (\<lambda>v. bind_res (map_err (\<lambda>_. bad_request ''invalid email'') (email_parse v))
            (\<lambda>e. Inr \<lparr> ri_email = Some e, ri_phone = None \<rparr>))
      | ByPhone \<Rightarrow>
          bind_res (ok_or (bad_request ''phone is required'') (or_else (rr_identifier r) (rr_phone r)))
            (\<lambda>v. bind_res (map_err (\<lambda>_. bad_request ''invalid phone'') (phone_parse v))
            (\<lambda>p. Inr \<lparr> ri_email = None, ri_phone = Some p \<rparr>))
      | ByNebula \<Rightarrow> Inl (bad_request ''nebula id is generated during registration''))"

definition parse_login_identity :: "login_method \<Rightarrow> string \<Rightarrow> api_error + login_identity" where
  "parse_login_identity m v =
     (case m of
        ByEmail \<Rightarrow> bind_res (map_err (\<lambda>_. bad_request ''invalid email'') (email_parse v))
          (\<lambda>e. Inr (LoginEmail e))
      | ByPhone \<Rightarrow> bind_res (map_err (\<lambda>_. bad_request ''invalid phone'') (phone_parse v))
          (\<lambda>p. Inr (LoginPhone p))
      | ByNebula \<Rightarrow> bind_res (map_err (\<lambda>_. bad_request ''invalid nebula id'') (nebula_parse v))
          (\<lambda>n. Inr (LoginNebulaId n)))"

definition login_identity_from_request :: "login_request \<Rightarrow> api_error + login_identity" where
  "login_identity_from_request r =
     (case lr_login_method r of
        Some m \<Rightarrow>
          bind_res (ok_or (bad_request ''login identifier is required'')
            (or_else (lr_identifier r)
              (case m of ByEmail \<Rightarrow> lr_email r | ByPhone \<Rightarrow> lr_phone r | ByNebula \<Rightarrow> lr_nebula_id r)))
            (parse_login_identity m)
      | None \<Rightarrow> (case lr_email r of
          Some v \<Rightarrow> parse_login_identity ByEmail v
        | None \<Rightarrow> (case lr_phone r of
            Some v \<Rightarrow> parse_login_identity ByPhone v
          | None \<Rightarrow> (case or_else (lr_nebula_id r) (lr_identifier r) of
              Some v \<Rightarrow> parse_login_identity ByNebula v
            | None \<Rightarrow> Inl (bad_request ''login identifier is required'')))))"

section \<open>Responses\<close>

record user_response =
  ur_resp_id :: user_id
  ur_resp_tenant_id :: tenant_id
  ur_resp_nebula_id :: string
  ur_resp_nebula_source :: nebula_source
  ur_resp_skybridge_user_id :: "uuid option"
  ur_resp_email :: "string option"
  ur_resp_phone :: "string option"
  ur_resp_name :: "string option"
  ur_resp_role :: user_role
  ur_resp_email_verified :: bool
  ur_resp_phone_verified :: bool

definition user_response_from_user :: "user \<Rightarrow> user_response" where
  "user_response_from_user u =
     \<lparr> ur_resp_id = usr_id u, ur_resp_tenant_id = usr_tenant_id u,
       ur_resp_nebula_id = nebula_str (usr_nebula_id u),
       ur_resp_nebula_source = usr_nebula_source u,
       ur_resp_skybridge_user_id = usr_skybridge_user_id u,
       ur_resp_email = map_option email_str (usr_email u),
       ur_resp_phone = map_option phone_str (usr_phone u),
       ur_resp_name = usr_name u, ur_resp_role = usr_role u,
       ur_resp_email_verified = (usr_email_verified_at u \<noteq> None),
       ur_resp_phone_verified = (usr_phone_verified_at u \<noteq> None) \<rparr>"

record auth_response =
  au_token :: string
  au_user :: user_response

section \<open>Nebula ids\<close>

definition generate_nebula_id :: "crates \<Rightarrow> nebula_id handler" where
  "generate_nebula_id x = andthen (sample_alnum 12) (\<lambda>random. andthen utc_now (\<lambda>now.
     lift (map_err (\<lambda>_. internal ''failed to generate nebula id'')
       (nebula_parse (''NEBULA-'' @ x_format_year x now @ ''-'' @ to_uppercase random)))))"

fun create_unique_nebula_id_loop :: "crates \<Rightarrow> nat \<Rightarrow> nebula_id handler" where
  "create_unique_nebula_id_loop x 0 = throw (internal ''failed to allocate nebula id'')"
| "create_unique_nebula_id_loop x (Suc n) =
     andthen (generate_nebula_id x) (\<lambda>nebula_id.
     andthen (nebula_id_exists nebula_id) (\<lambda>taken.
       if \<not> taken then ret nebula_id else create_unique_nebula_id_loop x n))"

definition create_unique_nebula_id :: "crates \<Rightarrow> nebula_id handler" where
  "create_unique_nebula_id x = create_unique_nebula_id_loop x 8"

section \<open>SkyBridge\<close>

record skybridge_profile_response =
  sr_id :: uuid
  sr_email :: "string option"
  sr_phone :: "string option"
  sr_nebula_id :: "string option"
  sr_full_name :: "string option"

definition skybridge_profile_of_json :: "crates \<Rightarrow> skybridge_profile_response de" where
  "skybridge_profile_of_json x j =
     (case (field ''id'' (de_uuid x) j, field_opt ''email'' de_string j,
            field_opt ''phone'' de_string j, field_opt ''nebula_id'' de_string j,
            field_opt ''full_name'' de_string j) of
        (Some i, Some e, Some p, Some n, Some f) \<Rightarrow> Some
          \<lparr> sr_id = i, sr_email = e, sr_phone = p, sr_nebula_id = n, sr_full_name = f \<rparr>
      | _ \<Rightarrow> None)"

text \<open>\<open>Option::filter\<close> with \<open>!value.trim().is_empty()\<close>.\<close>

definition filled :: "string option \<Rightarrow> string option" where
  "filled v = (case v of None \<Rightarrow> None | Some s \<Rightarrow> if trim s = [] then None else Some s)"

definition parse_skybridge_email :: "string option \<Rightarrow> api_error + email option" where
  "parse_skybridge_email v =
     map_err (\<lambda>_. bad_gateway ''invalid SkyBridge email'') (transpose_map email_parse (filled v))"

definition parse_skybridge_phone :: "string option \<Rightarrow> api_error + phone_number option" where
  "parse_skybridge_phone v =
     map_err (\<lambda>_. bad_gateway ''invalid SkyBridge phone'') (transpose_map phone_parse (filled v))"

definition skybridge_profile_try_from_response ::
  "skybridge_profile_response \<Rightarrow> api_error + skybridge_profile" where
  "skybridge_profile_try_from_response r =
     bind_res (ok_or (bad_gateway ''SkyBridge profile has no nebula id'') (sr_nebula_id r)) (\<lambda>v.
     bind_res (map_err (\<lambda>_. bad_gateway ''invalid SkyBridge nebula id'') (nebula_parse v)) (\<lambda>nebula_id.
     bind_res (parse_skybridge_email (sr_email r)) (\<lambda>email.
     bind_res (parse_skybridge_phone (sr_phone r)) (\<lambda>phone. Inr
       \<lparr> sp_user_id = sr_id r, sp_nebula_id = nebula_id, sp_email = email, sp_phone = phone,
         sp_display_name = filled (sr_full_name r) \<rparr>))))"

definition bearer_request :: "string \<Rightarrow> string \<Rightarrow> string \<Rightarrow> http_request" where
  "bearer_request verb target access_token =
     \<lparr> hr_method = verb, hr_url = target,
       hr_headers = [(''authorization'', ''Bearer '' @ access_token)], hr_body = NoBody \<rparr>"

definition fetch_skybridge_profile ::
  "crates \<Rightarrow> string \<Rightarrow> string \<Rightarrow> skybridge_profile_response handler" where
  "fetch_skybridge_profile x base_url access_token =
     andthen (http_send (bearer_request ''GET'' (base_url @ ''/get-user-profile'') access_token))
       (\<lambda>answer. case answer of
          None \<Rightarrow> throw (bad_gateway ''SkyBridge identity provider is unavailable'')
        | Some response \<Rightarrow>
            if rsp_status response = 401 then throw (unauthorized ''invalid SkyBridge session'')
            else if \<not> is_success (rsp_status response)
            then throw (bad_gateway ''SkyBridge profile lookup failed'')
            else lift (ok_or (bad_gateway ''invalid SkyBridge profile response'')
              (Option.bind (Option.bind (rsp_body response) (x_json_parse x))
                (field ''data'' (skybridge_profile_of_json x)))))"

definition generate_skybridge_nebula_id :: "string \<Rightarrow> string \<Rightarrow> unit handler" where
  "generate_skybridge_nebula_id base_url access_token =
     andthen (http_send (bearer_request ''POST'' (base_url @ ''/generate-nebula-id'') access_token))
       (\<lambda>answer. case answer of
          None \<Rightarrow> throw (bad_gateway ''SkyBridge identity provider is unavailable'')
        | Some response \<Rightarrow>
            if rsp_status response = 400 then ret ()
            else if rsp_status response = 401 then throw (unauthorized ''invalid SkyBridge session'')
            else if \<not> is_success (rsp_status response)
            then throw (bad_gateway ''SkyBridge nebula id generation failed'')
            else ret ())"

definition resolve_skybridge_profile_from_provider ::
  "crates \<Rightarrow> string \<Rightarrow> string \<Rightarrow> skybridge_profile handler" where
  "resolve_skybridge_profile_from_provider x base_url access_token =
     andthen (fetch_skybridge_profile x base_url access_token) (\<lambda>profile.
     andthen (if sr_nebula_id profile = None
              then andthen (generate_skybridge_nebula_id base_url access_token) (\<lambda>_.
                     fetch_skybridge_profile x base_url access_token)
              else ret profile) (\<lambda>profile.
       lift (skybridge_profile_try_from_response profile)))"

text \<open>The loop over the configured providers: the first profile wins, the last error counts.\<close>

fun try_skybridge_providers ::
  "crates \<Rightarrow> string \<Rightarrow> api_error option \<Rightarrow> string list \<Rightarrow> skybridge_profile handler" where
  "try_skybridge_providers x access_token last_error [] =
     throw (unwrap_or last_error
       (service_unavailable ''SkyBridge identity provider is not configured''))"
| "try_skybridge_providers x access_token last_error (base_url # urls) =
     match_res (resolve_skybridge_profile_from_provider x base_url access_token)
       (\<lambda>profile. ret profile)
       (\<lambda>e. try_skybridge_providers x access_token (Some e) urls)"

definition resolve_skybridge_profile ::
  "crates \<Rightarrow> app_config \<Rightarrow> string \<Rightarrow> skybridge_profile handler" where
  "resolve_skybridge_profile x c access_token =
     (if cfg_skybridge_api_base_urls c = []
      then throw (service_unavailable ''SkyBridge identity provider is not configured'')
      else if \<not> x_http_client x
      then throw (internal ''failed to create identity provider client'')
      else try_skybridge_providers x access_token None (cfg_skybridge_api_base_urls c))"

section \<open>Handlers\<close>

definition register :: "crates \<Rightarrow> app_config \<Rightarrow> register_request \<Rightarrow> auth_response handler" where
  "register x c input =
     andthen (lift (registration_identity_from_request input)) (\<lambda>identity.
     andthen (require (8 \<le> length (rr_password input))
       (bad_request ''password must be at least 8 characters'')) (\<lambda>_.
     andthen new_v4 (\<lambda>t.
     andthen (require (cfg_allow_local_nebula_registration c)
       (forbidden ''local account registration is disabled; use SkyBridge identity'')) (\<lambda>_.
     andthen (create_unique_nebula_id x) (\<lambda>nebula_id.
     andthen new_v4 (\<lambda>i.
     andthen (hash_password x (rr_password input)) (\<lambda>password_hash.
     andthen utc_now (\<lambda>created.
       let tenant = TenantId t;
           u = \<lparr> usr_id = UserId i, usr_tenant_id = tenant, usr_nebula_id = nebula_id,
                 usr_nebula_source = LocalDev, usr_skybridge_user_id = None,
                 usr_email = ri_email identity, usr_phone = ri_phone identity,
                 usr_name = rr_name input, usr_password_hash = password_hash,
                 usr_role = UserRole, usr_email_verified_at = None,
                 usr_phone_verified_at = None, usr_created_at = created \<rparr>
       in andthen (transaction
            (andthen (insert_tenant tenant) (\<lambda>_.
             andthen (map_error map_identity_unique_conflict (insert_user u)) (\<lambda>_.
               record_audit (Some tenant) ''anonymous'' ''auth.register''
                 (nebula_str (usr_nebula_id u)) ''user registered'')))) (\<lambda>_.
          andthen (issue_jwt x c (usr_id u) (usr_tenant_id u) (usr_role u)) (\<lambda>token.
            ret \<lparr> au_token = token, au_user = user_response_from_user u \<rparr>))))))))))"

definition auth_skybridge :: "crates \<Rightarrow> app_config \<Rightarrow> string \<Rightarrow> auth_response handler" where
  "auth_skybridge x c access_token =
     andthen (resolve_skybridge_profile x c access_token) (\<lambda>profile.
     andthen (upsert_skybridge_user profile) (\<lambda>u.
     andthen (audit (Some (usr_tenant_id u)) (nebula_str (usr_nebula_id u)) ''auth.skybridge''
       ''user'' ''skybridge identity synced'') (\<lambda>event.
     andthen (insert_audit_pool event) (\<lambda>_.
     andthen (issue_jwt x c (usr_id u) (usr_tenant_id u) (usr_role u)) (\<lambda>token.
       ret \<lparr> au_token = token, au_user = user_response_from_user u \<rparr>)))))"

definition ensure_local_password_login_allowed :: "user \<Rightarrow> api_error + unit" where
  "ensure_local_password_login_allowed u =
     ensure (usr_nebula_source u = LocalDev) (unauthorized ''use SkyBridge identity'')"

definition login :: "crates \<Rightarrow> app_config \<Rightarrow> login_request \<Rightarrow> auth_response handler" where
  "login x c input =
     andthen (lift (login_identity_from_request input)) (\<lambda>identity.
     andthen (require_some (unauthorized ''invalid credentials'')
       (find_user_by_login_identity identity)) (\<lambda>u.
     andthen (lift (ensure_local_password_login_allowed u)) (\<lambda>_.
     andthen (lift (verify_password x (usr_password_hash u) (lr_password input))) (\<lambda>_.
     andthen (audit (Some (usr_tenant_id u)) (nebula_str (usr_nebula_id u)) ''auth.login''
       ''user'' ''user logged in'') (\<lambda>event.
     andthen (insert_audit_pool event) (\<lambda>_.
     andthen (issue_jwt x c (usr_id u) (usr_tenant_id u) (usr_role u)) (\<lambda>token.
       ret \<lparr> au_token = token, au_user = user_response_from_user u \<rparr>)))))))"

section \<open>What the handlers keep\<close>

context db_contract begin

lemma keeps_nebula_loop [keeps_intros]: "keeps (on_db Q) (create_unique_nebula_id_loop x n)"
  unfolding generate_nebula_id_def [abs_def]
  by (induction n) (auto simp: generate_nebula_id_def intro!: keeps_intros)

lemma keeps_skybridge [keeps_intros]:
  "keeps (on_db Q) (fetch_skybridge_profile x url token)"
  "keeps (on_db Q) (generate_skybridge_nebula_id url token)"
  "keeps (on_db Q) (resolve_skybridge_profile_from_provider x url token)"
  unfolding resolve_skybridge_profile_from_provider_def fetch_skybridge_profile_def
    generate_skybridge_nebula_id_def
  by (intro keeps_intros)+

lemma keeps_providers [keeps_intros]: "keeps (on_db Q) (try_skybridge_providers x token e urls)"
  by (induction urls arbitrary: e) (auto intro!: keeps_intros)

lemma keeps_guards [keeps_intros]:
  "keeps (on_db Q) (require_user x c h)" "keeps (on_db Q) (require_admin x c h)"
  "keeps (on_db Q) (issue_jwt x c user tenant role)" "keeps (on_db Q) (hash_password x secret)"
  unfolding require_admin_def require_user_def issue_jwt_def hash_password_def
  by (intro keeps_intros)+

lemma keeps_identity [keeps_intros]:
  "keeps (on_db Q) (register x c reg)" "keeps (on_db Q) (auth_skybridge x c token)"
  "keeps (on_db Q) (login x c log)"
  unfolding register_def auth_skybridge_def login_def create_unique_nebula_id_def
    resolve_skybridge_profile_def
  by (intro keeps_intros)+

end

end
