(* ===== verification/CloudEntitlements.thy ===== *)
theory CloudEntitlements
  imports CloudIdentity
begin

text \<open>
  Card keys, entitlements, devices and leases in the cloud API
  (\<open>apps/cloud-api/src/main.rs\<close>): generating and redeeming card keys, the entitlement a paid
  order is provisioned with, the full-access entitlement of allow-listed test identities,
  device activation under the device limit, the signed lease, and revocation.
\<close>

section \<open>Card keys\<close>

record generated_card_key =
  gk_card_key :: card_key
  gk_plain_code :: string

definition card_key_fingerprint :: "crates \<Rightarrow> string \<Rightarrow> string" where
  "card_key_fingerprint x card_code = hex_lower (x_sha256 x card_code)"

definition hash_fingerprint :: "crates \<Rightarrow> string \<Rightarrow> string" where
  "hash_fingerprint x v = hex_lower (x_sha256 x v)"

definition generate_card_key ::
  "crates \<Rightarrow> plan_code \<Rightarrow> tenant_id \<Rightarrow> u16 \<Rightarrow> u8 \<Rightarrow> generated_card_key handler" where
  "generate_card_key x plan tenant duration_days max_devices =
     andthen (sample_alnum 24) (\<lambda>random.
       let plain_code = ''ORS-'' @ to_uppercase (plan_str plan) @ ''-'' @ random in
     andthen new_v4 (\<lambda>i.
     andthen (hash_password x plain_code) (\<lambda>code_hash.
     andthen utc_now (\<lambda>created. ret
       \<lparr> gk_card_key =
           \<lparr> ck_id = CardKeyId i, ck_tenant_id = tenant, ck_plan_code = plan,
             ck_code_hash = code_hash, ck_code_fingerprint = card_key_fingerprint x plain_code,
             ck_duration_days = duration_days, ck_max_devices = max_devices,
             ck_status = CardAvailable, ck_redeemed_by = None, ck_redeemed_at = None,
             ck_created_at = created \<rparr>,
         gk_plain_code = plain_code \<rparr>))))"

record create_card_keys_request =
  cc_count :: u16
  cc_plan_code :: "string option"
  cc_duration_days :: "u16 option"
  cc_max_devices :: "u8 option"

text \<open>\<open>input.count.clamp(1, 50)\<close>, and the loop that inserts one generated key per round.\<close>

definition clamp_count :: "u16 \<Rightarrow> nat" where
  "clamp_count n = min 50 (max 1 (unat n))"

definition create_card_keys ::
  "crates \<Rightarrow> app_config \<Rightarrow> headers \<Rightarrow> create_card_keys_request \<Rightarrow> string list handler" where
  "create_card_keys x c h input =
     andthen (require_admin x c h) (\<lambda>_.
       let count = clamp_count (cc_count input);
           plan = PlanCode (unwrap_or (cc_plan_code input) ''standard_30d'');
           duration_days = unwrap_or (cc_duration_days input) 30;
           max_devices = unwrap_or (cc_max_devices input) 1
       in andthen (lift (validate_card_key_limits duration_days max_devices)) (\<lambda>_.
          andthen new_v4 (\<lambda>t.
            let tenant = TenantId t in
          transaction
            (andthen (insert_tenant tenant) (\<lambda>_.
             andthen (repeat_act count
               (andthen (generate_card_key x plan tenant duration_days max_devices) (\<lambda>generated.
                andthen (map_error db_internal (insert_card_key (gk_card_key generated) None)) (\<lambda>_.
                  ret (gk_plain_code generated))))) (\<lambda>plain_codes.
             andthen (record_audit (Some tenant) ''admin'' ''card_keys.created'' ''card_keys''
               (show_nat count @ '' card keys created'')) (\<lambda>_.
               ret plain_codes)))))))"

section \<open>Entitlements\<close>

definition fulfillment_terms_for_plan :: "plan_code \<Rightarrow> api_error + (u16 \<times> u8)" where
  "fulfillment_terms_for_plan p =
     (if plan_str p = ''standard_30d'' then Inr (30, 1)
      else Inl (bad_request ''unsupported plan code''))"

definition granted ::
  "uuid \<Rightarrow> tenant_id \<Rightarrow> user_id \<Rightarrow> plan_code \<Rightarrow> card_key_id \<Rightarrow> instant \<Rightarrow> u16 \<Rightarrow> entitlement" where
  "granted i tenant user plan source redeemed_at duration_days =
     \<lparr> ent_id = EntitlementId i, ent_tenant_id = tenant, ent_user_id = user,
       ent_plan_code = plan, ent_source_card_key_id = source, ent_features = default_features,
       ent_expires_at = redeemed_at + days (uint duration_days), ent_revoked_at = None \<rparr>"

definition provision_paid_order_entitlement ::
  "crates \<Rightarrow> order \<Rightarrow> string \<Rightarrow> string \<Rightarrow> entitlement handler" where
  "provision_paid_order_entitlement x ord actor summary =
     andthen (lift (fulfillment_terms_for_plan (ord_plan_code ord))) (\<lambda>(duration_days, max_devices).
     andthen (lift (validate_card_key_limits duration_days max_devices)) (\<lambda>_.
     andthen (generate_card_key x (ord_plan_code ord) (ord_tenant_id ord) duration_days max_devices)
       (\<lambda>generated.
     andthen (map_error (map_unique_conflict ''uq_card_keys_order_id'' ''order already has a card key'')
       (insert_card_key (gk_card_key generated) (Some (ord_id ord)))) (\<lambda>_.
     andthen utc_now (\<lambda>redeemed_at.
     andthen (mark_card_key_redeemed (ck_id (gk_card_key generated)) (ord_user_id ord) redeemed_at)
       (\<lambda>_.
     andthen new_v4 (\<lambda>i.
       let e = granted i (ord_tenant_id ord) (ord_user_id ord) (ord_plan_code ord)
                 (ck_id (gk_card_key generated)) redeemed_at duration_days in
     andthen (map_error (map_unique_conflict ''uq_entitlements_source_card_key''
         ''order entitlement is already active'') (insert_entitlement e)) (\<lambda>_.
     andthen (record_audit (Some (ord_tenant_id ord)) actor ''order.entitlement_activated''
       (debug_order_id x (ord_id ord)) summary) (\<lambda>_.
       ret e)))))))))"

definition redeem_card_key :: "crates \<Rightarrow> app_config \<Rightarrow> headers \<Rightarrow> string \<Rightarrow> entitlement handler" where
  "redeem_card_key x c h card_code =
     andthen (require_user x c h) (\<lambda>claims.
       let fingerprint = card_key_fingerprint x card_code in
     transaction
       (andthen (require_some (not_found ''card key not found'')
         (find_card_key_by_fingerprint_for_update fingerprint)) (\<lambda>card.
        andthen (require (ck_status card = CardAvailable) (conflict ''card key is not available''))
          (\<lambda>_.
        andthen (lift (verify_password x (ck_code_hash card) card_code)) (\<lambda>_.
        andthen utc_now (\<lambda>redeemed_at.
        andthen new_v4 (\<lambda>i.
          let e = granted i (ac_tenant_id claims) (ac_sub claims) (ck_plan_code card)
                    (ck_id card) redeemed_at (ck_duration_days card) in
        andthen (mark_card_key_redeemed (ck_id card) (ac_sub claims) redeemed_at) (\<lambda>_.
        andthen (map_error (map_unique_conflict ''uq_entitlements_source_card_key''
            ''card key is already redeemed'') (insert_entitlement e)) (\<lambda>_.
        andthen (record_audit (Some (ac_tenant_id claims)) (debug_user_id x (ac_sub claims))
          ''card_key.redeemed'' (debug_card_key_id x (ck_id card)) ''card key redeemed'') (\<lambda>_.
          ret e))))))))))"

definition revoke_entitlement :: "crates \<Rightarrow> app_config \<Rightarrow> headers \<Rightarrow> uuid \<Rightarrow> entitlement handler" where
  "revoke_entitlement x c h i =
     andthen (require_admin x c h) (\<lambda>_.
     transaction
       (andthen (require_some (not_found ''entitlement not found'')
         (revoke_entitlement_by_id (EntitlementId i))) (\<lambda>e.
        andthen (record_audit (Some (ent_tenant_id e)) ''admin'' ''entitlement.revoked''
          (debug_entitlement_id x (ent_id e)) ''entitlement revoked'') (\<lambda>_.
          ret e))))"

section \<open>Full access for test identities\<close>

definition test_full_access_candidates :: "crates \<Rightarrow> user \<Rightarrow> string list" where
  "test_full_access_candidates x u =
     [to_lowercase (x_uuid_string x (user_uuid (usr_id u))),
      to_lowercase (nebula_str (usr_nebula_id u))]
     @ (case usr_email u of
          Some e \<Rightarrow> (if usr_email_verified_at u \<noteq> None then [to_lowercase (email_str e)] else [])
        | None \<Rightarrow> [])
     @ (case usr_phone u of
          Some p \<Rightarrow> (if usr_phone_verified_at u \<noteq> None then [to_lowercase (phone_str p)] else [])
        | None \<Rightarrow> [])
     @ (case usr_skybridge_user_id u of
          Some i \<Rightarrow> [to_lowercase (x_uuid_string x i)] | None \<Rightarrow> [])"

definition test_full_access_matches :: "crates \<Rightarrow> app_config \<Rightarrow> user \<Rightarrow> bool" where
  "test_full_access_matches x c u =
     (if cfg_test_full_access_identities c = [] \<or> usr_nebula_source u \<noteq> Skybridge then False
      else list_ex (\<lambda>candidate. candidate \<in> set (cfg_test_full_access_identities c))
             (test_full_access_candidates x u))"

definition test_full_access_actor :: "user \<Rightarrow> string" where
  "test_full_access_actor u =
     (case usr_email u of Some e \<Rightarrow> email_str e | None \<Rightarrow> nebula_str (usr_nebula_id u))"

definition ensure_test_full_access_entitlement :: "crates \<Rightarrow> app_config \<Rightarrow> user \<Rightarrow> unit handler" where
  "ensure_test_full_access_entitlement x c u =
     (if \<not> test_full_access_matches x c u then ret ()
      else transaction
        (andthen (lock_user_for_update (usr_id u)) (\<lambda>_.
         andthen (has_active_full_access_entitlement (usr_id u) (cfg_test_full_access_max_devices c))
           (\<lambda>has. if has then ret () else
         let duration_days = cfg_test_full_access_duration_days c;
             max_devices = cfg_test_full_access_max_devices c in
         andthen (generate_card_key x standard_30d (usr_tenant_id u) duration_days max_devices)
           (\<lambda>generated.
         andthen (map_error db_internal (insert_card_key (gk_card_key generated) None)) (\<lambda>_.
         andthen utc_now (\<lambda>redeemed_at.
         andthen (mark_card_key_redeemed (ck_id (gk_card_key generated)) (usr_id u) redeemed_at) (\<lambda>_.
         andthen new_v4 (\<lambda>i.
           let e = granted i (usr_tenant_id u) (usr_id u) standard_30d
                     (ck_id (gk_card_key generated)) redeemed_at duration_days in
         andthen (map_error db_internal (insert_entitlement e)) (\<lambda>_.
           record_audit (Some (usr_tenant_id u)) (test_full_access_actor u)
             ''test_entitlement.granted'' (debug_entitlement_id x (ent_id e))
             ''test full-access entitlement granted from allowlist''))))))))))"

definition ensure_test_full_access_for_user_id ::
  "crates \<Rightarrow> app_config \<Rightarrow> user_id \<Rightarrow> unit handler" where
  "ensure_test_full_access_for_user_id x c user =
     (if cfg_test_full_access_identities c = [] then ret ()
      else andthen (require_some (unauthorized ''user not found'') (find_user_by_id user)) (\<lambda>u.
        ensure_test_full_access_entitlement x c u))"

record me_response =
  me_user :: user_response
  me_entitlements :: "entitlement list"

definition me :: "crates \<Rightarrow> app_config \<Rightarrow> headers \<Rightarrow> me_response handler" where
  "me x c h =
     andthen (require_user x c h) (\<lambda>claims.
     andthen (require_some (unauthorized ''user not found'') (find_user_by_id (ac_sub claims))) (\<lambda>u.
     andthen (ensure_test_full_access_entitlement x c u) (\<lambda>_.
     andthen (list_entitlements_for_user (usr_id u)) (\<lambda>entitlements.
       ret \<lparr> me_user = user_response_from_user u, me_entitlements = entitlements \<rparr>))))"

section \<open>Devices\<close>

record activate_device_request =
  ad_name :: string
  ad_fingerprint :: string

definition activate_device ::
  "crates \<Rightarrow> app_config \<Rightarrow> headers \<Rightarrow> activate_device_request \<Rightarrow> device handler" where
  "activate_device x c h input =
     andthen (require_user x c h) (\<lambda>claims.
     andthen (ensure_test_full_access_for_user_id x c (ac_sub claims)) (\<lambda>_.
     andthen (require (trim (ad_name input) \<noteq> []) (bad_request ''device name is required'')) (\<lambda>_.
     andthen (require (trim (ad_fingerprint input) \<noteq> [])
       (bad_request ''device fingerprint is required'')) (\<lambda>_.
       let fingerprint_hash = hash_fingerprint x (ad_fingerprint input) in
     andthen utc_now (\<lambda>now.
     transaction
       (andthen (lock_user_for_update (ac_sub claims)) (\<lambda>_.
        andthen (require_some (forbidden ''no active entitlement'')
          (find_active_entitlement_with_card_limit_for_user (ac_sub claims))) (\<lambda>max_devices.
        andthen (find_device_by_fingerprint (ac_sub claims) fingerprint_hash) (\<lambda>existing.
        andthen
          (if (case existing of Some v \<Rightarrow> dev_status v = DeviceActive | None \<Rightarrow> False) then ret ()
           else andthen (count_active_devices_for_user (ac_sub claims)) (\<lambda>active_count.
             require (device_limit_allows_new_activation active_count max_devices)
               (forbidden (''device limit reached for this entitlement ''
                  @ show_fleet active_count max_devices)))) (\<lambda>_.
        andthen (upsert_device
          \<lparr> dev_id = device_id_for (x_uuid_string x) (x_uuid_v5 x) (ac_sub claims) (ad_fingerprint input),
            dev_tenant_id = ac_tenant_id claims, dev_user_id = ac_sub claims,
            dev_name = ad_name input, dev_fingerprint_hash = fingerprint_hash,
            dev_status = DeviceActive, dev_activated_at = now, dev_last_seen_at = Some now \<rparr>) (\<lambda>device.
        andthen (record_audit (Some (dev_tenant_id device)) (debug_user_id x (dev_user_id device))
          ''device.activated'' (debug_device_id x (dev_id device)) ''device activated'') (\<lambda>_.
          ret device))))))))))))"

section \<open>Leases\<close>

definition lease_signing_payload :: "crates \<Rightarrow> entitlement_lease \<Rightarrow> string \<Rightarrow> string \<Rightarrow> string" where
  "lease_signing_payload x l issuer audience = x_json_print x (JObject
     [(''issuer'', JString issuer), (''audience'', JString audience),
      (''claims'', lease_claims_to_json x (lease_claims_of l))])"

definition sign_entitlement_lease ::
  "crates \<Rightarrow> app_config \<Rightarrow> entitlement_lease \<Rightarrow> entitlement_lease handler" where
  "sign_entitlement_lease x c l =
     (case cfg_lease_signing_private_key_pem c of
        None \<Rightarrow> throw (service_unavailable ''lease signing key is not configured'')
      | Some pem \<Rightarrow>
          andthen (lift (ok_or (service_unavailable ''lease signing key is invalid'')
            (rsa_private_key x pem))) (\<lambda>key.
            let payload = lease_signing_payload x l (cfg_lease_issuer c) (cfg_lease_audience c) in
          andthen os_random (\<lambda>r. ret (l\<lparr> lease_signature := Some
            \<lparr> sig_alg = ''RS256'', sig_kid = cfg_lease_signing_key_id c,
              sig_issuer = cfg_lease_issuer c, sig_audience = cfg_lease_audience c,
              sig_value = x_base64_encode x (x_rsa_sign x key r payload) \<rparr> \<rparr>))))"

definition issue_lease :: "crates \<Rightarrow> app_config \<Rightarrow> headers \<Rightarrow> uuid \<Rightarrow> entitlement_lease handler" where
  "issue_lease x c h i =
     andthen (require_user x c h) (\<lambda>claims.
     andthen (ensure_test_full_access_for_user_id x c (ac_sub claims)) (\<lambda>_.
     andthen (transaction
       (andthen (require_some (not_found ''active device not found'')
         (find_active_device (DeviceId i) (ac_sub claims))) (\<lambda>device.
        andthen (require_some (forbidden ''no active entitlement'')
          (find_active_entitlement_for_user (ac_sub claims))) (\<lambda>e.
        andthen (enforce_device_limit_for_lease (ac_sub claims)) (\<lambda>_.
        andthen utc_now (\<lambda>seen.
        andthen (touch_device_last_seen (dev_id device) seen) (\<lambda>_.
          ret (device, e)))))))) (\<lambda>(device, e).
     andthen utc_now (\<lambda>issued.
     andthen new_v4 (\<lambda>fresh.
       sign_entitlement_lease x c
         (lease_new fresh issued (ac_tenant_id claims) (ac_sub claims) (dev_id device) e))))))"

definition audit_log :: "crates \<Rightarrow> app_config \<Rightarrow> headers \<Rightarrow> audit_event list handler" where
  "audit_log x c h = andthen (require_admin x c h) (\<lambda>_. list_audit_events)"

section \<open>What the handlers keep\<close>

context db_contract begin

lemma keeps_case_prod [keeps_intros]:
  "(\<And>a b. keeps R (f a b)) \<Longrightarrow> keeps R (case p of (a, b) \<Rightarrow> f a b)"
  by (cases p) simp

lemma keeps_generate_card_key [keeps_intros]:
  "keeps (on_db Q) (generate_card_key x plan tenant duration limit)"
  unfolding generate_card_key_def by (intro keeps_intros)

lemma keeps_lease_signing [keeps_intros]: "keeps (on_db Q) (sign_entitlement_lease x c l)"
  unfolding sign_entitlement_lease_def by (intro keeps_intros)

lemma keeps_entitlement_handlers [keeps_intros]:
  "keeps (on_db Q) (create_card_keys x c h keys)" "keeps (on_db Q) (revoke_entitlement x c h i)"
  "keeps (on_db Q) (audit_log x c h)"
  unfolding create_card_keys_def revoke_entitlement_def audit_log_def
  by (intro keeps_intros)+

end

context statement_contract begin

lemma keeps_provision [keeps_intros]:
  "keeps (on_db Q) (provision_paid_order_entitlement x ord actor summary)"
  unfolding provision_paid_order_entitlement_def by (intro keeps_intros)

lemma keeps_grants [keeps_intros]:
  "keeps (on_db Q) (ensure_test_full_access_entitlement x c u)"
  "keeps (on_db Q) (redeem_card_key x c h key)"
  unfolding ensure_test_full_access_entitlement_def redeem_card_key_def
  by (intro keeps_intros)+

end

end
