(* ===== verification/CloudPayments.thy ===== *)
theory CloudPayments
  imports CloudEntitlements
begin

text \<open>
  Orders and payments in the cloud API (\<open>apps/cloud-api/src/main.rs\<close>): plans and orders, the
  Stripe checkout session and the WeChat prepay request, the webhooks of both providers with
  their signature checks, their matching against the order and the fulfilment, and the manual
  confirmation by an administrator.
\<close>

section \<open>Plans\<close>

record plan_terms =
  pd_code :: plan_code
  pd_display_name :: string
  pd_amount_minor :: int
  pd_currency :: string

definition plan_definition :: "app_config \<Rightarrow> string option \<Rightarrow> api_error + plan_terms" where
  "plan_definition c requested_code =
     (let chosen = unwrap_or (filled (map_option trim requested_code)) ''standard_30d'' in
      if chosen = ''standard_30d''
      then (let (amount, currency) =
              (case cfg_payment_provider c of
                 ConfiguredWechatPay \<Rightarrow>
                   (cfg_wechat_standard_amount_minor c, to_uppercase (trim (cfg_wechat_currency c)))
               | _ \<Rightarrow>
                   (cfg_stripe_standard_amount_minor c, to_lowercase (trim (cfg_stripe_currency c))))
            in Inr \<lparr> pd_code = standard_30d,
                     pd_display_name = ''Ozon Rust Suite Standard 30 days'',
                     pd_amount_minor = amount, pd_currency = currency \<rparr>)
      else Inl (bad_request ''unsupported plan code''))"

fun order_payment_provider :: "configured_payment_provider \<Rightarrow> api_error + payment_provider" where
  "order_payment_provider ConfiguredManual = Inr Manual"
| "order_payment_provider ConfiguredStripe = Inr Stripe"
| "order_payment_provider ConfiguredAlipay =
     Inl (service_unavailable ''Alipay is not wired yet; configure Stripe or manual payments'')"
| "order_payment_provider ConfiguredWechatPay = Inr WechatPay"
| "order_payment_provider (ConfiguredUnknown p) =
     Inl (service_unavailable (''unknown payment provider: '' @ p))"

section \<open>Requests to the providers\<close>

record wechat_native_prepay_response =
  wp_code_url :: string

record stripe_checkout_session_create_response =
  sc_id :: string
  sc_url :: string

definition required_wechat_config :: "string option \<Rightarrow> string \<Rightarrow> api_error + string" where
  "required_wechat_config v label =
     ok_or (service_unavailable (label @ '' is not configured'')) (filled v)"

definition random_nonce :: "nat \<Rightarrow> string handler" where
  "random_nonce n = sample_alnum n"

definition wechat_out_trade_no :: "crates \<Rightarrow> order_id \<Rightarrow> string" where
  "wechat_out_trade_no x i = x_uuid_simple x (order_uuid i)"

definition newline :: string where
  "newline = [char_of (10 :: nat)]"

definition quoted :: "string \<Rightarrow> string" where
  "quoted s = ''\"'' @ s @ ''\"''"

definition sign_wechat_message :: "crates \<Rightarrow> app_config \<Rightarrow> string \<Rightarrow> string handler" where
  "sign_wechat_message x c message =
     andthen (lift (parse_wechat_merchant_private_key x c)) (\<lambda>key.
     andthen os_random (\<lambda>r. ret (x_base64_encode x (x_rsa_sign x key r message))))"

definition wechatpay_authorization ::
  "crates \<Rightarrow> app_config \<Rightarrow> string \<Rightarrow> string \<Rightarrow> string \<Rightarrow> string handler" where
  "wechatpay_authorization x c verb canonical_url body_text =
     andthen (lift (required_wechat_config (cfg_wechat_mch_id c) ''WeChat merchant id'')) (\<lambda>mch_id.
     andthen (lift (required_wechat_config (cfg_wechat_merchant_serial_no c)
       ''WeChat merchant certificate serial number'')) (\<lambda>serial_no.
     andthen utc_now (\<lambda>now.
       let stamp = show_int (timestamp now) in
     andthen (random_nonce 32) (\<lambda>nonce.
     andthen (sign_wechat_message x c (verb @ newline @ canonical_url @ newline @ stamp @ newline
         @ nonce @ newline @ body_text @ newline)) (\<lambda>signature.
       ret (''WECHATPAY2-SHA256-RSA2048 mchid='' @ quoted mch_id @ '',nonce_str='' @ quoted nonce
         @ '',signature='' @ quoted signature @ '',timestamp='' @ quoted stamp
         @ '',serial_no='' @ quoted serial_no))))))"

definition create_wechat_native_prepay ::
  "crates \<Rightarrow> app_config \<Rightarrow> order \<Rightarrow> plan_terms \<Rightarrow> wechat_native_prepay_response handler" where
  "create_wechat_native_prepay x c ord plan =
     andthen (lift (required_wechat_config (cfg_wechat_app_id c) ''WeChat app id'')) (\<lambda>app_id.
     andthen (lift (required_wechat_config (cfg_wechat_mch_id c) ''WeChat merchant id'')) (\<lambda>mch_id.
       let endpoint_path = ''/v3/pay/transactions/native'';
           endpoint = trim_end_matches (CHR ''/'') (cfg_wechat_api_base_url c) @ endpoint_path;
           body_text = x_json_print x (JObject
             [(''appid'', JString app_id), (''mchid'', JString mch_id),
              (''description'', JString (pd_display_name plan)),
              (''out_trade_no'', JString (ord_payment_reference ord)),
              (''notify_url'', JString (cfg_wechat_notify_url c)),
              (''amount'', JObject [(''total'', JInt (ord_amount_minor ord)),
                 (''currency'', JString (to_uppercase (ord_currency ord)))])])
       in
     andthen (wechatpay_authorization x c ''POST'' endpoint_path body_text) (\<lambda>authorization.
     andthen (http_send \<lparr> hr_method = ''POST'', hr_url = endpoint,
         hr_headers = [(''authorization'', authorization), (''content-type'', ''application/json'')],
         hr_body = TextBody body_text \<rparr>) (\<lambda>answer.
       case answer of
         None \<Rightarrow> throw (bad_gateway ''WeChat Pay is temporarily unavailable'')
       | Some response \<Rightarrow> (case rsp_body response of
           None \<Rightarrow> throw (bad_gateway ''WeChat Pay response could not be read'')
         | Some text \<Rightarrow>
             if \<not> is_success (rsp_status response)
             then throw (bad_gateway (unwrap_or
               (Option.bind (Option.bind (x_json_parse x text) (field_opt ''message'' de_string)) id)
               ''WeChat Pay rejected native prepay request''))
             else (case Option.bind (x_json_parse x text) (field ''code_url'' de_string) of
               None \<Rightarrow> throw (bad_gateway ''WeChat Pay response was invalid'')
             | Some code_url \<Rightarrow>
                 if trim code_url = []
                 then throw (bad_gateway ''WeChat Pay response did not include a code_url'')
                 else ret \<lparr> wp_code_url = code_url \<rparr>))))))"

definition create_stripe_checkout_session ::
  "crates \<Rightarrow> app_config \<Rightarrow> order \<Rightarrow> plan_terms
   \<Rightarrow> stripe_checkout_session_create_response handler" where
  "create_stripe_checkout_session x c ord plan =
     (case cfg_stripe_secret_key c of
        None \<Rightarrow> throw (service_unavailable ''Stripe is not configured'')
      | Some secret_key \<Rightarrow>
          let order_id = x_uuid_string x (order_uuid (ord_id ord)) in
          andthen (http_send \<lparr> hr_method = ''POST'',
            hr_url = ''https://api.stripe.com/v1/checkout/sessions'',
            hr_headers = [(''authorization'', ''Bearer '' @ secret_key)],
            hr_body = FormBody
              [(''mode'', ''payment''),
               (''success_url'', cfg_stripe_success_url c),
               (''cancel_url'', cfg_stripe_cancel_url c),
               (''client_reference_id'', order_id),
               (''metadata[order_id]'', order_id),
               (''metadata[tenant_id]'', x_uuid_string x (tenant_uuid (ord_tenant_id ord))),
               (''metadata[user_id]'', x_uuid_string x (user_uuid (ord_user_id ord))),
               (''metadata[plan_code]'', plan_str (pd_code plan)),
               (''line_items[0][quantity]'', ''1''),
               (''line_items[0][price_data][currency]'', pd_currency plan),
               (''line_items[0][price_data][unit_amount]'', show_int (pd_amount_minor plan)),
               (''line_items[0][price_data][product_data][name]'', pd_display_name plan)] \<rparr>)
            (\<lambda>answer. case answer of
               None \<Rightarrow> throw (bad_gateway ''Stripe checkout is temporarily unavailable'')
             | Some response \<Rightarrow> (case rsp_body response of
                 None \<Rightarrow> throw (bad_gateway ''Stripe checkout response could not be read'')
               | Some text \<Rightarrow>
                   if \<not> is_success (rsp_status response)
                   then throw (bad_gateway ''Stripe checkout session creation failed'')
                   else (case Option.bind (x_json_parse x text) (\<lambda>j.
                           case (field ''id'' de_string j, field ''url'' de_string j) of
                             (Some i, Some u) \<Rightarrow> Some (i, u) | _ \<Rightarrow> None) of
                     None \<Rightarrow> throw (bad_gateway ''Stripe checkout response was invalid'')
                   | Some (i, u) \<Rightarrow>
                       if trim u = []
                       then throw (bad_gateway ''Stripe checkout response did not include a checkout URL'')
                       else ret \<lparr> sc_id = i, sc_url = u \<rparr>))))"

section \<open>Orders\<close>

record payment_session_response =
  ps_provider :: string
  ps_checkout_url :: "string option"
  ps_checkout_session_id :: "string option"
  ps_native_code_url :: "string option"
  ps_payment_reference :: string
  ps_amount_minor :: int
  ps_currency :: string
  ps_message :: string

record order_response =
  os_order :: order
  os_payment :: "payment_session_response option"

text \<open>The messages shown to the customer, in UTF-8.\<close>

definition manual_order_message :: string where
  "manual_order_message =
     utf8 [229, 136, 155, 229, 187, 186, 230, 136, 144, 229, 138, 159, 227, 128, 130, 231, 186,
     191, 228, 184, 139, 228, 187, 152, 230, 172, 190, 231, 161, 174, 232, 174, 164, 229, 144,
     142, 239, 188, 140, 229, 174, 162, 230, 156, 141, 228, 188, 154, 232, 191, 148, 229, 155,
     158, 229, 141, 161, 229, 175, 134, 231, 148, 168, 228, 186, 142, 229, 133, 145, 230, 141,
     162, 230, 142, 136, 230, 157, 131, 227, 128, 130]"

definition stripe_order_message :: string where
  "stripe_order_message =
     utf8 [230, 173, 163, 229, 156, 168, 230, 137, 147, 229, 188, 128, 32, 83, 116, 114, 105,
     112, 101, 32, 67, 104, 101, 99, 107, 111, 117, 116, 227, 128, 130, 230, 148, 175, 228,
     187, 152, 230, 136, 144, 229, 138, 159, 229, 144, 142, 228, 188, 154, 232, 135, 170, 229,
     138, 168, 229, 188, 128, 233, 128, 154, 230, 142, 136, 230, 157, 131, 227, 128, 130]"

definition wechat_order_message :: string where
  "wechat_order_message =
     utf8 [232, 175, 183, 231, 148, 168, 229, 190, 174, 228, 191, 161, 230, 137, 171, 231, 160,
     129, 229, 174, 140, 230, 136, 144, 230, 148, 175, 228, 187, 152, 227, 128, 130, 230, 148,
     175, 228, 187, 152, 230, 136, 144, 229, 138, 159, 229, 144, 142, 239, 188, 140, 230, 142,
     136, 230, 157, 131, 228, 188, 154, 232, 135, 170, 229, 138, 168, 229, 188, 128, 233, 128,
     154, 239, 188, 155, 229, 166, 130, 230, 158, 156, 233, 161, 181, 233, 157, 162, 230, 156,
     170, 229, 143, 152, 229, 140, 150, 239, 188, 140, 231, 130, 185, 229, 136, 183, 230, 150,
     176, 231, 138, 182, 230, 128, 129, 227, 128, 130]"

definition session_for ::
  "order \<Rightarrow> string option \<Rightarrow> string option \<Rightarrow> string option \<Rightarrow> string \<Rightarrow> payment_session_response" where
  "session_for ord checkout_url session_id native_code_url message =
     \<lparr> ps_provider = payment_provider_to_db (ord_payment_provider ord),
       ps_checkout_url = checkout_url, ps_checkout_session_id = session_id,
       ps_native_code_url = native_code_url, ps_payment_reference = ord_payment_reference ord,
       ps_amount_minor = ord_amount_minor ord, ps_currency = ord_currency ord,
       ps_message = message \<rparr>"

text \<open>The \<open>status\<close> and \<open>payment_reference\<close> of a new order.\<close>

definition initial_status :: "payment_provider \<Rightarrow> api_error + order_status" where
  "initial_status p =
     (case p of
        Manual \<Rightarrow> Inr PendingManualPayment
      | Stripe \<Rightarrow> Inr PendingProviderPayment
      | WechatPay \<Rightarrow> Inr PendingProviderPayment
      | Alipay \<Rightarrow> Inl (service_unavailable ''selected payment provider is not wired yet''))"

definition initial_reference :: "crates \<Rightarrow> payment_provider \<Rightarrow> order_id \<Rightarrow> string handler" where
  "initial_reference x p i =
     (case p of
        Manual \<Rightarrow> andthen new_v4 (\<lambda>u. ret (''OZON-'' @ x_uuid_simple x u))
      | Stripe \<Rightarrow> andthen new_v4 (\<lambda>u. ret (''stripe:'' @ x_uuid_simple x u))
      | _ \<Rightarrow> ret (wechat_out_trade_no x i))"

definition create_order ::
  "crates \<Rightarrow> app_config \<Rightarrow> headers \<Rightarrow> string option \<Rightarrow> order_response handler" where
  "create_order x c h requested_plan =
     andthen (require_user x c h) (\<lambda>claims.
     andthen (lift (plan_definition c requested_plan)) (\<lambda>plan.
     andthen (lift (order_payment_provider (cfg_payment_provider c))) (\<lambda>provider.
     andthen new_v4 (\<lambda>i.
     andthen (lift (initial_status provider)) (\<lambda>status.
     andthen (initial_reference x provider (OrderId i)) (\<lambda>reference.
     andthen utc_now (\<lambda>created.
       let ord = \<lparr> ord_id = OrderId i, ord_tenant_id = ac_tenant_id claims,
             ord_user_id = ac_sub claims, ord_plan_code = pd_code plan, ord_status = status,
             ord_payment_provider = provider, ord_payment_reference = reference,
             ord_amount_minor = pd_amount_minor plan, ord_currency = pd_currency plan,
             ord_checkout_session_id = None, ord_payment_intent_id = None, ord_paid_at = None,
             ord_created_at = created, ord_confirmed_at = None \<rparr> in
     andthen (transaction
       (andthen (insert_order ord) (\<lambda>_.
          record_audit (Some (ord_tenant_id ord)) (debug_user_id x (ord_user_id ord))
            ''order.created'' (debug_order_id x (ord_id ord))
            (payment_provider_to_db provider @ '' order created'')))) (\<lambda>_.
       case provider of
         Stripe \<Rightarrow>
           andthen (create_stripe_checkout_session x c ord plan) (\<lambda>session.
           andthen (attach_checkout_session (ord_id ord) (sc_id session)) (\<lambda>attached.
             ret \<lparr> os_order = attached, os_payment = Some ((session_for attached
               (Some (sc_url session)) (Some (sc_id session)) None stripe_order_message)
                 \<lparr> ps_provider := payment_provider_to_db provider \<rparr>) \<rparr>))
       | WechatPay \<Rightarrow>
           andthen (create_wechat_native_prepay x c ord plan) (\<lambda>session.
             ret \<lparr> os_order = ord, os_payment = Some (session_for ord None None
               (Some (wp_code_url session)) wechat_order_message) \<rparr>)
       | _ \<Rightarrow>
           ret \<lparr> os_order = ord, os_payment = Some (session_for ord None None None
             manual_order_message) \<rparr>))))))))"

definition may_see_order :: "auth_claims \<Rightarrow> order \<Rightarrow> bool" where
  "may_see_order claims ord \<longleftrightarrow> ord_user_id ord = ac_sub claims \<or> ac_role claims = AdminRole"

definition get_order :: "crates \<Rightarrow> app_config \<Rightarrow> headers \<Rightarrow> uuid \<Rightarrow> order_response handler" where
  "get_order x c h i =
     andthen (require_user x c h) (\<lambda>claims.
     andthen (find_order_by_id (OrderId i)) (\<lambda>found.
     andthen (lift (ok_or (not_found ''order not found'')
       (case found of None \<Rightarrow> None | Some ord \<Rightarrow> if may_see_order claims ord then Some ord else None)))
       (\<lambda>ord.
       if ord_payment_provider ord = WechatPay \<and> ord_status ord = PendingProviderPayment
       then andthen (lift (plan_definition c (Some (plan_str (ord_plan_code ord))))) (\<lambda>plan.
            andthen (create_wechat_native_prepay x c ord plan) (\<lambda>session.
              ret \<lparr> os_order = ord, os_payment = Some (session_for ord None None
                (Some (wp_code_url session)) wechat_order_message) \<rparr>))
       else ret \<lparr> os_order = ord, os_payment = None \<rparr>)))"

section \<open>Stripe webhook\<close>

record stripe_webhook_event =
  se_id :: string
  se_kind :: string
  se_object :: json

record stripe_checkout_session_object =
  ss_id :: string
  ss_client_reference_id :: "string option"
  ss_metadata :: "(string \<times> string) list option"
  ss_payment_status :: "string option"
  ss_amount_total :: "int option"
  ss_currency :: "string option"
  ss_payment_intent :: "json option"

definition stripe_event_of_json :: "stripe_webhook_event de" where
  "stripe_event_of_json j =
     (case (field ''id'' de_string j, field ''type'' de_string j, field ''data'' (field ''object'' Some) j) of
        (Some i, Some k, Some v) \<Rightarrow> Some \<lparr> se_id = i, se_kind = k, se_object = v \<rparr>
      | _ \<Rightarrow> None)"

definition stripe_session_of_json :: "stripe_checkout_session_object de" where
  "stripe_session_of_json j =
     (case (field ''id'' de_string j, field_opt ''client_reference_id'' de_string j,
            field_opt ''metadata'' (de_map de_string) j, field_opt ''payment_status'' de_string j) of
        (Some i, Some r, Some m, Some s) \<Rightarrow>
          (case (field_opt ''amount_total'' de_i64 j, field_opt ''currency'' de_string j,
                 field_opt ''payment_intent'' Some j) of
             (Some a, Some c, Some p) \<Rightarrow> Some
               \<lparr> ss_id = i, ss_client_reference_id = r, ss_metadata = m, ss_payment_status = s,
                 ss_amount_total = a, ss_currency = c, ss_payment_intent = p \<rparr>
           | _ \<Rightarrow> None)
      | _ \<Rightarrow> None)"

text \<open>The loop of \<open>parse_stripe_signature_header\<close> over the comma-separated parts. A later
  \<open>t\<close> replaces an earlier one, also by nothing when it is no number.\<close>

fun stripe_header_parts ::
  "int option \<Rightarrow> string list \<Rightarrow> string list \<Rightarrow> int option \<times> string list" where
  "stripe_header_parts stamp signatures [] = (stamp, signatures)"
| "stripe_header_parts stamp signatures (part # parts) =
     (case split_once (CHR ''='') (trim part) of
        None \<Rightarrow> stripe_header_parts stamp signatures parts
      | Some (key, v) \<Rightarrow>
          if key = ''t'' then stripe_header_parts (parse_i64 v) signatures parts
          else if key = ''v1'' \<and> trim v \<noteq> []
          then stripe_header_parts stamp (signatures @ [trim v]) parts
          else stripe_header_parts stamp signatures parts)"

definition parse_stripe_signature_header :: "string \<Rightarrow> api_error + (int \<times> string list)" where
  "parse_stripe_signature_header header =
     (case stripe_header_parts None [] (split_on (CHR '','') header) of
        (None, _) \<Rightarrow> Inl (bad_request ''missing Stripe timestamp'')
      | (Some stamp, signatures) \<Rightarrow>
          if signatures = [] then Inl (bad_request ''missing Stripe v1 signature'')
          else Inr (stamp, signatures))"

text \<open>\<open>i64\<close> subtraction and \<open>abs\<close> without overflow checks, as in a release build.\<close>

definition wrap_i64 :: "int \<Rightarrow> int" where
  "wrap_i64 i = (i + 2 ^ 63) mod 2 ^ 64 - 2 ^ 63"

definition i64_abs :: "int \<Rightarrow> int" where
  "i64_abs i = wrap_i64 (if i < 0 then - i else i)"

definition verify_stripe_signature :: "crates \<Rightarrow> string \<Rightarrow> string \<Rightarrow> string \<Rightarrow> unit handler" where
  "verify_stripe_signature x header body_bytes secret =
     andthen (lift (parse_stripe_signature_header header)) (\<lambda>(stamp, signatures).
     andthen utc_now (\<lambda>t.
       let now = timestamp t in
     andthen (require (\<not> 300 < i64_abs (wrap_i64 (now - stamp)))
       (bad_request ''stale Stripe webhook signature'')) (\<lambda>_.
     andthen (lift (ok_or (internal ''invalid Stripe webhook secret'')
       (x_hmac_sha256 x secret (show_int stamp @ ''.'' @ body_bytes)))) (\<lambda>mac.
       require (list_ex (\<lambda>signature. constant_time_eq signature (hex_lower mac)) signatures)
         (bad_request ''invalid Stripe webhook signature'')))))"

definition sha256_hex :: "crates \<Rightarrow> string \<Rightarrow> string" where
  "sha256_hex x bytes = hex_lower (x_sha256 x bytes)"

definition stripe_session_order_id ::
  "crates \<Rightarrow> stripe_checkout_session_object \<Rightarrow> api_error + order_id" where
  "stripe_session_order_id x s =
     bind_res (ok_or (bad_request ''Stripe session missing order id'')
       (or_else (Option.bind (ss_metadata s) (\<lambda>m. map_of m ''order_id'')) (ss_client_reference_id s)))
       (\<lambda>raw. bind_res (ok_or (bad_request ''Stripe session order id is invalid'') (x_uuid_parse x raw))
       (\<lambda>u. Inr (OrderId u)))"

definition validate_stripe_session_matches_order ::
  "stripe_checkout_session_object \<Rightarrow> order \<Rightarrow> api_error + unit" where
  "validate_stripe_session_matches_order s ord = all_ok
     [bail_if (ord_payment_provider ord \<noteq> Stripe) (bad_request ''order is not a Stripe order''),
      bail_if (ord_checkout_session_id ord \<noteq> Some (ss_id s))
        (bad_request ''Stripe session does not match order''),
      bail_if (ss_amount_total s \<noteq> Some (ord_amount_minor ord))
        (bad_request ''Stripe amount does not match order''),
      bail_if (map_option to_lowercase (ss_currency s) \<noteq> Some (ord_currency ord))
        (bad_request ''Stripe currency does not match order'')]"

definition stripe_string_value :: "json option \<Rightarrow> string option" where
  "stripe_string_value v = Option.bind v as_str"

definition record_ignored_stripe_event ::
  "stripe_webhook_event \<Rightarrow> string \<Rightarrow> bool handler" where
  "record_ignored_stripe_event event payload_hash = transaction
     (andthen (insert_payment_event Stripe (se_id event) (se_kind event) None payload_hash) (\<lambda>_.
        ret False))"

definition fulfill_stripe_checkout_session ::
  "crates \<Rightarrow> stripe_webhook_event \<Rightarrow> stripe_checkout_session_object \<Rightarrow> string \<Rightarrow> bool handler" where
  "fulfill_stripe_checkout_session x event s payload_hash =
     (if ss_payment_status s \<noteq> Some ''paid'' then record_ignored_stripe_event event payload_hash
      else andthen (lift (stripe_session_order_id x s)) (\<lambda>order_id.
        let payment_intent_id = stripe_string_value (ss_payment_intent s) in
        transaction
          (andthen (insert_payment_event Stripe (se_id event) (se_kind event) (Some order_id) payload_hash)
             (\<lambda>inserted.
           if \<not> inserted then ret False else
           andthen (require_some (not_found ''order not found'')
             (find_order_by_id_for_update order_id)) (\<lambda>current_order.
           andthen (lift (validate_stripe_session_matches_order s current_order)) (\<lambda>_.
           if ord_status current_order = OrderConfirmed then ret False else
           andthen (require (ord_status current_order = PendingProviderPayment)
             (conflict ''order is not awaiting provider payment'')) (\<lambda>_.
           andthen utc_now (\<lambda>now.
           andthen (confirm_provider_order order_id payment_intent_id now) (\<lambda>paid_order.
           andthen (provision_paid_order_entitlement x paid_order ''stripe''
             ''Stripe checkout paid and entitlement activated'') (\<lambda>_.
             ret True))))))))))"

record stripe_webhook_response =
  st_received :: bool
  st_processed :: bool

definition stripe_webhook ::
  "crates \<Rightarrow> app_config \<Rightarrow> headers \<Rightarrow> string \<Rightarrow> stripe_webhook_response handler" where
  "stripe_webhook x c h body_bytes =
     andthen (lift (ok_or (service_unavailable ''Stripe webhook is not configured'')
       (cfg_stripe_webhook_secret c))) (\<lambda>signing_secret.
     andthen (lift (ok_or (bad_request ''missing Stripe-Signature header'') (h ''stripe-signature'')))
       (\<lambda>signature.
     andthen (verify_stripe_signature x signature body_bytes signing_secret) (\<lambda>_.
       let payload_hash = sha256_hex x body_bytes in
     andthen (lift (ok_or (bad_request ''invalid Stripe webhook payload'')
       (Option.bind (x_json_parse x body_bytes) stripe_event_of_json))) (\<lambda>event.
     andthen
       (if se_kind event = ''checkout.session.completed''
           \<or> se_kind event = ''checkout.session.async_payment_succeeded''
        then andthen (lift (ok_or (bad_request ''invalid Stripe checkout session event'')
               (stripe_session_of_json (se_object event)))) (\<lambda>s.
               fulfill_stripe_checkout_session x event s payload_hash)
        else record_ignored_stripe_event event payload_hash) (\<lambda>processed.
       ret \<lparr> st_received = True, st_processed = processed \<rparr>)))))"

section \<open>WeChat Pay webhook\<close>

record wechat_pay_resource =
  wr_algorithm :: string
  wr_ciphertext :: string
  wr_nonce :: string
  wr_associated_data :: "string option"

record wechat_pay_webhook_event =
  we_id :: string
  we_event_type :: string
  we_resource :: wechat_pay_resource

record wechat_pay_transaction_amount =
  wa_total :: int
  wa_currency :: "string option"

record wechat_pay_transaction =
  wt_appid :: string
  wt_mchid :: string
  wt_out_trade_no :: string
  wt_transaction_id :: "string option"
  wt_trade_type :: "string option"
  wt_trade_state :: string
  wt_success_time :: "string option"
  wt_amount :: wechat_pay_transaction_amount

definition wechat_resource_of_json :: "wechat_pay_resource de" where
  "wechat_resource_of_json j =
     (case (field ''algorithm'' de_string j, field ''ciphertext'' de_string j,
            field ''nonce'' de_string j, field_opt ''associated_data'' de_string j) of
        (Some a, Some c, Some n, Some d) \<Rightarrow> Some
          \<lparr> wr_algorithm = a, wr_ciphertext = c, wr_nonce = n, wr_associated_data = d \<rparr>
      | _ \<Rightarrow> None)"

definition wechat_event_of_json :: "wechat_pay_webhook_event de" where
  "wechat_event_of_json j =
     (case (field ''id'' de_string j, field ''event_type'' de_string j,
            field ''resource'' wechat_resource_of_json j) of
        (Some i, Some t, Some r) \<Rightarrow> Some \<lparr> we_id = i, we_event_type = t, we_resource = r \<rparr>
      | _ \<Rightarrow> None)"

definition wechat_amount_of_json :: "wechat_pay_transaction_amount de" where
  "wechat_amount_of_json j =
     (case (field ''total'' de_i64 j, field_opt ''currency'' de_string j) of
        (Some t, Some c) \<Rightarrow> Some \<lparr> wa_total = t, wa_currency = c \<rparr>
      | _ \<Rightarrow> None)"

definition wechat_transaction_of_json :: "wechat_pay_transaction de" where
  "wechat_transaction_of_json j =
     (case (field ''appid'' de_string j, field ''mchid'' de_string j,
            field ''out_trade_no'' de_string j, field_opt ''transaction_id'' de_string j) of
        (Some a, Some m, Some n, Some i) \<Rightarrow>
          (case (field_opt ''trade_type'' de_string j, field ''trade_state'' de_string j,
                 field_opt ''success_time'' de_string j, field ''amount'' wechat_amount_of_json j) of
             (Some t, Some s, Some st, Some amount) \<Rightarrow> Some
               \<lparr> wt_appid = a, wt_mchid = m, wt_out_trade_no = n, wt_transaction_id = i,
                 wt_trade_type = t, wt_trade_state = s, wt_success_time = st,
                 wt_amount = amount \<rparr>
           | _ \<Rightarrow> None)
      | _ \<Rightarrow> None)"

definition required_header :: "headers \<Rightarrow> string \<Rightarrow> api_error + string" where
  "required_header h name =
     ok_or (bad_request (''missing '' @ name @ '' header'')) (filled (h name))"

definition wechat_signed_message :: "string \<Rightarrow> string \<Rightarrow> string \<Rightarrow> string" where
  "wechat_signed_message stamp nonce body_bytes =
     stamp @ newline @ nonce @ newline @ body_bytes @ newline"

definition verify_wechatpay_webhook_signature ::
  "crates \<Rightarrow> app_config \<Rightarrow> headers \<Rightarrow> string \<Rightarrow> api_error + unit" where
  "verify_wechatpay_webhook_signature x c h body_bytes =
     bind_res (required_header h ''wechatpay-timestamp'') (\<lambda>stamp.
     bind_res (required_header h ''wechatpay-nonce'') (\<lambda>nonce.
     bind_res (required_header h ''wechatpay-signature'') (\<lambda>signature.
     bind_res (required_header h ''wechatpay-serial'') (\<lambda>serial.
     bind_res (required_wechat_config (cfg_wechat_pay_public_key_id c) ''WeChat Pay public key id'')
       (\<lambda>expected_serial.
     bind_res (ensure (serial = expected_serial)
       (bad_request ''unexpected WeChat Pay signature serial'')) (\<lambda>_.
     bind_res (ok_or (bad_request ''invalid WeChat Pay signature encoding'')
       (x_base64_decode x signature)) (\<lambda>signature_bytes.
     bind_res (ensure (x_rsa_signature x signature_bytes)
       (bad_request ''invalid WeChat Pay signature'')) (\<lambda>_.
     bind_res (parse_wechatpay_public_key x c) (\<lambda>public_key.
       ensure (x_rsa_verify x public_key (wechat_signed_message stamp nonce body_bytes) signature_bytes)
         (bad_request ''invalid WeChat Pay webhook signature''))))))))))"

definition decrypt_wechatpay_resource ::
  "crates \<Rightarrow> app_config \<Rightarrow> wechat_pay_resource \<Rightarrow> api_error + wechat_pay_transaction" where
  "decrypt_wechatpay_resource x c r =
     bind_res (ensure (wr_algorithm r = ''AEAD_AES_256_GCM'')
       (bad_request ''unsupported WeChat Pay resource algorithm'')) (\<lambda>_.
     bind_res (ok_or (service_unavailable ''WeChat Pay API v3 key is not configured'')
       (cfg_wechat_api_v3_key c)) (\<lambda>key.
     bind_res (ensure (x_aes_key x key) (service_unavailable ''WeChat Pay API v3 key is invalid'')) (\<lambda>_.
     bind_res (ok_or (bad_request ''invalid WeChat Pay resource ciphertext'')
       (x_base64_decode x (wr_ciphertext r))) (\<lambda>ciphertext.
     bind_res (ensure (length (wr_nonce r) = 12)
       (bad_request ''invalid WeChat Pay resource nonce'')) (\<lambda>_.
     bind_res (ok_or (bad_request ''WeChat Pay resource decryption failed'')
       (x_aes_decrypt x key (wr_nonce r) (unwrap_or (wr_associated_data r) []) ciphertext))
       (\<lambda>plaintext.
       ok_or (bad_request ''invalid WeChat Pay transaction payload'')
         (Option.bind (x_json_parse x plaintext) wechat_transaction_of_json)))))))"

definition validate_wechatpay_transaction_for_order ::
  "app_config \<Rightarrow> order \<Rightarrow> wechat_pay_transaction \<Rightarrow> api_error + unit" where
  "validate_wechatpay_transaction_for_order c ord t =
     bind_res (required_wechat_config (cfg_wechat_app_id c) ''WeChat app id'') (\<lambda>app_id.
     bind_res (required_wechat_config (cfg_wechat_mch_id c) ''WeChat merchant id'') (\<lambda>mch_id.
     all_ok
       [bail_if (wt_appid t \<noteq> app_id) (bad_request ''WeChat Pay app id does not match''),
        bail_if (wt_mchid t \<noteq> mch_id) (bad_request ''WeChat Pay merchant id does not match''),
        bail_if (wt_trade_type t \<noteq> Some ''NATIVE'') (bad_request ''WeChat Pay trade type is not NATIVE''),
        bail_if (ord_payment_provider ord \<noteq> WechatPay) (bad_request ''order is not a WeChat Pay order''),
        bail_if (ord_payment_reference ord \<noteq> wt_out_trade_no t)
          (bad_request ''WeChat Pay out_trade_no does not match order''),
        bail_if (wa_total (wt_amount t) \<noteq> ord_amount_minor ord)
          (bad_request ''WeChat Pay amount does not match order''),
        bail_if (to_uppercase (unwrap_or (wa_currency (wt_amount t)) ''CNY'') \<noteq> to_uppercase (ord_currency ord))
          (bad_request ''WeChat Pay currency does not match order'')]))"

text \<open>The time of payment: the provider's, or the clock when it gives none that parses.\<close>

definition wechat_paid_at :: "crates \<Rightarrow> wechat_pay_transaction \<Rightarrow> instant handler" where
  "wechat_paid_at x t =
     (case Option.bind (wt_success_time t) (x_rfc3339_parse x) of
        Some at \<Rightarrow> ret at | None \<Rightarrow> utc_now)"

definition process_wechatpay_transaction ::
  "crates \<Rightarrow> app_config \<Rightarrow> wechat_pay_webhook_event \<Rightarrow> wechat_pay_transaction \<Rightarrow> string \<Rightarrow> bool handler" where
  "process_wechatpay_transaction x c event t body_bytes =
     (let payload_hash = sha256_hex x body_bytes in
      if we_event_type event \<noteq> ''TRANSACTION.SUCCESS'' \<or> wt_trade_state t \<noteq> ''SUCCESS''
      then transaction
        (andthen (insert_payment_event WechatPay (we_id event) (we_event_type event) None payload_hash)
           (\<lambda>_. ret False))
      else transaction
        (andthen (require_some (not_found ''WeChat Pay order not found'')
           (find_provider_order_by_reference_for_update WechatPay (wt_out_trade_no t))) (\<lambda>ord.
         andthen (lift (validate_wechatpay_transaction_for_order c ord t)) (\<lambda>_.
         andthen (insert_payment_event WechatPay (we_id event) (we_event_type event)
           (Some (ord_id ord)) payload_hash) (\<lambda>inserted.
         if \<not> inserted \<or> ord_status ord = OrderConfirmed then ret False else
         andthen (require (ord_status ord = PendingProviderPayment)
           (conflict ''order is not awaiting provider payment'')) (\<lambda>_.
         andthen (wechat_paid_at x t) (\<lambda>paid_at.
         andthen (confirm_provider_order (ord_id ord)
           (Some (unwrap_or (wt_transaction_id t) (wt_out_trade_no t))) paid_at) (\<lambda>paid_order.
         andthen (provision_paid_order_entitlement x paid_order ''wechat_pay''
           ''WeChat Pay native payment paid and entitlement activated'') (\<lambda>_.
           ret True)))))))))"

record wechat_pay_webhook_response =
  wh_code :: string
  wh_message :: string
  wh_processed :: bool

definition wechatpay_webhook ::
  "crates \<Rightarrow> app_config \<Rightarrow> headers \<Rightarrow> string \<Rightarrow> wechat_pay_webhook_response handler" where
  "wechatpay_webhook x c h body_bytes =
     andthen (lift (verify_wechatpay_webhook_signature x c h body_bytes)) (\<lambda>_.
     andthen (lift (ok_or (bad_request ''invalid WeChat Pay webhook payload'')
       (Option.bind (x_json_parse x body_bytes) wechat_event_of_json))) (\<lambda>event.
     andthen (lift (decrypt_wechatpay_resource x c (we_resource event))) (\<lambda>t.
     andthen (process_wechatpay_transaction x c event t body_bytes) (\<lambda>processed.
       ret \<lparr> wh_code = ''SUCCESS'', wh_message = ''success'', wh_processed = processed \<rparr>))))"

section \<open>Manual confirmation\<close>

record confirm_order_response =
  co_order :: order
  co_card_key :: string

definition confirm_order_card_key :: "crates \<Rightarrow> order \<Rightarrow> confirm_order_response handler" where
  "confirm_order_card_key x ord =
     (let duration_days = 30; max_devices = 1 in
     andthen (lift (validate_card_key_limits duration_days max_devices)) (\<lambda>_.
     andthen (generate_card_key x (ord_plan_code ord) (ord_tenant_id ord) duration_days max_devices)
       (\<lambda>generated.
     andthen (map_error (map_unique_conflict ''uq_card_keys_order_id'' ''order already has a card key'')
       (insert_card_key (gk_card_key generated) (Some (ord_id ord)))) (\<lambda>_.
     andthen (record_audit (Some (ord_tenant_id ord)) ''admin'' ''order.confirmed''
       (debug_order_id x (ord_id ord)) ''manual payment confirmed and card key generated'') (\<lambda>_.
       ret \<lparr> co_order = ord, co_card_key = gk_plain_code generated \<rparr>)))))"

definition confirm_order ::
  "crates \<Rightarrow> app_config \<Rightarrow> headers \<Rightarrow> uuid \<Rightarrow> confirm_order_response handler" where
  "confirm_order x c h i =
     andthen (require_admin x c h) (\<lambda>_.
     transaction (andthen (confirm_pending_order (OrderId i)) (confirm_order_card_key x)))"

definition confirm_order_by_reference ::
  "crates \<Rightarrow> app_config \<Rightarrow> headers \<Rightarrow> string \<Rightarrow> confirm_order_response handler" where
  "confirm_order_by_reference x c h reference =
     andthen (require_admin x c h) (\<lambda>_.
     transaction (andthen (confirm_pending_order_by_reference reference) (confirm_order_card_key x)))"

section \<open>What the handlers keep\<close>

context db_contract begin

lemma keeps_case_provider [keeps_intros]:
  assumes "keeps R m1" "keeps R m2" "keeps R m3" "keeps R m4"
  shows "keeps R (case p of Manual \<Rightarrow> m1 | Stripe \<Rightarrow> m2 | Alipay \<Rightarrow> m3 | WechatPay \<Rightarrow> m4)"
  using assms by (cases p) simp_all

lemma keeps_wechat_request [keeps_intros]:
  "keeps (on_db Q) (sign_wechat_message x c m)"
  "keeps (on_db Q) (wechatpay_authorization x c verb target text)"
  "keeps (on_db Q) (create_wechat_native_prepay x c ord plan)"
  unfolding create_wechat_native_prepay_def wechatpay_authorization_def sign_wechat_message_def
    random_nonce_def
  by (intro keeps_intros)+

lemma keeps_stripe_request [keeps_intros]:
  "keeps (on_db Q) (create_stripe_checkout_session x c ord plan)"
  unfolding create_stripe_checkout_session_def by (intro keeps_intros)

lemma keeps_order_handlers [keeps_intros]:
  "keeps (on_db Q) (create_order x c h plan)" "keeps (on_db Q) (get_order x c h i)"
proof -
  have pending: "initial_status p = Inr s \<Longrightarrow> s \<noteq> OrderConfirmed" for p s
    by (auto simp: initial_status_def split: payment_provider.splits)
  show "keeps (on_db Q) (create_order x c h plan)"
    unfolding create_order_def initial_reference_def
    by (intro world.keeps_andthen_lift keeps_intros) (simp add: pending)
  show "keeps (on_db Q) (get_order x c h i)"
    unfolding get_order_def by (intro keeps_intros)
qed

lemma keeps_stripe_checks [keeps_intros]:
  "keeps (on_db Q) (verify_stripe_signature x header text secret)"
  "keeps (on_db Q) (record_ignored_stripe_event event payload_hash)"
  unfolding verify_stripe_signature_def record_ignored_stripe_event_def
  by (intro keeps_intros)+

lemma keeps_paid_at [keeps_intros]: "keeps (on_db Q) (wechat_paid_at x t)"
  unfolding wechat_paid_at_def by (intro keeps_intros)

end

context statement_contract begin

lemma keeps_settlement [keeps_intros]:
  "keeps (on_db Q) (fulfill_stripe_checkout_session x event session payload_hash)"
  "keeps (on_db Q) (process_wechatpay_transaction x c event2 t text)"
  "keeps (on_db Q) (confirm_order x c h i)"
  "keeps (on_db Q) (confirm_order_by_reference x c h reference)"
  unfolding fulfill_stripe_checkout_session_def process_wechatpay_transaction_def
    confirm_order_def confirm_order_by_reference_def confirm_order_card_key_def
  by (intro keeps_intros)+

end

end
