(* ===== verification/CloudDownloads.thy ===== *)
theory CloudDownloads
  imports CloudIdentity
begin

text \<open>
  The download page of the cloud API (\<open>apps/cloud-api/src/main.rs\<close>): the validation of the
  local node's release manifest, fetching it, and the cached copy that answers while the
  remote one cannot be had.
\<close>

definition macos_artifact :: "local_node_release_manifest \<Rightarrow> release_artifact option" where
  "macos_artifact m = or_else (rm_macos_aarch64_dmg m) (rm_dmg m)"

definition is_git_commit_hash :: "string \<Rightarrow> bool" where
  "is_git_commit_hash v \<longleftrightarrow> 7 \<le> length v \<and> length v \<le> 64 \<and> list_all is_ascii_hexdigit v"

definition validate_release_artifact :: "crates \<Rightarrow> string \<Rightarrow> release_artifact \<Rightarrow> string + unit" where
  "validate_release_artifact x name a =
     (case x_url_parse x (ra_url a) of
        None \<Rightarrow> Inl ''artifact URL must be absolute''
      | Some parsed \<Rightarrow>
          if url_scheme parsed \<noteq> ''https'' then Inl ''artifact URL must use https''
          else if \<not> is_sha256_hex (ra_sha256 a)
          then (if name = ''msi'' then Inl ''msi sha256 must be a 64-character hex digest''
                else if name = ''exe'' then Inl ''exe sha256 must be a 64-character hex digest''
                else Inl ''artifact sha256 must be a 64-character hex digest'')
          else Inr ())"

definition validate_optional_artifact ::
  "crates \<Rightarrow> string \<Rightarrow> release_artifact option \<Rightarrow> string + unit" where
  "validate_optional_artifact x name a =
     (case a of None \<Rightarrow> Inr () | Some v \<Rightarrow> validate_release_artifact x name v)"

definition validate_local_node_release_manifest ::
  "crates \<Rightarrow> local_node_release_manifest \<Rightarrow> string + unit" where
  "validate_local_node_release_manifest x m = all_ok
     [bail_if (trim (rm_version m) = []) ''version is required'',
      bail_if (\<not> is_git_commit_hash (rm_commit m)) ''commit must be a git hash'',
      validate_release_artifact x ''msi'' (rm_msi m),
      validate_release_artifact x ''exe'' (rm_exe m),
      validate_optional_artifact x ''macos_aarch64_dmg'' (rm_macos_aarch64_dmg m),
      validate_optional_artifact x ''dmg'' (rm_dmg m)]"

definition artifact_of_json :: "release_artifact de" where
  "artifact_of_json j =
     (case (field ''url'' de_string j, field ''sha256'' de_string j) of
        (Some u, Some s) \<Rightarrow> Some \<lparr> ra_url = u, ra_sha256 = s \<rparr> | _ \<Rightarrow> None)"

definition manifest_of_json :: "local_node_release_manifest de" where
  "manifest_of_json j =
     (case (field ''version'' de_string j, field ''commit'' de_string j,
            field ''msi'' artifact_of_json j, field ''exe'' artifact_of_json j) of
        (Some v, Some c, Some m, Some e) \<Rightarrow>
          (case (field_opt ''macos_aarch64_dmg'' artifact_of_json j,
                 field_opt ''dmg'' artifact_of_json j) of
             (Some a, Some d) \<Rightarrow> Some
               \<lparr> rm_version = v, rm_commit = c, rm_msi = m, rm_exe = e,
                 rm_macos_aarch64_dmg = a, rm_dmg = d \<rparr>
           | _ \<Rightarrow> None)
      | _ \<Rightarrow> None)"

definition fetch_remote_local_node_release_manifest ::
  "crates \<Rightarrow> app_config \<Rightarrow> local_node_release_manifest handler" where
  "fetch_remote_local_node_release_manifest x c =
     andthen (http_send \<lparr> hr_method = ''GET'', hr_url = cfg_download_manifest_url c,
         hr_headers = [], hr_body = NoBody \<rparr>) (\<lambda>answer.
       case answer of
         None \<Rightarrow> throw (bad_gateway ''local node release manifest is unavailable'')
       | Some response \<Rightarrow>
           if \<not> is_success (rsp_status response)
           then throw (bad_gateway ''local node release manifest is unavailable'')
           else andthen (lift (ok_or (bad_gateway ''local node release manifest is invalid'')
               (Option.bind (Option.bind (rsp_body response) (x_json_parse x)) manifest_of_json)))
             (\<lambda>manifest.
               andthen (lift (map_err (\<lambda>reason. bad_gateway ''local node release manifest is invalid'')
                 (validate_local_node_release_manifest x manifest))) (\<lambda>_. ret manifest)))"

definition fetch_local_node_release_manifest ::
  "crates \<Rightarrow> app_config \<Rightarrow> local_node_release_manifest handler" where
  "fetch_local_node_release_manifest x c =
     match_res (fetch_remote_local_node_release_manifest x c)
       (\<lambda>manifest. andthen utc_now (\<lambda>now.
          andthen (modify (\<lambda>w. w\<lparr>w_cache :=
              Some \<lparr> cm_manifest = manifest, cm_fetched_at = now \<rparr>\<rparr>)) (\<lambda>_. ret manifest)))
       (\<lambda>e. andthen (gets w_cache) (\<lambda>cached. case cached of
            Some m \<Rightarrow> ret (cm_manifest m) | None \<Rightarrow> throw e))"

record downloads_response =
  dl_local_node :: string
  dl_local_node_msi :: string
  dl_local_node_exe :: string
  dl_local_node_macos_dmg :: "string option"
  dl_macos_aarch64_dmg :: "string option"
  dl_version :: string
  dl_checksum :: string
  dl_checksum_sha256 :: string
  dl_local_node_msi_sha256 :: string
  dl_local_node_exe_sha256 :: string
  dl_local_node_macos_dmg_sha256 :: "string option"
  dl_macos_aarch64_dmg_sha256 :: "string option"
  dl_release_manifest_url :: string
  dl_release_manifest :: local_node_release_manifest
  dl_openclaw_plugin :: string
  dl_openclaw_manifest :: string
  dl_local_manifest_url :: string

definition downloads :: "crates \<Rightarrow> app_config \<Rightarrow> downloads_response handler" where
  "downloads x c = andthen (fetch_local_node_release_manifest x c) (\<lambda>m.
     let macos = macos_artifact m in ret
     \<lparr> dl_local_node = ra_url (rm_msi m), dl_local_node_msi = ra_url (rm_msi m),
       dl_local_node_exe = ra_url (rm_exe m),
       dl_local_node_macos_dmg = map_option ra_url macos,
       dl_macos_aarch64_dmg = map_option ra_url macos,
       dl_version = rm_version m, dl_checksum = ra_sha256 (rm_msi m),
       dl_checksum_sha256 = ra_sha256 (rm_msi m),
       dl_local_node_msi_sha256 = ra_sha256 (rm_msi m),
       dl_local_node_exe_sha256 = ra_sha256 (rm_exe m),
       dl_local_node_macos_dmg_sha256 = map_option ra_sha256 macos,
       dl_macos_aarch64_dmg_sha256 = map_option ra_sha256 macos,
       dl_release_manifest_url = cfg_download_manifest_url c, dl_release_manifest = m,
       dl_openclaw_plugin = cfg_openclaw_plugin_url c,
       dl_openclaw_manifest = cfg_openclaw_manifest_url c,
       dl_local_manifest_url = ''http://127.0.0.1:8790/openclaw/manifest'' \<rparr>)"

section \<open>The cache holds only valid manifests\<close>

definition cache_ok :: "crates \<Rightarrow> world \<Rightarrow> bool" where
  "cache_ok x w \<longleftrightarrow>
     (\<forall>m \<in> set_option (w_cache w). validate_local_node_release_manifest x (cm_manifest m) = Inr ())"

lemma fetch_remote_valid:
  "fetch_remote_local_node_release_manifest x c w = (Inr m, v) \<Longrightarrow>
     validate_local_node_release_manifest x m = Inr ()"
  by (auto simp: fetch_remote_local_node_release_manifest_def run_inv http_send_def res_simps
      split: option.splits if_splits)

lemma fetch_remote_cache [simp]:
  "w_cache (snd (fetch_remote_local_node_release_manifest x c w)) = w_cache w"
  by (simp add: fetch_remote_local_node_release_manifest_def act_simps http_send_def
      split: option.split sum.split)

lemma fetch_manifest_valid:
  assumes "cache_ok x w" "fetch_local_node_release_manifest x c w = (r, v)"
  shows "cache_ok x v \<and> (\<forall>m. r = Inr m \<longrightarrow> validate_local_node_release_manifest x m = Inr ())"
proof -
  obtain q u where f: "fetch_remote_local_node_release_manifest x c w = (q, u)" by fastforce
  have "w_cache u = w_cache w" using fetch_remote_cache [of x c w] f by simp
  with f assms fetch_remote_valid [of x c w] show ?thesis
    by (auto simp: fetch_local_node_release_manifest_def match_res_def act_simps cache_ok_def
        split: sum.splits option.splits)
qed

section \<open>What the handler keeps\<close>

context db_contract begin

lemma keeps_downloads [keeps_intros]: "keeps (on_db Q) (downloads x c)"
  unfolding downloads_def fetch_local_node_release_manifest_def
    fetch_remote_local_node_release_manifest_def
  by (intro keeps_intros keeps_same_db) (simp add: act_simps)

end

end
