(* ===== verification/CloudServer.thy ===== *)
theory CloudServer
  imports CloudPayments CloudDownloads
begin

text \<open>
  The router of the cloud API (\<open>app_router\<close> in \<open>apps/cloud-api/src/main.rs\<close>): every route with
  its decoded input, the handler it calls, and the worlds the server reaches by serving any
  sequence of requests from an empty database.
\<close>

datatype request =
    GetHealth
  | PostRegister register_request
  | PostLogin login_request
  | PostSkybridge string
  | GetMe
  | PostOrder "string option"
  | GetOrder uuid
  | PostStripeWebhook string
  | PostWechatWebhook string
  | PostConfirmOrder uuid
  | PostConfirmOrderByReference string
  | PostCardKeys create_card_keys_request
  | PostRedeem string
  | PostActivateDevice activate_device_request
  | PostLease uuid
  | PostRevoke uuid
  | GetDownloads
  | GetAudit

record health_response =
  hl_service :: string
  hl_status :: string

datatype response =
    RHealth health_response
  | RAuth auth_response
  | RMe me_response
  | ROrder order_response
  | RStripe stripe_webhook_response
  | RWechat wechat_pay_webhook_response
  | RConfirm confirm_order_response
  | RCardKeys "string list"
  | REntitlement entitlement
  | RDevice device
  | RLease entitlement_lease
  | RDownloads downloads_response
  | RAudit "audit_event list"

definition health :: "health_response handler" where
  "health = ret \<lparr> hl_service = ''ozon-cloud-api'', hl_status = ''ok'' \<rparr>"

definition reply :: "('a \<Rightarrow> response) \<Rightarrow> 'a handler \<Rightarrow> response handler" where
  "reply f m = andthen m (\<lambda>a. ret (f a))"

fun serve :: "crates \<Rightarrow> app_config \<Rightarrow> headers \<Rightarrow> request \<Rightarrow> response handler" where
  "serve x c h GetHealth = reply RHealth health"
| "serve x c h (PostRegister r) = reply RAuth (register x c r)"
| "serve x c h (PostLogin r) = reply RAuth (login x c r)"
| "serve x c h (PostSkybridge token) = reply RAuth (auth_skybridge x c token)"
| "serve x c h GetMe = reply RMe (me x c h)"
| "serve x c h (PostOrder plan) = reply ROrder (create_order x c h plan)"
| "serve x c h (GetOrder i) = reply ROrder (get_order x c h i)"
| "serve x c h (PostStripeWebhook text) = reply RStripe (stripe_webhook x c h text)"
| "serve x c h (PostWechatWebhook text) = reply RWechat (wechatpay_webhook x c h text)"
| "serve x c h (PostConfirmOrder i) = reply RConfirm (confirm_order x c h i)"
| "serve x c h (PostConfirmOrderByReference r) = reply RConfirm (confirm_order_by_reference x c h r)"
| "serve x c h (PostCardKeys r) = reply RCardKeys (create_card_keys x c h r)"
| "serve x c h (PostRedeem k) = reply REntitlement (redeem_card_key x c h k)"
| "serve x c h (PostActivateDevice r) = reply RDevice (activate_device x c h r)"
| "serve x c h (PostLease i) = reply RLease (issue_lease x c h i)"
| "serve x c h (PostRevoke i) = reply REntitlement (revoke_entitlement x c h i)"
| "serve x c h GetDownloads = reply RDownloads (downloads x c)"
| "serve x c h GetAudit = reply RAudit (audit_log x c h)"

text \<open>Serving a request with any configuration and any headers; between two requests the
  network may have come to answer differently.\<close>

inductive serve_step :: "crates \<Rightarrow> world \<Rightarrow> world \<Rightarrow> bool" for x where
  "serve_step x w (snd (serve x c h r w))"
| "serve_step x w (w\<lparr>w_net := net\<rparr>)"

definition fresh_world :: "world \<Rightarrow> bool" where
  "fresh_world w \<longleftrightarrow> w_db w = empty_database \<and> w_cache w = None"

inductive served :: "crates \<Rightarrow> world \<Rightarrow> bool" for x where
  "fresh_world w \<Longrightarrow> served x w"
| "served x v \<Longrightarrow> serve_step x v w \<Longrightarrow> served x w"

text \<open>The six operations that settle an order or grant an entitlement, taken as a whole: what
  they keep, and the plain statements keep, every request keeps.\<close>

locale request_contract = db_contract +
  assumes redeem_keeps [keeps_intros]: "keeps (on_db Q) (redeem_card_key x c h k)"
    and full_access_keeps [keeps_intros]: "keeps (on_db Q) (ensure_test_full_access_entitlement x c u)"
    and confirm_keeps [keeps_intros]: "keeps (on_db Q) (confirm_order x c h i)"
    and confirm_by_reference_keeps [keeps_intros]:
      "keeps (on_db Q) (confirm_order_by_reference x c h r)"
    and stripe_keeps [keeps_intros]: "keeps (on_db Q) (fulfill_stripe_checkout_session x ev s p)"
    and wechat_keeps [keeps_intros]: "keeps (on_db Q) (process_wechatpay_transaction x c we t b)"
begin

lemma keeps_handlers [keeps_intros]:
  "keeps (on_db Q) (me x c h)" "keeps (on_db Q) (activate_device x c h dev)"
  "keeps (on_db Q) (issue_lease x c h i)" "keeps (on_db Q) (stripe_webhook x c h text)"
  "keeps (on_db Q) (wechatpay_webhook x c h text)"
  unfolding me_def activate_device_def issue_lease_def stripe_webhook_def wechatpay_webhook_def
    ensure_test_full_access_for_user_id_def
  by (intro keeps_intros)+

lemma keeps_serve: "keeps (on_db Q) (serve x c h r)"
  by (cases r) (simp_all add: reply_def health_def keeps_intros)

lemma serve_step_keeps: "serve_step x v w \<Longrightarrow> Q (w_db v) (w_db w)"
  by (induction rule: serve_step.induct)
    (use keeps_serve in \<open>auto simp: keeps_def on_db_def Q_refl\<close>)

lemma serve_steps_keep: "(serve_step x)\<^sup>*\<^sup>* v w \<Longrightarrow> Q (w_db v) (w_db w)"
  by (induction rule: rtranclp_induct) (auto intro: Q_refl Q_trans serve_step_keeps)

lemma served_keeps: "served x w \<Longrightarrow> Q empty_database (w_db w)"
  by (induction rule: served.induct)
    (auto simp: fresh_world_def intro: Q_refl Q_trans serve_step_keeps)

end

sublocale statement_contract \<subseteq> request_contract
  by unfold_locales (intro keeps_intros)+

end
