(* ===== verification/CloudLaws.thy ===== *)
theory CloudLaws
  imports CloudServer
begin

text \<open>
  The contracts of the cloud database, as interpretations of \<open>statement_contract\<close>. \<open>history\<close>: no row
  is ever deleted, the audit log, the payment events and the tenants only grow, and every other
  row only moves along its life cycle. \<open>integrity\<close>: keys stay unique, references stay valid and
  every column stays in the range its decoder accepts. What a contract says of one statement
  then holds of every sequence of requests.
\<close>

section \<open>Successful runs of queries\<close>

lemma query_Inr: "query f w = (Inr a, v) \<longleftrightarrow> a = f (w_db w) \<and> v = w"
  by (auto simp: query_def act_simps)

lemma fetch_optional_Inr:
  "fetch_optional g q w = (Inr r, v) \<longleftrightarrow> transpose_map g (q (w_db w)) = Inr r \<and> v = w"
  by (auto simp: fetch_optional_def run_inv query_Inr)

lemma require_Inr: "require b e w = (Inr u, v) \<longleftrightarrow> b \<and> v = w"
  by (auto simp: require_def run_inv res_simps)

lemma require_some_Inr: "require_some e m w = (Inr a, v) \<longleftrightarrow> m w = (Inr (Some a), v)"
  by (auto simp: require_some_def run_inv res_simps)

lemma execute_Inr:
  "execute m w = (Inr a, v) \<longleftrightarrow> (\<exists>d. m (w_db w) = (Inr a, d) \<and> v = w\<lparr>w_db := d\<rparr>)"
  by (auto simp: execute_def split: prod.splits)

lemma transaction_Inr: "transaction m w = (Inr a, v) \<longleftrightarrow> m w = (Inr a, v)"
  by (auto simp: transaction_def split: prod.splits sum.splits)

lemma transaction_Inl: "transaction m w = (Inl e, v) \<Longrightarrow> w_db v = w_db w"
  by (auto simp: transaction_def split: prod.splits sum.splits)

lemmas store_inv = run_inv ambient_inv query_Inr fetch_optional_Inr require_Inr require_some_Inr
  execute_Inr transaction_Inr

lemma insert_checked_Inr:
  "insert_checked cs f d = (Inr u, e) \<longleftrightarrow> violation cs = None \<and> e = f d"
  by (auto simp: insert_checked_def split: option.splits)

lemma insert_checked_snd:
  "snd (insert_checked cs f d) = (if violation cs = None then f d else d)"
  by (simp add: insert_checked_def split: option.split)

text \<open>An update keeps whatever a single checked rewrite of a matching row keeps.\<close>

lemma update_rows_inv:
  assumes "update_rows P f chk seen rows = Inr (out, t)" and "T (seen @ rows)"
    and step: "\<And>as r bs. T (as @ r # bs) \<Longrightarrow> P r \<Longrightarrow> violation (chk (as @ bs) (f r)) = None
      \<Longrightarrow> T (as @ f r # bs)"
  shows "T t"
  using assms(1,2)
proof (induction rows arbitrary: seen out)
  case (Cons r rs)
  show ?case
  proof (cases "P r")
    case True
    with Cons.prems obtain out' where ok: "violation (chk (seen @ rs) (f r)) = None"
      and rest: "update_rows P f chk (seen @ [f r]) rs = Inr (out', t)"
      by (auto simp: bind_res_Inr split: option.splits)
    have "T (seen @ f r # rs)" using step Cons.prems(2) True ok by blast
    with Cons.IH [OF rest] show ?thesis by simp
  next
    case False
    with Cons show ?thesis by simp
  qed
qed simp

lemma update_checked_snd_inv:
  assumes "T (table d)"
    and "\<And>as r bs. T (as @ r # bs) \<Longrightarrow> P r \<Longrightarrow> violation (chk d (as @ bs) (f r)) = None
      \<Longrightarrow> T (as @ f r # bs)"
    and "\<And>t. T t \<Longrightarrow> Z (put t d)" and "Z d"
  shows "Z (snd (update_checked table put chk P f d))"
proof (cases "update_rows P f (chk d) [] (table d)")
  case (Inr p)
  obtain out t where p: "p = (out, t)" by fastforce
  have "T t" using update_rows_inv [OF Inr [unfolded p], of T] assms(1,2) by simp
  with Inr p assms(3) show ?thesis by (simp add: update_checked_def)
qed (simp add: update_checked_def assms(4))

section \<open>History\<close>

definition grows :: "('r \<Rightarrow> 'r \<Rightarrow> bool) \<Rightarrow> 'r list \<Rightarrow> 'r list \<Rightarrow> bool" where
  "grows R xs ys \<longleftrightarrow> length xs \<le> length ys \<and> (\<forall>i < length xs. R (xs ! i) (ys ! i))"

lemma grows_refl: "reflp R \<Longrightarrow> grows R xs xs"
  by (simp add: grows_def reflp_def)

lemma grows_append: "grows R xs ys \<Longrightarrow> grows R xs (ys @ zs)"
  by (auto simp: grows_def nth_append)

lemma grows_trans: "transp R \<Longrightarrow> grows R xs ys \<Longrightarrow> grows R ys us \<Longrightarrow> grows R xs us"
  unfolding grows_def by (meson order_less_le_trans order_trans transpD)

lemma grows_rewrite:
  assumes "transp R" "grows R xs (as @ r # bs)" "R r r'"
  shows "grows R xs (as @ r' # bs)"
  unfolding grows_def
proof (intro conjI allI impI)
  show "length xs \<le> length (as @ r' # bs)" using assms(2) by (simp add: grows_def)
  fix i assume i: "i < length xs"
  then have old: "R (xs ! i) ((as @ r # bs) ! i)" using assms(2) by (simp add: grows_def)
  show "R (xs ! i) ((as @ r' # bs) ! i)"
  proof (cases "i = length as")
    case True
    with old assms(1,3) show ?thesis by (simp add: nth_append transpD [of R _ r])
  next
    case False
    then have "(as @ r' # bs) ! i = (as @ r # bs) ! i"
      by (cases "i - length as") (auto simp: nth_append)
    with old show ?thesis by simp
  qed
qed

lemma grows_row:
  assumes "grows R xs ys" "x \<in> set xs"
  shows "\<exists>y \<in> set ys. R x y"
proof -
  obtain i where "i < length xs" "xs ! i = x" using assms(2) by (auto simp: in_set_conv_nth)
  with assms(1) have "R x (ys ! i)" "ys ! i \<in> set ys" by (auto simp: grows_def)
  then show ?thesis by blast
qed

text \<open>What a row may become.\<close>

definition user_next :: "user_row \<Rightarrow> user_row \<Rightarrow> bool" where
  "user_next r s \<longleftrightarrow> ur_id s = ur_id r \<and> ur_tenant_id s = ur_tenant_id r
     \<and> ur_password_hash s = ur_password_hash r \<and> ur_role s = ur_role r
     \<and> ur_phone_verified_at s = ur_phone_verified_at r \<and> ur_created_at s = ur_created_at r
     \<and> (ur_email_verified_at r \<noteq> None \<longrightarrow> ur_email_verified_at s = ur_email_verified_at r)"

definition order_next :: "order_row \<Rightarrow> order_row \<Rightarrow> bool" where
  "order_next r s \<longleftrightarrow> or_id s = or_id r \<and> or_tenant_id s = or_tenant_id r
     \<and> or_user_id s = or_user_id r \<and> or_plan_code s = or_plan_code r
     \<and> or_payment_provider s = or_payment_provider r \<and> or_amount_minor s = or_amount_minor r
     \<and> or_currency s = or_currency r \<and> or_created_at s = or_created_at r
     \<and> (or_status s = or_status r \<or> or_status s = ''confirmed'')
     \<and> (or_status r \<notin> {''pending_manual_payment'', ''pending_provider_payment''} \<longrightarrow> s = r)"

definition card_key_next :: "card_key_row \<Rightarrow> card_key_row \<Rightarrow> bool" where
  "card_key_next r s \<longleftrightarrow> cr_id s = cr_id r \<and> cr_tenant_id s = cr_tenant_id r
     \<and> cr_order_id s = cr_order_id r \<and> cr_plan_code s = cr_plan_code r
     \<and> cr_code_hash s = cr_code_hash r \<and> cr_code_fingerprint s = cr_code_fingerprint r
     \<and> cr_duration_days s = cr_duration_days r \<and> cr_max_devices s = cr_max_devices r
     \<and> cr_created_at s = cr_created_at r
     \<and> (cr_status s = cr_status r \<or> cr_status s = ''redeemed'')
     \<and> (cr_status r \<noteq> ''available'' \<longrightarrow> s = r)"

definition device_next :: "device_row \<Rightarrow> device_row \<Rightarrow> bool" where
  "device_next r s \<longleftrightarrow> dvr_id s = dvr_id r \<and> dvr_tenant_id s = dvr_tenant_id r
     \<and> dvr_user_id s = dvr_user_id r \<and> dvr_fingerprint_hash s = dvr_fingerprint_hash r
     \<and> dvr_activated_at s = dvr_activated_at r"

definition entitlement_next :: "entitlement_row \<Rightarrow> entitlement_row \<Rightarrow> bool" where
  "entitlement_next r s \<longleftrightarrow> er_id s = er_id r \<and> er_tenant_id s = er_tenant_id r
     \<and> er_user_id s = er_user_id r \<and> er_plan_code s = er_plan_code r
     \<and> er_source_card_key_id s = er_source_card_key_id r \<and> er_features s = er_features r
     \<and> er_expires_at s = er_expires_at r \<and> (er_revoked_at r \<noteq> None \<longrightarrow> er_revoked_at s \<noteq> None)"

lemmas next_defs = user_next_def order_next_def card_key_next_def device_next_def
  entitlement_next_def

lemma next_preorders [simp]:
  "reflp user_next" "transp user_next" "reflp order_next" "transp order_next"
  "reflp card_key_next" "transp card_key_next" "reflp device_next" "transp device_next"
  "reflp entitlement_next" "transp entitlement_next"
  by (auto simp: next_defs reflp_def transp_def)

definition history :: "database \<Rightarrow> database \<Rightarrow> bool" where
  "history d e \<longleftrightarrow> prefix (db_tenants d) (db_tenants e)
     \<and> grows user_next (db_users d) (db_users e)
     \<and> grows order_next (db_orders d) (db_orders e)
     \<and> grows card_key_next (db_card_keys d) (db_card_keys e)
     \<and> grows device_next (db_devices d) (db_devices e)
     \<and> grows entitlement_next (db_entitlements d) (db_entitlements e)
     \<and> prefix (db_payment_events d) (db_payment_events e)
     \<and> prefix (db_audit_events d) (db_audit_events e)"

lemma history_refl: "history d d"
  by (simp add: history_def grows_refl)

lemma history_trans: "history d e \<Longrightarrow> history e f \<Longrightarrow> history d f"
  unfolding history_def
  by (auto intro: prefix_order.trans grows_trans [of user_next] grows_trans [of order_next]
      grows_trans [of card_key_next] grows_trans [of device_next] grows_trans [of entitlement_next])

text \<open>A statement that appends to a table or rewrites matching rows of one adds to history.\<close>

lemma history_update:
  assumes T: "\<And>t. grows R (table d) t \<Longrightarrow> history d (put t d)"
    and "reflp R" "transp R" and "\<And>r. P r \<Longrightarrow> R r (f r)"
  shows "history d (snd (update_checked table put chk P f d))"
proof (rule update_checked_snd_inv [where T = "grows R (table d)"])
  show "grows R (table d) (table d)" using assms(2) by (rule grows_refl)
qed (use assms grows_rewrite [of R "table d"] history_refl in auto)

lemma history_put:
  "grows user_next (db_users d) t1 \<Longrightarrow> history d (put_users t1 d)"
  "grows order_next (db_orders d) t2 \<Longrightarrow> history d (put_orders t2 d)"
  "grows card_key_next (db_card_keys d) t3 \<Longrightarrow> history d (put_card_keys t3 d)"
  "grows device_next (db_devices d) t4 \<Longrightarrow> history d (put_devices t4 d)"
  "grows entitlement_next (db_entitlements d) t5 \<Longrightarrow> history d (put_entitlements t5 d)"
  by (simp_all add: history_def put_defs grows_refl)

lemma history_append:
  "history d (d\<lparr>db_tenants := db_tenants d @ [r1]\<rparr>)"
  "history d (d\<lparr>db_users := db_users d @ [r2]\<rparr>)"
  "history d (d\<lparr>db_orders := db_orders d @ [r3]\<rparr>)"
  "history d (d\<lparr>db_card_keys := db_card_keys d @ [r4]\<rparr>)"
  "history d (d\<lparr>db_devices := db_devices d @ [r5]\<rparr>)"
  "history d (d\<lparr>db_entitlements := db_entitlements d @ [r6]\<rparr>)"
  "history d (d\<lparr>db_payment_events := db_payment_events d @ [r7]\<rparr>)"
  "history d (d\<lparr>db_audit_events := db_audit_events d @ [r8]\<rparr>)"
  by (simp_all add: history_def grows_refl grows_append)

lemmas stmt_defs = sql_insert_tenant_def sql_insert_user_def sql_update_skybridge_user_def
  sql_insert_order_def sql_confirm_pending_def sql_confirm_pending_by_reference_def
  sql_attach_checkout_session_def sql_confirm_provider_def sql_insert_payment_event_def
  sql_insert_card_key_def sql_mark_card_key_redeemed_def sql_insert_entitlement_def
  sql_upsert_device_def sql_touch_device_def sql_revoke_entitlement_def sql_insert_audit_def

lemma history_updates:
  "history d (snd (sql_update_skybridge_user i nebula sky em ph nm now d))"
  "history d (snd (sql_confirm_pending i now d))"
  "history d (snd (sql_confirm_pending_by_reference rf now d))"
  "history d (snd (sql_attach_checkout_session i session d))"
  "history d (snd (sql_confirm_provider i intent now d))"
  "history d (snd (sql_mark_card_key_redeemed i usr now d))"
  "history d (snd (sql_touch_device i now d))"
  "history d (snd (sql_revoke_entitlement i now d))"
  unfolding stmt_defs
  by ((rule history_update, erule history_put, simp, simp,
       force simp: next_defs confirmed_row_def redeemed_row_def split: option.split)+)

lemma history_inserts:
  "history d (snd (sql_insert_tenant t d))" "history d (snd (sql_insert_user u d))"
  "history d (snd (sql_insert_order o1 d))" "history d (snd (sql_insert_payment_event p d))"
  "history d (snd (sql_insert_card_key c d))" "history d (snd (sql_insert_entitlement e d))"
  "history d (snd (sql_insert_audit a d))"
  by (simp_all add: stmt_defs insert_checked_snd history_refl history_append)

lemma history_upsert_device: "history d (snd (sql_upsert_device v d))"
proof (cases "list_ex (same_device v) (db_devices d)")
  case True
  have "history d (snd (update_checked db_devices put_devices device_checks (same_device v)
      (\<lambda>x. x\<lparr> dvr_name := dvr_name v, dvr_status := ''active'',
             dvr_last_seen_at := dvr_last_seen_at v \<rparr>) d))"
    by (rule history_update, erule history_put) (simp_all add: device_next_def)
  with True show ?thesis by (simp add: sql_upsert_device_def history_refl)
next
  case False
  then show ?thesis
    by (simp add: sql_upsert_device_def andthen_def act_simps insert_checked_def history_refl
        history_append split: option.split)
qed

lemma history_write: "plain_write d e \<Longrightarrow> history d e" "settling_write d e \<Longrightarrow> history d e"
  by (erule plain_write_cases settling_write_cases;
      simp add: history_updates history_inserts history_upsert_device)+

interpretation history: statement_contract history
  by unfold_locales (fact history_refl history_trans history_write)+

section \<open>Integrity\<close>

definition unique :: "('r \<Rightarrow> 'k) \<Rightarrow> 'r list \<Rightarrow> bool" where
  "unique k rows \<longleftrightarrow> distinct (map k rows)"

definition unique_opt :: "('r \<Rightarrow> 'k option) \<Rightarrow> 'r list \<Rightarrow> bool" where
  "unique_opt k rows \<longleftrightarrow> distinct (filter (\<lambda>v. v \<noteq> None) (map k rows))"

lemma unique_insert: "unique k (as @ r # bs) \<longleftrightarrow> unique k (as @ bs) \<and> fresh_in k (as @ bs) r"
  by (auto simp: unique_def fresh_in_def)

lemma unique_opt_insert:
  "unique_opt k (as @ r # bs) \<longleftrightarrow> unique_opt k (as @ bs) \<and> fresh_opt k (as @ bs) r"
  by (auto simp: unique_opt_def fresh_opt_def)

lemma unique_append: "unique k (rows @ [r]) \<longleftrightarrow> unique k rows \<and> fresh_in k rows r"
  using unique_insert [of k rows r "[]"] by simp

lemma unique_opt_append: "unique_opt k (rows @ [r]) \<longleftrightarrow> unique_opt k rows \<and> fresh_opt k rows r"
  using unique_opt_insert [of k rows r "[]"] by simp

lemma unique_row: "unique k rows \<Longrightarrow> r \<in> set rows \<Longrightarrow> s \<in> set rows \<Longrightarrow> k r = k s \<Longrightarrow> r = s"
  by (auto simp: unique_def distinct_map inj_on_def)

lemma unique_opt_row:
  "unique_opt k rows \<Longrightarrow> r \<in> set rows \<Longrightarrow> s \<in> set rows \<Longrightarrow> k r = Some v \<Longrightarrow> k s = Some v \<Longrightarrow> r = s"
  unfolding unique_opt_def filter_map distinct_map inj_on_def by auto

definition users_ok :: "uuid set \<Rightarrow> user_row list \<Rightarrow> bool" where
  "users_ok T rows \<longleftrightarrow> unique ur_id rows \<and> unique_opt ur_email rows \<and> unique ur_nebula_id rows
     \<and> unique_opt ur_phone rows \<and> unique_opt ur_skybridge_user_id rows
     \<and> (\<forall>r \<in> set rows. identity_anchor r \<and> ur_nebula_source r \<in> {''skybridge'', ''local_dev''}
          \<and> ur_role r \<in> {''user'', ''admin''} \<and> ur_tenant_id r \<in> T)"

definition orders_ok :: "uuid set \<Rightarrow> uuid set \<Rightarrow> order_row list \<Rightarrow> bool" where
  "orders_ok T U rows \<longleftrightarrow> unique or_id rows \<and> unique or_payment_reference rows
     \<and> unique_opt or_checkout_session_id rows
     \<and> (\<forall>r \<in> set rows. 0 \<le> or_amount_minor r \<and> currency_code (or_currency r)
          \<and> or_payment_provider r \<in> {''manual'', ''stripe'', ''alipay'', ''wechat_pay''}
          \<and> or_status r \<in> {''pending_manual_payment'', ''pending_provider_payment'', ''confirmed'', ''cancelled''}
          \<and> or_tenant_id r \<in> T \<and> or_user_id r \<in> U)"

definition card_keys_ok :: "uuid set \<Rightarrow> uuid set \<Rightarrow> uuid set \<Rightarrow> card_key_row list \<Rightarrow> bool" where
  "card_keys_ok T U R rows \<longleftrightarrow> unique cr_id rows \<and> unique_opt cr_order_id rows
     \<and> unique cr_code_fingerprint rows
     \<and> (\<forall>r \<in> set rows. 0 < cr_duration_days r \<and> cr_duration_days r \<le> 65535
          \<and> 0 < cr_max_devices r \<and> cr_max_devices r \<le> 255
          \<and> cr_status r \<in> {''available'', ''redeemed'', ''revoked''} \<and> cr_tenant_id r \<in> T
          \<and> set_option (cr_order_id r) \<subseteq> R \<and> set_option (cr_redeemed_by r) \<subseteq> U)"

definition devices_ok :: "uuid set \<Rightarrow> uuid set \<Rightarrow> device_row list \<Rightarrow> bool" where
  "devices_ok T U rows \<longleftrightarrow> unique dvr_id rows
     \<and> unique (\<lambda>x. (dvr_user_id x, dvr_fingerprint_hash x)) rows
     \<and> (\<forall>r \<in> set rows. dvr_status r \<in> {''active'', ''revoked''} \<and> dvr_tenant_id r \<in> T
          \<and> dvr_user_id r \<in> U)"

definition entitlements_ok :: "uuid set \<Rightarrow> uuid set \<Rightarrow> uuid set \<Rightarrow> entitlement_row list \<Rightarrow> bool" where
  "entitlements_ok T U C rows \<longleftrightarrow> unique er_id rows \<and> unique er_source_card_key_id rows
     \<and> (\<forall>r \<in> set rows. set (er_features r) \<subseteq> set known_features \<and> er_tenant_id r \<in> T
          \<and> er_user_id r \<in> U \<and> er_source_card_key_id r \<in> C)"

definition events_ok :: "uuid set \<Rightarrow> payment_event_row list \<Rightarrow> bool" where
  "events_ok R rows \<longleftrightarrow> unique (\<lambda>x. (pr_provider x, pr_event_id x)) rows
     \<and> (\<forall>r \<in> set rows. pr_provider r \<in> {''stripe'', ''alipay'', ''wechat_pay''}
          \<and> set_option (pr_order_id r) \<subseteq> R)"

definition audits_ok :: "uuid set \<Rightarrow> audit_row list \<Rightarrow> bool" where
  "audits_ok T rows \<longleftrightarrow> unique ar_id rows \<and> (\<forall>r \<in> set rows. set_option (ar_tenant_id r) \<subseteq> T)"

lemmas table_ok_defs = users_ok_def orders_ok_def card_keys_ok_def devices_ok_def
  entitlements_ok_def events_ok_def audits_ok_def

lemmas checks_defs = user_checks_def order_checks_def card_key_checks_def device_checks_def
  entitlement_checks_def audit_checks_def

abbreviation tids :: "database \<Rightarrow> uuid set" where
  "tids d \<equiv> tr_id ` set (db_tenants d)"

abbreviation uids :: "database \<Rightarrow> uuid set" where
  "uids d \<equiv> ur_id ` set (db_users d)"

abbreviation oids :: "database \<Rightarrow> uuid set" where
  "oids d \<equiv> or_id ` set (db_orders d)"

abbreviation cids :: "database \<Rightarrow> uuid set" where
  "cids d \<equiv> cr_id ` set (db_card_keys d)"

definition integrity :: "database \<Rightarrow> bool" where
  "integrity d \<longleftrightarrow> unique tr_id (db_tenants d) \<and> users_ok (tids d) (db_users d)
     \<and> orders_ok (tids d) (uids d) (db_orders d)
     \<and> card_keys_ok (tids d) (uids d) (oids d) (db_card_keys d)
     \<and> devices_ok (tids d) (uids d) (db_devices d)
     \<and> entitlements_ok (tids d) (uids d) (cids d) (db_entitlements d)
     \<and> events_ok (oids d) (db_payment_events d) \<and> audits_ok (tids d) (db_audit_events d)"

text \<open>What the checks say of the reference sets.\<close>

lemma refers_set: "refers k rows v \<longleftrightarrow> v \<in> k ` set rows"
  by (simp add: refers_def)

lemma refers_opt_set: "refers_opt k rows v \<longleftrightarrow> set_option v \<subseteq> k ` set rows"
  by (cases v) (simp_all add: refers_opt_def refers_def)

lemma table_ok_mono:
  "users_ok T us \<Longrightarrow> T \<subseteq> T' \<Longrightarrow> users_ok T' us"
  "orders_ok T U os \<Longrightarrow> T \<subseteq> T' \<Longrightarrow> U \<subseteq> U' \<Longrightarrow> orders_ok T' U' os"
  "card_keys_ok T U R cs \<Longrightarrow> T \<subseteq> T' \<Longrightarrow> U \<subseteq> U' \<Longrightarrow> R \<subseteq> R' \<Longrightarrow> card_keys_ok T' U' R' cs"
  "devices_ok T U vs \<Longrightarrow> T \<subseteq> T' \<Longrightarrow> U \<subseteq> U' \<Longrightarrow> devices_ok T' U' vs"
  "entitlements_ok T U C es \<Longrightarrow> T \<subseteq> T' \<Longrightarrow> U \<subseteq> U' \<Longrightarrow> C \<subseteq> C' \<Longrightarrow> entitlements_ok T' U' C' es"
  "events_ok R ps \<Longrightarrow> R \<subseteq> R' \<Longrightarrow> events_ok R' ps"
  "audits_ok T as \<Longrightarrow> T \<subseteq> T' \<Longrightarrow> audits_ok T' as"
  unfolding table_ok_defs by blast+

text \<open>A row that passes its checks may be appended, or may replace another.\<close>

lemma table_ok_append:
  "users_ok (tids d) us \<Longrightarrow> violation (user_checks d us u) = None \<Longrightarrow> users_ok (tids d) (us @ [u])"
  "orders_ok (tids d) (uids d) os \<Longrightarrow> violation (order_checks d os p) = None
     \<Longrightarrow> orders_ok (tids d) (uids d) (os @ [p])"
  "card_keys_ok (tids d) (uids d) (oids d) cs \<Longrightarrow> violation (card_key_checks d cs c) = None
     \<Longrightarrow> card_keys_ok (tids d) (uids d) (oids d) (cs @ [c])"
  "devices_ok (tids d) (uids d) vs \<Longrightarrow> violation (device_checks d vs v) = None
     \<Longrightarrow> devices_ok (tids d) (uids d) (vs @ [v])"
  "entitlements_ok (tids d) (uids d) (cids d) es \<Longrightarrow> violation (entitlement_checks d es e) = None
     \<Longrightarrow> entitlements_ok (tids d) (uids d) (cids d) (es @ [e])"
  "audits_ok (tids d) as \<Longrightarrow> violation (audit_checks d as a) = None \<Longrightarrow> audits_ok (tids d) (as @ [a])"
  unfolding table_ok_defs checks_defs violation_None
  by (simp_all add: unique_append unique_opt_append refers_set refers_opt_set)

lemma table_ok_rewrite:
  "users_ok (tids d) (us @ u # us') \<Longrightarrow> violation (user_checks d (us @ us') u') = None
     \<Longrightarrow> users_ok (tids d) (us @ u' # us')"
  "orders_ok (tids d) (uids d) (os @ p # os') \<Longrightarrow> violation (order_checks d (os @ os') p') = None
     \<Longrightarrow> orders_ok (tids d) (uids d) (os @ p' # os')"
  "card_keys_ok (tids d) (uids d) (oids d) (cs @ c # cs')
     \<Longrightarrow> violation (card_key_checks d (cs @ cs') c') = None
     \<Longrightarrow> card_keys_ok (tids d) (uids d) (oids d) (cs @ c' # cs')"
  "devices_ok (tids d) (uids d) (vs @ v # vs') \<Longrightarrow> violation (device_checks d (vs @ vs') v') = None
     \<Longrightarrow> devices_ok (tids d) (uids d) (vs @ v' # vs')"
  "entitlements_ok (tids d) (uids d) (cids d) (es @ e # es')
     \<Longrightarrow> violation (entitlement_checks d (es @ es') e') = None
     \<Longrightarrow> entitlements_ok (tids d) (uids d) (cids d) (es @ e' # es')"
  unfolding table_ok_defs checks_defs violation_None
  by (simp_all add: unique_insert unique_opt_insert refers_set refers_opt_set ball_Un)

lemma integrity_put:
  assumes "integrity d"
  shows "users_ok (tids d) us \<Longrightarrow> map ur_id us = map ur_id (db_users d) \<Longrightarrow> integrity (put_users us d)"
    and "orders_ok (tids d) (uids d) os \<Longrightarrow> map or_id os = map or_id (db_orders d)
      \<Longrightarrow> integrity (put_orders os d)"
    and "card_keys_ok (tids d) (uids d) (oids d) cs \<Longrightarrow> map cr_id cs = map cr_id (db_card_keys d)
      \<Longrightarrow> integrity (put_card_keys cs d)"
    and "devices_ok (tids d) (uids d) vs \<Longrightarrow> integrity (put_devices vs d)"
    and "entitlements_ok (tids d) (uids d) (cids d) es \<Longrightarrow> integrity (put_entitlements es d)"
  using assms by (simp_all add: integrity_def put_defs flip: set_map)

lemma integrity_update:
  assumes "integrity d" and "X (table d)"
    and rewrite: "\<And>as r bs. X (as @ r # bs) \<Longrightarrow> violation (chk d (as @ bs) (f r)) = None \<Longrightarrow> X (as @ f r # bs)"
    and "\<And>r. k (f r) = k r"
    and put: "\<And>t. X t \<Longrightarrow> map k t = map k (table d) \<Longrightarrow> integrity (put t d)"
  shows "integrity (snd (update_checked table put chk P f d))"
proof (rule update_checked_snd_inv [where T = "\<lambda>t. X t \<and> map k t = map k (table d)"])
  show "X (table d) \<and> map k (table d) = map k (table d)" using assms(2) by simp
qed (use assms in auto)

lemma integrity_updates:
  assumes "integrity d"
  shows "integrity (snd (sql_update_skybridge_user i nebula sky em ph nm now d))"
    and "integrity (snd (sql_confirm_pending i now d))"
    and "integrity (snd (sql_confirm_pending_by_reference rf now d))"
    and "integrity (snd (sql_attach_checkout_session i session d))"
    and "integrity (snd (sql_confirm_provider i intent now d))"
    and "integrity (snd (sql_mark_card_key_redeemed i usr now d))"
    and "integrity (snd (sql_touch_device i now d))"
    and "integrity (snd (sql_revoke_entitlement i now d))"
proof -
  have tables: "users_ok (tids d) (db_users d)" "orders_ok (tids d) (uids d) (db_orders d)"
    "card_keys_ok (tids d) (uids d) (oids d) (db_card_keys d)"
    "devices_ok (tids d) (uids d) (db_devices d)"
    "entitlements_ok (tids d) (uids d) (cids d) (db_entitlements d)"
    using assms by (simp_all add: integrity_def)
  note u = integrity_update [OF assms]
  show "integrity (snd (sql_update_skybridge_user i nebula sky em ph nm now d))"
    unfolding sql_update_skybridge_user_def
    by (rule u [where X = "users_ok (tids d)" and k = ur_id])
      (simp_all add: tables(1) table_ok_rewrite(1) integrity_put [OF assms])
  show "integrity (snd (sql_confirm_pending i now d))"
    "integrity (snd (sql_confirm_pending_by_reference rf now d))"
    "integrity (snd (sql_attach_checkout_session i session d))"
    "integrity (snd (sql_confirm_provider i intent now d))"
    unfolding stmt_defs
    by (rule u [where X = "orders_ok (tids d) (uids d)" and k = or_id];
        simp add: tables(2) table_ok_rewrite(2) integrity_put [OF assms] confirmed_row_def)+
  show "integrity (snd (sql_mark_card_key_redeemed i usr now d))"
    unfolding sql_mark_card_key_redeemed_def
    by (rule u [where X = "card_keys_ok (tids d) (uids d) (oids d)" and k = cr_id])
      (simp_all add: tables(3) table_ok_rewrite(3) integrity_put [OF assms] redeemed_row_def)
  show "integrity (snd (sql_touch_device i now d))"
    unfolding sql_touch_device_def
    by (rule u [where X = "devices_ok (tids d) (uids d)" and k = dvr_id])
      (simp_all add: tables(4) table_ok_rewrite(4) integrity_put [OF assms])
  show "integrity (snd (sql_revoke_entitlement i now d))"
    unfolding sql_revoke_entitlement_def
    by (rule u [where X = "entitlements_ok (tids d) (uids d) (cids d)" and k = er_id])
      (simp_all add: tables(5) table_ok_rewrite(5) integrity_put [OF assms])
qed

text \<open>An appended row keeps its table in order and only adds to the reference sets.\<close>

lemma integrity_append:
  assumes i: "integrity d"
  shows "unique tr_id (db_tenants d @ [r1]) \<Longrightarrow> integrity (d\<lparr>db_tenants := db_tenants d @ [r1]\<rparr>)"
    and "users_ok (tids d) (db_users d @ [r2]) \<Longrightarrow> integrity (d\<lparr>db_users := db_users d @ [r2]\<rparr>)"
    and "orders_ok (tids d) (uids d) (db_orders d @ [r3])
      \<Longrightarrow> integrity (d\<lparr>db_orders := db_orders d @ [r3]\<rparr>)"
    and "card_keys_ok (tids d) (uids d) (oids d) (db_card_keys d @ [r4])
      \<Longrightarrow> integrity (d\<lparr>db_card_keys := db_card_keys d @ [r4]\<rparr>)"
    and "devices_ok (tids d) (uids d) (db_devices d @ [r5])
      \<Longrightarrow> integrity (d\<lparr>db_devices := db_devices d @ [r5]\<rparr>)"
    and "entitlements_ok (tids d) (uids d) (cids d) (db_entitlements d @ [r6])
      \<Longrightarrow> integrity (d\<lparr>db_entitlements := db_entitlements d @ [r6]\<rparr>)"
    and "events_ok (oids d) (db_payment_events d @ [r7])
      \<Longrightarrow> integrity (d\<lparr>db_payment_events := db_payment_events d @ [r7]\<rparr>)"
    and "audits_ok (tids d) (db_audit_events d @ [r8])
      \<Longrightarrow> integrity (d\<lparr>db_audit_events := db_audit_events d @ [r8]\<rparr>)"
proof -
  note mono = table_ok_mono [OF _ subset_insertI] table_ok_mono(2,3,4,5) [OF _ subset_refl subset_insertI]
    table_ok_mono(3) [OF _ subset_refl subset_refl subset_insertI]
    table_ok_mono(5) [OF _ subset_refl subset_refl subset_insertI]
    table_ok_mono(2,3,4,5) [OF _ subset_insertI subset_refl]
    table_ok_mono(3) [OF _ subset_refl subset_insertI subset_refl]
    table_ok_mono(3) [OF _ subset_insertI subset_refl subset_refl]
    table_ok_mono(5) [OF _ subset_insertI subset_refl subset_refl]
    table_ok_mono(5) [OF _ subset_refl subset_insertI subset_refl]
  show "unique tr_id (db_tenants d @ [r1]) \<Longrightarrow> integrity (d\<lparr>db_tenants := db_tenants d @ [r1]\<rparr>)"
    "users_ok (tids d) (db_users d @ [r2]) \<Longrightarrow> integrity (d\<lparr>db_users := db_users d @ [r2]\<rparr>)"
    "orders_ok (tids d) (uids d) (db_orders d @ [r3])
      \<Longrightarrow> integrity (d\<lparr>db_orders := db_orders d @ [r3]\<rparr>)"
    "card_keys_ok (tids d) (uids d) (oids d) (db_card_keys d @ [r4])
      \<Longrightarrow> integrity (d\<lparr>db_card_keys := db_card_keys d @ [r4]\<rparr>)"
    "devices_ok (tids d) (uids d) (db_devices d @ [r5])
      \<Longrightarrow> integrity (d\<lparr>db_devices := db_devices d @ [r5]\<rparr>)"
    "entitlements_ok (tids d) (uids d) (cids d) (db_entitlements d @ [r6])
      \<Longrightarrow> integrity (d\<lparr>db_entitlements := db_entitlements d @ [r6]\<rparr>)"
    "events_ok (oids d) (db_payment_events d @ [r7])
      \<Longrightarrow> integrity (d\<lparr>db_payment_events := db_payment_events d @ [r7]\<rparr>)"
    "audits_ok (tids d) (db_audit_events d @ [r8])
      \<Longrightarrow> integrity (d\<lparr>db_audit_events := db_audit_events d @ [r8]\<rparr>)"
    using i by (simp_all add: integrity_def mono)
qed

lemma integrity_insert_checked:
  assumes "integrity d" and "violation cs = None \<Longrightarrow> integrity (f d)"
  shows "integrity (snd (insert_checked cs f d))"
  using assms by (simp add: insert_checked_snd)

lemma integrity_inserts:
  assumes i: "integrity d"
  shows "integrity (snd (sql_insert_tenant t d))" "integrity (snd (sql_insert_user u d))"
    "integrity (snd (sql_insert_order o1 d))" "integrity (snd (sql_insert_payment_event p d))"
    "integrity (snd (sql_insert_card_key c d))" "integrity (snd (sql_insert_entitlement e d))"
    "integrity (snd (sql_insert_audit a d))"
proof -
  note parts = i [unfolded integrity_def]
  show "integrity (snd (sql_insert_tenant t d))"
    using i parts integrity_append(1) [OF i] by (simp add: sql_insert_tenant_def unique_append)
  show "integrity (snd (sql_insert_user u d))" "integrity (snd (sql_insert_order o1 d))"
    "integrity (snd (sql_insert_card_key c d))" "integrity (snd (sql_insert_entitlement e d))"
    "integrity (snd (sql_insert_audit a d))"
    unfolding stmt_defs using parts
    by (auto intro!: integrity_insert_checked i integrity_append [OF i] table_ok_append)
  show "integrity (snd (sql_insert_payment_event p d))"
    using i parts integrity_append(7) [OF i]
    by (auto simp: sql_insert_payment_event_def events_ok_def unique_append refers_opt_set)
qed

lemma integrity_upsert_device:
  assumes i: "integrity d"
  shows "integrity (snd (sql_upsert_device v d))"
proof (cases "list_ex (same_device v) (db_devices d)")
  case True
  have "integrity (snd (update_checked db_devices put_devices device_checks (same_device v)
      (\<lambda>x. x\<lparr> dvr_name := dvr_name v, dvr_status := ''active'',
             dvr_last_seen_at := dvr_last_seen_at v \<rparr>) d))"
    by (rule integrity_update [OF i, where X = "devices_ok (tids d) (uids d)" and k = dvr_id])
      (use i in \<open>simp_all add: integrity_def [of d] table_ok_rewrite(4) integrity_put [OF i]\<close>)
  with True i show ?thesis by (simp add: sql_upsert_device_def)
next
  case False
  have "devices_ok (tids d) (uids d) (db_devices d)" using i by (simp add: integrity_def)
  then have "violation (device_checks d (db_devices d) v) = None
      \<Longrightarrow> integrity (d\<lparr>db_devices := db_devices d @ [v]\<rparr>)"
    by (intro integrity_append [OF i] table_ok_append)
  with False i show ?thesis
    by (simp add: sql_upsert_device_def andthen_def act_simps insert_checked_def split: option.split)
qed

lemma integrity_write:
  "plain_write d e \<Longrightarrow> integrity d \<Longrightarrow> integrity e" "settling_write d e \<Longrightarrow> integrity d \<Longrightarrow> integrity e"
  by (erule plain_write_cases settling_write_cases;
      simp add: integrity_updates integrity_inserts integrity_upsert_device)+

definition keeps_integrity :: "database \<Rightarrow> database \<Rightarrow> bool" where
  "keeps_integrity d e \<longleftrightarrow> (integrity d \<longrightarrow> integrity e)"

interpretation schema: statement_contract keeps_integrity
  by unfold_locales (auto simp: keeps_integrity_def intro: integrity_write)

lemma integrity_empty: "integrity empty_database"
  by (simp add: integrity_def empty_database_def table_ok_defs unique_def unique_opt_def)

lemma served_integrity: "served x w \<Longrightarrow> integrity (w_db w)"
  using schema.served_keeps [of x w] by (simp add: keeps_integrity_def integrity_empty)

section \<open>Every stored row decodes\<close>

lemma known_feature_decodes: "f \<in> set known_features \<Longrightarrow> \<exists>g. feature_from_db f = Inr g"
  by (auto simp: known_features_def feature_from_db_def)

lemma known_features_decode: "set fs \<subseteq> set known_features \<Longrightarrow> \<exists>gs. collect_res feature_from_db fs = Inr gs"
proof (induction fs)
  case (Cons f fs)
  then obtain g gs where "feature_from_db f = Inr g" "collect_res feature_from_db fs = Inr gs"
    using known_feature_decodes [of f] by auto
  then show ?case by simp
qed simp

lemma rows_decode:
  assumes "integrity d"
  shows "r1 \<in> set (db_orders d) \<Longrightarrow> is_ok (row_to_order r1)"
    and "r2 \<in> set (db_card_keys d) \<Longrightarrow> is_ok (row_to_card_key r2)"
    and "r3 \<in> set (db_devices d) \<Longrightarrow> is_ok (row_to_device r3)"
    and "r4 \<in> set (db_entitlements d) \<Longrightarrow> is_ok (row_to_entitlement r4)"
proof -
  note i = assms [unfolded integrity_def]
  show "is_ok (row_to_order r1)" if "r1 \<in> set (db_orders d)"
    using i that unfolding orders_ok_def
    by (auto simp: row_to_order_def order_status_from_db_def payment_provider_from_db_def)
  show "is_ok (row_to_card_key r2)" if "r2 \<in> set (db_card_keys d)"
    using i that unfolding card_keys_ok_def
    by (auto simp: row_to_card_key_def card_key_status_from_db_def i32_to_u16_def i32_to_u8_def)
  show "is_ok (row_to_device r3)" if "r3 \<in> set (db_devices d)"
    using i that unfolding devices_ok_def
    by (auto simp: row_to_device_def device_status_from_db_def)
  have "set (er_features r4) \<subseteq> set known_features" if "r4 \<in> set (db_entitlements d)"
    using i that unfolding entitlements_ok_def by blast
  then show "is_ok (row_to_entitlement r4)" if "r4 \<in> set (db_entitlements d)"
    using that known_features_decode [of "er_features r4"] by (auto simp: row_to_entitlement_def)
qed

end
