(* ===== verification/CloudSettlement.thy ===== *)
theory CloudSettlement
  imports CloudLaws
begin

text \<open>
  The invariants that hold between the tables of the cloud database, as interpretations of
  \<open>request_contract\<close>: every entitlement is backed by a card key that its user redeemed, and an
  order is confirmed exactly when a card key was made for it. Single statements break them in
  the middle of a transaction; the transactions as a whole do not.
\<close>

section \<open>Rows that decode\<close>

lemma code_inverse:
  "user_role_from_db a = Inr r1 \<Longrightarrow> user_role_to_db r1 = a"
  "order_status_from_db b = Inr r2 \<Longrightarrow> order_status_to_db r2 = b"
  "payment_provider_from_db c = Inr r3 \<Longrightarrow> payment_provider_to_db r3 = c"
  "card_key_status_from_db d = Inr r4 \<Longrightarrow> card_key_status_to_db r4 = d"
  "device_status_from_db e = Inr r5 \<Longrightarrow> device_status_to_db r5 = e"
  "feature_from_db f = Inr r6 \<Longrightarrow> feature_to_db r6 = f"
  by (auto simp: code_simps split: if_splits)

lemma order_row_decoded: "row_to_order r = Inr ord \<Longrightarrow> r = order_row_of ord"
  by (cases r) (auto simp: row_to_order_def order_row_of_def res_simps dest: code_inverse)

lemma card_key_row_decoded:
  "row_to_card_key r = Inr c \<Longrightarrow> r = (card_key_row_of c None)\<lparr>cr_order_id := cr_order_id r\<rparr>"
  by (cases r) (auto simp: row_to_card_key_def card_key_row_of_def res_simps i32_to_u16_def i32_to_u8_def
      option.map_comp comp_def option.map_ident word_uint_eq_iff uint_word_of_int
      dest: code_inverse split: if_splits)

lemma device_row_decoded: "row_to_device r = Inr v \<Longrightarrow> r = device_row_of v"
  by (cases r) (auto simp: row_to_device_def device_row_of_def res_simps dest: code_inverse)

lemma features_decoded: "collect_res feature_from_db fs = Inr gs \<Longrightarrow> map feature_to_db gs = fs"
  by (induction fs arbitrary: gs) (auto simp: res_simps dest: code_inverse)

lemma entitlement_row_decoded: "row_to_entitlement r = Inr e \<Longrightarrow> r = entitlement_row_of e"
  by (cases r) (auto simp: row_to_entitlement_def entitlement_row_of_def res_simps dest: features_decoded)

lemma first_Some: "first xs = Some y \<longleftrightarrow> (\<exists>ys. xs = y # ys)"
  by (auto simp: first_def split: list.splits)

lemma first_None: "first xs = None \<longleftrightarrow> xs = []"
  by (simp add: first_def split: list.split)

lemma find_set: "find P xs = Some y \<Longrightarrow> y \<in> set xs \<and> P y"
  by (auto simp: find_Some_iff)

section \<open>Entitlements are backed\<close>

definition backs :: "card_key_row \<Rightarrow> entitlement_row \<Rightarrow> bool" where
  "backs c e \<longleftrightarrow> cr_id c = er_source_card_key_id e \<and> cr_status c = ''redeemed''
     \<and> cr_redeemed_by c = Some (er_user_id e)"

definition backed :: "database \<Rightarrow> bool" where
  "backed d \<longleftrightarrow> (\<forall>e \<in> set (db_entitlements d). \<exists>c \<in> set (db_card_keys d). backs c e)"

definition keeps_backed :: "database \<Rightarrow> database \<Rightarrow> bool" where
  "keeps_backed d e \<longleftrightarrow> (backed d \<longrightarrow> backed e)"

text \<open>A redeemed key never changes, so a step that adds no entitlement keeps all of them backed.\<close>

lemma backs_next: "backs c e \<Longrightarrow> card_key_next c c' \<Longrightarrow> entitlement_next e e' \<Longrightarrow> backs c' e'"
  by (auto simp: backs_def next_defs)

lemma grows_row_back:
  assumes "grows R xs ys" "length ys = length xs" "y \<in> set ys"
  shows "\<exists>x \<in> set xs. R x y"
  using assms unfolding grows_def by (metis in_set_conv_nth nth_mem)

lemma backed_history:
  assumes "history d e" "length (db_entitlements e) = length (db_entitlements d)" "backed d"
  shows "backed e"
  unfolding backed_def
proof
  fix y assume "y \<in> set (db_entitlements e)"
  with assms(1,2) obtain x where x: "x \<in> set (db_entitlements d)" "entitlement_next x y"
    using grows_row_back [of entitlement_next] unfolding history_def by blast
  with assms(3) obtain c where c: "c \<in> set (db_card_keys d)" "backs c x" by (auto simp: backed_def)
  with assms(1) obtain c' where "c' \<in> set (db_card_keys e)" "card_key_next c c'"
    using grows_row [of card_key_next "db_card_keys d"] by (auto simp: history_def)
  with c(2) x(2) show "\<exists>c \<in> set (db_card_keys e). backs c y" using backs_next by blast
qed

lemma update_checked_length:
  assumes "\<And>t. db_entitlements (put t d) = db_entitlements d"
  shows "db_entitlements (snd (update_checked table put chk P f d)) = db_entitlements d"
  using assms by (simp add: update_checked_def split: sum.split prod.split)

lemma revoke_length:
  "length (db_entitlements (snd (sql_revoke_entitlement i now d))) = length (db_entitlements d)"
  by (auto simp: sql_revoke_entitlement_def update_checked_def put_entitlements_def
      dest: update_rows_result split: sum.split prod.split)

lemma plain_entitlements:
  "plain_write d e \<Longrightarrow> length (db_entitlements e) = length (db_entitlements d)"
  by (erule plain_write_cases)
    (simp_all add: revoke_length, simp_all add: stmt_defs insert_checked_snd update_checked_length
      put_defs andthen_run act_simps split: sum.split)

lemma settling_entitlements:
  "settling_write d e \<Longrightarrow> (\<exists>r. e = snd (sql_insert_entitlement r d)) \<or>
     length (db_entitlements e) = length (db_entitlements d)"
  by (erule settling_write_cases)
    (auto simp: sql_insert_order_def sql_confirm_pending_def sql_confirm_pending_by_reference_def
      sql_confirm_provider_def sql_insert_card_key_def insert_checked_snd update_checked_length put_defs)

interpretation backing: db_relation keeps_backed
  by unfold_locales (auto simp: keeps_backed_def)

interpretation backing: db_contract keeps_backed
  by unfold_locales
    (auto simp: keeps_backed_def intro: backed_history history_write plain_entitlements)

text \<open>What redeeming a card key does to the database.\<close>

definition redeem_rows :: "uuid \<Rightarrow> uuid \<Rightarrow> instant \<Rightarrow> card_key_row list \<Rightarrow> card_key_row list" where
  "redeem_rows i user at rows =
     map (\<lambda>r. if cr_id r = i \<and> cr_status r = ''available'' then redeemed_row user at r else r) rows"

lemma mark_redeemed_Inr:
  assumes "mark_card_key_redeemed i u t w = (Inr (), v)"
  shows "v = w\<lparr>w_db := put_card_keys (redeem_rows (card_key_uuid i) (user_uuid u) t
             (db_card_keys (w_db w))) (w_db w)\<rparr>
    \<and> (\<exists>r \<in> set (db_card_keys (w_db w)). cr_id r = card_key_uuid i \<and> cr_status r = ''available'')"
proof -
  obtain rows d where r: "rows \<noteq> []" "v = w\<lparr>w_db := d\<rparr>"
    "sql_mark_card_key_redeemed (card_key_uuid i) (user_uuid u) t (w_db w) = (Inr rows, d)"
    using assms by (auto simp: mark_card_key_redeemed_def store_inv)
  from update_checked_Inr [OF r(3) [unfolded sql_mark_card_key_redeemed_def]] r(1,2)
  show ?thesis by (auto simp: redeem_rows_def filter_empty_conv)
qed

lemma mark_redeemed_Inl:
  assumes "mark_card_key_redeemed i u t w = (Inl e, v)"
  shows "backed (w_db w) \<longrightarrow> backed (w_db v)"
  using backing.keeps_entitlements(3) [of i u t] assms
  by (auto simp: keeps_def on_db_def keeps_backed_def)

lemma insert_entitlement_Inr:
  "insert_entitlement e w = (Inr (), v) \<Longrightarrow>
     w_db v = w_db w\<lparr>db_entitlements := db_entitlements (w_db w) @ [entitlement_row_of e]\<rparr>"
  by (auto simp: insert_entitlement_def store_inv sql_insert_entitlement_def insert_checked_Inr)

lemma insert_entitlement_Inl: "insert_entitlement e w = (Inl x, v) \<Longrightarrow> w_db v = w_db w"
  by (auto simp: insert_entitlement_def execute_def sql_insert_entitlement_def insert_checked_def
      split: prod.splits option.splits)

lemma backed_grant:
  assumes "backed (w_db w)" "mark_card_key_redeemed i u t w = (Inr (), v)"
    and "w_db v' = w_db v" "insert_entitlement e v' = (Inr (), z)"
    and "ent_source_card_key_id e = i" "ent_user_id e = u"
  shows "backed (w_db z)"
proof -
  have "backed (w_db v)"
    using backing.keeps_entitlements(3) [of i u t] assms(1,2)
    by (auto simp: keeps_def on_db_def keeps_backed_def)
  moreover from mark_redeemed_Inr [OF assms(2)]
  obtain r where r: "r \<in> set (db_card_keys (w_db w))" "cr_id r = card_key_uuid i"
      "cr_status r = ''available''"
    and v: "db_card_keys (w_db v) =
      redeem_rows (card_key_uuid i) (user_uuid u) t (db_card_keys (w_db w))"
    by (auto simp: put_defs)
  then have "redeemed_row (user_uuid u) t r \<in> set (db_card_keys (w_db v))"
    unfolding redeem_rows_def by force
  moreover have "backs (redeemed_row (user_uuid u) t r) (entitlement_row_of e)"
    using r(2) assms(5,6) by (simp add: backs_def redeemed_row_def entitlement_row_of_def)
  ultimately show ?thesis
    using assms(3) insert_entitlement_Inr [OF assms(4)] by (auto simp: backed_def)
qed

text \<open>Marking the key and inserting its entitlement, in the two orders the code has.\<close>

lemma keeps_grant:
  assumes "ent_source_card_key_id e = i" "ent_user_id e = u" "\<And>a. keeps (on_db keeps_backed) (k a)"
  shows "keeps (on_db keeps_backed) (andthen (mark_card_key_redeemed i u t) (\<lambda>_.
    andthen (map_error f (insert_entitlement e)) k))"
proof -
  have "backed (w_db (snd (andthen (mark_card_key_redeemed i u t) (\<lambda>_.
      andthen (map_error f (insert_entitlement e)) k) w)))" if w: "backed (w_db w)" for w
  proof (cases "mark_card_key_redeemed i u t w")
    case (Pair r v)
    show ?thesis
    proof (cases r)
      case (Inl x)
      then show ?thesis using Pair w mark_redeemed_Inl [of i u t w x v] by (simp add: andthen_err)
    next
      case (Inr a)
      then have m: "mark_card_key_redeemed i u t w = (Inr (), v)" using Pair by simp
      have v: "backed (w_db v)"
        using backing.keeps_entitlements(3) [of i u t] w m
        by (auto simp: keeps_def on_db_def keeps_backed_def)
      show ?thesis
      proof (cases "insert_entitlement e v")
        case (Pair q z)
        show ?thesis
        proof (cases q)
          case (Inl y)
          then show ?thesis using m v Pair insert_entitlement_Inl [of e v y z]
            by (simp add: andthen_def map_error_def)
        next
          case (Inr b)
          then have "backed (w_db z)" using backed_grant [OF w m refl] Pair assms(1,2) by simp
          then show ?thesis using m Pair Inr assms(3) [of "()"]
            by (simp add: andthen_def map_error_def keeps_def on_db_def keeps_backed_def)
        qed
      qed
    qed
  qed
  then show ?thesis by (simp add: keeps_def on_db_def keeps_backed_def)
qed

lemma keeps_grant_drawn:
  assumes "\<And>j. ent_source_card_key_id (g j) = i" "\<And>j. ent_user_id (g j) = u"
    and "\<And>j a. keeps (on_db keeps_backed) (k j a)"
  shows "keeps (on_db keeps_backed) (andthen (mark_card_key_redeemed i u t) (\<lambda>_.
    andthen new_v4 (\<lambda>j. andthen (map_error f (insert_entitlement (g j))) (k j))))"
proof -
  define draw where "draw w = src_uuid w (uuid_n w)" for w :: world
  define bump where "bump w = w\<lparr>uuid_n := Suc (uuid_n w)\<rparr>" for w :: world
  have swap: "mark_card_key_redeemed i u t (bump w) =
      (fst (mark_card_key_redeemed i u t w), bump (snd (mark_card_key_redeemed i u t w)))" for w
    by (simp add: mark_card_key_redeemed_def andthen_run act_simps execute_def bump_def require_def
        split: prod.split sum.split)
  have draw: "draw (snd (mark_card_key_redeemed i u t w)) = draw w" for w
    by (simp add: mark_card_key_redeemed_def andthen_run act_simps execute_def draw_def require_def
        split: prod.split sum.split)
  have "backed (w_db (snd (andthen (mark_card_key_redeemed i u t) (\<lambda>_. andthen new_v4 (\<lambda>j.
      andthen (map_error f (insert_entitlement (g j))) (k j))) w)))" if w: "backed (w_db w)" for w
  proof -
    have "keeps (on_db keeps_backed) (andthen (mark_card_key_redeemed i u t) (\<lambda>_.
        andthen (map_error f (insert_entitlement (g (draw w)))) (k (draw w))))"
      by (rule keeps_grant) (use assms in auto)
    then have "backed (w_db (snd (andthen (mark_card_key_redeemed i u t) (\<lambda>_.
        andthen (map_error f (insert_entitlement (g (draw w)))) (k (draw w))) (bump w))))"
      using w by (simp add: keeps_def on_db_def keeps_backed_def bump_def)
    moreover have "backed (w_db (bump v)) = backed (w_db v)" for v by (simp add: bump_def)
    ultimately show ?thesis
      using swap [of w] draw [of w]
      by (cases "mark_card_key_redeemed i u t w")
        (auto simp: andthen_def new_v4_def bump_def draw_def split: sum.splits)
  qed
  then show ?thesis by (simp add: keeps_def on_db_def keeps_backed_def)
qed

lemma backing_settling:
  "keeps keeps_backed (sql_confirm_pending i now)"
  "keeps keeps_backed (sql_confirm_pending_by_reference rf now)"
  "keeps keeps_backed (sql_confirm_provider i intent now)"
  "keeps keeps_backed (sql_insert_card_key c)"
proof -
  have k: "keeps_backed d (snd (m d))"
    if "\<And>d. settling_write d (snd (m d))"
      and "\<And>d. length (db_entitlements (snd (m d))) = length (db_entitlements d)"
    for d and m :: "'a stmt"
    using that by (auto simp: keeps_backed_def intro: backed_history history_write)
  show "keeps keeps_backed (sql_confirm_pending i now)"
    "keeps keeps_backed (sql_confirm_pending_by_reference rf now)"
    "keeps keeps_backed (sql_confirm_provider i intent now)"
    "keeps keeps_backed (sql_insert_card_key c)"
    unfolding keeps_def
    by (intro allI k settling_write.intros;
        simp add: stmt_defs insert_checked_snd update_checked_length put_defs)+
qed

lemma backing_queries:
  "keeps (on_db keeps_backed) (confirm_pending_order oid)"
  "keeps (on_db keeps_backed) (confirm_pending_order_by_reference reference)"
  "keeps (on_db keeps_backed) (confirm_provider_order oid intent paid_at)"
  "keeps (on_db keeps_backed) (insert_card_key c oi)"
  unfolding query_defs by (intro backing_settling keeps_intros)+

lemma backing_provision:
  "keeps (on_db keeps_backed) (provision_paid_order_entitlement x ord actor summary)"
  unfolding provision_paid_order_entitlement_def Let_def
  by (intro keeps_grant_drawn backing_queries keeps_intros) (simp_all add: granted_def)

interpretation backing: request_contract keeps_backed
proof
  show "keeps (on_db keeps_backed) (redeem_card_key x c h k)" for x c h k
    unfolding redeem_card_key_def Let_def
    by (intro keeps_grant keeps_intros) (simp_all add: granted_def)
  show "keeps (on_db keeps_backed) (ensure_test_full_access_entitlement x c u)" for x c u
    unfolding ensure_test_full_access_entitlement_def Let_def
    by (rule keeps_intros, rule keeps_intros, intro keeps_grant_drawn keeps_intros)
      (simp_all add: granted_def)
  show "keeps (on_db keeps_backed) (confirm_order x c h i)" for x c h i
    unfolding confirm_order_def confirm_order_card_key_def
    by (intro backing_queries keeps_intros)
  show "keeps (on_db keeps_backed) (confirm_order_by_reference x c h r)" for x c h r
    unfolding confirm_order_by_reference_def confirm_order_card_key_def
    by (intro backing_queries keeps_intros)
  show "keeps (on_db keeps_backed) (fulfill_stripe_checkout_session x ev s p)" for x ev s p
    unfolding fulfill_stripe_checkout_session_def
    by (intro backing_queries backing_provision keeps_intros)
  show "keeps (on_db keeps_backed) (process_wechatpay_transaction x c we t b)" for x c we t b
    unfolding process_wechatpay_transaction_def
    by (intro backing_queries backing_provision keeps_intros)
qed

lemma served_backed: "served x w \<Longrightarrow> backed (w_db w)"
  using backing.served_keeps [of x w]
  by (simp add: keeps_backed_def) (simp add: backed_def empty_database_def)

section \<open>Orders are settled\<close>

text \<open>An order is confirmed exactly when a card key was made for it; \<open>owed i\<close> is the state in
  between, where order \<open>i\<close> is confirmed and its key is still to come.\<close>

definition order_states :: "database \<Rightarrow> (uuid \<times> string) set" where
  "order_states d = (\<lambda>r. (or_id r, or_status r)) ` set (db_orders d)"

definition keyed_orders :: "database \<Rightarrow> uuid set" where
  "keyed_orders d = {i. Some i \<in> cr_order_id ` set (db_card_keys d)}"

definition settled :: "database \<Rightarrow> bool" where
  "settled d \<longleftrightarrow> integrity d \<and>
     (\<forall>(i, s) \<in> order_states d. s = ''confirmed'' \<longleftrightarrow> i \<in> keyed_orders d)"

definition owed :: "uuid \<Rightarrow> database \<Rightarrow> bool" where
  "owed i d \<longleftrightarrow> integrity d \<and> (\<forall>(j, s) \<in> order_states d.
     if j = i then s = ''confirmed'' else (s = ''confirmed'' \<longleftrightarrow> j \<in> keyed_orders d))"

definition keeps_settled :: "database \<Rightarrow> database \<Rightarrow> bool" where
  "keeps_settled d e \<longleftrightarrow> (settled d \<longrightarrow> settled e)"

lemma settled_same:
  assumes "order_states e = order_states d" "keyed_orders e = keyed_orders d" "integrity d \<Longrightarrow> integrity e"
  shows "keeps_settled d e"
  using assms by (simp add: keeps_settled_def settled_def)

lemma update_checked_frame:
  assumes "\<And>t. p (put t d) = p d"
  shows "p (snd (update_checked table put chk P f d)) = p d"
  using assms by (simp add: update_checked_def split: sum.split prod.split)

lemma update_checked_image:
  assumes "\<And>t. table (put t d) = t" and "\<And>r. g (f r) = g r"
  shows "g ` set (table (snd (update_checked table put chk P f d))) = g ` set (table d)"
proof (cases "update_rows P f (chk d) [] (table d)")
  case (Inr q)
  obtain out t where q: "q = (out, t)" by fastforce
  have "t = map (\<lambda>r. if P r then f r else r) (table d)"
    using update_rows_result [OF Inr [unfolded q]] by simp
  then have "map g t = map g (table d)" using assms(2) by simp
  then have "g ` set t = g ` set (table d)" by (metis set_map)
  then show ?thesis using Inr q assms(1) by (simp add: update_checked_def)
qed (simp add: update_checked_def)

lemma keyed_in_orders: "integrity d \<Longrightarrow> keyed_orders d \<subseteq> oids d"
proof
  fix i assume "integrity d" "i \<in> keyed_orders d"
  then obtain c where "c \<in> set (db_card_keys d)" "cr_order_id c = Some i"
    "card_keys_ok (tids d) (uids d) (oids d) (db_card_keys d)"
    by (auto simp: keyed_orders_def integrity_def)
  then show "i \<in> oids d" unfolding card_keys_ok_def by fastforce
qed

lemma settled_frames:
  "order_states (snd (sql_insert_tenant t d)) = order_states d"
  "keyed_orders (snd (sql_insert_tenant t d)) = keyed_orders d"
  "order_states (snd (sql_insert_user u d)) = order_states d"
  "keyed_orders (snd (sql_insert_user u d)) = keyed_orders d"
  "order_states (snd (sql_insert_payment_event p d)) = order_states d"
  "keyed_orders (snd (sql_insert_payment_event p d)) = keyed_orders d"
  "order_states (snd (sql_insert_entitlement e d)) = order_states d"
  "keyed_orders (snd (sql_insert_entitlement e d)) = keyed_orders d"
  "order_states (snd (sql_insert_audit a d)) = order_states d"
  "keyed_orders (snd (sql_insert_audit a d)) = keyed_orders d"
  "order_states (snd (sql_insert_card_key c d)) = order_states d"
  "keyed_orders (snd (sql_insert_order o1 d)) = keyed_orders d"
  by (simp_all add: stmt_defs insert_checked_snd order_states_def keyed_orders_def)

lemma settled_update_frames:
  "order_states (snd (sql_update_skybridge_user i nebula sky em ph nm now d)) = order_states d"
  "keyed_orders (snd (sql_update_skybridge_user i nebula sky em ph nm now d)) = keyed_orders d"
  "order_states (snd (sql_touch_device i now d)) = order_states d"
  "keyed_orders (snd (sql_touch_device i now d)) = keyed_orders d"
  "order_states (snd (sql_revoke_entitlement i now d)) = order_states d"
  "keyed_orders (snd (sql_revoke_entitlement i now d)) = keyed_orders d"
  "order_states (snd (sql_mark_card_key_redeemed i usr now d)) = order_states d"
  "keyed_orders (snd (sql_attach_checkout_session i session d)) = keyed_orders d"
  unfolding stmt_defs
  by (rule update_checked_frame; simp add: order_states_def keyed_orders_def put_defs)+

lemma settled_upsert_frames:
  "order_states (snd (sql_upsert_device v d)) = order_states d"
  "keyed_orders (snd (sql_upsert_device v d)) = keyed_orders d"
  by (auto simp: sql_upsert_device_def update_checked_def andthen_def act_simps insert_checked_def
      order_states_def keyed_orders_def put_defs split: option.split sum.split prod.split)

lemma settled_image_frames:
  "order_states (snd (sql_attach_checkout_session i session d)) = order_states d"
  "keyed_orders (snd (sql_mark_card_key_redeemed i usr now d)) = keyed_orders d"
  unfolding order_states_def keyed_orders_def stmt_defs
  by (subst update_checked_image; simp add: put_defs redeemed_row_def)+

lemmas frames = settled_frames settled_update_frames settled_upsert_frames settled_image_frames

lemma settled_insert_order:
  assumes "or_status r \<noteq> ''confirmed''"
  shows "keeps_settled d (snd (sql_insert_order r d))"
proof -
  have "settled (snd (sql_insert_order r d))" if s: "settled d"
  proof (cases "violation (order_checks d (db_orders d) r)")
    case None
    then have "or_id r \<notin> oids d"
      unfolding violation_None order_checks_def by (simp add: fresh_in_def)
    then have new: "or_id r \<notin> keyed_orders d" using s keyed_in_orders by (auto simp: settled_def)
    have o: "order_states (snd (sql_insert_order r d)) = insert (or_id r, or_status r) (order_states d)"
      using None by (simp add: sql_insert_order_def insert_checked_snd order_states_def)
    have "integrity (snd (sql_insert_order r d))" using s integrity_inserts(3) by (simp add: settled_def)
    then show ?thesis using s new assms unfolding settled_def o settled_frames by simp
  qed (use s in \<open>simp add: sql_insert_order_def insert_checked_snd\<close>)
  then show ?thesis by (simp add: keeps_settled_def)
qed

lemma settled_insert_plain_key:
  assumes "cr_order_id c = None"
  shows "keeps_settled d (snd (sql_insert_card_key c d))"
proof (rule settled_same)
  show "keyed_orders (snd (sql_insert_card_key c d)) = keyed_orders d"
    using assms by (simp add: sql_insert_card_key_def insert_checked_snd keyed_orders_def)
qed (simp_all add: frames integrity_inserts)

lemma settled_plain: "plain_write d e \<Longrightarrow> keeps_settled d e"
  by (erule plain_write_cases)
    (auto simp: settled_insert_order settled_insert_plain_key intro!: settled_same
      simp: frames integrity_updates integrity_inserts integrity_upsert_device)

interpretation settling: db_contract keeps_settled
  by unfold_locales (auto simp: keeps_settled_def intro: settled_plain [unfolded keeps_settled_def, rule_format])

text \<open>From one assertion on the database to another, along a successful run.\<close>

definition leads :: "(database \<Rightarrow> bool) \<Rightarrow> 'a handler \<Rightarrow> ('a \<Rightarrow> database \<Rightarrow> bool) \<Rightarrow> bool" where
  "leads P m R \<longleftrightarrow> (\<forall>w a v. P (w_db w) \<longrightarrow> m w = (Inr a, v) \<longrightarrow> R a (w_db v))"

lemma leads_andthen: "leads P m M \<Longrightarrow> (\<And>a. leads (M a) (f a) R) \<Longrightarrow> leads P (andthen m f) R"
  unfolding leads_def andthen_Inr by blast

lemma leads_lift: "(\<And>a. r = Inr a \<Longrightarrow> leads P (f a) R) \<Longrightarrow> leads P (andthen (lift r) f) R"
  by (auto simp: leads_def run_inv)

lemma leads_keeps: "keeps (on_db keeps_settled) m \<Longrightarrow> leads settled m (\<lambda>_. settled)"
  by (auto simp: leads_def keeps_def on_db_def keeps_settled_def)

lemma leads_frame: "(\<And>w. w_db (snd (m w)) = w_db w) \<Longrightarrow> leads P m (\<lambda>_. P)"
  unfolding leads_def by (metis snd_conv)

lemma keeps_leads: "leads settled m (\<lambda>_. settled) \<Longrightarrow> keeps (on_db keeps_settled) (transaction m)"
  by (auto simp: leads_def keeps_def on_db_def keeps_settled_def transaction_def
      split: prod.split sum.split)

lemma generate_card_key_db: "w_db (snd (generate_card_key x p t n k w)) = w_db w"
  by (simp add: generate_card_key_def hash_password_def act_simps Let_def split: sum.split)

text \<open>A confirming update leaves exactly one order owed its card key.\<close>

lemma confirm_owes:
  assumes d: "settled d" and u: "update_checked db_orders put_orders order_checks P f d = (Inr (r' # rs), e)"
    and f: "\<And>r. or_id (f r) = or_id r \<and> or_status (f r) = ''confirmed''"
    and one: "\<And>r s. r \<in> set (db_orders d) \<Longrightarrow> s \<in> set (db_orders d) \<Longrightarrow> P r \<Longrightarrow> P s \<Longrightarrow> r = s"
    and i: "integrity e"
  shows "owed (or_id r') e"
proof -
  have out: "r' # rs = map f (filter P (db_orders d))"
    and e: "e = put_orders (map (\<lambda>r. if P r then f r else r) (db_orders d)) d"
    using update_checked_Inr [OF u] by simp_all
  have "r' \<in> f ` {r \<in> set (db_orders d). P r}"
    using out by (metis list.set_intros(1) set_filter set_map)
  then obtain r where r: "r \<in> set (db_orders d)" "P r" "r' = f r" by auto
  have ids: "unique or_id (db_orders d)" using d by (simp add: settled_def integrity_def orders_ok_def)
  have states: "if j = or_id r' then s = ''confirmed'' else (s = ''confirmed'' \<longleftrightarrow> j \<in> keyed_orders e)"
    if js: "(j, s) \<in> order_states e" for j s
  proof -
    from js e obtain y where y: "y \<in> set (db_orders d)"
      "j = or_id y" "s = or_status (if P y then f y else y)"
      using f by (auto simp: order_states_def put_orders_def)
    show ?thesis
    proof (cases "P y")
      case True
      then have "y = r" using one r y(1) by blast
      then show ?thesis using True f r y by simp
    next
      case False
      then have "or_id y \<noteq> or_id r" using unique_row [OF ids y(1) r(1)] r(2) by blast
      moreover have "s = ''confirmed'' \<longleftrightarrow> j \<in> keyed_orders d"
        using d y False by (force simp: settled_def order_states_def)
      moreover have "keyed_orders e = keyed_orders d" by (simp add: e put_orders_def keyed_orders_def)
      ultimately show ?thesis using y r(3) f by simp
    qed
  qed
  show ?thesis unfolding owed_def by (intro conjI i ballI, clarify, rule states)
qed

lemma key_settles:
  assumes "owed i d" "sql_insert_card_key c d = (Inr (), e)" "cr_order_id c = Some i"
  shows "settled e"
proof -
  have e: "e = d\<lparr>db_card_keys := db_card_keys d @ [c]\<rparr>"
    using assms(2) by (simp add: sql_insert_card_key_def insert_checked_Inr)
  have "integrity e" using assms(1,2) integrity_inserts(5) [of d c] by (simp add: owed_def)
  moreover have "keyed_orders e = insert i (keyed_orders d)" "order_states e = order_states d"
    using assms(3) by (auto simp: e keyed_orders_def order_states_def)
  ultimately show ?thesis using assms(1) by (auto simp: settled_def owed_def split: if_splits)
qed

definition owed_for :: "order \<Rightarrow> database \<Rightarrow> bool" where
  "owed_for ord d \<longleftrightarrow> owed (order_uuid (ord_id ord)) d"

lemma leads_insert_key:
  assumes "\<And>a. leads settled (k a) R"
  shows "leads (owed_for ord) (andthen (map_error f (insert_card_key c (Some (ord_id ord)))) k) R"
proof (rule leads_andthen [OF _ assms])
  show "leads (owed_for ord) (map_error f (insert_card_key c (Some (ord_id ord)))) (\<lambda>_. settled)"
    by (auto simp: leads_def owed_for_def insert_card_key_def store_inv card_key_row_of_def
        intro: key_settles)
qed

lemma leads_case_prod: "(\<And>a b. leads P (f a b) R) \<Longrightarrow> leads P (case p of (a, b) \<Rightarrow> f a b) R"
  by (cases p) simp

lemma leads_if: "leads P m R \<Longrightarrow> leads P n R \<Longrightarrow> leads P (if b then m else n) R"
  by simp

lemma leads_ret: "leads P (ret a) (\<lambda>_. P)"
  by (simp add: leads_frame act_simps)

lemma settling_entitlement [keeps_intros]: "keeps (on_db keeps_settled) (insert_entitlement e)"
proof -
  have "keeps keeps_settled (sql_insert_entitlement r)" for r
    by (simp add: keeps_def settled_same frames integrity_inserts)
  then show ?thesis unfolding insert_entitlement_def by (intro keeps_intros)
qed

lemma leads_provision:
  "leads (owed_for ord) (provision_paid_order_entitlement x ord actor summary) (\<lambda>_. settled)"
  unfolding provision_paid_order_entitlement_def
  by (intro leads_lift leads_case_prod, rule leads_andthen, rule leads_frame,
      rule generate_card_key_db, rule leads_insert_key, rule leads_keeps, intro keeps_intros)

lemma leads_confirm_card_key:
  "leads (owed_for ord) (confirm_order_card_key x ord) (\<lambda>_. settled)"
  unfolding confirm_order_card_key_def Let_def
  by (rule leads_lift, rule leads_andthen, rule leads_frame, rule generate_card_key_db,
      rule leads_insert_key, rule leads_keeps, intro keeps_intros)

text \<open>The three confirmations: the order they return is the one that is owed its key.\<close>

lemma orders_unique: "settled d \<Longrightarrow> unique or_id (db_orders d) \<and> unique or_payment_reference (db_orders d)"
  by (simp add: settled_def integrity_def orders_ok_def)

lemma order_id_of_row: "row_to_order r = Inr ord \<Longrightarrow> order_uuid (ord_id ord) = or_id r"
  by (auto simp: row_to_order_def res_simps)

lemma update_owes:
  assumes d: "settled d" and u: "update_checked db_orders put_orders order_checks P f d = (Inr rows, e)"
    and r: "first rows = Some r'" "row_to_order r' = Inr ord"
    and f: "\<And>r. or_id (f r) = or_id r \<and> or_status (f r) = ''confirmed''"
    and key: "(\<forall>r. P r \<longrightarrow> or_id r = i) \<or> (\<forall>r. P r \<longrightarrow> or_payment_reference r = rf)"
    and i: "integrity (snd (update_checked db_orders put_orders order_checks P f d))"
  shows "owed_for ord e"
proof -
  obtain rs where rows: "rows = r' # rs" using r(1) by (auto simp: first_Some)
  have "owed (or_id r') e"
  proof (rule confirm_owes [OF d u [unfolded rows] f])
    fix r s assume "r \<in> set (db_orders d)" "s \<in> set (db_orders d)" "P r" "P s"
    then show "r = s" using key orders_unique [OF d]
      by (auto dest: unique_row [where k = or_id] unique_row [where k = or_payment_reference])
  qed (use i u in simp)
  then show ?thesis by (simp add: owed_for_def order_id_of_row [OF r(2)])
qed

lemma leads_confirm_pending: "leads settled (confirm_pending_order i) owed_for"
  unfolding leads_def
proof (intro allI impI)
  fix w ord v assume s: "settled (w_db w)" and r: "confirm_pending_order i w = (Inr ord, v)"
  define now where "now = src_clock w (clock_n w)"
  obtain rows d r' where q: "sql_confirm_pending (order_uuid i) now (w_db w) = (Inr rows, d)"
    and f: "w_db v = d" "first rows = Some r'" "row_to_order r' = Inr ord"
    using r by (auto simp: confirm_pending_order_def confirmed_or_reason_def store_inv now_def
        split: option.splits)
  have i: "integrity (snd (sql_confirm_pending (order_uuid i) now (w_db w)))"
    using s integrity_updates(2) by (simp add: settled_def)
  show "owed_for ord (w_db v)"
    unfolding f(1) by (rule update_owes [OF s q [unfolded sql_confirm_pending_def] f(2,3)])
      (use i in \<open>auto simp: confirmed_row_def sql_confirm_pending_def\<close>)
qed

lemma leads_confirm_by_reference: "leads settled (confirm_pending_order_by_reference rf) owed_for"
  unfolding leads_def
proof (intro allI impI)
  fix w ord v assume s: "settled (w_db w)"
    and r: "confirm_pending_order_by_reference rf w = (Inr ord, v)"
  define now where "now = src_clock w (clock_n w)"
  obtain rows d r' where q: "sql_confirm_pending_by_reference rf now (w_db w) = (Inr rows, d)"
    and f: "w_db v = d" "first rows = Some r'" "row_to_order r' = Inr ord"
    using r by (auto simp: confirm_pending_order_by_reference_def confirmed_or_reason_def store_inv
        now_def split: option.splits)
  have i: "integrity (snd (sql_confirm_pending_by_reference rf now (w_db w)))"
    using s integrity_updates(3) by (simp add: settled_def)
  show "owed_for ord (w_db v)"
    unfolding f(1) by (rule update_owes [OF s q [unfolded sql_confirm_pending_by_reference_def] f(2,3), where rf = rf])
      (use i in \<open>auto simp: confirmed_row_def sql_confirm_pending_by_reference_def\<close>)
qed

lemma leads_confirm_provider: "leads settled (confirm_provider_order i intent paid_at) owed_for"
  unfolding leads_def
proof (intro allI impI)
  fix w ord v assume s: "settled (w_db w)"
    and r: "confirm_provider_order i intent paid_at w = (Inr ord, v)"
  obtain rows d r' where q: "sql_confirm_provider (order_uuid i) intent paid_at (w_db w) = (Inr rows, d)"
    and f: "w_db v = d" "first rows = Some r'" "row_to_order r' = Inr ord"
    using r by (auto simp: confirm_provider_order_def execute_optional_def store_inv res_simps)
  have i: "integrity (snd (sql_confirm_provider (order_uuid i) intent paid_at (w_db w)))"
    using s integrity_updates(5) by (simp add: settled_def)
  show "owed_for ord (w_db v)"
    unfolding f(1) by (rule update_owes [OF s q [unfolded sql_confirm_provider_def] f(2,3)])
      (use i in \<open>auto simp: confirmed_row_def sql_confirm_provider_def\<close>)
qed

interpretation settling: request_contract keeps_settled
proof
  show "keeps (on_db keeps_settled) (redeem_card_key x c h k)" for x c h k
    unfolding redeem_card_key_def by (intro keeps_intros)
  show "keeps (on_db keeps_settled) (ensure_test_full_access_entitlement x c u)" for x c u
    unfolding ensure_test_full_access_entitlement_def by (intro keeps_intros)
  show "keeps (on_db keeps_settled) (confirm_order x c h i)" for x c h i
    unfolding confirm_order_def
    by (rule keeps_intros, rule keeps_intros, rule keeps_leads, rule leads_andthen,
        rule leads_confirm_pending, rule leads_confirm_card_key)
  show "keeps (on_db keeps_settled) (confirm_order_by_reference x c h r)" for x c h r
    unfolding confirm_order_by_reference_def
    by (rule keeps_intros, rule keeps_intros, rule keeps_leads, rule leads_andthen,
        rule leads_confirm_by_reference, rule leads_confirm_card_key)
  have settle: "leads settled (andthen (confirm_provider_order i intent paid_at) (\<lambda>ord.
      andthen (provision_paid_order_entitlement x ord actor summary) (\<lambda>_. ret True))) (\<lambda>_. settled)"
    for i intent paid_at x actor summary
    by (rule leads_andthen, rule leads_confirm_provider, rule leads_andthen, rule leads_provision,
        rule leads_ret)
  show "keeps (on_db keeps_settled) (fulfill_stripe_checkout_session x ev s p)" for x ev s p
    unfolding fulfill_stripe_checkout_session_def Let_def
    by (rule settling.world.keeps_if, intro keeps_intros, rule settling.world.keeps_andthen,
        intro keeps_intros, rule keeps_leads, rule leads_andthen [OF leads_keeps], intro keeps_intros,
        rule leads_if, rule leads_ret, rule leads_andthen [OF leads_keeps], intro keeps_intros,
        rule leads_lift, rule leads_if, rule leads_ret,
        (rule leads_andthen [OF leads_keeps], intro keeps_intros)+, rule settle)
  show "keeps (on_db keeps_settled) (process_wechatpay_transaction x c we t b)" for x c we t b
    unfolding process_wechatpay_transaction_def Let_def
    by (rule settling.world.keeps_if, intro keeps_intros, rule keeps_leads,
        rule leads_andthen [OF leads_keeps], intro keeps_intros, rule leads_lift,
        rule leads_andthen [OF leads_keeps], intro keeps_intros, rule leads_if, rule leads_ret,
        (rule leads_andthen [OF leads_keeps], intro keeps_intros)+, rule settle)
qed

lemma settled_empty: "settled empty_database"
  unfolding settled_def by (simp add: integrity_empty) (simp add: order_states_def empty_database_def)

lemma served_settled: "served x w \<Longrightarrow> settled (w_db w)"
  using settling.served_keeps [of x w] settled_empty by (simp add: keeps_settled_def)

end
