(* ===== verification/CloudSamples.thy ===== *)
theory CloudSamples
  imports CloudSettlement "HOL-Library.Code_Target_Nat"
begin

text \<open>
  A concrete configuration, concrete crates and concrete worlds, for the witnesses of the
  theorems about the cloud API.
\<close>

definition sample_config :: app_config where
  "sample_config =
     \<lparr> cfg_bind = ''127.0.0.1:8080'', cfg_database_url = ''postgres://localhost/test'',
       cfg_database_max_connections = 10, cfg_environment = ''development'',
       cfg_jwt_secret = ''s'', cfg_admin_token = ''t'',
       cfg_download_manifest_url = default_local_node_release_manifest_url,
       cfg_openclaw_plugin_url = ''https://example.com/plugin.zip'',
       cfg_openclaw_manifest_url = ''https://example.com/manifest.json'',
       cfg_payment_provider = ConfiguredManual,
       cfg_stripe_secret_key = Some ''sk'', cfg_stripe_webhook_secret = Some ''whsec'',
       cfg_stripe_success_url = ''https://example.com/ok'',
       cfg_stripe_cancel_url = ''https://example.com/no'', cfg_stripe_currency = ''cny'',
       cfg_stripe_standard_amount_minor = 4000,
       cfg_wechat_api_base_url = ''https://api.mch.weixin.qq.com'',
       cfg_wechat_app_id = Some ''app'', cfg_wechat_mch_id = Some ''mch'',
       cfg_wechat_merchant_serial_no = Some ''serial'',
       cfg_wechat_merchant_private_key_pem = Some ''pem'',
       cfg_wechat_api_v3_key = Some (replicate 32 (CHR ''k'')),
       cfg_wechat_pay_public_key_id = Some ''pub'', cfg_wechat_pay_public_key_pem = Some ''pubpem'',
       cfg_wechat_notify_url = ''https://example.com/notify'', cfg_wechat_currency = ''CNY'',
       cfg_wechat_standard_amount_minor = 4000, cfg_test_full_access_identities = [],
       cfg_test_full_access_duration_days = 365, cfg_test_full_access_max_devices = 10,
       cfg_lease_signing_private_key_pem = Some ''leasekey'', cfg_lease_signing_key_id = ''default'',
       cfg_lease_issuer = default_lease_issuer, cfg_lease_audience = default_lease_audience,
       cfg_skybridge_api_base_urls = [], cfg_allow_local_nebula_registration = True,
       cfg_cors_allowed_origins = dev_cors_origins, cfg_cors_allowed_origins_configured = False \<rparr>"

definition sample_world :: world where
  "sample_world =
     \<lparr> src_clock = src_clock sample_ambient, clock_n = 0, src_uuid = src_uuid sample_ambient,
       uuid_n = 0, src_alnum = src_alnum sample_ambient, alnum_n = 0,
       src_os = src_os sample_ambient, os_n = 0, w_db = empty_database, w_cache = None,
       w_net = (\<lambda>_. None), w_sent = [] \<rparr>"

definition admin_headers :: headers where
  "admin_headers n = (if n = ''x-admin-token'' then Some ''t'' else None)"

definition user_headers :: headers where
  "user_headers n = (if n = ''authorization'' then Some ''Bearer token'' else None)"

text \<open>Crates whose token decoder takes every token for one of the user and tenant with the given ids,
  and whose printers are constant.\<close>

definition crates_for :: "user_id \<Rightarrow> tenant_id \<Rightarrow> crates" where
  "crates_for u t = toy_crates\<lparr> x_jwt_decode := (\<lambda>k now s. Some (claims_to_json toy_crates
     \<lparr> ac_sub = u, ac_tenant_id = t, ac_role = UserRole, ac_exp = 0 \<rparr>)),
     x_json_print := (\<lambda>_. ''json''), x_rfc3339_print := (\<lambda>_. ''time'') \<rparr>"

lemma sample_admin: "admin_token_matches sample_config admin_headers"
  by (simp add: admin_token_matches_def admin_headers_def sample_config_def constant_time_eq_iff)

text \<open>A database with two users, three pending orders, an available and a redeemed card key,
  the entitlement the redeemed one gave, and a device.\<close>

definition sample_users :: "user_row list" where
  "sample_users =
     [\<lparr> ur_id = 1, ur_tenant_id = 1, ur_nebula_id = ''NEBULA-2026-AAAAAAAA'',
        ur_nebula_source = ''local_dev'', ur_skybridge_user_id = None, ur_email = Some ''a@b.c'',
        ur_phone = None, ur_name = None, ur_password_hash = ''pw'', ur_role = ''user'',
        ur_email_verified_at = None, ur_phone_verified_at = None, ur_created_at = 0 \<rparr>,
      \<lparr> ur_id = 2, ur_tenant_id = 1, ur_nebula_id = ''NEBULA-2026-BBBBBBBB'',
        ur_nebula_source = ''skybridge'', ur_skybridge_user_id = Some 9, ur_email = Some ''s@b.c'',
        ur_phone = None, ur_name = None, ur_password_hash = ''-'', ur_role = ''user'',
        ur_email_verified_at = Some 0, ur_phone_verified_at = None, ur_created_at = 0 \<rparr>]"

definition pending_order :: "uuid \<Rightarrow> string \<Rightarrow> string \<Rightarrow> string \<Rightarrow> string option \<Rightarrow> order_row" where
  "pending_order i status provider reference session =
     \<lparr> or_id = i, or_tenant_id = 1, or_user_id = 1, or_plan_code = ''standard_30d'',
       or_status = status, or_payment_provider = provider, or_payment_reference = reference,
       or_amount_minor = 4000, or_currency = ''cny'', or_checkout_session_id = session,
       or_payment_intent_id = None, or_paid_at = None, or_created_at = 0, or_confirmed_at = None \<rparr>"

definition sample_orders :: "order_row list" where
  "sample_orders =
     [pending_order 10 ''pending_manual_payment'' ''manual'' ''OZON-1'' None,
      pending_order 11 ''pending_provider_payment'' ''stripe'' ''cs_1'' (Some ''cs_1''),
      pending_order 12 ''pending_provider_payment'' ''wechat_pay'' ''wx'' None]"

definition sample_card_keys :: "card_key_row list" where
  "sample_card_keys =
     [\<lparr> cr_id = 20, cr_tenant_id = 1, cr_order_id = None, cr_plan_code = ''standard_30d'',
        cr_code_hash = ''k'', cr_code_fingerprint = hex_lower ''k'', cr_duration_days = 30,
        cr_max_devices = 1, cr_status = ''available'', cr_redeemed_by = None,
        cr_redeemed_at = None, cr_created_at = 0 \<rparr>,
      \<lparr> cr_id = 21, cr_tenant_id = 1, cr_order_id = None, cr_plan_code = ''standard_30d'',
        cr_code_hash = ''q'', cr_code_fingerprint = hex_lower ''q'', cr_duration_days = 30,
        cr_max_devices = 2, cr_status = ''redeemed'', cr_redeemed_by = Some 1,
        cr_redeemed_at = Some 0, cr_created_at = 0 \<rparr>]"

definition sample_db :: database where
  "sample_db =
     \<lparr> db_tenants = [\<lparr> tr_id = 1, tr_created_at = 0 \<rparr>], db_users = sample_users,
       db_orders = sample_orders, db_card_keys = sample_card_keys,
       db_devices = [\<lparr> dvr_id = 30, dvr_tenant_id = 1, dvr_user_id = 1, dvr_name = ''mac'',
         dvr_fingerprint_hash = hex_lower ''f'', dvr_status = ''active'', dvr_activated_at = 0,
         dvr_last_seen_at = None \<rparr>],
       db_entitlements = [\<lparr> er_id = 40, er_tenant_id = 1, er_user_id = 1,
         er_plan_code = ''standard_30d'', er_source_card_key_id = 21, er_features = known_features,
         er_expires_at = 1800000000000000, er_revoked_at = None \<rparr>],
       db_payment_events = [], db_audit_events = [] \<rparr>"

definition shop_world :: world where
  "shop_world = sample_world\<lparr>w_db := sample_db\<rparr>"

definition user1_crates :: crates where
  "user1_crates = crates_for (UserId 1) (TenantId 1)"

lemma shop_db: "w_db shop_world = sample_db"
  by (simp add: shop_world_def)

lemmas sample_rows = sample_db_def sample_users_def sample_orders_def pending_order_def
  sample_card_keys_def

lemma sample_tables:
  "users_ok {1} sample_users" "orders_ok {1} {1, 2} sample_orders"
  "card_keys_ok {1} {1, 2} {10, 11, 12} sample_card_keys"
  by (simp_all add: table_ok_defs unique_def unique_opt_def sample_rows identity_anchor_def
      currency_code_def hex_lower_def hex_byte_inject is_ascii_lower_def)

lemma sample_settled: "settled sample_db"
  using sample_tables
  by (simp add: settled_def integrity_def order_states_def keyed_orders_def sample_rows
      devices_ok_def entitlements_ok_def events_ok_def audits_ok_def unique_def)

lemma sample_integrity: "integrity sample_db"
  using sample_settled by (simp add: settled_def)

end
