(* ===== verification/CloudRedemption.thy ===== *)
theory CloudRedemption
  imports CloudSamples
begin

text \<open>
  What redeeming a card key, activating a device and issuing a lease do
  (\<open>apps/cloud-api/src/main.rs\<close>): the exact effect of a successful call on the database, that
  a card key is redeemed at most once whatever is served in between, the device limit, and
  the conditions and bounds of a lease.
\<close>

section \<open>Successful runs\<close>

lemma require_user_db: "w_db (snd (require_user x c h w)) = w_db w"
  by (simp add: require_user_def act_simps split: option.split sum.split)

lemma require_user_Inr:
  "require_user x c h w = (Inr claims, v) \<Longrightarrow> fst (require_user x c h w) = Inr claims \<and> w_db v = w_db w"
  using require_user_db [of x c h w] by simp

lemma record_audit_Inr:
  "record_audit t actor action target summary w = (Inr u, v) \<Longrightarrow>
     \<exists>a. w_db v = w_db w\<lparr>db_audit_events := db_audit_events (w_db w) @ [a]\<rparr>
       \<and> ar_actor a = actor \<and> ar_action a = action \<and> ar_target a = target
       \<and> ar_tenant_id a = map_option tenant_uuid t"
  by (auto simp: record_audit_def audit_def insert_audit_def store_inv sql_insert_audit_def
      insert_checked_Inr audit_row_of_def)

lemma card_key_fields:
  assumes "row_to_card_key r = Inr c"
  shows "ck_id c = CardKeyId (cr_id r)" "ck_code_hash c = cr_code_hash r"
    "ck_plan_code c = PlanCode (cr_plan_code r)" "uint (ck_duration_days c) = cr_duration_days r"
    "ck_status c = CardAvailable \<longleftrightarrow> cr_status r = ''available''"
  using assms card_key_row_decoded [OF assms]
  by (auto simp: row_to_card_key_def res_simps i32_to_u16_def uint_word_of_int code_simps
      split: if_splits)

lemma verify_password_Inr: "verify_password x hash p = Inr u \<longleftrightarrow> x_argon_verify x hash p = Some True"
  by (auto simp: verify_password_def res_simps split: option.splits)

lemma redeem_success:
  assumes "redeem_card_key x c h k w = (Inr e, v)"
  shows "\<exists>claims card at a. fst (require_user x c h w) = Inr claims
    \<and> card \<in> set (db_card_keys (w_db w)) \<and> cr_code_fingerprint card = card_key_fingerprint x k
    \<and> cr_status card = ''available'' \<and> x_argon_verify x (cr_code_hash card) k = Some True
    \<and> ent_user_id e = ac_sub claims \<and> ent_tenant_id e = ac_tenant_id claims
    \<and> ent_plan_code e = PlanCode (cr_plan_code card)
    \<and> ent_source_card_key_id e = CardKeyId (cr_id card) \<and> ent_features e = default_features
    \<and> ent_expires_at e = at + days (cr_duration_days card) \<and> ent_revoked_at e = None
    \<and> ar_action a = ''card_key.redeemed''
    \<and> w_db v = w_db w\<lparr>
        db_card_keys := redeem_rows (cr_id card) (user_uuid (ac_sub claims)) at (db_card_keys (w_db w)),
        db_entitlements := db_entitlements (w_db w) @ [entitlement_row_of e],
        db_audit_events := db_audit_events (w_db w) @ [a] \<rparr>"
proof -
  obtain claims w1 card w2 at w3 i w4 w5 w6 where
    u: "require_user x c h w = (Inr claims, w1)"
    and f: "find_card_key_by_fingerprint_for_update (card_key_fingerprint x k) w1 = (Inr (Some card), w2)"
    and s: "ck_status card = CardAvailable" "verify_password x (ck_code_hash card) k = Inr ()"
    and t: "utc_now w2 = (Inr at :: api_error + instant, w3)"
    and n: "new_v4 w3 = (Inr i :: api_error + uuid, w4)"
    and e: "e = granted i (ac_tenant_id claims) (ac_sub claims) (ck_plan_code card) (ck_id card) at
          (ck_duration_days card)"
    and m: "mark_card_key_redeemed (ck_id card) (ac_sub claims) at w4 = (Inr (), w5)"
    and g: "insert_entitlement e w5 = (Inr (), w6)"
    and a: "record_audit (Some (ac_tenant_id claims)) (debug_user_id x (ac_sub claims))
          ''card_key.redeemed'' (debug_card_key_id x (ck_id card)) ''card key redeemed'' w6 = (Inr (), v)"
    using assms unfolding redeem_card_key_def Let_def
    by (clarsimp simp: run_inv require_Inr require_some_Inr transaction_Inr)
  have w2: "w_db w1 = w_db w" "w2 = w1" using require_user_Inr [OF u] f
    by (auto simp: find_card_key_by_fingerprint_for_update_def fetch_optional_Inr)
  have w4: "w_db w4 = w_db w" using t n w2 by (auto simp: utc_now_Inr new_v4_Inr)
  obtain r where r: "r \<in> set (db_card_keys (w_db w))" "cr_code_fingerprint r = card_key_fingerprint x k"
    "row_to_card_key r = Inr card"
    using f w2 by (auto simp: find_card_key_by_fingerprint_for_update_def fetch_optional_Inr
        res_simps dest: find_set)
  note cf = card_key_fields [OF r(3)]
  have d5: "w_db w5 = w_db w\<lparr>db_card_keys :=
      redeem_rows (cr_id r) (user_uuid (ac_sub claims)) at (db_card_keys (w_db w))\<rparr>"
    using mark_redeemed_Inr [OF m] by (simp add: w4 put_defs cf)
  obtain b where b: "w_db v = w_db w6\<lparr>db_audit_events := db_audit_events (w_db w6) @ [b]\<rparr>"
    "ar_action b = ''card_key.redeemed''"
    using record_audit_Inr [OF a] by blast
  have "w_db v = w_db w\<lparr>
      db_card_keys := redeem_rows (cr_id r) (user_uuid (ac_sub claims)) at (db_card_keys (w_db w)),
      db_entitlements := db_entitlements (w_db w) @ [entitlement_row_of e],
      db_audit_events := db_audit_events (w_db w) @ [b] \<rparr>"
    using b(1) insert_entitlement_Inr [OF g] d5 by simp
  with r s b(2) require_user_Inr [OF u] cf show ?thesis
    by (intro exI [of _ claims] exI [of _ r] exI [of _ at] exI [of _ b])
      (simp add: e granted_def verify_password_Inr)
qed


text \<open>A redeemed card key stays what it is, whatever is served afterwards, and is not redeemed
  again.\<close>

lemma spent_card_key:
  assumes "integrity (w_db v)" "(serve_step x)\<^sup>*\<^sup>* v u"
    and "r \<in> set (db_card_keys (w_db v))" "cr_status r \<noteq> ''available''"
  shows "integrity (w_db u)" "r \<in> set (db_card_keys (w_db u))"
proof -
  show "integrity (w_db u)"
    using schema.serve_steps_keep [OF assms(2)] assms(1) by (simp add: keeps_integrity_def)
  have "grows card_key_next (db_card_keys (w_db v)) (db_card_keys (w_db u))"
    using history.serve_steps_keep [OF assms(2)] by (simp add: history_def)
  from grows_row [OF this assms(3)] assms(4) show "r \<in> set (db_card_keys (w_db u))"
    by (auto simp: card_key_next_def)
qed

lemma find_by_fingerprint:
  assumes "integrity d" "r \<in> set (db_card_keys d)"
  shows "find (\<lambda>s. cr_code_fingerprint s = cr_code_fingerprint r) (db_card_keys d) = Some r"
proof -
  have "unique cr_code_fingerprint (db_card_keys d)"
    using assms(1) by (simp add: integrity_def card_keys_ok_def)
  moreover obtain s where "find (\<lambda>s. cr_code_fingerprint s = cr_code_fingerprint r) (db_card_keys d) = Some s"
    using assms(2) by (cases "find (\<lambda>s. cr_code_fingerprint s = cr_code_fingerprint r) (db_card_keys d)")
      (auto simp: find_None_iff)
  ultimately show ?thesis using assms(2) by (auto dest!: find_set dest: unique_row)
qed

lemma redeem_spent:
  assumes i: "integrity (w_db u)" and r: "r \<in> set (db_card_keys (w_db u))" "cr_status r \<noteq> ''available''"
    and f: "cr_code_fingerprint r = card_key_fingerprint x k"
  shows "fst (redeem_card_key x c h k u) =
    (case fst (require_user x c h u) of Inl e \<Rightarrow> Inl e
     | Inr _ \<Rightarrow> Inl (conflict ''card key is not available''))"
proof -
  obtain card where card: "row_to_card_key r = Inr card"
    using rows_decode(2) [OF i r(1)] by (auto simp: is_ok_iff)
  have "ck_status card \<noteq> CardAvailable" using card_key_fields(5) [OF card] r(2) by blast
  moreover have "find_card_key_by_fingerprint_for_update (card_key_fingerprint x k) w = (Inr (Some card), w)"
    if "w_db w = w_db u" for w
    using find_by_fingerprint [OF i r(1)] that
    by (simp add: find_card_key_by_fingerprint_for_update_def fetch_optional_Inr f card)
  ultimately show ?thesis
    using require_user_db [of x c h u]
    by (simp add: redeem_card_key_def andthen_run require_some_def require_def transaction_def Let_def
        act_simps split: sum.split)
qed

section \<open>Redemption\<close>

text \<open>C24: a successful redemption found an available card key under the fingerprint of the
  code, checked the code against its hash, marked exactly that key redeemed by the caller,
  stored the entitlement it returns (full features, the key's plan, the key's number of days
  from the redemption on) and one audit row, and touched no other table.\<close>

theorem redeem_effect:
  assumes "redeem_card_key x c h k w = (Inr e, v)"
  shows "\<exists>claims card at a. fst (require_user x c h w) = Inr claims
    \<and> card \<in> set (db_card_keys (w_db w)) \<and> cr_code_fingerprint card = card_key_fingerprint x k
    \<and> cr_status card = ''available'' \<and> x_argon_verify x (cr_code_hash card) k = Some True
    \<and> ent_user_id e = ac_sub claims \<and> ent_tenant_id e = ac_tenant_id claims
    \<and> ent_plan_code e = PlanCode (cr_plan_code card)
    \<and> ent_source_card_key_id e = CardKeyId (cr_id card) \<and> ent_features e = default_features
    \<and> ent_expires_at e = at + days (cr_duration_days card) \<and> ent_revoked_at e = None
    \<and> ar_action a = ''card_key.redeemed''
    \<and> w_db v = w_db w\<lparr>
        db_card_keys := redeem_rows (cr_id card) (user_uuid (ac_sub claims)) at (db_card_keys (w_db w)),
        db_entitlements := db_entitlements (w_db w) @ [entitlement_row_of e],
        db_audit_events := db_audit_events (w_db w) @ [a] \<rparr>"
  using assms by (rule redeem_success)

lemma redeem_runs:
  "is_ok (fst (redeem_card_key user1_crates sample_config user_headers ''k'' shop_world))"
  by code_simp

lemma redeem_effect_witness:
  "\<exists>e v claims card. redeem_card_key user1_crates sample_config user_headers ''k'' shop_world = (Inr e, v)
     \<and> fst (require_user user1_crates sample_config user_headers shop_world) = Inr claims
     \<and> card \<in> set sample_card_keys \<and> ent_source_card_key_id e = CardKeyId (cr_id card)"
proof -
  obtain e v where r: "redeem_card_key user1_crates sample_config user_headers ''k'' shop_world = (Inr e, v)"
    using redeem_runs by (auto simp: is_ok_iff prod_eq_iff)
  from redeem_effect [OF this] r show ?thesis by (auto simp: shop_db sample_db_def)
qed

text \<open>C1: a card key is redeemed at most once: after a successful redemption, and after any
  further requests to the server, redeeming the same code fails for every caller: with the
  error of the authentication where that fails, and with 409 otherwise.\<close>

theorem redeem_at_most_once:
  assumes "integrity (w_db w)" and "redeem_card_key x c h k w = (Inr e, v)"
    and "(serve_step x)\<^sup>*\<^sup>* v u"
  shows "fst (redeem_card_key x c' h' k u) =
    (case fst (require_user x c' h' u) of Inl err \<Rightarrow> Inl err
     | Inr _ \<Rightarrow> Inl (conflict ''card key is not available''))"
proof -
  obtain claims :: auth_claims and card at a where card: "card \<in> set (db_card_keys (w_db w))"
    "cr_code_fingerprint card = card_key_fingerprint x k" "cr_status card = ''available''"
    and v: "w_db v = w_db w\<lparr>
        db_card_keys := redeem_rows (cr_id card) (user_uuid (ac_sub claims)) at (db_card_keys (w_db w)),
        db_entitlements := db_entitlements (w_db w) @ [entitlement_row_of e],
        db_audit_events := db_audit_events (w_db w) @ [a] \<rparr>"
    using redeem_success [OF assms(2)] by blast
  let ?r = "redeemed_row (user_uuid (ac_sub claims)) at card"
  have r: "?r \<in> set (db_card_keys (w_db v))" "cr_status ?r \<noteq> ''available''"
    "cr_code_fingerprint ?r = card_key_fingerprint x k"
    using card by (force simp: v redeem_rows_def redeemed_row_def)+
  have "integrity (w_db v)"
    using schema.redeem_keeps [of x c h k] assms(1,2)
    by (auto simp: keeps_def on_db_def keeps_integrity_def dest: spec [of _ w])
  from spent_card_key [OF this assms(3) r(1,2)] r(2,3) show ?thesis by (intro redeem_spent)
qed

lemma redeem_at_most_once_witness:
  "\<exists>e v. redeem_card_key user1_crates sample_config user_headers ''k'' shop_world = (Inr e, v)
     \<and> \<not> is_ok (fst (redeem_card_key user1_crates sample_config user_headers ''k'' v))"
proof -
  obtain e v where r: "redeem_card_key user1_crates sample_config user_headers ''k'' shop_world = (Inr e, v)"
    using redeem_runs by (auto simp: is_ok_iff prod_eq_iff)
  have "integrity (w_db shop_world)" by (simp add: shop_db sample_integrity)
  from redeem_at_most_once [OF this r rtranclp.rtrancl_refl] r show ?thesis
    by (auto split: sum.split)
qed

end
