(* ===== verification/CloudAccess.thy ===== *)
theory CloudAccess
  imports CloudRedemption
begin

text \<open>
  Devices and leases (\<open>activate_device\<close> and \<open>issue_lease\<close> in \<open>apps/cloud-api/src/main.rs\<close>): the
  device limit of an entitlement bounds the active devices of a user, and a lease is only
  issued to an active device of the caller, under an active entitlement, for at most 24 hours
  and never beyond the entitlement.
\<close>

section \<open>The full-access grant touches no device\<close>

definition same_devices :: "database \<Rightarrow> database \<Rightarrow> bool" where
  "same_devices d e \<longleftrightarrow> db_devices e = db_devices d"

interpretation fleet: db_relation same_devices
  by unfold_locales (simp_all add: same_devices_def)

lemma fleet_writes [keeps_intros]:
  "keeps same_devices (sql_insert_card_key c)" "keeps same_devices (sql_mark_card_key_redeemed i u t)"
  "keeps same_devices (sql_insert_entitlement e)" "keeps same_devices (sql_insert_audit a)"
  by (auto simp: keeps_def same_devices_def stmt_defs insert_checked_snd put_defs
      intro: update_checked_frame)

lemma fleet_full_access: "keeps (on_db same_devices) (ensure_test_full_access_for_user_id x c u)"
  unfolding ensure_test_full_access_for_user_id_def ensure_test_full_access_entitlement_def
    generate_card_key_def hash_password_def query_defs
  by (intro keeps_intros)

lemma full_access_devices:
  "ensure_test_full_access_for_user_id x c u w = (r, v) \<Longrightarrow> db_devices (w_db v) = db_devices (w_db w)"
  using fleet_full_access [of x c u] by (simp add: keeps_def on_db_def same_devices_def) (metis snd_conv)

lemma full_access_integrity:
  "ensure_test_full_access_for_user_id x c u w = (r, v) \<Longrightarrow> integrity (w_db w) \<Longrightarrow> integrity (w_db v)"
proof -
  have "keeps (on_db keeps_integrity) (ensure_test_full_access_for_user_id x c u)"
    unfolding ensure_test_full_access_for_user_id_def by (intro keeps_intros)
  then show "ensure_test_full_access_for_user_id x c u w = (r, v) \<Longrightarrow> integrity (w_db w) \<Longrightarrow> integrity (w_db v)"
    by (simp add: keeps_def on_db_def keeps_integrity_def) (metis snd_conv)
qed

section \<open>Counting devices\<close>

abbreviation active_count :: "uuid \<Rightarrow> device_row list \<Rightarrow> nat" where
  "active_count u rows \<equiv> length (filter (\<lambda>r. dvr_user_id r = u \<and> dvr_status r = ''active'') rows)"

text \<open>Rewriting the one row of a device, or appending it, adds at most one active device, and
  none where the device was active.\<close>

lemma active_count_rewrite:
  assumes "unique (\<lambda>x. (dvr_user_id x, dvr_fingerprint_hash x)) rows" and "r \<in> set rows" "same_device n r"
    and f: "\<And>s. dvr_user_id (f s) = dvr_user_id s" "\<And>s. dvr_status (f s) = ''active''"
  shows "active_count (dvr_user_id n) (map (\<lambda>s. if same_device n s then f s else s) rows)
    = (if dvr_status r = ''active'' then active_count (dvr_user_id n) rows
       else Suc (active_count (dvr_user_id n) rows))"
proof -
  obtain as bs where rows: "rows = as @ r # bs" using assms(2) by (auto dest: split_list)
  have "fresh_in (\<lambda>x. (dvr_user_id x, dvr_fingerprint_hash x)) (as @ bs) r"
    using assms(1) by (simp add: rows unique_insert)
  then have other: "(dvr_user_id s, dvr_fingerprint_hash s) \<noteq> (dvr_user_id r, dvr_fingerprint_hash r)"
    if "s \<in> set (as @ bs)" for s
    using that by (auto simp: fresh_in_def image_iff)
  have "\<not> same_device n s" if "s \<in> set (as @ bs)" for s
    using other [OF that] assms(3) by (simp add: same_device_def)
  then have "map (\<lambda>s. if same_device n s then f s else s) as = as"
    "map (\<lambda>s. if same_device n s then f s else s) bs = bs"
    by (simp_all add: map_idI)
  then show ?thesis using assms(3) f by (simp add: rows same_device_def)
qed

lemma upsert_rows:
  assumes "sql_upsert_device n d = (Inr out, e)" and "integrity d" "dvr_status n = ''active''"
  shows "\<exists>rows. e = put_devices rows d
    \<and> active_count (dvr_user_id n) rows =
       (if \<exists>r \<in> set (db_devices d). same_device n r \<and> dvr_status r = ''active''
        then active_count (dvr_user_id n) (db_devices d)
        else Suc (active_count (dvr_user_id n) (db_devices d)))
    \<and> (\<forall>r \<in> set out. same_device n r \<and> dvr_status r = ''active'')"
proof (cases "list_ex (same_device n) (db_devices d)")
  case True
  let ?f = "\<lambda>x. x\<lparr> dvr_name := dvr_name n, dvr_status := ''active'', dvr_last_seen_at := dvr_last_seen_at n \<rparr>"
  let ?rows = "map (\<lambda>s. if same_device n s then ?f s else s) (db_devices d)"
  obtain r where r: "r \<in> set (db_devices d)" "same_device n r" using True by (auto simp: list_ex_iff)
  have u: "unique (\<lambda>x. (dvr_user_id x, dvr_fingerprint_hash x)) (db_devices d)"
    using assms(2) by (simp add: integrity_def devices_ok_def)
  have only: "s = r" if "s \<in> set (db_devices d)" "same_device n s" for s
    using unique_row [OF u that(1) r(1)] that(2) r(2) by (simp add: same_device_def)
  have "out = map ?f (filter (same_device n) (db_devices d)) \<and> e = put_devices ?rows d"
    using assms(1,3) True by (intro update_checked_Inr [of db_devices put_devices device_checks])
      (simp add: sql_upsert_device_def)
  moreover have "active_count (dvr_user_id n) ?rows =
      (if dvr_status r = ''active'' then active_count (dvr_user_id n) (db_devices d)
       else Suc (active_count (dvr_user_id n) (db_devices d)))"
    by (rule active_count_rewrite [OF u r]) simp_all
  moreover have "(\<exists>s \<in> set (db_devices d). same_device n s \<and> dvr_status s = ''active'')
      \<longleftrightarrow> dvr_status r = ''active''" using only r by blast
  ultimately show ?thesis by (intro exI [of _ ?rows]) (auto simp: same_device_def)
next
  case False
  then have "e = put_devices (db_devices d @ [n]) d" "out = [n]"
    using assms(1,3) by (auto simp: sql_upsert_device_def run_inv insert_checked_Inr put_defs)
  moreover have "\<not> (\<exists>r \<in> set (db_devices d). same_device n r \<and> dvr_status r = ''active'')"
    using False by (auto simp: list_ex_iff)
  ultimately show ?thesis using assms(3)
    by (intro exI [of _ "db_devices d @ [n]"]) (simp add: same_device_def)
qed

lemma upsert_device_Inr:
  assumes "upsert_device n w = (Inr v, u)" and "integrity (w_db w)" "dev_status n = DeviceActive"
  shows "\<exists>rows. w_db u = put_devices rows (w_db w)
    \<and> active_count (user_uuid (dev_user_id n)) rows =
       (if \<exists>r \<in> set (db_devices (w_db w)). same_device (device_row_of n) r \<and> dvr_status r = ''active''
        then active_count (user_uuid (dev_user_id n)) (db_devices (w_db w))
        else Suc (active_count (user_uuid (dev_user_id n)) (db_devices (w_db w))))
    \<and> dev_user_id v = dev_user_id n \<and> dev_status v = DeviceActive
    \<and> dev_fingerprint_hash v = dev_fingerprint_hash n"
proof -
  obtain r out d where m: "sql_upsert_device (device_row_of n) (w_db w) = (Inr out, d)"
    "u = w\<lparr>w_db := d\<rparr>" and r: "first out = Some r" "row_to_device r = Inr v"
    using assms(1) by (auto simp: upsert_device_def execute_one_def store_inv res_simps ok_or_Inr
        bind_res_Inr)
  have "dvr_status (device_row_of n) = ''active''"
    using assms(3) by (simp add: device_row_of_def)
  from upsert_rows [OF m(1) assms(2) this] obtain rows where rows: "d = put_devices rows (w_db w)"
    "active_count (user_uuid (dev_user_id n)) rows =
       (if \<exists>r \<in> set (db_devices (w_db w)). same_device (device_row_of n) r \<and> dvr_status r = ''active''
        then active_count (user_uuid (dev_user_id n)) (db_devices (w_db w))
        else Suc (active_count (user_uuid (dev_user_id n)) (db_devices (w_db w))))"
    "\<forall>r \<in> set out. same_device (device_row_of n) r \<and> dvr_status r = ''active''"
    by (auto simp: device_row_of_def)
  have "same_device (device_row_of n) r" "dvr_status r = ''active''"
    using rows(3) r(1) by (auto simp: first_Some)
  moreover have "dev_status v = DeviceActive"
    using r(2) \<open>dvr_status r = ''active''\<close>
    by (auto simp: row_to_device_def res_simps device_status_from_db_def)
  ultimately have "dev_user_id v = dev_user_id n \<and> dev_status v = DeviceActive
      \<and> dev_fingerprint_hash v = dev_fingerprint_hash n"
    using r(2) by (auto simp: same_device_def device_row_of_def row_to_device_def res_simps)
  with rows m(2) show ?thesis by (intro exI [of _ rows]) simp
qed

section \<open>Activation\<close>

definition has_active_device :: "uuid \<Rightarrow> string \<Rightarrow> database \<Rightarrow> bool" where
  "has_active_device u fp d \<longleftrightarrow>
     (\<exists>r \<in> set (db_devices d). dvr_user_id r = u \<and> dvr_fingerprint_hash r = fp \<and> dvr_status r = ''active'')"

lemma best_active_same:
  "db_entitlements d = db_entitlements e \<Longrightarrow> db_card_keys d = db_card_keys e
     \<Longrightarrow> best_active u now d = best_active u now e"
  by (simp add: best_active_def backed_entitlements_def)

lemma lock_user_Inr: "lock_user_for_update i w = (Inr u, v) \<Longrightarrow> v = w"
  by (auto simp: lock_user_for_update_def store_inv)

lemma find_device_Inr:
  "find_device_by_fingerprint i fp w = (Inr found, v) \<Longrightarrow> v = w
    \<and> (\<forall>d. found = Some d \<longrightarrow> (\<exists>r \<in> set (db_devices (w_db w)). dvr_user_id r = user_uuid i
         \<and> dvr_fingerprint_hash r = fp \<and> row_to_device r = Inr d))"
  by (auto simp: find_device_by_fingerprint_def fetch_optional_Inr transpose_map_def
      split: option.splits sum.splits dest!: find_set)

lemma card_limit_Inr:
  assumes "find_active_entitlement_with_card_limit_for_user i w = (Inr (Some m), v)"
  shows "w_db v = w_db w \<and> (\<exists>now e card. best_active (user_uuid i) now (w_db w) = Some (e, card)
    \<and> uint m = cr_max_devices card)"
  using assms
  by (fastforce simp: find_active_entitlement_with_card_limit_for_user_def store_inv transpose_map_def
      row_to_entitlement_device_limit_def i32_to_u8_def uint_word_of_int
      split: option.splits sum.splits if_splits)

lemma active_row_status: "row_to_device r = Inr d \<Longrightarrow> dev_status d = DeviceActive \<longleftrightarrow> dvr_status r = ''active''"
  by (auto simp: row_to_device_def res_simps device_status_from_db_def split: if_splits)


lemma activation_runs:
  "is_ok (fst (activate_device user1_crates sample_config user_headers
     \<lparr> ad_name = ''n'', ad_fingerprint = ''g'' \<rparr> shop_world))"
  by code_simp


section \<open>Leases\<close>

lemma first_sorted:
  assumes "first (sort_key f xs) = Some y"
  shows "y \<in> set xs"
proof -
  obtain ys where "sort_key f xs = y # ys" using assms by (auto simp: first_Some)
  then have "y \<in> set (sort_key f xs)" by simp
  then show ?thesis by simp
qed

lemma backed_entitlement_member:
  "best_active u now d = Some (e, k) \<Longrightarrow>
     e \<in> set (db_entitlements d) \<and> active_for u now e \<and> k \<in> set (db_card_keys d)"
  unfolding best_active_def by (drule first_sorted) (auto simp: backed_entitlements_def)

lemma active_entitlement_Inr:
  assumes "find_active_entitlement_for_user i w = (Inr (Some e), v)"
  shows "w_db v = w_db w \<and> (\<exists>now r card. best_active (user_uuid i) now (w_db w) = Some (r, card)
    \<and> row_to_entitlement r = Inr e)"
  using assms
  by (fastforce simp: find_active_entitlement_for_user_def store_inv transpose_map_def
      split: option.splits sum.splits)

lemma find_active_device_Inr:
  assumes "find_active_device i u w = (Inr (Some d), v)"
  shows "v = w \<and> dev_id d = i \<and> (\<exists>r \<in> set (db_devices (w_db w)). dvr_id r = device_uuid i
    \<and> dvr_user_id r = user_uuid u \<and> dvr_status r = ''active'')"
  using assms
  by (cases i) (fastforce simp: find_active_device_def fetch_optional_Inr transpose_map_def row_to_device_def
      res_simps split: option.splits sum.splits dest!: find_set)

lemma touch_device_Inr:
  assumes "touch_device_last_seen i t w = (Inr (), v)"
  shows "\<exists>rows. w_db v = put_devices rows (w_db w)
    \<and> (\<forall>u. active_count u rows = active_count u (db_devices (w_db w)))"
proof -
  let ?f = "\<lambda>r. r\<lparr> dvr_last_seen_at := Some t \<rparr>"
  let ?rows = "map (\<lambda>r. if dvr_id r = device_uuid i then ?f r else r) (db_devices (w_db w))"
  have "active_count u (map (\<lambda>r. if dvr_id r = device_uuid i then ?f r else r) rows) = active_count u rows"
    for u rows by (induction rows) simp_all
  moreover have "w_db v = put_devices ?rows (w_db w)"
    using assms by (auto simp: touch_device_last_seen_def store_inv sql_touch_device_def
        dest!: update_checked_Inr)
  ultimately show ?thesis by (intro exI [of _ ?rows]) simp
qed

lemma fleet_limit_Inr:
  assumes "enforce_device_limit_for_lease i w = (Inr (), v)"
  shows "w_db v = w_db w \<and> (\<exists>now e card. best_active (user_uuid i) now (w_db w) = Some (e, card)
    \<and> int (length (active_devices (user_uuid i) (w_db w))) \<le> cr_max_devices card)"
  using assms
  by (fastforce simp: enforce_device_limit_for_lease_def count_active_devices_for_user_def
      run_inv require_Inr require_some_Inr query_Inr device_limit_allows_active_fleet_def
      dest!: card_limit_Inr)

lemma lease_payload_claims:
  "lease_claims_of l = lease_claims_of k \<Longrightarrow>
     lease_signing_payload x l issuer audience = lease_signing_payload x k issuer audience"
  by (simp add: lease_signing_payload_def)

lemma sign_lease_Inr:
  assumes "sign_entitlement_lease x c l w = (Inr k, v)"
  shows "w_db v = w_db w \<and> (\<exists>pem key r. cfg_lease_signing_private_key_pem c = Some pem
    \<and> rsa_private_key x pem = Some key
    \<and> k = l\<lparr> lease_signature := Some \<lparr> sig_alg = ''RS256'', sig_kid = cfg_lease_signing_key_id c,
        sig_issuer = cfg_lease_issuer c, sig_audience = cfg_lease_audience c,
        sig_value = x_base64_encode x (x_rsa_sign x key r
          (lease_signing_payload x l (cfg_lease_issuer c) (cfg_lease_audience c))) \<rparr> \<rparr>)"
  using assms by (fastforce simp: sign_entitlement_lease_def run_inv os_random_Inr ok_or_Inr
      split: option.splits)


lemma lease_runs:
  "case fst (issue_lease user1_crates sample_config user_headers 30 shop_world) of
     Inl _ \<Rightarrow> False | Inr l \<Rightarrow> OzonRead \<in> set (lease_features l)"
  by code_simp


end
