(* ===== verification/CloudServed.thy ===== *)
theory CloudServed
  imports CloudSamples
begin

text \<open>
  What holds of the database whatever the server (\<open>apps/cloud-api/src/main.rs\<close>) has been asked:
  every row decodes, entitlements are backed by redeemed card keys, confirmed orders are exactly
  the orders with a card key, rows only move along their life cycle; and a request of the
  administrator, of a payment provider or to redeem a key that fails changes nothing.
\<close>

section \<open>Handlers that change nothing when they fail\<close>

interpretation frame: db_relation "(=)"
  by unfold_locales simp_all

definition atomic :: "'a handler \<Rightarrow> bool" where
  "atomic m \<longleftrightarrow> (\<forall>w. is_ok (fst (m w)) \<or> w_db (snd (m w)) = w_db w)"

named_theorems atomic_intros "handlers that change nothing when they fail"

lemma atomic_frame: "keeps (on_db (=)) m \<Longrightarrow> atomic m"
  by (simp add: atomic_def keeps_def on_db_def)

lemma atomic_transaction [atomic_intros]: "atomic (transaction m)"
  by (auto simp: atomic_def transaction_def split: prod.split sum.split)

lemma atomic_after [atomic_intros]:
  "keeps (on_db (=)) m \<Longrightarrow> (\<And>a. atomic (f a)) \<Longrightarrow> atomic (andthen m f)"
  by (auto simp: atomic_def keeps_def on_db_def andthen_run split: sum.split) (metis)+

lemma atomic_before [atomic_intros]: "atomic m \<Longrightarrow> atomic (andthen m (\<lambda>a. ret (f a)))"
  by (auto simp: atomic_def andthen_run act_simps split: sum.split) (metis is_ok_simps)

lemma atomic_if [atomic_intros]: "atomic m \<Longrightarrow> atomic n \<Longrightarrow> atomic (if b then m else n)"
  by simp

lemma atomic_let [atomic_intros]: "atomic (f a) \<Longrightarrow> atomic (let v = a in f v)"
  by simp

lemma atomic_reply [atomic_intros]: "atomic m \<Longrightarrow> atomic (reply f m)"
  unfolding reply_def by (rule atomic_before)

lemma frame_guards:
  "keeps (on_db (=)) (require_user x c h)" "keeps (on_db (=)) (require_admin x c h)"
  unfolding require_admin_def require_user_def
  by (intro keeps_intros)+

lemma frame_signature: "keeps (on_db (=)) (verify_stripe_signature x header text secret)"
  unfolding verify_stripe_signature_def by (intro keeps_intros)

lemma atomic_admin:
  "atomic (confirm_order x c h i)" "atomic (confirm_order_by_reference x c h rf)"
  "atomic (create_card_keys x c h keys)" "atomic (revoke_entitlement x c h i)"
  "atomic (redeem_card_key x c h k)"
  unfolding confirm_order_def confirm_order_by_reference_def create_card_keys_def
    revoke_entitlement_def redeem_card_key_def
  by (intro atomic_intros frame_guards keeps_intros)+

lemma atomic_stripe: "atomic (stripe_webhook x c h text)"
  unfolding stripe_webhook_def record_ignored_stripe_event_def fulfill_stripe_checkout_session_def
  by (intro atomic_after frame_signature keeps_intros atomic_let atomic_before atomic_if
      atomic_transaction)

lemma atomic_wechat: "atomic (wechatpay_webhook x c h text)"
  unfolding wechatpay_webhook_def process_wechatpay_transaction_def
  by (intro atomic_after keeps_intros atomic_let atomic_before atomic_if atomic_transaction)

lemma atomic_reads:
  "atomic (get_order x c h i)" "atomic (audit_log x c h)"
proof -
  have "keeps (on_db (=)) (create_wechat_native_prepay x c ord plan)" for ord plan
    unfolding create_wechat_native_prepay_def wechatpay_authorization_def sign_wechat_message_def
      random_nonce_def
    by (intro keeps_intros)
  then have "keeps (on_db (=)) (get_order x c h i)"
    unfolding get_order_def find_order_by_id_def by (intro keeps_intros frame_guards)
  then show "atomic (get_order x c h i)" by (rule atomic_frame)
  have "keeps (on_db (=)) (audit_log x c h)"
    unfolding audit_log_def list_audit_events_def by (intro keeps_intros frame_guards)
  then show "atomic (audit_log x c h)" by (rule atomic_frame)
qed

text \<open>The requests that run one transaction, or none.\<close>

fun all_or_nothing :: "request \<Rightarrow> bool" where
  "all_or_nothing (PostConfirmOrder i) = True"
| "all_or_nothing (PostConfirmOrderByReference r) = True"
| "all_or_nothing (PostCardKeys r) = True"
| "all_or_nothing (PostRedeem k) = True"
| "all_or_nothing (PostRevoke i) = True"
| "all_or_nothing (PostStripeWebhook t) = True"
| "all_or_nothing (PostWechatWebhook t) = True"
| "all_or_nothing (GetOrder i) = True"
| "all_or_nothing GetAudit = True"
| "all_or_nothing _ = False"

text \<open>C17: a confirmation, a generation of card keys, a redemption, a revocation or a payment
  webhook that answers with an error has changed no table at all.\<close>

theorem failed_request_changes_nothing:
  assumes "all_or_nothing r" and "serve x c h r w = (Inl e, v)"
  shows "w_db v = w_db w"
proof -
  have "atomic (serve x c h r)"
    using assms(1)
    by (cases r) (simp_all add: atomic_reply atomic_admin atomic_stripe atomic_wechat atomic_reads)
  with assms(2) show ?thesis unfolding atomic_def by (metis fst_conv is_ok_simps(1) snd_conv)
qed

lemma failing_revocation:
  "fst (serve toy_crates sample_config admin_headers (PostRevoke 7) shop_world)
     = Inl (not_found ''entitlement not found'')"
  by code_simp

lemma failed_request_changes_nothing_witness:
  "w_db (snd (serve toy_crates sample_config admin_headers (PostRevoke 7) shop_world)) = sample_db"
proof -
  have "serve toy_crates sample_config admin_headers (PostRevoke 7) shop_world
      = (Inl (not_found ''entitlement not found''),
         snd (serve toy_crates sample_config admin_headers (PostRevoke 7) shop_world))"
    using failing_revocation by (simp add: prod_eq_iff)
  from failed_request_changes_nothing [OF _ this] show ?thesis by (simp add: shop_db)
qed

section \<open>Administration\<close>

fun for_admins :: "request \<Rightarrow> bool" where
  "for_admins (PostConfirmOrder i) = True"
| "for_admins (PostConfirmOrderByReference r) = True"
| "for_admins (PostCardKeys r) = True"
| "for_admins (PostRevoke i) = True"
| "for_admins GetAudit = True"
| "for_admins _ = False"

lemma require_admin_refuses:
  assumes "\<not> admin_token_matches c h"
    and "\<forall>claims. fst (require_user x c h w) = Inr claims \<longrightarrow> ac_role claims \<noteq> AdminRole"
  shows "\<exists>e v. require_admin x c h w = (Inl e, v) \<and> w_db v = w_db w"
proof (cases "require_user x c h w")
  case (Pair r v)
  have "w_db v = w_db w" using frame_guards(1) [of x c h] Pair
    by (simp add: keeps_def on_db_def) (metis snd_conv)
  with Pair assms show ?thesis
    by (cases r) (auto simp: require_admin_def andthen_def throw_def)
qed

lemma refused: "m w = (Inl e, v) \<Longrightarrow> reply g (andthen m f) w = (Inl e, v)"
  by (simp add: reply_def andthen_def)

text \<open>C30: without the administrator's token, and without a valid bearer token of a user whose role
  is admin, no administrative request succeeds or changes the database.\<close>

theorem admin_requests_need_admin:
  assumes "for_admins r" and "\<not> admin_token_matches c h"
    and "\<forall>claims. fst (require_user x c h w) = Inr claims \<longrightarrow> ac_role claims \<noteq> AdminRole"
  shows "\<not> is_ok (fst (serve x c h r w)) \<and> w_db (snd (serve x c h r w)) = w_db w"
proof -
  obtain e v where a: "require_admin x c h w = (Inl e, v)" "w_db v = w_db w"
    using require_admin_refuses [OF assms(2,3)] by blast
  have "serve x c h r w = (Inl e, v)"
    using assms(1)
    by (cases r) (simp_all add: confirm_order_def confirm_order_by_reference_def
        create_card_keys_def revoke_entitlement_def audit_log_def refused [of "require_admin x c h", OF a(1)])
  with a(2) show ?thesis by simp
qed

lemma admin_requests_need_admin_witness:
  "\<not> is_ok (fst (serve toy_crates sample_config (\<lambda>_. None) GetAudit shop_world))"
  using admin_requests_need_admin [of GetAudit sample_config "\<lambda>_. None" toy_crates shop_world]
  by (simp add: admin_token_matches_def require_user_def act_simps)

section \<open>Every reachable database\<close>

text \<open>A consistent database: the keys and references are in order, the confirmed orders are the
  ones with a card key, and every entitlement is backed. The empty database is one, and so is
  every database the server makes of one.\<close>

definition consistent :: "database \<Rightarrow> bool" where
  "consistent d \<longleftrightarrow> settled d \<and> backed d"

lemma consistent_empty: "consistent empty_database"
  using settled_empty by (simp add: consistent_def backed_def empty_database_def)

lemma consistent_served:
  assumes "consistent (w_db v)" "(serve_step x)\<^sup>*\<^sup>* v w"
  shows "consistent (w_db w)"
  using assms settling.serve_steps_keep [OF assms(2)] backing.serve_steps_keep [OF assms(2)]
  by (simp add: consistent_def keeps_settled_def keeps_backed_def)

lemma consistent_integrity: "consistent d \<Longrightarrow> integrity d"
  by (simp add: consistent_def settled_def)

lemma served_consistent: "served x w \<Longrightarrow> consistent (w_db w)"
  using served_settled served_backed by (simp add: consistent_def)

lemma consistent_sample: "consistent sample_db"
  using sample_settled by (simp add: consistent_def backed_def backs_def sample_rows)

lemma revoked_world:
  "(serve_step toy_crates)\<^sup>*\<^sup>* shop_world
     (snd (serve toy_crates sample_config admin_headers (PostRevoke 40) shop_world))"
  by (rule r_into_rtranclp) (rule serve_step.intros)

text \<open>C36: every order, card key, device and entitlement in a database the server reaches decodes
  again: its status, provider and feature names are known and its numbers fit the types they
  are read into, so no query answers with a decoding error on these tables.\<close>

theorem served_rows_decode:
  assumes "consistent (w_db v)" and "(serve_step x)\<^sup>*\<^sup>* v w"
  shows "(\<forall>r \<in> set (db_orders (w_db w)). is_ok (row_to_order r))
    \<and> (\<forall>r \<in> set (db_card_keys (w_db w)). is_ok (row_to_card_key r))
    \<and> (\<forall>r \<in> set (db_devices (w_db w)). is_ok (row_to_device r))
    \<and> (\<forall>r \<in> set (db_entitlements (w_db w)). is_ok (row_to_entitlement r))"
  using rows_decode [OF consistent_integrity [OF consistent_served [OF assms]]] by blast

lemma served_rows_decode_witness:
  "is_ok (row_to_order (hd sample_orders)) \<and> is_ok (row_to_card_key (hd sample_card_keys))"
proof -
  have c: "consistent (w_db shop_world)" by (simp add: shop_db consistent_sample)
  have "hd sample_orders \<in> set (db_orders (w_db shop_world))"
    "hd sample_card_keys \<in> set (db_card_keys (w_db shop_world))"
    by (simp_all add: shop_db sample_rows)
  with served_rows_decode [OF c rtranclp.rtrancl_refl] show ?thesis by blast
qed

text \<open>C3: every entitlement in a database the server reaches stems from a card key that is
  redeemed, by the user the entitlement belongs to, and no two entitlements stem from one key.\<close>

theorem served_entitlements_backed:
  assumes "consistent (w_db v)" and "(serve_step x)\<^sup>*\<^sup>* v w" and "e \<in> set (db_entitlements (w_db w))"
  shows "(\<exists>c \<in> set (db_card_keys (w_db w)). cr_id c = er_source_card_key_id e
       \<and> cr_status c = ''redeemed'' \<and> cr_redeemed_by c = Some (er_user_id e))
    \<and> (\<forall>f \<in> set (db_entitlements (w_db w)).
         er_source_card_key_id f = er_source_card_key_id e \<longrightarrow> f = e)"
proof -
  note c = consistent_served [OF assms(1,2)]
  have "unique er_source_card_key_id (db_entitlements (w_db w))"
    using consistent_integrity [OF c] by (simp add: integrity_def entitlements_ok_def)
  then have "f = e" if "f \<in> set (db_entitlements (w_db w))"
    "er_source_card_key_id f = er_source_card_key_id e" for f
    using unique_row that assms(3) by metis
  moreover have "\<exists>c \<in> set (db_card_keys (w_db w)). backs c e"
    using c assms(3) by (simp add: consistent_def backed_def)
  ultimately show ?thesis unfolding backs_def by blast
qed

lemma served_entitlements_backed_witness:
  "\<exists>e \<in> set (db_entitlements sample_db). \<exists>c \<in> set (db_card_keys sample_db). cr_status c = ''redeemed''"
proof -
  obtain e where e: "e \<in> set (db_entitlements (w_db shop_world))"
    by (simp add: shop_db sample_db_def)
  have "consistent (w_db shop_world)" by (simp add: shop_db consistent_sample)
  from served_entitlements_backed [OF this rtranclp.rtrancl_refl e] e show ?thesis
    unfolding shop_db by blast
qed

text \<open>C2: in every database the server reaches an order is confirmed exactly when a card key was
  made for it, and then exactly one.\<close>

theorem served_orders_settled:
  assumes "consistent (w_db v)" and "(serve_step x)\<^sup>*\<^sup>* v w" and "r \<in> set (db_orders (w_db w))"
  shows "(or_status r = ''confirmed'' \<longleftrightarrow> (\<exists>c \<in> set (db_card_keys (w_db w)). cr_order_id c = Some (or_id r)))
    \<and> (\<forall>c \<in> set (db_card_keys (w_db w)). \<forall>k \<in> set (db_card_keys (w_db w)).
         cr_order_id c = Some (or_id r) \<longrightarrow> cr_order_id k = Some (or_id r) \<longrightarrow> k = c)"
proof -
  note c = consistent_served [OF assms(1,2)]
  have "(or_id r, or_status r) \<in> order_states (w_db w)" using assms(3) by (simp add: order_states_def)
  then have "or_status r = ''confirmed'' \<longleftrightarrow> or_id r \<in> keyed_orders (w_db w)"
    using c unfolding consistent_def settled_def by blast
  then have "or_status r = ''confirmed'' \<longleftrightarrow> (\<exists>c \<in> set (db_card_keys (w_db w)). cr_order_id c = Some (or_id r))"
    by (force simp: keyed_orders_def image_iff)
  moreover have "unique_opt cr_order_id (db_card_keys (w_db w))"
    using consistent_integrity [OF c] by (simp add: integrity_def card_keys_ok_def)
  ultimately show ?thesis using unique_opt_row by metis
qed

lemma served_orders_settled_witness:
  "\<exists>r \<in> set (db_orders sample_db). or_status r \<noteq> ''confirmed''
     \<and> \<not> (\<exists>c \<in> set (db_card_keys sample_db). cr_order_id c = Some (or_id r))"
proof -
  have r: "hd sample_orders \<in> set (db_orders (w_db shop_world))" "or_status (hd sample_orders) \<noteq> ''confirmed''"
    by (simp_all add: shop_db sample_rows)
  have "consistent (w_db shop_world)" by (simp add: shop_db consistent_sample)
  from served_orders_settled [OF this rtranclp.rtrancl_refl r(1)] r show ?thesis
    unfolding shop_db by blast
qed



end
