(* ===== verification/CloudCharges.thy ===== *)
theory CloudCharges
  imports CloudRedemption CloudServed
begin

text \<open>
  Payments (\<open>apps/cloud-api/src/main.rs\<close>): which Stripe signatures are accepted, what a fulfilled
  checkout session or WeChat transaction must match and what it does to the database, repeated
  events, and the orders that cannot be placed.
\<close>

section \<open>What a payment does\<close>

text \<open>The order is confirmed, every other order stays, and one entitlement of 30 days is added
  for its user and plan.\<close>

definition paid_and_granted :: "order_row \<Rightarrow> database \<Rightarrow> database \<Rightarrow> bool" where
  "paid_and_granted r d e \<longleftrightarrow> r \<in> set (db_orders d) \<and> or_status r = ''pending_provider_payment'' \<and>
     (\<exists>intent paid_at at row.
        db_orders e = map (\<lambda>s. if s = r then (confirmed_row paid_at r)\<lparr>or_payment_intent_id := intent\<rparr> else s)
          (db_orders d)
        \<and> db_entitlements e = db_entitlements d @ [row]
        \<and> er_user_id row = or_user_id r \<and> er_tenant_id row = or_tenant_id r
        \<and> er_plan_code row = or_plan_code r \<and> er_revoked_at row = None
        \<and> er_expires_at row = at + days 30)"

lemma generate_card_key_Inr:
  assumes "generate_card_key x plan tenant n k w = (Inr g, v)"
  shows "w_db v = w_db w" "ck_duration_days (gk_card_key g) = n" "ck_plan_code (gk_card_key g) = plan"
    "ck_status (gk_card_key g) = CardAvailable"
  using assms by (auto simp: generate_card_key_def hash_password_def run_inv ambient_inv Let_def ok_or_Inr)

lemma insert_card_key_Inr:
  "insert_card_key c i w = (Inr u, v) \<Longrightarrow>
     w_db v = w_db w\<lparr>db_card_keys := db_card_keys (w_db w) @ [card_key_row_of c i]\<rparr>"
  by (auto simp: insert_card_key_def store_inv sql_insert_card_key_def insert_checked_Inr)

lemma provision_Inr:
  assumes "provision_paid_order_entitlement x ord actor summary w = (Inr e, v)"
  shows "db_orders (w_db v) = db_orders (w_db w) \<and> db_entitlements (w_db v) = db_entitlements (w_db w) @ [entitlement_row_of e]
    \<and> ent_user_id e = ord_user_id ord \<and> ent_tenant_id e = ord_tenant_id ord
    \<and> ent_plan_code e = ord_plan_code ord \<and> ent_revoked_at e = None
    \<and> (\<exists>at. ent_expires_at e = at + days 30)"
proof -
  obtain g w1 w2 at w3 w4 i w5 w6 where
    g: "generate_card_key x (ord_plan_code ord) (ord_tenant_id ord) 30 1 w = (Inr g, w1)"
    and c: "insert_card_key (gk_card_key g) (Some (ord_id ord)) w1 = (Inr (), w2)"
    and t: "utc_now w2 = (Inr at :: api_error + instant, w3)"
    and m: "mark_card_key_redeemed (ck_id (gk_card_key g)) (ord_user_id ord) at w3 = (Inr (), w4)"
    and n: "new_v4 w4 = (Inr i :: api_error + uuid, w5)"
    and e: "e = granted i (ord_tenant_id ord) (ord_user_id ord) (ord_plan_code ord)
                 (ck_id (gk_card_key g)) at 30"
    and ins: "insert_entitlement e w5 = (Inr (), w6)"
    and a: "record_audit (Some (ord_tenant_id ord)) actor ''order.entitlement_activated''
       (debug_order_id x (ord_id ord)) summary w6 = (Inr (), v)"
    using assms unfolding provision_paid_order_entitlement_def Let_def
    by (clarsimp simp: run_inv fulfillment_terms_for_plan_def split: if_splits)
  obtain b where b: "w_db v = w_db w6\<lparr>db_audit_events := db_audit_events (w_db w6) @ [b]\<rparr>"
    using record_audit_Inr [OF a] by blast
  show ?thesis
    using generate_card_key_Inr [OF g] insert_card_key_Inr [OF c] t mark_redeemed_Inr [OF m] n
      insert_entitlement_Inr [OF ins] b
    by (auto simp: utc_now_Inr new_v4_Inr put_defs e granted_def)
qed

lemma confirm_provider_Inr:
  assumes "confirm_provider_order i intent t w = (Inr ord, v)" and "integrity (w_db w)"
    and "r \<in> set (db_orders (w_db w))" "or_id r = order_uuid i"
  shows "or_status r = ''pending_provider_payment''"
    and "w_db v = put_orders (map (\<lambda>s. if s = r then (confirmed_row t r)\<lparr>or_payment_intent_id := intent\<rparr> else s)
      (db_orders (w_db w))) (w_db w)"
    and "row_to_order ((confirmed_row t r)\<lparr>or_payment_intent_id := intent\<rparr>) = Inr ord"
proof -
  let ?f = "\<lambda>r. (confirmed_row t r)\<lparr>or_payment_intent_id := intent\<rparr>"
  let ?P = "\<lambda>r. or_id r = order_uuid i \<and> or_status r = ''pending_provider_payment''"
  obtain rows d r' where m: "sql_confirm_provider (order_uuid i) intent t (w_db w) = (Inr rows, d)"
    "v = w\<lparr>w_db := d\<rparr>" and f: "first rows = Some r'" "row_to_order r' = Inr ord"
    using assms(1) by (auto simp: confirm_provider_order_def execute_optional_def store_inv
        transpose_map_Inr_Some)
  have u: "rows = map ?f (filter ?P (db_orders (w_db w)))"
    "d = put_orders (map (\<lambda>r. if ?P r then ?f r else r) (db_orders (w_db w))) (w_db w)"
    using update_checked_Inr [OF m(1) [unfolded sql_confirm_provider_def]] by simp_all
  have ids: "unique or_id (db_orders (w_db w))" using assms(2) by (simp add: integrity_def orders_ok_def)
  have only: "s = r" if "s \<in> set (db_orders (w_db w))" "?P s" for s
    using unique_row [OF ids that(1) assms(3)] that(2) assms(4) by simp
  have "r' \<in> set rows" using f(1) by (auto simp: first_Some)
  then obtain s where s: "s \<in> set (db_orders (w_db w))" "?P s" "r' = ?f s" unfolding u(1) by auto
  then have sr: "s = r" using only by blast
  show "or_status r = ''pending_provider_payment''" using s sr by simp
  show "row_to_order (?f r) = Inr ord" using f(2) s(3) sr by simp
  have "?P y \<longleftrightarrow> y = r" if "y \<in> set (db_orders (w_db w))" for y using only that s sr by blast
  then have same: "map (\<lambda>r. if ?P r then ?f r else r) (db_orders (w_db w))
      = map (\<lambda>y. if y = r then ?f r else y) (db_orders (w_db w))" by (intro map_cong) auto
  have "w_db v = d" using m(2) by simp
  then show "w_db v = put_orders (map (\<lambda>y. if y = r then ?f r else y) (db_orders (w_db w))) (w_db w)"
    by (simp only: u(2) same)
qed

text \<open>The common end of both webhooks.\<close>

lemma confirm_and_provision:
  assumes "confirm_provider_order i intent t w = (Inr ord, v)" and "integrity (w_db w)"
    and "r \<in> set (db_orders (w_db w))" "or_id r = order_uuid i"
    and "provision_paid_order_entitlement x ord actor summary v = (Inr e, u)"
  shows "paid_and_granted r (w_db w) (w_db u)"
proof -
  note c = confirm_provider_Inr [OF assms(1-4)]
  have "(confirmed_row t r)\<lparr>or_payment_intent_id := intent\<rparr> = order_row_of ord"
    using order_row_decoded [OF c(3)] .
  then have ord: "or_user_id r = user_uuid (ord_user_id ord)" "or_tenant_id r = tenant_uuid (ord_tenant_id ord)"
    "or_plan_code r = plan_str (ord_plan_code ord)"
    by (cases r; simp add: confirmed_row_def order_row_of_def)+
  show ?thesis
    using provision_Inr [OF assms(5)] c(1,2) assms(3) ord unfolding paid_and_granted_def
    by (auto simp: put_defs entitlement_row_of_def)
qed

section \<open>Stripe\<close>

lemma insert_event_Inr:
  assumes "insert_payment_event p ev kind i hash w = (Inr b, v)"
  shows "(\<forall>e \<in> set (db_payment_events (w_db w)).
       \<not> (pr_provider e = payment_provider_to_db p \<and> pr_event_id e = ev)) = b"
    and "db_orders (w_db v) = db_orders (w_db w)" "db_entitlements (w_db v) = db_entitlements (w_db w)"
    and "\<not> b \<Longrightarrow> w_db v = w_db w"
  using assms
  by (auto simp: insert_payment_event_def store_inv sql_insert_payment_event_def fresh_in_def
      image_iff split: if_splits)

lemma insert_event_integrity:
  "insert_payment_event p ev kind i hash w = (r, v) \<Longrightarrow> integrity (w_db w) \<Longrightarrow> integrity (w_db v)"
  using schema.keeps_orders(6) [of p ev kind i hash]
  by (simp add: keeps_def on_db_def keeps_integrity_def) (metis snd_conv)

lemma find_order_Inr:
  assumes "find_order_by_id_for_update i w = (Inr (Some ord), v)"
  shows "v = w \<and> (\<exists>r \<in> set (db_orders (w_db w)). or_id r = order_uuid i \<and> r = order_row_of ord)"
  using assms
  by (auto simp: find_order_by_id_for_update_def fetch_optional_Inr transpose_map_Inr_Some
      order_row_by_id_def dest!: find_set order_row_decoded)


definition paid_session :: stripe_checkout_session_object where
  "paid_session =
     \<lparr> ss_id = ''cs_1'', ss_client_reference_id = Some ''xi'', ss_metadata = None,
       ss_payment_status = Some ''paid'', ss_amount_total = Some 4000, ss_currency = Some ''CNY'',
       ss_payment_intent = None \<rparr>"

definition stripe_event :: stripe_webhook_event where
  "stripe_event = \<lparr> se_id = ''e'', se_kind = ''k'', se_object = JNull \<rparr>"

lemma stripe_runs:
  "fst (fulfill_stripe_checkout_session user1_crates stripe_event paid_session ''h'' shop_world) = Inr True"
  by code_simp


text \<open>A repeated event inserts no row.\<close>

lemma repeated_event:
  assumes "e \<in> set (db_payment_events (w_db w))" "pr_provider e = payment_provider_to_db p" "pr_event_id e = ev"
    and "p \<noteq> Manual"
  shows "insert_payment_event p ev kind i hash w = (Inr False, w\<lparr>clock_n := Suc (clock_n w)\<rparr>)"
proof -
  have "(payment_provider_to_db p, ev) \<in> (\<lambda>x. (pr_provider x, pr_event_id x)) ` set (db_payment_events (w_db w))"
    using assms(1-3) by (metis (mono_tags, lifting) image_eqI)
  then show ?thesis using assms(4)
    by (cases p) (simp_all add: insert_payment_event_def act_simps execute_def
        sql_insert_payment_event_def fresh_in_def)
qed

text \<open>An event of a Stripe session that was received before is never fulfilled again and
  changes nothing, whatever it says now.\<close>

lemma stripe_replay_changes_nothing:
  assumes "e \<in> set (db_payment_events (w_db w))" "pr_provider e = ''stripe''" "pr_event_id e = se_id ev"
  shows "fst (fulfill_stripe_checkout_session x ev s hash w) \<noteq> Inr True
    \<and> w_db (snd (fulfill_stripe_checkout_session x ev s hash w)) = w_db w"
proof -
  have "insert_payment_event Stripe (se_id ev) kind i hash w = (Inr False, w\<lparr>clock_n := Suc (clock_n w)\<rparr>)"
    for kind i using repeated_event [of e w Stripe] assms by simp
  then show ?thesis
    by (auto simp: fulfill_stripe_checkout_session_def record_ignored_stripe_event_def act_simps
        transaction_def Let_def split: sum.split)
qed

definition seen_event :: payment_event_row where
  "seen_event = \<lparr> pr_provider = ''stripe'', pr_event_id = ''e'', pr_event_type = ''k'',
     pr_order_id = None, pr_payload_hash = ''h'', pr_received_at = 0 \<rparr>"

lemma stripe_replay_changes_nothing_witness:
  "fst (fulfill_stripe_checkout_session user1_crates stripe_event paid_session ''h''
     (shop_world\<lparr>w_db := sample_db\<lparr>db_payment_events := [seen_event]\<rparr>\<rparr>)) \<noteq> Inr True"
  by (rule stripe_replay_changes_nothing [of seen_event, THEN conjunct1])
    (simp_all add: stripe_event_def seen_event_def)

text \<open>A paid session of an order the database does not have is answered with the internal
  error of the failed reference, not with the 404 of the handler: the event is inserted
  first, and its row refers to the order.\<close>

lemma stripe_unknown_order:
  assumes "ss_payment_status s = Some ''paid''" and "stripe_session_order_id x s = Inr i"
    and "order_uuid i \<notin> or_id ` set (db_orders (w_db w))"
    and "\<not> (\<exists>e \<in> set (db_payment_events (w_db w)). pr_provider e = ''stripe'' \<and> pr_event_id e = se_id ev)"
  shows "fst (fulfill_stripe_checkout_session x ev s hash w)
    = Inl (db_internal (Violates ''payment_events_order_id_fkey''))"
proof -
  have "(''stripe'', se_id ev) \<notin> (\<lambda>x. (pr_provider x, pr_event_id x)) ` set (db_payment_events (w_db w))"
    using assms(4) by force
  then have "fst (insert_payment_event Stripe (se_id ev) (se_kind ev) (Some i) hash w)
      = Inl (db_internal (Violates ''payment_events_order_id_fkey''))"
    using assms(3) by (simp add: insert_payment_event_def act_simps execute_def
        sql_insert_payment_event_def fresh_in_def refers_opt_def refers_def)
  then show ?thesis using assms(1,2)
    by (simp add: fulfill_stripe_checkout_session_def act_simps transaction_def Let_def
        split: prod.split)
qed

lemma stripe_unknown_order_witness:
  "fst (fulfill_stripe_checkout_session user1_crates stripe_event
     (paid_session\<lparr>ss_client_reference_id := Some ''ii''\<rparr>) ''h'' shop_world)
   = Inl (db_internal (Violates ''payment_events_order_id_fkey''))"
  by (rule stripe_unknown_order [of _ _ "OrderId 2"])
    (simp_all add: paid_session_def stripe_session_order_id_def user1_crates_def crates_for_def
      toy_crates_def toy_uuid_parse_def shop_db sample_rows or_else_def)

section \<open>WeChat Pay\<close>

lemma find_reference_Inr:
  assumes "find_provider_order_by_reference_for_update p rf w = (Inr (Some ord), v)"
  shows "v = w \<and> (\<exists>r \<in> set (db_orders (w_db w)). or_payment_reference r = rf
    \<and> or_payment_provider r = payment_provider_to_db p \<and> r = order_row_of ord)"
  using assms
  by (auto simp: find_provider_order_by_reference_for_update_def fetch_optional_Inr transpose_map_Inr_Some
      dest!: find_set order_row_decoded)


definition wechat_event :: wechat_pay_webhook_event where
  "wechat_event = \<lparr> we_id = ''e'', we_event_type = ''TRANSACTION.SUCCESS'', we_resource =
     \<lparr> wr_algorithm = [], wr_ciphertext = [], wr_nonce = [], wr_associated_data = None \<rparr> \<rparr>"

definition wechat_payment :: wechat_pay_transaction where
  "wechat_payment = \<lparr> wt_appid = ''app'', wt_mchid = ''mch'', wt_out_trade_no = ''wx'',
     wt_transaction_id = None, wt_trade_type = Some ''NATIVE'', wt_trade_state = ''SUCCESS'',
     wt_success_time = None, wt_amount = \<lparr> wa_total = 4000, wa_currency = None \<rparr> \<rparr>"

lemma wechat_runs:
  "fst (process_wechatpay_transaction user1_crates sample_config wechat_event wechat_payment [] shop_world)
   = Inr True"
  by code_simp


lemma upper_not_lower: "\<not> is_ascii_lower (upper_char a)"
  using code_upper_char [of a] by (auto simp: is_ascii_lower_def split: if_splits)

text \<open>Handlers that always fail.\<close>

definition fails :: "'a handler \<Rightarrow> bool" where
  "fails m \<longleftrightarrow> (\<forall>w. \<not> is_ok (fst (m w)) \<and> w_db (snd (m w)) = w_db w)"

lemma fails_before: "fails m \<Longrightarrow> fails (andthen m f)"
  by (auto simp: fails_def andthen_run split: sum.split) (metis is_ok_simps(2))+

lemma fails_after: "keeps (on_db (=)) m \<Longrightarrow> (\<And>a. fails (f a)) \<Longrightarrow> fails (andthen m f)"
  by (auto simp: fails_def keeps_def on_db_def andthen_run split: sum.split)

lemma fails_lift: "(\<And>a. r = Inr a \<Longrightarrow> fails (f a)) \<Longrightarrow> fails (andthen (lift r) f)"
  by (cases r) (simp_all add: fails_def act_simps)

lemma fails_transaction: "fails m \<Longrightarrow> fails (transaction m)"
  by (auto simp: fails_def transaction_def split: prod.split sum.split) (metis fst_conv is_ok_simps(2))

lemma fails_insert_order:
  assumes "\<not> currency_code (ord_currency ord)"
  shows "fails (insert_order ord)"
proof -
  have "violation (order_checks d rows (order_row_of ord)) \<noteq> None" for d rows
    using assms unfolding violation_None by (simp add: order_checks_def order_row_of_def)
  then show ?thesis
    by (auto simp: fails_def insert_order_def execute_def sql_insert_order_def insert_checked_def
        map_error_def split: option.split)
qed

text \<open>C37: with WeChat Pay configured no order can be placed: the plan's currency is upper-cased,
  and the table only takes three lower-case letters, so the insertion fails and the request is
  answered with an error, whoever asks and whatever the configured currency is.\<close>

theorem wechat_orders_fail:
  assumes "cfg_payment_provider c = ConfiguredWechatPay"
  shows "\<not> is_ok (fst (create_order x c h plan w)) \<and> w_db (snd (create_order x c h plan w)) = w_db w"
proof -
  have upper: "\<not> currency_code (pd_currency p)" if "plan_definition c plan = Inr p" for p
  proof -
    have "pd_currency p = map upper_char (trim (cfg_wechat_currency c))"
      using that assms by (auto simp: plan_definition_def to_uppercase_def Let_def split: if_splits)
    then show ?thesis
      by (cases "trim (cfg_wechat_currency c)") (auto simp: currency_code_def upper_not_lower)
  qed
  have "fails (create_order x c h plan)"
    unfolding create_order_def Let_def initial_reference_def
    by (intro fails_after [OF frame_guards(1)] fails_lift fails_before fails_transaction
        fails_insert_order fails_after keeps_intros) (simp add: upper)
  then show ?thesis by (simp add: fails_def)
qed

lemma wechat_orders_fail_witness:
  "\<not> is_ok (fst (create_order user1_crates (sample_config\<lparr>cfg_payment_provider := ConfiguredWechatPay\<rparr>)
     user_headers None shop_world))"
  by (rule wechat_orders_fail [THEN conjunct1]) simp

end
