(* ===== verification/CloudTokens.thy ===== *)
theory CloudTokens
  imports CloudSamples
begin

text \<open>
  What lets a caller in (\<open>apps/cloud-api/src/main.rs\<close>): signatures of
  Stripe and their age, bearer tokens, Nebula ids, the full-access allow list, what a validated
  production configuration has, and the release manifests that are served.
\<close>

section \<open>Stripe signatures\<close>

lemma parse_i64_bounds: "parse_i64 s = Some i \<Longrightarrow> - (2 ^ 63) \<le> i \<and> i < 2 ^ 63"
  by (auto simp: parse_i64_def Let_def split: prod.splits list.splits if_splits option.splits)

lemma stripe_parts_bounds:
  "stripe_header_parts stamp sigs parts = (Some t, out) \<Longrightarrow>
     (\<forall>s. stamp = Some s \<longrightarrow> - (2 ^ 63) \<le> s \<and> s < 2 ^ 63) \<Longrightarrow> - (2 ^ 63) \<le> t \<and> t < 2 ^ 63"
proof (induction stamp sigs parts rule: stripe_header_parts.induct)
  case (2 stamp sigs part parts)
  then show ?case
    using parse_i64_bounds by (auto split: option.splits prod.splits if_splits)
qed auto

lemma stripe_stamp_bounds:
  "parse_stripe_signature_header h = Inr (t, sigs) \<Longrightarrow> - (2 ^ 63) \<le> t \<and> t < 2 ^ 63"
  by (auto simp: parse_stripe_signature_header_def dest!: stripe_parts_bounds
      split: prod.splits option.splits if_splits)

lemma wrapped_age:
  assumes "0 \<le> now" "now < 2 ^ 62" "- (2 ^ 63) \<le> t" "t < 2 ^ 63"
  shows "\<not> 300 < i64_abs (wrap_i64 (now - t)) \<longleftrightarrow> \<bar>now - t\<bar> \<le> 300 \<or> t = now - 2 ^ 63"
proof (cases "now - t < 2 ^ 63")
  case True
  then have "wrap_i64 (now - t) = now - t" using assms by (simp add: wrap_i64_def)
  moreover have "wrap_i64 \<bar>now - t\<bar> = \<bar>now - t\<bar>" using True assms by (simp add: wrap_i64_def)
  ultimately show ?thesis using True by (auto simp: i64_abs_def abs_if)
next
  case False
  let ?a = "now - t + 2 ^ 63"
  have "?a mod 2 ^ 64 = (?a - 2 ^ 64) mod 2 ^ 64" by (rule minus_mod_self2 [symmetric])
  also have "\<dots> = ?a - 2 ^ 64" using False assms by (intro mod_pos_pos_trivial) simp_all
  finally have w: "wrap_i64 (now - t) = now - t - 2 ^ 64" by (simp add: wrap_i64_def)
  show ?thesis
  proof (cases "t = now - 2 ^ 63")
    case True
    then show ?thesis by (simp add: i64_abs_def wrap_i64_def)
  next
    case far: False
    have "wrap_i64 (2 ^ 64 - (now - t)) = 2 ^ 64 - (now - t)"
      using False far assms by (simp add: wrap_i64_def)
    with w False far assms show ?thesis by (simp add: i64_abs_def)
  qed
qed

text \<open>C32: a Stripe-Signature header is accepted exactly when it has a timestamp and one of its v1
  signatures is the keyed hash of that timestamp and the body, and the timestamp is within 300
  seconds of the clock, or, because the subtraction wraps around, exactly 2^63 seconds
  before it.\<close>

theorem stripe_signature_accepted:
  assumes "now = timestamp (src_clock w (clock_n w))" and "0 \<le> now" and "now < 2 ^ 62"
  shows "is_ok (fst (verify_stripe_signature x header body_text secret w)) \<longleftrightarrow>
    (\<exists>t sigs mac. parse_stripe_signature_header header = Inr (t, sigs)
       \<and> (\<bar>now - t\<bar> \<le> 300 \<or> t = now - 2 ^ 63)
       \<and> x_hmac_sha256 x secret (show_int t @ ''.'' @ body_text) = Some mac \<and> hex_lower mac \<in> set sigs)"
proof (cases "parse_stripe_signature_header header")
  case (Inr p)
  obtain t sigs where p: "parse_stripe_signature_header header = Inr (t, sigs)" using Inr by (cases p) simp
  note age = wrapped_age [OF assms(2,3), of t] stripe_stamp_bounds [OF p]
  show ?thesis
    using age by (auto simp: verify_stripe_signature_def p act_simps require_def list_ex_iff
        constant_time_eq_iff ensure_def ok_or_def split: option.split simp flip: assms(1))
qed (simp add: verify_stripe_signature_def act_simps)

lemma stripe_signature_accepted_witness:
  "is_ok (fst (verify_stripe_signature (toy_crates\<lparr>x_hmac_sha256 := (\<lambda>k m. Some ''a'')\<rparr>)
     ''t=-9223372035154775808,v1=61'' [] ''k'' shop_world))"
proof -
  have clock: "timestamp (src_clock shop_world (clock_n shop_world)) = 1700000000"
    by (simp add: shop_world_def sample_world_def sample_ambient_def timestamp_def)
  have "parse_stripe_signature_header ''t=-9223372035154775808,v1=61''
      = Inr (-9223372035154775808, [''61''])"
    by code_simp
  moreover have "hex_lower ''a'' = ''61''" by code_simp
  ultimately show ?thesis
    using stripe_signature_accepted [of 1700000000 shop_world] clock by simp
qed

section \<open>Bearer tokens\<close>

text \<open>When a token expires, as the crate reads it from the claims.\<close>

definition expiry_of :: "json \<Rightarrow> int" where
  "expiry_of j = (case json_get j ''exp'' of Some (JInt e) \<Rightarrow> e | _ \<Rightarrow> 0)"

lemma role_round_trip: "de_user_role (JString (user_role_to_db r)) = Some r"
  by (simp add: de_user_role_def int_codes enum_codes)

lemma claims_round_trip:
  assumes "\<forall>u. x_uuid_parse x (x_uuid_string x u) = Some u"
  shows "claims_of_json x (claims_to_json x k) = Some k"
  using assms role_round_trip uint_lt2p [of "ac_exp k"]
  by (simp add: claims_of_json_def claims_to_json_def field_def json_get_def de_uuid_def)

text \<open>C33: a token the server issued is accepted again with the very claims it was issued for until
  the twelve hours it runs have passed, given that the JWT crate returns from an unexpired token
  what was put into it and that UUIDs parse back from their text.\<close>

theorem issued_token_accepted:
  assumes "\<forall>u. x_uuid_parse x (x_uuid_string x u) = Some u"
    and "\<forall>j tok at. x_jwt_encode x (cfg_jwt_secret c) j = Some tok \<longrightarrow> timestamp at \<le> expiry_of j
       \<longrightarrow> x_jwt_decode x (cfg_jwt_secret c) at tok = Some j"
    and "issue_jwt x c u t r w = (Inr tok, v)"
    and "h ''authorization'' = Some (''Bearer '' @ tok)"
    and "0 \<le> src_clock w (clock_n w)" and "timestamp (src_clock w (clock_n w) + hours 12) < 2 ^ 64"
    and "src_clock later (clock_n later) \<le> src_clock w (clock_n w) + hours 12"
  shows "\<exists>claims. fst (require_user x c h later) = Inr claims
    \<and> ac_sub claims = u \<and> ac_tenant_id claims = t \<and> ac_role claims = r"
proof -
  let ?exp = "timestamp (src_clock w (clock_n w) + hours 12)"
  let ?k = "\<lparr> ac_sub = u, ac_tenant_id = t, ac_role = r, ac_exp = word_of_int ?exp \<rparr>"
  have tok: "x_jwt_encode x (cfg_jwt_secret c) (claims_to_json x ?k) = Some tok"
    using assms(3) by (auto simp: issue_jwt_def run_inv utc_now_Inr Let_def ok_or_Inr)
  have "0 \<le> ?exp" using assms(5) by (simp add: timestamp_def duration_simps)
  then have "expiry_of (claims_to_json x ?k) = ?exp"
    using assms(6) by (simp add: expiry_of_def claims_to_json_def json_get_def uint_word_of_int)
  moreover have "timestamp (src_clock later (clock_n later)) \<le> ?exp"
    using assms(7) by (simp add: timestamp_def zdiv_mono1)
  ultimately have "x_jwt_decode x (cfg_jwt_secret c) (src_clock later (clock_n later)) tok
      = Some (claims_to_json x ?k)"
    using assms(2) tok by simp
  then show ?thesis
    using assms(4) claims_round_trip [OF assms(1), of ?k]
    by (simp add: require_user_def strip_prefix_def act_simps)
qed

text \<open>Crates that print UUIDs in decimal and know one token.\<close>

definition plain_crates :: crates where
  "plain_crates = toy_crates\<lparr> x_uuid_string := (\<lambda>u. show_nat (unat u)),
     x_uuid_parse := (\<lambda>s. map_option word_of_nat (parse_digits 0 s)) \<rparr>"

definition one_claims :: json where
  "one_claims = claims_to_json plain_crates
     \<lparr> ac_sub = UserId 1, ac_tenant_id = TenantId 1, ac_role = UserRole, ac_exp = 1700043200 \<rparr>"

definition token_crates :: crates where
  "token_crates = plain_crates\<lparr> x_jwt_encode := (\<lambda>k j. if j = one_claims then Some ''j'' else None),
     x_jwt_decode := (\<lambda>k at s. if s = ''j'' then Some one_claims else None) \<rparr>"

lemma issued_token_accepted_witness:
  "\<exists>claims. fst (require_user token_crates sample_config
       (\<lambda>n. if n = ''authorization'' then Some ''Bearer j'' else None) shop_world) = Inr claims
    \<and> ac_sub claims = UserId 1"
proof -
  have clock: "src_clock shop_world (clock_n shop_world) = 1700000000000000"
    by (simp add: shop_world_def sample_world_def sample_ambient_def)
  have claims: "claims_to_json token_crates
      \<lparr> ac_sub = UserId 1, ac_tenant_id = TenantId 1, ac_role = UserRole, ac_exp = 1700043200 \<rparr> = one_claims"
    by (simp add: one_claims_def token_crates_def claims_to_json_def)
  have token: "\<exists>v. issue_jwt token_crates sample_config (UserId 1) (TenantId 1) UserRole shop_world = (Inr ''j'', v)"
    using claims by (simp add: issue_jwt_def act_simps clock timestamp_def duration_simps)
      (simp add: token_crates_def)
  then obtain v where v: "issue_jwt token_crates sample_config (UserId 1) (TenantId 1) UserRole shop_world = (Inr ''j'', v)"
    by blast
  have uuids: "\<forall>u. x_uuid_parse token_crates (x_uuid_string token_crates u) = Some u"
    by (simp add: token_crates_def plain_crates_def parse_show_nat)
  have "\<forall>j tok at. x_jwt_encode token_crates (cfg_jwt_secret sample_config) j = Some tok
      \<longrightarrow> timestamp at \<le> expiry_of j \<longrightarrow> x_jwt_decode token_crates (cfg_jwt_secret sample_config) at tok = Some j"
    by (simp add: token_crates_def)
  from issued_token_accepted [OF uuids this v, of "\<lambda>n. if n = ''authorization'' then Some ''Bearer j'' else None" shop_world]
  show ?thesis by (auto simp: clock timestamp_def duration_simps)
qed

section \<open>Nebula ids\<close>

lemma nebula_exists_Inr: "nebula_id_exists n w = (Inr b, v) \<longleftrightarrow>
    b = (\<exists>r \<in> set (db_users (w_db w)). ur_nebula_id r = nebula_str n) \<and> v = w"
  using find_None_iff [of "\<lambda>r. ur_nebula_id r = nebula_str n" "db_users (w_db w)"]
  by (auto simp: nebula_id_exists_def store_inv)

lemma generate_nebula_draws: "alnum_n (snd (generate_nebula_id x w)) = alnum_n w + 12"
  by (simp add: generate_nebula_id_def act_simps)

lemma nebula_exists_world: "snd (nebula_id_exists n w) = w"
  by (simp add: nebula_id_exists_def query_def act_simps)

lemma nebula_loop_draws: "alnum_n (snd (create_unique_nebula_id_loop x n w)) \<le> alnum_n w + 12 * n"
proof (induction n arbitrary: w)
  case (Suc n)
  have "alnum_n (snd (create_unique_nebula_id_loop x n (snd (generate_nebula_id x w)))) \<le> alnum_n w + 12 * Suc n"
    using Suc [of "snd (generate_nebula_id x w)"] by (simp add: generate_nebula_draws)
  then show ?case
    by (auto simp: andthen_run act_simps nebula_exists_world generate_nebula_draws split: sum.split)
qed (simp add: act_simps)

lemma generate_nebula_db: "w_db (snd (generate_nebula_id x w)) = w_db w"
  by (simp add: generate_nebula_id_def act_simps)

lemma nebula_loop_fresh:
  "create_unique_nebula_id_loop x n w = (Inr i, v) \<Longrightarrow>
     w_db v = w_db w \<and> nebula_str i \<notin> ur_nebula_id ` set (db_users (w_db w))"
proof (induction n arbitrary: w)
  case (Suc n)
  obtain j u taken u2 where g: "generate_nebula_id x w = (Inr j, u)"
    and t: "nebula_id_exists j u = (Inr taken, u2)"
    and k: "(if \<not> taken then ret j else create_unique_nebula_id_loop x n) u2 = (Inr i, v)"
    using Suc.prems by (auto simp: andthen_Inr)
  have db: "w_db u = w_db w" using generate_nebula_db [of x w] g by simp
  show ?case using Suc.IH [of u2] k t db by (auto simp: nebula_exists_Inr ret_Inr image_iff split: if_splits)
qed (simp add: throw_Inr)

text \<open>The search for a new Nebula id always ends: it draws at most eight ids of twelve
  characters, and an id it returns is no user's yet.\<close>

lemma nebula_id_search_ends:
  "alnum_n (snd (create_unique_nebula_id x w)) \<le> alnum_n w + 96
   \<and> (case fst (create_unique_nebula_id x w) of Inl e \<Rightarrow> True
      | Inr i \<Rightarrow> nebula_str i \<notin> ur_nebula_id ` set (db_users (w_db w)))"
  using nebula_loop_draws [of x 8 w] nebula_loop_fresh [of x 8 w]
  by (auto simp: create_unique_nebula_id_def prod_eq_iff split: sum.split)

section \<open>The full-access allow list\<close>

text \<open>Only a user whose identity comes from SkyBridge is ever given the full-access entitlement,
  and only by an allow-listed user id, Nebula id, SkyBridge id, or an email address or phone
  number that is verified; for any other user the database stays as it is.\<close>

lemma full_access_only_for_listed:
  assumes "w_db (snd (ensure_test_full_access_entitlement x c u w)) \<noteq> w_db w"
  shows "usr_nebula_source u = Skybridge \<and> (\<exists>name \<in> set (cfg_test_full_access_identities c).
      name = to_lowercase (x_uuid_string x (user_uuid (usr_id u)))
      \<or> name = to_lowercase (nebula_str (usr_nebula_id u))
      \<or> (\<exists>e. usr_email u = Some e \<and> usr_email_verified_at u \<noteq> None \<and> name = to_lowercase (email_str e))
      \<or> (\<exists>p. usr_phone u = Some p \<and> usr_phone_verified_at u \<noteq> None \<and> name = to_lowercase (phone_str p))
      \<or> (\<exists>i. usr_skybridge_user_id u = Some i \<and> name = to_lowercase (x_uuid_string x i)))"
proof -
  have "test_full_access_matches x c u"
    using assms by (rule contrapos_np) (simp add: ensure_test_full_access_entitlement_def act_simps)
  then obtain name where n: "usr_nebula_source u = Skybridge" "name \<in> set (cfg_test_full_access_identities c)"
    "name \<in> set (test_full_access_candidates x u)"
    by (auto simp: test_full_access_matches_def list_ex_iff split: if_splits)
  have "name = to_lowercase (x_uuid_string x (user_uuid (usr_id u)))
      \<or> name = to_lowercase (nebula_str (usr_nebula_id u))
      \<or> (\<exists>e. usr_email u = Some e \<and> usr_email_verified_at u \<noteq> None \<and> name = to_lowercase (email_str e))
      \<or> (\<exists>p. usr_phone u = Some p \<and> usr_phone_verified_at u \<noteq> None \<and> name = to_lowercase (phone_str p))
      \<or> (\<exists>i. usr_skybridge_user_id u = Some i \<and> name = to_lowercase (x_uuid_string x i))"
    using n(3) by (cases "usr_email u"; cases "usr_phone u"; cases "usr_skybridge_user_id u")
      (auto simp: test_full_access_candidates_def split: if_splits)
  with n(1,2) show ?thesis by blast
qed

definition listed_user :: user where
  "listed_user = \<lparr> usr_id = UserId 2, usr_tenant_id = TenantId 1, usr_nebula_id = NebulaId ''N'',
     usr_nebula_source = Skybridge, usr_skybridge_user_id = None, usr_email = None, usr_phone = None,
     usr_name = None, usr_password_hash = [], usr_role = UserRole, usr_email_verified_at = None,
     usr_phone_verified_at = None, usr_created_at = 0 \<rparr>"

definition listing_config :: app_config where
  "listing_config = sample_config\<lparr>cfg_test_full_access_identities := [''ii'']\<rparr>"

lemma full_access_granted:
  "length (db_entitlements (w_db (snd (ensure_test_full_access_entitlement user1_crates listing_config
     listed_user shop_world)))) = 2"
  by code_simp

lemma full_access_only_for_listed_witness:
  "usr_nebula_source listed_user = Skybridge"
proof -
  have "w_db (snd (ensure_test_full_access_entitlement user1_crates listing_config listed_user shop_world))
      \<noteq> w_db shop_world"
    using full_access_granted by (auto simp: shop_db sample_db_def)
  from full_access_only_for_listed [OF this] show ?thesis by blast
qed

section \<open>Production configurations\<close>

text \<open>A configuration that passes the checks of a production-like server (of the production
  environment, or bound to an address that is not a loopback) without the development override
  has secrets that are long, not the built-in ones and no placeholders, explicit origins, a
  lease signing key that parses, https downloads, and a provider whose credentials are there.\<close>

lemma production_config_hardened:
  assumes "validate_config x env c ip = Inr ()"
    and "eq_ignore_ascii_case (cfg_environment c) ''production'' \<or> \<not> is_loopback ip"
    and "env ''OZON_SUITE_DEV_ALLOW_INSECURE_DEFAULTS'' \<noteq> Some ''1''"
  shows "32 \<le> length (cfg_jwt_secret c) \<and> cfg_jwt_secret c \<noteq> default_dev_jwt_secret
    \<and> \<not> is_placeholder (cfg_jwt_secret c)
    \<and> 24 \<le> length (cfg_admin_token c) \<and> \<not> is_placeholder (cfg_admin_token c)
    \<and> cfg_cors_allowed_origins_configured c \<and> cfg_cors_allowed_origins c \<noteq> []
    \<and> (\<exists>pem key. cfg_lease_signing_private_key_pem c = Some pem \<and> rsa_private_key x pem = Some key)
    \<and> (\<exists>u. x_url_parse x (cfg_download_manifest_url c) = Some u \<and> url_scheme u = ''https'')
    \<and> (cfg_payment_provider c = ConfiguredStripe \<longrightarrow>
         cfg_stripe_secret_key c \<noteq> None \<and> cfg_stripe_webhook_secret c \<noteq> None
         \<and> 0 < cfg_stripe_standard_amount_minor c)
    \<and> cfg_payment_provider c \<noteq> ConfiguredAlipay
    \<and> 0 < cfg_test_full_access_duration_days c \<and> 0 < cfg_test_full_access_max_devices c"
  using assms unfolding validate_config_def Let_def
  by (auto simp: all_ok_Inr bail_if_Inr map_err_Inr validate_production_lease_signing_config_def
      validate_production_download_config_def https_in_production_def validate_payment_provider_def
      validate_card_key_limits_def word_gt_0 split: option.splits if_splits)

definition served_config :: app_config where
  "served_config = sample_config\<lparr>cfg_jwt_secret := replicate 32 (CHR ''z''),
     cfg_admin_token := replicate 24 (CHR ''z''), cfg_cors_allowed_origins_configured := True\<rparr>"

lemma served_config_valid: "validate_config toy_crates (\<lambda>_. None) served_config (V4 0 0 0 0) = Inr ()"
  by code_simp

lemma production_config_hardened_witness: "32 \<le> length (cfg_jwt_secret served_config)"
  using production_config_hardened [OF served_config_valid] by simp

section \<open>Downloads\<close>

text \<open>The download page only ever names artifacts of a valid manifest: https links with a
  64-digit SHA-256 each, fetched or from the cache; a page that is served leaves a valid
  manifest in the cache.\<close>

lemma downloads_are_valid:
  assumes "cache_ok x w" and "downloads x c w = (Inr d, v)"
  shows "validate_local_node_release_manifest x (dl_release_manifest d) = Inr ()
    \<and> is_sha256_hex (dl_checksum_sha256 d) \<and> is_sha256_hex (dl_local_node_exe_sha256 d)
    \<and> (\<exists>u. x_url_parse x (dl_local_node_msi d) = Some u \<and> url_scheme u = ''https'')
    \<and> cache_ok x v"
proof -
  obtain m u where m: "fetch_local_node_release_manifest x c w = (Inr m, v)" "dl_release_manifest d = m"
    "dl_checksum_sha256 d = ra_sha256 (rm_msi m)" "dl_local_node_exe_sha256 d = ra_sha256 (rm_exe m)"
    "dl_local_node_msi d = ra_url (rm_msi m)"
    using assms(2) by (auto simp: downloads_def run_inv Let_def)
  have "cache_ok x v" and ok: "validate_local_node_release_manifest x m = Inr ()"
    using fetch_manifest_valid [OF assms(1) m(1)] by simp_all
  moreover have "validate_release_artifact x ''msi'' (rm_msi m) = Inr ()"
    "validate_release_artifact x ''exe'' (rm_exe m) = Inr ()"
    using ok by (auto simp: validate_local_node_release_manifest_def all_ok_Inr)
  ultimately show ?thesis
    unfolding m(2-5) by (auto simp: validate_release_artifact_def split: option.splits if_splits)
qed

definition sample_manifest :: local_node_release_manifest where
  "sample_manifest =
     \<lparr> rm_version = ''1'', rm_commit = replicate 7 (CHR ''a''),
       rm_msi = \<lparr> ra_url = ''m'', ra_sha256 = replicate 64 (CHR ''0'') \<rparr>,
       rm_exe = \<lparr> ra_url = ''e'', ra_sha256 = replicate 64 (CHR ''0'') \<rparr>,
       rm_macos_aarch64_dmg = None, rm_dmg = None \<rparr>"

definition cached_world :: world where
  "cached_world = sample_world\<lparr>w_cache := Some \<lparr> cm_manifest = sample_manifest, cm_fetched_at = 0 \<rparr>\<rparr>"

lemma cached_world_ok: "cache_ok toy_crates cached_world"
proof -
  have "validate_local_node_release_manifest toy_crates sample_manifest = Inr ()" by code_simp
  then show ?thesis by (simp add: cache_ok_def cached_world_def)
qed

lemma downloads_are_valid_witness:
  "\<exists>d v. downloads toy_crates sample_config cached_world = (Inr d, v) \<and> is_sha256_hex (dl_checksum_sha256 d)"
proof -
  have "w_net cached_world = (\<lambda>_. None)" by (simp add: cached_world_def sample_world_def)
  then have "\<exists>v. fetch_local_node_release_manifest toy_crates sample_config cached_world = (Inr sample_manifest, v)"
    by (simp add: fetch_local_node_release_manifest_def fetch_remote_local_node_release_manifest_def
        match_res_def act_simps http_send_def)
      (simp add: cached_world_def act_simps)
  then obtain d v where d: "downloads toy_crates sample_config cached_world = (Inr d, v)"
    by (auto simp: downloads_def andthen_run act_simps Let_def)
  from downloads_are_valid [OF cached_world_ok d] d show ?thesis by blast
qed

section \<open>Text that parses to itself\<close>

text \<open>An email address, phone number or Nebula id that was parsed parses to itself again, so
  identities are stored in one spelling, and parsing what is stored never fails.\<close>

lemma identities_canonical:
  "(email_parse s1 = Inr e \<longrightarrow> email_parse (email_str e) = Inr e)
   \<and> (phone_parse s2 = Inr p \<longrightarrow> phone_parse (phone_str p) = Inr p)
   \<and> (nebula_parse s3 = Inr n \<longrightarrow> nebula_parse (nebula_str n) = Inr n)"
  using email_parse_ok phone_parse_ok nebula_parse_ok
  by (auto simp: email_ok_def phone_ok_def nebula_ok_def)

lemma identities_canonical_witness: "phone_parse (phone_str (PhoneNumber ''+123456'')) = Inr (PhoneNumber ''+123456'')"
proof -
  have "phone_parse ''+12 34-56'' = Inr (PhoneNumber ''+123456'')" by code_simp
  then show ?thesis using identities_canonical by blast
qed

text \<open>What is written of an order, a device or an entitlement is read back as it was, and
  nothing else decodes to it; card keys and audit events are read back as they were.\<close>

lemma rows_round_trip:
  "(row_to_order r1 = Inr ord \<longleftrightarrow> r1 = order_row_of ord)
   \<and> (row_to_device r2 = Inr dev \<longleftrightarrow> r2 = device_row_of dev)
   \<and> (row_to_entitlement r3 = Inr ent \<longleftrightarrow> r3 = entitlement_row_of ent)
   \<and> row_to_card_key (card_key_row_of k i) = Inr k \<and> row_to_audit (audit_row_of a) = a"
  using order_row_decoded device_row_decoded entitlement_row_decoded by (auto simp: decode_simps)

end
