(* ===== verification/SecretStore.thy ===== *)
theory SecretStore
  imports Crates Effect "HOL-Library.AList"
begin

text \<open>
  The secret stores (\<open>crates/secret-store/src/lib.rs\<close>): the store in memory, the store in a
  file that is replaced by renaming, the store in the keyring of the system, and the layered
  store that prefers the keyring and falls back to the file. A store is a record of its three
  operations, as \<open>dyn SecretStore\<close> is; what they promise is the locale \<open>secret_store\<close>.
  The lock of a store makes each operation one step.
\<close>

datatype secret_store_error = BackendUnavailable | AccessDenied | InvalidName | InvalidEncoding

record 's store_ops =
  so_put :: "string \<Rightarrow> string \<Rightarrow> ('s, secret_store_error, unit) act"
  so_get :: "string \<Rightarrow> ('s, secret_store_error, string option) act"
  so_del :: "string \<Rightarrow> ('s, secret_store_error, unit) act"

section \<open>In memory\<close>

text \<open>A hash map is an association list with distinct keys.\<close>

type_synonym secrets = "(string \<times> string) list"

definition memory_store :: "secrets store_ops" where
  "memory_store =
     \<lparr> so_put = (\<lambda>name v. modify (AList.update name v)),
       so_get = (\<lambda>name. gets (\<lambda>m. map_of m name)),
       so_del = (\<lambda>name. modify (AList.delete name)) \<rparr>"

section \<open>In a file\<close>

text \<open>A path is the list of its components. A disk maps paths to contents; the outcome of every
  system call is given by a source of faults: a call works, or fails, a failing write after
  some bytes.\<close>

type_synonym path = "string list"

datatype fault = Works | Breaks nat

record disk =
  dk_files :: "path \<Rightarrow> string option"
  dk_faults :: "nat \<Rightarrow> fault"
  dk_calls :: nat

type_synonym 'a disk_act = "(disk, secret_store_error, 'a) act"

definition sys_call :: "(disk, 'e, fault) act" where
  "sys_call d = (Inr (dk_faults d (dk_calls d)), d\<lparr>dk_calls := Suc (dk_calls d)\<rparr>)"

text \<open>A call without an effect of its own when it fails.\<close>

definition sys_try :: "(disk \<Rightarrow> disk) \<Rightarrow> unit disk_act" where
  "sys_try f = andthen sys_call (\<lambda>r.
     case r of Works \<Rightarrow> modify f | Breaks _ \<Rightarrow> throw BackendUnavailable)"

definition write_file :: "path \<Rightarrow> string \<Rightarrow> disk \<Rightarrow> disk" where
  "write_file p s d = d\<lparr>dk_files := (dk_files d)(p \<mapsto> s)\<rparr>"

definition write_private_file :: "path \<Rightarrow> string \<Rightarrow> unit disk_act" where
  "write_private_file p payload =
     andthen (sys_try (write_file p [])) (\<lambda>_.
     andthen sys_call (\<lambda>r. case r of
        Breaks k \<Rightarrow> andthen (modify (write_file p (take k payload))) (\<lambda>_. throw BackendUnavailable)
      | Works \<Rightarrow>
          andthen (modify (write_file p payload)) (\<lambda>_.
            sys_try id)))"

definition file_name :: "path \<Rightarrow> string option" where
  "file_name p = (if p = [] \<or> last p = ''..'' then None else Some (last p))"

definition with_file_name :: "string \<Rightarrow> path \<Rightarrow> path" where
  "with_file_name f p = (if file_name p = None then p @ [f] else butlast p @ [f])"

definition temp_path_for :: "path \<Rightarrow> path" where
  "temp_path_for p = with_file_name (unwrap_or (file_name p) ''secrets.json'' @ ''.tmp'') p"

text \<open>\<open>serde_json\<close> on a map of strings: a repeated key takes its last value.\<close>

definition secrets_to_json :: "secrets \<Rightarrow> json" where
  "secrets_to_json m = JObject (map (\<lambda>(k, v). (k, JString v)) m)"

definition secrets_of_json :: "secrets de" where
  "secrets_of_json j =
     map_option (\<lambda>es. fold (\<lambda>(k, v). AList.update k v) es []) (de_map de_string j)"

definition read_map :: "crates \<Rightarrow> path \<Rightarrow> secrets disk_act" where
  "read_map x p = andthen sys_call (\<lambda>r. case r of
     Breaks _ \<Rightarrow> throw BackendUnavailable
   | Works \<Rightarrow> andthen (gets (\<lambda>d. dk_files d p)) (\<lambda>c. case c of
        None \<Rightarrow> ret []
      | Some contents \<Rightarrow> lift (ok_or InvalidEncoding
          (Option.bind (x_json_parse x contents) secrets_of_json))))"

definition write_map :: "crates \<Rightarrow> path \<Rightarrow> secrets \<Rightarrow> unit disk_act" where
  "write_map x p values =
     andthen (if p = [] then ret () else sys_try id) (\<lambda>_.
       let payload = x_json_print x (secrets_to_json values); temp_path = temp_path_for p in
     andthen (write_private_file temp_path payload) (\<lambda>_.
       sys_try (\<lambda>d. d\<lparr>dk_files := (dk_files d)(p := dk_files d temp_path, temp_path := None)\<rparr>)))"

definition file_store :: "crates \<Rightarrow> path \<Rightarrow> disk store_ops" where
  "file_store x p =
     \<lparr> so_put = (\<lambda>name v. andthen (read_map x p) (\<lambda>m. write_map x p (AList.update name v m))),
       so_get = (\<lambda>name. andthen (read_map x p) (\<lambda>m. ret (map_of m name))),
       so_del = (\<lambda>name. andthen (read_map x p) (\<lambda>m. write_map x p (AList.delete name m))) \<rparr>"

section \<open>In the keyring\<close>

datatype keyring_error =
    NoEntry | NoStorageAccess | BadEncoding | KeyInvalid | TooLong | OtherKeyringError

datatype keyring_failure = TaskPanicked | KeyringFailed keyring_error

fun map_keyring_error :: "keyring_error \<Rightarrow> secret_store_error" where
  "map_keyring_error NoEntry = BackendUnavailable"
| "map_keyring_error NoStorageAccess = AccessDenied"
| "map_keyring_error BadEncoding = InvalidEncoding"
| "map_keyring_error KeyInvalid = InvalidName"
| "map_keyring_error TooLong = InvalidName"
| "map_keyring_error OtherKeyringError = BackendUnavailable"

fun blocking_error :: "keyring_failure \<Rightarrow> secret_store_error" where
  "blocking_error TaskPanicked = BackendUnavailable"
| "blocking_error (KeyringFailed e) = map_keyring_error e"

text \<open>The keyring crate: an entry for a service and an account is opened and then used.\<close>

record 'k keyring =
  kr_open :: "string \<Rightarrow> string \<Rightarrow> ('k, keyring_failure, unit) act"
  kr_set :: "string \<Rightarrow> string \<Rightarrow> string \<Rightarrow> ('k, keyring_failure, unit) act"
  kr_get :: "string \<Rightarrow> string \<Rightarrow> ('k, keyring_failure, string) act"
  kr_delete :: "string \<Rightarrow> string \<Rightarrow> ('k, keyring_failure, unit) act"

record system_store =
  sys_service :: string
  sys_account_prefix :: string

definition is_safe_identifier :: "string \<Rightarrow> bool" where
  "is_safe_identifier v \<longleftrightarrow> v \<noteq> [] \<and> length v \<le> 128
     \<and> list_all (\<lambda>c. is_ascii_alphanumeric c \<or> c \<in> set ''.-_:'') v"

definition system_store_new ::
  "(secret_store_error + unit) \<Rightarrow> string \<Rightarrow> string \<Rightarrow> secret_store_error + system_store" where
  "system_store_new native service account_prefix =
     bind_res native (\<lambda>_.
     bind_res (ensure (is_safe_identifier service \<and> is_safe_identifier account_prefix) InvalidName) (\<lambda>_.
       Inr \<lparr> sys_service = service, sys_account_prefix = account_prefix \<rparr>))"

definition account_for :: "system_store \<Rightarrow> string \<Rightarrow> secret_store_error + string" where
  "account_for s name =
     bind_res (ensure (is_safe_identifier name) InvalidName) (\<lambda>_.
       Inr (sys_account_prefix s @ '':'' @ name))"

definition system_ops :: "'k keyring \<Rightarrow> system_store \<Rightarrow> 'k store_ops" where
  "system_ops k s =
     \<lparr> so_put = (\<lambda>name v. andthen (lift (account_for s name)) (\<lambda>account.
         map_error blocking_error (andthen (kr_open k (sys_service s) account) (\<lambda>_.
           kr_set k (sys_service s) account v)))),
       so_get = (\<lambda>name. andthen (lift (account_for s name)) (\<lambda>account.
         map_error blocking_error (andthen (kr_open k (sys_service s) account) (\<lambda>_.
           match_res (kr_get k (sys_service s) account) (\<lambda>v. ret (Some v))
             (\<lambda>e. if e = KeyringFailed NoEntry then ret None else throw e))))),
       so_del = (\<lambda>name. andthen (lift (account_for s name)) (\<lambda>account.
         map_error blocking_error (andthen (kr_open k (sys_service s) account) (\<lambda>_.
           match_res (kr_delete k (sys_service s) account) ret
             (\<lambda>e. if e = KeyringFailed NoEntry then ret () else throw e))))) \<rparr>"

section \<open>Layered\<close>

text \<open>An operation on the primary store runs for at most half a second. When the time is up its
  future is dropped; what it had handed to another thread still takes effect.\<close>

datatype timing = InTime | LateDone | LateDropped

record ('p, 'f) layers =
  ly_primary :: 'p
  ly_fallback :: 'f
  ly_timing :: "nat \<Rightarrow> timing"
  ly_clock :: nat

definition with_timeout ::
  "('p, 'e, 'a) act \<Rightarrow> ('e + 'a \<Rightarrow> (('p, 'f) layers, 'e, 'b) act) \<Rightarrow> (('p, 'f) layers, 'e, 'b) act
   \<Rightarrow> (('p, 'f) layers, 'e, 'b) act" where
  "with_timeout m answered elapsed s =
     (let t = s\<lparr>ly_clock := Suc (ly_clock s)\<rparr> in
      case ly_timing s (ly_clock s) of
        InTime \<Rightarrow> (case m (ly_primary s) of (r, p) \<Rightarrow> answered r (t\<lparr>ly_primary := p\<rparr>))
      | LateDone \<Rightarrow> elapsed (t\<lparr>ly_primary := snd (m (ly_primary s))\<rparr>)
      | LateDropped \<Rightarrow> elapsed t)"

definition on_fallback :: "('f, 'e, 'a) act \<Rightarrow> (('p, 'f) layers, 'e, 'a) act" where
  "on_fallback m s = (case m (ly_fallback s) of (r, f) \<Rightarrow> (r, s\<lparr>ly_fallback := f\<rparr>))"

text \<open>\<open>let _ = ..\<close>: the result does not matter.\<close>

definition ignoring :: "('s, 'e, 'a) act \<Rightarrow> ('s, 'e, unit) act" where
  "ignoring m s = (Inr (), snd (m s))"

definition layered_put ::
  "'p store_ops \<Rightarrow> 'f store_ops \<Rightarrow> string \<Rightarrow> string
   \<Rightarrow> (('p, 'f) layers, secret_store_error, unit) act" where
  "layered_put P F name v =
     with_timeout (so_put P name v)
       (\<lambda>r. case r of
          Inr _ \<Rightarrow> ignoring (on_fallback (so_del F name))
        | Inl _ \<Rightarrow> on_fallback (so_put F name v))
       (on_fallback (so_put F name v))"

definition layered_get ::
  "'p store_ops \<Rightarrow> 'f store_ops \<Rightarrow> string
   \<Rightarrow> (('p, 'f) layers, secret_store_error, string option) act" where
  "layered_get P F name =
     with_timeout (so_get P name)
       (\<lambda>r. case r of
          Inr (Some v) \<Rightarrow> andthen (ignoring (on_fallback (so_del F name))) (\<lambda>_. ret (Some v))
        | Inr None \<Rightarrow> andthen (on_fallback (so_get F name)) (\<lambda>found. case found of
              Some v \<Rightarrow> andthen (with_timeout (so_put P name v)
                  (\<lambda>migrated. if is_ok migrated then ignoring (on_fallback (so_del F name)) else ret ())
                  (ret ())) (\<lambda>_. ret (Some v))
            | None \<Rightarrow> ret None)
        | Inl _ \<Rightarrow> on_fallback (so_get F name))
       (on_fallback (so_get F name))"

definition layered_del ::
  "'p store_ops \<Rightarrow> 'f store_ops \<Rightarrow> string \<Rightarrow> (('p, 'f) layers, secret_store_error, unit) act" where
  "layered_del P F name =
     andthen (with_timeout (so_del P name) ret (ret (Inl BackendUnavailable))) (\<lambda>primary.
     andthen (\<lambda>s. case on_fallback (so_del F name) s of (r, t) \<Rightarrow> (Inr r, t)) (\<lambda>fallback.
     andthen (lift primary) (\<lambda>_. lift fallback)))"

definition layered_store :: "'p store_ops \<Rightarrow> 'f store_ops \<Rightarrow> ('p, 'f) layers store_ops" where
  "layered_store P F =
     \<lparr> so_put = layered_put P F, so_get = layered_get P F, so_del = layered_del P F \<rparr>"

section \<open>Display\<close>

definition fingerprint_secret :: "crates \<Rightarrow> string \<Rightarrow> string" where
  "fingerprint_secret x secret = take 12 (hex_lower (x_sha256 x secret))"

text \<open>Over the characters of the text, given by their code points.\<close>

definition redact :: "nat list \<Rightarrow> nat list" where
  "redact chars =
     (if length chars \<le> 8 then replicate 8 42
      else take 4 chars @ [8230] @ drop (length chars - 4) chars)"

end
