(* ===== verification/SecretLaws.thy ===== *)
theory SecretLaws
  imports SecretStore "HOL-Library.Countable"
begin

text \<open>
  What the secret stores promise (\<open>crates/secret-store/src/lib.rs\<close>). The locale \<open>secret_store\<close>
  is the contract of the trait over the map a store represents; the stores in memory and in a
  file satisfy it, and the layered store does when its primary store is reliable. What the
  layered store guarantees with any primary store, and what it loses, is stated for itself.
\<close>

section \<open>The contract\<close>

locale secret_store =
  fixes ops :: "'s store_ops" and view :: "'s \<Rightarrow> string \<Rightarrow> string option" and good :: "'s \<Rightarrow> bool"
  assumes put_ok: "good s \<Longrightarrow> so_put ops n v s = (Inr (), t) \<Longrightarrow> good t \<and> view t = (view s)(n \<mapsto> v)"
    and put_err: "good s \<Longrightarrow> so_put ops n v s = (Inl e, t) \<Longrightarrow>
      good t \<and> (\<forall>m. m \<noteq> n \<longrightarrow> view t m = view s m)"
    and get_ok: "good s \<Longrightarrow> so_get ops n s = (r, t) \<Longrightarrow>
      good t \<and> view t = view s \<and> (\<forall>a. r = Inr a \<longrightarrow> a = view s n)"
    and del_ok: "good s \<Longrightarrow> so_del ops n s = (Inr (), t) \<Longrightarrow> good t \<and> view t = (view s)(n := None)"
    and del_err: "good s \<Longrightarrow> so_del ops n s = (Inl e, t) \<Longrightarrow>
      good t \<and> (\<forall>m. m \<noteq> n \<longrightarrow> view t m = view s m)"
begin

lemma put_then_get:
  assumes "good s" "so_put ops n v s = (Inr (), t)" "so_get ops n t = (Inr a, u)"
  shows "a = Some v"
  using put_ok [OF assms(1,2)] get_ok [OF _ assms(3)] by simp

lemma del_then_get:
  assumes "good s" "so_del ops n s = (Inr (), t)" "so_get ops n t = (Inr a, u)"
  shows "a = None"
  using del_ok [OF assms(1,2)] get_ok [OF _ assms(3)] by simp

lemma del_keeps:
  assumes "good s" "so_del ops n s = (r, t)"
  shows "good t" "m \<noteq> n \<Longrightarrow> view t m = view s m"
  using assms del_ok [OF assms(1)] del_err [OF assms(1)] by (cases r; fastforce)+

end

text \<open>A store whose operations never fail.\<close>

locale reliable_store = secret_store +
  assumes put_total: "good s \<Longrightarrow> \<exists>t. so_put ops n v s = (Inr (), t)"
    and get_total: "good s \<Longrightarrow> \<exists>a t. so_get ops n s = (Inr a, t)"
    and del_total: "good s \<Longrightarrow> \<exists>t. so_del ops n s = (Inr (), t)"

interpretation memory: reliable_store memory_store map_of "\<lambda>_. True"
  by unfold_locales
    (auto simp: memory_store_def act_simps update_conv' delete_conv' fun_eq_iff map_of_eq_None_iff)

section \<open>The file\<close>

text \<open>What the file says, when it is not there or can be read back.\<close>

definition file_secrets :: "crates \<Rightarrow> path \<Rightarrow> disk \<Rightarrow> secrets option" where
  "file_secrets x p d = (case dk_files d p of None \<Rightarrow> Some []
     | Some c \<Rightarrow> Option.bind (x_json_parse x c) secrets_of_json)"

definition file_good :: "crates \<Rightarrow> path \<Rightarrow> disk \<Rightarrow> bool" where
  "file_good x p d \<longleftrightarrow> p \<noteq> [] \<and> last p \<noteq> ''..''
     \<and> (\<exists>m. file_secrets x p d = Some m \<and> distinct (map fst m))"

definition file_view :: "crates \<Rightarrow> path \<Rightarrow> disk \<Rightarrow> string \<Rightarrow> string option" where
  "file_view x p d n = (case file_secrets x p d of None \<Rightarrow> None | Some m \<Rightarrow> map_of m n)"

text \<open>What \<open>serde_json\<close> promises of a map of strings.\<close>

definition json_reads_back :: "crates \<Rightarrow> bool" where
  "json_reads_back x \<longleftrightarrow>
     (\<forall>m. x_json_parse x (x_json_print x (secrets_to_json m)) = Some (secrets_to_json m))"

lemma update_new: "k \<notin> set (map fst m) \<Longrightarrow> AList.update k v m = m @ [(k, v)]"
  by (induction m) auto

lemma fold_update: "distinct (map fst (acc @ m)) \<Longrightarrow> fold (\<lambda>(k, v). AList.update k v) m acc = acc @ m"
  by (induction m arbitrary: acc) (auto simp: update_new)

lemma entries_round_trip: "de_entries de_string (map (\<lambda>(k, v). (k, JString v)) m) = Some m"
  by (induction m) auto

lemma secrets_round_trip: "distinct (map fst m) \<Longrightarrow> secrets_of_json (secrets_to_json m) = Some m"
  using fold_update [of "[]" m]
  by (simp add: secrets_of_json_def secrets_to_json_def de_map_def entries_round_trip)

lemma temp_path_other: "p \<noteq> [] \<Longrightarrow> last p \<noteq> ''..'' \<Longrightarrow> temp_path_for p \<noteq> p"
  by (auto simp: temp_path_for_def file_name_def with_file_name_def unwrap_or_def)
    (metis append_butlast_last_id append_self_conv last_snoc list.distinct(1))

lemma sys_try_cases:
  "sys_try f d = (r, e) \<Longrightarrow> (r = Inl BackendUnavailable \<and> dk_files e = dk_files d)
     \<or> (r = Inr () \<and> e = f (d\<lparr>dk_calls := Suc (dk_calls d)\<rparr>))"
  by (auto simp: sys_try_def sys_call_def act_simps andthen_def split: fault.splits)

text \<open>Writing the map either replaces the file as a whole or leaves it as it is.\<close>

lemma write_private_other:
  assumes "write_private_file q s d = (r, e)"
  shows "\<forall>p. p \<noteq> q \<longrightarrow> dk_files e p = dk_files d p" and "r = Inr () \<Longrightarrow> dk_files e q = Some s"
  using assms
  by (auto simp: write_private_file_def sys_call_def sys_try_def act_simps andthen_def write_file_def
      split: fault.splits if_splits)

lemma write_map_cases:
  assumes "write_map x p m d = (r, e)" and "p \<noteq> []" "last p \<noteq> ''..''"
  shows "(r = Inr () \<and> dk_files e p = Some (x_json_print x (secrets_to_json m)))
    \<or> ((\<exists>err. r = Inl err) \<and> dk_files e p = dk_files d p)"
proof -
  note other = temp_path_other [OF assms(2,3)]
  obtain r1 d1 where s1: "sys_try id d = (r1, d1)" by fastforce
  show ?thesis
  proof (cases r1)
    case Inl
    then show ?thesis using assms(1,2) s1 sys_try_cases [OF s1] by (auto simp: write_map_def andthen_def)
  next
    case (Inr u)
    then have d1: "dk_files d1 = dk_files d" using sys_try_cases [OF s1] by auto
    obtain r2 d2 where s2: "write_private_file (temp_path_for p) (x_json_print x (secrets_to_json m)) d1 = (r2, d2)"
      by fastforce
    note w = write_private_other [OF s2]
    show ?thesis
    proof (cases r2)
      case Inl
      then show ?thesis using assms(1,2) s1 Inr s2 w(1) d1 other by (auto simp: write_map_def andthen_def Let_def)
    next
      case (Inr u2)
      then have run: "sys_try (\<lambda>d. d\<lparr>dk_files := (dk_files d)(p := dk_files d (temp_path_for p),
          temp_path_for p := None)\<rparr>) d2 = (r, e)"
        using assms(1,2) s1 \<open>r1 = Inr u\<close> s2 by (auto simp: write_map_def andthen_def Let_def)
      show ?thesis using sys_try_cases [OF run] w Inr d1 other by auto
    qed
  qed
qed

lemma read_map_cases:
  assumes "read_map x p d = (r, e)" and "file_secrets x p d = Some m"
  shows "dk_files e = dk_files d \<and> (r = Inr m \<or> r = Inl BackendUnavailable)"
  using assms
  by (auto simp: read_map_def sys_call_def andthen_def act_simps file_secrets_def
      split: fault.splits option.splits)

lemma file_rewrite:
  assumes x: "json_reads_back x" and g: "file_good x p d"
    and run: "andthen (read_map x p) (\<lambda>m. write_map x p (f m)) d = (r, e)"
    and f: "\<And>m. distinct (map fst m) \<Longrightarrow> distinct (map fst (f m))"
  shows "\<exists>m. file_secrets x p d = Some m \<and> file_good x p e
    \<and> (if r = Inr () then file_secrets x p e = Some (f m) else dk_files e p = dk_files d p)"
proof -
  obtain m where m: "file_secrets x p d = Some m" "distinct (map fst m)" "p \<noteq> []" "last p \<noteq> ''..''"
    using g by (auto simp: file_good_def)
  obtain r1 d1 where read: "read_map x p d = (r1, d1)" by fastforce
  have same: "file_secrets x p b = file_secrets x p a" if "dk_files b p = dk_files a p" for a b
    using that by (simp add: file_secrets_def)
  show ?thesis
  proof (cases r1)
    case (Inl err)
    then have "r = Inl err" "e = d1" using run read by (simp_all add: andthen_def)
    then show ?thesis using read_map_cases [OF read m(1)] same [of e d] m g by (auto simp: file_good_def)
  next
    case (Inr m')
    then have w: "write_map x p (f m) d1 = (r, e)" and d1: "dk_files d1 = dk_files d"
      using run read read_map_cases [OF read m(1)] by (auto simp: andthen_def)
    have reread: "Option.bind (x_json_parse x (x_json_print x (secrets_to_json (f m)))) secrets_of_json = Some (f m)"
      using x f [OF m(2)] by (simp add: json_reads_back_def secrets_round_trip)
    show ?thesis
      using write_map_cases [OF w m(3,4)] reread d1 same [of e d] m f [OF m(2)]
      by (auto simp: file_secrets_def file_good_def)
  qed
qed

definition file_ready :: "crates \<Rightarrow> path \<Rightarrow> disk \<Rightarrow> bool" where
  "file_ready x p d \<longleftrightarrow> json_reads_back x \<and> file_good x p d"

lemma file_update:
  assumes "file_ready x p d"
    and "andthen (read_map x p) (\<lambda>m. write_map x p (f m)) d = (r, e)"
    and "\<And>m. distinct (map fst m) \<Longrightarrow> distinct (map fst (f m))"
    and "\<And>m. map_of (f m) = g (map_of m)"
  shows "file_ready x p e \<and> file_view x p e = (if r = Inr () then g (file_view x p d) else file_view x p d)
    \<and> (r \<noteq> Inr () \<longrightarrow> dk_files e p = dk_files d p)"
proof -
  obtain m where m: "file_secrets x p d = Some m" "file_good x p e"
    "if r = Inr () then file_secrets x p e = Some (f m) else dk_files e p = dk_files d p"
    using file_rewrite [OF _ _ assms(2,3)] assms(1) by (auto simp: file_ready_def)
  have "file_view x p d = map_of m" using m(1) by (simp add: file_view_def fun_eq_iff)
  moreover have "r = Inr () \<Longrightarrow> file_view x p e = map_of (f m)"
    using m(3) by (simp add: file_view_def fun_eq_iff)
  moreover have "r \<noteq> Inr () \<Longrightarrow> file_view x p e = file_view x p d"
    using m(3) by (simp add: file_view_def file_secrets_def fun_eq_iff)
  ultimately show ?thesis using m(2,3) assms(1,4) by (auto simp: file_ready_def)
qed

lemma file_put:
  assumes "file_ready x p d" "so_put (file_store x p) n v d = (r, e)"
  shows "file_ready x p e \<and> file_view x p e = (if r = Inr () then (file_view x p d)(n \<mapsto> v) else file_view x p d)
    \<and> (r \<noteq> Inr () \<longrightarrow> dk_files e p = dk_files d p)"
  using assms by (intro file_update [where f = "AList.update n v" and g = "\<lambda>m. m(n \<mapsto> v)"])
    (simp_all add: file_store_def distinct_update update_conv')

lemma file_del:
  assumes "file_ready x p d" "so_del (file_store x p) n d = (r, e)"
  shows "file_ready x p e \<and> file_view x p e = (if r = Inr () then (file_view x p d)(n := None) else file_view x p d)
    \<and> (r \<noteq> Inr () \<longrightarrow> dk_files e p = dk_files d p)"
  using assms by (intro file_update [where f = "AList.delete n" and g = "\<lambda>m. m(n := None)"])
    (simp_all add: file_store_def distinct_delete delete_conv')

lemma file_get:
  assumes "file_ready x p d" "so_get (file_store x p) n d = (r, e)"
  shows "file_ready x p e \<and> file_view x p e = file_view x p d \<and> dk_files e = dk_files d
    \<and> (\<forall>a. r = Inr a \<longrightarrow> a = file_view x p d n)"
proof -
  obtain m where m: "file_secrets x p d = Some m" using assms(1) by (auto simp: file_ready_def file_good_def)
  obtain r1 d1 where read: "read_map x p d = (r1, d1)" by fastforce
  have d1: "dk_files d1 = dk_files d" and r1: "r1 = Inr m \<or> r1 = Inl BackendUnavailable"
    using read_map_cases [OF read m] by auto
  have "e = d1" and r: "\<forall>a. r = Inr a \<longrightarrow> a = map_of m n"
    using assms(2) read r1 by (auto simp: file_store_def andthen_def act_simps)
  moreover have "file_secrets x p e = file_secrets x p d" using d1 \<open>e = d1\<close> by (simp add: file_secrets_def)
  ultimately show ?thesis using assms(1) m d1
    by (auto simp: file_ready_def file_good_def file_view_def fun_eq_iff)
qed

interpretation disk_file: secret_store "file_store x p" "file_view x p" "file_ready x p" for x p
proof (unfold_locales, goal_cases)
  case (1 s n v t)
  then show ?case using file_put [of x p s n v "Inr ()" t] by simp
next
  case (2 s n v e t)
  then show ?case using file_put [of x p s n v "Inl e" t] by simp
next
  case (3 s n r t)
  then show ?case using file_get [of x p s n r t] by simp
next
  case (4 s n t)
  then show ?case using file_del [of x p s n "Inr ()" t] by simp
next
  case (5 s n e t)
  then show ?case using file_del [of x p s n "Inl e" t] by simp
qed

section \<open>Layers\<close>

text \<open>What a layered store represents: the primary store's value, or else the fallback's.\<close>

definition layered_view ::
  "('p \<Rightarrow> string \<Rightarrow> string option) \<Rightarrow> ('f \<Rightarrow> string \<Rightarrow> string option) \<Rightarrow> ('p, 'f) layers \<Rightarrow> string \<Rightarrow> string option" where
  "layered_view vp vf s n = or_else (vp (ly_primary s) n) (vf (ly_fallback s) n)"

definition layered_good :: "('p \<Rightarrow> bool) \<Rightarrow> ('f \<Rightarrow> bool) \<Rightarrow> ('p, 'f) layers \<Rightarrow> bool" where
  "layered_good gp gf s \<longleftrightarrow> gp (ly_primary s) \<and> gf (ly_fallback s)"

definition always_in_time :: "('p, 'f) layers \<Rightarrow> bool" where
  "always_in_time s \<longleftrightarrow> (\<forall>n. ly_timing s n = InTime)"

lemma timely_answer:
  "always_in_time s \<Longrightarrow> with_timeout m k e s =
     (case m (ly_primary s) of (r, p) \<Rightarrow> k r (s\<lparr>ly_clock := Suc (ly_clock s), ly_primary := p\<rparr>))"
  by (simp add: with_timeout_def always_in_time_def Let_def split: prod.split)

locale layered_stores = P: secret_store P vp gp + F: secret_store F vf gf
  for P :: "'p store_ops" and vp gp and F :: "'f store_ops" and vf gf
begin

text \<open>After a successful deletion the name is gone from both layers, however late or broken the
  primary store is.\<close>

lemma delete_clears_both:
  assumes "layered_good gp gf s" "layered_del P F n s = (Inr (), t)"
  shows "vp (ly_primary t) n = None \<and> vf (ly_fallback t) n = None \<and> layered_good gp gf t"
proof -
  obtain p f where p: "so_del P n (ly_primary s) = (Inr (), p)" "ly_primary t = p"
    and f: "so_del F n (ly_fallback s) = (Inr (), f)" "ly_fallback t = f"
    using assms(2)
    by (auto simp: layered_del_def with_timeout_def on_fallback_def andthen_def act_simps Let_def
        split: timing.splits prod.splits sum.splits)
  show ?thesis
    using P.del_ok [OF _ p(1)] F.del_ok [OF _ f(1)] assms(1) p(2) f(2)
    by (simp add: layered_good_def)
qed

lemma primary_run_good:
  assumes "gp p" "so_put P n v p = (r, q)"
  shows "gp q"
  using P.put_ok [OF assms(1)] P.put_err [OF assms(1)] assms(2) by (cases r) fastforce+

lemma put_reaches_a_layer:
  assumes "layered_good gp gf s" "layered_put P F n v s = (Inr (), t)"
  shows "layered_good gp gf t \<and> (vp (ly_primary t) n = Some v \<or> vf (ly_fallback t) n = Some v)"
proof -
  have g: "gp (ly_primary s)" "gf (ly_fallback s)" using assms(1) by (simp_all add: layered_good_def)
  obtain r p where p: "so_put P n v (ly_primary s) = (r, p)" by fastforce
  obtain rf f where f: "so_put F n v (ly_fallback s) = (rf, f)" by fastforce
  obtain rd fd where d: "so_del F n (ly_fallback s) = (rd, fd)" by fastforce
  have gp: "gp p" using primary_run_good [OF g(1) p] .
  have stored: "rf = Inr () \<Longrightarrow> gf f \<and> vf f n = Some v" using F.put_ok [OF g(2)] f by auto
  have kept: "r = Inr () \<Longrightarrow> vp p n = Some v" "gf fd"
    using P.put_ok [OF g(1)] p F.del_keeps [OF g(2) d] by auto
  show ?thesis
    using assms(2) g p f d gp stored kept
    by (cases "ly_timing s (ly_clock s)"; cases r)
      (auto simp: layered_put_def with_timeout_def on_fallback_def ignoring_def layered_good_def Let_def)
qed

end

text \<open>With a reliable primary store that always answers in time the layered store satisfies the
  contract itself.\<close>

locale layered_on_reliable = P: reliable_store P vp gp + F: secret_store F vf gf
  for P :: "'p store_ops" and vp gp and F :: "'f store_ops" and vf gf
begin

abbreviation lgood :: "('p, 'f) layers \<Rightarrow> bool" where
  "lgood s \<equiv> always_in_time s \<and> layered_good gp gf s"

lemma layered_put_run:
  assumes "lgood s" "layered_put P F n v s = (r, t)"
  shows "r = Inr () \<and> lgood t \<and> layered_view vp vf t = (layered_view vp vf s)(n \<mapsto> v)"
proof -
  have g: "gp (ly_primary s)" "gf (ly_fallback s)" "always_in_time s"
    using assms(1) by (simp_all add: layered_good_def)
  obtain p where p: "so_put P n v (ly_primary s) = (Inr (), p)" using P.put_total [OF g(1)] by blast
  obtain rd fd where d: "so_del F n (ly_fallback s) = (rd, fd)" by fastforce
  have "t = s\<lparr>ly_clock := Suc (ly_clock s), ly_primary := p, ly_fallback := fd\<rparr>" "r = Inr ()"
    using assms(2) p d by (simp_all add: layered_put_def timely_answer [OF g(3)] on_fallback_def ignoring_def)
  then show ?thesis
    using P.put_ok [OF g(1) p] F.del_keeps [OF g(2) d] g(3)
    by (auto simp: layered_good_def layered_view_def or_else_def always_in_time_def fun_eq_iff
        split: option.split)
qed

lemma layered_get_run:
  assumes "lgood s" "layered_get P F n s = (r, t)"
  shows "lgood t \<and> layered_view vp vf t = layered_view vp vf s
    \<and> (\<forall>a. r = Inr a \<longrightarrow> a = layered_view vp vf s n)"
proof -
  have g: "gp (ly_primary s)" "gf (ly_fallback s)" "always_in_time s"
    using assms(1) by (simp_all add: layered_good_def)
  obtain a p where p: "so_get P n (ly_primary s) = (Inr a, p)" using P.get_total [OF g(1)] by blast
  have a: "gp p" "vp p = vp (ly_primary s)" "a = vp (ly_primary s) n" using P.get_ok [OF g(1) p] by auto
  obtain rd fd where d: "so_del F n (ly_fallback s) = (rd, fd)" by fastforce
  let ?s = "s\<lparr>ly_clock := Suc (ly_clock s), ly_primary := p\<rparr>"
  show ?thesis
  proof (cases a)
    case (Some v)
    then have "t = ?s\<lparr>ly_fallback := fd\<rparr>" "r = Inr (Some v)"
      using assms(2) p d by (simp_all add: layered_get_def timely_answer [OF g(3)] on_fallback_def
          ignoring_def andthen_def act_simps)
    moreover have "\<forall>m. vp (ly_primary s) m = None \<longrightarrow> vf fd m = vf (ly_fallback s) m"
      using a Some F.del_keeps(2) [OF g(2) d] by (metis option.distinct(1))
    ultimately show ?thesis
      using a Some F.del_keeps(1) [OF g(2) d] g(3)
      by (auto simp: layered_good_def layered_view_def or_else_def always_in_time_def fun_eq_iff
          split: option.split)
  next
    case None
    obtain rf f where f: "so_get F n (ly_fallback s) = (rf, f)" by fastforce
    note fg = F.get_ok [OF g(2) f]
    let ?u = "?s\<lparr>ly_fallback := f\<rparr>"
    show ?thesis
    proof (cases "\<exists>v. rf = Inr (Some v)")
      case False
      then have "t = ?u" "(\<exists>e. r = Inl e) \<or> (r = Inr None \<and> rf = Inr None)"
        using assms(2) p f None by (auto simp: layered_get_def timely_answer [OF g(3)] on_fallback_def
            andthen_def act_simps split: sum.splits option.splits)
      then show ?thesis using a None fg g(3)
        by (auto simp: layered_good_def layered_view_def or_else_def always_in_time_def fun_eq_iff)
    next
      case True
      then obtain v where v: "rf = Inr (Some v)" by blast
      obtain p2 where p2: "so_put P n v p = (Inr (), p2)" using P.put_total [OF a(1)] by blast
      obtain r2 f2 where f2: "so_del F n f = (r2, f2)" by fastforce
      have timely: "always_in_time ?u" using g(3) by (simp add: always_in_time_def)
      have "t = ?u\<lparr>ly_clock := Suc (Suc (ly_clock s)), ly_primary := p2, ly_fallback := f2\<rparr>" "r = Inr (Some v)"
        using assms(2) p f None v p2 f2
        by (simp_all add: layered_get_def timely_answer [OF g(3)] timely_answer [OF timely]
            on_fallback_def ignoring_def andthen_def act_simps)
      moreover have "\<forall>m. m = n \<or> vf f2 m = vf f m" using F.del_keeps [OF conjunct1 [OF fg] f2] by blast
      ultimately show ?thesis
        using P.put_ok [OF a(1) p2] a None fg v F.del_keeps(1) [OF conjunct1 [OF fg] f2] g(3)
        by (auto simp: layered_good_def layered_view_def or_else_def always_in_time_def fun_eq_iff
            split: option.split)
    qed
  qed
qed

lemma layered_del_run:
  assumes "lgood s" "layered_del P F n s = (r, t)"
  shows "lgood t \<and> (\<forall>m. m \<noteq> n \<longrightarrow> layered_view vp vf t m = layered_view vp vf s m)
    \<and> (r = Inr () \<longrightarrow> layered_view vp vf t n = None)"
proof -
  have g: "gp (ly_primary s)" "gf (ly_fallback s)" "always_in_time s"
    using assms(1) by (simp_all add: layered_good_def)
  obtain p where p: "so_del P n (ly_primary s) = (Inr (), p)" using P.del_total [OF g(1)] by blast
  obtain rf f where f: "so_del F n (ly_fallback s) = (rf, f)" by fastforce
  have "t = s\<lparr>ly_clock := Suc (ly_clock s), ly_primary := p, ly_fallback := f\<rparr>" "r = rf"
    using assms(2) p f by (simp_all add: layered_del_def timely_answer [OF g(3)] on_fallback_def
        andthen_def act_simps)
  moreover have "rf = Inr () \<Longrightarrow> vf f n = None" using F.del_ok [OF g(2)] f by auto
  ultimately show ?thesis
    using P.del_ok [OF g(1) p] F.del_keeps [OF g(2) f] g(3)
    by (auto simp: layered_good_def layered_view_def or_else_def always_in_time_def)
qed

end

sublocale layered_on_reliable \<subseteq> L: secret_store "layered_store P F" "layered_view vp vf" lgood
proof (unfold_locales, goal_cases)
  case (1 s n v t)
  then show ?case using layered_put_run [of s n v "Inr ()" t] by (simp add: layered_store_def)
next
  case (2 s n v e t)
  then show ?case using layered_put_run [of s n v "Inl e" t] by (simp add: layered_store_def)
next
  case (3 s n r t)
  then show ?case using layered_get_run [of s n r t] by (simp add: layered_store_def)
next
  case (4 s n t)
  then show ?case using layered_del_run [of s n "Inr ()" t] by (auto simp: layered_store_def fun_eq_iff)
next
  case (5 s n e t)
  then show ?case using layered_del_run [of s n "Inl e" t] by (simp add: layered_store_def)
qed

interpretation over_file: layered_stores memory_store map_of "\<lambda>_. True"
  "file_store x p" "file_view x p" "file_ready x p" for x p
  by unfold_locales

interpretation over_file: layered_on_reliable memory_store map_of "\<lambda>_. True"
  "file_store x p" "file_view x p" "file_ready x p" for x p
  by unfold_locales

section \<open>Claims\<close>

text \<open>Requests to a store, what they do to the map it represents, and what the file store does.\<close>

datatype store_request = PutSecret string string | GetSecret string | DeleteSecret string

fun run_request :: "'s store_ops \<Rightarrow> store_request \<Rightarrow> ('s, secret_store_error, string option) act" where
  "run_request ops (PutSecret n v) = andthen (so_put ops n v) (\<lambda>_. ret None)"
| "run_request ops (GetSecret n) = so_get ops n"
| "run_request ops (DeleteSecret n) = andthen (so_del ops n) (\<lambda>_. ret None)"

text \<open>The map after a request, when it succeeds and when it fails, and the answer of a read.\<close>

fun map_after :: "store_request \<Rightarrow> bool \<Rightarrow> (string \<Rightarrow> string option) \<Rightarrow> string \<Rightarrow> string option" where
  "map_after (PutSecret n v) ok m = (if ok then m(n \<mapsto> v) else m)"
| "map_after (GetSecret n) ok m = m"
| "map_after (DeleteSecret n) ok m = (if ok then m(n := None) else m)"

fun map_answer :: "store_request \<Rightarrow> (string \<Rightarrow> string option) \<Rightarrow> string option" where
  "map_answer (GetSecret n) m = m n"
| "map_answer _ m = None"

fun run_requests ::
  "'s store_ops \<Rightarrow> store_request list \<Rightarrow> 's \<Rightarrow> (secret_store_error + string option) list \<times> 's" where
  "run_requests ops [] s = ([], s)"
| "run_requests ops (q # qs) s =
     (let (r, t) = run_request ops q s; (rs, u) = run_requests ops qs t in (r # rs, u))"

fun follows_map ::
  "(string \<Rightarrow> string option) \<Rightarrow> store_request list \<Rightarrow> (secret_store_error + string option) list
   \<Rightarrow> (string \<Rightarrow> string option) \<Rightarrow> bool" where
  "follows_map m [] [] m' \<longleftrightarrow> m' = m"
| "follows_map m (q # qs) (r # rs) m' \<longleftrightarrow>
     (case r of Inl e \<Rightarrow> True | Inr a \<Rightarrow> a = map_answer q m) \<and> follows_map (map_after q (is_ok r) m) qs rs m'"
| "follows_map m _ _ m' \<longleftrightarrow> False"

lemma file_request:
  assumes "file_ready x p d" "run_request (file_store x p) q d = (r, e)"
  shows "file_ready x p e \<and> file_view x p e = map_after q (is_ok r) (file_view x p d)
    \<and> (case r of Inl e \<Rightarrow> True | Inr a \<Rightarrow> a = map_answer q (file_view x p d))
    \<and> (\<not> is_ok r \<longrightarrow> dk_files e p = dk_files d p)"
proof (cases q)
  case (PutSecret n v)
  obtain r1 d1 where "so_put (file_store x p) n v d = (r1, d1)" by fastforce
  with assms file_put [OF assms(1) this] PutSecret show ?thesis
    by (auto simp: andthen_def act_simps split: sum.splits)
next
  case (GetSecret n)
  with assms file_get [of x p d n r e] show ?thesis by (auto split: sum.splits)
next
  case (DeleteSecret n)
  obtain r1 d1 where "so_del (file_store x p) n d = (r1, d1)" by fastforce
  with assms file_del [OF assms(1) this] DeleteSecret show ?thesis
    by (auto simp: andthen_def act_simps split: sum.splits)
qed

text \<open>C38: whatever system calls fail, the store in a file behaves like a map: over any sequence of
  requests a successful put or delete changes exactly its name, a failed one changes nothing,
  and every read that answers answers what the map holds; the file can be read back at the end.\<close>

theorem file_store_refines_map:
  assumes "json_reads_back x" and "file_good x p d"
    and "run_requests (file_store x p) qs d = (rs, e)"
  shows "follows_map (file_view x p d) qs rs (file_view x p e) \<and> file_good x p e"
proof -
  have "file_ready x p d" using assms(1,2) by (simp add: file_ready_def)
  then have "follows_map (file_view x p d) qs rs (file_view x p e) \<and> file_ready x p e"
    using assms(3)
  proof (induction qs arbitrary: d rs)
    case (Cons q qs)
    obtain r d1 where r: "run_request (file_store x p) q d = (r, d1)" by fastforce
    obtain rs1 where rs: "run_requests (file_store x p) qs d1 = (rs1, e)" "rs = r # rs1"
      using Cons.prems(2) r by (auto simp: Let_def split: prod.splits)
    show ?case using file_request [OF Cons.prems(1) r] Cons.IH [OF _ rs(1)] rs(2) by auto
  qed simp
  then show ?thesis by (simp add: file_ready_def)
qed

text \<open>A put or delete of the store in a file that fails, at whatever system call and after
  whatever part of a write, leaves the contents of the file exactly as they were.\<close>

lemma file_store_failure_keeps_file:
  assumes "json_reads_back x" and "file_good x p d"
    and "run_request (file_store x p) q d = (Inl err, e)"
  shows "dk_files e p = dk_files d p"
  using file_request [OF _ assms(3)] assms(1,2) by (simp add: file_ready_def)


text \<open>While the primary store answers in time, the layered store returns after a successful
  put exactly what was put, from whichever layer, and every other name is unaffected.\<close>

lemma layered_put_then_get:
  assumes "json_reads_back x" and "file_good x p (ly_fallback s)" and "always_in_time s"
    and "layered_put memory_store (file_store x p) n v s = (Inr (), t)"
    and "layered_get memory_store (file_store x p) m t = (Inr a, u)"
  shows "a = (if m = n then Some v else layered_view map_of (file_view x p) s m)"
proof -
  have "over_file.lgood x p s"
    using assms(1-3) by (simp add: layered_good_def file_ready_def)
  from over_file.layered_put_run [OF this assms(4)] over_file.layered_get_run [OF _ assms(5)]
  show ?thesis by simp
qed

text \<open>C40: a put that falls back because the primary store is late is lost when the primary store
  holds an older value: the next read that reaches it answers the old value and erases the new
  one from the fallback.\<close>

theorem layered_put_may_be_lost:
  assumes "map_of (ly_primary s) n = Some old"
    and "ly_timing s (ly_clock s) = LateDropped" and "ly_timing s (Suc (ly_clock s)) = InTime"
  shows "\<exists>t u. layered_put memory_store memory_store n v s = (Inr (), t)
    \<and> layered_get memory_store memory_store n t = (Inr (Some old), u)
    \<and> map_of (ly_primary u) n = Some old \<and> map_of (ly_fallback u) n = None"
  using assms
  by (simp add: layered_put_def layered_get_def with_timeout_def on_fallback_def ignoring_def
      memory_store_def andthen_def act_simps Let_def delete_conv')

text \<open>A name that is empty, longer than 128 bytes or has a byte other than a letter, a digit
  or one of . - _ : is refused before the keyring is touched.\<close>

lemma unsafe_names_never_reach_keyring:
  assumes "\<not> is_safe_identifier n"
  shows "so_put (system_ops k s) n v w = (Inl InvalidName, w) \<and> so_get (system_ops k s) n w = (Inl InvalidName, w)
    \<and> so_del (system_ops k s) n w = (Inl InvalidName, w)"
  using assms by (simp add: system_ops_def account_for_def andthen_def act_simps)

section \<open>Witnesses\<close>

text \<open>Crates whose printer numbers the JSON documents.\<close>

instance json :: countable by countable_datatype

definition numbered_crates :: crates where
  "numbered_crates = toy_crates\<lparr> x_json_print := (\<lambda>j. replicate (to_nat j) (CHR ''1'')),
     x_json_parse := (\<lambda>s. Some (from_nat (length s))) \<rparr>"

lemma numbered_reads_back: "json_reads_back numbered_crates"
  by (simp add: json_reads_back_def numbered_crates_def)

definition empty_disk :: disk where
  "empty_disk = \<lparr> dk_files = (\<lambda>_. None), dk_faults = (\<lambda>n. if n = 3 then Breaks 0 else Works), dk_calls = 0 \<rparr>"

lemma empty_disk_good: "file_good x [''s''] empty_disk"
  by (simp add: file_good_def file_secrets_def empty_disk_def)

lemma file_store_refines_map_witness:
  "file_good numbered_crates [''s'']
     (snd (run_requests (file_store numbered_crates [''s'']) [PutSecret ''n'' ''v'', GetSecret ''n''] empty_disk))"
  using file_store_refines_map [OF numbered_reads_back empty_disk_good surjective_pairing] by blast

lemma file_store_failure_keeps_file_witness:
  "dk_files (snd (run_request (file_store numbered_crates [''s'']) (PutSecret ''n'' ''v'') empty_disk)) [''s''] = None"
proof -
  have "fst (run_request (file_store numbered_crates [''s'']) (PutSecret ''n'' ''v'') empty_disk)
      = Inl BackendUnavailable"
    by (simp add: file_store_def read_map_def write_map_def write_private_file_def sys_try_def
        sys_call_def andthen_def act_simps empty_disk_def write_file_def Let_def)
  then have "run_request (file_store numbered_crates [''s'']) (PutSecret ''n'' ''v'') empty_disk
      = (Inl BackendUnavailable, snd (run_request (file_store numbered_crates [''s'']) (PutSecret ''n'' ''v'') empty_disk))"
    by (simp add: prod_eq_iff)
  from file_store_failure_keeps_file [OF numbered_reads_back empty_disk_good this] show ?thesis
    by (simp add: empty_disk_def)
qed

definition sample_layers :: "(secrets, disk) layers" where
  "sample_layers = \<lparr> ly_primary = [(''n'', ''v'')],
     ly_fallback = empty_disk\<lparr>dk_faults := (\<lambda>_. Works)\<rparr>, ly_timing = (\<lambda>_. InTime), ly_clock = 0 \<rparr>"

lemma sample_fallback_good: "file_good x [''s''] (ly_fallback sample_layers)"
  by (simp add: file_good_def file_secrets_def sample_layers_def empty_disk_def)

lemma write_all_works:
  "dk_faults d = (\<lambda>_. Works) \<Longrightarrow> p \<noteq> [] \<Longrightarrow> \<exists>e. write_map x p m d = (Inr (), e) \<and> dk_faults e = (\<lambda>_. Works)"
  by (simp add: write_map_def write_private_file_def sys_try_def sys_call_def andthen_def act_simps
      write_file_def Let_def)

lemma read_empty_works:
  "dk_faults d = (\<lambda>_. Works) \<Longrightarrow> dk_files d p = None \<Longrightarrow> read_map x p d = (Inr [], d\<lparr>dk_calls := Suc (dk_calls d)\<rparr>)"
  by (simp add: read_map_def sys_call_def andthen_def act_simps)


lemma layered_put_then_get_witness:
  "\<exists>t u. layered_put memory_store (file_store numbered_crates [''s'']) ''n'' ''w'' sample_layers = (Inr (), t)
     \<and> layered_get memory_store (file_store numbered_crates [''s'']) ''n'' t = (Inr (Some ''w''), u)"
proof -
  have timely: "always_in_time sample_layers" by (simp add: always_in_time_def sample_layers_def)
  obtain rd fd where d: "so_del (file_store numbered_crates [''s'']) ''n'' (ly_fallback sample_layers) = (rd, fd)"
    by fastforce
  obtain rd2 fd2 where d2: "so_del (file_store numbered_crates [''s'']) ''n'' fd = (rd2, fd2)" by fastforce
  have put: "\<exists>t. layered_put memory_store (file_store numbered_crates [''s'']) ''n'' ''w'' sample_layers = (Inr (), t)
      \<and> map_of (ly_primary t) ''n'' = Some ''w'' \<and> ly_fallback t = fd \<and> ly_timing t = (\<lambda>_. InTime)"
    using d by (simp add: layered_put_def timely_answer [OF timely] on_fallback_def ignoring_def
        memory_store_def act_simps) (simp add: sample_layers_def)
  then obtain t where t: "layered_put memory_store (file_store numbered_crates [''s'']) ''n'' ''w'' sample_layers = (Inr (), t)"
    "map_of (ly_primary t) ''n'' = Some ''w''" "ly_fallback t = fd" "ly_timing t = (\<lambda>_. InTime)" by blast
  have "\<exists>a u. layered_get memory_store (file_store numbered_crates [''s'']) ''n'' t = (Inr a, u)"
    using t(2-4) d2 by (simp add: layered_get_def with_timeout_def on_fallback_def ignoring_def andthen_def
        memory_store_def act_simps Let_def)
  then obtain a u where u: "layered_get memory_store (file_store numbered_crates [''s'']) ''n'' t = (Inr a, u)"
    by blast
  from layered_put_then_get [OF numbered_reads_back sample_fallback_good timely t(1) u] t(1) u
  show ?thesis by auto
qed

definition late_layers :: "(secrets, secrets) layers" where
  "late_layers = \<lparr> ly_primary = [(''n'', ''old'')], ly_fallback = [],
     ly_timing = (\<lambda>k. if k = 0 then LateDropped else InTime), ly_clock = 0 \<rparr>"

lemma layered_put_may_be_lost_witness:
  "\<exists>t u. layered_put memory_store memory_store ''n'' ''new'' late_layers = (Inr (), t)
     \<and> layered_get memory_store memory_store ''n'' t = (Inr (Some ''old''), u)"
  using layered_put_may_be_lost [of late_layers "''n''" "''old''" "''new''"] by (auto simp: late_layers_def)

text \<open>A keyring that counts the calls it gets.\<close>

definition counting_keyring :: "nat keyring" where
  "counting_keyring = \<lparr> kr_open = (\<lambda>_ _. modify Suc), kr_set = (\<lambda>_ _ _. modify Suc),
     kr_get = (\<lambda>_ _ n. (Inr ''v'', Suc n)), kr_delete = (\<lambda>_ _. modify Suc) \<rparr>"

definition sample_system :: system_store where
  "sample_system = \<lparr> sys_service = ''ozon'', sys_account_prefix = ''node'' \<rparr>"

lemma unsafe_names_never_reach_keyring_witness:
  "so_put (system_ops counting_keyring sample_system) ''a b'' ''v'' 0 = (Inl InvalidName, 0)
     \<and> so_get (system_ops counting_keyring sample_system) ''ab'' 0 = (Inr (Some ''v''), 2)"
proof -
  have "\<not> is_safe_identifier ''a b''" by code_simp
  note refused = unsafe_names_never_reach_keyring [OF this]
  have "account_for sample_system ''ab'' = Inr ''node:ab''" by code_simp
  then have "so_get (system_ops counting_keyring sample_system) ''ab'' 0 = (Inr (Some ''v''), 2)"
    by (simp add: system_ops_def counting_keyring_def andthen_def act_simps match_res_def map_error_def)
  then show ?thesis using refused [of counting_keyring sample_system "''v''" 0] by simp
qed

end
