(* ===== verification/NodeApi.thy ===== *)
theory NodeApi
  imports DomainJson SecretStore
begin

text \<open>
  The edges of the local node (\<open>apps/local-node/src/main.rs\<close>): its error type, its
  configuration (\<open>LocalConfig::from_env\<close>, \<open>validate\<close>) and the checks every request passes:
  the operator token, the bridge token, and the origins allowed to pair. The environment maps
  names to values; what the build fixes (\<open>cfg!(debug_assertions)\<close>, \<open>option_env!\<close>) is a record.
\<close>

section \<open>Errors\<close>

record node_error =
  ne_status :: nat
  ne_message :: string

definition unauthorized_node :: "string \<Rightarrow> node_error" where
  "unauthorized_node m = \<lparr> ne_status = 401, ne_message = m \<rparr>"

definition not_found_node :: "string \<Rightarrow> node_error" where
  "not_found_node m = \<lparr> ne_status = 404, ne_message = m \<rparr>"

definition forbidden_node :: "string \<Rightarrow> node_error" where
  "forbidden_node m = \<lparr> ne_status = 403, ne_message = m \<rparr>"

definition bad_request_node :: "string \<Rightarrow> node_error" where
  "bad_request_node m = \<lparr> ne_status = 400, ne_message = m \<rparr>"

definition bad_gateway_node :: "string \<Rightarrow> node_error" where
  "bad_gateway_node m = \<lparr> ne_status = 502, ne_message = m \<rparr>"

definition internal_node :: "string \<Rightarrow> node_error" where
  "internal_node m = \<lparr> ne_status = 500, ne_message = m \<rparr>"

section \<open>The environment\<close>

type_synonym environment = "string \<Rightarrow> string option"

definition env_u64 :: "environment \<Rightarrow> string \<Rightarrow> u64 \<Rightarrow> u64" where
  "env_u64 env name fallback =
     (case env name of None \<Rightarrow> fallback
      | Some v \<Rightarrow> (case parse_unsigned (2 ^ 64 - 1) v of Inl _ \<Rightarrow> fallback | Inr n \<Rightarrow> word_of_nat n))"

definition env_u16 :: "environment \<Rightarrow> string \<Rightarrow> u16 \<Rightarrow> u16" where
  "env_u16 env name fallback =
     (case env name of None \<Rightarrow> fallback
      | Some v \<Rightarrow> (case parse_unsigned (2 ^ 16 - 1) v of Inl _ \<Rightarrow> fallback | Inr n \<Rightarrow> word_of_nat n))"

definition optional_env_node :: "environment \<Rightarrow> string \<Rightarrow> string option" where
  "optional_env_node env name =
     (case env name of None \<Rightarrow> None | Some v \<Rightarrow> if trim v = [] then None else Some v)"

definition read_optional_file_env_node ::
  "environment \<Rightarrow> (string \<Rightarrow> string option) \<Rightarrow> string \<Rightarrow> string option" where
  "read_optional_file_env_node env read name =
     Option.bind (optional_env_node env name) (\<lambda>p.
       case read p of None \<Rightarrow> None | Some v \<Rightarrow> if trim v = [] then None else Some v)"

definition configured_openclaw_allowed_origins :: "environment \<Rightarrow> string list" where
  "configured_openclaw_allowed_origins env =
     (case env ''OZON_OPENCLAW_ALLOWED_ORIGINS'' of None \<Rightarrow> []
      | Some v \<Rightarrow> filter (\<lambda>p. p \<noteq> []) (map trim (split_on (CHR '','') v)))"

section \<open>Configuration\<close>

definition default_dev_local_token :: string where
  "default_dev_local_token = ''dev-local-token''"

definition default_dev_openclaw_token :: string where
  "default_dev_openclaw_token = ''dev-openclaw-token''"

definition port_candidates :: "(nat \<times> nat) list" where
  "port_candidates = [(8790, 17870), (8791, 17871), (8890, 17970), (18790, 27870)]"

definition default_openclaw_bind_url :: string where
  "default_openclaw_bind_url = ''http://127.0.0.1:18789/openclaw/import''"

definition default_openai_image_model :: string where
  "default_openai_image_model = ''gpt-image-1''"

definition default_openai_base_url :: string where
  "default_openai_base_url = ''https://api.openai.com''"

definition default_lease_public_key_pem :: string where
  "default_lease_public_key_pem = join [CHR 0x0A]
     [''-----BEGIN PUBLIC KEY-----'',
      ''MIIBIjANBgkqhkiG9w0BAQEFAAOCAQ8AMIIBCgKCAQEAvZkEYHN2VhaoCxw2kNSU'',
      ''hIET4BU1k0ffjB6BRIBrvf73Uo3gX14swZ6TuuLUFvm6ovUDYsv3qYJEOUmwnaXK'',
      ''xE/QFwhKlny3vhC+g7LI3Pd6zRSTb9x0BwDH1yo6vctBU25o5L24FZ4qG/to/ga0'',
      ''p6Jla1IjK6kATX7ixsozQExIVaijs6tGW4WVUpizRWMmQL0VI4BpBZHLegvdDUNP'',
      ''k+s+IPC7WP3o7rl8UCU1LApyKAaQRdFxIym+mgTuKUEAR0/AJ9tPE1ez2XNCjmuN'',
      ''bJOrzcpKwBnpZOzbu4bIUanfNeCkGySqJeAIT7L/zj1j9j2Wh48mExLa0A77jxBS'',
      ''lwIDAQAB'',
      ''-----END PUBLIC KEY-----'']"

record build =
  bd_debug :: bool
  bd_lease_public_key_pem :: "string option"
  bd_commit :: string
  bd_version :: string

record local_config =
  lcf_skill_bind :: string
  lcf_agent_bind :: string
  lcf_bind_override :: bool
  lcf_operator_token :: string
  lcf_openclaw_token :: string
  lcf_use_real_ozon :: bool
  lcf_openai_base_url :: string
  lcf_openai_image_model :: string
  lcf_default_interval_secs :: u64
  lcf_default_limit :: u16
  lcf_lease_public_key_pem :: "string option"
  lcf_lease_issuer :: string
  lcf_lease_audience :: string
  lcf_allow_unsigned_lease :: bool
  lcf_openclaw_bind_url :: string

definition use_real_ozon :: "crates \<Rightarrow> build \<Rightarrow> environment \<Rightarrow> bool" where
  "use_real_ozon x b env =
     (let mode = map_option (x_unicode_lowercase x) (env ''OZON_CONNECTOR_MODE'') in
      if mode = Some ''real'' then True
      else if mode = Some ''mock'' then False
      else if env ''OZON_USE_REAL_API'' = Some ''1'' then True
      else if env ''OZON_USE_REAL_API'' = Some ''0'' then False
      else \<not> bd_debug b)"

definition local_from_env ::
  "crates \<Rightarrow> build \<Rightarrow> environment \<Rightarrow> (string \<Rightarrow> string option) \<Rightarrow> local_config" where
  "local_from_env x b env read =
     (let skill_override = env ''OZON_LOCAL_SKILL_BIND''; agent_override = env ''OZON_LOCAL_AGENT_BIND'';
          (default_skill, default_agent) = hd port_candidates in
      \<lparr> lcf_skill_bind = unwrap_or skill_override (''127.0.0.1:'' @ show_nat default_skill),
        lcf_agent_bind = unwrap_or agent_override (''127.0.0.1:'' @ show_nat default_agent),
        lcf_bind_override = (skill_override \<noteq> None \<and> agent_override \<noteq> None),
        lcf_operator_token = unwrap_or (env ''OZON_LOCAL_TOKEN'') default_dev_local_token,
        lcf_openclaw_token = unwrap_or (env ''OZON_OPENCLAW_TOKEN'') default_dev_openclaw_token,
        lcf_use_real_ozon = use_real_ozon x b env,
        lcf_openai_base_url = unwrap_or (or_else (env ''OPENAI_BASE_URL'') (env ''OPENAI_API_BASE_URL''))
          default_openai_base_url,
        lcf_openai_image_model = unwrap_or (env ''OPENAI_IMAGE_MODEL'') default_openai_image_model,
        lcf_default_interval_secs = env_u64 env ''OZON_ECOMMERCE_READ_INTERVAL_SECS'' (15 * 60),
        lcf_default_limit = env_u16 env ''OZON_ECOMMERCE_READ_LIMIT'' 20,
        lcf_lease_public_key_pem =
          or_else (optional_env_node env ''OZON_SUITE_LEASE_PUBLIC_KEY_PEM'')
            (or_else (read_optional_file_env_node env read ''OZON_SUITE_LEASE_PUBLIC_KEY_PATH'')
              (or_else (bd_lease_public_key_pem b) (Some default_lease_public_key_pem))),
        lcf_lease_issuer = unwrap_or (env ''OZON_SUITE_LEASE_ISSUER'') ''ozon66-cloud'',
        lcf_lease_audience = unwrap_or (env ''OZON_SUITE_LEASE_AUDIENCE'') ''ozon-rust-local-node'',
        lcf_allow_unsigned_lease = unwrap_or
          (Option.bind (env ''OZON_LOCAL_ALLOW_UNSIGNED_LEASE'') parse_bool) (bd_debug b),
        lcf_openclaw_bind_url = unwrap_or (env ''OZON_OPENCLAW_BIND_URL'') default_openclaw_bind_url \<rparr>)"

definition validate_openclaw_bind_url :: "crates \<Rightarrow> string \<Rightarrow> string + unit" where
  "validate_openclaw_bind_url x v =
     bind_res (ok_or ''OZON_OPENCLAW_BIND_URL must be a valid URL'' (x_url_parse x v)) (\<lambda>u.
     bind_res (ensure (url_path u = ''/openclaw/import'')
       ''OZON_OPENCLAW_BIND_URL must point to /openclaw/import'') (\<lambda>_.
       let host = unwrap_or (url_host u) [] in
       ensure ((url_scheme u = ''https'' \<and> host \<in> {''ozonclaw.jl696.cn'', ''www.ozonclaw.jl696.cn''}
                \<and> url_port u = Some 443)
             \<or> (url_scheme u = ''http'' \<and> host \<in> {''127.0.0.1'', ''localhost''} \<and> url_port u = Some 18789))
         ''OZON_OPENCLAW_BIND_URL must be https://ozonclaw.jl696.cn/openclaw/import or http://127.0.0.1:18789/openclaw/import''))"

definition validate_local :: "crates \<Rightarrow> local_config \<Rightarrow> string + unit" where
  "validate_local x c =
     bind_res (validate_openclaw_bind_url x (lcf_openclaw_bind_url c)) (\<lambda>_.
     bind_res (ensure (\<not> (lcf_use_real_ozon c
         \<and> (lcf_operator_token c = default_dev_local_token
            \<or> lcf_openclaw_token c = default_dev_openclaw_token)))
       ''OZON_LOCAL_TOKEN and OZON_OPENCLAW_TOKEN must be explicitly set when the real Ozon connector is enabled'') (\<lambda>_.
       if lcf_use_real_ozon c \<and> \<not> lcf_allow_unsigned_lease c
       then bind_res (ok_or ''lease public key must be configured when real Ozon mode is enabled''
              (lcf_lease_public_key_pem c)) (\<lambda>pem.
            bind_res (ok_or ''lease public key must be a valid RSA public key PEM'' (x_rsa_public_pem x pem))
              (\<lambda>_. Inr ()))
       else Inr ()))"

section \<open>Ports\<close>

text \<open>\<open>bind_local_servers\<close> over the ports the system would give: each candidate pair is tried,
  and the first port of a pair is released before the next pair. The state is the list of
  ports this process holds.\<close>

definition bind_loopback :: "(nat \<Rightarrow> bool) \<Rightarrow> nat \<Rightarrow> (nat list, string, nat) act" where
  "bind_loopback free p held =
     (if free p \<and> p \<notin> set held then (Inr p, p # held)
      else (Inl (''failed to bind 127.0.0.1:'' @ show_nat p), held))"

definition drop_listener :: "nat \<Rightarrow> (nat list, 'e, unit) act" where
  "drop_listener p = modify (remove1 p)"

fun try_candidates ::
  "(nat \<Rightarrow> bool) \<Rightarrow> string option \<Rightarrow> (nat \<times> nat) list \<Rightarrow> (nat list, string, nat \<times> nat) act" where
  "try_candidates free last_err [] =
     throw (''no free loopback port pair (tried '' @ show_nat (length port_candidates)
       @ '' candidates): '' @ unwrap_or last_err ''unknown'')"
| "try_candidates free last_err ((skill_port, agent_port) # rest) =
     match_res (bind_loopback free skill_port)
       (\<lambda>skill. match_res (bind_loopback free agent_port) (\<lambda>agent. ret (skill, agent))
          (\<lambda>err. andthen (drop_listener skill) (\<lambda>_. try_candidates free (Some err) rest)))
       (\<lambda>err. try_candidates free (Some err) rest)"

section \<open>Addresses\<close>

definition local_http_url :: "string \<Rightarrow> string" where
  "local_http_url bind = ''http://'' @ bind"

text \<open>\<open>rsplit_once(':')\<close>, and 0 when there is no port.\<close>

definition local_port :: "string \<Rightarrow> nat" where
  "local_port bind =
     (case split_once (CHR '':'') (rev bind) of None \<Rightarrow> 0
      | Some (port, _) \<Rightarrow> (case parse_unsigned (2 ^ 16 - 1) (rev port) of Inl _ \<Rightarrow> 0 | Inr n \<Rightarrow> n))"

definition nibble_to_hex :: "nat \<Rightarrow> char" where
  "nibble_to_hex v = (if v \<le> 9 then char_of (48 + v) else if v \<le> 15 then char_of (65 + (v - 10)) else CHR ''0'')"

definition unreserved :: "char \<Rightarrow> bool" where
  "unreserved c \<longleftrightarrow> is_ascii_alphanumeric c \<or> c \<in> set ''-_.~''"

definition percent_encode_url_component :: "string \<Rightarrow> string" where
  "percent_encode_url_component v =
     concat (map (\<lambda>c. if unreserved c then [c]
       else [CHR ''%'', nibble_to_hex (code c div 16), nibble_to_hex (code c mod 16)]) v)"

definition build_openclaw_bind_url ::
  "crates \<Rightarrow> string \<Rightarrow> string \<Rightarrow> string \<Rightarrow> string \<Rightarrow> node_error + string" where
  "build_openclaw_bind_url x base_url pairing_code claim_url manifest_url =
     bind_res (ok_or (bad_request_node ''OpenClaw bind URL must be a valid URL'') (x_url_parse x base_url)) (\<lambda>_.
       Inr (x_url_with_fragment x base_url
         (''ozon66_pairing_code='' @ percent_encode_url_component pairing_code
          @ ''&claim_url='' @ percent_encode_url_component claim_url
          @ ''&manifest_url='' @ percent_encode_url_component manifest_url)))"

section \<open>Who may call\<close>

definition require_operator_token :: "local_config \<Rightarrow> headers \<Rightarrow> node_error + unit" where
  "require_operator_token c h =
     bind_res (ok_or (unauthorized_node ''missing x-local-token'') (h ''x-local-token'')) (\<lambda>token.
       ensure (constant_time_eq token (lcf_operator_token c)) (unauthorized_node ''invalid x-local-token''))"

definition header_is :: "headers \<Rightarrow> string \<Rightarrow> string \<Rightarrow> bool" where
  "header_is h name token = (case h name of None \<Rightarrow> False | Some v \<Rightarrow> constant_time_eq v token)"

definition require_bridge_or_operator_token :: "local_config \<Rightarrow> headers \<Rightarrow> node_error + unit" where
  "require_bridge_or_operator_token c h =
     ensure (header_is h ''x-local-token'' (lcf_operator_token c)
             \<or> header_is h ''x-openclaw-token'' (lcf_openclaw_token c))
       (unauthorized_node ''missing or invalid x-openclaw-token / x-local-token'')"

definition is_allowed_openclaw_pairing_origin :: "environment \<Rightarrow> string \<Rightarrow> bool" where
  "is_allowed_openclaw_pairing_origin env origin \<longleftrightarrow>
     origin \<in> {''https://ozonclaw.jl696.cn'', ''https://www.ozonclaw.jl696.cn'',
       ''http://127.0.0.1:18789'', ''http://localhost:18789''}
     \<or> origin \<in> set (configured_openclaw_allowed_origins env)"

definition require_openclaw_pairing_origin :: "environment \<Rightarrow> headers \<Rightarrow> node_error + unit" where
  "require_openclaw_pairing_origin env h =
     bind_res (ok_or (forbidden_node ''missing OpenClaw pairing origin'') (h ''origin'')) (\<lambda>origin.
       ensure (is_allowed_openclaw_pairing_origin env origin)
         (forbidden_node ''OpenClaw pairing origin is not allowed''))"

text \<open>The predicate of \<open>local_cors\<close> on an origin that is readable as text.\<close>

definition cors_allows :: "environment \<Rightarrow> string \<Rightarrow> bool" where
  "cors_allows env origin \<longleftrightarrow>
     origin \<in> {''http://localhost:5173'', ''http://127.0.0.1:5173'', ''http://localhost:5171'',
       ''http://127.0.0.1:5171'', ''https://ozon66.com'', ''https://www.ozon66.com'',
       ''https://cn.ozon66.com'', ''https://ozonclaw.jl696.cn'', ''https://www.ozonclaw.jl696.cn'',
       ''http://127.0.0.1:18789'', ''http://localhost:18789''}
     \<or> origin \<in> set (configured_openclaw_allowed_origins env)
     \<or> starts_with origin ''tauri://''"

section \<open>Lemmas\<close>

lemma operator_token_iff:
  "require_operator_token c h = Inr () \<longleftrightarrow> h ''x-local-token'' = Some (lcf_operator_token c)"
  by (cases "h ''x-local-token''")
    (simp_all add: require_operator_token_def constant_time_eq_iff ensure_def)

lemma bridge_token_iff:
  "require_bridge_or_operator_token c h = Inr () \<longleftrightarrow>
     h ''x-local-token'' = Some (lcf_operator_token c) \<or> h ''x-openclaw-token'' = Some (lcf_openclaw_token c)"
  by (simp add: require_bridge_or_operator_token_def header_is_def constant_time_eq_iff ensure_def
      split: option.splits)

text \<open>Percent encoding leaves only unreserved characters and percent signs.\<close>

lemma percent_encoded_chars:
  "c \<in> set (percent_encode_url_component s) \<Longrightarrow> unreserved c \<or> c = CHR ''%''"
proof -
  have "unreserved (nibble_to_hex n)" for n
    by (auto simp: nibble_to_hex_def unreserved_def char_simps)
  then show "c \<in> set (percent_encode_url_component s) \<Longrightarrow> unreserved c \<or> c = CHR ''%''"
    by (auto simp: percent_encode_url_component_def split: if_splits)
qed

text \<open>The first pair of free ports is taken, and nothing else is held.\<close>

lemma try_candidates_first:
  assumes "\<forall>(a, b) \<in> set cs. a \<noteq> b" "held = []"
  shows "case find (\<lambda>(a, b). free a \<and> free b) cs of
      Some (a, b) \<Rightarrow> try_candidates free e cs held = (Inr (a, b), [b, a])
    | None \<Rightarrow> (\<exists>m. try_candidates free e cs held = (Inl m, []))"
  using assms
proof (induction cs arbitrary: e)
  case (Cons ab cs)
  obtain a b where ab: "ab = (a, b)" "a \<noteq> b" using Cons.prems by auto
  show ?case
  proof (cases "free a \<and> free b")
    case True
    then show ?thesis using ab Cons.prems(2)
      by (simp add: match_res_def bind_loopback_def act_simps)
  next
    case False
    have "\<exists>e'. try_candidates free e (ab # cs) [] = try_candidates free e' cs []"
      using False ab by (auto simp: match_res_def bind_loopback_def drop_listener_def act_simps)
    then obtain e' where "try_candidates free e (ab # cs) [] = try_candidates free e' cs []" ..
    then show ?thesis using Cons.IH [of e'] Cons.prems False ab(1)
      by (simp only: find.simps split_conv if_False list.set_intros) auto
  qed
qed (simp add: act_simps)

end
