(* ===== verification/NetAddr.thy ===== *)
theory NetAddr
  imports Text
begin

text \<open>
  \<open>str::parse::<std::net::IpAddr>\<close> of the standard library and \<open>is_loopback\<close>, which decide
  whether a plain-text URL may carry an API key. A reader takes a value off the front of a
  text or leaves it alone; an address has to use up the whole text. An IPv4 address is its
  four octets, an IPv6 address its eight groups.
\<close>

type_synonym 'a reader = "string \<Rightarrow> ('a \<times> string) option"

definition hex_value :: "char \<Rightarrow> nat" where
  "hex_value c = (if is_ascii_digit c then code c - 48
     else if 97 \<le> code c then code c - 87 else code c - 55)"

text \<open>\<open>read_number\<close>: at most \<open>maxd\<close> digits, a value up to \<open>hi\<close>, and a leading zero only alone
  unless it is allowed.\<close>

fun take_digits :: "bool \<Rightarrow> string \<Rightarrow> string" where
  "take_digits hex [] = []"
| "take_digits hex (c # cs) =
     (if (if hex then is_ascii_hexdigit c else is_ascii_digit c) then c # take_digits hex cs else [])"

definition read_number :: "bool \<Rightarrow> nat \<Rightarrow> nat \<Rightarrow> bool \<Rightarrow> nat reader" where
  "read_number hex maxd hi zero_prefix s =
     (let ds = take_digits hex s; n = foldl (\<lambda>a c. a * (if hex then 16 else 10) + hex_value c) 0 ds in
      if ds = [] \<or> maxd < length ds \<or> hi < n \<or> (\<not> zero_prefix \<and> hd ds = CHR ''0'' \<and> 1 < length ds)
      then None else Some (n, drop (length ds) s))"

definition read_char :: "char \<Rightarrow> unit reader" where
  "read_char c s = (case s of [] \<Rightarrow> None | d # ds \<Rightarrow> if d = c then Some ((), ds) else None)"

text \<open>\<open>read_separator\<close>: the separator comes before every item but the first.\<close>

definition read_separator :: "char \<Rightarrow> nat \<Rightarrow> 'a reader \<Rightarrow> 'a reader" where
  "read_separator c index p s =
     (if index = 0 then p s
      else (case read_char c s of None \<Rightarrow> None | Some (_, t) \<Rightarrow> p t))"

definition read_octet :: "nat \<Rightarrow> nat reader" where
  "read_octet i = read_separator (CHR ''.'') i (read_number False 3 255 False)"

definition read_ipv4 :: "nat list reader" where
  "read_ipv4 s =
     Option.bind (read_octet 0 s) (\<lambda>(a, s).
     Option.bind (read_octet 1 s) (\<lambda>(b, s).
     Option.bind (read_octet 2 s) (\<lambda>(c, s).
     Option.bind (read_octet 3 s) (\<lambda>(d, s). Some ([a, b, c, d], s)))))"

text \<open>\<open>read_groups\<close>: up to \<open>limit\<close> groups, where an embedded IPv4 address counts for two; the
  flag says that one ended the groups.\<close>

function read_groups :: "nat \<Rightarrow> nat \<Rightarrow> nat list \<Rightarrow> string \<Rightarrow> (nat list \<times> bool) \<times> string" where
  "read_groups limit i acc s =
     (if limit \<le> i then ((acc, False), s)
      else (case (if i < limit - 1 then read_separator (CHR '':'') i read_ipv4 s else None) of
          Some (v4, t) \<Rightarrow>
            ((acc @ [v4 ! 0 * 256 + v4 ! 1, v4 ! 2 * 256 + v4 ! 3], True), t)
        | None \<Rightarrow> (case read_separator (CHR '':'') i (read_number True 4 65535 True) s of
              Some (g, t) \<Rightarrow> read_groups limit (Suc i) (acc @ [g]) t
            | None \<Rightarrow> ((acc, False), s))))"
  by pat_completeness auto
termination
  by (relation "measure (\<lambda>(limit, i, acc, s). limit - i)") auto

declare read_groups.simps [simp del]

definition read_ipv6 :: "nat list reader" where
  "read_ipv6 s =
     (case read_groups 8 0 [] s of ((head, head_ipv4), t) \<Rightarrow>
        if length head = 8 then Some (head, t)
        else if head_ipv4 then None
        else Option.bind (read_char (CHR '':'') t) (\<lambda>(_, t).
          Option.bind (read_char (CHR '':'') t) (\<lambda>(_, t).
            case read_groups (8 - (length head + 1)) 0 [] t of ((tail, _), u) \<Rightarrow>
              Some (head @ replicate (8 - length head - length tail) 0 @ tail, u))))"

datatype ip_addr = V4 "nat list" | V6 "nat list"

definition parse_ip_addr :: "string \<Rightarrow> ip_addr option" where
  "parse_ip_addr s =
     (case read_ipv4 s of
        Some (v, t) \<Rightarrow> if t = [] then Some (V4 v) else None
      | None \<Rightarrow> (case read_ipv6 s of
            Some (v, t) \<Rightarrow> if t = [] then Some (V6 v) else None
          | None \<Rightarrow> None))"

fun is_loopback :: "ip_addr \<Rightarrow> bool" where
  "is_loopback (V4 v) = (hd v = 127)"
| "is_loopback (V6 v) = (v = [0, 0, 0, 0, 0, 0, 0, 1])"

text \<open>The shape of what is read.\<close>

lemma read_ipv4_length: "read_ipv4 s = Some (v, t) \<Longrightarrow> length v = 4"
  by (auto simp: read_ipv4_def split: Option.bind_splits)

lemma read_groups_length:
  "read_groups limit i acc s = ((gs, b), t) \<Longrightarrow> length acc = i \<Longrightarrow> i \<le> limit \<Longrightarrow> length gs \<le> limit"
proof (induction limit i acc s rule: read_groups.induct)
  case (1 limit i acc s)
  from 1(2) show ?case
    unfolding read_groups.simps [of limit i acc s]
    using 1(1,3,4) by (auto split: if_splits option.splits)
qed

lemma read_ipv6_length: "read_ipv6 s = Some (v, t) \<Longrightarrow> length v = 8"
  by (auto simp: read_ipv6_def split: if_splits prod.splits Option.bind_splits
      dest!: read_groups_length [where i = 0 and acc = "[]"])

end
