(* ===== verification/Utf8.thy ===== *)
theory Utf8
  imports Text
begin

text \<open>
  The characters of a string. Strings are UTF-8 bytes; a character is a byte that does not
  continue another one together with the bytes that continue it. The operations of \<open>str\<close> that
  count or cut by characters are stated over them.
\<close>

definition is_continuation :: "char \<Rightarrow> bool" where
  "is_continuation c \<longleftrightarrow> 128 \<le> code c \<and> code c < 192"

text \<open>\<open>str::chars\<close>, each character as its bytes.\<close>

function chars :: "string \<Rightarrow> string list" where
  "chars [] = []"
| "chars (c # cs) = (c # takeWhile is_continuation cs) # chars (dropWhile is_continuation cs)"
  by pat_completeness auto
termination
  by (relation "measure length") (auto simp: le_imp_less_Suc length_dropWhile_le)

definition char_count :: "string \<Rightarrow> nat" where
  "char_count s = length (chars s)"

definition take_chars :: "nat \<Rightarrow> string \<Rightarrow> string" where
  "take_chars n s = concat (take n (chars s))"

definition is_white_space :: "string \<Rightarrow> bool" where
  "is_white_space ch \<longleftrightarrow> ch \<in> set white_space"

text \<open>\<open>str::split_whitespace\<close>: the pieces between white space, none of them empty.\<close>

fun split_ws :: "string list \<Rightarrow> string \<Rightarrow> string list" where
  "split_ws [] acc = (if acc = [] then [] else [acc])"
| "split_ws (ch # cs) acc =
     (if is_white_space ch then (if acc = [] then split_ws cs [] else acc # split_ws cs [])
      else split_ws cs (acc @ ch))"

definition split_whitespace :: "string \<Rightarrow> string list" where
  "split_whitespace s = split_ws (chars s) []"

lemma concat_chars [simp]: "concat (chars s) = s"
  by (induction s rule: chars.induct) simp_all

lemma chars_nonempty: "ch \<in> set (chars s) \<Longrightarrow> ch \<noteq> []"
  by (induction s rule: chars.induct) auto

lemma take_chars_prefix: "prefix (take_chars n s) s"
proof -
  have "s = concat (take n (chars s)) @ concat (drop n (chars s))"
    by (simp flip: concat_append)
  then show ?thesis unfolding take_chars_def by (rule prefixI)
qed

lemma take_chars_all: "char_count s \<le> n \<Longrightarrow> take_chars n s = s"
  by (simp add: take_chars_def char_count_def)

text \<open>A string that starts no character in the middle.\<close>

definition starts_char :: "string \<Rightarrow> bool" where
  "starts_char s \<longleftrightarrow> s = [] \<or> \<not> is_continuation (hd s)"

lemma starts_char_rest: "starts_char (dropWhile is_continuation cs)"
  unfolding starts_char_def by (induction cs) auto

lemma chars_split:
  assumes "starts_char r" and "\<forall>d \<in> set k. is_continuation d"
  shows "chars (c # k @ r) = (c # k) # chars r"
proof -
  have "takeWhile is_continuation (k @ r) = k \<and> dropWhile is_continuation (k @ r) = r"
    using assms by (induction k) (cases r; auto simp: starts_char_def)+
  then show ?thesis by simp
qed

lemma starts_char_take: "starts_char s \<Longrightarrow> starts_char (take_chars n s)"
  by (cases s; cases n) (simp_all add: take_chars_def starts_char_def)

text \<open>The characters of a cut string are the first characters of the string.\<close>

lemma chars_take_chars: "chars (take_chars n s) = take n (chars s)"
proof (induction s arbitrary: n rule: chars.induct)
  case (2 c cs)
  let ?k = "takeWhile is_continuation cs" and ?r = "dropWhile is_continuation cs"
  show ?case
  proof (cases n)
    case (Suc m)
    have cont: "\<forall>d \<in> set ?k. is_continuation d" by (metis set_takeWhileD)
    have "take_chars n (c # cs) = c # ?k @ take_chars m ?r" using Suc by (simp add: take_chars_def)
    then show ?thesis
      using chars_split [OF starts_char_take [OF starts_char_rest] cont, of c m cs] 2 [of m] Suc by simp
  qed (simp add: take_chars_def)
qed (simp add: take_chars_def)

lemma char_count_take: "char_count (take_chars n s) \<le> n"
  by (simp add: char_count_def chars_take_chars)

end
