(* ===== verification/OzonApi.thy ===== *)
theory OzonApi
  imports Crates Utf8
begin

text \<open>
  The interface of the Ozon connector (\<open>crates/ozon-connector/src/lib.rs\<close>): its data, its
  errors, the two connector traits as records of their operations over a network, and the
  functions that read Ozon's JSON answers. Ids are \<open>u64\<close>; a \<open>serde_json::Value\<close> is a \<open>json\<close>.
\<close>

section \<open>Data\<close>

record ozon_credentials =
  oc_client_id :: string
  oc_api_key :: string

record product_summary =
  ps_product_id :: string
  ps_offer_id :: string
  ps_name :: "string option"
  ps_visibility :: "string option"
  ps_archived :: "bool option"
  ps_has_fbo_stocks :: "bool option"
  ps_has_fbs_stocks :: "bool option"

record product_list_page =
  pl_products :: "product_summary list"
  pl_total :: u32
  pl_last_id :: "string option"

record product_lookup =
  lk_product_id :: "string option"
  lk_offer_id :: "string option"
  lk_sku :: "string option"

datatype image_role = PrimaryImage | GalleryImage | ColorImage | Spin360

record product_image =
  pi_url :: string
  pi_role :: image_role
  pi_position :: u16

record product_attribute =
  pa_id :: "u64 option"
  pa_name :: "string option"
  pa_values :: "string list"

record product_detail =
  pd_lookup :: product_lookup
  pd_product_id :: string
  pd_offer_id :: string
  pd_sku :: "string option"
  pd_name :: "string option"
  pd_description_category_id :: "u64 option"
  pd_type_id :: "u64 option"
  pd_description :: "string option"
  pd_barcodes :: "string list"
  pd_primary_image :: "string option"
  pd_images :: "product_image list"
  pd_gallery_images :: "string list"
  pd_images360 :: "string list"
  pd_color_image :: "string option"
  pd_attributes :: "product_attribute list"
  pd_visibility :: "string option"
  pd_archived :: "bool option"
  pd_autoarchived :: "bool option"
  pd_created_at :: "string option"
  pd_updated_at :: "string option"
  pd_statuses :: "json option"
  pd_source_endpoints :: "string list"
  pd_warnings :: "string list"

record category_attribute =
  ca_id :: u64
  ca_name :: string
  ca_is_collection :: bool
  ca_dictionary_id :: u64
  ca_attribute_type :: "string option"

definition is_dictionary :: "category_attribute \<Rightarrow> bool" where
  "is_dictionary a \<longleftrightarrow> ca_dictionary_id a \<noteq> 0"

record attribute_value =
  av_value_id :: u64
  av_value :: string

datatype resolved_value = DictionaryValue u64 | FreeText string

record resolved_attribute =
  ra_attribute_id :: u64
  ra_values :: "resolved_value list"

record copy_update =
  cu_offer_id :: string
  cu_name :: "string option"
  cu_description :: "string option"
  cu_attributes :: "resolved_attribute list"

record copy_update_result =
  cr_offer_id :: string
  cr_accepted :: bool
  cr_task_id :: "string option"

definition ozon_description_attribute_id :: u64 where
  "ozon_description_attribute_id = 4191"

record picture_state =
  pt_url :: string
  pt_state :: "string option"
  pt_is_primary :: "bool option"

record pictures_import =
  pm_product_id :: string
  pm_pictures :: "picture_state list"

section \<open>Errors\<close>

text \<open>\<open>MockPanicked\<close> is the overflow of \<open>idx + 1\<close> in the mock connector, which a build with
  overflow checks answers by a panic.\<close>

datatype ozon_error =
    InvalidBaseUrl string
  | InvalidProductLookup string
  | ProductNotFound string
  | ApiStatus nat string
  | UnexpectedResponse string
  | HttpError string
  | MockPanicked

fun show_ozon_error :: "ozon_error \<Rightarrow> string" where
  "show_ozon_error (InvalidBaseUrl m) = ''invalid Ozon API base URL: '' @ m"
| "show_ozon_error (InvalidProductLookup m) = ''invalid Ozon product lookup: '' @ m"
| "show_ozon_error (ProductNotFound m) = ''Ozon product not found for '' @ m"
| "show_ozon_error (ApiStatus st b) = ''Ozon API returned status '' @ show_nat st @ '': '' @ b"
| "show_ozon_error (UnexpectedResponse m) = ''unexpected Ozon API response: '' @ m"
| "show_ozon_error (HttpError m) = m"
| "show_ozon_error MockPanicked = ''attempt to add with overflow''"

section \<open>The connectors\<close>

text \<open>The network answers a request, after the requests sent before it, with a response or with
  the text of the error \<open>reqwest\<close> reports.\<close>

record network =
  nw_answer :: "http_request list \<Rightarrow> string + http_response"
  nw_sent :: "http_request list"

type_synonym 'a ozon = "(network, ozon_error, 'a) act"

definition net_send :: "http_request \<Rightarrow> (network, 'e, string + http_response) act" where
  "net_send r n = (Inr (nw_answer n (nw_sent n @ [r])), n\<lparr>nw_sent := nw_sent n @ [r]\<rparr>)"

record read_connector =
  rc_validate_credentials :: "ozon_credentials \<Rightarrow> unit ozon"
  rc_product_count :: "ozon_credentials \<Rightarrow> u32 ozon"
  rc_product_list :: "ozon_credentials \<Rightarrow> u16 \<Rightarrow> product_summary list ozon"
  rc_product_list_page :: "ozon_credentials \<Rightarrow> u16 \<Rightarrow> string option \<Rightarrow> product_list_page ozon"
  rc_list_with_visibility ::
    "ozon_credentials \<Rightarrow> u16 \<Rightarrow> string option \<Rightarrow> string option \<Rightarrow> product_list_page ozon"
  rc_product_get :: "ozon_credentials \<Rightarrow> product_lookup \<Rightarrow> product_detail ozon"

record write_connector =
  wc_pictures_import :: "ozon_credentials \<Rightarrow> string \<Rightarrow> string list \<Rightarrow> pictures_import ozon"
  wc_category_attributes :: "ozon_credentials \<Rightarrow> u64 \<Rightarrow> u64 \<Rightarrow> category_attribute list ozon"
  wc_attribute_values :: "ozon_credentials \<Rightarrow> u64 \<Rightarrow> u64 \<Rightarrow> u64 \<Rightarrow> attribute_value list ozon"
  wc_update_copy :: "ozon_credentials \<Rightarrow> copy_update \<Rightarrow> copy_update_result ozon"

section \<open>Lookups\<close>

definition non_empty_string :: "string \<Rightarrow> string option" where
  "non_empty_string v = (let t = trim v in if t = [] then None else Some t)"

definition normalize_optional :: "string option \<Rightarrow> string option" where
  "normalize_optional v =
     (case map_option trim v of None \<Rightarrow> None | Some t \<Rightarrow> if t = [] then None else Some t)"

definition normalized :: "product_lookup \<Rightarrow> product_lookup" where
  "normalized l =
     \<lparr> lk_product_id = normalize_optional (lk_product_id l),
       lk_offer_id = normalize_optional (lk_offer_id l), lk_sku = normalize_optional (lk_sku l) \<rparr>"

definition selected_identifier_count :: "product_lookup \<Rightarrow> nat" where
  "selected_identifier_count l =
     length (List.map_filter id [lk_product_id l, lk_offer_id l, lk_sku l])"

definition validate_lookup :: "product_lookup \<Rightarrow> ozon_error + product_lookup" where
  "validate_lookup l0 =
     (let l = normalized l0 in
      if selected_identifier_count l \<noteq> 1
      then Inl (InvalidProductLookup ''provide exactly one of product_id, offer_id, or sku'')
      else Inr l)"

definition parse_optional_u64_vec :: "string option \<Rightarrow> string \<Rightarrow> ozon_error + u64 list" where
  "parse_optional_u64_vec v name =
     (case v of None \<Rightarrow> Inr []
      | Some s \<Rightarrow> (case parse_unsigned (2 ^ 64 - 1) s of
            Inl _ \<Rightarrow> Inl (InvalidProductLookup (name @ '' must be a positive integer''))
          | Inr n \<Rightarrow> Inr [word_of_nat n]))"

definition lookup_label :: "product_lookup \<Rightarrow> string" where
  "lookup_label l =
     unwrap_or (or_else (map_option (\<lambda>v. ''product_id='' @ v) (lk_product_id l))
       (or_else (map_option (\<lambda>v. ''offer_id='' @ v) (lk_offer_id l))
         (map_option (\<lambda>v. ''sku='' @ v) (lk_sku l)))) ''empty lookup''"

text \<open>\<open>normalize_product_list_visibility\<close> of the connector: the default filter is \<open>ALL\<close>.\<close>

definition visibility_char :: "char \<Rightarrow> bool" where
  "visibility_char c \<longleftrightarrow> is_ascii_alphanumeric c \<or> c = CHR ''_''"

definition normalize_list_visibility :: "string option \<Rightarrow> ozon_error + string" where
  "normalize_list_visibility visibility =
     (case visibility of
        None \<Rightarrow> Inr ''ALL''
      | Some v0 \<Rightarrow> (let v = to_uppercase (trim v0) in
          if v = [] then Inr ''ALL''
          else if \<not> list_all visibility_char v
          then Inl (UnexpectedResponse (''invalid product list visibility: '' @ v))
          else Inr v))"

section \<open>Reading JSON values\<close>

definition value_get :: "string \<Rightarrow> json \<Rightarrow> json option" where
  "value_get k j = json_get j k"

text \<open>\<open>value[k]\<close>: null when there is no such entry.\<close>

definition value_at :: "json \<Rightarrow> string \<Rightarrow> json" where
  "value_at j k = unwrap_or (json_get j k) JNull"

definition as_array :: "json \<Rightarrow> json list option" where
  "as_array j = (case j of JArray js \<Rightarrow> Some js | _ \<Rightarrow> None)"

definition as_u64 :: "json \<Rightarrow> u64 option" where
  "as_u64 j = map_option word_of_int (de_int 0 (2 ^ 64 - 1) j)"

definition as_bool :: "json \<Rightarrow> bool option" where
  "as_bool = de_bool"

definition first_of :: "'a list \<Rightarrow> 'a option" where
  "first_of xs = (case xs of [] \<Rightarrow> None | x # _ \<Rightarrow> Some x)"

text \<open>The recursion of \<open>first_non_empty_string\<close> goes through the entries of an object.\<close>

lemma member_size: "(k, v) \<in> set es \<Longrightarrow> size v \<le> size_list (size_prod (\<lambda>x. 0) size) es"
  by (induction es) auto

lemma json_get_size: "json_get j k = Some v \<Longrightarrow> size v < size j"
proof (cases j)
  case (JObject es)
  assume "json_get j k = Some v"
  then have "(k, v) \<in> set es" using JObject by (simp add: json_get_def map_of_SomeD)
  then show ?thesis using JObject member_size [of k v es] by simp
qed (simp_all add: json_get_def)

function first_non_empty_string :: "json \<Rightarrow> string option" where
  "first_non_empty_string (JString s) = non_empty_string s"
| "first_non_empty_string (JInt i) = Some (show_int i)"
| "first_non_empty_string (JFloat t) = Some t"
| "first_non_empty_string (JObject es) =
     or_else (case json_get (JObject es) ''url'' of None \<Rightarrow> None | Some v \<Rightarrow> first_non_empty_string v)
       (or_else (case json_get (JObject es) ''value'' of None \<Rightarrow> None | Some v \<Rightarrow> first_non_empty_string v)
         (case json_get (JObject es) ''name'' of None \<Rightarrow> None | Some v \<Rightarrow> first_non_empty_string v))"
| "first_non_empty_string JNull = None"
| "first_non_empty_string (JBool b) = None"
| "first_non_empty_string (JArray js) = None"
  by pat_completeness auto
termination
  by (relation "measure size") (auto dest: json_get_size)

text \<open>\<open>ordered_unique\<close> and \<open>merge_unique\<close> push a value that is not there yet.\<close>

fun merge_unique :: "string list \<Rightarrow> string list \<Rightarrow> string list" where
  "merge_unique target [] = target"
| "merge_unique target (v # vs) = merge_unique (if v \<in> set target then target else target @ [v]) vs"

definition ordered_unique :: "string list \<Rightarrow> string list" where
  "ordered_unique vs = merge_unique [] vs"

definition strings_from_value :: "json \<Rightarrow> string list" where
  "strings_from_value j =
     (case j of
        JArray vs \<Rightarrow> ordered_unique (List.map_filter first_non_empty_string vs)
      | _ \<Rightarrow> (case first_non_empty_string j of None \<Rightarrow> [] | Some v \<Rightarrow> [v]))"

definition extract_attribute_values :: "json \<Rightarrow> string list" where
  "extract_attribute_values j =
     (case j of
        JArray vs \<Rightarrow> ordered_unique (List.map_filter (\<lambda>v.
          or_else (first_non_empty_string (value_at v ''value''))
            (or_else (first_non_empty_string (value_at v ''name'')) (first_non_empty_string v))) vs)
      | _ \<Rightarrow> strings_from_value j)"

definition extract_attributes :: "json \<Rightarrow> product_attribute list" where
  "extract_attributes j =
     (case Option.bind (value_get ''attributes'' j) as_array of
        None \<Rightarrow> []
      | Some attributes \<Rightarrow>
          filter (\<lambda>a. pa_id a \<noteq> None \<or> pa_name a \<noteq> None \<or> pa_values a \<noteq> [])
            (map (\<lambda>a. \<lparr> pa_id = Option.bind (value_get ''id'' a) as_u64,
                        pa_name = first_non_empty_string (value_at a ''name''),
                        pa_values = extract_attribute_values (value_at a ''values'') \<rparr>) attributes))"

definition parse_product_description :: "json \<Rightarrow> string option" where
  "parse_product_description b =
     first_non_empty_string (value_at (unwrap_or (value_get ''result'' b) b) ''description'')"

definition first_attribute_item :: "json \<Rightarrow> json option" where
  "first_attribute_item v =
     (let result = unwrap_or (value_get ''result'' v) v in
      or_else (Option.bind (Option.bind (value_get ''items'' result) as_array) first_of)
        (Option.bind (as_array result) first_of))"

definition parse_category_attributes :: "json \<Rightarrow> category_attribute list" where
  "parse_category_attributes b =
     (case or_else (Option.bind (value_get ''result'' b) as_array) (as_array b) of
        None \<Rightarrow> []
      | Some items \<Rightarrow> List.map_filter (\<lambda>item.
          Option.bind (Option.bind (value_get ''id'' item) as_u64) (\<lambda>i.
          Option.bind (first_non_empty_string (value_at item ''name'')) (\<lambda>name.
            Some \<lparr> ca_id = i, ca_name = name,
              ca_is_collection = unwrap_or (Option.bind (value_get ''is_collection'' item) as_bool) False,
              ca_dictionary_id = unwrap_or (Option.bind (value_get ''dictionary_id'' item) as_u64) 0,
              ca_attribute_type = Option.bind (value_get ''type'' item) as_str \<rparr>))) items)"

definition pending_pictures :: "string \<Rightarrow> string list \<Rightarrow> picture_state list" where
  "pending_pictures state submitted =
     map (\<lambda>(i, url). \<lparr> pt_url = url, pt_state = Some state, pt_is_primary = Some (i = 0) \<rparr>)
       (List.enumerate 0 submitted)"

definition parse_picture_states :: "json \<Rightarrow> string list \<Rightarrow> picture_state list" where
  "parse_picture_states b submitted =
     (case Option.bind (Option.bind (value_get ''result'' b) (value_get ''pictures'')) as_array of
        Some items \<Rightarrow>
          (let parsed = List.map_filter (\<lambda>item.
             Option.bind (Option.bind (value_get ''url'' item) as_str) (\<lambda>url.
               Some \<lparr> pt_url = url, pt_state = Option.bind (value_get ''state'' item) as_str,
                 pt_is_primary = Option.bind (value_get ''is_primary'' item) as_bool \<rparr>)) items
           in if parsed \<noteq> [] then parsed else pending_pictures ''pending'' submitted)
      | None \<Rightarrow> pending_pictures ''pending'' submitted)"

definition sanitize_api_error_body :: "string \<Rightarrow> string" where
  "sanitize_api_error_body b = take_chars 500 (join '' '' (split_whitespace b))"

section \<open>Images\<close>

text \<open>A position is \<open>images.len() as u16\<close>.\<close>

fun push_images :: "product_image list \<Rightarrow> string list \<Rightarrow> image_role \<Rightarrow> product_image list" where
  "push_images images [] role = images"
| "push_images images (u # us) role =
     push_images (if u \<in> pi_url ` set images then images
       else images @ [\<lparr> pi_url = u, pi_role = role, pi_position = word_of_nat (length images) \<rparr>]) us role"

definition option_list :: "'a option \<Rightarrow> 'a list" where
  "option_list a = (case a of None \<Rightarrow> [] | Some v \<Rightarrow> [v])"

definition collect_images ::
  "string option \<Rightarrow> string list \<Rightarrow> string option \<Rightarrow> string list \<Rightarrow> product_image list" where
  "collect_images primary gallery color spin360 =
     push_images (push_images (push_images (push_images [] (option_list primary) PrimaryImage)
       gallery GalleryImage) (option_list color) ColorImage) spin360 Spin360"

section \<open>Lemmas\<close>

lemma merge_unique_set: "set (merge_unique t vs) = set t \<union> set vs"
  by (induction t vs rule: merge_unique.induct) auto

lemma merge_unique_distinct: "distinct t \<Longrightarrow> distinct (merge_unique t vs)"
  by (induction t vs rule: merge_unique.induct) auto

lemma push_images_urls:
  "pi_url ` set (push_images images us role) = pi_url ` set images \<union> set us"
  by (induction images us role rule: push_images.induct) auto

lemma push_images_distinct:
  "distinct (map pi_url images) \<Longrightarrow> distinct (map pi_url (push_images images us role))"
  by (induction images us role rule: push_images.induct) auto

lemma push_images_positions:
  assumes "\<forall>i < length images. pi_position (images ! i) = word_of_nat i"
  shows "\<forall>i < length (push_images images us role).
    pi_position (push_images images us role ! i) = word_of_nat i"
  using assms
  by (induction images us role rule: push_images.induct) (auto simp: nth_append less_Suc_eq)

lemma push_images_nonempty: "images \<noteq> [] \<Longrightarrow> push_images images us role \<noteq> []"
  by (induction images us role rule: push_images.induct) auto

lemma push_images_hd: "images \<noteq> [] \<Longrightarrow> hd (push_images images us role) = hd images"
  by (induction images us role rule: push_images.induct) auto

text \<open>Each URL appears once, positions count up, and the primary image comes first.\<close>

lemma collect_images_shape:
  "distinct (map pi_url (collect_images p g c s))
   \<and> pi_url ` set (collect_images p g c s) = set (option_list p) \<union> set g \<union> set (option_list c) \<union> set s
   \<and> (\<forall>i < length (collect_images p g c s). pi_position (collect_images p g c s ! i) = word_of_nat i)
   \<and> (\<forall>u. p = Some u \<longrightarrow> collect_images p g c s \<noteq> [] \<and> pi_url (hd (collect_images p g c s)) = u)"
proof -
  have "\<forall>i < length (collect_images p g c s). pi_position (collect_images p g c s ! i) = word_of_nat i"
    unfolding collect_images_def by (intro push_images_positions) simp
  moreover have "p = Some u \<Longrightarrow> collect_images p g c s \<noteq> [] \<and> pi_url (hd (collect_images p g c s)) = u" for u
    by (simp add: collect_images_def push_images_hd push_images_nonempty option_list_def)
  ultimately show ?thesis
    by (auto simp: collect_images_def push_images_urls intro!: push_images_distinct)
qed

lemma validate_lookup_one:
  "validate_lookup l = Inr k \<Longrightarrow> selected_identifier_count k = 1 \<and> k = normalized l"
  by (simp add: validate_lookup_def Let_def split: if_splits)

end
