(* ===== verification/OzonClient.thy ===== *)
theory OzonClient
  imports OzonApi
begin

text \<open>
  The two connectors of \<open>crates/ozon-connector/src/lib.rs\<close>: \<open>OzonHttpClient\<close> over the
  network, and the mock of debug builds. Every request of the client has the same shape
  (\<open>post_ozon\<close>): the credentials as headers, a JSON body, and an error that carries the
  status and the first 500 characters of the answer unless the status is a success. The
  serializers are those of \<open>derive(Serialize)\<close> on the request structs.
\<close>

section \<open>Requests\<close>

definition post_ozon ::
  "crates \<Rightarrow> string \<Rightarrow> ozon_credentials \<Rightarrow> string \<Rightarrow> ozon_error + json \<Rightarrow> string option ozon" where
  "post_ozon x base credentials endpoint payload =
     andthen (lift (map_err InvalidBaseUrl (x_url_join x base endpoint))) (\<lambda>url.
     andthen (lift payload) (\<lambda>j.
     andthen (net_send \<lparr> hr_method = ''POST'', hr_url = url,
         hr_headers = [(''Client-Id'', oc_client_id credentials), (''Api-Key'', oc_api_key credentials),
           (''Content-Type'', ''application/json'')],
         hr_body = TextBody (x_json_print x j) \<rparr>) (\<lambda>answer.
       case answer of
         Inl e \<Rightarrow> throw (HttpError e)
       | Inr r \<Rightarrow>
           if \<not> is_success (rsp_status r)
           then throw (ApiStatus (rsp_status r) (sanitize_api_error_body
                  (unwrap_or (rsp_body r) ''failed to read Ozon error body'')))
           else ret (rsp_body r))))"

text \<open>\<open>response.json::<T>()\<close>.\<close>

definition decode_json :: "crates \<Rightarrow> 'a de \<Rightarrow> string option \<Rightarrow> 'a ozon" where
  "decode_json x d b =
     lift (ok_or (HttpError (x_decode_error x b)) (Option.bind (Option.bind b (x_json_parse x)) d))"

definition j_u64 :: "u64 \<Rightarrow> json" where
  "j_u64 n = JInt (uint n)"

definition j_strings :: "string list \<Rightarrow> json" where
  "j_strings ss = JArray (map JString ss)"

text \<open>A field that is left out when it is empty.\<close>

definition unless_empty :: "string \<Rightarrow> json list \<Rightarrow> (string \<times> json) list" where
  "unless_empty k js = (if js = [] then [] else [(k, JArray js)])"

definition product_list_request :: "string \<Rightarrow> u16 \<Rightarrow> string \<Rightarrow> json" where
  "product_list_request visibility limit last_id = JObject
     [(''filter'', JObject [(''visibility'', JString visibility)]),
      (''limit'', JInt (uint limit)), (''last_id'', JString last_id)]"

definition product_info_list_request :: "product_lookup \<Rightarrow> ozon_error + json" where
  "product_info_list_request l =
     bind_res (parse_optional_u64_vec (lk_product_id l) ''product_id'') (\<lambda>product_id.
     bind_res (parse_optional_u64_vec (lk_sku l) ''sku'') (\<lambda>sku.
       Inr (JObject (unless_empty ''product_id'' (map j_u64 product_id)
         @ unless_empty ''offer_id'' (map JString (option_list (lk_offer_id l)))
         @ unless_empty ''sku'' (map j_u64 sku)))))"

definition product_info_attributes_request :: "product_lookup \<Rightarrow> ozon_error + json option" where
  "product_info_attributes_request l =
     (if lk_sku l \<noteq> None \<and> lk_product_id l = None \<and> lk_offer_id l = None then Inr None
      else bind_res (parse_optional_u64_vec (lk_product_id l) ''product_id'') (\<lambda>product_id.
        Inr (Some (JObject
          [(''filter'', JObject (unless_empty ''product_id'' (map j_u64 product_id)
              @ unless_empty ''offer_id'' (map JString (option_list (lk_offer_id l)))
              @ [(''visibility'', JString ''ALL'')])),
           (''limit'', JInt 1), (''last_id'', JString [])]))))"

definition product_info_description_request :: "product_lookup \<Rightarrow> ozon_error + json" where
  "product_info_description_request l =
     bind_res (parse_optional_u64_vec (lk_product_id l) ''product_id'') (\<lambda>ids.
       let product_id = first_of ids; offer_id = lk_offer_id l in
       if product_id = None \<and> offer_id = None
       then Inl (InvalidProductLookup ''description lookup requires product_id or offer_id'')
       else Inr (JObject (map (\<lambda>i. (''product_id'', j_u64 i)) (option_list product_id)
         @ map (\<lambda>i. (''offer_id'', JString i)) (option_list offer_id))))"

section \<open>Answers\<close>

definition de_unsigned :: "int \<Rightarrow> 'w::len word de" where
  "de_unsigned hi j = map_option word_of_int (de_int 0 hi j)"

abbreviation de_u64 :: "u64 de" where
  "de_u64 \<equiv> de_unsigned (2 ^ 64 - 1)"

abbreviation de_u32 :: "u32 de" where
  "de_u32 \<equiv> de_unsigned (2 ^ 32 - 1)"

text \<open>A field with \<open>serde(default)\<close>: absent is the default, anything else has to parse.\<close>

definition field_default :: "string \<Rightarrow> 'a \<Rightarrow> 'a de \<Rightarrow> 'a de" where
  "field_default k dflt d j =
     (if is_object j then (case json_get j k of None \<Rightarrow> Some dflt | Some v \<Rightarrow> d v) else None)"

text \<open>An \<open>Option\<close> field with an alias: giving both names is an error.\<close>

definition field_opt_alias :: "string \<Rightarrow> string \<Rightarrow> 'a de \<Rightarrow> 'a option de" where
  "field_opt_alias k k' d j =
     (if json_get j k \<noteq> None \<and> json_get j k' \<noteq> None then None
      else if json_get j k' \<noteq> None then field_opt k' d j else field_opt k d j)"

definition summary_of_json :: "product_summary de" where
  "summary_of_json j =
     Option.bind (field ''product_id'' de_u64 j) (\<lambda>product_id.
     Option.bind (field ''offer_id'' de_string j) (\<lambda>offer_id.
     Option.bind (field_opt ''name'' de_string j) (\<lambda>name.
     Option.bind (field_opt ''visibility'' de_string j) (\<lambda>visibility.
     Option.bind (field_opt ''archived'' de_bool j) (\<lambda>archived.
     Option.bind (field_opt ''has_fbo_stocks'' de_bool j) (\<lambda>fbo.
     Option.bind (field_opt ''has_fbs_stocks'' de_bool j) (\<lambda>fbs.
       Some \<lparr> ps_product_id = show_nat (unat product_id), ps_offer_id = offer_id, ps_name = name,
         ps_visibility = visibility, ps_archived = archived, ps_has_fbo_stocks = fbo,
         ps_has_fbs_stocks = fbs \<rparr>)))))))"

definition product_list_response_of_json ::
  "(product_summary list \<times> u32 option \<times> string option) de" where
  "product_list_response_of_json j =
     field ''result'' (\<lambda>r.
       Option.bind (field ''items'' (de_array summary_of_json) r) (\<lambda>items.
       Option.bind (field_opt ''total'' de_u32 r) (\<lambda>total.
       Option.bind (field_opt ''last_id'' de_string r) (\<lambda>last_id. Some (items, total, last_id))))) j"

record info_item =
  ii_id :: "u64 option"
  ii_offer_id :: "string option"
  ii_sku :: "json option"
  ii_name :: "string option"
  ii_description_category_id :: "u64 option"
  ii_type_id :: "u64 option"
  ii_barcodes :: json
  ii_primary_image :: json
  ii_images :: json
  ii_images360 :: json
  ii_color_image :: json
  ii_archived :: "bool option"
  ii_autoarchived :: "bool option"
  ii_visibility :: "string option"
  ii_created_at :: "string option"
  ii_updated_at :: "string option"
  ii_statuses :: "json option"

definition info_item_of_json :: "info_item de" where
  "info_item_of_json j =
     Option.bind (field_opt_alias ''id'' ''product_id'' de_u64 j) (\<lambda>i.
     Option.bind (field_opt ''offer_id'' de_string j) (\<lambda>offer_id.
     Option.bind (field_opt ''sku'' Some j) (\<lambda>sku.
     Option.bind (field_opt ''name'' de_string j) (\<lambda>name.
     Option.bind (field_opt ''description_category_id'' de_u64 j) (\<lambda>category.
     Option.bind (field_opt ''type_id'' de_u64 j) (\<lambda>type_id.
     Option.bind (field_opt_alias ''archived'' ''is_archived'' de_bool j) (\<lambda>archived.
     Option.bind (field_opt_alias ''autoarchived'' ''is_autoarchived'' de_bool j) (\<lambda>autoarchived.
     Option.bind (field_opt ''visibility'' de_string j) (\<lambda>visibility.
     Option.bind (field_opt ''created_at'' de_string j) (\<lambda>created.
     Option.bind (field_opt ''updated_at'' de_string j) (\<lambda>updated.
     Option.bind (field_opt ''statuses'' Some j) (\<lambda>statuses.
       Some \<lparr> ii_id = i, ii_offer_id = offer_id, ii_sku = sku, ii_name = name,
         ii_description_category_id = category, ii_type_id = type_id,
         ii_barcodes = value_at j ''barcodes'', ii_primary_image = value_at j ''primary_image'',
         ii_images = value_at j ''images'', ii_images360 = value_at j ''images360'',
         ii_color_image = value_at j ''color_image'', ii_archived = archived,
         ii_autoarchived = autoarchived, ii_visibility = visibility, ii_created_at = created,
         ii_updated_at = updated, ii_statuses = statuses \<rparr>))))))))))))"

definition info_items_of_json :: "(info_item list \<times> info_item list option) de" where
  "info_items_of_json j =
     Option.bind (field_default ''items'' [] (de_array info_item_of_json) j) (\<lambda>items.
     Option.bind (field_opt ''result'' (field_default ''items'' [] (de_array info_item_of_json)) j)
       (\<lambda>result. Some (items, result)))"

section \<open>Products\<close>

definition detail_from_info_item :: "product_lookup \<Rightarrow> info_item \<Rightarrow> ozon_error + product_detail" where
  "detail_from_info_item l item =
     bind_res (ok_or (UnexpectedResponse ''missing product id'')
       (or_else (map_option (\<lambda>i. show_nat (unat i)) (ii_id item)) (lk_product_id l))) (\<lambda>product_id.
     bind_res (ok_or (UnexpectedResponse ''missing offer id'')
       (or_else (ii_offer_id item) (lk_offer_id l))) (\<lambda>offer_id.
       let primary = first_of (strings_from_value (ii_primary_image item));
           gallery = strings_from_value (ii_images item);
           images360 = strings_from_value (ii_images360 item);
           color = first_of (strings_from_value (ii_color_image item)) in
       Inr \<lparr> pd_lookup = l, pd_product_id = product_id, pd_offer_id = offer_id,
         pd_sku = Option.bind (ii_sku item) first_non_empty_string, pd_name = ii_name item,
         pd_description_category_id = ii_description_category_id item, pd_type_id = ii_type_id item,
         pd_description = None, pd_barcodes = strings_from_value (ii_barcodes item),
         pd_primary_image = primary, pd_images = collect_images primary gallery color images360,
         pd_gallery_images = gallery, pd_images360 = images360, pd_color_image = color,
         pd_attributes = [], pd_visibility = ii_visibility item, pd_archived = ii_archived item,
         pd_autoarchived = ii_autoarchived item, pd_created_at = ii_created_at item,
         pd_updated_at = ii_updated_at item, pd_statuses = ii_statuses item,
         pd_source_endpoints = [''/v3/product/info/list''], pd_warnings = [] \<rparr>))"

record attributes_supplement =
  as_attributes :: "product_attribute list"
  as_primary_image :: "string option"
  as_gallery_images :: "string list"
  as_images360 :: "string list"
  as_color_image :: "string option"

definition supplement_from_value :: "json \<Rightarrow> attributes_supplement" where
  "supplement_from_value v =
     \<lparr> as_attributes = extract_attributes v,
       as_primary_image = first_of (strings_from_value (value_at v ''primary_image'')),
       as_gallery_images = strings_from_value (value_at v ''images''),
       as_images360 = strings_from_value (value_at v ''images360''),
       as_color_image = first_of (strings_from_value (value_at v ''color_image'')) \<rparr>"

definition apply_attribute_supplement ::
  "product_detail \<Rightarrow> attributes_supplement \<Rightarrow> product_detail" where
  "apply_attribute_supplement d supp =
     (let primary = or_else (pd_primary_image d) (as_primary_image supp);
          gallery = merge_unique (pd_gallery_images d) (as_gallery_images supp);
          images360 = merge_unique (pd_images360 d) (as_images360 supp);
          color = or_else (pd_color_image d) (as_color_image supp) in
      d\<lparr> pd_attributes := as_attributes supp, pd_primary_image := primary,
         pd_gallery_images := gallery, pd_images360 := images360, pd_color_image := color,
         pd_images := collect_images primary gallery color images360,
         pd_source_endpoints := pd_source_endpoints d @ [''/v4/product/info/attributes''] \<rparr>)"

definition product_info_list :: "crates \<Rightarrow> string \<Rightarrow> ozon_credentials \<Rightarrow> product_lookup \<Rightarrow> info_item ozon" where
  "product_info_list x base credentials l =
     andthen (post_ozon x base credentials ''/v3/product/info/list'' (product_info_list_request l)) (\<lambda>b.
     andthen (decode_json x info_items_of_json b) (\<lambda>(items, result).
       lift (ok_or (ProductNotFound (lookup_label l))
         (or_else (first_of items) (Option.bind result first_of)))))"

definition product_info_attributes ::
  "crates \<Rightarrow> string \<Rightarrow> ozon_credentials \<Rightarrow> product_lookup \<Rightarrow> attributes_supplement option ozon" where
  "product_info_attributes x base credentials l =
     andthen (lift (product_info_attributes_request l)) (\<lambda>request.
       case request of
         None \<Rightarrow> ret None
       | Some j \<Rightarrow>
           andthen (post_ozon x base credentials ''/v4/product/info/attributes'' (Inr j)) (\<lambda>b.
           andthen (decode_json x Some b) (\<lambda>v.
             ret (map_option supplement_from_value (first_attribute_item v)))))"

definition product_info_description ::
  "crates \<Rightarrow> string \<Rightarrow> ozon_credentials \<Rightarrow> product_lookup \<Rightarrow> string option ozon" where
  "product_info_description x base credentials l =
     andthen (lift (product_info_description_request l)) (\<lambda>j.
     andthen (post_ozon x base credentials ''/v1/product/info/description'' (Inr j)) (\<lambda>b.
     andthen (decode_json x Some b) (\<lambda>v. ret (parse_product_description v))))"

definition add_warning :: "string \<Rightarrow> product_detail \<Rightarrow> product_detail" where
  "add_warning w d = d\<lparr>pd_warnings := pd_warnings d @ [w]\<rparr>"

definition http_product_get ::
  "crates \<Rightarrow> string \<Rightarrow> ozon_credentials \<Rightarrow> product_lookup \<Rightarrow> product_detail ozon" where
  "http_product_get x base credentials l0 =
     andthen (lift (validate_lookup l0)) (\<lambda>l.
     andthen (product_info_list x base credentials l) (\<lambda>item.
     andthen (lift (detail_from_info_item l item)) (\<lambda>d0.
       let by_id = \<lparr> lk_product_id = Some (pd_product_id d0), lk_offer_id = None, lk_sku = None \<rparr> in
     andthen (match_res (product_info_attributes x base credentials by_id)
         (\<lambda>found. ret (case found of
              Some supp \<Rightarrow> apply_attribute_supplement d0 supp
            | None \<Rightarrow> add_warning ''Ozon attributes endpoint returned no matching product'' d0))
         (\<lambda>e. ret (add_warning
            (''Ozon attributes endpoint could not enrich product facts: '' @ show_ozon_error e) d0))) (\<lambda>d1.
     andthen (match_res (product_info_description x base credentials by_id)
         (\<lambda>found. ret (case found of
              Some description \<Rightarrow> d1\<lparr> pd_description := Some description,
                pd_source_endpoints := pd_source_endpoints d1 @ [''/v1/product/info/description''] \<rparr>
            | None \<Rightarrow> d1))
         (\<lambda>e. ret (add_warning
            (''Ozon description endpoint could not enrich product facts: '' @ show_ozon_error e) d1))) (\<lambda>d2.
       ret (if pd_images d2 = [] then add_warning ''Ozon returned no product images for this product'' d2
            else d2))))))"

definition http_list_with_visibility ::
  "crates \<Rightarrow> string \<Rightarrow> ozon_credentials \<Rightarrow> u16 \<Rightarrow> string option \<Rightarrow> string option \<Rightarrow> product_list_page ozon" where
  "http_list_with_visibility x base credentials limit last_id visibility =
     andthen (post_ozon x base credentials ''/v3/product/list''
       (bind_res (normalize_list_visibility visibility) (\<lambda>v.
         Inr (product_list_request v (max 1 (min 1000 limit)) (unwrap_or last_id []))))) (\<lambda>b.
     andthen (decode_json x product_list_response_of_json b) (\<lambda>(items, total, last).
     andthen (lift (ok_or (UnexpectedResponse ''missing result.total'') total)) (\<lambda>total.
       ret \<lparr> pl_products = items, pl_total = total,
         pl_last_id = (case last of Some l \<Rightarrow> if l = [] then None else Some l | None \<Rightarrow> None) \<rparr>)))"

definition http_read_connector :: "crates \<Rightarrow> string \<Rightarrow> read_connector" where
  "http_read_connector x base =
     (let page = \<lambda>credentials limit last_id. http_list_with_visibility x base credentials limit last_id None;
          count = \<lambda>credentials. andthen (page credentials 1 None) (\<lambda>p. ret (pl_total p)) in
      \<lparr> rc_validate_credentials = (\<lambda>credentials. andthen (count credentials) (\<lambda>_. ret ())),
        rc_product_count = count,
        rc_product_list = (\<lambda>credentials limit. andthen (page credentials limit None) (\<lambda>p. ret (pl_products p))),
        rc_product_list_page = page,
        rc_list_with_visibility = http_list_with_visibility x base,
        rc_product_get = http_product_get x base \<rparr>)"

section \<open>Writing\<close>

definition import_value :: "resolved_value \<Rightarrow> json" where
  "import_value v = (case v of
      DictionaryValue i \<Rightarrow> JObject [(''dictionary_value_id'', j_u64 i)]
    | FreeText t \<Rightarrow> JObject [(''value'', JString t)])"

text \<open>\<open>ImportAttribute::from_resolved\<close> and its serialization.\<close>

definition import_attribute :: "resolved_attribute \<Rightarrow> json" where
  "import_attribute a = JObject
     [(''id'', j_u64 (ra_attribute_id a)), (''values'', JArray (map import_value (ra_values a)))]"

definition trimmed_filled :: "string option \<Rightarrow> string option" where
  "trimmed_filled v =
     (case v of None \<Rightarrow> None | Some s \<Rightarrow> if trim s = [] then None else Some (trim s))"

definition import_item :: "string \<Rightarrow> copy_update \<Rightarrow> json" where
  "import_item offer_id u = JObject
     ([(''offer_id'', JString offer_id)]
      @ map (\<lambda>n. (''name'', JString n)) (option_list (trimmed_filled (cu_name u)))
      @ [(''attributes'', JArray (map import_attribute (cu_attributes u)
          @ map (\<lambda>d. import_attribute \<lparr> ra_attribute_id = ozon_description_attribute_id,
                   ra_values = [FreeText d] \<rparr>) (option_list (trimmed_filled (cu_description u)))))])"

definition http_pictures_import ::
  "crates \<Rightarrow> string \<Rightarrow> ozon_credentials \<Rightarrow> string \<Rightarrow> string list \<Rightarrow> pictures_import ozon" where
  "http_pictures_import x base credentials product_id images =
     andthen (lift (ok_or (InvalidProductLookup
         (''product_id must be numeric to import pictures, got '' @ x_debug_str x product_id))
       (parse_i64 (trim product_id)))) (\<lambda>product_number.
     andthen (lift (ensure (images \<noteq> [])
       (InvalidProductLookup ''pictures_import requires at least one image URL''))) (\<lambda>_.
     andthen (post_ozon x base credentials ''/v1/product/pictures/import'' (Inr (JObject
       [(''product_id'', JInt product_number), (''images'', j_strings images),
        (''color_image'', JString []), (''images360'', JArray [])]))) (\<lambda>b.
     andthen (decode_json x Some b) (\<lambda>v.
       ret \<lparr> pm_product_id = product_id, pm_pictures = parse_picture_states v images \<rparr>))))"

definition http_category_attributes ::
  "crates \<Rightarrow> string \<Rightarrow> ozon_credentials \<Rightarrow> u64 \<Rightarrow> u64 \<Rightarrow> category_attribute list ozon" where
  "http_category_attributes x base credentials category type_id =
     andthen (post_ozon x base credentials ''/v1/description-category/attribute'' (Inr (JObject
       [(''description_category_id'', j_u64 category), (''type_id'', j_u64 type_id),
        (''language'', JString ''DEFAULT'')]))) (\<lambda>b.
     andthen (decode_json x Some b) (\<lambda>v. ret (parse_category_attributes v)))"

definition value_item_of_json :: "(u64 \<times> string) de" where
  "value_item_of_json j =
     Option.bind (field ''id'' de_u64 j) (\<lambda>i.
     Option.bind (field_default ''value'' [] de_string j) (\<lambda>v. Some (i, v)))"

definition values_response_of_json :: "((u64 \<times> string) list \<times> bool) de" where
  "values_response_of_json j =
     Option.bind (field_default ''result'' [] (de_array value_item_of_json) j) (\<lambda>items.
     Option.bind (field_default ''has_next'' False de_bool j) (\<lambda>more. Some (items, more)))"

definition max_id :: "(u64 \<times> string) list \<Rightarrow> u64 option" where
  "max_id items = (if items = [] then None else Some (Max (fst ` set items)))"

definition named_values :: "(u64 \<times> string) list \<Rightarrow> attribute_value list" where
  "named_values items = List.map_filter (\<lambda>(i, v).
     map_option (\<lambda>t. \<lparr> av_value_id = i, av_value = t \<rparr>) (non_empty_string v)) items"

text \<open>The loop over at most 200 pages; \<open>pages\<close> counts the rounds left.\<close>

fun value_pages ::
  "crates \<Rightarrow> string \<Rightarrow> ozon_credentials \<Rightarrow> u64 \<Rightarrow> u64 \<Rightarrow> u64 \<Rightarrow> nat \<Rightarrow> u64 \<Rightarrow> attribute_value list
   \<Rightarrow> attribute_value list ozon" where
  "value_pages x base credentials category type_id attribute 0 cursor values = ret values"
| "value_pages x base credentials category type_id attribute (Suc pages) cursor values =
     andthen (post_ozon x base credentials ''/v1/description-category/attribute/values'' (Inr (JObject
       [(''description_category_id'', j_u64 category), (''type_id'', j_u64 type_id),
        (''attribute_id'', j_u64 attribute), (''limit'', JInt 5000), (''last_value_id'', j_u64 cursor)]))) (\<lambda>b.
     andthen (decode_json x values_response_of_json b) (\<lambda>(items, has_next).
       let found = values @ named_values items in
       if \<not> has_next then ret found
       else (case max_id items of
           Some i \<Rightarrow> value_pages x base credentials category type_id attribute pages i found
         | None \<Rightarrow> ret found)))"

definition http_attribute_values ::
  "crates \<Rightarrow> string \<Rightarrow> ozon_credentials \<Rightarrow> u64 \<Rightarrow> u64 \<Rightarrow> u64 \<Rightarrow> attribute_value list ozon" where
  "http_attribute_values x base credentials category type_id attribute =
     value_pages x base credentials category type_id attribute 200 0 []"

definition http_update_copy ::
  "crates \<Rightarrow> string \<Rightarrow> ozon_credentials \<Rightarrow> copy_update \<Rightarrow> copy_update_result ozon" where
  "http_update_copy x base credentials u =
     (let offer_id = trim (cu_offer_id u) in
      andthen (lift (ensure (offer_id \<noteq> [])
        (InvalidProductLookup ''product_update_copy requires a non-empty offer_id''))) (\<lambda>_.
      andthen (post_ozon x base credentials ''/v3/product/import''
        (Inr (JObject [(''items'', JArray [import_item offer_id u])]))) (\<lambda>b.
      andthen (decode_json x Some b) (\<lambda>v.
        ret \<lparr> cr_offer_id = offer_id, cr_accepted = True,
          cr_task_id = Option.bind (Option.bind (value_get ''result'' v) (value_get ''task_id''))
            first_non_empty_string \<rparr>))))"

definition http_write_connector :: "crates \<Rightarrow> string \<Rightarrow> write_connector" where
  "http_write_connector x base =
     \<lparr> wc_pictures_import = http_pictures_import x base,
       wc_category_attributes = http_category_attributes x base,
       wc_attribute_values = http_attribute_values x base,
       wc_update_copy = http_update_copy x base \<rparr>"

section \<open>The mock of debug builds\<close>

definition mock_summary :: "string \<Rightarrow> nat \<Rightarrow> product_summary" where
  "mock_summary visibility i =
     \<lparr> ps_product_id = ''mock-product-'' @ show_nat i, ps_offer_id = ''SKU-MOCK-'' @ show_nat i,
       ps_name = Some (''Mock Ozon product '' @ show_nat (i + 1)),
       ps_visibility = Some (to_lowercase visibility), ps_archived = Some (visibility = ''ARCHIVED''),
       ps_has_fbo_stocks = Some (i mod 2 = 0), ps_has_fbs_stocks = Some True \<rparr>"

definition mock_list_with_visibility ::
  "ozon_credentials \<Rightarrow> u16 \<Rightarrow> string option \<Rightarrow> string option \<Rightarrow> product_list_page ozon" where
  "mock_list_with_visibility credentials limit last_id visibility =
     andthen (lift (normalize_list_visibility visibility)) (\<lambda>v.
       ret \<lparr> pl_products = map (mock_summary v) [0..<unat (min limit 3)], pl_total = 3, pl_last_id = None \<rparr>)"

definition mock_detail :: "product_lookup \<Rightarrow> nat \<Rightarrow> product_detail" where
  "mock_detail l i =
     (let primary = ''https://cdn.example.test/ozon/mock-'' @ show_nat i @ ''-primary.jpg'';
          gallery = ''https://cdn.example.test/ozon/mock-'' @ show_nat i @ ''-gallery.jpg'' in
      \<lparr> pd_lookup = l,
        pd_product_id = unwrap_or (lk_product_id l) (''mock-product-'' @ show_nat i),
        pd_offer_id = unwrap_or (lk_offer_id l) (''SKU-MOCK-'' @ show_nat i),
        pd_sku = Some (''MOCK-SKU-'' @ show_nat i),
        pd_name = Some (''Mock Ozon product '' @ show_nat (i + 1)),
        pd_description_category_id = Some 10001, pd_type_id = Some 20001,
        pd_description = Some (''Mock Ozon description for product '' @ show_nat (i + 1)),
        pd_barcodes = [''46000000000'' @ show_nat i], pd_primary_image = Some primary,
        pd_images = [\<lparr> pi_url = primary, pi_role = PrimaryImage, pi_position = 0 \<rparr>,
          \<lparr> pi_url = gallery, pi_role = GalleryImage, pi_position = 1 \<rparr>],
        pd_gallery_images = [gallery], pd_images360 = [], pd_color_image = None,
        pd_attributes = [\<lparr> pa_id = Some 1, pa_name = Some ''Brand'', pa_values = [''Mock Brand''] \<rparr>,
          \<lparr> pa_id = Some 2, pa_name = Some ''Color'', pa_values = [''Graphite''] \<rparr>],
        pd_visibility = Some ''visible'', pd_archived = Some False, pd_autoarchived = Some False,
        pd_created_at = None, pd_updated_at = None, pd_statuses = None,
        pd_source_endpoints = [''mock:/v3/product/info/list'', ''mock:/v4/product/info/attributes''],
        pd_warnings = [] \<rparr>)"

definition mock_product_get :: "ozon_credentials \<Rightarrow> product_lookup \<Rightarrow> product_detail ozon" where
  "mock_product_get credentials l0 =
     andthen (lift (validate_lookup l0)) (\<lambda>l.
       let i = (case Option.bind (lk_product_id l) (strip_prefix ''mock-product-'') of
                  None \<Rightarrow> 0
                | Some rest \<Rightarrow> (case parse_unsigned (2 ^ 64 - 1) rest of Inl _ \<Rightarrow> 0 | Inr n \<Rightarrow> n)) in
       if i = 2 ^ 64 - 1 then throw MockPanicked else ret (mock_detail l i))"

definition mock_read_connector :: read_connector where
  "mock_read_connector =
     (let page = \<lambda>credentials limit last_id. mock_list_with_visibility credentials limit last_id None in
      \<lparr> rc_validate_credentials = (\<lambda>_. ret ()), rc_product_count = (\<lambda>_. ret 3),
        rc_product_list = (\<lambda>credentials limit. andthen (page credentials limit None) (\<lambda>p. ret (pl_products p))),
        rc_product_list_page = page, rc_list_with_visibility = mock_list_with_visibility,
        rc_product_get = mock_product_get \<rparr>)"

definition mock_write_connector :: write_connector where
  "mock_write_connector =
     \<lparr> wc_pictures_import = (\<lambda>_ product_id images.
         andthen (lift (ensure (images \<noteq> [])
           (InvalidProductLookup ''pictures_import requires at least one image URL''))) (\<lambda>_.
           ret \<lparr> pm_product_id = product_id, pm_pictures = pending_pictures ''imported'' images \<rparr>)),
       wc_category_attributes = (\<lambda>_ _ _. ret
         [\<lparr> ca_id = 85, ca_name = ''Brand'', ca_is_collection = False, ca_dictionary_id = 0,
            ca_attribute_type = Some ''String'' \<rparr>,
          \<lparr> ca_id = 10096, ca_name = ''Color'', ca_is_collection = False, ca_dictionary_id = 901,
            ca_attribute_type = Some ''String'' \<rparr>]),
       wc_attribute_values = (\<lambda>_ _ _ _. ret
         [\<lparr> av_value_id = 5001, av_value = ''Graphite'' \<rparr>, \<lparr> av_value_id = 5002, av_value = ''Silver'' \<rparr>]),
       wc_update_copy = (\<lambda>_ u.
         andthen (lift (ensure (trim (cu_offer_id u) \<noteq> [])
           (InvalidProductLookup ''product_update_copy requires a non-empty offer_id''))) (\<lambda>_.
           ret \<lparr> cr_offer_id = cu_offer_id u, cr_accepted = True, cr_task_id = Some ''mock-import-task'' \<rparr>)) \<rparr>"

end
