(* ===== verification/NodeState.thy ===== *)
theory NodeState
  imports NodeApi NetAddr OzonClient TaskEngine
begin

text \<open>
  The state of the local node (\<open>LocalState\<close> of \<open>apps/local-node/src/main.rs\<close>): the task store,
  the secret store, the caches, the schedule, the pairings, the video jobs and the network,
  and what its handlers are built from: the parts that do not change while it runs
  (\<open>node_parts\<close>), and how an operation of a part runs in the node. The secret store is any
  store of the trait, of a state type of its own.
\<close>

section \<open>Data\<close>

record stored_ozon_config =
  soz_client_id :: string
  soz_api_key :: string

record stored_openai_config =
  soa_api_key :: string
  soa_base_url :: string
  soa_image_model :: string

definition for_registry :: "string \<Rightarrow> string \<Rightarrow> string \<Rightarrow> stored_openai_config" where
  "for_registry api_key base_url image_model =
     \<lparr> soa_api_key = api_key, soa_base_url = base_url, soa_image_model = image_model \<rparr>"

datatype provider_kind = OpenAiImages | OpenAiImagesEdit | OpenAiCompatChat | CloudVideo

datatype auth_style = Bearer | Header string | Query string

datatype video_dialect = OpenAiCompat | Kling | MiniMax | Vidu | Runway | Jimeng

record provider_entry =
  pe_kind :: provider_kind
  pe_base_url :: string
  pe_model :: string
  pe_secret_ref :: string
  pe_auth :: auth_style
  pe_enabled :: bool
  pe_video_dialect :: video_dialect
  pe_extra :: "(string \<times> string) list"

record stored_model_registry =
  mr_image_gen :: "provider_entry list"
  mr_text_gen :: "provider_entry list"
  mr_video_gen :: "provider_entry list"

definition empty_registry :: stored_model_registry where
  "empty_registry = \<lparr> mr_image_gen = [], mr_text_gen = [], mr_video_gen = [] \<rparr>"

record openclaw_pairing =
  op_expires_at :: int
  op_expires_at_rfc3339 :: string

record read_run =
  rr_started_at :: string
  rr_completed_at :: string
  rr_duration_ms :: nat
  rr_connector_mode :: string
  rr_product_count :: u32
  rr_sample_size :: nat
  rr_next_last_id :: "string option"
  rr_products :: "product_summary list"
  rr_total :: u32

record schedule_audit_event =
  sa_at :: string
  sa_actor :: string
  sa_action :: string
  sa_summary :: string

text \<open>The handle of a worker names it.\<close>

record schedule =
  sch_enabled :: bool
  sch_interval_secs :: u64
  sch_limit :: u16
  sch_last_run :: "read_run option"
  sch_last_error :: "string option"
  sch_audit :: "schedule_audit_event list"
  sch_worker :: "nat option"

definition default_schedule :: schedule where
  "default_schedule =
     \<lparr> sch_enabled = False, sch_interval_secs = 15 * 60, sch_limit = 20, sch_last_run = None,
       sch_last_error = None, sch_audit = [], sch_worker = None \<rparr>"

datatype video_status = VideoQueued | VideoRunning | VideoSucceeded | VideoFailed

definition video_is_terminal :: "video_status \<Rightarrow> bool" where
  "video_is_terminal st \<longleftrightarrow> st = VideoSucceeded \<or> st = VideoFailed"

record video_job =
  vj_id :: uuid
  vj_status :: video_status
  vj_provider_job_id :: "string option"
  vj_video_url :: "string option"
  vj_error :: "string option"
  vj_created_at :: string
  vj_updated_at :: string
  vj_first_frame_url :: string
  vj_last_frame_url :: "string option"
  vj_prompt :: string
  vj_duration_seconds :: nat

section \<open>The host\<close>

text \<open>The files of the machine and the programs it runs. The \<open>n\<close>-th system call that changes the
  file system fails with the given message, and a command answers with the error of its start
  or with its exit code (none when a signal ended it) and its output, and may change files.\<close>

record command =
  cm_program :: string
  cm_dir :: string
  cm_env :: "(string \<times> string) list"
  cm_args :: "string list"

record process_output =
  po_code :: "int option"
  po_stdout :: string
  po_stderr :: string

type_synonym files = "string \<Rightarrow> string option"

record host =
  ho_files :: files
  ho_fault :: "nat \<Rightarrow> string option"
  ho_calls :: nat
  ho_run :: "command \<Rightarrow> files \<Rightarrow> (string + process_output) \<times> files"
  ho_ran :: "command list"

section \<open>The node\<close>

text \<open>The background tasks that run, each under the number it was spawned with: a schedule worker
  with its limit, and a video poller with its job, the id of that job at the provider and the
  attempts it still has.\<close>

record 's node = task_store +
  nd_secrets :: 's
  nd_ozon_config :: "stored_ozon_config option"
  nd_openai_config :: "stored_openai_config option"
  nd_registry :: "stored_model_registry option"
  nd_lease :: "entitlement_lease option"
  nd_network :: network
  nd_host :: host
  nd_schedule :: schedule
  nd_workers :: "(nat \<times> u16) list"
  nd_spawned :: nat
  nd_pairings :: "(string \<times> openclaw_pairing) list"
  nd_video_jobs :: "(uuid \<times> video_job) list"
  nd_pollers :: "(nat \<times> uuid \<times> string \<times> nat) list"
  nd_instant :: "nat \<Rightarrow> int"
  nd_instant_n :: nat
  nd_timing :: "nat \<Rightarrow> timing"
  nd_timing_n :: nat

text \<open>What is fixed for a run of the node. \<open>np_ioreg\<close> is what the hardware probe printed,
  \<open>np_exports_dir\<close> the directory \<open>exports_dir\<close> finds for the user.\<close>

record 's node_parts =
  np_crates :: crates
  np_config :: local_config
  np_env :: environment
  np_secrets :: "'s store_ops"
  np_reader :: read_connector
  np_writer :: write_connector
  np_ioreg :: "string option"
  np_build :: build
  np_exports_dir :: string

type_synonym ('s, 'a) node_act = "('s node, node_error, 'a) act"

text \<open>\<open>LocalState::new_with_secret_store\<close>: the connectors for the mode, and empty stores; the
  first schedule is clamped. The mock needs a debug build.\<close>

definition new_parts ::
  "crates \<Rightarrow> build \<Rightarrow> local_config \<Rightarrow> environment \<Rightarrow> 's store_ops \<Rightarrow> string option \<Rightarrow> string
   \<Rightarrow> string + 's node_parts" where
  "new_parts x b c env ops ioreg exports =
     (if lcf_use_real_ozon c
      then Inr \<lparr> np_crates = x, np_config = c, np_env = env, np_secrets = ops,
             np_reader = http_read_connector x ''https://api-seller.ozon.ru'',
             np_writer = http_write_connector x ''https://api-seller.ozon.ru'', np_ioreg = ioreg, np_build = b,
             np_exports_dir = exports \<rparr>
      else if \<not> bd_debug b
      then Inl ''mock Ozon connector is disabled in non-debug builds; set OZON_CONNECTOR_MODE=real''
      else Inr \<lparr> np_crates = x, np_config = c, np_env = env, np_secrets = ops,
             np_reader = mock_read_connector, np_writer = mock_write_connector, np_ioreg = ioreg, np_build = b,
             np_exports_dir = exports \<rparr>)"

definition clamp_interval :: "u64 \<Rightarrow> u64" where
  "clamp_interval v = (if v < 60 then 60 else if 24 * 60 * 60 < v then 24 * 60 * 60 else v)"

definition clamp_limit :: "u16 \<Rightarrow> u16" where
  "clamp_limit v = (if v < 1 then 1 else if 100 < v then 100 else v)"

definition new_node ::
  "ambient \<Rightarrow> local_config \<Rightarrow> 's \<Rightarrow> network \<Rightarrow> host \<Rightarrow> (nat \<Rightarrow> int) \<Rightarrow> (nat \<Rightarrow> timing) \<Rightarrow> 's node" where
  "new_node a c secrets network host instants timing = task_store.extend (store_new a)
     \<lparr> nd_secrets = secrets, nd_ozon_config = None, nd_openai_config = None, nd_registry = None,
       nd_lease = None, nd_network = network, nd_host = host,
       nd_schedule = default_schedule\<lparr>
         sch_interval_secs := clamp_interval (lcf_default_interval_secs c),
         sch_limit := clamp_limit (lcf_default_limit c)\<rparr>,
       nd_workers = [], nd_spawned = 0, nd_pairings = [], nd_video_jobs = [], nd_pollers = [],
       nd_instant = instants, nd_instant_n = 0, nd_timing = timing, nd_timing_n = 0 \<rparr>"

text \<open>\<open>default_secret_store\<close>: the keyring in front of the file, or the file alone.\<close>

definition default_secret_store ::
  "crates \<Rightarrow> path \<Rightarrow> 'k keyring \<Rightarrow> (secret_store_error + unit) \<Rightarrow> disk store_ops + ('k, disk) layers store_ops" where
  "default_secret_store x p k native =
     (case system_store_new native ''ozon-rust-suite-local'' ''default'' of
        Inl _ \<Rightarrow> Inl (file_store x p)
      | Inr s \<Rightarrow> Inr (layered_store (system_ops k s) (file_store x p)))"

section \<open>Running a part\<close>

definition on_secrets :: "('s, 'e, 'a) act \<Rightarrow> ('s node, 'e, 'a) act" where
  "on_secrets m s = (case m (nd_secrets s) of (r, t) \<Rightarrow> (r, s\<lparr>nd_secrets := t\<rparr>))"

definition on_network :: "(network, 'e, 'a) act \<Rightarrow> ('s node, 'e, 'a) act" where
  "on_network m s = (case m (nd_network s) of (r, t) \<Rightarrow> (r, s\<lparr>nd_network := t\<rparr>))"

definition on_tasks :: "'a engine \<Rightarrow> ('s node, task_engine_error, 'a) act" where
  "on_tasks m s =
     (case m (task_store.truncate s) of (r, t) \<Rightarrow> (r, task_store.extend t (task_store.more s)))"

definition on_host :: "(host, 'e, 'a) act \<Rightarrow> ('s node, 'e, 'a) act" where
  "on_host m s = (case m (nd_host s) of (r, t) \<Rightarrow> (r, s\<lparr>nd_host := t\<rparr>))"

text \<open>\<open>Instant::now\<close>, in milliseconds.\<close>

definition instant_now :: "('s node, 'e, int) act" where
  "instant_now s = (Inr (nd_instant s (nd_instant_n s)), s\<lparr>nd_instant_n := Suc (nd_instant_n s)\<rparr>)"

text \<open>\<open>tokio::time::timeout\<close> around a read of the secret store, with both errors dropped.\<close>

definition timely :: "('s, 'e, 'a) act \<Rightarrow> ('s node, unit, 'a) act" where
  "timely m s =
     (let t = s\<lparr>nd_timing_n := Suc (nd_timing_n s)\<rparr> in
      case nd_timing s (nd_timing_n s) of
        InTime \<Rightarrow> (case m (nd_secrets s) of (r, u) \<Rightarrow> (map_err (\<lambda>_. ()) r, t\<lparr>nd_secrets := u\<rparr>))
      | LateDone \<Rightarrow> (Inl (), t\<lparr>nd_secrets := snd (m (nd_secrets s))\<rparr>)
      | LateDropped \<Rightarrow> (Inl (), t))"

section \<open>Errors of the task engine as text\<close>

fun debug_task_state :: "task_state \<Rightarrow> string" where
  "debug_task_state Draft = ''Draft''"
| "debug_task_state PendingApproval = ''PendingApproval''"
| "debug_task_state Queued = ''Queued''"
| "debug_task_state Running = ''Running''"
| "debug_task_state Succeeded = ''Succeeded''"
| "debug_task_state Failed = ''Failed''"
| "debug_task_state Cancelled = ''Cancelled''"

fun show_domain_error :: "domain_error \<Rightarrow> string" where
  "show_domain_error InvalidEmail = ''invalid email''"
| "show_domain_error InvalidPhoneNumber = ''invalid phone number''"
| "show_domain_error InvalidNebulaId = ''invalid nebula id''"
| "show_domain_error (InvalidTaskTransition a b) =
     ''invalid task transition from '' @ debug_task_state a @ '' to '' @ debug_task_state b"
| "show_domain_error WriteRequiresApproval = ''write operation requires approval''"

fun show_engine_error :: "task_engine_error \<Rightarrow> string" where
  "show_engine_error TaskNotFound = ''task not found''"
| "show_engine_error ApprovalNotRequired = ''approval is not required for this operation''"
| "show_engine_error (DomainFailure e) = show_domain_error e"

definition bad_task :: "task_engine_error \<Rightarrow> node_error" where
  "bad_task e = bad_request_node (show_engine_error e)"

section \<open>The registry as JSON\<close>

fun provider_kind_label :: "provider_kind \<Rightarrow> string" where
  "provider_kind_label OpenAiImages = ''openai_images''"
| "provider_kind_label OpenAiImagesEdit = ''openai_images_edit''"
| "provider_kind_label OpenAiCompatChat = ''openai_compat_chat''"
| "provider_kind_label CloudVideo = ''cloud_video''"

fun dialect_label :: "video_dialect \<Rightarrow> string" where
  "dialect_label OpenAiCompat = ''open_ai_compat''"
| "dialect_label Kling = ''kling''"
| "dialect_label MiniMax = ''mini_max''"
| "dialect_label Vidu = ''vidu''"
| "dialect_label Runway = ''runway''"
| "dialect_label Jimeng = ''jimeng''"

fun auth_to_json :: "auth_style \<Rightarrow> json" where
  "auth_to_json Bearer = JString ''bearer''"
| "auth_to_json (Header n) = JObject [(''header'', JObject [(''name'', JString n)])]"
| "auth_to_json (Query n) = JObject [(''query'', JObject [(''name'', JString n)])]"

definition auth_of_json :: "auth_style de" where
  "auth_of_json j =
     (case j of
        JString t \<Rightarrow> if t = ''bearer'' then Some Bearer else None
      | JObject [(k, v)] \<Rightarrow>
          if k = ''header'' then map_option Header (field ''name'' de_string v)
          else if k = ''query'' then map_option Query (field ''name'' de_string v)
          else if k = ''bearer'' \<and> v = JNull then Some Bearer
          else None
      | _ \<Rightarrow> None)"

text \<open>A unit variant may also be written as an object with a null.\<close>

definition de_variant :: "('a \<Rightarrow> string) \<Rightarrow> 'a list \<Rightarrow> 'a de" where
  "de_variant label all j =
     (case j of
        JString t \<Rightarrow> find (\<lambda>a. label a = t) all
      | JObject [(k, JNull)] \<Rightarrow> find (\<lambda>a. label a = k) all
      | _ \<Rightarrow> None)"

definition de_kind :: "provider_kind de" where
  "de_kind = de_variant provider_kind_label [OpenAiImages, OpenAiImagesEdit, OpenAiCompatChat, CloudVideo]"

definition de_dialect :: "video_dialect de" where
  "de_dialect = de_variant dialect_label [OpenAiCompat, Kling, MiniMax, Vidu, Runway, Jimeng]"

definition entry_to_json :: "provider_entry \<Rightarrow> json" where
  "entry_to_json e = JObject
     [(''kind'', JString (provider_kind_label (pe_kind e))), (''base_url'', JString (pe_base_url e)),
      (''model'', JString (pe_model e)), (''secret_ref'', JString (pe_secret_ref e)),
      (''auth'', auth_to_json (pe_auth e)), (''enabled'', JBool (pe_enabled e)),
      (''video_dialect'', JString (dialect_label (pe_video_dialect e))),
      (''extra'', JObject (map (\<lambda>(k, v). (k, JString v)) (pe_extra e)))]"

definition entry_of_json :: "provider_entry de" where
  "entry_of_json j =
     Option.bind (field ''kind'' de_kind j) (\<lambda>kind.
     Option.bind (field ''base_url'' de_string j) (\<lambda>base_url.
     Option.bind (field ''model'' de_string j) (\<lambda>model.
     Option.bind (field ''secret_ref'' de_string j) (\<lambda>secret_ref.
     Option.bind (field_default ''auth'' Bearer auth_of_json j) (\<lambda>auth.
     Option.bind (field_default ''enabled'' True de_bool j) (\<lambda>enabled.
     Option.bind (field_default ''video_dialect'' OpenAiCompat de_dialect j) (\<lambda>dialect.
     Option.bind (field_default ''extra'' [] (de_map de_string) j) (\<lambda>extra.
       Some \<lparr> pe_kind = kind, pe_base_url = base_url, pe_model = model, pe_secret_ref = secret_ref,
         pe_auth = auth, pe_enabled = enabled, pe_video_dialect = dialect, pe_extra = extra \<rparr>))))))))"

definition registry_to_json :: "stored_model_registry \<Rightarrow> json" where
  "registry_to_json r = JObject
     [(''image_gen'', JArray (map entry_to_json (mr_image_gen r))),
      (''text_gen'', JArray (map entry_to_json (mr_text_gen r))),
      (''video_gen'', JArray (map entry_to_json (mr_video_gen r)))]"

definition registry_of_json :: "stored_model_registry de" where
  "registry_of_json j =
     Option.bind (field_default ''image_gen'' [] (de_array entry_of_json) j) (\<lambda>image.
     Option.bind (field_default ''text_gen'' [] (de_array entry_of_json) j) (\<lambda>text.
     Option.bind (field_default ''video_gen'' [] (de_array entry_of_json) j) (\<lambda>video.
       Some \<lparr> mr_image_gen = image, mr_text_gen = text, mr_video_gen = video \<rparr>)))"

definition ozon_config_to_json :: "stored_ozon_config \<Rightarrow> json" where
  "ozon_config_to_json c = JObject
     [(''client_id'', JString (soz_client_id c)), (''api_key'', JString (soz_api_key c))]"

definition ozon_config_of_json :: "stored_ozon_config de" where
  "ozon_config_of_json j =
     Option.bind (field ''client_id'' de_string j) (\<lambda>i.
     Option.bind (field ''api_key'' de_string j) (\<lambda>k. Some \<lparr> soz_client_id = i, soz_api_key = k \<rparr>))"

definition openai_config_to_json :: "stored_openai_config \<Rightarrow> json" where
  "openai_config_to_json c = JObject
     [(''api_key'', JString (soa_api_key c)), (''base_url'', JString (soa_base_url c)),
      (''image_model'', JString (soa_image_model c))]"

definition openai_config_of_json :: "stored_openai_config de" where
  "openai_config_of_json j =
     Option.bind (field ''api_key'' de_string j) (\<lambda>k.
     Option.bind (field ''base_url'' de_string j) (\<lambda>u.
     Option.bind (field ''image_model'' de_string j) (\<lambda>m.
       Some \<lparr> soa_api_key = k, soa_base_url = u, soa_image_model = m \<rparr>)))"

section \<open>Lemmas\<close>

lemma part_runs [act_simps]:
  "on_secrets m s = (fst (m (nd_secrets s)), s\<lparr>nd_secrets := snd (m (nd_secrets s))\<rparr>)"
  "on_network n s = (fst (n (nd_network s)), s\<lparr>nd_network := snd (n (nd_network s))\<rparr>)"
  "on_host h s = (fst (h (nd_host s)), s\<lparr>nd_host := snd (h (nd_host s))\<rparr>)"
  "instant_now s = (Inr (nd_instant s (nd_instant_n s)), s\<lparr>nd_instant_n := Suc (nd_instant_n s)\<rparr>)"
  by (simp_all add: on_secrets_def on_network_def on_host_def instant_now_def split: prod.split)

lemma clamp_interval_range: "60 \<le> clamp_interval v \<and> clamp_interval v \<le> 86400"
  by (auto simp: clamp_interval_def)

lemma clamp_limit_range: "1 \<le> clamp_limit v \<and> clamp_limit v \<le> 100"
  by (auto simp: clamp_limit_def intro: leI)

lemma ozon_config_reads_back: "ozon_config_of_json (ozon_config_to_json c) = Some c"
  by (simp add: ozon_config_of_json_def ozon_config_to_json_def field_def json_get_def)

lemma openai_config_reads_back: "openai_config_of_json (openai_config_to_json c) = Some c"
  by (simp add: openai_config_of_json_def openai_config_to_json_def field_def json_get_def)

lemma auth_reads_back: "auth_of_json (auth_to_json a) = Some a"
  by (cases a) (simp_all add: auth_of_json_def field_def json_get_def)

lemma kind_reads_back: "de_kind (JString (provider_kind_label k)) = Some k"
  by (cases k) (simp_all add: de_kind_def de_variant_def)

lemma dialect_reads_back: "de_dialect (JString (dialect_label d)) = Some d"
  by (cases d) (simp_all add: de_dialect_def de_variant_def)

lemma entry_reads_back: "entry_of_json (entry_to_json e) = Some e"
proof -
  have "de_entries de_string (map (\<lambda>(k, v). (k, JString v)) es) = Some es" for es
    by (induction es) auto
  then show ?thesis
    by (simp add: entry_of_json_def entry_to_json_def field_def field_default_def json_get_def
        is_object_def auth_reads_back kind_reads_back dialect_reads_back de_map_def)
qed

lemma registry_reads_back: "registry_of_json (registry_to_json r) = Some r"
proof -
  have "de_list entry_of_json (map entry_to_json es) = Some es" for es
    by (induction es) (simp_all add: entry_reads_back)
  then show ?thesis
    by (simp add: registry_of_json_def registry_to_json_def field_default_def json_get_def
        is_object_def de_array_def)
qed

end
