(* ===== verification/NodeLease.thy ===== *)
theory NodeLease
  imports NodeState
begin

text \<open>
  The lease of the local node (\<open>apps/local-node/src/main.rs\<close>): the device fingerprint, the
  checks a cloud lease passes (\<open>validate_cloud_lease\<close>, \<open>verify_cloud_lease_signature\<close>,
  \<open>ensure_lease_bound_to_device\<close>), how it is stored and loaded, and the gate every read of a
  shop goes through (\<open>require_valid_lease_with_feature\<close>).
\<close>

section \<open>The secret store of the node\<close>

definition get_secret :: "'s node_parts \<Rightarrow> string \<Rightarrow> ('s, string option) node_act" where
  "get_secret p name =
     map_error (\<lambda>_. internal_node ''secret store unavailable'') (on_secrets (so_get (np_secrets p) name))"

definition put_secret :: "'s node_parts \<Rightarrow> string \<Rightarrow> string \<Rightarrow> string \<Rightarrow> ('s, unit) node_act" where
  "put_secret p failure name v =
     map_error (\<lambda>_. internal_node failure) (on_secrets (so_put (np_secrets p) name v))"

definition get_secret_for_status :: "'s node_parts \<Rightarrow> string \<Rightarrow> ('s node, unit, string option) act" where
  "get_secret_for_status p name = timely (so_get (np_secrets p) name)"

section \<open>The device fingerprint\<close>

definition strip_cr :: "string \<Rightarrow> string" where
  "strip_cr l = (if l \<noteq> [] \<and> last l = CHR 0x0D then butlast l else l)"

text \<open>\<open>str::lines\<close>: a final line break does not start a line.\<close>

definition lines_of :: "string \<Rightarrow> string list" where
  "lines_of s = (let ls = split_on (CHR 0x0A) s in
     map strip_cr (if last ls = [] then butlast ls else ls))"

fun contains :: "string \<Rightarrow> string \<Rightarrow> bool" where
  "contains [] p = (p = [])"
| "contains (c # s) p = (starts_with (c # s) p \<or> contains s p)"

definition nth_piece :: "char \<Rightarrow> nat \<Rightarrow> string \<Rightarrow> string option" where
  "nth_piece c n s = (let ps = split_on c s in if n < length ps then Some (ps ! n) else None)"

definition filled_trim :: "string \<Rightarrow> string option" where
  "filled_trim v = (if trim v = [] then None else Some (trim v))"

definition stable_machine_fingerprint :: "crates \<Rightarrow> string option \<Rightarrow> string option" where
  "stable_machine_fingerprint x ioreg =
     Option.bind ioreg (\<lambda>output.
     Option.bind (find (\<lambda>l. contains l ''IOPlatformUUID'') (lines_of output)) (\<lambda>line.
     Option.bind (nth_piece (CHR 0x22) 3 line) (\<lambda>piece.
     Option.bind (filled_trim piece) (\<lambda>uuid.
       Some (''ors-local-'' @ hex_lower (take 16 (x_sha256 x (''ozon-rust-local-device-v1:'' @ uuid))))))))"

definition secret_device_fingerprint :: string where
  "secret_device_fingerprint = ''device_fingerprint''"

definition usable_fingerprint :: "string option \<Rightarrow> string option" where
  "usable_fingerprint existing = Option.bind existing (\<lambda>e.
     let v = trim e in if starts_with v ''ors-local-'' \<and> 20 \<le> length v then Some v else None)"

definition load_or_create_device_fingerprint :: "'s node_parts \<Rightarrow> ('s, string) node_act" where
  "load_or_create_device_fingerprint p =
     (case stable_machine_fingerprint (np_crates p) (np_ioreg p) of
        Some machine \<Rightarrow> ret machine
      | None \<Rightarrow>
          andthen (get_secret p secret_device_fingerprint) (\<lambda>existing.
            case usable_fingerprint existing of
              Some v \<Rightarrow> ret v
            | None \<Rightarrow>
                andthen new_v4 (\<lambda>u.
                  let v = ''ors-local-'' @ x_uuid_string (np_crates p) u in
                andthen (put_secret p ''failed to persist device fingerprint'' secret_device_fingerprint v)
                  (\<lambda>_. ret v))))"

section \<open>Checking a lease\<close>

definition node_signing_payload :: "crates \<Rightarrow> entitlement_lease \<Rightarrow> string \<Rightarrow> string \<Rightarrow> string" where
  "node_signing_payload x l issuer audience = x_json_print x (JObject
     [(''issuer'', JString issuer), (''audience'', JString audience),
      (''claims'', lease_claims_to_json x (lease_claims_of l))])"

definition verify_cloud_lease_signature ::
  "crates \<Rightarrow> local_config \<Rightarrow> entitlement_lease \<Rightarrow> node_error + unit" where
  "verify_cloud_lease_signature x c l =
     (case lease_signature l of
        None \<Rightarrow> ensure (lcf_allow_unsigned_lease c) (bad_request_node ''lease is missing a cloud signature'')
      | Some g \<Rightarrow>
          bind_res (ensure (sig_alg g = ''RS256'')
            (bad_request_node ''lease signature algorithm is not supported'')) (\<lambda>_.
          bind_res (ensure (sig_issuer g = lcf_lease_issuer c)
            (bad_request_node ''lease signature issuer mismatch'')) (\<lambda>_.
          bind_res (ensure (sig_audience g = lcf_lease_audience c)
            (bad_request_node ''lease signature audience mismatch'')) (\<lambda>_.
          bind_res (ok_or (bad_request_node ''lease public key is not configured on this local node'')
            (lcf_lease_public_key_pem c)) (\<lambda>pem.
          bind_res (ok_or (bad_request_node ''lease public key is invalid'') (x_rsa_public_pem x pem)) (\<lambda>key.
          bind_res (ok_or (bad_request_node ''lease signature encoding is invalid'')
            (x_base64_decode x (sig_value g))) (\<lambda>bytes.
          bind_res (ensure (x_rsa_signature x bytes)
            (bad_request_node ''lease signature is invalid'')) (\<lambda>_.
            ensure (x_rsa_verify x key (node_signing_payload x l (sig_issuer g) (sig_audience g)) bytes)
              (bad_request_node ''lease signature verification failed'')))))))))"

definition validate_cloud_lease :: "'s node_parts \<Rightarrow> entitlement_lease \<Rightarrow> ('s, unit) node_act" where
  "validate_cloud_lease p l =
     andthen utc_now (\<lambda>now.
     andthen (lift (ensure (now < lease_expires_at l) (bad_request_node ''lease is expired''))) (\<lambda>_.
       lift (verify_cloud_lease_signature (np_crates p) (np_config p) l)))"

fun feature_name :: "feature \<Rightarrow> string" where
  "feature_name OzonRead = ''Ozon read access''"
| "feature_name OzonWriteMock = ''Ozon dry-run write access''"
| "feature_name DraftImport1688Mock = ''1688 draft import dry-run access''"
| "feature_name OpenClawBridge = ''OpenClaw bridge access''"
| "feature_name LocalApproval = ''local approval access''"

definition validate_cloud_lease_with_feature ::
  "'s node_parts \<Rightarrow> entitlement_lease \<Rightarrow> feature \<Rightarrow> ('s, unit) node_act" where
  "validate_cloud_lease_with_feature p l f =
     andthen (validate_cloud_lease p l) (\<lambda>_.
       lift (ensure (f \<in> set (lease_features l))
         (forbidden_node (''cloud lease does not include '' @ feature_name f))))"

definition ensure_lease_bound_to_device ::
  "crates \<Rightarrow> entitlement_lease \<Rightarrow> string \<Rightarrow> node_error + unit" where
  "ensure_lease_bound_to_device x l fingerprint =
     ensure (lease_device_id l = device_id_for (x_uuid_string x) (x_uuid_v5 x) (lease_user_id l) fingerprint)
       (forbidden_node ''cloud lease is not bound to this device'')"

section \<open>Keeping a lease\<close>

definition secret_cloud_lease :: string where
  "secret_cloud_lease = ''cloud_lease''"

definition load_cloud_lease :: "'s node_parts \<Rightarrow> ('s, entitlement_lease) node_act" where
  "load_cloud_lease p =
     andthen (gets nd_lease) (\<lambda>cached. case cached of
        Some l \<Rightarrow> ret l
      | None \<Rightarrow>
          andthen (get_secret p secret_cloud_lease) (\<lambda>stored.
          andthen (lift (ok_or (forbidden_node
            ''cloud lease is not installed; sign in on ozon66.com, bind this device, then issue a lease'')
            stored)) (\<lambda>bundle.
          andthen (lift (ok_or (bad_request_node ''stored cloud lease is invalid'')
            (Option.bind (x_json_parse (np_crates p) bundle) (lease_of_json (np_crates p))))) (\<lambda>l.
          andthen (modify (\<lambda>s. s\<lparr>nd_lease := Some l\<rparr>)) (\<lambda>_. ret l)))))"

definition require_valid_lease_with_feature :: "'s node_parts \<Rightarrow> feature \<Rightarrow> ('s, unit) node_act" where
  "require_valid_lease_with_feature p f =
     (if \<not> lcf_use_real_ozon (np_config p) \<and> lcf_allow_unsigned_lease (np_config p) then ret ()
      else andthen (load_cloud_lease p) (\<lambda>l.
           andthen (validate_cloud_lease_with_feature p l f) (\<lambda>_.
           andthen (load_or_create_device_fingerprint p) (\<lambda>fingerprint.
             lift (ensure_lease_bound_to_device (np_crates p) l fingerprint)))))"

record lease_status =
  ls_configured :: bool
  ls_valid :: bool
  ls_lease_id :: "string option"
  ls_device_id :: "string option"
  ls_features :: "feature list"
  ls_expires_at :: "string option"
  ls_issue :: "string option"

definition lease_status_of :: "'s node_parts \<Rightarrow> entitlement_lease \<Rightarrow> ('s node, 'e, lease_status) act" where
  "lease_status_of p l s =
     (case validate_cloud_lease_with_feature p l OzonRead s of (validation, t) \<Rightarrow>
       (Inr \<lparr> ls_configured = True, ls_valid = is_ok validation,
          ls_lease_id = Some (x_uuid_string (np_crates p) (lease_id l)),
          ls_device_id = Some (x_uuid_string (np_crates p) (device_uuid (lease_device_id l))),
          ls_features = lease_features l,
          ls_expires_at = Some (x_to_rfc3339 (np_crates p) (lease_expires_at l)),
          ls_issue = (case validation of Inl e \<Rightarrow> Some (ne_message e) | Inr _ \<Rightarrow> None) \<rparr>, t))"

definition no_lease :: "string \<Rightarrow> lease_status" where
  "no_lease issue =
     \<lparr> ls_configured = False, ls_valid = False, ls_lease_id = None, ls_device_id = None,
       ls_features = [], ls_expires_at = None, ls_issue = Some issue \<rparr>"

definition inspect_cloud_lease :: "'s node_parts \<Rightarrow> ('s node, 'e, lease_status) act" where
  "inspect_cloud_lease p =
     andthen (gets nd_lease) (\<lambda>cached. case cached of
        Some l \<Rightarrow> lease_status_of p l
      | None \<Rightarrow> match_res (get_secret_for_status p secret_cloud_lease)
          (\<lambda>stored. case stored of
              Some bundle \<Rightarrow> (case Option.bind (x_json_parse (np_crates p) bundle) (lease_of_json (np_crates p)) of
                  Some l \<Rightarrow> lease_status_of p l
                | None \<Rightarrow> ret (no_lease ''stored cloud lease is invalid''))
            | None \<Rightarrow> ret (no_lease ''cloud lease is not installed''))
          (\<lambda>_. ret (no_lease ''secret store unavailable'')))"

record portal_lease_response =
  plr_accepted :: bool
  plr_lease :: lease_status
  plr_saved_at :: string

definition save_portal_lease :: "'s node_parts \<Rightarrow> entitlement_lease \<Rightarrow> ('s, portal_lease_response) node_act" where
  "save_portal_lease p l =
     andthen (validate_cloud_lease_with_feature p l OzonRead) (\<lambda>_.
     andthen (load_or_create_device_fingerprint p) (\<lambda>fingerprint.
     andthen (lift (ensure_lease_bound_to_device (np_crates p) l fingerprint)) (\<lambda>_.
     andthen (put_secret p ''failed to save cloud lease'' secret_cloud_lease
       (x_json_print (np_crates p) (lease_to_json (np_crates p) l))) (\<lambda>_.
     andthen (modify (\<lambda>s. s\<lparr>nd_lease := Some l\<rparr>)) (\<lambda>_.
     andthen (lease_status_of p l) (\<lambda>status.
     andthen utc_now (\<lambda>now.
       ret \<lparr> plr_accepted = True, plr_lease = status, plr_saved_at = x_to_rfc3339 (np_crates p) now \<rparr>)))))))"

section \<open>What an accepted lease is\<close>

text \<open>The checks as one predicate: the key and the time are those of the check.\<close>

definition signed_for :: "crates \<Rightarrow> local_config \<Rightarrow> entitlement_lease \<Rightarrow> bool" where
  "signed_for x c l \<longleftrightarrow> (\<exists>g key bytes pem. lease_signature l = Some g \<and> sig_alg g = ''RS256''
     \<and> sig_issuer g = lcf_lease_issuer c \<and> sig_audience g = lcf_lease_audience c
     \<and> lcf_lease_public_key_pem c = Some pem \<and> x_rsa_public_pem x pem = Some key
     \<and> x_base64_decode x (sig_value g) = Some bytes \<and> x_rsa_signature x bytes
     \<and> x_rsa_verify x key (node_signing_payload x l (lcf_lease_issuer c) (lcf_lease_audience c)) bytes)"

lemma signature_accepted:
  "verify_cloud_lease_signature x c l = Inr () \<longleftrightarrow>
     (if lease_signature l = None then lcf_allow_unsigned_lease c else signed_for x c l)"
  by (cases "lease_signature l")
    (auto simp: verify_cloud_lease_signature_def signed_for_def res_simps)

lemma lease_validated:
  "validate_cloud_lease_with_feature p l f s = (Inr (), t) \<longleftrightarrow>
     src_clock s (clock_n s) < lease_expires_at l \<and> f \<in> set (lease_features l)
     \<and> verify_cloud_lease_signature (np_crates p) (np_config p) l = Inr ()
     \<and> t = s\<lparr>clock_n := Suc (clock_n s)\<rparr>"
  by (auto simp: validate_cloud_lease_with_feature_def validate_cloud_lease_def run_inv res_simps
      ambient_inv)

end
