(* ===== verification/NodeSecrets.thy ===== *)
theory NodeSecrets
  imports NodeLease
begin

text \<open>
  The configuration the operator gives the local node and the credentials it resolves
  (\<open>apps/local-node/src/main.rs\<close>, \<open>apps/local-node/src/model_router.rs\<close>): the Ozon and OpenAI
  credentials from cache, environment or secret store, the model registry and its secret
  references, the handlers that save them, and the capability a call resolves to.
\<close>

definition secret_ozon_config :: string where "secret_ozon_config = ''ozon_config''"
definition secret_openai_config :: string where "secret_openai_config = ''openai_config''"
definition secret_model_registry :: string where "secret_model_registry = ''model_registry''"

definition reserved_secret_names :: "string list" where
  "reserved_secret_names =
     [secret_ozon_config, secret_openai_config, secret_model_registry, secret_cloud_lease,
      secret_device_fingerprint]"

section \<open>Base URLs\<close>

definition trim_start_matches :: "char \<Rightarrow> string \<Rightarrow> string" where
  "trim_start_matches c s = dropWhile (\<lambda>x. x = c) s"

definition is_loopback_host :: "string \<Rightarrow> bool" where
  "is_loopback_host host \<longleftrightarrow> to_lowercase host = ''localhost''
     \<or> (case parse_ip_addr (trim_end_matches (CHR '']'') (trim_start_matches (CHR ''['') host)) of
          None \<Rightarrow> False | Some ip \<Rightarrow> is_loopback ip)"

definition normalize_openai_base_url :: "crates \<Rightarrow> string \<Rightarrow> node_error + string" where
  "normalize_openai_base_url x v =
     (let trimmed = trim_end_matches (CHR ''/'') (trim v) in
      if trimmed = [] then Inr default_openai_base_url
      else bind_res (ok_or (bad_request_node ''OpenAI base URL must be a valid URL'') (x_url_parse x trimmed)) (\<lambda>u.
        bind_res (if url_scheme u = ''https'' then Inr ()
          else if url_scheme u = ''http'' then
            ensure (is_loopback_host (unwrap_or (url_host u) []))
              (bad_request_node ''OpenAI base URL must use https (http is only allowed for loopback hosts)'')
          else Inl (bad_request_node ''OpenAI base URL must use http or https'')) (\<lambda>_. Inr trimmed)))"

definition normalize_provider_base_url :: "crates \<Rightarrow> string \<Rightarrow> node_error + string" where
  "normalize_provider_base_url x v = normalize_openai_base_url x v"

definition ends_with :: "string \<Rightarrow> string \<Rightarrow> bool" where
  "ends_with s p \<longleftrightarrow> starts_with (rev s) (rev p)"

definition v1_endpoint :: "string \<Rightarrow> string \<Rightarrow> string" where
  "v1_endpoint base_url tail =
     (let base = trim_end_matches (CHR ''/'') base_url in
      if ends_with base ''/v1'' then base @ ''/'' @ tail else base @ ''/v1/'' @ tail)"

definition openai_images_endpoint :: "string \<Rightarrow> string" where
  "openai_images_endpoint base_url = v1_endpoint base_url ''images/generations''"

definition openai_images_edit_endpoint :: "string \<Rightarrow> string" where
  "openai_images_edit_endpoint base_url = v1_endpoint base_url ''images/edits''"

definition endpoint_for :: "provider_kind \<Rightarrow> string \<Rightarrow> string" where
  "endpoint_for kind base_url = v1_endpoint base_url (case kind of
      OpenAiImages \<Rightarrow> ''images/generations''
    | OpenAiImagesEdit \<Rightarrow> ''images/edits''
    | OpenAiCompatChat \<Rightarrow> ''chat/completions''
    | CloudVideo \<Rightarrow> ''video/generations'')"

section \<open>Ozon credentials\<close>

definition debug_mock_ozon_credentials :: ozon_credentials where
  "debug_mock_ozon_credentials =
     \<lparr> oc_client_id = ''debug-local-client-id'', oc_api_key = ''debug-local-api-key'' \<rparr>"

definition ozon_env_pair :: "environment \<Rightarrow> string option \<times> string option" where
  "ozon_env_pair env =
     (or_else (optional_env_node env ''OZON_CLIENT_ID'') (optional_env_node env ''OZON_SELLER_CLIENT_ID''),
      or_else (optional_env_node env ''OZON_API_KEY'') (optional_env_node env ''OZON_SELLER_API_KEY''))"

definition load_ozon_env_credentials :: "environment \<Rightarrow> node_error + ozon_credentials option" where
  "load_ozon_env_credentials env =
     (case ozon_env_pair env of
        (Some i, Some k) \<Rightarrow> Inr (Some \<lparr> oc_client_id = i, oc_api_key = k \<rparr>)
      | (None, None) \<Rightarrow> Inr None
      | _ \<Rightarrow> Inl (bad_request_node ''OZON_CLIENT_ID/OZON_API_KEY environment credentials are incomplete''))"

definition credentials_of :: "stored_ozon_config \<Rightarrow> ozon_credentials" where
  "credentials_of c = \<lparr> oc_client_id = soz_client_id c, oc_api_key = soz_api_key c \<rparr>"

definition load_ozon_credentials :: "'s node_parts \<Rightarrow> ('s, ozon_credentials) node_act" where
  "load_ozon_credentials p =
     (if \<not> lcf_use_real_ozon (np_config p) then ret debug_mock_ozon_credentials
      else andthen (gets nd_ozon_config) (\<lambda>cached. case cached of
        Some stored \<Rightarrow> ret (credentials_of stored)
      | None \<Rightarrow>
        andthen (lift (load_ozon_env_credentials (np_env p))) (\<lambda>from_env. case from_env of
          Some credentials \<Rightarrow> ret credentials
        | None \<Rightarrow>
          andthen (get_secret p secret_ozon_config) (\<lambda>bundle. case bundle of
            Some b \<Rightarrow> lift (ok_or (internal_node ''stored Ozon config is invalid'')
              (map_option credentials_of
                (Option.bind (x_json_parse (np_crates p) b) ozon_config_of_json)))
          | None \<Rightarrow>
            andthen (get_secret p ''ozon_client_id'') (\<lambda>client_id.
            andthen (get_secret p ''ozon_api_key'') (\<lambda>api_key.
              lift (case (client_id, api_key) of
                  (Some i, Some k) \<Rightarrow> Inr \<lparr> oc_client_id = i, oc_api_key = k \<rparr>
                | _ \<Rightarrow> Inl (bad_request_node ''Ozon credentials are not configured''))))))))"

record inspected_ozon =
  io_configured :: bool
  io_source :: string
  io_client_id :: "string option"
  io_api_key_fingerprint :: "string option"
  io_secret_store_available :: bool
  io_issue :: "string option"

text \<open>What is shown of a text: \<open>redact\<close> works on its characters.\<close>

definition redact_text :: "string \<Rightarrow> string" where
  "redact_text s =
     (if char_count s \<le> 8 then ''********''
      else take_chars 4 s @ [CHR 0xE2, CHR 0x80, CHR 0xA6] @ concat (drop (char_count s - 4) (chars s)))"

definition ozon_found :: "crates \<Rightarrow> string \<Rightarrow> string \<Rightarrow> string \<Rightarrow> inspected_ozon" where
  "ozon_found x source client_id api_key =
     \<lparr> io_configured = True, io_source = source, io_client_id = Some (redact_text client_id),
       io_api_key_fingerprint = Some (fingerprint_secret x api_key),
       io_secret_store_available = True, io_issue = None \<rparr>"

definition ozon_missing :: "string \<Rightarrow> bool \<Rightarrow> string option \<Rightarrow> inspected_ozon" where
  "ozon_missing source available issue =
     \<lparr> io_configured = False, io_source = source, io_client_id = None, io_api_key_fingerprint = None,
       io_secret_store_available = available, io_issue = issue \<rparr>"

definition inspect_ozon_env_credentials :: "crates \<Rightarrow> environment \<Rightarrow> inspected_ozon option" where
  "inspect_ozon_env_credentials x env =
     (case ozon_env_pair env of
        (Some i, Some k) \<Rightarrow> Some (ozon_found x ''env'' i k)
      | (None, None) \<Rightarrow> None
      | _ \<Rightarrow> Some (ozon_missing ''env'' True
          (Some ''OZON_CLIENT_ID/OZON_API_KEY environment credentials are incomplete'')))"

definition inspect_legacy_ozon_credentials :: "'s node_parts \<Rightarrow> ('s node, 'e, inspected_ozon) act" where
  "inspect_legacy_ozon_credentials p =
     (let unavailable = ozon_missing ''legacy_split_keys'' False (Some ''secret store unavailable'');
          real = lcf_use_real_ozon (np_config p) in
      match_res (get_secret_for_status p ''ozon_client_id'') (\<lambda>client_id.
        match_res (get_secret_for_status p ''ozon_api_key'') (\<lambda>api_key.
          ret (case (client_id, api_key) of
              (Some i, Some k) \<Rightarrow> ozon_found (np_crates p) ''legacy_split_keys'' i k
            | (None, None) \<Rightarrow> ozon_missing (if real then ''missing'' else ''debug_mock_connector'') True
                (if real then Some ''Ozon credentials are not configured'' else None)
            | _ \<Rightarrow> ozon_missing ''legacy_split_keys'' True (Some ''legacy Ozon credentials are incomplete'')))
          (\<lambda>_. ret unavailable))
        (\<lambda>_. ret unavailable))"

definition inspect_ozon_credentials :: "'s node_parts \<Rightarrow> ('s node, 'e, inspected_ozon) act" where
  "inspect_ozon_credentials p =
     andthen (gets nd_ozon_config) (\<lambda>cached. case cached of
        Some c \<Rightarrow> ret (ozon_found (np_crates p) ''ozon_config_cache'' (soz_client_id c) (soz_api_key c))
      | None \<Rightarrow> (case inspect_ozon_env_credentials (np_crates p) (np_env p) of
          Some found \<Rightarrow> ret found
        | None \<Rightarrow> match_res (get_secret_for_status p secret_ozon_config)
            (\<lambda>stored. case stored of
                Some b \<Rightarrow> (case Option.bind (x_json_parse (np_crates p) b) ozon_config_of_json of
                    Some c \<Rightarrow> ret (ozon_found (np_crates p) ''ozon_config'' (soz_client_id c) (soz_api_key c))
                  | None \<Rightarrow> ret (ozon_missing ''ozon_config'' True (Some ''stored Ozon config is invalid'')))
              | None \<Rightarrow> inspect_legacy_ozon_credentials p)
            (\<lambda>_. ret (ozon_missing ''unavailable'' False (Some ''secret store unavailable'')))))"

record ozon_config_response =
  ocr_client_id :: string
  ocr_api_key :: string
  ocr_saved_at :: string

definition eq_ignore_ascii_case :: "string \<Rightarrow> string \<Rightarrow> bool" where
  "eq_ignore_ascii_case a b \<longleftrightarrow> to_lowercase a = to_lowercase b"

definition save_ozon_config ::
  "'s node_parts \<Rightarrow> headers \<Rightarrow> string \<Rightarrow> string \<Rightarrow> ('s, ozon_config_response) node_act" where
  "save_ozon_config p h client_id0 api_key0 =
     andthen (lift (require_operator_token (np_config p) h)) (\<lambda>_.
     let client_id = trim client_id0; api_key = trim api_key0 in
     andthen (lift (ensure (client_id \<noteq> [] \<and> api_key \<noteq> [])
       (bad_request_node ''Ozon Client ID and API Key are required''))) (\<lambda>_.
     andthen (lift (ensure (\<not> (eq_ignore_ascii_case client_id ''mock-client-id''
         \<or> eq_ignore_ascii_case api_key ''mock-api-key''
         \<or> eq_ignore_ascii_case client_id ''debug-local-client-id''
         \<or> eq_ignore_ascii_case api_key ''debug-local-api-key''))
       (bad_request_node ''debug mock Ozon credentials cannot be saved''))) (\<lambda>_.
     let bundle = \<lparr> soz_client_id = client_id, soz_api_key = api_key \<rparr> in
     andthen (put_secret p ''failed to save Ozon config'' secret_ozon_config
       (x_json_print (np_crates p) (ozon_config_to_json bundle))) (\<lambda>_.
     andthen (modify (\<lambda>s. s\<lparr>nd_ozon_config := Some bundle\<rparr>)) (\<lambda>_.
     andthen utc_now (\<lambda>now.
       ret \<lparr> ocr_client_id = redact_text client_id, ocr_api_key = redact_text api_key,
         ocr_saved_at = x_to_rfc3339 (np_crates p) now \<rparr>))))))"

section \<open>OpenAI configuration\<close>

definition load_openai_env_config :: "crates \<Rightarrow> environment \<Rightarrow> node_error + stored_openai_config" where
  "load_openai_env_config x env =
     bind_res (ok_or (bad_request_node ''OpenAI API key is not configured for poster generation'')
       (optional_env_node env ''OPENAI_API_KEY'')) (\<lambda>api_key.
     bind_res (normalize_openai_base_url x
       (unwrap_or (or_else (optional_env_node env ''OPENAI_BASE_URL'')
          (optional_env_node env ''OPENAI_API_BASE_URL'')) default_openai_base_url)) (\<lambda>base_url.
       Inr \<lparr> soa_api_key = api_key, soa_base_url = base_url,
         soa_image_model = unwrap_or (optional_env_node env ''OPENAI_IMAGE_MODEL'')
           default_openai_image_model \<rparr>))"

definition parse_openai_config :: "crates \<Rightarrow> string \<Rightarrow> node_error + stored_openai_config" where
  "parse_openai_config x b = ok_or (internal_node ''stored OpenAI config is invalid'')
     (Option.bind (x_json_parse x b) openai_config_of_json)"

definition load_openai_config :: "'s node_parts \<Rightarrow> ('s, stored_openai_config) node_act" where
  "load_openai_config p =
     andthen (gets nd_openai_config) (\<lambda>cached. case cached of
        Some c \<Rightarrow> ret c
      | None \<Rightarrow> (case load_openai_env_config (np_crates p) (np_env p) of
          Inr c \<Rightarrow> ret c
        | Inl _ \<Rightarrow> andthen (get_secret p secret_openai_config) (\<lambda>bundle. case bundle of
            Some b \<Rightarrow> lift (parse_openai_config (np_crates p) b)
          | None \<Rightarrow> lift (
              bind_res (ok_or (bad_request_node ''OpenAI API key is not configured for poster generation'')
                (np_env p ''OPENAI_API_KEY'')) (\<lambda>api_key.
              bind_res (normalize_openai_base_url (np_crates p) (lcf_openai_base_url (np_config p))) (\<lambda>base_url.
                Inr \<lparr> soa_api_key = api_key, soa_base_url = base_url,
                  soa_image_model = lcf_openai_image_model (np_config p) \<rparr>))))))"

definition load_persisted_openai_config :: "'s node_parts \<Rightarrow> ('s, stored_openai_config) node_act" where
  "load_persisted_openai_config p =
     andthen (gets nd_openai_config) (\<lambda>cached. case cached of
        Some c \<Rightarrow> ret c
      | None \<Rightarrow> andthen (get_secret p secret_openai_config) (\<lambda>bundle. case bundle of
          Some b \<Rightarrow> lift (parse_openai_config (np_crates p) b)
        | None \<Rightarrow> throw (bad_request_node ''OpenAI API key is not stored in this app'')))"

record openai_status =
  oas_configured :: bool
  oas_source :: string
  oas_base_url :: string
  oas_image_model :: string
  oas_api_key_fingerprint :: "string option"
  oas_issue :: "string option"

definition openai_found :: "crates \<Rightarrow> string \<Rightarrow> stored_openai_config \<Rightarrow> openai_status" where
  "openai_found x source c =
     \<lparr> oas_configured = True, oas_source = source, oas_base_url = soa_base_url c,
       oas_image_model = soa_image_model c,
       oas_api_key_fingerprint = Some (fingerprint_secret x (soa_api_key c)), oas_issue = None \<rparr>"

definition openai_missing :: "local_config \<Rightarrow> string \<Rightarrow> string \<Rightarrow> openai_status" where
  "openai_missing c source issue =
     \<lparr> oas_configured = False, oas_source = source, oas_base_url = lcf_openai_base_url c,
       oas_image_model = lcf_openai_image_model c, oas_api_key_fingerprint = None, oas_issue = Some issue \<rparr>"

definition inspect_openai_config :: "'s node_parts \<Rightarrow> ('s node, 'e, openai_status) act" where
  "inspect_openai_config p =
     (let env_config = load_openai_env_config (np_crates p) (np_env p) in
      andthen (gets nd_openai_config) (\<lambda>cached. case cached of
        Some c \<Rightarrow> ret (openai_found (np_crates p) ''openai_config_cache'' c)
      | None \<Rightarrow> (case env_config of
          Inr c \<Rightarrow> ret (openai_found (np_crates p) ''env'' c)
        | Inl _ \<Rightarrow> match_res (get_secret_for_status p secret_openai_config)
            (\<lambda>stored. ret (case stored of
                Some b \<Rightarrow> (case Option.bind (x_json_parse (np_crates p) b) openai_config_of_json of
                    Some c \<Rightarrow> openai_found (np_crates p) ''openai_config'' c
                  | None \<Rightarrow> openai_missing (np_config p) ''openai_config'' ''stored OpenAI config is invalid'')
              | None \<Rightarrow> openai_missing (np_config p) ''missing'' ''OpenAI API key is not configured''))
            (\<lambda>_. ret (case env_config of
                Inr c \<Rightarrow> openai_found (np_crates p) ''env'' c
              | Inl _ \<Rightarrow> openai_missing (np_config p) ''unavailable'' ''secret store unavailable'')))))"

record openai_config_response =
  oar_base_url :: string
  oar_image_model :: string
  oar_api_key_fingerprint :: string
  oar_saved_at :: string

definition save_openai_config ::
  "'s node_parts \<Rightarrow> headers \<Rightarrow> string \<Rightarrow> string option \<Rightarrow> string option \<Rightarrow> ('s, openai_config_response) node_act" where
  "save_openai_config p h api_key0 base_url0 image_model0 =
     andthen (lift (require_operator_token (np_config p) h)) (\<lambda>_.
     andthen (if trim api_key0 = []
       then andthen (map_error (\<lambda>_. bad_request_node
              ''OpenAI API key is required the first time you save this config'')
              (load_persisted_openai_config p)) (\<lambda>c. ret (soa_api_key c))
       else ret (trim api_key0)) (\<lambda>api_key.
     andthen (lift (normalize_openai_base_url (np_crates p)
       (unwrap_or base_url0 (lcf_openai_base_url (np_config p))))) (\<lambda>base_url.
     let bundle = \<lparr> soa_api_key = api_key, soa_base_url = base_url,
           soa_image_model = unwrap_or (Option.bind image_model0 filled_trim)
             (lcf_openai_image_model (np_config p)) \<rparr> in
     andthen (put_secret p ''failed to save OpenAI config'' secret_openai_config
       (x_json_print (np_crates p) (openai_config_to_json bundle))) (\<lambda>_.
     andthen (modify (\<lambda>s. s\<lparr>nd_openai_config := Some bundle\<rparr>)) (\<lambda>_.
     andthen utc_now (\<lambda>now.
       ret \<lparr> oar_base_url = base_url, oar_image_model = soa_image_model bundle,
         oar_api_key_fingerprint = fingerprint_secret (np_crates p) api_key,
         oar_saved_at = x_to_rfc3339 (np_crates p) now \<rparr>))))))"

section \<open>The model registry\<close>

definition load_persisted_model_registry :: "'s node_parts \<Rightarrow> ('s node, 'e, stored_model_registry) act" where
  "load_persisted_model_registry p =
     andthen (gets nd_registry) (\<lambda>cached. case cached of
        Some r \<Rightarrow> ret r
      | None \<Rightarrow>
          andthen (match_res (get_secret_for_status p secret_model_registry)
            (\<lambda>stored. ret (case stored of
                Some b \<Rightarrow> unwrap_or (Option.bind (x_json_parse (np_crates p) b) registry_of_json) empty_registry
              | None \<Rightarrow> empty_registry))
            (\<lambda>_. ret empty_registry)) (\<lambda>r.
          andthen (modify (\<lambda>s. s\<lparr>nd_registry := Some r\<rparr>)) (\<lambda>_. ret r)))"

definition resolve_secret_ref :: "'s node_parts \<Rightarrow> string \<Rightarrow> ('s, string) node_act" where
  "resolve_secret_ref p secret_ref =
     (if secret_ref = secret_openai_config
      then andthen (load_openai_config p) (\<lambda>c. ret (soa_api_key c))
      else andthen (get_secret p secret_ref) (\<lambda>bundle.
        lift (ok_or (bad_request_node (''secret_ref '' @ [CHR 0x27] @ secret_ref @ [CHR 0x27]
          @ '' is not configured'')) bundle)))"

definition validate_entry :: "'s node_parts \<Rightarrow> provider_entry \<Rightarrow> ('s, provider_entry) node_act" where
  "validate_entry p e =
     (let secret_ref = trim (pe_secret_ref e) in
      andthen (lift (ensure (secret_ref \<noteq> [])
        (bad_request_node ''provider secret_ref must not be empty''))) (\<lambda>_.
      andthen (resolve_secret_ref p secret_ref) (\<lambda>_.
      andthen (lift (normalize_provider_base_url (np_crates p) (pe_base_url e))) (\<lambda>base_url.
        ret (e\<lparr> pe_base_url := base_url, pe_secret_ref := secret_ref \<rparr>)))))"

fun for_each :: "('a \<Rightarrow> ('t, 'e, 'b) act) \<Rightarrow> 'a list \<Rightarrow> ('t, 'e, 'b list) act" where
  "for_each f [] = ret []"
| "for_each f (a # as) = andthen (f a) (\<lambda>b. andthen (for_each f as) (\<lambda>bs. ret (b # bs)))"

record model_registry_response =
  mrr_image_gen_entries :: nat
  mrr_text_gen_entries :: nat
  mrr_video_gen_entries :: nat
  mrr_saved_at :: string

definition save_model_registry ::
  "'s node_parts \<Rightarrow> headers \<Rightarrow> stored_model_registry \<Rightarrow> ('s, model_registry_response) node_act" where
  "save_model_registry p h input =
     andthen (lift (require_operator_token (np_config p) h)) (\<lambda>_.
     andthen (for_each (validate_entry p) (mr_image_gen input)) (\<lambda>image.
     andthen (for_each (validate_entry p) (mr_text_gen input)) (\<lambda>text.
     andthen (for_each (validate_entry p) (mr_video_gen input)) (\<lambda>video.
     let validated = \<lparr> mr_image_gen = image, mr_text_gen = text, mr_video_gen = video \<rparr> in
     andthen (put_secret p ''failed to save model registry'' secret_model_registry
       (x_json_print (np_crates p) (registry_to_json validated))) (\<lambda>_.
     andthen (modify (\<lambda>s. s\<lparr>nd_registry := Some validated\<rparr>)) (\<lambda>_.
     andthen utc_now (\<lambda>now.
       ret \<lparr> mrr_image_gen_entries = length image, mrr_text_gen_entries = length text,
         mrr_video_gen_entries = length video, mrr_saved_at = x_to_rfc3339 (np_crates p) now \<rparr>)))))))"

definition get_model_registry :: "'s node_parts \<Rightarrow> headers \<Rightarrow> ('s, stored_model_registry) node_act" where
  "get_model_registry p h =
     andthen (lift (require_operator_token (np_config p) h)) (\<lambda>_. load_persisted_model_registry p)"

section \<open>Other secrets\<close>

definition secret_name_char :: "char \<Rightarrow> bool" where
  "secret_name_char c \<longleftrightarrow> is_ascii_lower c \<or> is_ascii_digit c \<or> c = CHR ''_''"

record secret_save_response =
  ssr_name :: string
  ssr_fingerprint :: string
  ssr_saved_at :: string

definition save_secret ::
  "'s node_parts \<Rightarrow> headers \<Rightarrow> string \<Rightarrow> string \<Rightarrow> ('s, secret_save_response) node_act" where
  "save_secret p h name0 v =
     andthen (lift (require_operator_token (np_config p) h)) (\<lambda>_.
     let name = trim name0 in
     andthen (lift (ensure (name \<noteq> []) (bad_request_node ''secret name is required''))) (\<lambda>_.
     andthen (lift (ensure (list_all secret_name_char name)
       (bad_request_node ''secret name must match [a-z0-9_]+ (lowercase letters, digits, underscore)''))) (\<lambda>_.
     andthen (lift (ensure (name \<notin> set reserved_secret_names)
       (bad_request_node ([CHR 0x27] @ name @ [CHR 0x27]
          @ '' is a reserved secret name and cannot be set here'')))) (\<lambda>_.
     andthen (lift (ensure (v \<noteq> []) (bad_request_node ''secret value is required''))) (\<lambda>_.
     andthen (put_secret p ''failed to save secret'' name v) (\<lambda>_.
     andthen utc_now (\<lambda>now.
       ret \<lparr> ssr_name = name, ssr_fingerprint = fingerprint_secret (np_crates p) v,
         ssr_saved_at = x_to_rfc3339 (np_crates p) now \<rparr>)))))))"

end
