(* ===== verification/NodeStatus.thy ===== *)
theory NodeStatus
  imports NodeSecrets
begin

text \<open>
  Which provider a capability resolves to (\<open>apps/local-node/src/model_router.rs\<close>) and the
  status endpoints of the local node (\<open>apps/local-node/src/main.rs\<close>): health, attestation,
  diagnostics, portal and configuration status.
\<close>

section \<open>Capabilities\<close>

datatype capability = ImageGen | TextGen | VideoGen

datatype resolved_provider =
    OpenAiImage stored_openai_config
  | Generic (gp_kind: provider_kind) (gp_base_url: string) (gp_model: string) (gp_api_key: string)
      (gp_auth: auth_style) (gp_dialect: video_dialect) (gp_extra: "(string \<times> string) list")
  | NotConfigured string string

definition expect_openai_image :: "resolved_provider \<Rightarrow> node_error + stored_openai_config" where
  "expect_openai_image r =
     (case r of
        OpenAiImage c \<Rightarrow> Inr c
      | NotConfigured _ reason \<Rightarrow> Inl (bad_request_node reason)
      | Generic _ _ _ _ _ _ _ \<Rightarrow> Inl (bad_request_node ''resolved provider is not an OpenAI image provider''))"

definition entries_for :: "capability \<Rightarrow> stored_model_registry \<Rightarrow> provider_entry list" where
  "entries_for cap r =
     (case cap of ImageGen \<Rightarrow> mr_image_gen r | TextGen \<Rightarrow> mr_text_gen r | VideoGen \<Rightarrow> mr_video_gen r)"

definition resolve_capability :: "'s node_parts \<Rightarrow> capability \<Rightarrow> ('s, resolved_provider) node_act" where
  "resolve_capability p cap =
     andthen (load_persisted_model_registry p) (\<lambda>r.
       let entry = find pe_enabled (entries_for cap r) in
       if cap = ImageGen then (case entry of
           Some e \<Rightarrow> andthen (resolve_secret_ref p (pe_secret_ref e)) (\<lambda>api_key.
             ret (OpenAiImage (for_registry api_key (pe_base_url e) (pe_model e))))
         | None \<Rightarrow> andthen (load_openai_config p) (\<lambda>c. ret (OpenAiImage c)))
       else (case entry of
           Some e \<Rightarrow> andthen (resolve_secret_ref p (pe_secret_ref e)) (\<lambda>api_key.
             ret (Generic (pe_kind e) (pe_base_url e) (pe_model e) api_key (pe_auth e)
               (pe_video_dialect e) (pe_extra e)))
         | None \<Rightarrow> ret (if cap = TextGen
             then NotConfigured ''text_gen'' ''no text provider configured''
             else NotConfigured ''video_gen'' ''no video provider configured'')))"

record capability_status =
  cst_capability :: string
  cst_ready :: bool
  cst_provider_kind :: "string option"
  cst_base_url :: "string option"
  cst_model :: "string option"
  cst_secret_present :: bool
  cst_issue :: "string option"

definition resolves :: "'s node_parts \<Rightarrow> string \<Rightarrow> ('s node, 'e, bool) act" where
  "resolves p secret_ref =
     match_res (resolve_secret_ref p secret_ref) (\<lambda>_. ret True) (\<lambda>_. ret False)"

definition entry_status :: "string \<Rightarrow> provider_entry \<Rightarrow> bool \<Rightarrow> capability_status" where
  "entry_status cap e present =
     \<lparr> cst_capability = cap, cst_ready = present,
       cst_provider_kind = Some (provider_kind_label (pe_kind e)), cst_base_url = Some (pe_base_url e),
       cst_model = Some (pe_model e), cst_secret_present = present,
       cst_issue = (if present then None else Some ''provider secret is not available'') \<rparr>"

definition generic_capability_status ::
  "'s node_parts \<Rightarrow> string \<Rightarrow> provider_entry list \<Rightarrow> ('s node, 'e, capability_status) act" where
  "generic_capability_status p cap entries =
     (case find pe_enabled entries of
        Some e \<Rightarrow> andthen (resolves p (pe_secret_ref e)) (\<lambda>present. ret (entry_status cap e present))
      | None \<Rightarrow> ret \<lparr> cst_capability = cap, cst_ready = False, cst_provider_kind = None,
          cst_base_url = None, cst_model = None, cst_secret_present = False,
          cst_issue = Some ''not configured'' \<rparr>)"

definition inspect_capabilities :: "'s node_parts \<Rightarrow> ('s node, 'e, capability_status list) act" where
  "inspect_capabilities p =
     andthen (load_persisted_model_registry p) (\<lambda>r.
     andthen (case find pe_enabled (mr_image_gen r) of
         Some e \<Rightarrow> andthen (resolves p (pe_secret_ref e)) (\<lambda>present. ret (entry_status ''image_gen'' e present))
       | None \<Rightarrow> andthen (inspect_openai_config p) (\<lambda>status.
           ret \<lparr> cst_capability = ''image_gen'', cst_ready = oas_configured status,
             cst_provider_kind = Some ''openai_images'', cst_base_url = Some (oas_base_url status),
             cst_model = Some (oas_image_model status),
             cst_secret_present = (oas_api_key_fingerprint status \<noteq> None), cst_issue = oas_issue status \<rparr>)) (\<lambda>image.
     andthen (generic_capability_status p ''text_gen'' (mr_text_gen r)) (\<lambda>text.
     andthen (generic_capability_status p ''video_gen'' (mr_video_gen r)) (\<lambda>video.
       ret [image, text, video]))))"

section \<open>Health and attestation\<close>

definition connector_mode :: "local_config \<Rightarrow> string" where
  "connector_mode c = (if lcf_use_real_ozon c then ''real'' else ''mock'')"

definition protocol_version :: string where
  "protocol_version = ''2026-05-13.local-node.v1''"

definition node_features :: "feature list" where
  "node_features = [OzonRead, OzonWriteMock, DraftImport1688Mock, OpenClawBridge, LocalApproval]"

record health_status =
  hs_service :: string
  hs_status :: string
  hs_skill_port :: nat
  hs_agent_port :: nat
  hs_protocol_version :: string
  hs_build_commit :: string
  hs_package_version :: string
  hs_supervisor :: string
  hs_features :: "feature list"
  hs_real_ozon_enabled :: bool

definition node_health :: "'s node_parts \<Rightarrow> health_status" where
  "node_health p =
     \<lparr> hs_service = ''ozon-local-node'', hs_status = ''ok'',
       hs_skill_port = local_port (lcf_skill_bind (np_config p)),
       hs_agent_port = local_port (lcf_agent_bind (np_config p)),
       hs_protocol_version = protocol_version, hs_build_commit = bd_commit (np_build p),
       hs_package_version = bd_version (np_build p), hs_supervisor = ''tauri-sidecar'',
       hs_features = node_features, hs_real_ozon_enabled = lcf_use_real_ozon (np_config p) \<rparr>"

text \<open>The key of an HMAC may have any length, so there always is one.\<close>

definition attest_proof :: "crates \<Rightarrow> string \<Rightarrow> string \<Rightarrow> string" where
  "attest_proof x token nonce = hex_lower (the (x_hmac_sha256 x token nonce))"

definition attest :: "'s node_parts \<Rightarrow> headers \<Rightarrow> node_error + string" where
  "attest p h =
     bind_res (ok_or (bad_request_node ''missing x-attest-nonce'')
       (Option.bind (h ''x-attest-nonce'') filled_trim)) (\<lambda>nonce.
     bind_res (ensure (length nonce \<le> 256) (bad_request_node ''attestation nonce is too long'')) (\<lambda>_.
       Inr (attest_proof (np_crates p) (lcf_operator_token (np_config p)) nonce)))"

section \<open>Status\<close>

record poster_generation_status =
  pg_preferred :: string
  pg_openclaw_bridge_ready :: bool
  pg_handoff_path :: string
  pg_manifest_url :: string
  pg_api_fallback_configured :: bool
  pg_api_fallback_model :: "string option"
  pg_api_fallback_issue :: "string option"
  pg_message :: string

definition poster_generation_status_of :: "openai_status \<Rightarrow> string \<Rightarrow> poster_generation_status" where
  "poster_generation_status_of openai manifest_url =
     \<lparr> pg_preferred = ''openclaw_codex'', pg_openclaw_bridge_ready = True,
       pg_handoff_path = ''/poster/handoff'', pg_manifest_url = manifest_url,
       pg_api_fallback_configured = oas_configured openai,
       pg_api_fallback_model = (if oas_configured openai then Some (oas_image_model openai) else None),
       pg_api_fallback_issue = oas_issue openai,
       pg_message = (if oas_configured openai then ''openclaw_codex_preferred_with_api_fallback''
         else ''openclaw_codex_preferred_without_api_fallback'') \<rparr>"

definition skill_url :: "'s node_parts \<Rightarrow> string" where
  "skill_url p = local_http_url (lcf_skill_bind (np_config p))"

definition manifest_url_of :: "'s node_parts \<Rightarrow> string" where
  "manifest_url_of p = skill_url p @ ''/openclaw/manifest''"

record node_status =
  nst_checked_at :: string
  nst_skill_api :: string
  nst_agent_api :: string
  nst_manifest_url :: string
  nst_connector_mode :: string
  nst_real_ozon_enabled :: bool
  nst_secret_store_available :: bool
  nst_ozon :: inspected_ozon
  nst_openai :: openai_status
  nst_poster_generation :: poster_generation_status
  nst_lease :: lease_status
  nst_capabilities :: "capability_status list"

definition status_of ::
  "'s node_parts \<Rightarrow> instant \<Rightarrow> inspected_ozon \<Rightarrow> openai_status \<Rightarrow> lease_status
   \<Rightarrow> capability_status list \<Rightarrow> node_status" where
  "status_of p now ozon openai lease capabilities =
     \<lparr> nst_checked_at = x_to_rfc3339 (np_crates p) now, nst_skill_api = skill_url p,
       nst_agent_api = local_http_url (lcf_agent_bind (np_config p)),
       nst_manifest_url = manifest_url_of p, nst_connector_mode = connector_mode (np_config p),
       nst_real_ozon_enabled = lcf_use_real_ozon (np_config p),
       nst_secret_store_available = io_secret_store_available ozon, nst_ozon = ozon, nst_openai = openai,
       nst_poster_generation = poster_generation_status_of openai (manifest_url_of p),
       nst_lease = lease, nst_capabilities = capabilities \<rparr>"

text \<open>\<open>diagnostics\<close> asks for no token; \<open>config_status\<close> answers the same to the operator only.
  The expressions of the struct are evaluated in the order they are written.\<close>

definition diagnostics :: "'s node_parts \<Rightarrow> ('s, node_status) node_act" where
  "diagnostics p =
     andthen (inspect_ozon_credentials p) (\<lambda>ozon.
     andthen (inspect_openai_config p) (\<lambda>openai.
     andthen (inspect_cloud_lease p) (\<lambda>lease.
     andthen utc_now (\<lambda>now.
     andthen (inspect_capabilities p) (\<lambda>capabilities.
       ret (status_of p now ozon openai lease capabilities))))))"

definition config_status :: "'s node_parts \<Rightarrow> headers \<Rightarrow> ('s, node_status) node_act" where
  "config_status p h =
     andthen (lift (require_operator_token (np_config p) h)) (\<lambda>_.
     andthen (inspect_ozon_credentials p) (\<lambda>ozon.
     andthen (inspect_openai_config p) (\<lambda>openai.
     andthen utc_now (\<lambda>now.
     andthen (inspect_cloud_lease p) (\<lambda>lease.
     andthen (inspect_capabilities p) (\<lambda>capabilities.
       ret (status_of p now ozon openai lease capabilities)))))))"

record portal_status_response =
  pst_checked_at :: string
  pst_device_fingerprint :: string
  pst_real_ozon_enabled :: bool
  pst_ozon_configured :: bool
  pst_ozon_issue :: "string option"
  pst_openai_configured :: bool
  pst_openai_image_model :: string
  pst_openai_issue :: "string option"
  pst_poster_generation :: poster_generation_status
  pst_lease :: lease_status
  pst_features :: "feature list"

definition portal_status :: "'s node_parts \<Rightarrow> ('s, portal_status_response) node_act" where
  "portal_status p =
     andthen (load_or_create_device_fingerprint p) (\<lambda>fingerprint.
     andthen (inspect_ozon_credentials p) (\<lambda>ozon.
     andthen (inspect_openai_config p) (\<lambda>openai.
     andthen (inspect_cloud_lease p) (\<lambda>lease.
     andthen utc_now (\<lambda>now.
       ret \<lparr> pst_checked_at = x_to_rfc3339 (np_crates p) now, pst_device_fingerprint = fingerprint,
         pst_real_ozon_enabled = lcf_use_real_ozon (np_config p),
         pst_ozon_configured = io_configured ozon, pst_ozon_issue = io_issue ozon,
         pst_openai_configured = oas_configured openai, pst_openai_image_model = oas_image_model openai,
         pst_openai_issue = oas_issue openai,
         pst_poster_generation = poster_generation_status_of openai (manifest_url_of p),
         pst_lease = lease, pst_features = node_features \<rparr>)))))"

end
