(* ===== verification/NodeHttp.thy ===== *)
theory NodeHttp
  imports NodeStatus Utf8
begin

text \<open>
  How the local node talks to anything but Ozon (\<open>apps/local-node/src/main.rs\<close> and
  \<open>apps/local-node/src/model_router.rs\<close>): a request of the shared \<open>reqwest\<close> client with the
  key where the provider wants it, the reading of the answer, and the text an operator gets
  when the answer is an error.
\<close>

section \<open>Building a request\<close>

text \<open>A request under construction, as \<open>RequestBuilder\<close>; \<open>apply_auth\<close> places the key.\<close>

definition request_to :: "string \<Rightarrow> string \<Rightarrow> http_request" where
  "request_to verb url = \<lparr> hr_method = verb, hr_url = url, hr_headers = [], hr_body = NoBody \<rparr>"

definition with_header :: "string \<Rightarrow> string \<Rightarrow> http_request \<Rightarrow> http_request" where
  "with_header name v r = r\<lparr>hr_headers := hr_headers r @ [(name, v)]\<rparr>"

definition with_json :: "crates \<Rightarrow> json \<Rightarrow> http_request \<Rightarrow> http_request" where
  "with_json x j r = (r\<lparr>hr_body := TextBody (x_json_print x j),
     hr_headers := (if ''Content-Type'' \<in> fst ` set (hr_headers r) then hr_headers r
                    else hr_headers r @ [(''Content-Type'', ''application/json'')])\<rparr>)"

definition bearer_auth :: "string \<Rightarrow> http_request \<Rightarrow> http_request" where
  "bearer_auth k = with_header ''Authorization'' (''Bearer '' @ k)"

fun apply_auth :: "crates \<Rightarrow> auth_style \<Rightarrow> string \<Rightarrow> http_request \<Rightarrow> http_request" where
  "apply_auth x Bearer k r = bearer_auth k r"
| "apply_auth x (Header name) k r = with_header name k r"
| "apply_auth x (Query name) k r = r\<lparr>hr_url := x_url_with_query x (hr_url r) name k\<rparr>"

section \<open>Error texts\<close>

definition truncate_text :: "string \<Rightarrow> nat \<Rightarrow> string" where
  "truncate_text v n = (if n < char_count v then take_chars n v @ ''...'' else take_chars n v)"

record openai_error =
  oe_code :: "string option"
  oe_message :: "string option"
  oe_type :: "string option"

definition openai_error_of_json :: "openai_error de" where
  "openai_error_of_json j =
     field ''error'' (\<lambda>e.
       Option.bind (field_opt ''code'' de_string e) (\<lambda>c.
       Option.bind (field_opt ''message'' de_string e) (\<lambda>m.
       Option.bind (field_opt ''type'' de_string e) (\<lambda>t.
         Some \<lparr> oe_code = c, oe_message = m, oe_type = t \<rparr>)))) j"

definition summarize_openai_error :: "crates \<Rightarrow> string \<Rightarrow> string" where
  "summarize_openai_error x b =
     (case Option.bind (x_json_parse x b) openai_error_of_json of
        Some e \<Rightarrow>
          let message = unwrap_or (oe_message e) ''upstream returned an error without a message'' in
          if oe_code e = Some ''model_not_found'' then
            ''image model is not available for this API key: '' @ message
            @ ''. Use an API key or proxy with gpt-image-1 / gpt-image-2 enabled.''
          else (case oe_code e of
              Some c \<Rightarrow> c @ '': '' @ message
            | None \<Rightarrow> (case oe_type e of Some t \<Rightarrow> t @ '': '' @ message | None \<Rightarrow> message))
      | None \<Rightarrow> truncate_text (trim b) 600)"

section \<open>Sending\<close>

text \<open>\<open>send\<close>: a request that could not be built is an error before anything is sent.\<close>

definition http_send :: "'s node_parts \<Rightarrow> http_request \<Rightarrow> ('s node, 'e, string + http_response) act" where
  "http_send p r =
     (case x_request_error (np_crates p) r of
        Some e \<Rightarrow> ret (Inl e)
      | None \<Rightarrow> on_network (net_send r))"

text \<open>Send, turn a failure and an answer that is no success into the texts given, and hand on the
  body: the shape of every call of a model provider.\<close>

definition call_provider ::
  "'s node_parts \<Rightarrow> string \<Rightarrow> string \<Rightarrow> http_request \<Rightarrow> ('s, string option) node_act" where
  "call_provider p failed refused r =
     andthen (http_send p r) (\<lambda>answer.
       case answer of
         Inl e \<Rightarrow> throw (bad_gateway_node (failed @ '': '' @ e))
       | Inr a \<Rightarrow>
           if \<not> is_success (rsp_status a)
           then throw (bad_gateway_node (refused @ '': ''
                  @ summarize_openai_error (np_crates p) (unwrap_or (rsp_body a) ''unknown error'')))
           else ret (rsp_body a))"

text \<open>\<open>response.json::<T>()\<close> with the prefix of its error.\<close>

definition read_json :: "'s node_parts \<Rightarrow> string \<Rightarrow> 'a de \<Rightarrow> string option \<Rightarrow> ('s, 'a) node_act" where
  "read_json p invalid d b =
     lift (ok_or (bad_gateway_node (invalid @ '': '' @ x_decode_error (np_crates p) b))
       (Option.bind (Option.bind b (x_json_parse (np_crates p))) d))"

section \<open>The answer of an image model\<close>

record image_data =
  im_b64_json :: "string option"
  im_url :: "string option"
  im_revised_prompt :: "string option"

definition image_data_of_json :: "image_data de" where
  "image_data_of_json j =
     Option.bind (field_opt ''b64_json'' de_string j) (\<lambda>b.
     Option.bind (field_opt ''url'' de_string j) (\<lambda>u.
     Option.bind (field_opt ''revised_prompt'' de_string j) (\<lambda>r.
       Some \<lparr> im_b64_json = b, im_url = u, im_revised_prompt = r \<rparr>)))"

definition image_response_of_json :: "image_data list de" where
  "image_response_of_json = field ''data'' (de_array image_data_of_json)"

section \<open>Lemmas\<close>

lemma truncate_text_bound: "char_count (truncate_text v n) \<le> n + 3"
proof -
  have "char_count (s @ ''...'') \<le> char_count s + 3" for s
  proof (induction s rule: chars.induct)
    case 1
    show ?case by (simp add: char_count_def is_continuation_def)
  next
    case (2 c cs)
    have dots: "takeWhile is_continuation (cs @ ''...'') = takeWhile is_continuation cs"
      by (induction cs) (simp_all add: is_continuation_def)
    have rest: "dropWhile is_continuation (cs @ ''...'') = dropWhile is_continuation cs @ ''...''"
      by (induction cs) (simp_all add: is_continuation_def)
    show ?case using 2 by (simp add: char_count_def dots rest)
  qed
  from this [of "take_chars n v"] show ?thesis
    using char_count_take [of n v] by (simp add: truncate_text_def)
qed

lemma http_send_sent:
  "nw_sent (nd_network (snd (http_send p r s))) =
     (case x_request_error (np_crates p) r of Some _ \<Rightarrow> nw_sent (nd_network s) | None \<Rightarrow> nw_sent (nd_network s) @ [r])"
  by (simp add: http_send_def net_send_def act_simps split: option.split)

end
