(* ===== verification/NodeCopy.thy ===== *)
theory NodeCopy
  imports NodeHttp
begin

text \<open>
  Product copy (module 3 of \<open>apps/local-node/src/main.rs\<close>): recognition asks a chat model to
  redistribute the fields of a product, and changes nothing; the push matches a reviewed
  proposal against the dictionary of the category, always answers with a preview, and writes
  to the shop when the request confirms. Russian texts are given by their UTF-8 bytes.
\<close>

section \<open>Data\<close>

record m3_attribute =
  ma_name :: string
  ma_values :: "string list"

record m3_fields =
  mf_title :: string
  mf_description :: string
  mf_attributes :: "m3_attribute list"
  mf_type_category :: string

definition default_fields :: m3_fields where
  "default_fields = \<lparr> mf_title = [], mf_description = [], mf_attributes = [], mf_type_category = [] \<rparr>"

definition m3_attribute_of_json :: "m3_attribute de" where
  "m3_attribute_of_json j =
     Option.bind (field_default ''name'' [] de_string j) (\<lambda>n.
     Option.bind (field_default ''values'' [] (de_array de_string) j) (\<lambda>v.
       Some \<lparr> ma_name = n, ma_values = v \<rparr>))"

definition m3_fields_of_json :: "m3_fields de" where
  "m3_fields_of_json j =
     Option.bind (field_default ''title'' [] de_string j) (\<lambda>t.
     Option.bind (field_default ''description'' [] de_string j) (\<lambda>d.
     Option.bind (field_default ''attributes'' [] (de_array m3_attribute_of_json) j) (\<lambda>a.
     Option.bind (field_default ''type_category'' [] de_string j) (\<lambda>c.
       Some \<lparr> mf_title = t, mf_description = d, mf_attributes = a, mf_type_category = c \<rparr>))))"

record relist_target =
  rt_product_id :: "string option"
  rt_offer_id :: "string option"

definition target_label :: "relist_target \<Rightarrow> string" where
  "target_label t = unwrap_or (or_else (rt_offer_id t) (rt_product_id t)) ''(unknown)''"

text \<open>\<open>into_lookup\<close>: one identifier, the product id where there is one.\<close>

definition target_lookup :: "relist_target \<Rightarrow> product_lookup" where
  "target_lookup t =
     (let n = normalized \<lparr> lk_product_id = rt_product_id t, lk_offer_id = rt_offer_id t, lk_sku = None \<rparr> in
      if lk_product_id n \<noteq> None
      then \<lparr> lk_product_id = lk_product_id n, lk_offer_id = None, lk_sku = None \<rparr> else n)"

section \<open>Texts\<close>

definition module3_max_images :: nat where "module3_max_images = 6"
definition module3_title_max :: nat where "module3_title_max = 200"
definition module3_description_max :: nat where "module3_description_max = 1800"
definition relist_max_batch :: nat where "relist_max_batch = 12"
definition module3_default_language :: string where "module3_default_language = ''ru''"

definition strip_suffix :: "string \<Rightarrow> string \<Rightarrow> string option" where
  "strip_suffix p s = map_option rev (strip_prefix (rev p) (rev s))"

definition quotes_open :: "string list" where
  "quotes_open = [[CHR 0x22], [CHR 0x27], utf8 [194, 171]]"

definition quotes_close :: "string list" where
  "quotes_close = [[CHR 0x22], [CHR 0x27], utf8 [194, 187]]"

definition fence :: string where
  "fence = replicate 3 (CHR 0x60)"

text \<open>\<open>strip_json_wrappers\<close>: one code fence, then one pair of quotes.\<close>

definition strip_fence :: "string \<Rightarrow> string" where
  "strip_fence out =
     (case strip_prefix fence out of
        None \<Rightarrow> out
      | Some r0 \<Rightarrow>
          let r1 = unwrap_or (strip_prefix ''json'' r0) r0;
              r2 = unwrap_or (strip_prefix ''JSON'' r1) r1;
              r3 = trim_start_matches (CHR 0x0A) r2 in
          (case strip_suffix fence r3 of Some inner \<Rightarrow> trim inner | None \<Rightarrow> trim r3))"

definition strip_quotes :: "string \<Rightarrow> string" where
  "strip_quotes out =
     (let cs = chars out in
      if 2 \<le> length cs \<and> hd cs \<in> set quotes_open \<and> last cs \<in> set quotes_close
      then trim (concat (butlast (tl cs))) else out)"

definition strip_json_wrappers :: "string \<Rightarrow> string" where
  "strip_json_wrappers content = strip_quotes (strip_fence (trim content))"

definition parse_module3_result :: "crates \<Rightarrow> string \<Rightarrow> string + m3_fields" where
  "parse_module3_result x content =
     (let cleaned = strip_json_wrappers content in
      ok_or (''could not parse model JSON: '' @ x_json_error x cleaned)
        (Option.bind (x_json_parse x cleaned) m3_fields_of_json))"

text \<open>\<open>&cut[..cut.rfind(' ')]\<close>.\<close>

definition before_last :: "char \<Rightarrow> string \<Rightarrow> string" where
  "before_last c s = (if c \<in> set s then rev (tl (dropWhile (\<lambda>d. d \<noteq> c) (rev s))) else s)"

definition word_boundary_truncate :: "string \<Rightarrow> nat \<Rightarrow> string" where
  "word_boundary_truncate v n =
     (let t = trim v in
      if char_count t \<le> n then t else trim_end (before_last (CHR '' '') (take_chars n t)))"

definition module3_normalize :: "crates \<Rightarrow> string \<Rightarrow> string" where
  "module3_normalize x v = x_unicode_lowercase x (join '' '' (split_whitespace v))"

section \<open>Recognition\<close>

definition module3_type_category :: "product_detail \<Rightarrow> string" where
  "module3_type_category d =
     join '', '' (map (\<lambda>i. ''type_id='' @ show_nat (unat i)) (option_list (pd_type_id d))
       @ map (\<lambda>i. ''description_category_id='' @ show_nat (unat i))
           (option_list (pd_description_category_id d)))"

definition module3_source_fields :: "product_detail \<Rightarrow> m3_fields" where
  "module3_source_fields d =
     \<lparr> mf_title = trim (unwrap_or (pd_name d) []),
       mf_description = trim (unwrap_or (pd_description d) []),
       mf_attributes = List.map_filter (\<lambda>a.
         let name = trim (unwrap_or (pa_name a) []);
             vs = filter (\<lambda>v. v \<noteq> []) (map trim (pa_values a)) in
         if name = [] \<and> vs = [] then None else Some \<lparr> ma_name = name, ma_values = vs \<rparr>)
         (pd_attributes d),
       mf_type_category = module3_type_category d \<rparr>"

definition no_name :: string where
  "no_name = utf8 [40, 208, 177, 208, 181, 208, 183, 32, 208, 189, 208, 176, 208, 183, 208, 178, 208, 176, 208, 189,  208, 184, 209, 143, 41]"

definition nl :: string where
  "nl = [CHR 0x0A]"

definition module3_labeled_document :: "m3_fields \<Rightarrow> string" where
  "module3_labeled_document f =
     ''===TITLE==='' @ nl @ mf_title f @ nl @ nl @ ''===DESCRIPTION==='' @ nl @ mf_description f
     @ nl @ nl @ ''===ATTRIBUTES==='' @ nl
     @ concat (map (\<lambda>a. (if ma_name a = [] then no_name else ma_name a) @ '': ''
         @ join ''; '' (ma_values a) @ nl) (mf_attributes f))
     @ nl @ ''===TYPE/CATEGORY==='' @ nl @ mf_type_category f"

definition module3_image_urls :: "product_detail \<Rightarrow> string list" where
  "module3_image_urls d =
     take module3_max_images (ordered_unique (filter (\<lambda>u. u \<noteq> []) (map trim
       (option_list (pd_primary_image d) @ map pi_url (pd_images d) @ pd_gallery_images d))))"

datatype content_part = TextContent string | ImageUrlContent string

datatype chat_content = PlainText string | Parts "content_part list"

definition content_part_to_json :: "content_part \<Rightarrow> json" where
  "content_part_to_json c =
     (case c of
        TextContent t \<Rightarrow> JObject [(''type'', JString ''text''), (''text'', JString t)]
      | ImageUrlContent u \<Rightarrow>
          JObject [(''type'', JString ''image_url''), (''image_url'', JObject [(''url'', JString u)])])"

definition chat_message_to_json :: "string \<times> chat_content \<Rightarrow> json" where
  "chat_message_to_json m = JObject
     [(''role'', JString (fst m)),
      (''content'', case snd m of PlainText t \<Rightarrow> JString t
                    | Parts ps \<Rightarrow> JArray (map content_part_to_json ps))]"

definition chat_request_to_json :: "string \<Rightarrow> (string \<times> chat_content) list \<Rightarrow> json" where
  "chat_request_to_json model messages = JObject
     [(''model'', JString model), (''messages'', JArray (map chat_message_to_json messages)),
      (''temperature'', JFloat ''0.2''), (''max_tokens'', JInt 2048)]"

text \<open>The contents of the choices of an answer.\<close>

definition chat_response_of_json :: "string option list de" where
  "chat_response_of_json =
     field_default ''choices'' [] (de_array (field_default ''message'' None
       (field_opt ''content'' de_string)))"

definition chat_completion ::
  "'s node_parts \<Rightarrow> (string \<times> chat_content) list \<Rightarrow> ('s, string) node_act" where
  "chat_completion p messages =
     andthen (resolve_capability p TextGen) (\<lambda>resolved.
       case resolved of
         Generic kind base_url model api_key auth dialect extra \<Rightarrow>
           if kind \<noteq> OpenAiCompatChat
           then throw (bad_request_node ''configured text/vision provider is not an OpenAI-compatible chat provider'')
           else
             andthen (call_provider p ''chat request failed'' ''chat completion failed''
               (apply_auth (np_crates p) auth api_key
                 (with_json (np_crates p) (chat_request_to_json model messages)
                   (request_to ''POST'' (endpoint_for OpenAiCompatChat base_url))))) (\<lambda>b.
             andthen (read_json p ''invalid chat response'' chat_response_of_json b) (\<lambda>choices.
               lift (ok_or (bad_gateway_node ''chat completion returned no content'')
                 (Option.bind (Option.bind (first_of choices) id) filled_trim))))
       | NotConfigured _ reason \<Rightarrow>
           throw (bad_request_node (''text/vision provider is not configured: '' @ reason))
       | OpenAiImage _ \<Rightarrow> throw (bad_request_node ''text/vision provider is not configured''))"

definition system_prompt :: "string \<Rightarrow> string" where
  "system_prompt language =
     utf8
      [208, 162, 209, 139, 32, 226, 128, 148, 32, 208, 191, 208, 190, 208, 188, 208, 190, 209, 137, 208,
       189, 208, 184, 208, 186, 32, 208, 191, 208, 190, 32, 208, 186, 208, 176, 209, 128, 209, 130, 208,
       190, 209, 135, 208, 186, 208, 176, 208, 188, 32, 209, 130, 208, 190, 208, 178, 208, 176, 209, 128,
       208, 190, 208, 178, 32, 208, 188, 208, 176, 209, 128, 208, 186, 208, 181, 209, 130, 208, 191, 208,
       187, 208, 181, 208, 185, 209, 129, 208, 176, 32, 79, 122, 111, 110, 46, 32, 208, 157, 208, 176, 32,
       208, 190, 209, 129, 208, 189, 208, 190, 208, 178, 208, 181, 32, 208, 184, 209, 129, 209, 133, 208,
       190, 208, 180, 208, 189, 209, 139, 209, 133, 32, 208, 191, 208, 190, 208, 187, 208, 181, 208, 185,
       32, 209, 130, 208, 190, 208, 178, 208, 176, 209, 128, 208, 176, 32, 208, 184, 32, 208, 181, 208,
       179, 208, 190, 32, 209, 132, 208, 190, 209, 130, 208, 190, 208, 179, 209, 128, 208, 176, 209, 132,
       208, 184, 208, 185, 32, 208, 191, 208, 181, 209, 128, 208, 181, 209, 128, 208, 176, 209, 129, 208,
       191, 209, 128, 208, 181, 208, 180, 208, 181, 208, 187, 208, 184, 32, 208, 184, 32, 208, 190, 209,
       135, 208, 184, 209, 129, 209, 130, 208, 184, 32, 208, 186, 208, 190, 208, 189, 209, 130, 208, 181,
       208, 189, 209, 130, 32, 208, 191, 208, 190, 32, 209, 135, 208, 181, 209, 130, 209, 139, 209, 128,
       209, 145, 208, 188, 32, 208, 191, 208, 190, 208, 187, 209, 143, 208, 188, 46, 32, 208, 146, 209,
       139, 208, 178, 208, 190, 208, 180, 208, 184, 32, 209, 130, 208, 181, 208, 186, 209, 129, 209, 130,
       32, 208, 189, 208, 176, 32, 209, 143, 208, 183, 209, 139, 208, 186, 208, 181, 32, 209, 129, 32,
       208, 186, 208, 190, 208, 180, 208, 190, 208, 188, 32, 34]
     @ language @
     utf8
      [34, 32, 40, 208, 191, 208, 190, 32, 209, 131, 208, 188, 208, 190, 208, 187, 209, 135, 208, 176,
       208, 189, 208, 184, 209, 142, 32, 209, 128, 209, 131, 209, 129, 209, 129, 208, 186, 208, 184, 208,
       185, 41, 46, 32, 208, 157, 208, 152, 208, 167, 208, 149, 208, 147, 208, 158, 32, 208, 157, 208,
       149, 32, 208, 146, 208, 171, 208, 148, 208, 163, 208, 156, 208, 171, 208, 146, 208, 144, 208, 153,
       58, 32, 208, 184, 209, 129, 208, 191, 208, 190, 208, 187, 209, 140, 208, 183, 209, 131, 208, 185,
       32, 209, 130, 208, 190, 208, 187, 209, 140, 208, 186, 208, 190, 32, 209, 132, 208, 176, 208, 186,
       209, 130, 209, 139, 32, 208, 184, 208, 183, 32, 208, 184, 209, 129, 209, 133, 208, 190, 208, 180,
       208, 189, 208, 190, 208, 179, 208, 190, 32, 209, 130, 208, 181, 208, 186, 209, 129, 209, 130, 208,
       176, 32, 208, 184, 32, 208, 184, 208, 183, 208, 190, 208, 177, 209, 128, 208, 176, 208, 182, 208,
       181, 208, 189, 208, 184, 208, 185, 46, 32, 208, 146, 208, 181, 209, 128, 208, 189, 208, 184, 32,
       208, 161, 208, 162, 208, 160, 208, 158, 208, 147, 208, 158, 32, 208, 178, 208, 176, 208, 187, 208,
       184, 208, 180, 208, 189, 209, 139, 208, 185, 32, 74, 83, 79, 78, 32, 209, 128, 208, 190, 208, 178,
       208, 189, 208, 190, 32, 209, 129, 32, 209, 130, 208, 176, 208, 186, 208, 184, 208, 188, 208, 184,
       32, 208, 186, 208, 187, 209, 142, 209, 135, 208, 176, 208, 188, 208, 184, 58, 32, 123, 34, 116,
       105, 116, 108, 101, 34, 58, 32, 209, 129, 209, 130, 209, 128, 208, 190, 208, 186, 208, 176, 44, 32,
       34, 100, 101, 115, 99, 114, 105, 112, 116, 105, 111, 110, 34, 58, 32, 209, 129, 209, 130, 209, 128,
       208, 190, 208, 186, 208, 176, 44, 32, 34, 97, 116, 116, 114, 105, 98, 117, 116, 101, 115, 34, 58,
       32, 91, 123, 34, 110, 97, 109, 101, 34, 58, 32, 209, 129, 209, 130, 209, 128, 208, 190, 208, 186,
       208, 176, 44, 32, 34, 118, 97, 108, 117, 101, 115, 34, 58, 32, 91, 209, 129, 209, 130, 209, 128,
       208, 190, 208, 186, 208, 176, 44, 32, 46, 46, 46, 93, 125, 93, 44, 32, 34, 116, 121, 112, 101, 95,
       99, 97, 116, 101, 103, 111, 114, 121, 34, 58, 32, 209, 129, 209, 130, 209, 128, 208, 190, 208, 186,
       208, 176, 125, 46, 32, 208, 145, 208, 181, 208, 183, 32, 109, 97, 114, 107, 100, 111, 119, 110, 44,
       32, 208, 177, 208, 181, 208, 183, 32, 208, 191, 208, 190, 209, 143, 209, 129, 208, 189, 208, 181,
       208, 189, 208, 184, 208, 185, 44, 32, 209, 130, 208, 190, 208, 187, 209, 140, 208, 186, 208, 190,
       32, 74, 83, 79, 78, 46]"

definition user_prompt :: string where
  "user_prompt = utf8
      [208, 152, 209, 129, 209, 133, 208, 190, 208, 180, 208, 189, 209, 139, 208, 181, 32, 208, 191, 208,
       190, 208, 187, 209, 143, 32, 209, 130, 208, 190, 208, 178, 208, 176, 209, 128, 208, 176, 32, 40,
       208, 191, 208, 181, 209, 128, 208, 181, 209, 128, 208, 176, 209, 129, 208, 191, 209, 128, 208, 181,
       208, 180, 208, 181, 208, 187, 208, 184, 32, 208, 184, 209, 133, 32, 208, 191, 208, 190, 32, 209,
       135, 208, 181, 209, 130, 209, 139, 209, 128, 209, 145, 208, 188, 32, 208, 191, 208, 190, 208, 187,
       209, 143, 208, 188, 41, 58, 10, 10]"

definition module3_request_proposal ::
  "'s node_parts \<Rightarrow> string \<Rightarrow> string \<Rightarrow> string list \<Rightarrow> ('s, string) node_act" where
  "module3_request_proposal p language document image_urls =
     chat_completion p
       [(''system'', PlainText (system_prompt language)),
        (''user'', Parts (TextContent (user_prompt @ document) # map ImageUrlContent image_urls))]"

record m3_item =
  mi_product_id :: string
  mi_offer_id :: string
  mi_source :: m3_fields
  mi_proposal :: "m3_fields option"
  mi_error :: "string option"

definition read_failed :: "ozon_error \<Rightarrow> string" where
  "read_failed e = ''read product failed: '' @ show_ozon_error e"

definition module3_recognize_one ::
  "'s node_parts \<Rightarrow> ozon_credentials \<Rightarrow> product_lookup \<Rightarrow> string \<Rightarrow> ('s node, string, m3_item) act" where
  "module3_recognize_one p credentials lookup language =
     andthen (map_error read_failed (on_network (rc_product_get (np_reader p) credentials lookup))) (\<lambda>d.
     let source = module3_source_fields d in
     andthen (match_res (module3_request_proposal p language (module3_labeled_document source)
         (module3_image_urls d))
       (\<lambda>content. case parse_module3_result (np_crates p) content of
          Inr f \<Rightarrow> ret (f\<lparr> mf_title := word_boundary_truncate (mf_title f) module3_title_max,
            mf_description := word_boundary_truncate (mf_description f) module3_description_max \<rparr>, None)
        | Inl e \<Rightarrow> ret (source, Some e))
       (\<lambda>e. ret (source, Some (ne_message e)))) (\<lambda>(proposal, problem).
       ret \<lparr> mi_product_id = pd_product_id d, mi_offer_id = pd_offer_id d, mi_source = source,
         mi_proposal = Some proposal, mi_error = problem \<rparr>))"

record m3_recognize_response =
  mrs_connector_mode :: string
  mrs_items :: "m3_item list"

text \<open>The gate the batch tools share: a token, a lease, and between one and \<open>relist_max_batch\<close>
  products.\<close>

definition batch_gate ::
  "'s node_parts \<Rightarrow> headers \<Rightarrow> string \<Rightarrow> string \<Rightarrow> 'a list \<Rightarrow> ('s, ozon_credentials) node_act" where
  "batch_gate p h none_text verb batch =
     andthen (lift (require_bridge_or_operator_token (np_config p) h)) (\<lambda>_.
     andthen (require_valid_lease_with_feature p OzonRead) (\<lambda>_.
     andthen (lift (ensure (batch \<noteq> []) (bad_request_node none_text))) (\<lambda>_.
     andthen (lift (ensure (length batch \<le> relist_max_batch)
       (bad_request_node (verb @ '' at most '' @ show_nat relist_max_batch @ '' products per batch'')))) (\<lambda>_.
       load_ozon_credentials p))))"

definition module3_recognize ::
  "'s node_parts \<Rightarrow> headers \<Rightarrow> relist_target list \<Rightarrow> string option \<Rightarrow> ('s, m3_recognize_response) node_act" where
  "module3_recognize p h targets target_language =
     andthen (batch_gate p h ''select at least one product to recognize'' ''recognize'' targets) (\<lambda>credentials.
     let language = unwrap_or (Option.bind target_language filled_trim) module3_default_language in
     andthen (for_each (\<lambda>t.
         match_res (module3_recognize_one p credentials (target_lookup t) language) ret
           (\<lambda>e. ret \<lparr> mi_product_id = [], mi_offer_id = target_label t, mi_source = default_fields,
              mi_proposal = None, mi_error = Some e \<rparr>)) targets) (\<lambda>items.
       ret \<lparr> mrs_connector_mode = connector_mode (np_config p), mrs_items = items \<rparr>))"

end
