(* ===== verification/NodePush.thy ===== *)
theory NodePush
  imports NodeCopy
begin

text \<open>
  The push of product copy (module 3 of \<open>apps/local-node/src/main.rs\<close>): the proposal is matched
  against the dictionary of the category by exact normalized names, what does not match is
  dropped and reported, a preview is always part of the answer, and the shop is written to
  when the request confirms.
\<close>

section \<open>Matching a proposal\<close>

record matched_attribute =
  mt_attribute_id :: u64
  mt_name :: string
  mt_values :: "string list"

record dropped_item =
  dp_name :: string
  dp_value :: "string option"
  dp_reason :: string

record match_outcome =
  mo_resolved :: "resolved_attribute list"
  mo_matched :: "matched_attribute list"
  mo_dropped :: "dropped_item list"

definition no_outcome :: match_outcome where
  "no_outcome = \<lparr> mo_resolved = [], mo_matched = [], mo_dropped = [] \<rparr>"

definition drop_item :: "string \<Rightarrow> string option \<Rightarrow> string \<Rightarrow> match_outcome \<Rightarrow> match_outcome" where
  "drop_item name v reason out =
     out\<lparr> mo_dropped := mo_dropped out @ [\<lparr> dp_name = name, dp_value = v, dp_reason = reason \<rparr>] \<rparr>"

definition definition_of :: "crates \<Rightarrow> category_attribute list \<Rightarrow> string \<Rightarrow> category_attribute option" where
  "definition_of x dictionary name =
     find (\<lambda>c. module3_normalize x (ca_name c) = module3_normalize x name) dictionary"

type_synonym value_dictionaries = "u64 \<Rightarrow> attribute_value list option"

text \<open>One value: what it resolves to and what is shown of it, or nothing.\<close>

definition match_value ::
  "crates \<Rightarrow> value_dictionaries \<Rightarrow> category_attribute \<Rightarrow> string \<Rightarrow> (resolved_value \<times> string) option" where
  "match_value x dictionaries a v =
     (if is_dictionary a
      then map_option (\<lambda>e. (DictionaryValue (av_value_id e), av_value e))
        (Option.bind (dictionaries (ca_id a))
          (find (\<lambda>e. module3_normalize x (av_value e) = module3_normalize x v)))
      else Some (FreeText v, v))"

fun match_values ::
  "crates \<Rightarrow> value_dictionaries \<Rightarrow> category_attribute \<Rightarrow> string \<Rightarrow> string list
   \<Rightarrow> (resolved_value \<times> string) list \<Rightarrow> match_outcome \<Rightarrow> (resolved_value \<times> string) list \<times> match_outcome" where
  "match_values x dictionaries a raw_name [] found out = (found, out)"
| "match_values x dictionaries a raw_name (raw # raws) found out =
     (let v = trim raw in
      if v = [] then match_values x dictionaries a raw_name raws found out
      else (case match_value x dictionaries a v of
          Some r \<Rightarrow> match_values x dictionaries a raw_name raws (found @ [r]) out
        | None \<Rightarrow> match_values x dictionaries a raw_name raws found
            (drop_item raw_name (Some v) ''value not in attribute dictionary'' out)))"

definition match_attribute ::
  "crates \<Rightarrow> category_attribute list \<Rightarrow> value_dictionaries \<Rightarrow> m3_attribute \<Rightarrow> match_outcome \<Rightarrow> match_outcome" where
  "match_attribute x dictionary dictionaries attribute out =
     (let raw_name = trim (ma_name attribute) in
      if raw_name = [] then drop_item [] None ''empty attribute name'' out
      else (case definition_of x dictionary raw_name of
          None \<Rightarrow> drop_item raw_name None ''attribute name not in category dictionary'' out
        | Some a \<Rightarrow>
            (case match_values x dictionaries a raw_name (ma_values attribute) [] out of
               (found, out') \<Rightarrow>
                 if found = [] then
                   (if \<not> is_dictionary a
                    then drop_item raw_name None ''no non-empty values to write'' out' else out')
                 else out'\<lparr>
                   mo_resolved := mo_resolved out' @ [\<lparr> ra_attribute_id = ca_id a, ra_values = map fst found \<rparr>],
                   mo_matched := mo_matched out' @ [\<lparr> mt_attribute_id = ca_id a, mt_name = ca_name a,
                     mt_values = map snd found \<rparr>] \<rparr>)))"

definition module3_match_attributes ::
  "crates \<Rightarrow> m3_attribute list \<Rightarrow> category_attribute list \<Rightarrow> value_dictionaries \<Rightarrow> match_outcome" where
  "module3_match_attributes x proposal dictionary dictionaries =
     fold (match_attribute x dictionary dictionaries) proposal no_outcome"

fun referenced_ids ::
  "crates \<Rightarrow> m3_attribute list \<Rightarrow> category_attribute list \<Rightarrow> u64 list \<Rightarrow> u64 list" where
  "referenced_ids x [] dictionary ids = ids"
| "referenced_ids x (a # as) dictionary ids =
     referenced_ids x as dictionary
       (let name = trim (ma_name a) in
        if module3_normalize x name = [] then ids
        else (case definition_of x dictionary name of
            Some d \<Rightarrow> if is_dictionary d \<and> ca_id d \<notin> set ids then ids @ [ca_id d] else ids
          | None \<Rightarrow> ids))"

definition module3_referenced_dictionary_ids ::
  "crates \<Rightarrow> m3_attribute list \<Rightarrow> category_attribute list \<Rightarrow> u64 list" where
  "module3_referenced_dictionary_ids x proposal dictionary = referenced_ids x proposal dictionary []"

section \<open>The push\<close>

record push_target =
  pt_product_id :: string
  pt_proposal :: m3_fields

record field_change_text =
  fct_before :: string
  fct_after :: string

record push_preview =
  pp_title :: field_change_text
  pp_description :: field_change_text
  pp_attributes_to_write :: "matched_attribute list"
  pp_dropped :: "dropped_item list"

record push_item =
  pit_product_id :: string
  pit_offer_id :: string
  pit_preview :: "push_preview option"
  pit_written :: bool
  pit_task_id :: "string option"
  pit_error :: "string option"

record push_response =
  prs_connector_mode :: string
  prs_confirmed :: bool
  prs_items :: "push_item list"

type_synonym ('s, 'a) item_act = "('s node, string, 'a) act"

text \<open>A call of a connector whose error becomes the text of an item.\<close>

definition attempt :: "string \<Rightarrow> 'a ozon \<Rightarrow> ('s, 'a) item_act" where
  "attempt what m = map_error (\<lambda>e. what @ '' failed: '' @ show_ozon_error e) (on_network m)"

definition filled_text :: "string \<Rightarrow> string option" where
  "filled_text v = (if v = [] then None else Some v)"

definition copy_update_of :: "product_detail \<Rightarrow> push_preview \<Rightarrow> match_outcome \<Rightarrow> copy_update" where
  "copy_update_of d preview out =
     \<lparr> cu_offer_id = pd_offer_id d, cu_name = filled_text (fct_after (pp_title preview)),
       cu_description = filled_text (fct_after (pp_description preview)), cu_attributes = mo_resolved out \<rparr>"

definition module3_push_one ::
  "'s node_parts \<Rightarrow> ozon_credentials \<Rightarrow> push_target \<Rightarrow> bool \<Rightarrow> ('s, push_item) item_act" where
  "module3_push_one p credentials target confirm =
     andthen (attempt ''read product'' (rc_product_get (np_reader p) credentials
       (normalized \<lparr> lk_product_id = Some (pt_product_id target), lk_offer_id = None, lk_sku = None \<rparr>))) (\<lambda>d.
     andthen (lift (ok_or ''product has no description_category_id; cannot resolve attributes''
       (pd_description_category_id d))) (\<lambda>category.
     andthen (lift (ok_or ''product has no type_id; cannot resolve attributes'' (pd_type_id d))) (\<lambda>type_id.
     andthen (attempt ''read category attributes'' (wc_category_attributes (np_writer p) credentials category type_id)) (\<lambda>dictionary.
     let proposal = pt_proposal target in
     andthen (for_each (\<lambda>i.
         andthen (attempt ''read attribute values'' (wc_attribute_values (np_writer p) credentials category type_id i))
           (\<lambda>vs. ret (i, vs)))
       (module3_referenced_dictionary_ids (np_crates p) (mf_attributes proposal) dictionary)) (\<lambda>dictionaries.
     let out = module3_match_attributes (np_crates p) (mf_attributes proposal) dictionary (map_of dictionaries);
         preview = \<lparr>
           pp_title = \<lparr> fct_before = unwrap_or (pd_name d) [],
             fct_after = word_boundary_truncate (trim (mf_title proposal)) module3_title_max \<rparr>,
           pp_description = \<lparr> fct_before = unwrap_or (pd_description d) [],
             fct_after = word_boundary_truncate (trim (mf_description proposal)) module3_description_max \<rparr>,
           pp_attributes_to_write = mo_matched out, pp_dropped = mo_dropped out \<rparr> in
     if \<not> confirm then
       ret \<lparr> pit_product_id = pd_product_id d, pit_offer_id = pd_offer_id d, pit_preview = Some preview,
         pit_written = False, pit_task_id = None, pit_error = None \<rparr>
     else
       andthen (attempt ''product update'' (wc_update_copy (np_writer p) credentials (copy_update_of d preview out))) (\<lambda>result.
         ret \<lparr> pit_product_id = pd_product_id d, pit_offer_id = pd_offer_id d, pit_preview = Some preview,
           pit_written = cr_accepted result, pit_task_id = cr_task_id result, pit_error = None \<rparr>))))))"

definition module3_push ::
  "'s node_parts \<Rightarrow> headers \<Rightarrow> push_target list \<Rightarrow> bool \<Rightarrow> ('s, push_response) node_act" where
  "module3_push p h targets confirm =
     andthen (batch_gate p h ''nothing to push'' ''push'' targets) (\<lambda>credentials.
     andthen (for_each (\<lambda>t.
         match_res (module3_push_one p credentials t confirm) ret
           (\<lambda>e. ret \<lparr> pit_product_id = pt_product_id t, pit_offer_id = [], pit_preview = None,
              pit_written = False, pit_task_id = None, pit_error = Some e \<rparr>)) targets) (\<lambda>items.
       ret \<lparr> prs_connector_mode = connector_mode (np_config p), prs_confirmed = confirm, prs_items = items \<rparr>))"

end
