(* ===== verification/NodeRelist.thy ===== *)
theory NodeRelist
  imports NodePush
begin

text \<open>
  The re-listing workbench of \<open>apps/local-node/src/main.rs\<close>: restyling the primary image of a
  product with an image model and hosting the result on a public image host, importing an
  image the operator dropped, and pushing a new primary image to the shop.
\<close>

section \<open>The prompt\<close>

definition relist_ozon_rules :: string where
  "relist_ozon_rules = nl
     @ ''RULE 1 - Keep the product unchanged: reproduce the product from the source photo ''
     @ ''EXACTLY, like a fixed cut-out pasted onto a new background - identical shape, ''
     @ ''colours, materials, proportions, fine details and markings, and the SAME camera ''
     @ ''angle, pose, size and position. Do NOT re-pose, re-angle, rotate, shift, rescale, ''
     @ ''redraw or restyle the product, and do NOT crop or hide its main body. Keep the ENTIRE ''
     @ ''product visible; build everything else around it.''
     @ nl
     @ ''RULE 2 - New background + Russian sales copy: replace ONLY the background with an ''
     @ ''attractive, modern, themed promotional background whose colours and mood fit this ''
     @ ''specific product. Lay it out cleanly: keep the product fully visible (usually ''
     @ ''lower-centre), put ONE large bold Russian HEADLINE in the empty background space ''
     @ ''ABOVE the product, and 2-3 short Russian selling-point captions in rounded pill ''
     @ ''badges down one side; badges may overlap only the product'' @ utf8 [39] @ ''s outer edges, never crop ''
     @ ''its centre. Use clean modern e-commerce typography and write correct, natural, ''
     @ ''persuasive Russian that matches the product named above.''
     @ nl
     @ ''RULE 3 - Strictly forbidden: no Ozon logo, no \"Ozon\" text, no marketplace logos or ''
     @ ''branding, no QR codes, no barcodes, no watermarks.''
     @ nl
     @ ''Output one clean, high-contrast, ready-to-publish vertical Russian listing image.''"

definition relist_image_size :: string where "relist_image_size = ''1024x1536''"
definition relist_max_candidates :: nat where "relist_max_candidates = 3"

text \<open>The first six attributes with a name and a first value.\<close>

definition key_facts :: "product_detail \<Rightarrow> string list" where
  "key_facts d = take 6 (List.map_filter (\<lambda>a.
     case (pa_name a, first_of (pa_values a)) of
       (Some n, Some v) \<Rightarrow> if trim n \<noteq> [] \<and> trim v \<noteq> [] then Some (trim n @ '': '' @ trim v) else None
     | _ \<Rightarrow> None) (pd_attributes d))"

definition compose_relist_prompt :: "product_detail \<Rightarrow> string" where
  "compose_relist_prompt d =
     (let name = unwrap_or (Option.bind (pd_name d) filled_trim) ''the product shown in the photo'';
          attrs = key_facts d;
          facts = (if attrs = [] then [] else '' Key facts: '' @ join ''; '' attrs @ ''.'') in
      ''You are creating a professional Russian-language e-commerce product image for the Ozon marketplace.''
     @ nl
     @ ''SOURCE PRODUCT (this is what the photo shows, keep it exactly): \"''
      @ name @ ''\".'' @ facts @ relist_ozon_rules)"

section \<open>Images\<close>

definition relist_download :: "'s node_parts \<Rightarrow> string \<Rightarrow> ('s, string) node_act" where
  "relist_download p url =
     andthen (http_send p (request_to ''GET'' url)) (\<lambda>answer.
       case answer of
         Inl e \<Rightarrow> throw (bad_gateway_node (''failed to download image: '' @ e))
       | Inr r \<Rightarrow>
           if \<not> is_success (rsp_status r)
           then throw (bad_gateway_node (''image download returned HTTP '' @ show_nat (rsp_status r)))
           else lift (ok_or (bad_gateway_node (''failed to read image bytes: '' @ x_decode_error (np_crates p) None))
             (rsp_body r)))"

definition with_form :: "form_part list \<Rightarrow> http_request \<Rightarrow> http_request" where
  "with_form parts r = r\<lparr>hr_body := MultipartBody parts\<rparr>"

definition relist_edit_image :: "'s node_parts \<Rightarrow> string \<Rightarrow> string \<Rightarrow> ('s, string) node_act" where
  "relist_edit_image p source_bytes prompt =
     andthen (resolve_capability p ImageGen) (\<lambda>resolved.
     andthen (lift (expect_openai_image resolved)) (\<lambda>openai.
     andthen (call_provider p ''image edit request failed'' ''image edit failed''
       (with_form [TextPart ''model'' (soa_image_model openai), TextPart ''prompt'' prompt,
           TextPart ''size'' relist_image_size, TextPart ''n'' ''1'',
           FilePart ''image'' ''source.png'' ''image/png'' source_bytes]
         (bearer_auth (soa_api_key openai)
           (request_to ''POST'' (openai_images_edit_endpoint (soa_base_url openai)))))) (\<lambda>b.
     andthen (read_json p ''invalid image edit response'' image_response_of_json b) (\<lambda>images.
     andthen (lift (ok_or (bad_gateway_node ''image edit response returned no images'') (first_of images))) (\<lambda>image.
       case im_b64_json image of
         Some b64 \<Rightarrow> lift (ok_or (bad_gateway_node ''image edit response returned invalid base64 data'')
           (x_base64_decode (np_crates p) b64))
       | None \<Rightarrow> (case im_url image of
             Some url \<Rightarrow> relist_download p url
           | None \<Rightarrow> throw (bad_gateway_node ''image edit response did not include image data'')))))))"

record image_host =
  ih_name :: string
  ih_url :: string
  ih_fields :: "(string \<times> string) list"
  ih_file_field :: string
  ih_json_url :: bool

definition image_hosts :: "image_host list" where
  "image_hosts =
     [\<lparr> ih_name = ''litterbox'', ih_url = ''https://litterbox.catbox.moe/resources/internals/api.php'',
        ih_fields = [(''reqtype'', ''fileupload''), (''time'', ''72h'')], ih_file_field = ''fileToUpload'',
        ih_json_url = False \<rparr>,
      \<lparr> ih_name = ''catbox'', ih_url = ''https://catbox.moe/user/api.php'',
        ih_fields = [(''reqtype'', ''fileupload'')], ih_file_field = ''fileToUpload'', ih_json_url = False \<rparr>,
      \<lparr> ih_name = ''uguu'', ih_url = ''https://uguu.se/upload.php'', ih_fields = [],
        ih_file_field = ''files[]'', ih_json_url = True \<rparr>]"

definition uploaded_url :: "crates \<Rightarrow> image_host \<Rightarrow> string \<Rightarrow> string" where
  "uploaded_url x host b =
     (if ih_json_url host
      then unwrap_or (Option.bind (x_json_parse x b) (\<lambda>j.
             Option.bind (json_get j ''files'') (\<lambda>fs.
             Option.bind (Option.bind (as_array fs) first_of) (\<lambda>f. Option.bind (json_get f ''url'') as_str)))) []
      else trim b)"

definition relist_upload_to_host ::
  "'s node_parts \<Rightarrow> image_host \<Rightarrow> string \<Rightarrow> string \<Rightarrow> ('s, string) node_act" where
  "relist_upload_to_host p host filename bytes =
     andthen (http_send p (with_form (map (\<lambda>(k, v). TextPart k v) (ih_fields host)
         @ [FilePart (ih_file_field host) filename ''image/png'' bytes]) (request_to ''POST'' (ih_url host)))) (\<lambda>answer.
       case answer of
         Inl e \<Rightarrow> throw (bad_gateway_node (''upload failed: '' @ e))
       | Inr r \<Rightarrow>
           if \<not> is_success (rsp_status r)
           then throw (bad_gateway_node (''HTTP error: '' @ truncate_text (trim (unwrap_or (rsp_body r) [])) 160))
           else (case rsp_body r of
               None \<Rightarrow> throw (bad_gateway_node (''response unreadable: '' @ x_decode_error (np_crates p) None))
             | Some b \<Rightarrow>
                 let url = uploaded_url (np_crates p) host b in
                 if starts_with url ''http'' then ret url
                 else throw (bad_gateway_node (''no URL in response: '' @ truncate_text (trim b) 160))))"

text \<open>The first host that takes the image; the last error otherwise.\<close>

fun try_hosts ::
  "'s node_parts \<Rightarrow> string \<Rightarrow> string \<Rightarrow> image_host list \<Rightarrow> string \<Rightarrow> ('s, string) node_act" where
  "try_hosts p filename bytes [] last_error =
     throw (bad_gateway_node (''all image hosts failed (last '' @ last_error @ '')''))"
| "try_hosts p filename bytes (host # hosts) last_error =
     match_res (relist_upload_to_host p host filename bytes) ret
       (\<lambda>e. try_hosts p filename bytes hosts (ih_name host @ '': '' @ ne_message e))"

definition relist_host_image :: "'s node_parts \<Rightarrow> string \<Rightarrow> string \<Rightarrow> ('s, string) node_act" where
  "relist_host_image p filename bytes = try_hosts p filename bytes image_hosts ''no image host was reachable''"

definition png_magic :: string where
  "png_magic = utf8 [0x89, 0x50, 0x4E, 0x47, 0x0D, 0x0A, 0x1A, 0x0A]"

text \<open>What follows the last comma, if there is one.\<close>

definition after_last :: "char \<Rightarrow> string \<Rightarrow> string" where
  "after_last c s = (if c \<in> set s then rev (takeWhile (\<lambda>d. d \<noteq> c) (rev s)) else s)"

definition only_png :: string where
  "only_png = ''only PNG images are accepted '' @ utf8 [226, 128, 148]
     @ '' please drop a .png file (other formats are not supported by this local helper)''"

definition relist_import_image ::
  "'s node_parts \<Rightarrow> headers \<Rightarrow> string option \<Rightarrow> string \<Rightarrow> ('s, string) node_act" where
  "relist_import_image p h filename data_base64 =
     andthen (lift (require_bridge_or_operator_token (np_config p) h)) (\<lambda>_.
     andthen (require_valid_lease_with_feature p OzonRead) (\<lambda>_.
     let raw = after_last (CHR '','') (trim data_base64) in
     andthen (lift (ensure (raw \<noteq> []) (bad_request_node ''data_base64 is required''))) (\<lambda>_.
     andthen (lift (ok_or (bad_request_node ''data_base64 is not valid base64'')
       (x_base64_decode (np_crates p) raw))) (\<lambda>bytes.
     andthen (lift (ensure (starts_with bytes png_magic) (bad_request_node only_png))) (\<lambda>_.
     andthen (case Option.bind filename filled_trim of
         Some name \<Rightarrow> ret (if ends_with (to_lowercase name) ''.png'' then name else name @ ''.png'')
       | None \<Rightarrow> andthen new_v4 (\<lambda>u. ret (''import-'' @ x_uuid_simple (np_crates p) u @ ''.png''))) (\<lambda>name.
       relist_host_image p name bytes))))))"

section \<open>Restyling\<close>

record relist_item =
  ri_product_id :: string
  ri_offer_id :: string
  ri_name :: "string option"
  ri_original_url :: "string option"
  ri_candidates :: "string list"
  ri_error :: "string option"

text \<open>The candidate loop: the hosted URLs, and the last error.\<close>

fun candidate_rounds ::
  "'s node_parts \<Rightarrow> string \<Rightarrow> string \<Rightarrow> string \<Rightarrow> nat \<Rightarrow> string list \<Rightarrow> string option
   \<Rightarrow> ('s, string list \<times> string option) item_act" where
  "candidate_rounds p product_id source_bytes prompt 0 found last_error = ret (found, last_error)"
| "candidate_rounds p product_id source_bytes prompt (Suc n) found last_error =
     match_res (relist_edit_image p source_bytes prompt)
       (\<lambda>edited. andthen new_v4 (\<lambda>u.
          match_res (relist_host_image p (''relist-'' @ product_id @ ''-'' @ x_uuid_simple (np_crates p) u @ ''.png'') edited)
            (\<lambda>url. candidate_rounds p product_id source_bytes prompt n (found @ [url]) last_error)
            (\<lambda>e. candidate_rounds p product_id source_bytes prompt n found (Some (ne_message e)))))
       (\<lambda>e. candidate_rounds p product_id source_bytes prompt n found (Some (ne_message e)))"

definition relist_generate_one ::
  "'s node_parts \<Rightarrow> ozon_credentials \<Rightarrow> product_lookup \<Rightarrow> string option \<Rightarrow> ('s, relist_item) item_act" where
  "relist_generate_one p credentials lookup prompt_override =
     andthen (attempt ''read product'' (rc_product_get (np_reader p) credentials lookup)) (\<lambda>d.
     andthen (lift (ok_or ''product has no image to restyle''
       (or_else (pd_primary_image d) (map_option pi_url (first_of (pd_images d)))))) (\<lambda>original.
     let prompt = (case prompt_override of Some v \<Rightarrow> v | None \<Rightarrow> compose_relist_prompt d) in
     andthen (map_error ne_message (relist_download p original)) (\<lambda>source_bytes.
     andthen (candidate_rounds p (pd_product_id d) source_bytes prompt relist_max_candidates [] None) (\<lambda>(candidates, last_error).
       if candidates = [] then throw (unwrap_or last_error ''failed to generate any candidate'')
       else ret \<lparr> ri_product_id = pd_product_id d, ri_offer_id = pd_offer_id d, ri_name = pd_name d,
         ri_original_url = Some original, ri_candidates = candidates, ri_error = None \<rparr>))))"

record relist_generate_response =
  rgr_connector_mode :: string
  rgr_prompt :: string
  rgr_items :: "relist_item list"

definition relist_generate ::
  "'s node_parts \<Rightarrow> headers \<Rightarrow> relist_target list \<Rightarrow> string option \<Rightarrow> ('s, relist_generate_response) node_act" where
  "relist_generate p h targets prompt =
     andthen (batch_gate p h ''select at least one product to restyle'' ''restyle'' targets) (\<lambda>credentials.
     let prompt_override = Option.bind prompt filled_trim in
     andthen (for_each (\<lambda>t.
         match_res (relist_generate_one p credentials (target_lookup t) prompt_override) ret
           (\<lambda>e. ret \<lparr> ri_product_id = [], ri_offer_id = target_label t, ri_name = None,
              ri_original_url = None, ri_candidates = [], ri_error = Some e \<rparr>)) targets) (\<lambda>items.
       ret \<lparr> rgr_connector_mode = connector_mode (np_config p),
         rgr_prompt = unwrap_or prompt_override ''auto (per-product Russian Ozon template)'',
         rgr_items = items \<rparr>))"

section \<open>Pushing a primary image\<close>

record relist_push_target =
  rpt_product_id :: string
  rpt_new_primary_url :: string

record relist_push_result =
  rpr_product_id :: string
  rpr_primary_url :: string
  rpr_image_count :: u32
  rpr_ok :: bool
  rpr_error :: "string option"

text \<open>The new image first, then the images the product has, each once.\<close>

definition relist_push_one ::
  "'s node_parts \<Rightarrow> ozon_credentials \<Rightarrow> relist_push_target \<Rightarrow> ('s, relist_push_result) item_act" where
  "relist_push_one p credentials target =
     (let new_primary = trim (rpt_new_primary_url target) in
      andthen (lift (ensure (starts_with new_primary ''http'') ''new primary URL is not a valid http(s) URL'')) (\<lambda>_.
      andthen (attempt ''read product'' (rc_product_get (np_reader p) credentials
        (normalized \<lparr> lk_product_id = Some (rpt_product_id target), lk_offer_id = None, lk_sku = None \<rparr>))) (\<lambda>d.
      andthen (attempt ''pictures import'' (wc_pictures_import (np_writer p) credentials (pd_product_id d)
        (merge_unique [new_primary] (map pi_url (pd_images d))))) (\<lambda>result.
        ret \<lparr> rpr_product_id = pd_product_id d, rpr_primary_url = new_primary,
          rpr_image_count = word_of_nat (length (pm_pictures result)), rpr_ok = True, rpr_error = None \<rparr>))))"

definition relist_push ::
  "'s node_parts \<Rightarrow> headers \<Rightarrow> relist_push_target list \<Rightarrow> ('s, string \<times> relist_push_result list) node_act" where
  "relist_push p h targets =
     andthen (batch_gate p h ''nothing to push'' ''push'' targets) (\<lambda>credentials.
     andthen (for_each (\<lambda>t.
         match_res (relist_push_one p credentials t) ret
           (\<lambda>e. ret \<lparr> rpr_product_id = rpt_product_id t, rpr_primary_url = rpt_new_primary_url t,
              rpr_image_count = 0, rpr_ok = False, rpr_error = Some e \<rparr>)) targets) (\<lambda>results.
       ret (connector_mode (np_config p), results)))"

end
