(* ===== verification/NodeExport.thy ===== *)
theory NodeExport
  imports NodeRelist
begin

text \<open>
  Delivery and intake of workbooks (modules 4 and 1 of \<open>apps/local-node/src/main.rs\<close>): the
  Python engine is run as a command on the host, its exit codes become errors, and what it
  wrote is only handed out when it verified. A path is its text; the directory of the exports
  is a parameter.
\<close>

section \<open>The engine\<close>

definition engine_root_dev_default :: string where
  "engine_root_dev_default = ''/Users/bill/ozon-rust-suite/tools/ozon-excel-core''"

definition relist_export_max_rows :: nat where "relist_export_max_rows = 200"

text \<open>\<open>Path::join\<close> of a relative path.\<close>

definition path_join :: "string \<Rightarrow> string \<Rightarrow> string" where
  "path_join base s = (if base = [] \<or> last base = CHR ''/'' then base @ s else base @ ''/'' @ s)"

definition engine_root :: "environment \<Rightarrow> string" where
  "engine_root env = unwrap_or (Option.bind (env ''OZON_EXCEL_CORE_ROOT'') filled_trim) engine_root_dev_default"

definition python_interpreter :: "environment \<Rightarrow> host \<Rightarrow> string" where
  "python_interpreter env t =
     (case or_else (Option.bind (env ''OZON_EXCEL_CORE_PYTHON'') filled_trim)
             (Option.bind (env ''OZON_PYTHON'') filled_trim) of
        Some v \<Rightarrow> v
      | None \<Rightarrow> let venv = path_join (path_join (path_join (engine_root env) ''.venv'') ''bin'') ''python'' in
          if ho_files t venv \<noteq> None then venv else ''python3'')"

definition default_export_config_path :: "environment \<Rightarrow> string" where
  "default_export_config_path env = path_join (engine_root env) ''fields.example.yaml''"

text \<open>A system call that changes the file system, and one whose failure is ignored.\<close>

definition host_call :: "(files \<Rightarrow> files) \<Rightarrow> (host, string, unit) act" where
  "host_call f t =
     (let u = t\<lparr>ho_calls := Suc (ho_calls t)\<rparr> in
      case ho_fault t (ho_calls t) of
        Some e \<Rightarrow> (Inl e, u)
      | None \<Rightarrow> (Inr (), u\<lparr>ho_files := f (ho_files t)\<rparr>))"

definition remove_file :: "string \<Rightarrow> (host, 'e, unit) act" where
  "remove_file path = match_res (host_call (\<lambda>fs. fs(path := None))) ret (\<lambda>_. ret ())"

definition run_command :: "command \<Rightarrow> (host, 'e, string + process_output) act" where
  "run_command c t =
     (case ho_run t c (ho_files t) of
        (r, fs) \<Rightarrow> (Inr r, t\<lparr>ho_files := fs, ho_ran := ho_ran t @ [c]\<rparr>))"

definition engine_command :: "string \<Rightarrow> string \<Rightarrow> string list \<Rightarrow> command" where
  "engine_command python root args =
     \<lparr> cm_program = python, cm_dir = root, cm_env = [(''PYTHONPATH'', path_join root ''src'')],
       cm_args = [''-m'', ''ozon_excel_core.cli''] @ args \<rparr>"

definition po_success :: "process_output \<Rightarrow> bool" where
  "po_success out \<longleftrightarrow> po_code out = Some 0"

section \<open>Errors of the engine\<close>

text \<open>A task that panics answers with an error of its own.\<close>

datatype task_failure = Failed node_error | Panicked

definition task_error :: "string \<Rightarrow> task_failure \<Rightarrow> node_error" where
  "task_error what f = (case f of Failed e \<Rightarrow> e | Panicked \<Rightarrow> internal_node (what @ '' task panicked''))"

definition map_engine_exit :: "int \<Rightarrow> string \<Rightarrow> string \<Rightarrow> node_error" where
  "map_engine_exit exit_code stderr stage =
     (let detail = (if stderr = [] then [] else '' '' @ utf8 [226, 128, 148] @ '' '' @ stderr) in
      if exit_code = 1 then bad_gateway_node (''verification found unexpected changes ''
        @ utf8 [226, 128, 148] @ '' deliverable is unsafe and was discarded'' @ detail)
      else if exit_code = 2 then bad_request_node (''config/mapping error ('' @ stage @ '')'' @ detail)
      else if exit_code = 3 then bad_request_node (''preflight risk ('' @ stage @ '')'' @ detail)
      else internal_node (''export engine failed at '' @ stage @ '' (exit '' @ show_int exit_code @ '')'' @ detail))"

text \<open>\<open>&last[..277]\<close> panics unless a character starts there.\<close>

definition is_char_boundary :: "string \<Rightarrow> nat \<Rightarrow> bool" where
  "is_char_boundary s n \<longleftrightarrow> n = 0 \<or> n = length s \<or> n < length s \<and> \<not> is_continuation (s ! n)"

definition last_line :: "string \<Rightarrow> string" where
  "last_line s = (case rev (filter (\<lambda>l. l \<noteq> []) (map trim (lines_of s))) of [] \<Rightarrow> [] | l # _ \<Rightarrow> l)"

definition summarize_stderr :: "crates \<Rightarrow> string \<Rightarrow> task_failure + string" where
  "summarize_stderr x stderr =
     (let line = last_line (x_utf8_lossy x stderr) in
      if 280 < length line
      then (if is_char_boundary line 277 then Inr (take 277 line @ utf8 [226, 128, 166]) else Inl Panicked)
      else Inr line)"

record verify_summary =
  vsu_ok :: bool
  vsu_expected_changes :: u64
  vsu_unexpected_changes :: u64
  vsu_frozen_cells_compared :: u64
  vsu_sheets_compared :: u64

definition parse_verify_summary :: "crates \<Rightarrow> string \<Rightarrow> verify_summary option" where
  "parse_verify_summary x stdout =
     Option.bind (x_json_parse x stdout) (\<lambda>j.
     Option.bind (json_get j ''summary'') (\<lambda>summary.
       let count = (\<lambda>k. unwrap_or (Option.bind (json_get summary k) as_u64) 0) in
       Some \<lparr> vsu_ok = unwrap_or (Option.bind (json_get j ''ok'') as_bool) False,
         vsu_expected_changes = count ''expected_changes'',
         vsu_unexpected_changes = count ''unexpected_changes'',
         vsu_frozen_cells_compared = count ''frozen_cells_compared'',
         vsu_sheets_compared = count ''sheets_compared'' \<rparr>))"

section \<open>The export pipeline\<close>

record inject_row =
  ir_title :: string
  ir_listing :: string
  ir_primary_image :: "string option"
  ir_additional_images :: "string list"

definition inject_row_to_json :: "inject_row \<Rightarrow> json" where
  "inject_row_to_json r = JObject
     [(''title'', JString (ir_title r)), (''listing'', JString (ir_listing r)),
      (''primary_image'', case ir_primary_image r of Some u \<Rightarrow> JString u | None \<Rightarrow> JNull),
      (''additional_images'', JArray (map JString (ir_additional_images r)))]"

record export_output =
  eo_out_path :: string
  eo_verify :: "verify_summary option"
  eo_warnings :: "string list"

type_synonym 'a pipeline = "(host, task_failure, 'a) act"

text \<open>A call whose failure ends the pipeline.\<close>

definition or_internal :: "string \<Rightarrow> (host, string, 'a) act \<Rightarrow> 'a pipeline" where
  "or_internal what m = map_error (\<lambda>e. Failed (internal_node (what @ '': '' @ e))) m"

definition remove_files :: "string list \<Rightarrow> (host, 'e, unit) act" where
  "remove_files paths = andthen (for_each remove_file paths) (\<lambda>_. ret ())"

text \<open>A stage that has to succeed: a failure removes the files given and becomes the error of its
  exit code. The summary of its error output comes first, and may panic.\<close>

definition engine_stage ::
  "crates \<Rightarrow> string \<Rightarrow> command \<Rightarrow> string \<Rightarrow> string list \<Rightarrow> string list \<Rightarrow> process_output pipeline" where
  "engine_stage x python c stage unlaunched failed =
     andthen (run_command c) (\<lambda>r.
       case r of
         Inl e \<Rightarrow> andthen (remove_files unlaunched) (\<lambda>_.
           throw (Failed (internal_node (''failed to launch Python engine ('' @ python @ ''): '' @ e))))
       | Inr out \<Rightarrow>
           if po_success out then ret out
           else andthen (lift (summarize_stderr x (po_stderr out))) (\<lambda>stderr.
                andthen (remove_files failed) (\<lambda>_.
                  throw (Failed (map_engine_exit (unwrap_or (po_code out) (-1)) stderr stage)))))"

definition run_export_pipeline ::
  "crates \<Rightarrow> string \<Rightarrow> string \<Rightarrow> string \<Rightarrow> string \<Rightarrow> string \<Rightarrow> string \<Rightarrow> uuid \<Rightarrow> inject_row list \<Rightarrow> export_output pipeline" where
  "run_export_pipeline x python root template config_path exports out_path stem_id rows =
     andthen (or_internal ''cannot create exports dir'' (host_call id)) (\<lambda>_.
     let stem = x_uuid_simple x stem_id;
         rows_json = path_join exports (''export-rows-'' @ stem @ ''.json'');
         populated = path_join exports (''export-populated-'' @ stem @ ''.xlsx'') in
     andthen (or_internal ''cannot write rows.json'' (host_call (\<lambda>fs.
       fs(rows_json \<mapsto> x_json_print x (JArray (map inject_row_to_json rows)))))) (\<lambda>_.
     andthen (engine_stage x python (engine_command python root
         [''inject'', ''--in'', template, ''--rows'', rows_json, ''--out'', populated,
          ''--config'', config_path, ''--quiet'']) ''inject'' [rows_json] [rows_json, populated]) (\<lambda>_.
     andthen (engine_stage x python (engine_command python root
         [''process'', ''--in'', populated, ''--out'', out_path, ''--config'', config_path,
          ''--transform'', ''identity'', ''--verify'', ''--quiet'']) ''process --verify''
         [rows_json, populated] [out_path, rows_json, populated]) (\<lambda>_.
     andthen (run_command (engine_command python root
         [''verify'', ''--in'', populated, ''--out'', out_path, ''--config'', config_path,
          ''--report'', ''json''])) (\<lambda>r.
     let (verify, warnings) = (case r of
           Inr out \<Rightarrow> if po_success out then (parse_verify_summary x (po_stdout out), [])
             else (None, [''verify --report json did not return a parseable summary''])
         | Inl e \<Rightarrow> (None, [''verify --report json could not run: '' @ e])) in
     andthen (remove_files [rows_json, populated]) (\<lambda>_.
       ret \<lparr> eo_out_path = out_path, eo_verify = verify, eo_warnings = warnings \<rparr>))))))"

section \<open>The export handler\<close>

record export_row =
  er_title :: string
  er_listing :: string
  er_primary_image_url :: "string option"
  er_additional_image_urls :: "string list"

definition inject_row_of :: "export_row \<Rightarrow> inject_row" where
  "inject_row_of r =
     \<lparr> ir_title = er_title r, ir_listing = er_listing r,
       ir_primary_image = Option.bind (er_primary_image_url r) filled_trim,
       ir_additional_images = filter (\<lambda>u. u \<noteq> []) (map trim (er_additional_image_urls r)) \<rparr>"

record export_response =
  exr_out_path :: string
  exr_file_url :: string
  exr_verify :: "verify_summary option"
  exr_warnings :: "string list"

text \<open>\<open>is_file\<close> in a handler.\<close>

definition is_file :: "string \<Rightarrow> ('s node, 'e, bool) act" where
  "is_file path = gets (\<lambda>s. ho_files (nd_host s) path \<noteq> None)"

definition require_file :: "string \<Rightarrow> string \<Rightarrow> ('s, unit) node_act" where
  "require_file what path =
     andthen (is_file path) (\<lambda>b. lift (ensure b (bad_request_node (what @ '' not found: '' @ path))))"

definition engine_config_path :: "environment \<Rightarrow> string option \<Rightarrow> string" where
  "engine_config_path env given = unwrap_or (Option.bind given filled_trim) (default_export_config_path env)"

definition relist_export ::
  "'s node_parts \<Rightarrow> headers \<Rightarrow> string \<Rightarrow> string option \<Rightarrow> export_row list \<Rightarrow> ('s, export_response) node_act" where
  "relist_export p h template_path config_path rows =
     andthen (lift (require_bridge_or_operator_token (np_config p) h)) (\<lambda>_.
     andthen (require_valid_lease_with_feature p OzonRead) (\<lambda>_.
     let template = trim template_path; config = engine_config_path (np_env p) config_path in
     andthen (lift (ensure (template \<noteq> []) (bad_request_node ''template_path is required''))) (\<lambda>_.
     andthen (require_file ''template .xlsx'' template) (\<lambda>_.
     andthen (lift (ensure (rows \<noteq> []) (bad_request_node ''provide at least one export row''))) (\<lambda>_.
     andthen (lift (ensure (length rows \<le> relist_export_max_rows)
       (bad_request_node (''export at most '' @ show_nat relist_export_max_rows @ '' rows per call'')))) (\<lambda>_.
     andthen (require_file ''config'' config) (\<lambda>_.
     andthen new_v4 (\<lambda>u.
     andthen (gets (\<lambda>s. python_interpreter (np_env p) (nd_host s))) (\<lambda>python.
     andthen new_v4 (\<lambda>stem.
     andthen (map_error (task_error ''export'') (on_host (run_export_pipeline (np_crates p) python
         (engine_root (np_env p)) template config (np_exports_dir p)
         (path_join (np_exports_dir p) (''ozon-deliverable-'' @ x_uuid_simple (np_crates p) u @ ''.xlsx''))
         stem (map inject_row_of rows)))) (\<lambda>out.
       ret \<lparr> exr_out_path = eo_out_path out, exr_file_url = ''file://'' @ eo_out_path out,
         exr_verify = eo_verify out, exr_warnings = eo_warnings out \<rparr>)))))))))))"

section \<open>Intake\<close>

record extracted_row =
  xr_sheet :: string
  xr_row :: u64
  xr_sku :: "string option"
  xr_title :: "string option"
  xr_listing :: "string option"
  xr_images_main :: "string list"
  xr_images_additional :: "string list"

definition extracted_row_of_json :: "extracted_row de" where
  "extracted_row_of_json j =
     Option.bind (field_default ''sheet'' [] de_string j) (\<lambda>sheet.
     Option.bind (field_default ''row'' 0 de_u64 j) (\<lambda>row.
     Option.bind (field_opt ''sku'' de_string j) (\<lambda>sku.
     Option.bind (field_opt ''title'' de_string j) (\<lambda>title.
     Option.bind (field_opt ''listing'' de_string j) (\<lambda>listing.
     Option.bind (field_default ''images_main'' [] (de_array de_string) j) (\<lambda>main.
     Option.bind (field_default ''images_additional'' [] (de_array de_string) j) (\<lambda>additional.
       Some \<lparr> xr_sheet = sheet, xr_row = row, xr_sku = sku, xr_title = title, xr_listing = listing,
         xr_images_main = main, xr_images_additional = additional \<rparr>)))))))"

definition extract_stdout_of_json :: "extracted_row list de" where
  "extract_stdout_of_json = field_default ''rows'' [] (de_array extracted_row_of_json)"

definition run_extract_pipeline ::
  "crates \<Rightarrow> string \<Rightarrow> string \<Rightarrow> string \<Rightarrow> string \<Rightarrow> string option \<Rightarrow> extracted_row list pipeline" where
  "run_extract_pipeline x python root template config_path sheet =
     andthen (engine_stage x python (engine_command python root
         ([''extract'', ''--in'', template, ''--config'', config_path]
          @ (case sheet of Some t \<Rightarrow> [''--sheet'', t] | None \<Rightarrow> []))) ''extract'' [] []) (\<lambda>out.
       lift (ok_or (Failed (bad_gateway_node (''extract did not return parseable JSON: ''
           @ x_json_error x (po_stdout out))))
         (Option.bind (x_json_parse x (po_stdout out)) extract_stdout_of_json)))"

definition relist_extract ::
  "'s node_parts \<Rightarrow> headers \<Rightarrow> string \<Rightarrow> string option \<Rightarrow> string option \<Rightarrow> ('s, extracted_row list) node_act" where
  "relist_extract p h template_path config_path sheet =
     andthen (lift (require_bridge_or_operator_token (np_config p) h)) (\<lambda>_.
     andthen (require_valid_lease_with_feature p OzonRead) (\<lambda>_.
     let template = trim template_path; config = engine_config_path (np_env p) config_path in
     andthen (lift (ensure (template \<noteq> []) (bad_request_node ''template_path is required''))) (\<lambda>_.
     andthen (require_file ''template .xlsx'' template) (\<lambda>_.
     andthen (require_file ''config'' config) (\<lambda>_.
     andthen (gets (\<lambda>s. python_interpreter (np_env p) (nd_host s))) (\<lambda>python.
       map_error (task_error ''extract'') (on_host (run_extract_pipeline (np_crates p) python
         (engine_root (np_env p)) template config (Option.bind sheet filled_trim)))))))))"

end
