(* ===== verification/VideoDialect.thy ===== *)
theory VideoDialect
  imports NodeHttp
begin

text \<open>
  The dialects of the video providers (\<open>apps/local-node/src/video_dialect.rs\<close>): the request
  that creates a job and the one that polls it, the signatures two of them need, and what the
  answers mean. All of it is pure; the clock and the provider are arguments.
\<close>

section \<open>Data\<close>

datatype http_method = Get | Post

record http_spec =
  sp_method :: http_method
  sp_url :: string
  sp_headers :: "(string \<times> string) list"
  sp_body :: "json option"

type_synonym extras = "(string \<times> string) list"

record create_inputs =
  ci_base_url :: string
  ci_model :: string
  ci_api_key :: string
  ci_prompt :: string
  ci_first_frame_url :: string
  ci_last_frame_url :: "string option"
  ci_duration_seconds :: u32
  ci_extra :: extras

record poll_inputs =
  pi_base_url :: string
  pi_api_key :: string
  pi_provider_job_id :: string
  pi_extra :: extras

datatype poll_outcome =
    PollStatus video_status "string option" "string option"
  | NeedsFetch http_spec

text \<open>\<open>json!({...})\<close>: the object is a map ordered by its keys, where a later entry replaces an
  earlier one.\<close>

fun bytes_less :: "string \<Rightarrow> string \<Rightarrow> bool" where
  "bytes_less [] t = (t \<noteq> [])"
| "bytes_less (c # s) [] = False"
| "bytes_less (c # s) (d # t) = (code c < code d \<or> c = d \<and> bytes_less s t)"

fun put_key :: "string \<times> json \<Rightarrow> (string \<times> json) list \<Rightarrow> (string \<times> json) list" where
  "put_key e [] = [e]"
| "put_key e (f # fs) =
     (if fst e = fst f then e # fs
      else if bytes_less (fst e) (fst f) then e # f # fs else f # put_key e fs)"

definition json_object :: "(string \<times> json) list \<Rightarrow> json" where
  "json_object es = JObject (fold put_key es [])"

definition text_entry :: "string \<Rightarrow> string option \<Rightarrow> (string \<times> json) list" where
  "text_entry k v = (case v of None \<Rightarrow> [] | Some t \<Rightarrow> [(k, JString t)])"

section \<open>Signatures\<close>

definition split_ak_sk :: "string \<Rightarrow> string \<times> string" where
  "split_ak_sk secret = (case split_once (CHR '':'') secret of Some r \<Rightarrow> r | None \<Rightarrow> (secret, []))"

text \<open>HMAC takes a key of any length, so the constructor never fails.\<close>

definition hmac_sha256 :: "crates \<Rightarrow> string \<Rightarrow> string \<Rightarrow> string" where
  "hmac_sha256 x k m = unwrap_or (x_hmac_sha256 x k m) []"

definition kling_jwt :: "crates \<Rightarrow> string \<Rightarrow> string \<Rightarrow> int \<Rightarrow> string" where
  "kling_jwt x access_key secret_key now_unix =
     (let header = json_object [(''alg'', JString ''HS256''), (''typ'', JString ''JWT'')];
          payload = json_object [(''iss'', JString access_key), (''exp'', JInt (now_unix + 1800)),
            (''nbf'', JInt (now_unix - 5))];
          signing_input = x_base64url_encode x (x_json_print x header) @ ''.''
            @ x_base64url_encode x (x_json_print x payload) in
      signing_input @ ''.'' @ x_base64url_encode x (hmac_sha256 x secret_key signing_input))"

definition sha256_hex_of :: "crates \<Rightarrow> string \<Rightarrow> string" where
  "sha256_hex_of x b = hex_lower (x_sha256 x b)"

record sigv4_input =
  sg_access_key :: string
  sg_secret_key :: string
  sg_region :: string
  sg_service :: string
  sg_host :: string
  sg_method :: string
  sg_canonical_uri :: string
  sg_canonical_query :: string
  sg_body :: string
  sg_x_date :: string

definition line_feed :: string where
  "line_feed = [CHR 0x0A]"

definition volc_sigv4 :: "crates \<Rightarrow> sigv4_input \<Rightarrow> (string \<times> string) list" where
  "volc_sigv4 x i =
     (let date = take 8 (sg_x_date i);
          payload_hash = sha256_hex_of x (sg_body i);
          signed_headers = ''host;x-content-sha256;x-date'';
          canonical_headers = ''host:'' @ sg_host i @ line_feed @ ''x-content-sha256:'' @ payload_hash
            @ line_feed @ ''x-date:'' @ sg_x_date i @ line_feed;
          canonical_request = join line_feed [sg_method i, sg_canonical_uri i, sg_canonical_query i,
            canonical_headers, signed_headers, payload_hash];
          scope = join ''/'' [date, sg_region i, sg_service i, ''request''];
          string_to_sign = join line_feed [''HMAC-SHA256'', sg_x_date i, scope,
            sha256_hex_of x canonical_request];
          k_date = hmac_sha256 x (sg_secret_key i) date;
          k_region = hmac_sha256 x k_date (sg_region i);
          k_service = hmac_sha256 x k_region (sg_service i);
          k_signing = hmac_sha256 x k_service ''request'';
          signature = hex_lower (hmac_sha256 x k_signing string_to_sign) in
      [(''Host'', sg_host i), (''X-Date'', sg_x_date i), (''X-Content-Sha256'', payload_hash),
       (''Authorization'', ''HMAC-SHA256 Credential='' @ sg_access_key i @ ''/'' @ scope
          @ '', SignedHeaders='' @ signed_headers @ '', Signature='' @ signature)])"

section \<open>Helpers\<close>

text \<open>A later entry of a name replaces an earlier one.\<close>

definition extra_get :: "extras \<Rightarrow> string \<Rightarrow> string option" where
  "extra_get e k = map_of (rev e) k"

definition extra_or :: "extras \<Rightarrow> string \<Rightarrow> string \<Rightarrow> string" where
  "extra_or e k dflt = unwrap_or (Option.bind (extra_get e k) filled_trim) dflt"

definition trim_base :: "string \<Rightarrow> string" where
  "trim_base = trim_end_matches (CHR ''/'')"

definition host_of :: "string \<Rightarrow> string" where
  "host_of url =
     hd (split_on (CHR ''/'') (unwrap_or (or_else (strip_prefix ''https://'' url) (strip_prefix ''http://'' url)) url))"

definition str_at :: "json \<Rightarrow> string \<Rightarrow> string option" where
  "str_at j k = Option.bind (json_get j k) as_str"

section \<open>Statuses\<close>

definition lower_trim :: "string \<Rightarrow> string" where
  "lower_trim s = to_lowercase (trim s)"

definition map_status_openai :: "string \<Rightarrow> video_status" where
  "map_status_openai raw =
     (let s = lower_trim raw in
      if s \<in> {''queued'', ''pending'', ''created'', ''accepted''} then VideoQueued
      else if s \<in> {''running'', ''processing'', ''in_progress'', ''in-progress'', ''started''} then VideoRunning
      else if s \<in> {''succeeded'', ''success'', ''completed'', ''complete'', ''done'', ''finished''} then VideoSucceeded
      else if s \<in> {''failed'', ''failure'', ''error'', ''errored'', ''canceled'', ''cancelled''} then VideoFailed
      else VideoRunning)"

definition map_status_minimax :: "string \<Rightarrow> video_status" where
  "map_status_minimax raw =
     (let s = lower_trim raw in
      if s \<in> {''queueing'', ''preparing''} then VideoQueued
      else if s = ''processing'' then VideoRunning
      else if s = ''success'' then VideoSucceeded
      else if s \<in> {''fail'', ''failed''} then VideoFailed
      else VideoRunning)"

definition map_status_vidu :: "string \<Rightarrow> video_status" where
  "map_status_vidu raw =
     (let s = lower_trim raw in
      if s \<in> {''created'', ''queueing''} then VideoQueued
      else if s = ''processing'' then VideoRunning
      else if s = ''success'' then VideoSucceeded
      else if s = ''failed'' then VideoFailed
      else VideoRunning)"

definition map_status_runway :: "string \<Rightarrow> video_status" where
  "map_status_runway raw =
     (let s = to_uppercase (trim raw) in
      if s \<in> {''PENDING'', ''THROTTLED''} then VideoQueued
      else if s = ''RUNNING'' then VideoRunning
      else if s = ''SUCCEEDED'' then VideoSucceeded
      else if s \<in> {''FAILED'', ''CANCELLED'', ''CANCELED''} then VideoFailed
      else VideoRunning)"

definition map_status_kling :: "string \<Rightarrow> video_status" where
  "map_status_kling raw =
     (let s = lower_trim raw in
      if s = ''submitted'' then VideoQueued
      else if s = ''processing'' then VideoRunning
      else if s \<in> {''succeed'', ''succeeded''} then VideoSucceeded
      else if s = ''failed'' then VideoFailed
      else VideoRunning)"

definition map_status_jimeng :: "string \<Rightarrow> video_status" where
  "map_status_jimeng raw =
     (let s = lower_trim raw in
      if s \<in> {''in_queue'', ''submitted'', ''pending'', ''queued''} then VideoQueued
      else if s \<in> {''generating'', ''processing'', ''running''} then VideoRunning
      else if s \<in> {''done'', ''success'', ''succeeded''} then VideoSucceeded
      else if s \<in> {''not_found'', ''expired'', ''failed'', ''fail'', ''error''} then VideoFailed
      else VideoRunning)"

definition map_status :: "video_dialect \<Rightarrow> string \<Rightarrow> video_status" where
  "map_status dialect =
     (case dialect of OpenAiCompat \<Rightarrow> map_status_openai | MiniMax \<Rightarrow> map_status_minimax
      | Vidu \<Rightarrow> map_status_vidu | Runway \<Rightarrow> map_status_runway | Kling \<Rightarrow> map_status_kling
      | Jimeng \<Rightarrow> map_status_jimeng)"

end
