(* ===== verification/VideoWire.thy ===== *)
theory VideoWire
  imports VideoDialect
begin

text \<open>
  What goes over the wire in each dialect (\<open>apps/local-node/src/video_dialect.rs\<close>): the requests
  \<open>build_create\<close> and \<open>build_poll\<close> make, and what \<open>parse_create\<close> and \<open>parse_poll\<close> read.
\<close>

section \<open>Creating a job\<close>

definition bearer_header :: "string \<Rightarrow> string \<times> string" where
  "bearer_header k = (''Authorization'', ''Bearer '' @ k)"

definition json_content :: "string \<times> string" where
  "json_content = (''Content-Type'', ''application/json'')"

definition post_spec :: "string \<Rightarrow> (string \<times> string) list \<Rightarrow> json \<Rightarrow> http_spec" where
  "post_spec url hs b = \<lparr> sp_method = Post, sp_url = url, sp_headers = hs, sp_body = Some b \<rparr>"

definition get_spec :: "string \<Rightarrow> (string \<times> string) list \<Rightarrow> http_spec" where
  "get_spec url hs = \<lparr> sp_method = Get, sp_url = url, sp_headers = hs, sp_body = None \<rparr>"

text \<open>An entry of \<open>extra\<close> that is not blank, trimmed.\<close>

definition filled_extra :: "extras \<Rightarrow> string \<Rightarrow> string option" where
  "filled_extra e k = Option.bind (extra_get e k) filled_trim"

definition build_create_openai :: "create_inputs \<Rightarrow> http_spec" where
  "build_create_openai i = post_spec (endpoint_for CloudVideo (ci_base_url i))
     [bearer_header (ci_api_key i)]
     (json_object ([(''model'', JString (ci_model i)), (''prompt'', JString (ci_prompt i)),
        (''first_frame'', json_object [(''url'', JString (ci_first_frame_url i))]),
        (''duration_seconds'', JInt (uint (ci_duration_seconds i)))]
      @ (case ci_last_frame_url i of None \<Rightarrow> []
         | Some l \<Rightarrow> [(''last_frame'', json_object [(''url'', JString l)])])))"

definition build_create_minimax :: "create_inputs \<Rightarrow> http_spec" where
  "build_create_minimax i = post_spec
     (trim_base (ci_base_url i) @ ''/v1/video_generation''
      @ (case filled_extra (ci_extra i) ''group_id'' of None \<Rightarrow> [] | Some g \<Rightarrow> ''?GroupId='' @ g))
     [bearer_header (ci_api_key i), json_content]
     (json_object ([(''model'', JString (ci_model i)), (''prompt'', JString (ci_prompt i)),
        (''first_frame_image'', JString (ci_first_frame_url i))]
      @ text_entry ''last_frame_image'' (ci_last_frame_url i)))"

definition build_create_vidu :: "create_inputs \<Rightarrow> http_spec" where
  "build_create_vidu i = post_spec (trim_base (ci_base_url i) @ ''/ent/v2/img2video'')
     [(''Authorization'', ''Token '' @ ci_api_key i), json_content]
     (json_object ([(''model'', JString (ci_model i)),
        (''images'', JArray [JString (ci_first_frame_url i)]), (''prompt'', JString (ci_prompt i)),
        (''duration'', JInt (uint (ci_duration_seconds i)))]
      @ text_entry ''resolution'' (filled_extra (ci_extra i) ''resolution'')
      @ text_entry ''movement_amplitude'' (filled_extra (ci_extra i) ''movement_amplitude'')))"

definition runway_version :: "extras \<Rightarrow> string \<times> string" where
  "runway_version e = (''X-Runway-Version'', extra_or e ''version'' ''2024-11-06'')"

definition positioned :: "string \<Rightarrow> string \<Rightarrow> json" where
  "positioned uri position = json_object [(''uri'', JString uri), (''position'', JString position)]"

definition build_create_runway :: "create_inputs \<Rightarrow> http_spec" where
  "build_create_runway i = post_spec (trim_base (ci_base_url i) @ ''/v1/image_to_video'')
     [bearer_header (ci_api_key i), runway_version (ci_extra i), json_content]
     (json_object ([(''model'', JString (ci_model i)),
        (''promptImage'', case ci_last_frame_url i of
           Some l \<Rightarrow> JArray [positioned (ci_first_frame_url i) ''first'', positioned l ''last'']
         | None \<Rightarrow> JString (ci_first_frame_url i)),
        (''promptText'', JString (ci_prompt i)), (''duration'', JInt (uint (ci_duration_seconds i)))]
      @ text_entry ''ratio'' (filled_extra (ci_extra i) ''ratio'')))"

definition kling_bearer :: "crates \<Rightarrow> string \<Rightarrow> int \<Rightarrow> string \<times> string" where
  "kling_bearer x api_key now_unix =
     (case split_ak_sk api_key of (ak, sk) \<Rightarrow> bearer_header (kling_jwt x ak sk now_unix))"

definition build_create_kling :: "crates \<Rightarrow> create_inputs \<Rightarrow> int \<Rightarrow> http_spec" where
  "build_create_kling x i now_unix = post_spec (trim_base (ci_base_url i) @ ''/v1/videos/image2video'')
     [kling_bearer x (ci_api_key i) now_unix, json_content]
     (json_object ([(''model_name'', JString (ci_model i)), (''image'', JString (ci_first_frame_url i)),
        (''prompt'', JString (ci_prompt i)),
        (''duration'', JString (if 8 \<le> ci_duration_seconds i then ''10'' else ''5''))]
      @ text_entry ''image_tail'' (ci_last_frame_url i)
      @ text_entry ''mode'' (filled_extra (ci_extra i) ''mode'')
      @ (case Option.bind (filled_extra (ci_extra i) ''cfg_scale'') (x_json_f64 x) of
           None \<Rightarrow> [] | Some v \<Rightarrow> [(''cfg_scale'', v)])))"

text \<open>The clock the caller passes is in range, so the fallback of \<open>format_x_date\<close> is not taken.\<close>

definition format_x_date :: "crates \<Rightarrow> int \<Rightarrow> string" where
  "format_x_date x now_unix = x_format_basic x (seconds now_unix)"

definition jimeng_signed_headers ::
  "crates \<Rightarrow> string \<Rightarrow> extras \<Rightarrow> string \<Rightarrow> string \<Rightarrow> string \<Rightarrow> string \<Rightarrow> string \<Rightarrow> int \<Rightarrow> (string \<times> string) list" where
  "jimeng_signed_headers x api_key e base verb canonical_uri canonical_query b now_unix =
     (case split_ak_sk api_key of (ak, sk) \<Rightarrow>
        volc_sigv4 x \<lparr> sg_access_key = ak, sg_secret_key = sk,
          sg_region = extra_or e ''region'' ''cn-north-1'', sg_service = extra_or e ''service'' ''cv'',
          sg_host = host_of base, sg_method = verb, sg_canonical_uri = canonical_uri,
          sg_canonical_query = canonical_query, sg_body = b, sg_x_date = format_x_date x now_unix \<rparr>
        @ [json_content])"

definition jimeng_spec :: "crates \<Rightarrow> string \<Rightarrow> extras \<Rightarrow> string \<Rightarrow> string \<Rightarrow> json \<Rightarrow> int \<Rightarrow> http_spec" where
  "jimeng_spec x base e api_key action b now_unix =
     (let canonical_query = ''Action='' @ action @ ''&Version='' @ extra_or e ''version'' ''2022-08-31'' in
      post_spec (base @ ''/?'' @ canonical_query)
        (jimeng_signed_headers x api_key e base ''POST'' ''/'' canonical_query (x_json_print x b) now_unix) b)"

definition jimeng_req_key :: "extras \<Rightarrow> string \<times> json" where
  "jimeng_req_key e = (''req_key'', JString (extra_or e ''req_key'' ''jimeng_vgfm_i2v_l20''))"

definition build_create_jimeng :: "crates \<Rightarrow> create_inputs \<Rightarrow> int \<Rightarrow> http_spec" where
  "build_create_jimeng x i now_unix =
     jimeng_spec x (trim_base (ci_base_url i)) (ci_extra i) (ci_api_key i)
       (extra_or (ci_extra i) ''action'' ''CVSync2AsyncSubmitTask'')
       (json_object [jimeng_req_key (ci_extra i),
          (''image_urls'', JArray (map JString (ci_first_frame_url i # option_list (ci_last_frame_url i)))),
          (''prompt'', JString (ci_prompt i))]) now_unix"

definition build_create :: "crates \<Rightarrow> video_dialect \<Rightarrow> create_inputs \<Rightarrow> int \<Rightarrow> http_spec" where
  "build_create x dialect i now_unix =
     (case dialect of
        OpenAiCompat \<Rightarrow> build_create_openai i
      | MiniMax \<Rightarrow> build_create_minimax i
      | Vidu \<Rightarrow> build_create_vidu i
      | Runway \<Rightarrow> build_create_runway i
      | Kling \<Rightarrow> build_create_kling x i now_unix
      | Jimeng \<Rightarrow> build_create_jimeng x i now_unix)"

section \<open>The answer to a create\<close>

fun debug_dialect :: "video_dialect \<Rightarrow> string" where
  "debug_dialect OpenAiCompat = ''OpenAiCompat''"
| "debug_dialect Kling = ''Kling''"
| "debug_dialect MiniMax = ''MiniMax''"
| "debug_dialect Vidu = ''Vidu''"
| "debug_dialect Runway = ''Runway''"
| "debug_dialect Jimeng = ''Jimeng''"

text \<open>The job id; none of the dialects gives a finished video here, so
  \<open>CreateOutcome.inline_video_url\<close> is always empty.\<close>

definition parse_create :: "video_dialect \<Rightarrow> json \<Rightarrow> string + string" where
  "parse_create dialect j =
     ok_or (''create response did not contain a job id for dialect '' @ debug_dialect dialect)
       (Option.bind (case dialect of
            OpenAiCompat \<Rightarrow> or_else (str_at j ''id'') (str_at j ''job_id'')
          | MiniMax \<Rightarrow> str_at j ''task_id''
          | Vidu \<Rightarrow> str_at j ''task_id''
          | Runway \<Rightarrow> str_at j ''id''
          | Kling \<Rightarrow> Option.bind (json_get j ''data'') (\<lambda>d. str_at d ''task_id'')
          | Jimeng \<Rightarrow> Option.bind (json_get j ''data'') (\<lambda>d. str_at d ''task_id'')) filled_trim)"

section \<open>Polling a job\<close>

definition group_query :: "extras \<Rightarrow> string" where
  "group_query e = (case filled_extra e ''group_id'' of None \<Rightarrow> [] | Some g \<Rightarrow> ''&GroupId='' @ g)"

definition build_poll :: "crates \<Rightarrow> video_dialect \<Rightarrow> poll_inputs \<Rightarrow> int \<Rightarrow> http_spec" where
  "build_poll x dialect i now_unix =
     (let base = trim_base (pi_base_url i); job = pi_provider_job_id i; k = pi_api_key i; e = pi_extra i in
      case dialect of
        OpenAiCompat \<Rightarrow>
          get_spec (endpoint_for CloudVideo (pi_base_url i) @ ''/'' @ job) [bearer_header k]
      | MiniMax \<Rightarrow>
          get_spec (base @ ''/v1/query/video_generation?task_id='' @ job @ group_query e) [bearer_header k]
      | Vidu \<Rightarrow>
          get_spec (base @ ''/ent/v2/tasks/'' @ job @ ''/creations'') [(''Authorization'', ''Token '' @ k)]
      | Runway \<Rightarrow>
          get_spec (base @ ''/v1/tasks/'' @ job) [bearer_header k, runway_version e]
      | Kling \<Rightarrow>
          get_spec (base @ ''/v1/videos/image2video/'' @ job) [kling_bearer x k now_unix]
      | Jimeng \<Rightarrow>
          jimeng_spec x base e k ''CVSync2AsyncGetResult''
            (json_object [jimeng_req_key e, (''task_id'', JString job)]) now_unix)"

section \<open>The answer to a poll\<close>

definition first_entry :: "json option \<Rightarrow> json option" where
  "first_entry j = Option.bind (Option.bind j as_array) first_of"

definition parse_poll_openai :: "json \<Rightarrow> poll_outcome" where
  "parse_poll_openai j =
     (let url = Option.bind (or_else (str_at j ''video_url'') (or_else (str_at j ''output_url'') (str_at j ''url'')))
            filled_trim;
          err = Option.bind (str_at j ''error'') filled_trim;
          status = (case str_at j ''status'' of Some s \<Rightarrow> map_status_openai s
                    | None \<Rightarrow> if url \<noteq> None then VideoSucceeded else VideoRunning) in
      PollStatus status url err)"

definition parse_poll_minimax :: "json \<Rightarrow> poll_inputs \<Rightarrow> poll_outcome" where
  "parse_poll_minimax j i =
     (let status = map_status_minimax (unwrap_or (str_at j ''status'') []) in
      case (if status = VideoSucceeded then Option.bind (str_at j ''file_id'') filled_trim else None) of
        Some file_id \<Rightarrow> NeedsFetch (get_spec
          (trim_base (pi_base_url i) @ ''/v1/files/retrieve?file_id='' @ file_id @ group_query (pi_extra i))
          [bearer_header (pi_api_key i)])
      | None \<Rightarrow> PollStatus status None None)"

definition parse_minimax_file_retrieve :: "json \<Rightarrow> string option" where
  "parse_minimax_file_retrieve j =
     Option.bind (or_else (Option.bind (json_get j ''file'') (\<lambda>f. str_at f ''download_url''))
       (str_at j ''download_url'')) filled_trim"

definition status_or_running :: "(string \<Rightarrow> video_status) \<Rightarrow> string option \<Rightarrow> video_status" where
  "status_or_running f s = (case s of Some t \<Rightarrow> f t | None \<Rightarrow> VideoRunning)"

definition parse_poll_vidu :: "json \<Rightarrow> poll_outcome" where
  "parse_poll_vidu j = PollStatus (status_or_running map_status_vidu (str_at j ''state''))
     (Option.bind (Option.bind (first_entry (json_get j ''creations'')) (\<lambda>c. str_at c ''url'')) filled_trim) None"

definition parse_poll_runway :: "json \<Rightarrow> poll_outcome" where
  "parse_poll_runway j = PollStatus (status_or_running map_status_runway (str_at j ''status''))
     (Option.bind (Option.bind (first_entry (json_get j ''output'')) as_str) filled_trim)
     (Option.bind (or_else (str_at j ''failure'') (str_at j ''error'')) filled_trim)"

definition parse_poll_kling :: "json \<Rightarrow> poll_outcome" where
  "parse_poll_kling j =
     (let d = json_get j ''data'' in
      PollStatus (status_or_running map_status_kling (Option.bind d (\<lambda>d. str_at d ''task_status'')))
        (Option.bind (Option.bind (first_entry (Option.bind (Option.bind d
            (\<lambda>d. json_get d ''task_result'')) (\<lambda>r. json_get r ''videos''))) (\<lambda>v. str_at v ''url'')) filled_trim)
        (Option.bind (Option.bind d (\<lambda>d. str_at d ''task_status_msg'')) filled_trim))"

definition parse_poll_jimeng :: "json \<Rightarrow> poll_outcome" where
  "parse_poll_jimeng j =
     (let d = json_get j ''data'' in
      PollStatus (status_or_running map_status_jimeng (Option.bind d (\<lambda>d. str_at d ''status'')))
        (Option.bind (Option.bind d (\<lambda>d. str_at d ''video_url'')) filled_trim) None)"

definition parse_poll :: "video_dialect \<Rightarrow> json \<Rightarrow> poll_inputs \<Rightarrow> poll_outcome" where
  "parse_poll dialect j i =
     (case dialect of
        OpenAiCompat \<Rightarrow> parse_poll_openai j
      | MiniMax \<Rightarrow> parse_poll_minimax j i
      | Vidu \<Rightarrow> parse_poll_vidu j
      | Runway \<Rightarrow> parse_poll_runway j
      | Kling \<Rightarrow> parse_poll_kling j
      | Jimeng \<Rightarrow> parse_poll_jimeng j)"

end
