(* ===== verification/NodeRead.thy ===== *)
theory NodeRead
  imports NodeStatus
begin

text \<open>
  Reading the shop (\<open>apps/local-node/src/main.rs\<close>): the product tools, which ask for a token,
  a valid lease and credentials in this order, and the validation of the credentials. The
  connector is the one of the node's parts, the real client or the mock.
\<close>

definition normalize_product_list_visibility :: "string option \<Rightarrow> node_error + string option" where
  "normalize_product_list_visibility visibility =
     (case visibility of
        None \<Rightarrow> Inr None
      | Some v0 \<Rightarrow> (let v = to_uppercase (trim v0) in
          if v = [] then Inr None
          else if \<not> list_all visibility_char v
          then Inl (bad_request_node (''invalid product list visibility: '' @ v))
          else Inr (Some v)))"

definition map_product_get_error :: "string \<Rightarrow> ozon_error \<Rightarrow> node_error" where
  "map_product_get_error prefix_text e =
     (case e of
        InvalidProductLookup m \<Rightarrow> bad_request_node (prefix_text @ '': '' @ m)
      | ProductNotFound l \<Rightarrow> not_found_node (prefix_text @ '': product not found for '' @ l)
      | _ \<Rightarrow> bad_gateway_node (prefix_text @ '': '' @ show_ozon_error e))"

definition gateway :: "string \<Rightarrow> ozon_error \<Rightarrow> node_error" where
  "gateway prefix_text e = bad_gateway_node (prefix_text @ '': '' @ show_ozon_error e)"

definition ask :: "(ozon_error \<Rightarrow> node_error) \<Rightarrow> 'a ozon \<Rightarrow> ('s, 'a) node_act" where
  "ask f m = map_error f (on_network m)"

text \<open>The gate of every product tool.\<close>

definition with_shop :: "'s node_parts \<Rightarrow> (ozon_credentials \<Rightarrow> ('s, 'a) node_act) \<Rightarrow> ('s, 'a) node_act" where
  "with_shop p f =
     andthen (require_valid_lease_with_feature p OzonRead) (\<lambda>_.
     andthen (load_ozon_credentials p) f)"

record validation_response =
  vr_ok :: bool
  vr_checked_at :: string
  vr_connector_mode :: string
  vr_message :: string

definition validate_ozon_config :: "'s node_parts \<Rightarrow> headers \<Rightarrow> ('s, validation_response) node_act" where
  "validate_ozon_config p h =
     andthen (lift (require_operator_token (np_config p) h)) (\<lambda>_.
     andthen (load_ozon_credentials p) (\<lambda>credentials.
     andthen (ask (gateway ''ozon credential validation failed'')
       (rc_validate_credentials (np_reader p) credentials)) (\<lambda>_.
     andthen utc_now (\<lambda>now.
       ret \<lparr> vr_ok = True, vr_checked_at = x_to_rfc3339 (np_crates p) now,
         vr_connector_mode = connector_mode (np_config p),
         vr_message = (if lcf_use_real_ozon (np_config p)
           then ''real Ozon read-only credential validation succeeded''
           else ''mock connector validation succeeded; set OZON_CONNECTOR_MODE=real for real Ozon validation'') \<rparr>))))"

record product_count_response =
  pcr_count :: u32
  pcr_visibility :: string
  pcr_archived_fallback :: bool

definition ozon_products_count :: "'s node_parts \<Rightarrow> headers \<Rightarrow> ('s, product_count_response) node_act" where
  "ozon_products_count p h =
     andthen (lift (require_bridge_or_operator_token (np_config p) h)) (\<lambda>_.
     with_shop p (\<lambda>credentials.
     andthen (ask (gateway ''ozon connector failed'') (rc_product_count (np_reader p) credentials)) (\<lambda>count.
       if count = 0 then
         andthen (ask (gateway ''ozon archived connector failed'')
           (rc_list_with_visibility (np_reader p) credentials 1 None (Some ''ARCHIVED''))) (\<lambda>archived.
           ret (if 0 < pl_total archived
             then \<lparr> pcr_count = pl_total archived, pcr_visibility = ''ARCHIVED'', pcr_archived_fallback = True \<rparr>
             else \<lparr> pcr_count = count, pcr_visibility = ''ALL'', pcr_archived_fallback = False \<rparr>))
       else ret \<lparr> pcr_count = count, pcr_visibility = ''ALL'', pcr_archived_fallback = False \<rparr>)))"

record product_list_input =
  pli_limit :: "u16 option"
  pli_last_id :: "string option"
  pli_visibility :: "string option"
  pli_include_archived_if_empty :: "bool option"

record product_list_response =
  plp_connector_mode :: string
  plp_products :: "product_summary list"
  plp_total :: u32
  plp_last_id :: "string option"
  plp_visibility :: string
  plp_archived_fallback :: bool

definition ozon_products_list ::
  "'s node_parts \<Rightarrow> headers \<Rightarrow> product_list_input \<Rightarrow> ('s, product_list_response) node_act" where
  "ozon_products_list p h input =
     andthen (lift (require_bridge_or_operator_token (np_config p) h)) (\<lambda>_.
     with_shop p (\<lambda>credentials.
     let limit = unwrap_or (pli_limit input) 20 in
     andthen (lift (normalize_product_list_visibility (pli_visibility input))) (\<lambda>requested.
     andthen (ask (gateway ''ozon connector failed'')
       (rc_list_with_visibility (np_reader p) credentials limit (pli_last_id input) requested)) (\<lambda>first_page.
     let answer = \<lambda>page visibility fallback. ret \<lparr> plp_connector_mode = connector_mode (np_config p),
           plp_products = pl_products page, plp_total = pl_total page, plp_last_id = pl_last_id page,
           plp_visibility = visibility, plp_archived_fallback = fallback \<rparr> in
     if requested = None \<and> unwrap_or (pli_include_archived_if_empty input) True
        \<and> pl_total first_page = 0 \<and> pl_products first_page = []
     then andthen (ask (gateway ''ozon archived connector failed'')
            (rc_list_with_visibility (np_reader p) credentials limit None (Some ''ARCHIVED''))) (\<lambda>page.
            if 0 < pl_total page \<or> pl_products page \<noteq> [] then answer page ''ARCHIVED'' True
            else answer page ''ALL'' False)
     else answer first_page (unwrap_or requested ''ALL'') False))))"

definition load_product_for_lookup :: "'s node_parts \<Rightarrow> product_lookup \<Rightarrow> ('s, product_detail) node_act" where
  "load_product_for_lookup p l =
     with_shop p (\<lambda>credentials.
       ask (map_product_get_error ''ozon connector failed'') (rc_product_get (np_reader p) credentials l))"

definition ozon_products_get ::
  "'s node_parts \<Rightarrow> headers \<Rightarrow> product_lookup \<Rightarrow> ('s, string \<times> product_detail) node_act" where
  "ozon_products_get p h l =
     andthen (lift (require_bridge_or_operator_token (np_config p) h)) (\<lambda>_.
     with_shop p (\<lambda>credentials.
     andthen (ask (map_product_get_error ''ozon connector failed'')
       (rc_product_get (np_reader p) credentials l)) (\<lambda>product.
       ret (connector_mode (np_config p), product))))"

end
