(* ===== verification/NodeTasks.thy ===== *)
theory NodeTasks
  imports NodeRead
begin

text \<open>
  What the bridge may propose and the operator decides (\<open>apps/local-node/src/main.rs\<close>): the
  task handlers over the task store, the pairing of the bridge, and the schedule of read-only
  polls with its background worker. Each block that holds a lock is one operation; where a
  handler waits without one, other requests may run.
\<close>

section \<open>Tasks\<close>

record dry_run_request =
  drq_tenant_id :: "uuid option"
  drq_shop_id :: "string option"
  drq_source :: "task_source option"
  drq_operation :: "operation_kind option"
  drq_dry_run :: "dry_run_diff option"
  drq_risk :: "risk_level option"
  drq_idempotency_key :: "string option"

definition sample_dry_run :: "operation_kind \<Rightarrow> dry_run_diff" where
  "sample_dry_run operation =
     (if operation = Import1688Mock then
        \<lparr> dr_summary = ''Import 3 authorized mock 1688 source items into local draft catalog'',
          dr_target_count = 3,
          dr_changes = [\<lparr> fc_object_id = ''draft-1688-001'', fc_field = ''source'', fc_before = None,
            fc_after = Some ''mock-import'' \<rparr>],
          dr_warnings = [''Live 1688 collection is disabled in MVP''] \<rparr>
      else if operation = DraftUploadMock then
        \<lparr> dr_summary = ''Prepare 2 local product drafts for Ozon upload preview'', dr_target_count = 2,
          dr_changes = [], dr_warnings = [''No real Ozon write will be sent by mock executor''] \<rparr>
      else
        \<lparr> dr_summary = ''Mock Ozon write proposal; approval required before execution'',
          dr_target_count = 1,
          dr_changes = [\<lparr> fc_object_id = ''SKU-MOCK-1'', fc_field = ''price'',
            fc_before = Some ''1299 RUB'', fc_after = Some ''1199 RUB'' \<rparr>],
          dr_warnings = [''AI/OpenClaw can propose this task, but local approval is mandatory''] \<rparr>)"

text \<open>\<open>TenantId::default()\<close> is a fresh id.\<close>

definition tenant_or_default :: "uuid option \<Rightarrow> ('z ambient_scheme, 'e, tenant_id) act" where
  "tenant_or_default t = (case t of Some u \<Rightarrow> ret (TenantId u) | None \<Rightarrow> andthen new_v4 (\<lambda>u. ret (TenantId u)))"

definition key_or_fresh :: "crates \<Rightarrow> string \<Rightarrow> string option \<Rightarrow> ('z ambient_scheme, 'e, string) act" where
  "key_or_fresh x pre k =
     (case k of Some v \<Rightarrow> ret v | None \<Rightarrow> andthen new_v4 (\<lambda>u. ret (pre @ x_uuid_string x u)))"

definition run_task :: "'a engine \<Rightarrow> ('s, 'a) node_act" where
  "run_task m = map_error bad_task (on_tasks m)"

definition node_dry_run :: "'s node_parts \<Rightarrow> headers \<Rightarrow> dry_run_request \<Rightarrow> ('s, task) node_act" where
  "node_dry_run p h input =
     andthen (lift (require_bridge_or_operator_token (np_config p) h)) (\<lambda>_.
     let operation = unwrap_or (drq_operation input) OzonUpdatePriceMock;
         dry_run = (case drq_dry_run input of Some d \<Rightarrow> d | None \<Rightarrow> sample_dry_run operation) in
     andthen (tenant_or_default (drq_tenant_id input)) (\<lambda>tenant.
     andthen (key_or_fresh (np_crates p) ''idem-'' (drq_idempotency_key input)) (\<lambda>k.
       run_task (create_dry_run (x_uuid_string (np_crates p))
         \<lparr> ct_tenant_id = tenant, ct_shop_id = unwrap_or (drq_shop_id input) ''default-shop'',
           ct_source = unwrap_or (drq_source input) OpenClaw, ct_operation = operation,
           ct_dry_run = dry_run, ct_risk = unwrap_or (drq_risk input) HighRisk,
           ct_idempotency_key = k \<rparr>))))"

definition list_tasks :: "'s node_parts \<Rightarrow> headers \<Rightarrow> ('s, task list) node_act" where
  "list_tasks p h =
     andthen (lift (require_operator_token (np_config p) h)) (\<lambda>_.
       gets (\<lambda>s. task_list (task_store.truncate s)))"

definition node_get_task :: "'s node_parts \<Rightarrow> headers \<Rightarrow> uuid \<Rightarrow> ('s, task) node_act" where
  "node_get_task p h i =
     andthen (lift (require_bridge_or_operator_token (np_config p) h)) (\<lambda>_.
     andthen (gets (\<lambda>s. task_get (TaskId i) (task_store.truncate s))) (\<lambda>t.
       lift (ok_or (not_found_node ''task not found'') t)))"

definition approve_task ::
  "'s node_parts \<Rightarrow> headers \<Rightarrow> uuid \<Rightarrow> string option \<Rightarrow> string option \<Rightarrow> ('s, task) node_act" where
  "approve_task p h i approved_by note =
     andthen (lift (require_operator_token (np_config p) h)) (\<lambda>_.
       run_task (approve (x_uuid_string (np_crates p)) (TaskId i)
         (unwrap_or approved_by ''local-operator'') note))"

definition cancel_task :: "'s node_parts \<Rightarrow> headers \<Rightarrow> uuid \<Rightarrow> ('s, task) node_act" where
  "cancel_task p h i =
     andthen (lift (require_operator_token (np_config p) h)) (\<lambda>_.
       run_task (cancel (x_uuid_string (np_crates p)) (TaskId i) ''local-operator''))"

text \<open>\<open>during\<close> is what other requests do while the handler sleeps.\<close>

definition execute_mock_task ::
  "'s node_parts \<Rightarrow> headers \<Rightarrow> uuid \<Rightarrow> ('s node \<Rightarrow> 's node) \<Rightarrow> ('s, task) node_act" where
  "execute_mock_task p h i during =
     andthen (lift (require_operator_token (np_config p) h)) (\<lambda>_.
     andthen (run_task (mark_running (TaskId i))) (\<lambda>_.
     andthen (modify during) (\<lambda>_.
     andthen new_v4 (\<lambda>u.
     andthen utc_now (\<lambda>now.
       run_task (mark_succeeded (TaskId i)
         \<lparr> rcp_external_request_id = Some (''dry-run-receipt-'' @ x_uuid_string (np_crates p) u),
           rcp_executed_at = now,
           rcp_result_summary = ''dry-run execution completed; no Ozon write was sent'' \<rparr>))))))"

section \<open>Pairing\<close>

definition openclaw_pairing_ttl :: nat where
  "openclaw_pairing_ttl = 5 * 60"

definition retain_live :: "int \<Rightarrow> ('s, unit) node_act" where
  "retain_live now = modify (\<lambda>s. s\<lparr>nd_pairings :=
     filter (\<lambda>(_, pairing). now < op_expires_at pairing) (nd_pairings s)\<rparr>)"

record pairing_start_response =
  psr_bind_url :: string
  psr_pairing_code :: string
  psr_claim_url :: string
  psr_manifest_url :: string
  psr_expires_at :: string

definition start_openclaw_pairing :: "'s node_parts \<Rightarrow> headers \<Rightarrow> ('s, pairing_start_response) node_act" where
  "start_openclaw_pairing p h =
     andthen (lift (require_operator_token (np_config p) h)) (\<lambda>_.
     andthen instant_now (\<lambda>now.
     andthen new_v4 (\<lambda>u.
     andthen utc_now (\<lambda>t.
     let code = x_uuid_simple (np_crates p) u;
         expires = x_to_rfc3339 (np_crates p) (t + seconds (int openclaw_pairing_ttl));
         claim_url = skill_url p @ ''/openclaw/pairing/claim'' in
     andthen (lift (build_openclaw_bind_url (np_crates p) (lcf_openclaw_bind_url (np_config p)) code
       claim_url (manifest_url_of p))) (\<lambda>bind_url.
     andthen (retain_live now) (\<lambda>_.
     andthen (modify (\<lambda>s. s\<lparr>nd_pairings := AList.update code
       \<lparr> op_expires_at = now + 1000 * int openclaw_pairing_ttl, op_expires_at_rfc3339 = expires \<rparr>
       (nd_pairings s)\<rparr>)) (\<lambda>_.
       ret \<lparr> psr_bind_url = bind_url, psr_pairing_code = code, psr_claim_url = claim_url,
         psr_manifest_url = manifest_url_of p, psr_expires_at = expires \<rparr>)))))))"

record pairing_claim_response =
  pcl_manifest_url :: string
  pcl_base_url :: string
  pcl_auth_token :: string
  pcl_auth_token_fingerprint :: string
  pcl_expires_at :: string

definition claim_openclaw_pairing ::
  "'s node_parts \<Rightarrow> headers \<Rightarrow> string \<Rightarrow> ('s, pairing_claim_response) node_act" where
  "claim_openclaw_pairing p h code0 =
     andthen (lift (require_openclaw_pairing_origin (np_env p) h)) (\<lambda>_.
     let code = trim code0 in
     andthen (lift (ensure (code \<noteq> []) (bad_request_node ''pairing code is required''))) (\<lambda>_.
     andthen instant_now (\<lambda>now.
     andthen (retain_live now) (\<lambda>_.
     andthen (gets (\<lambda>s. map_of (nd_pairings s) code)) (\<lambda>found.
     andthen (lift (ok_or (unauthorized_node ''pairing code is invalid or expired'') found)) (\<lambda>pairing.
     andthen (modify (\<lambda>s. s\<lparr>nd_pairings := AList.delete code (nd_pairings s)\<rparr>)) (\<lambda>_.
       ret \<lparr> pcl_manifest_url = manifest_url_of p, pcl_base_url = skill_url p,
         pcl_auth_token = lcf_openclaw_token (np_config p),
         pcl_auth_token_fingerprint = fingerprint_secret (np_crates p) (lcf_openclaw_token (np_config p)),
         pcl_expires_at = op_expires_at_rfc3339 pairing \<rparr>)))))))"

section \<open>Polling\<close>

definition change_schedule :: "(schedule \<Rightarrow> schedule) \<Rightarrow> ('s node, 'e, unit) act" where
  "change_schedule f = modify (\<lambda>s. s\<lparr>nd_schedule := f (nd_schedule s)\<rparr>)"

definition log_schedule :: "'s node_parts \<Rightarrow> string \<Rightarrow> string \<Rightarrow> string \<Rightarrow> ('s node, 'e, unit) act" where
  "log_schedule p actor action summary =
     andthen utc_now (\<lambda>now. change_schedule (\<lambda>c. c\<lparr>sch_audit := sch_audit c @
       [\<lparr> sa_at = x_to_rfc3339 (np_crates p) now, sa_actor = actor, sa_action = action,
          sa_summary = summary \<rparr>]\<rparr>))"

definition keep_last :: "nat \<Rightarrow> 'a list \<Rightarrow> 'a list" where
  "keep_last n xs = (if n < length xs then drop (length xs - n) xs else xs)"

definition execute_ecommerce_read_once :: "'s node_parts \<Rightarrow> u16 \<Rightarrow> ('s, read_run) node_act" where
  "execute_ecommerce_read_once p limit =
     andthen (require_valid_lease_with_feature p OzonRead) (\<lambda>_.
     andthen utc_now (\<lambda>started_at.
     andthen instant_now (\<lambda>start.
     andthen (load_ozon_credentials p) (\<lambda>credentials.
     andthen (ask (gateway ''scheduled Ozon read failed'')
       (rc_list_with_visibility (np_reader p) credentials (clamp_limit limit) None None)) (\<lambda>page0.
     andthen (if pl_total page0 = 0 \<and> pl_products page0 = []
       then andthen (ask (gateway ''scheduled archived Ozon read failed'')
              (rc_list_with_visibility (np_reader p) credentials (clamp_limit limit) None (Some ''ARCHIVED'')))
              (\<lambda>archived. ret (if 0 < pl_total archived \<or> pl_products archived \<noteq> [] then archived else page0))
       else ret page0) (\<lambda>page.
     andthen utc_now (\<lambda>completed_at.
     andthen instant_now (\<lambda>stop.
     let run = \<lparr> rr_started_at = x_to_rfc3339 (np_crates p) started_at,
           rr_completed_at = x_to_rfc3339 (np_crates p) completed_at,
           rr_duration_ms = nat (stop - start) mod 2 ^ 64,
           rr_connector_mode = connector_mode (np_config p), rr_product_count = pl_total page,
           rr_sample_size = length (pl_products page) mod 2 ^ 16,
           rr_next_last_id = pl_last_id page, rr_products = pl_products page, rr_total = pl_total page \<rparr> in
     andthen (change_schedule (\<lambda>c. c\<lparr>sch_last_error := None, sch_last_run := Some run\<rparr>)) (\<lambda>_.
     andthen (log_schedule p ''scheduler'' ''schedule.read_succeeded''
       (''read '' @ show_nat (rr_sample_size run) @ '' products in '' @ show_nat (rr_duration_ms run)
        @ ''ms through '' @ rr_connector_mode run @ '' connector'')) (\<lambda>_.
     andthen (change_schedule (\<lambda>c. c\<lparr>sch_audit := keep_last 100 (sch_audit c)\<rparr>)) (\<lambda>_.
       ret run)))))))))))"

text \<open>\<open>take\<close> the handle and abort the worker.\<close>

definition stop_existing_schedule_worker :: "('s node, 'e, unit) act" where
  "stop_existing_schedule_worker = modify (\<lambda>s.
     case sch_worker (nd_schedule s) of
       None \<Rightarrow> s
     | Some i \<Rightarrow> s\<lparr>nd_schedule := (nd_schedule s)\<lparr>sch_worker := None\<rparr>,
           nd_workers := filter (\<lambda>(j, _). j \<noteq> i) (nd_workers s)\<rparr>)"

definition enable_schedule :: "'s node_parts \<Rightarrow> u64 \<Rightarrow> u16 \<Rightarrow> ('s node, 'e, unit) act" where
  "enable_schedule p interval_secs limit =
     andthen (change_schedule (\<lambda>c. c\<lparr>sch_enabled := True, sch_interval_secs := interval_secs,
       sch_limit := limit, sch_last_error := None\<rparr>)) (\<lambda>_.
     log_schedule p ''local-operator'' ''schedule.enabled''
       (''official Ozon read-only polling enabled every '' @ show_nat (unat interval_secs)
        @ ''s with limit '' @ show_nat (unat limit)))"

definition spawn_worker :: "u16 \<Rightarrow> ('s node, 'e, unit) act" where
  "spawn_worker limit = modify (\<lambda>s. s\<lparr>nd_workers := nd_workers s @ [(nd_spawned s, limit)],
     nd_schedule := (nd_schedule s)\<lparr>sch_worker := Some (nd_spawned s)\<rparr>, nd_spawned := Suc (nd_spawned s)\<rparr>)"

definition start_ecommerce_schedule :: "'s node_parts \<Rightarrow> u64 \<Rightarrow> u16 \<Rightarrow> ('s node, 'e, unit) act" where
  "start_ecommerce_schedule p interval_secs limit =
     andthen stop_existing_schedule_worker (\<lambda>_.
     andthen (enable_schedule p interval_secs limit) (\<lambda>_. spawn_worker limit))"

text \<open>One tick of a background worker: it ends when the schedule is disabled.\<close>

definition worker_tick :: "'s node_parts \<Rightarrow> nat \<Rightarrow> ('s node, 'e, unit) act" where
  "worker_tick p i =
     andthen (gets (\<lambda>s. (map_of (nd_workers s) i, sch_enabled (nd_schedule s)))) (\<lambda>(worker, enabled).
       case worker of
         None \<Rightarrow> ret ()
       | Some limit \<Rightarrow>
           if \<not> enabled then modify (\<lambda>s. s\<lparr>nd_workers := filter (\<lambda>(j, _). j \<noteq> i) (nd_workers s)\<rparr>)
           else match_res (execute_ecommerce_read_once p limit) (\<lambda>_. ret ())
             (\<lambda>e. andthen (change_schedule (\<lambda>c. c\<lparr>sch_last_error := Some (ne_message e)\<rparr>)) (\<lambda>_.
                log_schedule p ''scheduler'' ''schedule.read_failed'' (ne_message e))))"

definition stop_ecommerce_schedule :: "'s node_parts \<Rightarrow> string \<Rightarrow> ('s node, 'e, unit) act" where
  "stop_ecommerce_schedule p reason =
     andthen stop_existing_schedule_worker (\<lambda>_.
     andthen (change_schedule (\<lambda>c. c\<lparr>sch_enabled := False\<rparr>)) (\<lambda>_.
       log_schedule p ''local-operator'' ''schedule.disabled'' reason))"

record schedule_response =
  sr_enabled :: bool
  sr_interval_secs :: u64
  sr_limit :: u16
  sr_connector_mode :: string
  sr_last_run :: "read_run option"
  sr_last_error :: "string option"
  sr_audit :: "schedule_audit_event list"

definition schedule_response_of :: "'s node_parts \<Rightarrow> ('s node, 'e, schedule_response) act" where
  "schedule_response_of p = gets (\<lambda>s. let c = nd_schedule s in
     \<lparr> sr_enabled = sch_enabled c, sr_interval_secs = sch_interval_secs c, sr_limit = sch_limit c,
       sr_connector_mode = connector_mode (np_config p), sr_last_run = sch_last_run c,
       sr_last_error = sch_last_error c, sr_audit = sch_audit c \<rparr>)"

definition get_ecommerce_schedule :: "'s node_parts \<Rightarrow> headers \<Rightarrow> ('s, schedule_response) node_act" where
  "get_ecommerce_schedule p h =
     andthen (lift (require_operator_token (np_config p) h)) (\<lambda>_. schedule_response_of p)"

definition configure_ecommerce_schedule ::
  "'s node_parts \<Rightarrow> headers \<Rightarrow> bool \<Rightarrow> u64 option \<Rightarrow> u16 option \<Rightarrow> ('s, schedule_response) node_act" where
  "configure_ecommerce_schedule p h enabled interval limit0 =
     andthen (lift (require_operator_token (np_config p) h)) (\<lambda>_.
     let interval_secs = clamp_interval (unwrap_or interval (lcf_default_interval_secs (np_config p)));
         limit = clamp_limit (unwrap_or limit0 (lcf_default_limit (np_config p))) in
     andthen (if enabled
       then andthen (execute_ecommerce_read_once p limit) (\<lambda>_. start_ecommerce_schedule p interval_secs limit)
       else stop_ecommerce_schedule p ''disabled by local operator'') (\<lambda>_.
       schedule_response_of p))"

definition run_ecommerce_schedule_now :: "'s node_parts \<Rightarrow> headers \<Rightarrow> ('s, read_run) node_act" where
  "run_ecommerce_schedule_now p h =
     andthen (lift (require_operator_token (np_config p) h)) (\<lambda>_.
     andthen (gets (\<lambda>s. sch_limit (nd_schedule s))) (\<lambda>limit. execute_ecommerce_read_once p limit))"

record propose_schedule_request =
  psq_tenant_id :: "uuid option"
  psq_shop_id :: "string option"
  psq_source :: "task_source option"
  psq_interval_secs :: "u64 option"
  psq_limit :: "u16 option"
  psq_idempotency_key :: "string option"

definition propose_ecommerce_schedule ::
  "'s node_parts \<Rightarrow> headers \<Rightarrow> propose_schedule_request \<Rightarrow> ('s, task) node_act" where
  "propose_ecommerce_schedule p h input =
     andthen (lift (require_bridge_or_operator_token (np_config p) h)) (\<lambda>_.
     andthen (require_valid_lease_with_feature p OzonRead) (\<lambda>_.
     let interval_secs = clamp_interval (unwrap_or (psq_interval_secs input)
           (lcf_default_interval_secs (np_config p)));
         limit = clamp_limit (unwrap_or (psq_limit input) (lcf_default_limit (np_config p))) in
     andthen (tenant_or_default (psq_tenant_id input)) (\<lambda>tenant.
     andthen (key_or_fresh (np_crates p) ''schedule-proposal-'' (psq_idempotency_key input)) (\<lambda>k.
       run_task (create_dry_run (x_uuid_string (np_crates p))
         \<lparr> ct_tenant_id = tenant, ct_shop_id = unwrap_or (psq_shop_id input) ''default-shop'',
           ct_source = unwrap_or (psq_source input) OpenClaw, ct_operation = OzonProductsList,
           ct_dry_run =
             \<lparr> dr_summary = ''Propose official Ozon read-only product polling every ''
                 @ show_nat (unat interval_secs) @ ''s with limit '' @ show_nat (unat limit),
               dr_target_count = ucast limit, dr_changes = [],
               dr_warnings =
                 [''This proposal does not enable a scheduler; local operator token is required'',
                  ''Real connector mode uses official Ozon Seller API credentials only; no live 1688 scraping''] \<rparr>,
           ct_risk = LowRisk, ct_idempotency_key = k \<rparr>)))))"

end
