(* ===== verification/NodeVideo.thy ===== *)
theory NodeVideo
  imports VideoWire NodeTasks
begin

text \<open>
  Image-to-video jobs (module 6 of \<open>apps/local-node/src/main.rs\<close>): creating a job at the
  provider, the background poller of each job, and the handlers. A poller is the task that
  \<open>spawn_video_poller\<close> spawns: each tick makes one attempt, it ends with a terminal status or
  when its attempts are used up, and what other requests do between two ticks is not its own.
\<close>

section \<open>The provider\<close>

definition video_max_duration_secs :: u32 where "video_max_duration_secs = 15"
definition video_default_duration_secs :: u32 where "video_default_duration_secs = 8"
definition video_poll_max_attempts :: nat where "video_poll_max_attempts = 120"

definition map_video_status :: "string \<Rightarrow> video_status" where
  "map_video_status raw =
     (let s = to_lowercase (trim raw) in
      if s \<in> {''queued'', ''pending'', ''created'', ''accepted''} then VideoQueued
      else if s \<in> {''running'', ''processing'', ''in_progress'', ''in-progress'', ''started''} then VideoRunning
      else if s \<in> {''succeeded'', ''success'', ''completed'', ''complete'', ''done'', ''finished''} then VideoSucceeded
      else if s \<in> {''failed'', ''failure'', ''error'', ''errored'', ''canceled'', ''cancelled''} then VideoFailed
      else VideoRunning)"

definition clamp_video_duration :: "u32 option \<Rightarrow> u32" where
  "clamp_video_duration requested =
     (case requested of
        Some v \<Rightarrow> if 0 < v then min v video_max_duration_secs else video_default_duration_secs
      | None \<Rightarrow> video_default_duration_secs)"

record video_provider =
  vp_base_url :: string
  vp_model :: string
  vp_api_key :: string
  vp_auth :: auth_style
  vp_dialect :: video_dialect
  vp_extra :: extras

definition resolve_cloud_video :: "'s node_parts \<Rightarrow> ('s, video_provider) node_act" where
  "resolve_cloud_video p =
     andthen (resolve_capability p VideoGen) (\<lambda>resolved.
       case resolved of
         Generic kind base_url model api_key auth dialect extra \<Rightarrow>
           if kind = CloudVideo then ret \<lparr> vp_base_url = base_url, vp_model = model,
             vp_api_key = api_key, vp_auth = auth, vp_dialect = dialect, vp_extra = extra \<rparr>
           else throw (bad_request_node ''configured video provider is not a cloud_video provider'')
       | NotConfigured _ reason \<Rightarrow>
           throw (bad_request_node (''video provider is not configured: '' @ reason))
       | OpenAiImage _ \<Rightarrow> throw (bad_request_node ''video provider is not configured''))"

definition spec_request :: "crates \<Rightarrow> http_spec \<Rightarrow> http_request" where
  "spec_request x spec =
     (let r = fold (\<lambda>(name, v). with_header name v) (sp_headers spec)
            (request_to (case sp_method spec of Get \<Rightarrow> ''GET'' | Post \<Rightarrow> ''POST'') (sp_url spec)) in
      case sp_body spec of Some b \<Rightarrow> with_json x b r | None \<Rightarrow> r)"

definition execute_video_spec :: "'s node_parts \<Rightarrow> http_spec \<Rightarrow> string \<Rightarrow> ('s, json) node_act" where
  "execute_video_spec p spec phase =
     andthen (call_provider p (''video '' @ phase @ '' request failed'') (''video '' @ phase @ '' failed'')
       (spec_request (np_crates p) spec))
       (read_json p (''invalid video '' @ phase @ '' response'') Some)"

section \<open>Creating and polling\<close>

definition video_create_to_json :: "string \<Rightarrow> string \<Rightarrow> string \<Rightarrow> string option \<Rightarrow> u32 \<Rightarrow> json" where
  "video_create_to_json model prompt first_url last_url duration = JObject
     ([(''model'', JString model), (''prompt'', JString prompt),
       (''first_frame'', JObject [(''url'', JString first_url)])]
      @ (case last_url of None \<Rightarrow> [] | Some u \<Rightarrow> [(''last_frame'', JObject [(''url'', JString u)])])
      @ [(''duration_seconds'', JInt (uint duration))])"

text \<open>\<open>VideoCreateResponse\<close> with its \<open>provider_job_id\<close>.\<close>

definition video_create_response_of_json :: "string option de" where
  "video_create_response_of_json j =
     Option.bind (field_opt ''id'' de_string j) (\<lambda>i.
     Option.bind (field_opt ''job_id'' de_string j) (\<lambda>job.
       Some (Option.bind (or_else i job) filled_trim)))"

record video_status_response =
  vs_status :: "string option"
  vs_video_url :: "string option"
  vs_url :: "string option"
  vs_output_url :: "string option"
  vs_error :: "string option"

definition video_status_response_of_json :: "video_status_response de" where
  "video_status_response_of_json j =
     Option.bind (field_opt ''status'' de_string j) (\<lambda>st.
     Option.bind (field_opt ''video_url'' de_string j) (\<lambda>v.
     Option.bind (field_opt ''url'' de_string j) (\<lambda>u.
     Option.bind (field_opt ''output_url'' de_string j) (\<lambda>o'.
     Option.bind (field_opt ''error'' de_string j) (\<lambda>e.
       Some \<lparr> vs_status = st, vs_video_url = v, vs_url = u, vs_output_url = o', vs_error = e \<rparr>)))))"

definition hosted_url :: "video_status_response \<Rightarrow> string option" where
  "hosted_url r = Option.bind (or_else (vs_video_url r) (or_else (vs_output_url r) (vs_url r))) filled_trim"

definition video_create_job ::
  "'s node_parts \<Rightarrow> string \<Rightarrow> string \<Rightarrow> string option \<Rightarrow> u32 \<Rightarrow> ('s, string) node_act" where
  "video_create_job p prompt first_url last_url duration =
     andthen (resolve_cloud_video p) (\<lambda>v.
       if vp_dialect v = OpenAiCompat then
         andthen (call_provider p ''video create request failed'' ''video create failed''
           (apply_auth (np_crates p) (vp_auth v) (vp_api_key v)
             (with_json (np_crates p) (video_create_to_json (vp_model v) prompt first_url last_url duration)
               (request_to ''POST'' (endpoint_for CloudVideo (vp_base_url v)))))) (\<lambda>b.
         andthen (read_json p ''invalid video create response'' video_create_response_of_json b) (\<lambda>job.
           lift (ok_or (bad_gateway_node ''video create returned no job id'') job)))
       else
         andthen utc_now (\<lambda>now.
         andthen (execute_video_spec p (build_create (np_crates p) (vp_dialect v)
             \<lparr> ci_base_url = vp_base_url v, ci_model = vp_model v, ci_api_key = vp_api_key v,
               ci_prompt = prompt, ci_first_frame_url = first_url, ci_last_frame_url = last_url,
               ci_duration_seconds = duration, ci_extra = vp_extra v \<rparr> (timestamp now)) ''create'') (\<lambda>payload.
           lift (map_err (\<lambda>m. bad_gateway_node (''video create: '' @ m)) (parse_create (vp_dialect v) payload)))))"

definition video_poll_status ::
  "'s node_parts \<Rightarrow> string \<Rightarrow> ('s, video_status \<times> string option \<times> string option) node_act" where
  "video_poll_status p job =
     andthen (resolve_cloud_video p) (\<lambda>v.
       if vp_dialect v = OpenAiCompat then
         andthen (call_provider p ''video poll request failed'' ''video poll failed''
           (apply_auth (np_crates p) (vp_auth v) (vp_api_key v)
             (request_to ''GET'' (endpoint_for CloudVideo (vp_base_url v) @ ''/'' @ job)))) (\<lambda>b.
         andthen (read_json p ''invalid video status response'' video_status_response_of_json b) (\<lambda>r.
           ret (case vs_status r of
                  Some st \<Rightarrow> map_video_status st
                | None \<Rightarrow> if hosted_url r \<noteq> None then VideoSucceeded else VideoRunning,
                hosted_url r, vs_error r)))
       else
         andthen utc_now (\<lambda>now.
         let i = \<lparr> pi_base_url = vp_base_url v, pi_api_key = vp_api_key v, pi_provider_job_id = job,
               pi_extra = vp_extra v \<rparr> in
         andthen (execute_video_spec p (build_poll (np_crates p) (vp_dialect v) i (timestamp now)) ''poll'') (\<lambda>payload.
           case parse_poll (vp_dialect v) payload i of
             PollStatus st url err \<Rightarrow> ret (st, url, err)
           | NeedsFetch fetch \<Rightarrow>
               andthen (execute_video_spec p fetch ''file retrieve'') (\<lambda>file_payload.
                 ret (VideoSucceeded, parse_minimax_file_retrieve file_payload, None)))))"

section \<open>The poller\<close>

definition change_job :: "uuid \<Rightarrow> (video_job \<Rightarrow> video_job) \<Rightarrow> ('s node, 'e, unit) act" where
  "change_job i f = modify (\<lambda>s. s\<lparr>nd_video_jobs := map (\<lambda>(j, v). (j, if j = i then f v else v)) (nd_video_jobs s)\<rparr>)"

definition job_known :: "uuid \<Rightarrow> ('s node, 'e, bool) act" where
  "job_known i = gets (\<lambda>s. map_of (nd_video_jobs s) i \<noteq> None)"

text \<open>What one attempt writes: the status and, with it, the video or the failure of the provider; an
  error of the attempt itself only leaves its text.\<close>

definition polled :: "video_status \<Rightarrow> string option \<Rightarrow> string option \<Rightarrow> string \<Rightarrow> video_job \<Rightarrow> video_job" where
  "polled st url err now v =
     v\<lparr> vj_status := st, vj_updated_at := now,
        vj_video_url := (case url of Some u \<Rightarrow> Some u | None \<Rightarrow> vj_video_url v),
        vj_error := (if st = VideoFailed then Some (unwrap_or err ''provider reported failure'') else vj_error v) \<rparr>"

definition poll_failed :: "string \<Rightarrow> string \<Rightarrow> video_job \<Rightarrow> video_job" where
  "poll_failed message now v = v\<lparr> vj_error := Some message, vj_updated_at := now \<rparr>"

definition timed_out :: "string \<Rightarrow> video_job \<Rightarrow> video_job" where
  "timed_out now v =
     v\<lparr> vj_status := VideoFailed, vj_error := Some ''timed out waiting for the video provider'',
        vj_updated_at := now \<rparr>"

text \<open>One attempt; whether the poller returns after it.\<close>

definition poll_attempt :: "'s node_parts \<Rightarrow> uuid \<Rightarrow> string \<Rightarrow> ('s node, 'e, bool) act" where
  "poll_attempt p i job =
     andthen (job_known i) (\<lambda>known.
       if \<not> known then ret True
       else match_res (video_poll_status p job)
         (\<lambda>(st, url, err).
            andthen (job_known i) (\<lambda>still.
              if \<not> still then ret True
              else andthen utc_now (\<lambda>now.
                andthen (change_job i (polled st url err (x_to_rfc3339 (np_crates p) now)))
                  (\<lambda>_. ret (video_is_terminal st)))))
         (\<lambda>e. andthen (job_known i) (\<lambda>still.
              if \<not> still then ret False
              else andthen utc_now (\<lambda>now.
                andthen (change_job i (poll_failed (ne_message e) (x_to_rfc3339 (np_crates p) now)))
                  (\<lambda>_. ret False)))))"

definition poll_deadline :: "'s node_parts \<Rightarrow> uuid \<Rightarrow> ('s node, 'e, unit) act" where
  "poll_deadline p i =
     andthen (gets (\<lambda>s. map_of (nd_video_jobs s) i)) (\<lambda>found.
       case found of
         None \<Rightarrow> ret ()
       | Some v \<Rightarrow>
           if video_is_terminal (vj_status v) then ret ()
           else andthen utc_now (\<lambda>now. change_job i (timed_out (x_to_rfc3339 (np_crates p) now))))"

definition drop_poller :: "nat \<Rightarrow> ('s node, 'e, unit) act" where
  "drop_poller k = modify (\<lambda>s. s\<lparr>nd_pollers := filter (\<lambda>(j, _). j \<noteq> k) (nd_pollers s)\<rparr>)"

definition set_attempts :: "nat \<Rightarrow> nat \<Rightarrow> ('s node, 'e, unit) act" where
  "set_attempts k n = modify (\<lambda>s. s\<lparr>nd_pollers :=
     map (\<lambda>(j, i, job, m). (j, i, job, if j = k then n else m)) (nd_pollers s)\<rparr>)"

definition poller_tick :: "'s node_parts \<Rightarrow> nat \<Rightarrow> ('s node, 'e, unit) act" where
  "poller_tick p k =
     andthen (gets (\<lambda>s. map_of (nd_pollers s) k)) (\<lambda>found.
       case found of
         None \<Rightarrow> ret ()
       | Some (i, job, n) \<Rightarrow>
           andthen (poll_attempt p i job) (\<lambda>finished.
             if finished then drop_poller k
             else if n \<le> 1 then andthen (poll_deadline p i) (\<lambda>_. drop_poller k)
             else set_attempts k (n - 1)))"

definition spawn_video_poller :: "uuid \<Rightarrow> string \<Rightarrow> ('s node, 'e, unit) act" where
  "spawn_video_poller i job = modify (\<lambda>s. s\<lparr>nd_pollers :=
     nd_pollers s @ [(nd_spawned s, i, job, video_poll_max_attempts)], nd_spawned := Suc (nd_spawned s)\<rparr>)"

section \<open>The handlers\<close>

record video_create_input =
  vc_first_frame_url :: string
  vc_last_frame_url :: "string option"
  vc_prompt :: "string option"
  vc_duration_seconds :: "u32 option"

definition video_create :: "'s node_parts \<Rightarrow> headers \<Rightarrow> video_create_input \<Rightarrow> ('s, video_job) node_act" where
  "video_create p h input =
     andthen (lift (require_bridge_or_operator_token (np_config p) h)) (\<lambda>_.
     andthen (require_valid_lease_with_feature p OzonRead) (\<lambda>_.
     let first_url = trim (vc_first_frame_url input) in
     andthen (lift (ensure (first_url \<noteq> []) (bad_request_node ''first_frame_url is required''))) (\<lambda>_.
     let last_url = Option.bind (vc_last_frame_url input) filled_trim;
         prompt = unwrap_or (Option.bind (vc_prompt input) filled_trim) [];
         duration = clamp_video_duration (vc_duration_seconds input) in
     andthen (video_create_job p prompt first_url last_url duration) (\<lambda>job.
     andthen utc_now (\<lambda>t.
     andthen new_v4 (\<lambda>i.
     let now = x_to_rfc3339 (np_crates p) t;
         v = \<lparr> vj_id = i, vj_status = VideoQueued, vj_provider_job_id = Some job, vj_video_url = None,
           vj_error = None, vj_created_at = now, vj_updated_at = now, vj_first_frame_url = first_url,
           vj_last_frame_url = last_url, vj_prompt = prompt, vj_duration_seconds = unat duration \<rparr> in
     andthen (modify (\<lambda>s. s\<lparr>nd_video_jobs := AList.update i v (nd_video_jobs s)\<rparr>)) (\<lambda>_.
     andthen (spawn_video_poller i job) (\<lambda>_. ret v))))))))"

definition video_get :: "'s node_parts \<Rightarrow> headers \<Rightarrow> uuid \<Rightarrow> ('s, video_job) node_act" where
  "video_get p h i =
     andthen (lift (require_bridge_or_operator_token (np_config p) h)) (\<lambda>_.
     andthen (require_valid_lease_with_feature p OzonRead) (\<lambda>_.
     andthen (gets (\<lambda>s. map_of (nd_video_jobs s) i)) (\<lambda>found.
       lift (ok_or (not_found_node ''video job not found'') found))))"

end
