(* ===== verification/PosterText.thy ===== *)
theory PosterText
  imports NodeCopy
begin

text \<open>
  The texts of the posters (\<open>apps/local-node/src/main.rs\<close>), in Chinese for the locale
  \<open>zh-CN\<close> and in English for any other; Chinese is given by its UTF-8 bytes. A format
  string is the list of its pieces.
\<close>

fun fill :: "string list \<Rightarrow> string list \<Rightarrow> string" where
  "fill [] as = []"
| "fill (q # qs) [] = q @ fill qs []"
| "fill (q # qs) (a # as) = q @ a @ fill qs as"

definition zh_selling_points :: "string list" where
  "zh_selling_points =
     [utf8
       [229, 149, 134, 229, 147, 129, 229, 155, 190, 230, 157, 165, 232, 135, 170, 229, 189, 147,
        229, 137, 141, 32, 79, 122, 111, 110, 32, 229, 186, 151, 233, 147, 186],
      utf8
       [228, 191, 157, 231, 149, 153, 229, 140, 133, 232, 163, 133, 227, 128, 129, 233, 162, 156,
        232, 137, 178, 229, 146, 140, 230, 160, 135, 231, 173, 190, 231, 187, 134, 232, 138, 130],
      utf8
       [233, 128, 130, 229, 144, 136, 229, 133, 136, 229, 129, 154, 233, 166, 150, 229, 155, 190,
        229, 146, 140, 230, 180, 187, 229, 138, 168, 230, 181, 183, 230, 138, 165]]"

definition en_selling_points :: "string list" where
  "en_selling_points =
     [''Product images come from the current Ozon shop'',
      ''Preserve packaging, color, and label details'',
      ''Suitable for hero images and campaign posters'']"

definition zh_subheadline_image :: string where
  "zh_subheadline_image =
     utf8
     [231, 148, 168, 231, 156, 159, 229, 174, 158, 229, 149, 134, 229, 147, 129, 229, 155, 190,
      230, 137, 147, 229, 186, 149, 239, 188, 140, 232, 131, 140, 230, 153, 175, 229, 143, 170,
      232, 180, 159, 232, 180, 163, 230, 138, 138, 232, 180, 168, 230, 132, 159, 229, 146, 140,
      229, 156, 186, 230, 153, 175, 230, 132, 159, 232, 161, 165, 228, 184, 138, 227, 128, 130]"

definition zh_subheadline_no_image :: string where
  "zh_subheadline_no_image =
     utf8
     [232, 191, 153, 228, 187, 182, 229, 149, 134, 229, 147, 129, 232, 191, 152, 230, 178, 161,
      229, 184, 166, 228, 184, 187, 229, 155, 190, 239, 188, 140, 229, 133, 136, 232, 161, 165,
      229, 155, 190, 229, 134, 141, 229, 135, 186, 230, 181, 183, 230, 138, 165, 228, 188, 154,
      230, 155, 180, 231, 168, 179, 227, 128, 130]"

definition en_subheadline_image :: string where
  "en_subheadline_image =
     ''Start from the real product image; use the background only to add texture and scene ''
     @ ''depth.''"

definition en_subheadline_no_image :: string where
  "en_subheadline_no_image =
     ''This product has no main image yet. Add a clear product image before poster ''
     @ ''generation.''"

definition zh_compliance_real :: string where
  "zh_compliance_real =
     utf8
     [228, 184, 141, 230, 148, 185, 229, 149, 134, 229, 147, 129, 229, 164, 150, 232, 167, 130,
      239, 188, 155, 230, 150, 135, 230, 161, 136, 229, 146, 140, 229, 155, 190, 231, 137, 135,
      230, 140, 137, 32, 79, 122, 111, 110, 32, 229, 174, 158, 230, 151, 182, 230, 149, 176, 230,
      141, 174, 230, 160, 161, 233, 170, 140, 227, 128, 130]"

definition zh_compliance_mock :: string where
  "zh_compliance_mock =
     utf8
     [229, 189, 147, 229, 137, 141, 230, 152, 175, 230, 156, 172, 229, 156, 176, 32, 109, 111,
      99, 107, 32, 230, 168, 161, 229, 188, 143, 239, 188, 140, 230, 173, 163, 229, 188, 143,
      229, 135, 186, 229, 155, 190, 229, 137, 141, 232, 175, 183, 229, 136, 135, 229, 136, 176,
      231, 156, 159, 229, 174, 158, 32, 79, 122, 111, 110, 32, 65, 80, 73, 32, 229, 134, 141,
      230, 160, 161, 233, 170, 140, 228, 184, 128, 230, 172, 161, 227, 128, 130]"

definition en_compliance_real :: string where
  "en_compliance_real =
     ''Do not alter the product appearance; copy and images are checked against live Ozon ''
     @ ''data.''"

definition en_compliance_mock :: string where
  "en_compliance_mock =
     ''This is local mock mode. Switch to the real Ozon API and verify again before ''
     @ ''production poster work.''"

definition zh_cta :: string where
  "zh_cta =
     utf8
     [229, 133, 136, 229, 135, 186, 228, 184, 128, 231, 137, 136, 232, 131, 189, 231, 187, 153,
      232, 191, 144, 232, 144, 165, 231, 156, 139, 231, 154, 132, 230, 181, 183, 230, 138, 165,
      239, 188, 140, 229, 134, 141, 229, 190, 174, 232, 176, 131, 230, 160, 135, 233, 162, 152,
      229, 146, 140, 229, 141, 150, 231, 130, 185]"

definition en_cta :: string where
  "en_cta =
     ''Lock the hero image, then tune the selling points in one pass.''"

definition stage_with_image :: string where
  "stage_with_image =
     ''Reserve a clean stage in the lower-right area for compositing the real product ''
     @ ''cutout.''"

definition stage_without_image :: string where
  "stage_without_image =
     ''Leave the center clean for a product to be placed later.''"

definition background_parts :: "string list" where
  "background_parts =
     [''Create a premium e-commerce poster background only, with no product, no packaging, ''
       @ ''no text, no logo, and no watermark. Theme: '',
      ''. Mood: confident, commercial, polished. Use light, shadow, reflections, and ''
       @ ''spatial depth to support a seller campaign poster. '',
      '' Palette should feel modern and readable behind '',
      '' text overlays. Keep the composition suitable for a 4:5 portrait poster.'']"

definition zh_primary_note :: string where
  "zh_primary_note =
     utf8
     [228, 184, 187, 229, 155, 190, 239, 188, 140, 228, 188, 152, 229, 133, 136, 228, 189, 156,
      228, 184, 186, 229, 149, 134, 229, 147, 129, 229, 164, 150, 232, 167, 130, 229, 143, 130,
      232, 128, 131]"

definition en_primary_note :: string where
  "en_primary_note =
     ''Primary image; use it as the first product appearance reference''"

definition zh_position_note :: string where
  "zh_position_note =
     utf8
     [79, 122, 111, 110, 32, 229, 155, 190, 231, 137, 135, 229, 186, 143, 229, 143, 183, 32]"

definition en_position_note :: string where
  "en_position_note =
     ''Ozon image position ''"

definition zh_unnamed :: string where
  "zh_unnamed =
     utf8
     [230, 156, 170, 229, 145, 189, 229, 144, 141, 229, 149, 134, 229, 147, 129]"

definition zh_no_images :: string where
  "zh_no_images =
     utf8
     [229, 189, 147, 229, 137, 141, 229, 149, 134, 229, 147, 129, 230, 178, 161, 230, 156, 137,
      229, 143, 175, 231, 148, 168, 229, 155, 190, 231, 137, 135, 32, 85, 82, 76, 227, 128, 130,
      229, 133, 136, 230, 143, 144, 233, 134, 146, 232, 191, 144, 232, 144, 165, 232, 161, 165,
      229, 133, 133, 229, 149, 134, 229, 147, 129, 229, 155, 190, 239, 188, 140, 228, 184, 141,
      232, 166, 129, 229, 135, 173, 231, 169, 186, 231, 148, 159, 230, 136, 144, 229, 149, 134,
      229, 147, 129, 229, 164, 150, 232, 167, 130, 227, 128, 130]"

definition en_no_images :: string where
  "en_no_images =
     ''This product has no available image URL. Ask the operator to add product images ''
     @ ''before generating appearance.''"

definition zh_no_sku :: string where
  "zh_no_sku =
     utf8
     [230, 151, 160]"

definition zh_archived :: string where
  "zh_archived =
     utf8
     [229, 183, 178, 229, 189, 146, 230, 161, 163]"

definition zh_not_archived :: string where
  "zh_not_archived =
     utf8
     [230, 156, 170, 229, 189, 146, 230, 161, 163]"

definition zh_unknown :: string where
  "zh_unknown =
     utf8
     [230, 156, 170, 231, 159, 165]"

definition zh_prompt_parts :: "string list" where
  "zh_prompt_parts =
     [utf8
       [228, 189, 160, 231, 142, 176, 229, 156, 168, 230, 142, 165, 230, 137, 139, 228, 184, 128,
        228, 184, 170, 32, 79, 122, 111, 110, 32, 229, 149, 134, 229, 147, 129, 230, 181, 183, 230,
        138, 165, 228, 187, 187, 229, 138, 161, 227, 128, 130, 232, 175, 183, 228, 189, 191, 231,
        148, 168, 228, 189, 160, 229, 189, 147, 229, 137, 141, 231, 153, 187, 229, 189, 149, 231,
        154, 132, 32, 79, 112, 101, 110, 67, 108, 97, 119, 47, 67, 111, 100, 101, 120, 32, 229,
        155, 190, 231, 137, 135, 232, 131, 189, 229, 138, 155, 229, 174, 140, 230, 136, 144, 239,
        188, 140, 228, 184, 141, 232, 166, 129, 232, 166, 129, 230, 177, 130, 231, 148, 168, 230,
        136, 183, 233, 162, 157, 229, 164, 150, 230, 143, 144, 228, 190, 155, 32, 79, 112, 101,
        110, 65, 73, 32, 65, 80, 73, 32, 75, 101, 121, 227, 128, 130, 10, 10, 229, 149, 134, 229,
        147, 129, 228, 186, 139, 229, 174, 158, 239, 188, 154, 10, 45, 32, 229, 149, 134, 229, 147,
        129, 229, 144, 141, 239, 188, 154],
      utf8
       [10, 45, 32, 111, 102, 102, 101, 114, 95, 105, 100, 239, 188, 154],
      utf8
       [10, 45, 32, 112, 114, 111, 100, 117, 99, 116, 95, 105, 100, 239, 188, 154],
      utf8
       [10, 45, 32, 115, 107, 117, 239, 188, 154],
      utf8
       [10, 45, 32, 229, 189, 146, 230, 161, 163, 231, 138, 182, 230, 128, 129, 239, 188, 154],
      utf8
       [10, 10, 229, 149, 134, 229, 147, 129, 229, 155, 190, 231, 137, 135, 32, 85, 82, 76, 239,
        188, 154, 10],
      utf8
       [10, 10, 230, 181, 183, 230, 138, 165, 230, 150, 135, 230, 161, 136, 232, 141, 137, 231,
        168, 191, 239, 188, 154, 10, 230, 160, 135, 233, 162, 152, 239, 188, 154],
      utf8
       [10, 229, 137, 175, 230, 160, 135, 233, 162, 152, 239, 188, 154],
      utf8
       [10, 229, 141, 150, 231, 130, 185, 239, 188, 154, 10],
      utf8
       [10, 230, 148, 182, 229, 176, 190, 229, 143, 165, 239, 188, 154],
      utf8
       [10, 230, 160, 161, 233, 170, 140, 232, 175, 180, 230, 152, 142, 239, 188, 154],
      utf8
       [10, 10, 232, 174, 190, 232, 174, 161, 232, 166, 129, 230, 177, 130, 239, 188, 154, 10, 49,
        46, 32, 232, 190, 147, 229, 135, 186, 32, 52, 58, 53, 32, 231, 171, 150, 231, 137, 136,
        231, 148, 181, 229, 149, 134, 229, 174, 163, 228, 188, 160, 230, 181, 183, 230, 138, 165,
        239, 188, 140, 233, 128, 130, 229, 144, 136, 32, 79, 122, 111, 110, 32, 229, 186, 151, 233,
        147, 186, 232, 191, 144, 232, 144, 165, 229, 133, 136, 231, 156, 139, 231, 172, 172, 228,
        184, 128, 231, 137, 136, 227, 128, 130, 10, 50, 46, 32, 229, 149, 134, 229, 147, 129, 229,
        164, 150, 232, 167, 130, 229, 191, 133, 233, 161, 187, 228, 187, 165, 230, 143, 144, 228,
        190, 155, 231, 154, 132, 229, 155, 190, 231, 137, 135, 228, 184, 186, 229, 135, 134, 239,
        188, 140, 228, 191, 157, 231, 149, 153, 229, 140, 133, 232, 163, 133, 227, 128, 129, 233,
        162, 156, 232, 137, 178, 227, 128, 129, 230, 160, 135, 231, 173, 190, 227, 128, 129, 230,
        175, 148, 228, 190, 139, 229, 146, 140, 229, 143, 175, 232, 167, 129, 230, 150, 135, 229,
        173, 151, 239, 188, 140, 228, 184, 141, 232, 166, 129, 230, 138, 138, 229, 149, 134, 229,
        147, 129, 230, 148, 185, 230, 136, 144, 229, 133, 182, 228, 187, 150, 230, 172, 190, 229,
        188, 143, 227, 128, 130, 10, 51, 46, 32, 229, 143, 175, 228, 187, 165, 232, 161, 165, 232,
        131, 140, 230, 153, 175, 227, 128, 129, 231, 129, 175, 229, 133, 137, 227, 128, 129, 233,
        153, 136, 229, 136, 151, 229, 146, 140, 230, 176, 155, 229, 155, 180, 239, 188, 140, 228,
        189, 134, 228, 184, 141, 232, 166, 129, 231, 148, 159, 230, 136, 144, 228, 184, 141, 229,
        173, 152, 229, 156, 168, 231, 154, 132, 32, 76, 111, 103, 111, 227, 128, 129, 232, 174,
        164, 232, 175, 129, 227, 128, 129, 230, 138, 152, 230, 137, 163, 227, 128, 129, 229, 138,
        159, 230, 149, 136, 230, 136, 150, 229, 147, 129, 231, 137, 140, 229, 144, 136, 228, 189,
        156, 227, 128, 130, 10, 52, 46, 32, 230, 181, 183, 230, 138, 165, 228, 184, 138, 229, 143,
        170, 230, 148, 190, 228, 184, 138, 233, 157, 162, 231, 187, 153, 229, 135, 186, 231, 154,
        132, 230, 160, 135, 233, 162, 152, 227, 128, 129, 229, 141, 150, 231, 130, 185, 229, 146,
        140, 230, 148, 182, 229, 176, 190, 229, 143, 165, 239, 188, 155, 228, 184, 173, 230, 150,
        135, 228, 184, 141, 232, 166, 129, 229, 134, 153, 233, 148, 153, 229, 173, 151, 239, 188,
        140, 228, 191, 132, 230, 150, 135, 47, 232, 139, 177, 230, 150, 135, 229, 149, 134, 229,
        147, 129, 229, 144, 141, 228, 184, 141, 232, 166, 129, 230, 147, 133, 232, 135, 170, 231,
        191, 187, 232, 175, 145, 230, 136, 144, 229, 143, 166, 228, 184, 128, 228, 184, 170, 230,
        132, 143, 230, 128, 157, 227, 128, 130, 10, 53, 46, 32, 229, 174, 140, 230, 136, 144, 229,
        144, 142, 232, 175, 183, 233, 161, 186, 230, 137, 139, 229, 136, 151, 229, 135, 186, 32,
        51, 32, 230, 157, 161, 232, 135, 170, 230, 163, 128, 239, 188, 154, 229, 149, 134, 229,
        147, 129, 230, 152, 175, 229, 144, 166, 228, 184, 128, 232, 135, 180, 227, 128, 129, 230,
        150, 135, 230, 161, 136, 230, 152, 175, 229, 144, 166, 232, 182, 138, 231, 149, 140, 227,
        128, 129, 229, 155, 190, 231, 137, 135, 230, 152, 175, 229, 144, 166, 230, 156, 137, 233,
        148, 153, 229, 173, 151, 227, 128, 130, 10, 10, 232, 131, 140, 230, 153, 175, 230, 150,
        185, 229, 144, 145, 239, 188, 154],
      []]"

definition en_prompt_parts :: "string list" where
  "en_prompt_parts =
     [''You are taking over an Ozon product poster task. Use the currently signed-in ''
       @ ''OpenClaw/Codex image capability; do not ask the user for an additional OpenAI API ''
       @ ''key.''
       @ nl
       @ nl
       @ ''Product facts:''
       @ nl
       @ ''- Product name: '',
      nl
       @ ''- offer_id: '',
      nl
       @ ''- product_id: '',
      nl
       @ ''- sku: '',
      nl
       @ ''- Archive status: '',
      nl
       @ nl
       @ ''Product image URLs:''
       @ nl,
      nl
       @ nl
       @ ''Poster copy draft:''
       @ nl
       @ ''Headline: '',
      nl
       @ ''Subheadline: '',
      nl
       @ ''Selling points:''
       @ nl,
      nl
       @ ''Closing line: '',
      nl
       @ ''Verification note: '',
      nl
       @ nl
       @ ''Design requirements:''
       @ nl
       @ ''1. Produce a finished 4:5 portrait e-commerce poster suitable for an Ozon shop ''
       @ ''operator to review as a first draft.''
       @ nl
       @ ''2. Product appearance must follow the supplied images. Preserve packaging, color, ''
       @ ''labels, proportions, and visible text. Do not turn it into another product variant.''
       @ nl
       @ ''3. You may add background, lighting, display setting, and mood, but do not invent ''
       @ ''logos, certifications, discounts, benefits, or brand partnerships.''
       @ nl
       @ ''4. Put only the headline, selling points, and closing line above on the poster. Do ''
       @ ''not mistranslate Russian or English product names into a different meaning.''
       @ nl
       @ ''5. After generation, list 3 self-checks: product consistency, copy overclaiming, ''
       @ ''and text/image errors.''
       @ nl
       @ nl
       @ ''Background direction: '',
      []]"

definition zh_instructions :: "string list" where
  "zh_instructions =
     [utf8
       [228, 188, 152, 229, 133, 136, 228, 189, 191, 231, 148, 168, 231, 148, 168, 230, 136, 183,
        229, 183, 178, 231, 153, 187, 229, 189, 149, 231, 154, 132, 32, 79, 112, 101, 110, 67, 108,
        97, 119, 47, 67, 111, 100, 101, 120, 32, 229, 155, 190, 231, 137, 135, 232, 131, 189, 229,
        138, 155, 239, 188, 155, 232, 191, 153, 230, 157, 161, 232, 183, 175, 229, 190, 132, 228,
        184, 141, 232, 166, 129, 230, 177, 130, 32, 79, 122, 111, 110, 32, 76, 111, 99, 97, 108,
        32, 228, 191, 157, 229, 173, 152, 32, 79, 112, 101, 110, 65, 73, 32, 65, 80, 73, 32, 75,
        101, 121, 227, 128, 130],
      utf8
       [228, 189, 191, 231, 148, 168, 230, 143, 144, 228, 190, 155, 231, 154, 132, 32, 79, 122,
        111, 110, 32, 229, 155, 190, 231, 137, 135, 32, 85, 82, 76, 32, 228, 189, 156, 228, 184,
        186, 229, 149, 134, 229, 147, 129, 229, 143, 130, 232, 128, 131, 239, 188, 140, 228, 191,
        157, 231, 149, 153, 229, 140, 133, 232, 163, 133, 227, 128, 129, 233, 162, 156, 232, 137,
        178, 227, 128, 129, 230, 160, 135, 231, 173, 190, 227, 128, 129, 230, 175, 148, 228, 190,
        139, 229, 146, 140, 229, 143, 175, 232, 167, 129, 230, 150, 135, 229, 173, 151, 227, 128,
        130],
      utf8
       [231, 148, 159, 230, 136, 144, 32, 52, 58, 53, 32, 231, 171, 150, 231, 137, 136, 231, 148,
        181, 229, 149, 134, 230, 181, 183, 230, 138, 165, 239, 188, 155, 228, 184, 141, 232, 166,
        129, 231, 188, 150, 233, 128, 160, 230, 157, 165, 230, 186, 144, 228, 186, 139, 229, 174,
        158, 233, 135, 140, 230, 178, 161, 230, 156, 137, 231, 154, 132, 232, 174, 164, 232, 175,
        129, 227, 128, 129, 230, 138, 152, 230, 137, 163, 227, 128, 129, 229, 147, 129, 231, 137,
        140, 229, 144, 136, 228, 189, 156, 230, 136, 150, 228, 186, 167, 229, 147, 129, 229, 138,
        159, 232, 131, 189, 227, 128, 130],
      utf8
       [229, 166, 130, 230, 158, 156, 229, 149, 134, 229, 147, 129, 228, 191, 161, 230, 129, 175,
        228, 184, 141, 230, 152, 142, 231, 161, 174, 239, 188, 140, 230, 150, 135, 230, 161, 136,
        228, 191, 157, 230, 140, 129, 228, 191, 157, 229, 174, 136, 239, 188, 140, 229, 185, 182,
        229, 156, 168, 229, 138, 160, 229, 188, 186, 229, 141, 150, 231, 130, 185, 229, 137, 141,
        229, 133, 136, 232, 175, 162, 233, 151, 174, 230, 147, 141, 228, 189, 156, 229, 145, 152,
        227, 128, 130]]"

definition en_instructions :: "string list" where
  "en_instructions =
     [''Prefer the user'' @ utf8 [39] @ ''s signed-in OpenClaw/Codex image capability; this path does not ''
       @ ''require Ozon Local to save an OpenAI API key.'',
      ''Use the supplied Ozon image URLs as product references and preserve packaging, ''
       @ ''color, labels, proportions, and visible text.'',
      ''Generate a finished 4:5 marketplace poster; do not invent certifications, ''
       @ ''discounts, brand partnerships, or product functions that are not present in the ''
       @ ''source facts.'',
      ''If any product detail is ambiguous, keep the claim conservative and ask the ''
       @ ''operator before strengthening copy.'']"

definition zh_verify_ok :: "string list" where
  "zh_verify_ok =
     [utf8
       [230, 160, 161, 233, 170, 140, 233, 128, 154, 232, 191, 135, 239, 188, 154, 229, 189, 147,
        229, 137, 141, 230, 150, 135, 230, 161, 136, 228, 184, 142, 231, 179, 187, 231, 187, 159,
        231, 148, 159, 230, 136, 144, 231, 168, 191, 228, 184, 128, 232, 135, 180, 227, 128, 130],
      utf8
       [229, 149, 134, 229, 147, 129, 228, 184, 187, 228, 189, 147, 229, 186, 148, 231, 187, 167,
        231, 187, 173, 228, 189, 191, 231, 148, 168, 231, 156, 159, 229, 174, 158, 228, 184, 187,
        229, 155, 190, 229, 144, 136, 230, 136, 144, 239, 188, 140, 233, 129, 191, 229, 133, 141,
        232, 174, 169, 229, 155, 190, 231, 137, 135, 230, 168, 161, 229, 158, 139, 233, 135, 141,
        231, 148, 187, 229, 140, 133, 232, 163, 133, 229, 146, 140, 230, 150, 135, 229, 173, 151,
        227, 128, 130]]"

definition zh_verify_failed :: "string list" where
  "zh_verify_failed =
     [utf8
       [229, 189, 147, 229, 137, 141, 230, 150, 135, 230, 161, 136, 229, 146, 140, 231, 179, 187,
        231, 187, 159, 231, 148, 159, 230, 136, 144, 231, 168, 191, 228, 184, 141, 228, 184, 128,
        232, 135, 180, 239, 188, 140, 229, 187, 186, 232, 174, 174, 229, 155, 158, 229, 136, 176,
        229, 149, 134, 229, 147, 129, 229, 177, 158, 230, 128, 167, 229, 134, 141, 231, 161, 174,
        232, 174, 164, 230, 148, 185, 229, 134, 153, 230, 152, 175, 229, 144, 166, 229, 174, 137,
        229, 133, 168, 227, 128, 130],
      utf8
       [232, 191, 153, 228, 184, 128, 230, 173, 165, 229, 143, 170, 229, 129, 154, 233, 128, 144,
        229, 173, 151, 230, 174, 181, 230, 175, 148, 229, 175, 185, 239, 188, 140, 228, 184, 141,
        228, 188, 154, 229, 184, 174, 228, 189, 160, 231, 140, 156, 230, 181, 139, 229, 147, 170,
        228, 186, 155, 232, 135, 170, 231, 148, 177, 230, 148, 185, 229, 134, 153, 228, 187, 141,
        231, 132, 182, 229, 174, 137, 229, 133, 168, 227, 128, 130]]"

definition en_verify_ok :: "string list" where
  "en_verify_ok =
     [''Check passed: the current copy matches the system brief.'',
      ''Keep the product body composited from the real main image; do not let the image ''
       @ ''model redraw packaging or text.'']"

definition en_verify_failed :: "string list" where
  "en_verify_failed =
     [''The current copy does not match the system brief. Recheck the product attributes ''
       @ ''before using this rewrite.'',
      ''This check only compares fields. It does not guess whether freeform copy changes ''
       @ ''are still safe.'']"

end
