(* ===== verification/NodePoster.thy ===== *)
theory NodePoster
  imports PosterText NodeTasks
begin

text \<open>
  Posters (\<open>apps/local-node/src/main.rs\<close>): the brief made from the facts of a product, the
  handoff of it to the bridge, the background an image model draws, and the check of a copy
  against the brief.
\<close>

section \<open>The brief\<close>

record poster_brief =
  pb_theme :: string
  pb_headline :: string
  pb_subheadline :: string
  pb_selling_points :: "string list"
  pb_cta_line :: string
  pb_compliance_note :: string
  pb_background_prompt :: string

definition is_zh :: "string \<Rightarrow> bool" where
  "is_zh locale \<longleftrightarrow> locale = ''zh-CN''"

definition default_selling_points :: "string \<Rightarrow> string list" where
  "default_selling_points locale = (if is_zh locale then zh_selling_points else en_selling_points)"

definition poster_subheadline :: "string \<Rightarrow> bool \<Rightarrow> string" where
  "poster_subheadline locale has_image =
     (if is_zh locale then (if has_image then zh_subheadline_image else zh_subheadline_no_image)
      else (if has_image then en_subheadline_image else en_subheadline_no_image))"

definition poster_compliance_note :: "string \<Rightarrow> bool \<Rightarrow> string" where
  "poster_compliance_note locale real_ozon =
     (if is_zh locale then (if real_ozon then zh_compliance_real else zh_compliance_mock)
      else (if real_ozon then en_compliance_real else en_compliance_mock))"

definition poster_overlay_language :: "string \<Rightarrow> string" where
  "poster_overlay_language locale = (if is_zh locale then ''Chinese'' else ''English'')"

definition is_low_value_attribute :: "string \<Rightarrow> bool" where
  "is_low_value_attribute name \<longleftrightarrow>
     to_lowercase (trim name) \<in> {''id'', ''sku'', ''barcode'', ''barcodes'', ''offer id'', ''offer_id''}"

definition attribute_selling_point :: "product_attribute \<Rightarrow> string option" where
  "attribute_selling_point a =
     Option.bind (map_option trim (pa_name a)) (\<lambda>name.
     Option.bind (map_option trim (first_of (pa_values a))) (\<lambda>v.
       if name = [] \<or> v = [] \<or> is_low_value_attribute name then None
       else Some (name @ '': '' @ truncate_text v 22)))"

definition preferred_headline :: "product_detail \<Rightarrow> string" where
  "preferred_headline d =
     (let raw = (case pd_name d of Some n \<Rightarrow> if trim n = [] then pd_offer_id d else n
                 | None \<Rightarrow> pd_offer_id d) in
      truncate_text (trim raw) 28)"

definition normalize_theme :: "string \<Rightarrow> string" where
  "normalize_theme theme =
     (let t = to_lowercase (trim theme) in
      if t = ''spotlight'' then ''spotlight studio''
      else if t = ''launch'' then ''product launch stage''
      else if t = ''lifestyle'' then ''editorial lifestyle display''
      else ''clean studio'')"

definition build_poster_brief :: "local_config \<Rightarrow> product_detail \<Rightarrow> string \<Rightarrow> string \<Rightarrow> poster_brief" where
  "build_poster_brief c d theme locale =
     (let attribute_points = take 3 (List.map_filter attribute_selling_point (pd_attributes d)) in
      \<lparr> pb_theme = normalize_theme theme, pb_headline = preferred_headline d,
        pb_subheadline = poster_subheadline locale (pd_images d \<noteq> []),
        pb_selling_points = (if attribute_points = [] then default_selling_points locale else attribute_points),
        pb_cta_line = (if is_zh locale then zh_cta else en_cta),
        pb_compliance_note = poster_compliance_note locale (lcf_use_real_ozon c),
        pb_background_prompt = fill background_parts [normalize_theme theme,
          if pd_primary_image d \<noteq> None then stage_with_image else stage_without_image,
          poster_overlay_language locale] \<rparr>)"

section \<open>Source images and the prompt\<close>

record poster_source_image =
  psi_role :: string
  psi_url :: string
  psi_note :: string

definition role_label :: "image_role \<Rightarrow> string" where
  "role_label r = (case r of PrimaryImage \<Rightarrow> ''primary'' | GalleryImage \<Rightarrow> ''gallery''
     | ColorImage \<Rightarrow> ''color'' | Spin360 \<Rightarrow> ''spin360'')"

fun add_source_images :: "string \<Rightarrow> product_image list \<Rightarrow> poster_source_image list \<Rightarrow> poster_source_image list" where
  "add_source_images locale [] images = images"
| "add_source_images locale (i # is) images = add_source_images locale is
     (if pi_url i \<in> psi_url ` set images then images
      else images @ [\<lparr> psi_role = role_label (pi_role i), psi_url = pi_url i,
        psi_note = (if is_zh locale then zh_position_note else en_position_note)
          @ show_nat (unat (pi_position i)) \<rparr>])"

definition poster_source_images :: "product_detail \<Rightarrow> string \<Rightarrow> poster_source_image list" where
  "poster_source_images d locale =
     add_source_images locale (take 8 (pd_images d))
       (map (\<lambda>u. \<lparr> psi_role = ''primary'', psi_url = u,
          psi_note = (if is_zh locale then zh_primary_note else en_primary_note) \<rparr>) (option_list (pd_primary_image d)))"

definition archive_label :: "string \<Rightarrow> bool option \<Rightarrow> string" where
  "archive_label locale archived =
     (case archived of
        Some b \<Rightarrow> if is_zh locale then (if b then zh_archived else zh_not_archived)
                  else (if b then ''archived'' else ''not archived'')
      | None \<Rightarrow> if is_zh locale then zh_unknown else ''unknown'')"

definition build_openclaw_poster_prompt ::
  "product_detail \<Rightarrow> poster_brief \<Rightarrow> poster_source_image list \<Rightarrow> string \<Rightarrow> string" where
  "build_openclaw_poster_prompt d b images locale =
     (let product_name = unwrap_or (pd_name d) (if is_zh locale then zh_unnamed else ''Unnamed product'');
          image_lines = (if images = [] then (if is_zh locale then zh_no_images else en_no_images)
            else join nl (map (\<lambda>(i, image). show_nat (i + 1) @ ''. ['' @ psi_role image @ ''] '' @ psi_url image)
              (List.enumerate 0 images)));
          selling_points = join nl (map (\<lambda>q. ''- '' @ q) (filter (\<lambda>q. trim q \<noteq> []) (pb_selling_points b)));
          sku = unwrap_or (pd_sku d) (if is_zh locale then zh_no_sku else ''none'') in
      fill (if is_zh locale then zh_prompt_parts else en_prompt_parts)
        [truncate_text product_name 120, pd_offer_id d, pd_product_id d, sku,
         archive_label locale (pd_archived d), image_lines, pb_headline b, pb_subheadline b,
         selling_points, pb_cta_line b, pb_compliance_note b, pb_background_prompt b])"

definition poster_handoff_instructions :: "string \<Rightarrow> string list" where
  "poster_handoff_instructions locale = (if is_zh locale then zh_instructions else en_instructions)"

definition poster_verify_warnings :: "string \<Rightarrow> bool \<Rightarrow> string list" where
  "poster_verify_warnings locale ok =
     (if is_zh locale then (if ok then zh_verify_ok else zh_verify_failed)
      else (if ok then en_verify_ok else en_verify_failed))"

section \<open>Comparing copies\<close>

record poster_copy =
  pc_headline :: string
  pc_subheadline :: string
  pc_selling_points :: "string list"
  pc_cta_line :: string
  pc_compliance_note :: string

record copy_mismatch =
  cmm_field :: string
  cmm_expected :: string
  cmm_actual :: string

definition normalize_copy :: "crates \<Rightarrow> string \<Rightarrow> string" where
  "normalize_copy x v = x_unicode_lowercase x (concat (split_whitespace v))"

definition push_copy_mismatch :: "crates \<Rightarrow> string \<Rightarrow> string \<Rightarrow> string \<Rightarrow> copy_mismatch list" where
  "push_copy_mismatch x name expected actual =
     (if normalize_copy x expected \<noteq> normalize_copy x actual
      then [\<lparr> cmm_field = name, cmm_expected = expected, cmm_actual = actual \<rparr>] else [])"

definition compare_poster_copy :: "crates \<Rightarrow> poster_copy \<Rightarrow> poster_copy \<Rightarrow> copy_mismatch list" where
  "compare_poster_copy x expected actual =
     push_copy_mismatch x ''headline'' (pc_headline expected) (pc_headline actual)
     @ push_copy_mismatch x ''subheadline'' (pc_subheadline expected) (pc_subheadline actual)
     @ push_copy_mismatch x ''cta_line'' (pc_cta_line expected) (pc_cta_line actual)
     @ push_copy_mismatch x ''compliance_note'' (pc_compliance_note expected) (pc_compliance_note actual)
     @ push_copy_mismatch x ''selling_points'' (join '' | '' (pc_selling_points expected))
         (join '' | '' (pc_selling_points actual))"

section \<open>The handlers\<close>

record poster_request =
  prq_lookup :: product_lookup
  prq_theme :: "string option"
  prq_locale :: "string option"

definition request_locale :: "poster_request \<Rightarrow> string" where
  "request_locale r = unwrap_or (prq_locale r) ''zh-CN''"

text \<open>The product of a request and its brief.\<close>

definition poster_context :: "'s node_parts \<Rightarrow> poster_request \<Rightarrow> ('s, product_detail \<times> poster_brief) node_act" where
  "poster_context p input =
     andthen (load_product_for_lookup p (prq_lookup input)) (\<lambda>d.
       ret (d, build_poster_brief (np_config p) d (unwrap_or (prq_theme input) ''studio'') (request_locale input)))"

definition poster_brief_handler ::
  "'s node_parts \<Rightarrow> headers \<Rightarrow> poster_request \<Rightarrow> ('s, string \<times> product_detail \<times> poster_brief) node_act" where
  "poster_brief_handler p h input =
     andthen (lift (require_bridge_or_operator_token (np_config p) h)) (\<lambda>_.
     andthen (poster_context p input) (\<lambda>(d, b). ret (connector_mode (np_config p), d, b)))"

record handoff_response =
  hf_connector_mode :: string
  hf_generated_at :: string
  hf_product :: product_detail
  hf_brief :: poster_brief
  hf_source_images :: "poster_source_image list"
  hf_manifest_url :: string
  hf_recommended_tools :: "string list"
  hf_instructions :: "string list"
  hf_prompt :: string

definition poster_handoff :: "'s node_parts \<Rightarrow> headers \<Rightarrow> poster_request \<Rightarrow> ('s, handoff_response) node_act" where
  "poster_handoff p h input =
     andthen (lift (require_bridge_or_operator_token (np_config p) h)) (\<lambda>_.
     andthen (poster_context p input) (\<lambda>(d, b).
     let locale = request_locale input; images = poster_source_images d locale in
     andthen utc_now (\<lambda>now.
       ret \<lparr> hf_connector_mode = connector_mode (np_config p),
         hf_generated_at = x_to_rfc3339 (np_crates p) now, hf_product = d, hf_brief = b,
         hf_source_images = images, hf_manifest_url = manifest_url_of p,
         hf_recommended_tools = [''ozon.products.get'', ''poster.handoff''],
         hf_instructions = poster_handoff_instructions locale,
         hf_prompt = build_openclaw_poster_prompt d b images locale \<rparr>)))"

record generated_background =
  gb_image_model :: string
  gb_prompt :: string
  gb_revised_prompt :: "string option"
  gb_data_url :: string

definition generate_poster_background :: "'s node_parts \<Rightarrow> poster_brief \<Rightarrow> ('s, generated_background) node_act" where
  "generate_poster_background p b =
     andthen (resolve_capability p ImageGen) (\<lambda>resolved.
     andthen (lift (expect_openai_image resolved)) (\<lambda>openai.
     andthen (http_send p (with_json (np_crates p) (JObject [(''model'', JString (soa_image_model openai)),
           (''prompt'', JString (pb_background_prompt b)), (''size'', JString ''1024x1536'')])
         (bearer_auth (soa_api_key openai) (request_to ''POST'' (openai_images_endpoint (soa_base_url openai)))))) (\<lambda>answer.
       case answer of
         Inl e \<Rightarrow> throw (bad_gateway_node (''OpenAI image generation failed: '' @ e))
       | Inr r \<Rightarrow>
           if \<not> is_success (rsp_status r)
           then throw (bad_gateway_node (''OpenAI image generation failed: ''
             @ summarize_openai_error (np_crates p) (unwrap_or (rsp_body r) ''unknown error'')))
           else
             andthen (read_json p ''invalid OpenAI image response'' image_response_of_json (rsp_body r)) (\<lambda>images.
             andthen (lift (ok_or (bad_gateway_node ''OpenAI image response returned no images'') (first_of images))) (\<lambda>image.
             andthen (lift (ok_or (bad_gateway_node ''OpenAI image response did not include base64 image data'')
               (im_b64_json image))) (\<lambda>b64.
             andthen (lift (ok_or (bad_gateway_node ''OpenAI image response returned invalid base64 data'')
               (x_base64_decode (np_crates p) b64))) (\<lambda>bytes.
               ret \<lparr> gb_image_model = soa_image_model openai, gb_prompt = pb_background_prompt b,
                 gb_revised_prompt = im_revised_prompt image,
                 gb_data_url = ''data:image/png;base64,'' @ x_base64_encode (np_crates p) bytes \<rparr>)))))))"

definition poster_generate ::
  "'s node_parts \<Rightarrow> headers \<Rightarrow> poster_request \<Rightarrow> ('s, product_detail \<times> poster_brief \<times> generated_background) node_act" where
  "poster_generate p h input =
     andthen (lift (require_operator_token (np_config p) h)) (\<lambda>_.
     andthen (poster_context p input) (\<lambda>(d, b).
     andthen (generate_poster_background p b) (\<lambda>g. ret (d, b, g))))"

record verify_response =
  vrs_ok :: bool
  vrs_checked_at :: string
  vrs_approved_copy :: poster_copy
  vrs_mismatches :: "copy_mismatch list"
  vrs_warnings :: "string list"

definition copy_of_brief :: "poster_brief \<Rightarrow> poster_copy" where
  "copy_of_brief b =
     \<lparr> pc_headline = pb_headline b, pc_subheadline = pb_subheadline b,
       pc_selling_points = pb_selling_points b, pc_cta_line = pb_cta_line b,
       pc_compliance_note = pb_compliance_note b \<rparr>"

definition submitted_copy :: "poster_copy \<Rightarrow> poster_copy" where
  "submitted_copy c =
     \<lparr> pc_headline = trim (pc_headline c), pc_subheadline = trim (pc_subheadline c),
       pc_selling_points = filter (\<lambda>v. v \<noteq> []) (map trim (pc_selling_points c)),
       pc_cta_line = trim (pc_cta_line c), pc_compliance_note = trim (pc_compliance_note c) \<rparr>"

definition poster_verify ::
  "'s node_parts \<Rightarrow> headers \<Rightarrow> poster_request \<Rightarrow> poster_copy \<Rightarrow> ('s, verify_response) node_act" where
  "poster_verify p h input given =
     andthen (lift (require_operator_token (np_config p) h)) (\<lambda>_.
     andthen (poster_context p input) (\<lambda>(d, b).
     let approved = copy_of_brief b;
         mismatches = compare_poster_copy (np_crates p) approved (submitted_copy given) in
     andthen utc_now (\<lambda>now.
       ret \<lparr> vrs_ok = (mismatches = []), vrs_checked_at = x_to_rfc3339 (np_crates p) now,
         vrs_approved_copy = approved, vrs_mismatches = mismatches,
         vrs_warnings = poster_verify_warnings (request_locale input) (mismatches = []) \<rparr>)))"

end
