(* ===== verification/NodeServer.thy ===== *)
theory NodeServer
  imports NodeExport NodeVideo NodePoster
begin

text \<open>
  The local node as one system (\<open>skill_router\<close> of \<open>apps/local-node/src/main.rs\<close>): the requests
  of its routes with their decoded inputs, the handler of each, and the runs of the node, in
  which requests, the ticks of the background tasks and the passing of time interleave in any
  order. The manifest the bridge reads is the list of the tools with their risk.
\<close>

section \<open>The manifest\<close>

record openclaw_tool =
  ot_name :: string
  ot_path :: string
  ot_risk :: string
  ot_approval_required :: bool

definition tool :: "string \<Rightarrow> string \<Rightarrow> string \<Rightarrow> bool \<Rightarrow> openclaw_tool" where
  "tool name route risk approval =
     \<lparr> ot_name = name, ot_path = route, ot_risk = risk, ot_approval_required = approval \<rparr>"

definition openclaw_tools :: "openclaw_tool list" where
  "openclaw_tools =
     [tool ''ozon.products.count'' ''/tools/ozon.products.count'' ''read_only'' False,
      tool ''ozon.products.list'' ''/tools/ozon.products.list'' ''read_only'' False,
      tool ''ozon.products.get'' ''/tools/ozon.products.get'' ''read_only'' False,
      tool ''ozon.module3.recognize'' ''/tools/ozon.module3.recognize'' ''read_only'' False,
      tool ''ozon.module3.push'' ''/tools/ozon.module3.push'' ''write'' True,
      tool ''ozon.video.create'' ''/tools/ozon.video.create'' ''read_only'' False,
      tool ''ozon.video.get'' ''/tools/ozon.video.get/{job_id}'' ''read_only'' False,
      tool ''ozon.relist.export'' ''/tools/ozon.relist.export'' ''read_only'' False,
      tool ''ozon.relist.extract'' ''/tools/ozon.relist.extract'' ''read_only'' False,
      tool ''ozon.relist.import-image'' ''/tools/ozon.relist.import-image'' ''read_only'' False,
      tool ''poster.handoff'' ''/poster/handoff'' ''read_only'' False,
      tool ''tasks.dry_run'' ''/tasks/dry-run'' ''proposal_only'' True,
      tool ''tasks.get'' ''/tasks/{task_id}'' ''read_only'' False,
      tool ''schedules.ecommerce_read.propose'' ''/schedules/ecommerce-read/propose'' ''proposal_only'' True]"

section \<open>Requests\<close>

datatype node_request =
    GetHealth
  | GetAttest
  | GetDiagnostics
  | GetPortalStatus
  | PostPortalLease entitlement_lease
  | GetManifest
  | PostPairingStart
  | PostPairingClaim string
  | GetConfigStatus
  | PostOzonConfig string string
  | PostOzonValidate
  | PostOpenaiConfig string "string option" "string option"
  | GetRegistry
  | PostRegistry stored_model_registry
  | PostSecret string string
  | PostProductsCount
  | PostProductsList product_list_input
  | PostProductsGet product_lookup
  | PostRelistGenerate "relist_target list" "string option"
  | PostRelistPush "relist_push_target list"
  | PostRelistExport string "string option" "export_row list"
  | PostRelistExtract string "string option" "string option"
  | PostImportImage "string option" string
  | PostRecognize "relist_target list" "string option"
  | PostCopyPush "push_target list" bool
  | PostVideoCreate video_create_input
  | GetVideo uuid
  | PostPosterBrief poster_request
  | PostPosterHandoff poster_request
  | PostPosterGenerate poster_request
  | PostPosterVerify poster_request poster_copy
  | PostDryRun dry_run_request
  | GetTasks
  | GetTask uuid
  | PostApprove uuid "string option" "string option"
  | PostCancel uuid
  | PostExecuteMock uuid
  | GetSchedule
  | PostSchedule bool "u64 option" "u16 option"
  | PostScheduleRunNow
  | PostSchedulePropose propose_schedule_request
  | GetEvents

text \<open>What a handler answers is not kept here; it is the result of the handler itself.\<close>

definition answered :: "('s, 'a) node_act \<Rightarrow> ('s, unit) node_act" where
  "answered m = andthen m (\<lambda>_. ret ())"

text \<open>\<open>execute_mock_task\<close> sleeps between two steps, so it is two events of a run: the first is the
  request, the second finishes it.\<close>

definition start_mock_task :: "'s node_parts \<Rightarrow> headers \<Rightarrow> uuid \<Rightarrow> ('s, task) node_act" where
  "start_mock_task p h i =
     andthen (lift (require_operator_token (np_config p) h)) (\<lambda>_. run_task (mark_running (TaskId i)))"

definition finish_mock_task :: "'s node_parts \<Rightarrow> uuid \<Rightarrow> ('s, task) node_act" where
  "finish_mock_task p i =
     andthen new_v4 (\<lambda>u.
     andthen utc_now (\<lambda>now.
       run_task (mark_succeeded (TaskId i)
         \<lparr> rcp_external_request_id = Some (''dry-run-receipt-'' @ x_uuid_string (np_crates p) u),
           rcp_executed_at = now,
           rcp_result_summary = ''dry-run execution completed; no Ozon write was sent'' \<rparr>)))"

lemma execute_mock_task_steps:
  "execute_mock_task p h i during =
     andthen (start_mock_task p h i) (\<lambda>_. andthen (modify during) (\<lambda>_. finish_mock_task p i))"
  by (rule ext) (simp add: execute_mock_task_def start_mock_task_def finish_mock_task_def andthen_run
      split: sum.split)

fun node_serve :: "'s node_parts \<Rightarrow> headers \<Rightarrow> node_request \<Rightarrow> ('s, unit) node_act" where
  "node_serve p h GetHealth = ret ()"
| "node_serve p h GetAttest = answered (lift (attest p h))"
| "node_serve p h GetDiagnostics = answered (diagnostics p)"
| "node_serve p h GetPortalStatus = answered (portal_status p)"
| "node_serve p h (PostPortalLease l) = answered (save_portal_lease p l)"
| "node_serve p h GetManifest = ret ()"
| "node_serve p h PostPairingStart = answered (start_openclaw_pairing p h)"
| "node_serve p h (PostPairingClaim c) = answered (claim_openclaw_pairing p h c)"
| "node_serve p h GetConfigStatus = answered (config_status p h)"
| "node_serve p h (PostOzonConfig i k) = answered (save_ozon_config p h i k)"
| "node_serve p h PostOzonValidate = answered (validate_ozon_config p h)"
| "node_serve p h (PostOpenaiConfig k u m) = answered (save_openai_config p h k u m)"
| "node_serve p h GetRegistry = answered (get_model_registry p h)"
| "node_serve p h (PostRegistry r) = answered (save_model_registry p h r)"
| "node_serve p h (PostSecret n v) = answered (save_secret p h n v)"
| "node_serve p h PostProductsCount = answered (ozon_products_count p h)"
| "node_serve p h (PostProductsList i) = answered (ozon_products_list p h i)"
| "node_serve p h (PostProductsGet l) = answered (ozon_products_get p h l)"
| "node_serve p h (PostRelistGenerate ts q) = answered (relist_generate p h ts q)"
| "node_serve p h (PostRelistPush ts) = answered (relist_push p h ts)"
| "node_serve p h (PostRelistExport t c rows) = answered (relist_export p h t c rows)"
| "node_serve p h (PostRelistExtract t c sheet) = answered (relist_extract p h t c sheet)"
| "node_serve p h (PostImportImage n d) = answered (relist_import_image p h n d)"
| "node_serve p h (PostRecognize ts l) = answered (module3_recognize p h ts l)"
| "node_serve p h (PostCopyPush ts b) = answered (module3_push p h ts b)"
| "node_serve p h (PostVideoCreate i) = answered (video_create p h i)"
| "node_serve p h (GetVideo i) = answered (video_get p h i)"
| "node_serve p h (PostPosterBrief r) = answered (poster_brief_handler p h r)"
| "node_serve p h (PostPosterHandoff r) = answered (poster_handoff p h r)"
| "node_serve p h (PostPosterGenerate r) = answered (poster_generate p h r)"
| "node_serve p h (PostPosterVerify r c) = answered (poster_verify p h r c)"
| "node_serve p h (PostDryRun i) = answered (node_dry_run p h i)"
| "node_serve p h GetTasks = answered (list_tasks p h)"
| "node_serve p h (GetTask i) = answered (node_get_task p h i)"
| "node_serve p h (PostApprove i a n) = answered (approve_task p h i a n)"
| "node_serve p h (PostCancel i) = answered (cancel_task p h i)"
| "node_serve p h (PostExecuteMock i) = answered (start_mock_task p h i)"
| "node_serve p h GetSchedule = answered (get_ecommerce_schedule p h)"
| "node_serve p h (PostSchedule b i l) = answered (configure_ecommerce_schedule p h b i l)"
| "node_serve p h PostScheduleRunNow = answered (run_ecommerce_schedule_now p h)"
| "node_serve p h (PostSchedulePropose r) = answered (propose_ecommerce_schedule p h r)"
| "node_serve p h GetEvents = lift (require_operator_token (np_config p) h)"

section \<open>Runs\<close>

text \<open>What happens in a run of the node: a request with its headers, a tick of a schedule worker or
  of a video poller, the end of a mock execution that was started. The calls a fault source
  answers and the passing of time are in the state.\<close>

datatype node_event =
    Request headers node_request
  | WorkerTick nat
  | PollerTick nat
  | MockDone uuid

definition node_do :: "'s node_parts \<Rightarrow> node_event \<Rightarrow> ('s, unit) node_act" where
  "node_do p e =
     (case e of
        Request h r \<Rightarrow> node_serve p h r
      | WorkerTick k \<Rightarrow> worker_tick p k
      | PollerTick k \<Rightarrow> poller_tick p k
      | MockDone i \<Rightarrow> answered (finish_mock_task p i))"

text \<open>The events of a run that answered with success, and the state it leads to.\<close>

fun node_run :: "'s node_parts \<Rightarrow> node_event list \<Rightarrow> 's node \<Rightarrow> 's node" where
  "node_run p [] s = s"
| "node_run p (e # es) s = node_run p es (snd (node_do p e s))"

lemma node_run_append: "node_run p (es @ fs) s = node_run p fs (node_run p es s)"
  by (induction es arbitrary: s) simp_all

text \<open>One rule for every invariant of a run.\<close>

lemma node_run_invariant:
  assumes "I s" and "\<And>e u. I u \<Longrightarrow> I (snd (node_do p e u))"
  shows "I (node_run p es s)"
  using assms by (induction es arbitrary: s) simp_all

end
