(* ===== verification/NodeFrame.thy ===== *)
theory NodeFrame
  imports NodeServer
begin

text \<open>
  What the operations of the local node leave alone (\<open>apps/local-node/src/main.rs\<close>). The tables
  of the node are its tasks, its schedule and workers, its pairings, its video jobs and their
  pollers. Most operations keep all of them (\<open>calm\<close>) and draw fresh ids in order; those that neither talk to the network
  nor touch the host keep these too (\<open>silent\<close>). Both are relations every composition keeps.
\<close>

section \<open>Control flow\<close>

lemma keeps_Let [keeps_intros]: "keeps R (f a) \<Longrightarrow> keeps R (let x = a in f x)"
  by simp

lemma keeps_case_pair [keeps_intros]: "(\<And>a b. keeps R (f a b)) \<Longrightarrow> keeps R (case x of (a, b) \<Rightarrow> f a b)"
  by (cases x) simp

lemma keeps_case_sum [keeps_intros]:
  "(\<And>e. keeps R (f e)) \<Longrightarrow> (\<And>a. keeps R (g a)) \<Longrightarrow> keeps R (case x of Inl e \<Rightarrow> f e | Inr a \<Rightarrow> g a)"
  by (cases x) simp_all

lemma keeps_case_resolved [keeps_intros]:
  "(\<And>c. keeps R (f c)) \<Longrightarrow> (\<And>k u m a t d e. keeps R (g k u m a t d e)) \<Longrightarrow> (\<And>c r. keeps R (h c r)) \<Longrightarrow>
    keeps R (case x of OpenAiImage c \<Rightarrow> f c | Generic k u m a t d e \<Rightarrow> g k u m a t d e | NotConfigured c r \<Rightarrow> h c r)"
  by (cases x) simp_all

lemma keeps_case_poll [keeps_intros]:
  "(\<And>st u e. keeps R (f st u e)) \<Longrightarrow> (\<And>r. keeps R (g r)) \<Longrightarrow>
    keeps R (case x of PollStatus st u e \<Rightarrow> f st u e | NeedsFetch r \<Rightarrow> g r)"
  by (cases x) simp_all

lemma keeps_mono: "keeps Q m \<Longrightarrow> (\<And>s t. Q s t \<Longrightarrow> R s t) \<Longrightarrow> keeps R m"
  by (simp add: keeps_def)

lemma keeps_snd: "keeps R m \<Longrightarrow> R s (snd (m s))"
  by (simp add: keeps_def)

lemma answered_state [simp]: "snd (answered m s) = snd (m s)"
  by (simp add: answered_def act_simps split: sum.split)

context step_relation
begin

lemma keeps_for_each [keeps_intros]: "(\<And>a. keeps R (f a)) \<Longrightarrow> keeps R (for_each f xs)"
  by (induction xs) (simp_all add: keeps_intros)

end

section \<open>The two relations\<close>

definition tables :: "'s node \<Rightarrow> _" where
  "tables s = (ts_inner s, ts_by_idempotency s, ts_audit s, ts_events s, nd_schedule s, nd_workers s,
     nd_spawned s, nd_pairings s, nd_video_jobs s, nd_pollers s)"

definition calm :: "'s node \<Rightarrow> 's node \<Rightarrow> bool" where
  "calm s t \<longleftrightarrow> tables t = tables s \<and> src_uuid t = src_uuid s \<and> uuid_n s \<le> uuid_n t"

definition silent :: "'s node \<Rightarrow> 's node \<Rightarrow> bool" where
  "silent s t \<longleftrightarrow> calm s t \<and> nd_network t = nd_network s \<and> nd_host t = nd_host s"

interpretation calm: step_relation calm
  by unfold_locales (simp_all add: calm_def)

interpretation silent: step_relation silent
  by unfold_locales (simp_all add: silent_def calm_def)

lemma silent_calm: "keeps silent m \<Longrightarrow> keeps calm m"
  by (erule keeps_mono) (simp add: silent_def)

lemma keeps_sources [keeps_intros]:
  "keeps silent (on_secrets m)" "keeps silent instant_now" "keeps silent (timely m)"
  "keeps silent (utc_now :: ('s node, 'e, instant) act)" "keeps silent (new_v4 :: ('s node, 'e, uuid) act)"
  by (auto simp: keeps_def act_simps silent_def calm_def tables_def timely_def Let_def
      split: timing.split prod.split)

lemma keeps_caches [keeps_intros]:
  "keeps silent (modify (\<lambda>s. s\<lparr>nd_lease := l\<rparr>))" "keeps silent (modify (\<lambda>s. s\<lparr>nd_ozon_config := o'\<rparr>))"
  "keeps silent (modify (\<lambda>s. s\<lparr>nd_openai_config := a\<rparr>))" "keeps silent (modify (\<lambda>s. s\<lparr>nd_registry := r\<rparr>))"
  by (simp_all add: keeps_def act_simps silent_def calm_def tables_def)

lemma keeps_outside [keeps_intros]: "keeps calm (on_network m)" "keeps calm (on_host h)"
  by (simp_all add: keeps_def act_simps calm_def tables_def)

section \<open>The task store in the node\<close>

lemma on_tasks_run:
  "on_tasks m s = (fst (m (task_store.truncate s)),
     task_store.extend (snd (m (task_store.truncate s))) (task_store.more s))"
  by (simp add: on_tasks_def case_prod_beta)

lemma task_fields [simp]:
  "ts_inner (task_store.truncate s) = ts_inner s" "src_uuid (task_store.truncate s) = src_uuid s"
  "uuid_n (task_store.truncate s) = uuid_n s" "ts_inner (task_store.extend t z) = ts_inner t"
  "src_uuid (task_store.extend t z) = src_uuid t" "uuid_n (task_store.extend t z) = uuid_n t"
  by (simp_all add: task_store.defs)

lemma node_fields [simp]:
  "nd_schedule (task_store.extend t (task_store.more s)) = nd_schedule s"
  "nd_workers (task_store.extend t (task_store.more s)) = nd_workers s"
  "nd_spawned (task_store.extend t (task_store.more s)) = nd_spawned s"
  "nd_pairings (task_store.extend t (task_store.more s)) = nd_pairings s"
  "nd_video_jobs (task_store.extend t (task_store.more s)) = nd_video_jobs s"
  "nd_pollers (task_store.extend t (task_store.more s)) = nd_pollers s"
  "nd_network (task_store.extend t (task_store.more s)) = nd_network s"
  "nd_host (task_store.extend t (task_store.more s)) = nd_host s"
  by (cases s; simp add: task_store.defs)+

section \<open>Silent operations\<close>

lemma keeps_lease_parts [keeps_intros]:
  "keeps silent (get_secret p n)" "keeps silent (put_secret p f n v)" "keeps silent (get_secret_for_status p n)"
  "keeps silent (validate_cloud_lease p l)" "keeps silent (validate_cloud_lease_with_feature p l g)"
  unfolding get_secret_def put_secret_def get_secret_for_status_def validate_cloud_lease_def
    validate_cloud_lease_with_feature_def
  by (intro keeps_intros)+

lemma keeps_lease_status [keeps_intros]: "keeps silent (lease_status_of p l)"
  using keeps_lease_parts(5) [of p l OzonRead]
  by (simp add: keeps_def lease_status_of_def case_prod_beta)

lemma keeps_lease [keeps_intros]:
  "keeps silent (load_or_create_device_fingerprint p)" "keeps silent (load_cloud_lease p)"
  "keeps silent (inspect_cloud_lease p)"
  unfolding load_or_create_device_fingerprint_def load_cloud_lease_def inspect_cloud_lease_def
  by (intro keeps_intros)+

lemma keeps_lease_gate [keeps_intros]:
  "keeps silent (require_valid_lease_with_feature p g)" "keeps silent (save_portal_lease p l)"
  unfolding require_valid_lease_with_feature_def save_portal_lease_def by (intro keeps_intros)+

lemma keeps_credentials [keeps_intros]:
  "keeps silent (load_ozon_credentials p)" "keeps silent (inspect_legacy_ozon_credentials p)"
  "keeps silent (load_openai_config p)" "keeps silent (load_persisted_openai_config p)"
  "keeps silent (inspect_openai_config p)" "keeps silent (load_persisted_model_registry p)"
  unfolding load_ozon_credentials_def inspect_legacy_ozon_credentials_def load_openai_config_def
    load_persisted_openai_config_def inspect_openai_config_def load_persisted_model_registry_def
  by (intro keeps_intros)+

lemma keeps_secret_refs [keeps_intros]:
  "keeps silent (inspect_ozon_credentials p)" "keeps silent (resolve_secret_ref p r)"
  unfolding inspect_ozon_credentials_def resolve_secret_ref_def by (intro keeps_intros)+

lemma keeps_capabilities [keeps_intros]:
  "keeps silent (validate_entry p e)" "keeps silent (resolve_capability p c)" "keeps silent (resolves p r)"
  unfolding validate_entry_def resolve_capability_def resolves_def by (intro keeps_intros)+

lemma keeps_generic_status [keeps_intros]: "keeps silent (generic_capability_status p n es)"
  unfolding generic_capability_status_def by (intro keeps_intros)

lemma keeps_inspection [keeps_intros]: "keeps silent (inspect_capabilities p)"
  unfolding inspect_capabilities_def by (intro keeps_intros)

lemma keeps_configuration [keeps_intros]:
  "keeps silent (save_ozon_config p h i k)" "keeps silent (save_openai_config p h k' u m)"
  "keeps silent (save_model_registry p h r)" "keeps silent (get_model_registry p h)"
  "keeps silent (save_secret p h n v)"
  unfolding save_ozon_config_def save_openai_config_def save_model_registry_def get_model_registry_def
    save_secret_def
  by (intro keeps_intros)+

lemma keeps_status [keeps_intros]:
  "keeps silent (diagnostics p)" "keeps silent (config_status p h)" "keeps silent (portal_status p)"
  unfolding diagnostics_def config_status_def portal_status_def by (intro keeps_intros)+

lemma keeps_ids [keeps_intros]:
  "keeps silent (tenant_or_default t :: ('s node, 'e, tenant_id) act)"
  "keeps silent (key_or_fresh x pre k :: ('s node, 'e, string) act)"
  unfolding tenant_or_default_def key_or_fresh_def by (intro keeps_intros)+

lemmas silent_is_calm [keeps_intros] =
  keeps_sources [THEN silent_calm] keeps_caches [THEN silent_calm] keeps_lease_parts [THEN silent_calm]
  keeps_lease_status [THEN silent_calm] keeps_lease [THEN silent_calm] keeps_lease_gate [THEN silent_calm]
  keeps_credentials [THEN silent_calm] keeps_secret_refs [THEN silent_calm]
  keeps_capabilities [THEN silent_calm] keeps_generic_status [THEN silent_calm]
  keeps_inspection [THEN silent_calm] keeps_configuration [THEN silent_calm] keeps_status [THEN silent_calm]
  keeps_ids [THEN silent_calm]

section \<open>Calm operations\<close>

lemma keeps_reads [keeps_intros]:
  "keeps calm (ask f m)" "keeps calm (attempt w m)" "keeps calm (http_send p r)"
  unfolding ask_def attempt_def http_send_def by (intro keeps_intros)+

lemma keeps_with_shop [keeps_intros]: "(\<And>c. keeps calm (f c)) \<Longrightarrow> keeps calm (with_shop p f)"
  unfolding with_shop_def by (intro keeps_intros)

lemma keeps_product_tools [keeps_intros]:
  "keeps calm (validate_ozon_config p h)" "keeps calm (ozon_products_count p h)"
  "keeps calm (ozon_products_list p h i)" "keeps calm (load_product_for_lookup p l)"
  "keeps calm (ozon_products_get p h l)"
  unfolding validate_ozon_config_def ozon_products_count_def ozon_products_list_def
    load_product_for_lookup_def ozon_products_get_def
  by (intro keeps_intros)+

lemma keeps_provider [keeps_intros]:
  "keeps calm (call_provider p a b r)" "keeps calm (read_json p what d v)"
  unfolding call_provider_def read_json_def by (intro keeps_intros)+

lemma keeps_chat [keeps_intros]: "keeps calm (chat_completion p ms)"
  unfolding chat_completion_def by (intro keeps_intros)

lemma keeps_gate [keeps_intros]:
  "keeps calm (batch_gate p h n v b)" "keeps calm (module3_request_proposal p l d us)"
  unfolding batch_gate_def module3_request_proposal_def by (intro keeps_intros)+

lemma keeps_recognize [keeps_intros]: "keeps calm (module3_recognize_one p c l g)"
  unfolding module3_recognize_one_def by (intro keeps_intros)

lemma keeps_push [keeps_intros]: "keeps calm (module3_push_one p c t b)"
  unfolding module3_push_one_def by (intro keeps_intros)

lemma keeps_copy_tools [keeps_intros]:
  "keeps calm (module3_recognize p h ts g)" "keeps calm (module3_push p h qs b)"
  unfolding module3_recognize_def module3_push_def by (intro keeps_intros)+

lemma keeps_images [keeps_intros]:
  "keeps calm (relist_download p u)" "keeps calm (relist_upload_to_host p host n b)"
  unfolding relist_download_def relist_upload_to_host_def by (intro keeps_intros)+

lemma keeps_edit [keeps_intros]: "keeps calm (relist_edit_image p b q)"
  unfolding relist_edit_image_def by (intro keeps_intros)

lemma keeps_hosting [keeps_intros]: "keeps calm (try_hosts p n b hosts e)"
  by (induction hosts arbitrary: e) (auto intro!: keeps_intros)

lemma keeps_host_image [keeps_intros]: "keeps calm (relist_host_image p n b)"
  unfolding relist_host_image_def by (intro keeps_intros)

lemma keeps_candidates [keeps_intros]: "keeps calm (candidate_rounds p i b q n found e)"
  by (induction n arbitrary: found e) (auto intro!: keeps_intros)

lemma keeps_relist_parts [keeps_intros]:
  "keeps calm (relist_generate_one p c l q)" "keeps calm (relist_push_one p c t)"
  unfolding relist_generate_one_def relist_push_one_def by (intro keeps_intros)+

lemma keeps_relist [keeps_intros]:
  "keeps calm (relist_import_image p h n d)" "keeps calm (relist_generate p h ts q)"
  "keeps calm (relist_push p h ps)"
  unfolding relist_import_image_def relist_generate_def relist_push_def by (intro keeps_intros)+

lemma keeps_files [keeps_intros]: "keeps calm (require_file w f)"
  unfolding require_file_def is_file_def by (intro keeps_intros)

lemma keeps_workbooks [keeps_intros]:
  "keeps calm (relist_export p h t c rows)" "keeps calm (relist_extract p h t c sheet)"
  unfolding relist_export_def relist_extract_def by (intro keeps_intros)+

lemma keeps_posters [keeps_intros]:
  "keeps calm (poster_context p r)" "keeps calm (generate_poster_background p b)"
  unfolding poster_context_def generate_poster_background_def by (intro keeps_intros)+

lemma keeps_poster_tools [keeps_intros]:
  "keeps calm (poster_brief_handler p h r)" "keeps calm (poster_handoff p h r)"
  "keeps calm (poster_generate p h r)" "keeps calm (poster_verify p h r c)"
  unfolding poster_brief_handler_def poster_handoff_def poster_generate_def poster_verify_def
  by (intro keeps_intros)+

lemma keeps_video_provider [keeps_intros]:
  "keeps calm (resolve_cloud_video p)" "keeps calm (execute_video_spec p q ph)"
  unfolding resolve_cloud_video_def execute_video_spec_def by (intro keeps_intros)+

lemma keeps_video_calls [keeps_intros]:
  "keeps calm (video_create_job p q a b d)" "keeps calm (video_poll_status p j)"
  unfolding video_create_job_def video_poll_status_def by (intro keeps_intros)+

lemma keeps_lookups [keeps_intros]:
  "keeps calm (video_get p h i)" "keeps calm (list_tasks p h)" "keeps calm (node_get_task p h i)"
  "keeps calm (get_ecommerce_schedule p h)" "keeps calm (schedule_response_of p :: ('s node, 'e, _) act)"
  "keeps calm (job_known i :: ('s node, 'e, _) act)"
  unfolding video_get_def list_tasks_def node_get_task_def get_ecommerce_schedule_def
    schedule_response_of_def job_known_def
  by (intro keeps_intros)+

section \<open>What an event may change\<close>

datatype part = Tasks | Polling | Pairings | Videos

definition frame :: "part set \<Rightarrow> 's node \<Rightarrow> 's node \<Rightarrow> bool" where
  "frame K s t \<longleftrightarrow>
     (Tasks \<notin> K \<longrightarrow> ts_inner t = ts_inner s \<and> ts_by_idempotency t = ts_by_idempotency s
        \<and> ts_audit t = ts_audit s \<and> ts_events t = ts_events s)
   \<and> (Polling \<notin> K \<longrightarrow> nd_schedule t = nd_schedule s \<and> nd_workers t = nd_workers s)
   \<and> (Pairings \<notin> K \<longrightarrow> nd_pairings t = nd_pairings s)
   \<and> (Videos \<notin> K \<longrightarrow> nd_video_jobs t = nd_video_jobs s \<and> nd_pollers t = nd_pollers s)
   \<and> src_uuid t = src_uuid s \<and> uuid_n s \<le> uuid_n t \<and> nd_spawned s \<le> nd_spawned t"

interpretation framed: step_relation "frame K"
  by unfold_locales (unfold frame_def, (intro conjI impI; simp)+)

lemma calm_framed: "keeps calm m \<Longrightarrow> keeps (frame K) m"
  by (erule keeps_mono) (simp add: calm_def tables_def frame_def)

lemmas calm_is_framed [keeps_intros] = silent_is_calm [THEN calm_framed] keeps_outside [THEN calm_framed]
  keeps_reads [THEN calm_framed] keeps_product_tools [THEN calm_framed] keeps_copy_tools [THEN calm_framed]
  keeps_relist [THEN calm_framed] keeps_workbooks [THEN calm_framed] keeps_poster_tools [THEN calm_framed]
  keeps_video_calls [THEN calm_framed] keeps_lookups [THEN calm_framed]

lemma frame_changes [keeps_intros]:
  "keeps (frame {Pairings}) (modify (\<lambda>s. s\<lparr>nd_pairings := f s\<rparr>))"
  "keeps (frame {Videos}) (modify (\<lambda>s. s\<lparr>nd_video_jobs := g s\<rparr>))"
  "keeps (frame {Videos}) (modify (\<lambda>s. s\<lparr>nd_pollers := k s\<rparr>))"
  "keeps (frame {Videos}) (spawn_video_poller i j)"
  "keeps (frame {Polling}) (modify (\<lambda>s. s\<lparr>nd_workers := w s\<rparr>))"
  "keeps (frame {Polling}) (change_schedule c)" "keeps (frame {Polling}) (spawn_worker l)"
  "keeps (frame {Polling}) stop_existing_schedule_worker"
  by (simp_all add: keeps_def act_simps frame_def change_schedule_def spawn_worker_def
      stop_existing_schedule_worker_def spawn_video_poller_def split: option.split)

text \<open>Every method of the task engine draws its ids in order.\<close>

definition draws :: "task_store \<Rightarrow> task_store \<Rightarrow> bool" where
  "draws s t \<longleftrightarrow> src_uuid t = src_uuid s \<and> uuid_n s \<le> uuid_n t"

lemma engine_draws:
  "keeps draws (create_dry_run sh c)" "keeps draws (cancel sh i b)" "keeps draws (mark_running i)"
  "keeps draws (mark_succeeded i r)" "keeps draws (approve sh i b n)"
  by (simp_all add: keeps_def draws_def create_dry_run_run cancel_run mark_running_run mark_succeeded_run
      approve_run Let_def split: option.split)

lemma run_task_frame [keeps_intros]: "keeps draws m \<Longrightarrow> keeps (frame {Tasks}) (run_task m)"
  by (simp add: run_task_def keeps_def on_tasks_run frame_def draws_def) (metis task_fields(2,3))

lemmas engine_frame [keeps_intros] = engine_draws [THEN run_task_frame]

lemma tasks_frame:
  "keeps (frame {Tasks}) (node_dry_run p h d)" "keeps (frame {Tasks}) (approve_task p h i b n)"
  "keeps (frame {Tasks}) (cancel_task p h i)" "keeps (frame {Tasks}) (start_mock_task p h i)"
  "keeps (frame {Tasks}) (finish_mock_task p i)" "keeps (frame {Tasks}) (propose_ecommerce_schedule p h q)"
  unfolding node_dry_run_def approve_task_def cancel_task_def start_mock_task_def finish_mock_task_def
    propose_ecommerce_schedule_def
  by (intro keeps_intros)+

lemma pairing_frame:
  "keeps (frame {Pairings}) (start_openclaw_pairing p h)" "keeps (frame {Pairings}) (claim_openclaw_pairing p h c)"
  unfolding start_openclaw_pairing_def claim_openclaw_pairing_def retain_live_def by (intro keeps_intros)+

lemma polling_frame:
  "keeps (frame {Polling}) (configure_ecommerce_schedule p h e i l0)"
  "keeps (frame {Polling}) (run_ecommerce_schedule_now p h)"
  "keeps (frame {Polling}) (worker_tick p k :: ('s node, 'e, unit) act)"
  unfolding execute_ecommerce_read_once_def configure_ecommerce_schedule_def run_ecommerce_schedule_now_def
    worker_tick_def start_ecommerce_schedule_def stop_ecommerce_schedule_def enable_schedule_def log_schedule_def
  by (intro keeps_intros)+

lemma video_frame:
  "keeps (frame {Videos}) (video_create p h v)" "keeps (frame {Videos}) (poller_tick p k :: ('s node, 'e, unit) act)"
  unfolding video_create_def poller_tick_def poll_attempt_def poll_deadline_def change_job_def
    drop_poller_def set_attempts_def
  by (intro keeps_intros)+

fun request_changes :: "node_request \<Rightarrow> part set" where
  "request_changes (PostDryRun d) = {Tasks}"
| "request_changes (PostApprove i b n) = {Tasks}"
| "request_changes (PostCancel i) = {Tasks}"
| "request_changes (PostExecuteMock i) = {Tasks}"
| "request_changes (PostSchedulePropose q) = {Tasks}"
| "request_changes PostPairingStart = {Pairings}"
| "request_changes (PostPairingClaim c) = {Pairings}"
| "request_changes (PostSchedule b i l) = {Polling}"
| "request_changes PostScheduleRunNow = {Polling}"
| "request_changes (PostVideoCreate v) = {Videos}"
| "request_changes _ = {}"

fun event_changes :: "node_event \<Rightarrow> part set" where
  "event_changes (Request h r) = request_changes r"
| "event_changes (WorkerTick k) = {Polling}"
| "event_changes (PollerTick k) = {Videos}"
| "event_changes (MockDone i) = {Tasks}"

lemma request_frame: "keeps (frame (request_changes r)) (node_serve p h r)"
  by (cases r) (simp_all add: answered_def keeps_intros tasks_frame pairing_frame polling_frame video_frame)

lemma event_frame: "frame (event_changes e) s (snd (node_do p e s))"
proof -
  have "keeps (frame (event_changes e)) (node_do p e)"
    by (cases e) (simp_all add: node_do_def answered_def keeps_intros request_frame tasks_frame
        polling_frame video_frame)
  then show ?thesis by (simp add: keeps_def)
qed

lemma event_draws:
  "src_uuid (snd (node_do p e s)) = src_uuid s" "uuid_n s \<le> uuid_n (snd (node_do p e s))"
  "nd_spawned s \<le> nd_spawned (snd (node_do p e s))"
  using event_frame [of e s p] by (simp_all only: frame_def)

lemma run_draws:
  "src_uuid (node_run p es s) = src_uuid s" "uuid_n s \<le> uuid_n (node_run p es s)"
  "nd_spawned s \<le> nd_spawned (node_run p es s)"
  by (induction es arbitrary: s) (simp_all add: event_draws, (metis event_draws(2,3) le_trans)+)

end
