(* ===== verification/NodeSamples.thy ===== *)
theory NodeSamples
  imports NodeServer "HOL-Library.Code_Target_Nat"
begin

text \<open>
  A concrete local node for the witnesses: a debug build with the mock shop, a store of secrets
  in memory, a network that answers every request with a refusal, and a host whose commands
  all succeed.
\<close>

definition sample_local :: local_config where
  "sample_local =
     \<lparr> lcf_skill_bind = ''127.0.0.1:17870'', lcf_agent_bind = ''127.0.0.1:17871'', lcf_bind_override = False,
       lcf_operator_token = ''operator'', lcf_openclaw_token = ''bridge'', lcf_use_real_ozon = False,
       lcf_openai_base_url = ''https://api.openai.com/v1'', lcf_openai_image_model = ''gpt-image-1'',
       lcf_default_interval_secs = 900, lcf_default_limit = 20, lcf_lease_public_key_pem = Some ''leasekey'',
       lcf_lease_issuer = ''issuer'', lcf_lease_audience = ''audience'', lcf_allow_unsigned_lease = True,
       lcf_openclaw_bind_url = ''https://ozonclaw.jl696.cn/bind'' \<rparr>"

definition sample_build :: build where
  "sample_build =
     \<lparr> bd_debug = True, bd_lease_public_key_pem = None, bd_commit = ''c'', bd_version = ''1'' \<rparr>"

definition sample_parts :: "secrets node_parts" where
  "sample_parts =
     \<lparr> np_crates = toy_crates, np_config = sample_local, np_env = (\<lambda>_. None), np_secrets = memory_store,
       np_reader = mock_read_connector, np_writer = mock_write_connector, np_ioreg = None,
       np_build = sample_build, np_exports_dir = ''/exports'' \<rparr>"

definition sample_network :: network where
  "sample_network = \<lparr> nw_answer = (\<lambda>_. Inl ''refused''), nw_sent = [] \<rparr>"

definition sample_host :: host where
  "sample_host =
     \<lparr> ho_files = (\<lambda>_. None), ho_fault = (\<lambda>_. None), ho_calls = 0,
       ho_run = (\<lambda>c fs. (Inr \<lparr> po_code = Some 0, po_stdout = [], po_stderr = [] \<rparr>, fs)), ho_ran = [] \<rparr>"

definition sample_node :: "secrets node" where
  "sample_node = new_node sample_ambient sample_local [] sample_network sample_host (\<lambda>n. int n) (\<lambda>_. InTime)"

definition operator_headers :: headers where
  "operator_headers n = (if n = ''x-local-token'' then Some ''operator'' else None)"

definition bridge_headers :: headers where
  "bridge_headers n = (if n = ''x-openclaw-token'' then Some ''bridge'' else None)"

lemma sample_parts_made:
  "new_parts toy_crates sample_build sample_local (\<lambda>_. None) memory_store None ''/exports'' = Inr sample_parts"
  by (simp add: new_parts_def sample_parts_def sample_local_def sample_build_def)

lemma sample_access:
  "operator_headers ''x-local-token'' = Some ''operator''" "bridge_headers ''x-openclaw-token'' = Some ''bridge''"
  "lcf_operator_token (np_config sample_parts) = ''operator''"
  "lcf_openclaw_token (np_config sample_parts) = ''bridge''"
  by (simp_all add: operator_headers_def bridge_headers_def sample_parts_def sample_local_def)

end
