(* ===== verification/NodeGate.thy ===== *)
theory NodeGate
  imports NodeFrame NodeSamples
begin

text \<open>
  The gate in front of the shop and of the host (\<open>require_valid_lease_with_feature\<close> in
  \<open>apps/local-node/src/main.rs\<close>): what passing it means, and that no event of a run reaches the
  network or runs a command on the host before it, but for the validation of credentials by the
  operator and the pollers of video jobs.
\<close>

section \<open>Steps that stay on the node\<close>

definition offline :: "'s node \<Rightarrow> 's node \<Rightarrow> bool" where
  "offline s t \<longleftrightarrow> nd_network t = nd_network s \<and> nd_host t = nd_host s"

interpretation offline: step_relation offline
  by unfold_locales (simp_all add: offline_def)

lemma silent_offline: "keeps silent m \<Longrightarrow> keeps offline m"
  by (erule keeps_mono) (simp add: silent_def offline_def)

lemma offline_tables [keeps_intros]:
  "keeps offline (modify (\<lambda>s. s\<lparr>nd_pairings := f s\<rparr>))" "keeps offline (change_schedule c)"
  "keeps offline stop_existing_schedule_worker" "keeps offline (run_task m)"
  by (simp_all add: keeps_def act_simps offline_def change_schedule_def stop_existing_schedule_worker_def
      run_task_def on_tasks_run split: option.split)

lemmas silent_is_offline [keeps_intros] =
  keeps_sources [THEN silent_offline] keeps_lease_gate [THEN silent_offline]
  keeps_configuration [THEN silent_offline] keeps_status [THEN silent_offline] keeps_ids [THEN silent_offline]

lemma offline_requests:
  "keeps offline (node_dry_run p h d)" "keeps offline (approve_task p h i b n)"
  "keeps offline (cancel_task p h i)" "keeps offline (start_mock_task p h i)"
  "keeps offline (finish_mock_task p i)" "keeps offline (propose_ecommerce_schedule p h q)"
  "keeps offline (start_openclaw_pairing p h)" "keeps offline (claim_openclaw_pairing p h c)"
  "keeps offline (video_get p h i)" "keeps offline (list_tasks p h)" "keeps offline (node_get_task p h i)"
  "keeps offline (get_ecommerce_schedule p h)"
  "keeps offline (stop_ecommerce_schedule p why :: ('s, unit) node_act)"
  unfolding node_dry_run_def approve_task_def cancel_task_def start_mock_task_def finish_mock_task_def
    propose_ecommerce_schedule_def start_openclaw_pairing_def claim_openclaw_pairing_def retain_live_def
    video_get_def list_tasks_def node_get_task_def get_ecommerce_schedule_def schedule_response_of_def
    stop_ecommerce_schedule_def log_schedule_def
  by (intro keeps_intros)+

section \<open>The gate\<close>

definition gate_open :: "'s node_parts \<Rightarrow> 's node \<Rightarrow> bool" where
  "gate_open p s \<longleftrightarrow> is_ok (fst (require_valid_lease_with_feature p OzonRead s))"

text \<open>An operation that needs the gate: while it is closed the operation stays on the node.\<close>

definition gated :: "'s node_parts \<Rightarrow> ('s, 'a) node_act \<Rightarrow> bool" where
  "gated p m \<longleftrightarrow> (\<forall>s. offline s (snd (m s)) \<or> gate_open p s)"

lemma gatedI: "keeps offline m \<Longrightarrow> gated p m"
  by (simp add: gated_def keeps_def)

lemma gated_gate: "gated p (andthen (require_valid_lease_with_feature p OzonRead) f)"
proof -
  have "offline s (snd (require_valid_lease_with_feature p OzonRead s))" for s
    by (rule keeps_snd [OF silent_is_offline(6)])
  then show ?thesis
    by (auto simp: gated_def gate_open_def andthen_run is_ok_def split: sum.split)
qed

lemma gated_lift: "(\<And>a. gated p (f a)) \<Longrightarrow> gated p (andthen (lift r) f)"
  by (cases r) (auto simp: gated_def act_simps offline.R_refl)

lemma gated_gets: "(\<And>a. gated p (f a)) \<Longrightarrow> gated p (andthen (gets g) f)"
  by (auto simp: gated_def act_simps)

lemma gated_andthen:
  assumes "gated p m" and "\<And>s a. fst (m s) = Inr a \<Longrightarrow> gate_open p s"
  shows "gated p (andthen m f)"
  using assms by (fastforce simp: gated_def andthen_run split: sum.split)

lemma gated_with_shop: "gated p (with_shop p f)"
  unfolding with_shop_def by (rule gated_gate)

section \<open>Every handler\<close>

lemma gated_batch: "gated p (andthen (batch_gate p h none verb batch) f)"
proof (rule gated_andthen)
  show "gated p (batch_gate p h none verb batch)"
    unfolding batch_gate_def by (intro gated_lift gated_gate)
  show "gate_open p s" if "fst (batch_gate p h none verb batch s) = Inr a" for s a
    using that by (auto simp: batch_gate_def gate_open_def andthen_run act_simps(3) is_ok_def split: sum.splits)
qed

lemma gated_context: "gated p (andthen (poster_context p r) f)"
proof (rule gated_andthen)
  show "gated p (poster_context p r)"
    unfolding poster_context_def load_product_for_lookup_def by (intro gated_andthen gated_with_shop)
      (auto simp: gate_open_def with_shop_def andthen_run is_ok_def split: sum.splits)
  show "gate_open p s" if "fst (poster_context p r s) = Inr a" for s a
    using that by (auto simp: poster_context_def load_product_for_lookup_def with_shop_def gate_open_def
        andthen_run is_ok_def split: sum.splits)
qed

lemma gated_read: "gated p (execute_ecommerce_read_once p l)"
  unfolding execute_ecommerce_read_once_def by (rule gated_gate)

lemma read_gate: "fst (execute_ecommerce_read_once p l s) = Inr a \<Longrightarrow> gate_open p s"
  by (auto simp: execute_ecommerce_read_once_def andthen_run gate_open_def is_ok_def split: sum.splits)

lemma gated_tools:
  "gated p (ozon_products_count p h)" "gated p (ozon_products_list p h i)" "gated p (ozon_products_get p h l)"
  "gated p (relist_generate p h ts q)" "gated p (relist_push p h ps)" "gated p (relist_export p h t c rows)"
  "gated p (relist_extract p h t c sheet)" "gated p (relist_import_image p h n d)"
  "gated p (module3_recognize p h ts g)" "gated p (module3_push p h qs b)" "gated p (video_create p h v)"
  "gated p (poster_brief_handler p h r)" "gated p (poster_handoff p h r)" "gated p (poster_generate p h r)"
  "gated p (poster_verify p h r cp)" "gated p (run_ecommerce_schedule_now p h)"
  unfolding ozon_products_count_def ozon_products_list_def ozon_products_get_def relist_generate_def
    relist_push_def relist_export_def relist_extract_def relist_import_image_def module3_recognize_def
    module3_push_def video_create_def poster_brief_handler_def poster_handoff_def poster_generate_def
    poster_verify_def run_ecommerce_schedule_now_def
  by (intro gated_lift gated_gets gated_gate gated_with_shop gated_batch gated_context gated_read)+

lemma gated_configure: "gated p (configure_ecommerce_schedule p h b i l)"
proof (cases b)
  case True
  show ?thesis
    unfolding configure_ecommerce_schedule_def Let_def
    by (intro gated_lift gated_andthen)
      (auto simp: True intro!: gated_andthen gated_read simp: andthen_run dest!: read_gate split: sum.splits)
next
  case False
  then have "configure_ecommerce_schedule p h b i l = andthen (lift (require_operator_token (np_config p) h))
      (\<lambda>_. andthen (stop_ecommerce_schedule p ''disabled by local operator'') (\<lambda>_. schedule_response_of p))"
    by (simp add: configure_ecommerce_schedule_def Let_def)
  then show ?thesis
    by (simp only: schedule_response_of_def) (intro gatedI keeps_intros offline_requests)
qed

lemma gated_answered: "gated p m \<Longrightarrow> gated p (answered m)"
  by (simp add: gated_def)

text \<open>The only request that reaches the network without the gate validates credentials.\<close>

lemma gated_request: "r \<noteq> PostOzonValidate \<Longrightarrow> gated p (node_serve p h r)"
  by (cases r) (simp_all add: gated_answered gated_tools gated_configure gatedI offline_requests
      silent_is_offline offline.keeps_pure)

lemma gated_tick: "gated p (worker_tick p k :: ('s, unit) node_act)"
proof -
  let ?failed = "\<lambda>e. andthen (change_schedule (\<lambda>c. c\<lparr>sch_last_error := Some (ne_message e)\<rparr>))
    (\<lambda>_. log_schedule p ''scheduler'' ''schedule.read_failed'' (ne_message e)) :: ('s, unit) node_act"
  have failed: "keeps offline (?failed e)" for e
    unfolding log_schedule_def by (intro keeps_intros)
  have "offline s (snd (match_res (execute_ecommerce_read_once p l) (\<lambda>_. ret ()) ?failed s)) \<or> gate_open p s"
    for l and s :: "'s node"
  proof (cases "gate_open p s")
    case False
    obtain r t where r: "execute_ecommerce_read_once p l s = (r, t)" by fastforce
    then obtain e where e: "r = Inl e" using False read_gate [of p l s] by (cases r) auto
    have "offline s t" using gated_read [of p l] False r by (auto simp: gated_def dest: spec [of _ s])
    then have "offline s (snd (?failed e t))" using offline.R_trans keeps_snd [OF failed] by blast
    then show ?thesis using r e by (simp add: match_res_def)
  qed simp
  moreover have "offline s (s\<lparr>nd_workers := w\<rparr>)" for w and s :: "'s node" by (simp add: offline_def)
  ultimately show ?thesis
    by (auto simp: gated_def worker_tick_def andthen_run act_simps(1,4,5) offline.R_refl split: option.split)
qed

section \<open>What the gate checks\<close>

text \<open>The lease the node holds, in its cache or in its secret store.\<close>

definition lease_held :: "'s node_parts \<Rightarrow> 's node \<Rightarrow> entitlement_lease \<Rightarrow> bool" where
  "lease_held p s l \<longleftrightarrow> nd_lease s = Some l
     \<or> nd_lease s = None \<and> (\<exists>b t. so_get (np_secrets p) secret_cloud_lease (nd_secrets s) = (Inr (Some b), t)
          \<and> Option.bind (x_json_parse (np_crates p) b) (lease_of_json (np_crates p)) = Some l)"

definition lease_in_force :: "'s node_parts \<Rightarrow> 's node \<Rightarrow> bool" where
  "lease_in_force p s \<longleftrightarrow> (\<exists>l fp u. lease_held p s l \<and> src_clock s (clock_n s) < lease_expires_at l
     \<and> OzonRead \<in> set (lease_features l)
     \<and> (if lease_signature l = None then lcf_allow_unsigned_lease (np_config p)
        else signed_for (np_crates p) (np_config p) l)
     \<and> fst (load_or_create_device_fingerprint p u) = Inr fp
     \<and> lease_device_id l = device_id_for (x_uuid_string (np_crates p)) (x_uuid_v5 (np_crates p)) (lease_user_id l) fp)"

lemma load_lease_Inr:
  assumes "load_cloud_lease p s = (Inr l, t)"
  shows "lease_held p s l" "src_clock t = src_clock s" "clock_n t = clock_n s"
proof -
  have "lease_held p s l \<and> src_clock t = src_clock s \<and> clock_n t = clock_n s"
  proof (cases "nd_lease s")
    case (Some l')
    then show ?thesis using assms by (simp add: load_cloud_lease_def act_simps lease_held_def)
  next
    case None
    obtain r u where g: "so_get (np_secrets p) secret_cloud_lease (nd_secrets s) = (r, u)" by fastforce
    show ?thesis
      using assms None g by (cases r) (auto simp: load_cloud_lease_def run_inv lease_held_def get_secret_def
          on_secrets_def res_simps split: option.splits)
  qed
  then show "lease_held p s l" "src_clock t = src_clock s" "clock_n t = clock_n s" by auto
qed

lemma gate_open_lease:
  assumes "gate_open p s"
  shows "\<not> lcf_use_real_ozon (np_config p) \<and> lcf_allow_unsigned_lease (np_config p) \<or> lease_in_force p s"
proof (cases "\<not> lcf_use_real_ozon (np_config p) \<and> lcf_allow_unsigned_lease (np_config p)")
  case False
  obtain t where "require_valid_lease_with_feature p OzonRead s = (Inr (), t)"
    using assms by (auto simp: gate_open_def is_ok_iff prod_eq_iff)
  then obtain l u v fp w where l: "load_cloud_lease p s = (Inr l, u)"
    and c: "validate_cloud_lease_with_feature p l OzonRead u = (Inr (), v)"
    and f: "load_or_create_device_fingerprint p v = (Inr fp, w)"
    and b: "ensure_lease_bound_to_device (np_crates p) l fp = Inr ()"
    using False by (auto simp: require_valid_lease_with_feature_def run_inv)
  note held = load_lease_Inr [OF l]
  have "src_clock s (clock_n s) < lease_expires_at l" "OzonRead \<in> set (lease_features l)"
    "verify_cloud_lease_signature (np_crates p) (np_config p) l = Inr ()"
    using c held(2,3) by (auto simp: lease_validated)
  then have "lease_in_force p s"
    unfolding lease_in_force_def
    using held(1) f b by (intro exI [of _ l] exI [of _ fp] exI [of _ v])
      (auto simp: signature_accepted ensure_lease_bound_to_device_def res_simps split: if_splits)
  then show ?thesis by blast
qed blast

section \<open>Traffic\<close>

text \<open>C5: unless the node is a debug build that runs without leases, no event of the node sends a
  request to the network or runs a command on the host while there is no lease in force: held by
  the node, not expired, with the read feature, signed by the cloud for the configured issuer and
  audience, and bound to this device. The exceptions are the validation of credentials, which
  needs the operator token, and the poller of a video job that was created before.\<close>

theorem traffic_needs_lease:
  assumes "nd_network (snd (node_do p e s)) \<noteq> nd_network s \<or> nd_host (snd (node_do p e s)) \<noteq> nd_host s"
    and "lcf_use_real_ozon (np_config p) \<or> \<not> lcf_allow_unsigned_lease (np_config p)"
  shows "lease_in_force p s
    \<or> (\<exists>h. e = Request h PostOzonValidate \<and> h ''x-local-token'' = Some (lcf_operator_token (np_config p)))
    \<or> (\<exists>k. e = PollerTick k \<and> map_of (nd_pollers s) k \<noteq> None)"
proof (cases "gate_open p s")
  case True
  then show ?thesis using gate_open_lease assms(2) by blast
next
  case False
  have moved: "\<not> offline s (snd (node_do p e s))" using assms(1) by (auto simp: offline_def)
  show ?thesis
  proof (cases e)
    case (Request h r)
    with moved False have r: "r = PostOzonValidate"
      using gated_request [of r p h] by (auto simp: node_do_def gated_def)
    have "require_operator_token (np_config p) h = Inr ()"
      using moved Request r by (cases "require_operator_token (np_config p) h")
        (auto simp: node_do_def validate_ozon_config_def act_simps offline_def)
    then show ?thesis using Request r by (simp add: operator_token_iff)
  next
    case (WorkerTick k)
    then show ?thesis using moved False gated_tick [of p k] by (auto simp: node_do_def gated_def)
  next
    case (PollerTick k)
    then show ?thesis using moved
      by (cases "map_of (nd_pollers s) k") (auto simp: node_do_def poller_tick_def act_simps offline_def)
  next
    case (MockDone i)
    then show ?thesis
      using moved keeps_snd [OF offline_requests(5), of s p i] by (simp add: node_do_def)
  qed
qed

section \<open>A concrete gate\<close>

definition lease_parts :: "secrets node_parts" where
  "lease_parts = sample_parts\<lparr>np_config := sample_local\<lparr>lcf_use_real_ozon := True, lcf_allow_unsigned_lease := False\<rparr>,
     np_reader := http_read_connector toy_crates ''https://api-seller.ozon.ru''\<rparr>"

definition unsigned_lease :: entitlement_lease where
  "unsigned_lease =
     \<lparr> lease_id = 1, lease_tenant_id = TenantId 1, lease_user_id = UserId 1,
       lease_device_id = device_id_for toy_uuid (x_uuid_v5 toy_crates) (UserId 1) ''ors-local-i'',
       lease_entitlement_id = EntitlementId 1, lease_features = [OzonRead], lease_issued_at = 0,
       lease_expires_at = 2000000000000000, lease_signature = None \<rparr>"

definition signed_lease :: entitlement_lease where
  "signed_lease = unsigned_lease\<lparr>lease_signature := Some
     \<lparr> sig_alg = ''RS256'', sig_kid = ''default'', sig_issuer = ''issuer'', sig_audience = ''audience'',
       sig_value = ''leasekey'' @ node_signing_payload toy_crates unsigned_lease ''issuer'' ''audience'' \<rparr>\<rparr>"

definition leased_node :: "secrets node" where
  "leased_node = sample_node\<lparr>nd_lease := Some signed_lease,
     nd_ozon_config := Some \<lparr> soz_client_id = ''c'', soz_api_key = ''k'' \<rparr>\<rparr>"

lemma lease_parts_fields:
  "np_config lease_parts = sample_local\<lparr>lcf_use_real_ozon := True, lcf_allow_unsigned_lease := False\<rparr>"
  "np_crates lease_parts = toy_crates" "np_secrets lease_parts = memory_store" "np_ioreg lease_parts = None"
  "np_reader lease_parts = http_read_connector toy_crates ''https://api-seller.ozon.ru''"
  by (simp_all add: lease_parts_def sample_parts_def)

lemma lease_parts_config:
  "lcf_use_real_ozon (np_config lease_parts)" "\<not> lcf_allow_unsigned_lease (np_config lease_parts)"
  "lcf_openclaw_token (np_config lease_parts) = ''bridge''"
  by (simp_all add: lease_parts_fields sample_local_def)

lemma signed_lease_verifies:
  "verify_cloud_lease_signature toy_crates (np_config lease_parts) signed_lease = Inr ()"
  by (simp add: verify_cloud_lease_signature_def signed_lease_def lease_parts_fields sample_local_def
      toy_crates_def node_signing_payload_def lease_claims_of_def res_simps)

lemma leased_gate:
  "\<exists>t. require_valid_lease_with_feature lease_parts OzonRead leased_node = (Inr (), t)
     \<and> nd_ozon_config t = nd_ozon_config leased_node \<and> nd_network t = sample_network"
proof -
  have clock: "src_clock leased_node 0 = 1700000000000000" "clock_n leased_node = 0" "uuid_n leased_node = 0"
    "src_uuid leased_node 0 = 1" "nd_lease leased_node = Some signed_lease" "nd_secrets leased_node = []"
    "nd_network leased_node = sample_network"
    by (simp_all add: leased_node_def sample_node_def new_node_def task_store.defs store_new_def ambient.defs
        sample_ambient_def)
  have lease: "lease_expires_at signed_lease = 2000000000000000" "lease_features signed_lease = [OzonRead]"
    by (simp_all add: signed_lease_def unsigned_lease_def)
  have uuid: "x_uuid_string toy_crates 1 = ''i''"
    by (simp add: toy_crates_def toy_uuid_def)
  have validated: "validate_cloud_lease_with_feature lease_parts signed_lease OzonRead leased_node
      = (Inr (), leased_node\<lparr>clock_n := 1\<rparr>)"
    by (simp add: lease_validated clock lease signed_lease_verifies lease_parts_fields(2))
  have print: "fst (load_or_create_device_fingerprint lease_parts (leased_node\<lparr>clock_n := 1\<rparr>)) = Inr ''ors-local-i''
    \<and> nd_ozon_config (snd (load_or_create_device_fingerprint lease_parts (leased_node\<lparr>clock_n := 1\<rparr>))) = nd_ozon_config leased_node
    \<and> nd_network (snd (load_or_create_device_fingerprint lease_parts (leased_node\<lparr>clock_n := 1\<rparr>))) = sample_network"
    by (simp add: load_or_create_device_fingerprint_def stable_machine_fingerprint_def lease_parts_fields
        get_secret_def put_secret_def memory_store_def act_simps clock usable_fingerprint_def uuid Let_def
        map_error_def)
  have bound: "ensure_lease_bound_to_device toy_crates signed_lease ''ors-local-i'' = Inr ()"
    by (simp add: ensure_lease_bound_to_device_def signed_lease_def unsigned_lease_def toy_crates_def res_simps)
  show ?thesis
    using print by (simp add: require_valid_lease_with_feature_def lease_parts_fields(2) lease_parts_config
        load_cloud_lease_def act_simps clock validated bound)
qed

lemma count_sends:
  "\<exists>q. rc_product_count (http_read_connector toy_crates ''https://api-seller.ozon.ru'') c sample_network
     = (Inl (HttpError ''refused''), sample_network\<lparr>nw_sent := [q]\<rparr>)"
  by (simp add: http_read_connector_def http_list_with_visibility_def post_ozon_def normalize_list_visibility_def
      res_simps act_simps net_send_def sample_network_def toy_crates_def)

lemma leased_traffic:
  "nd_network (snd (node_do lease_parts (Request bridge_headers PostProductsCount) leased_node)) \<noteq> nd_network leased_node"
proof -
  obtain t where t: "require_valid_lease_with_feature lease_parts OzonRead leased_node = (Inr (), t)"
    "nd_ozon_config t = Some \<lparr> soz_client_id = ''c'', soz_api_key = ''k'' \<rparr>" "nd_network t = sample_network"
    using leased_gate by (auto simp: leased_node_def)
  have token: "require_bridge_or_operator_token (np_config lease_parts) bridge_headers = Inr ()"
    by (simp add: bridge_token_iff bridge_headers_def lease_parts_config)
  have node: "nd_network leased_node = sample_network"
    by (simp add: leased_node_def sample_node_def new_node_def task_store.defs)
  obtain q where q: "rc_product_count (http_read_connector toy_crates ''https://api-seller.ozon.ru'')
      \<lparr> oc_client_id = ''c'', oc_api_key = ''k'' \<rparr> sample_network
      = (Inl (HttpError ''refused''), sample_network\<lparr>nw_sent := [q]\<rparr>)"
    using count_sends by blast
  have "nd_network (snd (ozon_products_count lease_parts bridge_headers leased_node)) = sample_network\<lparr>nw_sent := [q]\<rparr>"
    by (simp add: ozon_products_count_def token andthen_run act_simps(3,4) act_simps(1) part_runs with_shop_def t
        load_ozon_credentials_def lease_parts_fields(5) lease_parts_config ask_def credentials_of_def q res_simps)
  then show ?thesis by (simp add: node_do_def node sample_network_def)
qed

lemma traffic_needs_lease_witness:
  "lease_in_force lease_parts leased_node"
  using traffic_needs_lease [of lease_parts "Request bridge_headers PostProductsCount" leased_node] leased_traffic
  by (simp add: lease_parts_config)

end
