(* ===== verification/LeasePath.thy ===== *)
theory LeasePath
  imports CloudAccess NodeGate
begin

text \<open>
  A lease on its way from the cloud to the shop: \<open>issue_lease\<close> of \<open>apps/cloud-api/src/main.rs\<close> signs
  it, and \<open>verify_cloud_lease_signature\<close> and \<open>ensure_lease_bound_to_device\<close> of
  \<open>apps/local-node/src/main.rs\<close> check it. The two programs build the signed text with code of
  their own; that it is the same text is a lemma here. That a signature made with the private
  key verifies under the public one, and that base64 decodes what it encoded, is what the
  crates document and a hypothesis.
\<close>

lemma payloads_agree: "node_signing_payload x l issuer audience = lease_signing_payload x l issuer audience"
  by (simp add: node_signing_payload_def lease_signing_payload_def)

text \<open>The key pair the cloud and the node are configured with.\<close>

definition keys_match :: "crates \<Rightarrow> app_config \<Rightarrow> string \<Rightarrow> bool" where
  "keys_match x c pub \<longleftrightarrow> (\<forall>pem key r m. cfg_lease_signing_private_key_pem c = Some pem
     \<longrightarrow> rsa_private_key x pem = Some key
     \<longrightarrow> x_rsa_signature x (x_rsa_sign x key r m) \<and> x_rsa_verify x pub m (x_rsa_sign x key r m))"

lemma issued_lease:
  assumes "issue_lease x c h i w = (Inr l, v)"
  shows "\<exists>k pem key r. l = k\<lparr> lease_signature := Some \<lparr> sig_alg = ''RS256'', sig_kid = cfg_lease_signing_key_id c,
        sig_issuer = cfg_lease_issuer c, sig_audience = cfg_lease_audience c,
        sig_value = x_base64_encode x (x_rsa_sign x key r
          (lease_signing_payload x k (cfg_lease_issuer c) (cfg_lease_audience c))) \<rparr> \<rparr>
    \<and> cfg_lease_signing_private_key_pem c = Some pem \<and> rsa_private_key x pem = Some key
    \<and> lease_device_id l = DeviceId i \<and> lease_expires_at l \<le> lease_issued_at l + hours 24"
proof -
  obtain claims w1 w2 d w3 e w4 w5 seen w6 w7 issued w8 fresh w9 where
    "require_user x c h w = (Inr claims, w1)"
    "ensure_test_full_access_for_user_id x c (ac_sub claims) w1 = (Inr (), w2)"
    and d: "find_active_device (DeviceId i) (ac_sub claims) w2 = (Inr (Some d), w3)"
    and "find_active_entitlement_for_user (ac_sub claims) w3 = (Inr (Some e), w4)"
    "enforce_device_limit_for_lease (ac_sub claims) w4 = (Inr (), w5)"
    "utc_now w5 = (Inr seen :: api_error + instant, w6)"
    "touch_device_last_seen (dev_id d) seen w6 = (Inr (), w7)"
    "utc_now w7 = (Inr issued :: api_error + instant, w8)"
    "new_v4 w8 = (Inr fresh :: api_error + uuid, w9)"
    and s: "sign_entitlement_lease x c
         (lease_new fresh issued (ac_tenant_id claims) (ac_sub claims) (dev_id d) e) w9 = (Inr l, v)"
    using assms unfolding issue_lease_def
    by (clarsimp simp: run_inv require_some_Inr transaction_Inr)
  obtain pem key r where k: "cfg_lease_signing_private_key_pem c = Some pem" "rsa_private_key x pem = Some key"
    "l = (lease_new fresh issued (ac_tenant_id claims) (ac_sub claims) (dev_id d) e)
      \<lparr> lease_signature := Some \<lparr> sig_alg = ''RS256'', sig_kid = cfg_lease_signing_key_id c,
        sig_issuer = cfg_lease_issuer c, sig_audience = cfg_lease_audience c,
        sig_value = x_base64_encode x (x_rsa_sign x key r (lease_signing_payload x
          (lease_new fresh issued (ac_tenant_id claims) (ac_sub claims) (dev_id d) e)
          (cfg_lease_issuer c) (cfg_lease_audience c))) \<rparr> \<rparr>"
    using sign_lease_Inr [OF s] by blast
  have "lease_device_id l = DeviceId i \<and> lease_expires_at l \<le> lease_issued_at l + hours 24"
    using find_active_device_Inr [OF d] by (simp add: k(3) lease_new_def Let_def)
  with k show ?thesis by blast
qed

text \<open>C7: a lease the cloud issues for a device passes the node's checks exactly until it expires, at
  most 24 hours after its issue, for every feature it carries, and it is bound to exactly the
  device it was issued for: when the node is configured with the issuer, the audience and the
  public key that belong to the cloud's.\<close>

theorem cloud_lease_opens_node:
  assumes "issue_lease x c h i w = (Inr l, v)"
    and "np_crates p = x" and "lcf_lease_issuer (np_config p) = cfg_lease_issuer c"
    and "lcf_lease_audience (np_config p) = cfg_lease_audience c"
    and "lcf_lease_public_key_pem (np_config p) = Some pem" and "x_rsa_public_pem x pem = Some pub"
    and "keys_match x c pub" and "\<And>b. x_base64_decode x (x_base64_encode x b) = Some b"
    and "f \<in> set (lease_features l)"
  shows "(fst (validate_cloud_lease_with_feature p l f s) = Inr () \<longleftrightarrow> src_clock s (clock_n s) < lease_expires_at l)
    \<and> lease_expires_at l \<le> lease_issued_at l + hours 24
    \<and> (ensure_lease_bound_to_device x l fp = Inr () \<longleftrightarrow>
      DeviceId i = device_id_for (x_uuid_string x) (x_uuid_v5 x) (lease_user_id l) fp)"
proof -
  obtain k sec key r where k: "l = k\<lparr> lease_signature := Some \<lparr> sig_alg = ''RS256'', sig_kid = cfg_lease_signing_key_id c,
        sig_issuer = cfg_lease_issuer c, sig_audience = cfg_lease_audience c,
        sig_value = x_base64_encode x (x_rsa_sign x key r
          (lease_signing_payload x k (cfg_lease_issuer c) (cfg_lease_audience c))) \<rparr> \<rparr>"
    "cfg_lease_signing_private_key_pem c = Some sec" "rsa_private_key x sec = Some key"
    and l: "lease_device_id l = DeviceId i" "lease_expires_at l \<le> lease_issued_at l + hours 24"
    using issued_lease [OF assms(1)] by blast
  let ?text = "lease_signing_payload x k (cfg_lease_issuer c) (cfg_lease_audience c)"
  let ?g = "\<lparr> sig_alg = ''RS256'', sig_kid = cfg_lease_signing_key_id c, sig_issuer = cfg_lease_issuer c,
    sig_audience = cfg_lease_audience c, sig_value = x_base64_encode x (x_rsa_sign x key r ?text) \<rparr>"
  have payload: "node_signing_payload x l (lcf_lease_issuer (np_config p)) (lcf_lease_audience (np_config p)) = ?text"
    unfolding payloads_agree assms(3,4) by (rule lease_payload_claims) (simp add: k(1) lease_claims_of_def)
  have signature: "lease_signature l = Some ?g" by (simp add: k(1))
  have verifies: "x_rsa_signature x (x_rsa_sign x key r ?text)" "x_rsa_verify x pub ?text (x_rsa_sign x key r ?text)"
    using assms(7) k(2,3) by (simp_all add: keys_match_def)
  have "signed_for x (np_config p) l"
    unfolding signed_for_def payload
    by (intro exI [of _ ?g] exI [of _ pub] exI [of _ "x_rsa_sign x key r ?text"] exI [of _ pem] conjI)
      (simp_all only: signature assms(3-6,8) verifies lease_signature.simps)
  then have "verify_cloud_lease_signature x (np_config p) l = Inr ()"
    by (simp only: signature_accepted signature option.distinct if_False simp_thms)
  then have "fst (validate_cloud_lease_with_feature p l f s) = Inr () \<longleftrightarrow> src_clock s (clock_n s) < lease_expires_at l"
    using assms(2,9) lease_validated [of p l f s] by (cases "validate_cloud_lease_with_feature p l f s") auto
  moreover have "ensure_lease_bound_to_device x l fp = Inr () \<longleftrightarrow>
      DeviceId i = device_id_for (x_uuid_string x) (x_uuid_v5 x) (lease_user_id l) fp"
    using l(1) by (simp add: ensure_lease_bound_to_device_def res_simps)
  ultimately show ?thesis using l(2) by blast
qed

definition path_parts :: "secrets node_parts" where
  "path_parts = sample_parts\<lparr>np_crates := user1_crates, np_config := sample_local
     \<lparr>lcf_lease_issuer := default_lease_issuer, lcf_lease_audience := default_lease_audience\<rparr>\<rparr>"

lemma cloud_lease_opens_node_witness:
  "\<exists>l. (fst (validate_cloud_lease_with_feature path_parts l OzonRead sample_node) = Inr ()
      \<longleftrightarrow> src_clock sample_node 0 < lease_expires_at l)
    \<and> lease_expires_at l \<le> lease_issued_at l + hours 24"
proof -
  obtain l v where l: "issue_lease user1_crates sample_config user_headers 30 shop_world = (Inr l, v)"
    "OzonRead \<in> set (lease_features l)"
    using lease_runs by (auto simp: prod_eq_iff split: sum.splits)
  have config: "np_crates path_parts = user1_crates"
    "lcf_lease_issuer (np_config path_parts) = cfg_lease_issuer sample_config"
    "lcf_lease_audience (np_config path_parts) = cfg_lease_audience sample_config"
    "lcf_lease_public_key_pem (np_config path_parts) = Some ''leasekey''"
    by (simp_all add: path_parts_def sample_parts_def sample_local_def sample_config_def)
  have keys: "x_rsa_public_pem user1_crates ''leasekey'' = Some ''leasekey''"
    "keys_match user1_crates sample_config ''leasekey''"
    by (simp_all add: keys_match_def user1_crates_def crates_for_def toy_crates_def sample_config_def
        rsa_private_key_def)
  have "x_base64_decode user1_crates (x_base64_encode user1_crates b) = Some b" for b
    by (simp add: user1_crates_def crates_for_def toy_crates_def)
  moreover have "clock_n sample_node = 0"
    by (simp add: sample_node_def new_node_def task_store.defs store_new_def ambient.defs sample_ambient_def)
  ultimately show ?thesis
    using cloud_lease_opens_node [OF l(1) config keys _ l(2), where s = sample_node] by metis
qed

end
