(* ===== verification/NodeApproval.thy ===== *)
theory NodeApproval
  imports NodeFrame NodeSamples
begin

text \<open>
  Who releases a write task of the local node (\<open>apps/local-node/src/main.rs\<close>). A write is
  released once it is queued, running or executed. Every event of a run but an approval keeps
  the released writes what they were, so each of them goes back to an approval that carried the
  operator token.
\<close>

section \<open>Released writes\<close>

definition released :: "task \<Rightarrow> bool" where
  "released t \<longleftrightarrow> is_write (tsk_operation t) \<and> tsk_state t \<in> {Queued, Running, Succeeded, task_state.Failed}"

text \<open>Nothing is released between two stores, and what was released keeps its approval.\<close>

definition no_release :: "(task_id \<times> task) list \<Rightarrow> (task_id \<times> task) list \<Rightarrow> bool" where
  "no_release ts us \<longleftrightarrow> (\<forall>i k. map_of us i = Some k \<longrightarrow> released k \<longrightarrow>
     (\<exists>k0. map_of ts i = Some k0 \<and> released k0 \<and> tsk_approval k = tsk_approval k0))"

definition holds_back :: "'s node \<Rightarrow> 's node \<Rightarrow> bool" where
  "holds_back s t \<longleftrightarrow> no_release (ts_inner s) (ts_inner t)"

definition store_holds_back :: "task_store \<Rightarrow> task_store \<Rightarrow> bool" where
  "store_holds_back s t \<longleftrightarrow> no_release (ts_inner s) (ts_inner t)"

lemma no_release_refl: "no_release ts ts"
  by (simp add: no_release_def)

lemma no_release_trans:
  assumes "no_release ts us" and "no_release us vs"
  shows "no_release ts vs"
  unfolding no_release_def
proof (intro allI impI)
  fix i k
  assume "map_of vs i = Some k" "released k"
  then obtain k1 where "map_of us i = Some k1" "released k1" "tsk_approval k = tsk_approval k1"
    using assms(2) unfolding no_release_def by blast
  then show "\<exists>k0. map_of ts i = Some k0 \<and> released k0 \<and> tsk_approval k = tsk_approval k0"
    using assms(1) unfolding no_release_def by fastforce
qed

interpretation holding: step_relation holds_back
  by unfold_locales (auto simp: holds_back_def intro: no_release_refl no_release_trans)

lemma calm_holds_back: "keeps calm m \<Longrightarrow> keeps holds_back m"
  by (erule keeps_mono) (simp add: calm_def tables_def holds_back_def no_release_refl)

lemma no_release_update:
  assumes "released k \<Longrightarrow> \<exists>k0. map_of ts i = Some k0 \<and> released k0 \<and> tsk_approval k = tsk_approval k0"
  shows "no_release ts (AList.update i k ts)"
  using assms by (auto simp: no_release_def update_conv')

section \<open>The task engine\<close>

lemma create_holds_back: "keeps store_holds_back (create_dry_run sh c)"
  by (auto simp: keeps_def create_dry_run_run store_holds_back_def Let_def released_def fresh_task_def
      no_release_refl intro!: no_release_update split: option.split)

lemma cancel_holds_back: "keeps store_holds_back (cancel sh i a)"
  by (auto simp: keeps_def cancel_run store_holds_back_def Let_def released_def moved_def
      no_release_refl intro!: no_release_update split: option.split)

lemma running_holds_back: "keeps store_holds_back (mark_running i)"
proof -
  have "can_transition_to st Running \<Longrightarrow> st = Queued" for st by (cases st) simp_all
  then show ?thesis
    by (auto simp: keeps_def mark_running_run store_holds_back_def Let_def released_def moved_def
      no_release_refl intro!: no_release_update split: option.split)
qed

lemma succeeded_holds_back: "keeps store_holds_back (mark_succeeded i r)"
proof -
  have "can_transition_to st Succeeded \<Longrightarrow> st = Running" for st by (cases st) simp_all
  then show ?thesis
    by (auto simp: keeps_def mark_succeeded_run store_holds_back_def Let_def released_def moved_def
      no_release_refl intro!: no_release_update split: option.split)
qed

lemma run_task_holds_back: "keeps store_holds_back m \<Longrightarrow> keeps holds_back (run_task m)"
  by (simp add: run_task_def keeps_def on_tasks_run store_holds_back_def holds_back_def)
     (metis task_fields(1))

lemma holds_tasks:
  "keeps holds_back (node_dry_run p h d)" "keeps holds_back (cancel_task p h i)"
  "keeps holds_back (start_mock_task p h i)" "keeps holds_back (finish_mock_task p i)"
  "keeps holds_back (propose_ecommerce_schedule p h q)"
  unfolding node_dry_run_def cancel_task_def start_mock_task_def finish_mock_task_def
    propose_ecommerce_schedule_def
  by (intro keeps_intros silent_is_calm [THEN calm_holds_back] run_task_holds_back create_holds_back
      cancel_holds_back running_holds_back succeeded_holds_back)+

text \<open>Every event but an approval.\<close>

lemma holds_event:
  assumes "\<And>h i a n. e \<noteq> Request h (PostApprove i a n)"
  shows "holds_back s (snd (node_do p e s))"
proof (cases "Tasks \<in> event_changes e")
  case False
  then show ?thesis
    using event_frame [of e s p] by (simp add: frame_def holds_back_def no_release_refl)
next
  case True
  show ?thesis
  proof (cases e)
    case (Request h r)
    then show ?thesis using True assms
      by (cases r) (simp_all add: node_do_def keeps_snd holds_tasks)
  qed (use True in \<open>simp_all add: node_do_def keeps_snd holds_tasks\<close>)
qed

text \<open>An approval releases at most its own task, with the approval it makes.\<close>

lemma approval_releases:
  assumes "map_of (ts_inner (snd (node_serve p h (PostApprove u by n) s))) i = Some t" and "released t"
  shows "(\<exists>t0. map_of (ts_inner s) i = Some t0 \<and> released t0 \<and> tsk_approval t = tsk_approval t0)
    \<or> i = TaskId u \<and> h ''x-local-token'' = Some (lcf_operator_token (np_config p))
      \<and> (\<exists>a. tsk_approval t = Some a \<and> apr_approved_by a = unwrap_or by ''local-operator'' \<and> apr_note a = n)"
proof (cases "require_operator_token (np_config p) h")
  case Inl
  then show ?thesis using assms by (auto simp: answered_def approve_task_def act_simps)
next
  case (Inr v)
  then have token: "h ''x-local-token'' = Some (lcf_operator_token (np_config p))"
    by (simp add: operator_token_iff)
  have "ts_inner (snd (node_serve p h (PostApprove u by n) s)) =
      ts_inner (snd (approve (x_uuid_string (np_crates p)) (TaskId u)
        (unwrap_or by ''local-operator'') n (task_store.truncate s)))"
    using Inr by (simp add: answered_def approve_task_def act_simps run_task_def on_tasks_run
        split: sum.split)
  then show ?thesis using assms token
    by (fastforce simp: approve_run Let_def moved_def update_conv' split: option.splits if_splits)
qed

section \<open>Runs\<close>

definition approved_in :: "'s node_parts \<Rightarrow> node_event list \<Rightarrow> task_id \<Rightarrow> task \<Rightarrow> bool" where
  "approved_in p es i t \<longleftrightarrow> (\<exists>h u by n a. Request h (PostApprove u by n) \<in> set es \<and> i = TaskId u
     \<and> h ''x-local-token'' = Some (lcf_operator_token (np_config p)) \<and> tsk_approval t = Some a
     \<and> apr_approved_by a = unwrap_or by ''local-operator'' \<and> apr_note a = n)"

lemma event_releases:
  assumes "map_of (ts_inner (snd (node_do p e s))) i = Some t" and "released t"
  shows "(\<exists>t0. map_of (ts_inner s) i = Some t0 \<and> released t0 \<and> tsk_approval t = tsk_approval t0)
    \<or> approved_in p [e] i t"
proof (cases "\<exists>h u by n. e = Request h (PostApprove u by n)")
  case True
  then obtain h u "by" n where e: "e = Request h (PostApprove u by n)" by blast
  then show ?thesis
    using approval_releases [of p h u "by" n s i t] assms unfolding approved_in_def
    by (fastforce simp: node_do_def)
next
  case False
  then have "holds_back s (snd (node_do p e s))" by (intro holds_event) blast
  then show ?thesis using assms unfolding holds_back_def no_release_def by blast
qed

text \<open>C4: in every run of the local node, a write task that is queued, running or executed was
  approved in that run by a request that carried the operator token, and its approval record is
  the one that request made. Neither the bridge nor a background task ever releases a write.\<close>

theorem released_writes_approved_by_operator:
  assumes "map_of (ts_inner (node_run p es (new_node a c sec net host instants timing))) i = Some t"
    and "released t"
  shows "approved_in p es i t"
  using assms
proof (induction es arbitrary: t rule: rev_induct)
  case Nil
  then show ?case by (simp add: new_node_def task_store.defs store_new_def ambient.defs)
next
  case (snoc e es)
  let ?s = "node_run p es (new_node a c sec net host instants timing)"
  have "map_of (ts_inner (snd (node_do p e ?s))) i = Some t"
    using snoc.prems(1) by (simp add: node_run_append)
  from event_releases [OF this snoc.prems(2)]
  show ?case
    using snoc.IH unfolding approved_in_def by fastforce
qed

definition sample_proposal :: dry_run_request where
  "sample_proposal =
     \<lparr> drq_tenant_id = None, drq_shop_id = None, drq_source = None, drq_operation = None,
       drq_dry_run = None, drq_risk = None, drq_idempotency_key = None \<rparr>"

text \<open>The bridge proposes, the operator approves; the task has the third id drawn.\<close>

definition approval_run :: "node_event list" where
  "approval_run = [Request bridge_headers (PostDryRun sample_proposal),
     Request operator_headers (PostApprove 3 None (Some ''ok''))]"

lemma approval_run_released:
  "\<exists>t. map_of (ts_inner (node_run sample_parts approval_run sample_node)) (TaskId 3) = Some t \<and> released t"
proof -
  have "require_bridge_or_operator_token (np_config sample_parts) bridge_headers = Inr ()"
    "require_operator_token (np_config sample_parts) operator_headers = Inr ()"
    by (simp_all add: bridge_token_iff operator_token_iff sample_access)
  then show ?thesis
    by (simp add: approval_run_def node_do_def answered_def node_dry_run_def approve_task_def act_simps
        run_task_def on_tasks_run tenant_or_default_def key_or_fresh_def sample_proposal_def Let_def
        create_dry_run_run approve_run fresh_task_def existing_open_task_def sample_node_def new_node_def
        store_new_def sample_ambient_def task_store.defs ambient.defs moved_def released_def is_write_def unwrap_or_def)
qed

lemma released_writes_approved_by_operator_witness:
  "\<exists>t. approved_in sample_parts approval_run (TaskId 3) t"
proof -
  from approval_run_released obtain t where
    t: "map_of (ts_inner (node_run sample_parts approval_run sample_node)) (TaskId 3) = Some t" "released t"
    by blast
  from released_writes_approved_by_operator [OF t(1) [unfolded sample_node_def] t(2)] show ?thesis by blast
qed

end
