(* ===== verification/NodeDelivery.thy ===== *)
theory NodeDelivery
  imports NodeFrame NodeSamples
begin

text \<open>
  The delivery of workbooks (module 4 of \<open>apps/local-node/src/main.rs\<close>): a path is only handed out
  after the engine has verified the file, and what a failed verification leaves on the disk.
\<close>

section \<open>The stages\<close>

definition rows_file :: "crates \<Rightarrow> string \<Rightarrow> uuid \<Rightarrow> string" where
  "rows_file x exports stem = path_join exports (''export-rows-'' @ x_uuid_simple x stem @ ''.json'')"

definition populated_file :: "crates \<Rightarrow> string \<Rightarrow> uuid \<Rightarrow> string" where
  "populated_file x exports stem = path_join exports (''export-populated-'' @ x_uuid_simple x stem @ ''.xlsx'')"

definition inject_command :: "string \<Rightarrow> string \<Rightarrow> string \<Rightarrow> string \<Rightarrow> string \<Rightarrow> string \<Rightarrow> command" where
  "inject_command python root template config rows populated = engine_command python root
     [''inject'', ''--in'', template, ''--rows'', rows, ''--out'', populated, ''--config'', config, ''--quiet'']"

definition process_command :: "string \<Rightarrow> string \<Rightarrow> string \<Rightarrow> string \<Rightarrow> string \<Rightarrow> command" where
  "process_command python root config populated deliverable = engine_command python root
     [''process'', ''--in'', populated, ''--out'', deliverable, ''--config'', config,
      ''--transform'', ''identity'', ''--verify'', ''--quiet'']"

definition verify_command :: "string \<Rightarrow> string \<Rightarrow> string \<Rightarrow> string \<Rightarrow> string \<Rightarrow> command" where
  "verify_command python root config populated deliverable = engine_command python root
     [''verify'', ''--in'', populated, ''--out'', deliverable, ''--config'', config, ''--report'', ''json'']"

lemmas stage_defs = rows_file_def populated_file_def inject_command_def process_command_def verify_command_def

lemma host_call_Inr: "host_call f t = (Inr (), u) \<longleftrightarrow> ho_fault t (ho_calls t) = None
    \<and> u = t\<lparr>ho_calls := Suc (ho_calls t), ho_files := f (ho_files t)\<rparr>"
  by (auto simp: host_call_def Let_def split: option.splits)

lemma run_command_run: "run_command c t = (Inr (fst (ho_run t c (ho_files t))),
    t\<lparr>ho_files := snd (ho_run t c (ho_files t)), ho_ran := ho_ran t @ [c]\<rparr>)"
  by (simp add: run_command_def case_prod_beta)

lemma engine_stage_Inr:
  assumes "engine_stage x python c stage un failed t = (Inr out, u)"
  shows "fst (ho_run t c (ho_files t)) = Inr out \<and> po_success out
    \<and> u = t\<lparr>ho_files := snd (ho_run t c (ho_files t)), ho_ran := ho_ran t @ [c]\<rparr>"
  using assms by (auto simp: engine_stage_def run_command_run run_inv remove_files_def
      split: sum.splits if_splits)

text \<open>Removing never fails and touches nothing else.\<close>

lemma remove_file_effect:
  "\<exists>u. (remove_file q :: (host, 'e, unit) act) t = (Inr (), u) \<and> ho_ran u = ho_ran t \<and> ho_run u = ho_run t \<and> ho_fault u = ho_fault t
    \<and> (\<forall>r. r \<noteq> q \<longrightarrow> ho_files u r = ho_files t r)
    \<and> (ho_fault t = (\<lambda>_. None) \<longrightarrow> ho_files u = (ho_files t)(q := None))"
  by (auto simp: remove_file_def match_res_def host_call_def Let_def act_simps split: option.split)

lemma remove_each_effect:
  "\<exists>u v. for_each (remove_file :: string \<Rightarrow> (host, 'e, unit) act) qs t = (Inr v, u) \<and> ho_ran u = ho_ran t \<and> ho_run u = ho_run t \<and> ho_fault u = ho_fault t
    \<and> (\<forall>r. r \<notin> set qs \<longrightarrow> ho_files u r = ho_files t r)
    \<and> (ho_fault t = (\<lambda>_. None) \<longrightarrow> ho_files u = (\<lambda>r. if r \<in> set qs then None else ho_files t r))"
proof (induction qs arbitrary: t)
  case Nil
  then show ?case by (simp add: act_simps)
next
  case (Cons q qs)
  obtain u where u: "(remove_file q :: (host, 'e, unit) act) t = (Inr (), u)" "ho_ran u = ho_ran t" "ho_run u = ho_run t" "ho_fault u = ho_fault t"
    "\<forall>r. r \<noteq> q \<longrightarrow> ho_files u r = ho_files t r" "ho_fault t = (\<lambda>_. None) \<longrightarrow> ho_files u = (ho_files t)(q := None)"
    using remove_file_effect by blast
  obtain v w where v: "for_each (remove_file :: string \<Rightarrow> (host, 'e, unit) act) qs u = (Inr w, v)" "ho_ran v = ho_ran u" "ho_run v = ho_run u"
    "ho_fault v = ho_fault u" "\<forall>r. r \<notin> set qs \<longrightarrow> ho_files v r = ho_files u r"
    "ho_fault u = (\<lambda>_. None) \<longrightarrow> ho_files v = (\<lambda>r. if r \<in> set qs then None else ho_files u r)"
    using Cons.IH by blast
  show ?case using u v by (auto simp: andthen_run act_simps(1) fun_eq_iff)
qed

lemma remove_files_effect:
  "\<exists>u. (remove_files qs :: (host, 'e, unit) act) t = (Inr (), u) \<and> ho_ran u = ho_ran t
    \<and> (\<forall>r. r \<notin> set qs \<longrightarrow> ho_files u r = ho_files t r)
    \<and> (ho_fault t = (\<lambda>_. None) \<longrightarrow> ho_files u = (\<lambda>r. if r \<in> set qs then None else ho_files t r))"
proof -
  obtain u v where u: "for_each (remove_file :: string \<Rightarrow> (host, 'e, unit) act) qs t = (Inr v, u)" "ho_ran u = ho_ran t"
    "\<forall>r. r \<notin> set qs \<longrightarrow> ho_files u r = ho_files t r"
    "ho_fault t = (\<lambda>_. None) \<longrightarrow> ho_files u = (\<lambda>r. if r \<in> set qs then None else ho_files t r)"
    using remove_each_effect by blast
  have "(remove_files qs :: (host, 'e, unit) act) t = (Inr (), u)"
    using u(1) by (simp add: remove_files_def andthen_run act_simps(1))
  with u show ?thesis by blast
qed

lemma run_export_pipeline_stages:
  "run_export_pipeline x python root template config exports deliverable stem rows =
     andthen (or_internal ''cannot create exports dir'' (host_call id)) (\<lambda>_.
     andthen (or_internal ''cannot write rows.json'' (host_call (\<lambda>fs. fs(rows_file x exports stem \<mapsto>
       x_json_print x (JArray (map inject_row_to_json rows)))))) (\<lambda>_.
     andthen (engine_stage x python (inject_command python root template config (rows_file x exports stem)
         (populated_file x exports stem)) ''inject'' [rows_file x exports stem]
         [rows_file x exports stem, populated_file x exports stem]) (\<lambda>_.
     andthen (engine_stage x python (process_command python root config (populated_file x exports stem) deliverable)
         ''process --verify'' [rows_file x exports stem, populated_file x exports stem]
         [deliverable, rows_file x exports stem, populated_file x exports stem]) (\<lambda>_.
     andthen (run_command (verify_command python root config (populated_file x exports stem) deliverable)) (\<lambda>r.
     case (case r of
           Inr out \<Rightarrow> if po_success out then (parse_verify_summary x (po_stdout out), [])
             else (None, [''verify --report json did not return a parseable summary''])
         | Inl e \<Rightarrow> (None, [''verify --report json could not run: '' @ e])) of (verify, warnings) \<Rightarrow>
     andthen (remove_files [rows_file x exports stem, populated_file x exports stem]) (\<lambda>_.
       ret \<lparr> eo_out_path = deliverable, eo_verify = verify, eo_warnings = warnings \<rparr>))))))"
  by (simp only: run_export_pipeline_def stage_defs Let_def)

text \<open>A stage run forward.\<close>

lemma engine_stage_succeeds:
  "ho_run t c (ho_files t) = (Inr out, g) \<Longrightarrow> po_success out \<Longrightarrow>
    engine_stage x python c stage un failed t = (Inr out, t\<lparr>ho_files := g, ho_ran := ho_ran t @ [c]\<rparr>)"
  by (simp add: engine_stage_def andthen_run run_command_run act_simps(1))

lemma engine_stage_fails:
  assumes "ho_run t c (ho_files t) = (Inr out, g)" and "\<not> po_success out"
  shows "engine_stage x python c stage un failed t =
    (case summarize_stderr x (po_stderr out) of
       Inl e \<Rightarrow> (Inl e, t\<lparr>ho_files := g, ho_ran := ho_ran t @ [c]\<rparr>)
     | Inr m \<Rightarrow> (Inl (task_failure.Failed (map_engine_exit (unwrap_or (po_code out) (-1)) m stage)),
         snd ((remove_files failed :: (host, task_failure, unit) act) (t\<lparr>ho_files := g, ho_ran := ho_ran t @ [c]\<rparr>))))"
  using assms remove_files_effect [of failed "t\<lparr>ho_files := g, ho_ran := ho_ran t @ [c]\<rparr>", where 'e = task_failure]
  by (auto simp: engine_stage_def andthen_run run_command_run act_simps(2,3) split: sum.split)

section \<open>Properties\<close>

text \<open>C18: when the pipeline hands out a path, the engine has filled the template with the rows, then
  produced and verified the file at that path, each with success, and apart from the two
  intermediate files the disk is what the final report left.\<close>

theorem exported_file_is_verified:
  assumes "run_export_pipeline x python root template config exports deliverable stem rows t = (Inr out, u)"
  shows "\<exists>o1 g1 o2 g2 r g3.
      ho_run t (inject_command python root template config (rows_file x exports stem) (populated_file x exports stem))
        ((ho_files t)(rows_file x exports stem \<mapsto> x_json_print x (JArray (map inject_row_to_json rows)))) = (Inr o1, g1)
    \<and> po_success o1
    \<and> ho_run t (process_command python root config (populated_file x exports stem) deliverable) g1 = (Inr o2, g2)
    \<and> po_success o2
    \<and> ho_run t (verify_command python root config (populated_file x exports stem) deliverable) g2 = (r, g3)
    \<and> eo_out_path out = deliverable
    \<and> (\<forall>q. q \<notin> {rows_file x exports stem, populated_file x exports stem} \<longrightarrow> ho_files u q = g3 q)"
proof -
  let ?rows = "rows_file x exports stem" and ?pop = "populated_file x exports stem"
  obtain t1 t2 o1 t3 o2 t4 r t5 t6 where
    dir: "host_call id t = (Inr (), t1)"
    and wr: "host_call (\<lambda>fs. fs(?rows \<mapsto> x_json_print x (JArray (map inject_row_to_json rows)))) t1 = (Inr (), t2)"
    and s1: "engine_stage x python (inject_command python root template config ?rows ?pop) ''inject''
      [?rows] [?rows, ?pop] t2 = (Inr o1, t3)"
    and s2: "engine_stage x python (process_command python root config ?pop deliverable) ''process --verify''
      [?rows, ?pop] [deliverable, ?rows, ?pop] t3 = (Inr o2, t4)"
    and v: "(run_command (verify_command python root config ?pop deliverable) :: (host, task_failure, _) act) t4 = (Inr r, t5)"
    and rm: "(remove_files [?rows, ?pop] :: (host, task_failure, unit) act) t5 = (Inr (), t6)"
    and o: "eo_out_path out = deliverable" "u = t6"
    using assms unfolding run_export_pipeline_stages or_internal_def
    by (clarsimp simp: run_inv case_prod_beta)
  have t2: "ho_files t2 = (ho_files t)(?rows \<mapsto> x_json_print x (JArray (map inject_row_to_json rows)))"
    "ho_run t2 = ho_run t"
    using dir wr by (auto simp: host_call_Inr)
  note i1 = engine_stage_Inr [OF s1] and i2 = engine_stage_Inr [OF s2]
  have "\<forall>q. q \<notin> {?rows, ?pop} \<longrightarrow> ho_files u q = ho_files t5 q"
    using remove_files_effect [of "[?rows, ?pop]" t5, where 'e = task_failure] rm o(2) by auto
  then show ?thesis
    using i1 i2 v o(1) t2 by (auto simp: run_command_run prod_eq_iff)
qed

text \<open>C26: when the verification of the file fails, the pipeline answers with the error of the exit
  code and removes the file and both intermediate ones, unless the summary of the error output
  panics: a last line over 280 bytes is cut after 277 bytes, and when that is inside a character
  the task panics and everything stays on the disk, the refused file included.\<close>

theorem failed_verification_discards:
  assumes "ho_fault t = (\<lambda>_. None)"
    and "ho_run t (inject_command python root template config (rows_file x exports stem) (populated_file x exports stem))
        ((ho_files t)(rows_file x exports stem \<mapsto> x_json_print x (JArray (map inject_row_to_json rows)))) = (Inr o1, g1)"
    and "po_success o1"
    and "ho_run t (process_command python root config (populated_file x exports stem) deliverable) g1 = (Inr o2, g2)"
    and "\<not> po_success o2"
  shows "case run_export_pipeline x python root template config exports deliverable stem rows t of (r, u) \<Rightarrow>
    (case summarize_stderr x (po_stderr o2) of
       Inl e \<Rightarrow> r = Inl e \<and> ho_files u = g2
     | Inr m \<Rightarrow> r = Inl (task_failure.Failed (map_engine_exit (unwrap_or (po_code o2) (-1)) m ''process --verify''))
         \<and> ho_files u = (\<lambda>q. if q \<in> {deliverable, rows_file x exports stem, populated_file x exports stem} then None
             else g2 q))"
proof -
  let ?rows = "rows_file x exports stem" and ?pop = "populated_file x exports stem"
  let ?f = "\<lambda>fs. fs(?rows \<mapsto> x_json_print x (JArray (map inject_row_to_json rows)))"
  let ?c1 = "inject_command python root template config ?rows ?pop"
  let ?c2 = "process_command python root config ?pop deliverable"
  obtain t1 t2 where calls: "\<And>w. or_internal w (host_call id) t = (Inr (), t1)"
      "\<And>w. or_internal w (host_call ?f) t1 = (Inr (), t2)"
    and t2: "ho_run t2 = ho_run t" "ho_fault t2 = (\<lambda>_. None)" "ho_files t2 = ?f (ho_files t)"
    by (simp add: or_internal_def map_error_def host_call_def assms(1) Let_def res_simps)
  obtain t3 where t3: "t3 = t2\<lparr>ho_files := g1, ho_ran := ho_ran t2 @ [?c1]\<rparr>" by blast
  obtain t4 where t4: "t4 = t3\<lparr>ho_files := g2, ho_ran := ho_ran t3 @ [?c2]\<rparr>" by blast
  have fields: "ho_run t3 = ho_run t" "ho_files t3 = g1" "ho_files t4 = g2" "ho_fault t4 = (\<lambda>_. None)"
    using t2 by (simp_all add: t3 t4)
  have s1: "engine_stage x python ?c1 ''inject'' un fl t2 = (Inr o1, t3)" for un fl
    unfolding t3 by (rule engine_stage_succeeds) (simp_all only: t2 assms(2,3))
  have s2: "engine_stage x python ?c2 ''process --verify'' un fl t3 =
    (case summarize_stderr x (po_stderr o2) of Inl e \<Rightarrow> (Inl e, t4)
     | Inr m \<Rightarrow> (Inl (task_failure.Failed (map_engine_exit (unwrap_or (po_code o2) (-1)) m ''process --verify'')),
         snd ((remove_files fl :: (host, task_failure, unit) act) t4)))" for un fl
    unfolding t4 by (rule engine_stage_fails) (simp_all add: fields assms(4,5))
  obtain u where u: "(remove_files [deliverable, ?rows, ?pop] :: (host, task_failure, unit) act) t4 = (Inr (), u)"
    "ho_files u = (\<lambda>q. if q \<in> set [deliverable, ?rows, ?pop] then None else g2 q)"
    using remove_files_effect [of "[deliverable, ?rows, ?pop]" t4, where 'e = task_failure] fields by auto
  show ?thesis
  proof (cases "summarize_stderr x (po_stderr o2)")
    case (Inl e)
    then show ?thesis
      by (simp add: run_export_pipeline_stages andthen_run calls s1 s2 fields)
  next
    case (Inr m)
    then show ?thesis
      using u(2) by (simp add: run_export_pipeline_stages andthen_run calls s1 s2 u(1))
  qed
qed

section \<open>Concrete hosts\<close>

text \<open>A host that writes the deliverable in the processing stage and then runs as given.\<close>

definition engine_host :: "process_output \<Rightarrow> host" where
  "engine_host out = sample_host\<lparr>ho_run := (\<lambda>c fs.
     if ''process'' \<in> set (cm_args c) then (Inr out, fs(''out'' \<mapsto> ''xlsx''))
     else (Inr \<lparr> po_code = Some 0, po_stdout = [], po_stderr = [] \<rparr>, fs))\<rparr>"

text \<open>141 letters of two bytes each: the cut after 277 bytes is inside one.\<close>

definition cyrillic_line :: string where
  "cyrillic_line = concat (replicate 141 [CHR 0xD0, CHR 0xB0])"

lemma cyrillic_panics: "summarize_stderr toy_crates cyrillic_line = Inl Panicked"
  by code_simp

lemma exported_file_is_verified_witness:
  "\<exists>out u. run_export_pipeline toy_crates ''py'' ''/r'' ''t'' ''c'' ''/e'' ''out'' 1 []
     (engine_host \<lparr> po_code = Some 0, po_stdout = [], po_stderr = [] \<rparr>) = (Inr out, u) \<and> eo_out_path out = ''out''"
proof -
  let ?t = "engine_host \<lparr> po_code = Some 0, po_stdout = [], po_stderr = [] \<rparr>"
  have "is_ok (fst (run_export_pipeline toy_crates ''py'' ''/r'' ''t'' ''c'' ''/e'' ''out'' 1 [] ?t))"
    by code_simp
  then obtain out u where "run_export_pipeline toy_crates ''py'' ''/r'' ''t'' ''c'' ''/e'' ''out'' 1 [] ?t = (Inr out, u)"
    by (auto simp: is_ok_iff prod_eq_iff)
  from exported_file_is_verified [OF this] this show ?thesis by blast
qed

lemma failed_verification_discards_witness:
  "case run_export_pipeline toy_crates ''py'' ''/r'' ''t'' ''c'' ''/e'' ''out'' 1 []
     (engine_host \<lparr> po_code = Some 1, po_stdout = [], po_stderr = cyrillic_line \<rparr>) of (r, u) \<Rightarrow>
     r = Inl Panicked \<and> ho_files u ''out'' = Some ''xlsx''"
proof -
  let ?o2 = "\<lparr> po_code = Some 1, po_stdout = [], po_stderr = cyrillic_line \<rparr>"
  let ?t = "engine_host ?o2"
  have commands: "''process'' \<notin> set (cm_args (inject_command ''py'' ''/r'' ''t'' ''c'' (rows_file toy_crates ''/e'' 1) (populated_file toy_crates ''/e'' 1)))"
    "''process'' \<in> set (cm_args (process_command ''py'' ''/r'' ''c'' (populated_file toy_crates ''/e'' 1) ''out''))"
    by code_simp+
  have "ho_fault ?t = (\<lambda>_. None)" by (simp add: engine_host_def sample_host_def)
  from failed_verification_discards [OF this, of "''py''" "''/r''" "''t''" "''c''" toy_crates "''/e''" 1 "[]"
      "\<lparr> po_code = Some 0, po_stdout = [], po_stderr = [] \<rparr>" _ "''out''" ?o2]
  show ?thesis
    using commands by (simp add: engine_host_def cyrillic_panics po_success_def split_beta)
qed

end
