(* ===== verification/NodePairing.thy ===== *)
theory NodePairing
  imports NodeFrame NodeSamples
begin

text \<open>
  The pairing of the bridge (\<open>apps/local-node/src/main.rs\<close>): what starting and claiming change,
  and that a code is started by the operator, claimed from an allowed origin while it is live,
  and claimed once.
\<close>

section \<open>Starting and claiming\<close>

definition codes :: "'s node \<Rightarrow> string set" where
  "codes s = fst ` set (nd_pairings s)"

definition code_at :: "'s node_parts \<Rightarrow> 's node \<Rightarrow> nat \<Rightarrow> string" where
  "code_at p s j = x_uuid_simple (np_crates p) (src_uuid s j)"

lemma codes_update: "fst ` set (AList.update k v ps) = insert k (fst ` set ps)"
  by (induction ps) auto

lemma start_codes:
  "codes (snd (start_openclaw_pairing p h s)) \<subseteq> codes s
   \<or> require_operator_token (np_config p) h = Inr () \<and> uuid_n s < uuid_n (snd (start_openclaw_pairing p h s))
     \<and> codes (snd (start_openclaw_pairing p h s)) \<subseteq> insert (code_at p s (uuid_n s)) (codes s)"
proof (cases "require_operator_token (np_config p) h")
  case Inl
  then show ?thesis by (simp add: start_openclaw_pairing_def act_simps)
next
  case (Inr a)
  show ?thesis
    by (cases "build_openclaw_bind_url (np_crates p) (lcf_openclaw_bind_url (np_config p))
        (code_at p s (uuid_n s)) (skill_url p @ ''/openclaw/pairing/claim'') (manifest_url_of p)")
      (auto simp: start_openclaw_pairing_def act_simps Inr Let_def retain_live_def codes_def code_at_def
        codes_update)
qed

lemma claim_codes: "codes (snd (claim_openclaw_pairing p h c s)) \<subseteq> codes s"
proof -
  have "fst ` set (AList.delete k (filter P ps)) \<subseteq> fst ` set ps" for k P and ps :: "(string \<times> openclaw_pairing) list"
    by (auto simp: AList.delete_eq)
  then show ?thesis
    by (auto simp: claim_openclaw_pairing_def act_simps Let_def retain_live_def codes_def
        split: sum.split option.split)
qed

lemma claim_Inr:
  assumes "claim_openclaw_pairing p h c s = (Inr r, t)"
  shows "require_openclaw_pairing_origin (np_env p) h = Inr ()"
    and "\<exists>pr. (trim c, pr) \<in> set (nd_pairings s) \<and> nd_instant s (nd_instant_n s) < op_expires_at pr
      \<and> pcl_expires_at r = op_expires_at_rfc3339 pr"
    and "trim c \<notin> codes t" "src_uuid t = src_uuid s" "uuid_n t = uuid_n s"
    and "pcl_auth_token r = lcf_openclaw_token (np_config p)"
  using assms
  by (auto simp: claim_openclaw_pairing_def run_inv Let_def retain_live_def codes_def instant_now_def res_simps
      AList.delete_eq dest!: map_of_SomeD)

lemma claim_needs_code:
  assumes "trim c \<notin> codes s"
  shows "\<not> is_ok (fst (claim_openclaw_pairing p h c s))"
  using claim_Inr(2) [of p h c s "projr (fst (claim_openclaw_pairing p h c s))" "snd (claim_openclaw_pairing p h c s)"]
    assms
  by (cases "fst (claim_openclaw_pairing p h c s)") (auto simp: is_ok_def codes_def prod_eq_iff rev_image_eqI)

section \<open>Runs\<close>

text \<open>Where a code comes from: an id drawn before, in a start that carried the operator token.\<close>

definition started_in :: "'s node_parts \<Rightarrow> node_event list \<Rightarrow> bool" where
  "started_in p es \<longleftrightarrow> (\<exists>h. Request h PostPairingStart \<in> set es
     \<and> h ''x-local-token'' = Some (lcf_operator_token (np_config p)))"

definition drawn_code :: "'s node_parts \<Rightarrow> string \<Rightarrow> 's node \<Rightarrow> bool" where
  "drawn_code p c s \<longleftrightarrow> (\<exists>j < uuid_n s. c = code_at p s j)"

lemma event_codes:
  "codes (snd (node_do p e s)) \<subseteq> codes s
   \<or> started_in p [e] \<and> uuid_n s < uuid_n (snd (node_do p e s))
     \<and> codes (snd (node_do p e s)) \<subseteq> insert (code_at p s (uuid_n s)) (codes s)"
proof (cases "Pairings \<in> event_changes e")
  case False
  then show ?thesis using event_frame [of e s p] by (simp add: frame_def codes_def)
next
  case True
  then obtain h r where e: "e = Request h r" by (cases e) simp_all
  with True consider "r = PostPairingStart" | c where "r = PostPairingClaim c" by (cases r) simp_all
  then show ?thesis
    using start_codes [of p h s] claim_codes [of p h _ s] e
    by cases (auto simp: node_do_def started_in_def operator_token_iff)
qed

lemma drawn_kept: "drawn_code p c s \<Longrightarrow> drawn_code p c (snd (node_do p e s))"
  using event_draws(1) [of p e s] event_draws(2) [of s p e] unfolding drawn_code_def code_at_def by (metis less_le_trans)

lemma event_gone:
  assumes "drawn_code p c s" and "c \<notin> codes s"
    and "inj_on (code_at p s) {..<uuid_n (snd (node_do p e s))}"
  shows "c \<notin> codes (snd (node_do p e s))"
proof -
  obtain j where j: "j < uuid_n s" "c = code_at p s j" using assms(1) by (auto simp: drawn_code_def)
  from event_codes [of p e s] show ?thesis
  proof
    assume e: "started_in p [e] \<and> uuid_n s < uuid_n (snd (node_do p e s))
     \<and> codes (snd (node_do p e s)) \<subseteq> insert (code_at p s (uuid_n s)) (codes s)"
    then have "code_at p s j \<noteq> code_at p s (uuid_n s)"
      using j inj_onD [OF assms(3), of j "uuid_n s"] by auto
    then show ?thesis using e j assms(2) by auto
  qed (use assms(2) in blast)
qed

lemma code_at_kept: "code_at p (snd (node_do p e s)) = code_at p s"
  by (rule ext) (simp add: code_at_def event_draws)

lemma run_gone:
  assumes "drawn_code p c s" and "c \<notin> codes s" and "inj_on (code_at p s) {..<uuid_n (node_run p es s)}"
  shows "c \<notin> codes (node_run p es s)"
  using assms
proof (induction es arbitrary: s)
  case (Cons e es)
  let ?t = "snd (node_do p e s)"
  have distinct: "inj_on (code_at p s) {..<uuid_n (node_run p es ?t)}" using Cons.prems(3) by simp
  have "{..<uuid_n ?t} \<subseteq> {..<uuid_n (node_run p es ?t)}" using run_draws(2) [of ?t p es] by auto
  from event_gone [OF Cons.prems(1,2) inj_on_subset [OF distinct this]]
  show ?case using Cons.IH [OF drawn_kept [OF Cons.prems(1)]] distinct by (simp add: code_at_kept)
qed simp

text \<open>In a run from the start of the node.\<close>

lemma run_codes:
  assumes "c \<in> codes (node_run p es (new_node a cfg sec net host instants timing))"
  shows "started_in p es \<and> drawn_code p c (node_run p es (new_node a cfg sec net host instants timing))"
  using assms
proof (induction es rule: rev_induct)
  case Nil
  then show ?case by (simp add: codes_def new_node_def task_store.defs)
next
  case (snoc e es)
  let ?s = "node_run p es (new_node a cfg sec net host instants timing)"
  have c: "c \<in> codes (snd (node_do p e ?s))" using snoc.prems by (simp add: node_run_append)
  show ?case
  proof (cases "c \<in> codes ?s")
    case True
    then show ?thesis using snoc.IH drawn_kept [of p c ?s e] by (auto simp: started_in_def node_run_append)
  next
    case False
    then have "started_in p [e]" "uuid_n ?s < uuid_n (snd (node_do p e ?s))" "c = code_at p ?s (uuid_n ?s)"
      using event_codes [of p e ?s] c by blast+
    then show ?thesis
      unfolding started_in_def drawn_code_def by (auto simp: node_run_append code_at_kept)
  qed
qed

section \<open>Pairing codes\<close>

text \<open>C11: whenever a claim succeeds in a run of the node, the operator had started a pairing in that
  run, the request came from an allowed origin, and the code was one of the pairings and had not
  expired. The answer is the token of the bridge, never the operator's, and from then on no
  claim with that code succeeds again, in any continuation of the run, provided the codes drawn
  are distinct.\<close>

theorem pairing_codes_claimed_once:
  assumes "claim_openclaw_pairing p h c (node_run p es (new_node a cfg sec net host instants timing)) = (Inr r, t)"
    and "inj_on (code_at p t) {..<uuid_n (node_run p fs t)}"
  shows "started_in p es \<and> require_openclaw_pairing_origin (np_env p) h = Inr ()
    \<and> (\<exists>pr s. s = node_run p es (new_node a cfg sec net host instants timing)
        \<and> (trim c, pr) \<in> set (nd_pairings s) \<and> nd_instant s (nd_instant_n s) < op_expires_at pr)
    \<and> pcl_auth_token r = lcf_openclaw_token (np_config p)
    \<and> (trim c' = trim c \<longrightarrow> \<not> is_ok (fst (claim_openclaw_pairing p h' c' (node_run p fs t))))"
proof -
  let ?s = "node_run p es (new_node a cfg sec net host instants timing)"
  note claim = claim_Inr [OF assms(1)]
  have "trim c \<in> codes ?s" using claim(2) by (force simp: codes_def)
  from run_codes [OF this] have from_start: "started_in p es" "drawn_code p (trim c) ?s" by auto
  have "drawn_code p (trim c) t" using from_start(2) claim(4,5) by (simp add: drawn_code_def code_at_def)
  from run_gone [OF this claim(3) assms(2)] have "trim c \<notin> codes (node_run p fs t)" .
  then have "trim c' = trim c \<longrightarrow> \<not> is_ok (fst (claim_openclaw_pairing p h' c' (node_run p fs t)))"
    using claim_needs_code [of c'] by metis
  then show ?thesis using from_start claim by blast
qed

definition claim_headers :: headers where
  "claim_headers n = (if n = ''origin'' then Some ''http://localhost:18789'' else None)"

lemma pairing_claimed:
  "\<exists>r t. claim_openclaw_pairing sample_parts claim_headers ''i''
     (node_run sample_parts [Request operator_headers PostPairingStart] sample_node) = (Inr r, t) \<and> uuid_n t = 1"
proof -
  have "require_operator_token (np_config sample_parts) operator_headers = Inr ()"
    by (simp add: operator_token_iff sample_access)
  moreover have "require_openclaw_pairing_origin (np_env sample_parts) claim_headers = Inr ()"
    by (simp add: require_openclaw_pairing_origin_def claim_headers_def is_allowed_openclaw_pairing_origin_def
        res_simps)
  moreover have "trim ''i'' = ''i''" by code_simp
  ultimately show ?thesis
    by (simp add: node_do_def answered_def start_openclaw_pairing_def claim_openclaw_pairing_def act_simps
        Let_def build_openclaw_bind_url_def retain_live_def sample_node_def new_node_def task_store.defs
        store_new_def ambient.defs sample_ambient_def res_simps)
      (simp add: sample_parts_def toy_crates_def toy_uuid_def openclaw_pairing_ttl_def res_simps act_simps)
qed

lemma pairing_codes_claimed_once_witness:
  "\<exists>t. \<not> is_ok (fst (claim_openclaw_pairing sample_parts claim_headers ''i'' t))"
proof -
  obtain r t where c: "claim_openclaw_pairing sample_parts claim_headers ''i''
     (node_run sample_parts [Request operator_headers PostPairingStart] sample_node) = (Inr r, t)" "uuid_n t = 1"
    using pairing_claimed by blast
  have "inj_on (code_at sample_parts t) {..<uuid_n (node_run sample_parts [] t)}"
    using c(2) by (simp add: inj_on_def)
  from pairing_codes_claimed_once [OF c(1) [unfolded sample_node_def] this] show ?thesis by blast
qed

end
