(* ===== verification/NodePollers.thy ===== *)
theory NodePollers
  imports NodeFrame NodeSamples
begin

text \<open>
  Video jobs and their pollers (\<open>apps/local-node/src/main.rs\<close>): what one tick of a poller and
  the creation of a job change, and that every job reaches an end. A poller has a number of
  attempts left; each of its ticks uses one up, whatever the provider answers and whatever other
  events run in between.
\<close>

section \<open>One attempt\<close>

definition jobs_changed :: "uuid \<Rightarrow> (video_job \<Rightarrow> video_job) \<Rightarrow> (uuid \<times> video_job) list \<Rightarrow> (uuid \<times> video_job) list" where
  "jobs_changed i f js = map (\<lambda>(j, v). (j, if j = i then f v else v)) js"

lemma map_of_jobs_changed [simp]:
  "map_of (jobs_changed i f js) j = (if j = i then map_option f (map_of js i) else map_of js j)"
  by (induction js) (auto simp: jobs_changed_def)

lemma change_job_run: "change_job i f s = (Inr (), s\<lparr>nd_video_jobs := jobs_changed i f (nd_video_jobs s)\<rparr>)"
  by (simp add: change_job_def act_simps jobs_changed_def)

text \<open>Only the job of the poller is written.\<close>

definition writes_job :: "uuid \<Rightarrow> (video_job \<Rightarrow> video_job) \<Rightarrow> 's node \<Rightarrow> 's node \<Rightarrow> bool" where
  "writes_job i f s t \<longleftrightarrow> nd_video_jobs t = jobs_changed i f (nd_video_jobs s) \<and> nd_pollers t = nd_pollers s
     \<and> nd_spawned t = nd_spawned s"

lemma calm_videos:
  "calm s t \<Longrightarrow> nd_video_jobs t = nd_video_jobs s" "calm s t \<Longrightarrow> nd_pollers t = nd_pollers s"
  "calm s t \<Longrightarrow> nd_spawned t = nd_spawned s"
  by (simp_all add: calm_def tables_def)

lemma poll_attempt_effect:
  fixes s :: "'s node"
  assumes "map_of (nd_video_jobs s) i = Some v"
  shows "\<exists>fin f. fst ((poll_attempt p i job :: ('s, bool) node_act) s) = Inr fin
    \<and> writes_job i f s (snd ((poll_attempt p i job :: ('s, bool) node_act) s))
    \<and> (fin \<longrightarrow> video_is_terminal (vj_status (f v)))"
proof -
  obtain r t where r: "video_poll_status p job s = (r, t)" by fastforce
  have t: "nd_video_jobs t = nd_video_jobs s" "nd_pollers t = nd_pollers s" "nd_spawned t = nd_spawned s"
    using keeps_snd [OF keeps_video_calls(2), of s p job] r by (simp_all add: calm_videos)
  let ?now = "x_to_rfc3339 (np_crates p) (src_clock t (clock_n t))"
  show ?thesis
  proof (cases r)
    case (Inl e)
    have "fst ((poll_attempt p i job :: ('s, bool) node_act) s) = Inr False
      \<and> writes_job i (poll_failed (ne_message e) ?now) s (snd ((poll_attempt p i job :: ('s, bool) node_act) s))"
      using r t assms Inl by (simp add: poll_attempt_def job_known_def act_simps match_res_def change_job_run
          writes_job_def)
    then show ?thesis by blast
  next
    case (Inr a)
    obtain st url err where a: "a = (st, url, err)" by (cases a)
    have "fst ((poll_attempt p i job :: ('s, bool) node_act) s) = Inr (video_is_terminal st)
      \<and> writes_job i (polled st url err ?now) s (snd ((poll_attempt p i job :: ('s, bool) node_act) s))"
      using r t assms Inr a by (simp add: poll_attempt_def job_known_def act_simps match_res_def change_job_run
          writes_job_def)
    moreover have "video_is_terminal st \<longrightarrow> video_is_terminal (vj_status (polled st url err ?now v))"
      by (simp add: polled_def)
    ultimately show ?thesis by blast
  qed
qed

text \<open>A tick of a poller whose job is known: the job is written, and then the poller is gone with
  a terminal job, or it has one attempt less.\<close>

lemma jobs_changed_twice: "jobs_changed i f (jobs_changed i g js) = jobs_changed i (\<lambda>v. f (g v)) js"
  by (auto simp: jobs_changed_def)

lemma poll_deadline_run:
  assumes "map_of (nd_video_jobs s) i = Some v"
  shows "poll_deadline p i s = (Inr (), if video_is_terminal (vj_status v) then s
    else s\<lparr>clock_n := Suc (clock_n s), nd_video_jobs := jobs_changed i
      (timed_out (x_to_rfc3339 (np_crates p) (src_clock s (clock_n s)))) (nd_video_jobs s)\<rparr>)"
  using assms by (simp add: poll_deadline_def act_simps change_job_run)

lemma poller_tick_run:
  assumes "map_of (nd_pollers s) k = Some (i, job, n)"
    and "(poll_attempt p i job :: ('s, bool) node_act) s = (Inr fin, u)"
  shows "snd ((poller_tick p k :: ('s, unit) node_act) s) =
    (if fin then u\<lparr>nd_pollers := filter (\<lambda>(j, _). j \<noteq> k) (nd_pollers u)\<rparr>
     else if n \<le> 1 then snd (andthen (poll_deadline p i) (\<lambda>_. drop_poller k :: ('s, unit) node_act) u)
     else u\<lparr>nd_pollers := map (\<lambda>(j, i, job, m). (j, i, job, if j = k then n - 1 else m)) (nd_pollers u)\<rparr>)"
  using assms by (simp add: poller_tick_def andthen_run act_simps(4,5) drop_poller_def set_attempts_def
      del: One_nat_def)

lemma poller_tick_effect:
  fixes s :: "'s node" and p k
  assumes "map_of (nd_pollers s) k = Some (i, job, n)" and "map_of (nd_video_jobs s) i = Some v"
  defines "t \<equiv> snd ((poller_tick p k :: ('s, unit) node_act) s)"
  shows "\<exists>f. nd_video_jobs t = jobs_changed i f (nd_video_jobs s) \<and> nd_spawned t = nd_spawned s
    \<and> (nd_pollers t = filter (\<lambda>(j, _). j \<noteq> k) (nd_pollers s) \<and> video_is_terminal (vj_status (f v))
       \<or> 1 < n \<and> nd_pollers t = map (\<lambda>(j, i, job, m). (j, i, job, if j = k then n - 1 else m)) (nd_pollers s))"
proof -
  obtain fin f u where a: "(poll_attempt p i job :: ('s, bool) node_act) s = (Inr fin, u)"
    "writes_job i f s u" "fin \<longrightarrow> video_is_terminal (vj_status (f v))"
    using poll_attempt_effect [OF assms(2)] by (metis prod.collapse)
  note t = poller_tick_run [OF assms(1) a(1), folded t_def]
  have u: "map_of (nd_video_jobs u) i = Some (f v)" "nd_pollers u = nd_pollers s" "nd_spawned u = nd_spawned s"
    "nd_video_jobs u = jobs_changed i f (nd_video_jobs s)"
    using a(2) assms(2) by (simp_all add: writes_job_def)
  consider (fin) fin | (last) "\<not> fin" "n \<le> 1" | (more) "\<not> fin" "1 < n" by fastforce
  then show ?thesis
  proof cases
    case fin
    then show ?thesis using a(3) t u by auto
  next
    case last
    let ?now = "x_to_rfc3339 (np_crates p) (src_clock u (clock_n u))"
    have "nd_video_jobs t = jobs_changed i (\<lambda>w. if video_is_terminal (vj_status (f v)) then f w
          else timed_out ?now (f w)) (nd_video_jobs s)
      \<and> nd_pollers t = filter (\<lambda>(j, _). j \<noteq> k) (nd_pollers s) \<and> nd_spawned t = nd_spawned s"
      using last t u by (simp add: andthen_run poll_deadline_run drop_poller_def act_simps(5) jobs_changed_twice)
    moreover have "video_is_terminal (vj_status (if video_is_terminal (vj_status (f v)) then f v
          else timed_out ?now (f v)))"
      by (simp add: timed_out_def video_is_terminal_def)
    ultimately show ?thesis by blast
  next
    case more
    then show ?thesis using t u by auto
  qed
qed

section \<open>Creating a job\<close>

text \<open>A creation that fails changes no job; one that succeeds adds a job under a fresh id and a poller
  with all its attempts.\<close>

definition adds_video :: "'s node \<Rightarrow> 's node \<Rightarrow> bool" where
  "adds_video s t \<longleftrightarrow>
     nd_video_jobs t = nd_video_jobs s \<and> nd_pollers t = nd_pollers s \<and> nd_spawned t = nd_spawned s
   \<or> (\<exists>m v job. uuid_n s \<le> m \<and> m < uuid_n t \<and> vj_id v = src_uuid s m \<and> vj_status v = VideoQueued
       \<and> nd_video_jobs t = AList.update (src_uuid s m) v (nd_video_jobs s)
       \<and> nd_pollers t = nd_pollers s @ [(nd_spawned s, src_uuid s m, job, 120)]
       \<and> nd_spawned t = Suc (nd_spawned s))"

lemma calm_adds: "calm s t \<Longrightarrow> adds_video s t"
  by (simp add: adds_video_def calm_videos)

lemma calm_then_adds: "calm s u \<Longrightarrow> adds_video u t \<Longrightarrow> adds_video s t"
  unfolding adds_video_def calm_def tables_def by simp (meson order_trans)

lemma adds_after:
  assumes "keeps calm m" and "\<And>a u. adds_video u (snd (f a u))"
  shows "adds_video s (snd (andthen m f s))"
  using assms keeps_snd [OF assms(1), of s]
  by (auto simp: andthen_run calm_adds split: sum.split intro: calm_then_adds)

lemma video_create_adds: "adds_video s (snd (video_create p h v s))"
proof -
  have made: "adds_video u (snd (andthen new_v4 (\<lambda>i.
      andthen (modify (\<lambda>s. s\<lparr>nd_video_jobs := AList.update i (w i) (nd_video_jobs s)\<rparr>)) (\<lambda>_.
      andthen (spawn_video_poller i job) (\<lambda>_. ret (w i)))) u))"
    if "\<And>i. vj_id (w i) = i" "\<And>i. vj_status (w i) = VideoQueued" for u :: "'s node" and w job
    using that by (auto simp: adds_video_def act_simps spawn_video_poller_def video_poll_max_attempts_def
        intro!: exI [of _ "uuid_n u"])
  show ?thesis
    unfolding video_create_def Let_def
    by (intro adds_after keeps_intros made) simp_all
qed

section \<open>The life of a job\<close>

text \<open>The job \<open>i\<close> is known under an id drawn before; no poller but \<open>k\<close> has it, and either that one
  runs with at most \<open>n\<close> attempts left, or none does and the job has ended.\<close>

definition phase :: "uuid \<Rightarrow> nat \<Rightarrow> nat \<Rightarrow> 's node \<Rightarrow> bool" where
  "phase i k n s \<longleftrightarrow> (\<exists>m. m < uuid_n s \<and> i = src_uuid s m)
     \<and> (\<forall>(k', i', _) \<in> set (nd_pollers s). i' = i \<longrightarrow> k' = k)
     \<and> (\<exists>v. map_of (nd_video_jobs s) i = Some v
          \<and> ((\<exists>job m. 1 \<le> m \<and> m \<le> n \<and> map_of (nd_pollers s) k = Some (i, job, m))
             \<or> (\<forall>(k', i', _) \<in> set (nd_pollers s). i' \<noteq> i) \<and> video_is_terminal (vj_status v)))"

lemma filtered_pollers:
  "map_of (filter (\<lambda>(j, _). j \<noteq> k) ps) k' = (if k' = k then None else map_of ps k')"
  by (induction ps) auto

lemma counted_pollers:
  "map_of (map (\<lambda>(j, i, job, m). (j, i, job, if j = k then n else m)) ps) k'
     = (if k' = k then map_option (\<lambda>(i, job, _). (i, job, n)) (map_of ps k) else map_of ps k')"
  by (induction ps) auto

text \<open>The tick of a poller whose job is not known.\<close>

lemma poller_tick_orphan:
  assumes "map_of (nd_pollers s) k = Some (i, job, n)" and "map_of (nd_video_jobs s) i = None"
  shows "snd ((poller_tick p k :: ('s, unit) node_act) s)
    = s\<lparr>nd_pollers := filter (\<lambda>(j, _). j \<noteq> k) (nd_pollers s)\<rparr>"
  using assms by (simp add: poller_tick_def poll_attempt_def job_known_def act_simps drop_poller_def)

text \<open>What any tick of \<open>k'\<close> does to the pollers and jobs.\<close>

definition ticked :: "nat \<Rightarrow> 's node \<Rightarrow> 's node \<Rightarrow> bool" where
  "ticked k s t \<longleftrightarrow> (case map_of (nd_pollers s) k of
     None \<Rightarrow> nd_pollers t = nd_pollers s \<and> nd_video_jobs t = nd_video_jobs s
   | Some (i, job, n) \<Rightarrow> (\<exists>f. nd_video_jobs t = jobs_changed i f (nd_video_jobs s)
       \<and> (nd_pollers t = filter (\<lambda>(j, _). j \<noteq> k) (nd_pollers s)
           \<and> (\<forall>v. map_of (nd_video_jobs s) i = Some v \<longrightarrow> video_is_terminal (vj_status (f v)))
         \<or> 1 < n \<and> nd_pollers t =
             map (\<lambda>(j, i, job, m). (j, i, job, if j = k then n - 1 else m)) (nd_pollers s))))"

lemma tick_ticked: "ticked k s (snd ((poller_tick p k :: ('s, unit) node_act) s))"
proof (cases "map_of (nd_pollers s) k")
  case None
  then show ?thesis by (simp add: ticked_def poller_tick_def act_simps)
next
  case (Some e)
  obtain i job n where e: "e = (i, job, n)" by (cases e)
  show ?thesis
  proof (cases "map_of (nd_video_jobs s) i")
    case None
    have "jobs_changed i id js = js" for js by (induction js) (auto simp: jobs_changed_def)
    then show ?thesis
      using Some e None by (auto simp: ticked_def poller_tick_orphan intro!: exI [of _ id])
  next
    case (Some v)
    then show ?thesis
      using poller_tick_effect [of s k i job n v p] \<open>map_of (nd_pollers s) k = Some e\<close> e
      by (auto simp: ticked_def)
  qed
qed

lemma phase_cases:
  assumes "phase i k n s"
  obtains (runs) v job m where "map_of (nd_video_jobs s) i = Some v" "1 \<le> m" "m \<le> n"
      "map_of (nd_pollers s) k = Some (i, job, m)"
    | (ended) v where "map_of (nd_video_jobs s) i = Some v" "video_is_terminal (vj_status v)"
      "\<And>k' i' r. (k', i', r) \<in> set (nd_pollers s) \<Longrightarrow> i' \<noteq> i"
  using assms unfolding phase_def by fastforce

lemma phase_sole: "phase i k n s \<Longrightarrow> (k', i, r) \<in> set (nd_pollers s) \<Longrightarrow> k' = k"
  unfolding phase_def by fastforce

lemma phase_used: "phase i k n s \<Longrightarrow> \<exists>m. m < uuid_n s \<and> i = src_uuid s m"
  by (simp add: phase_def)

lemma runsI:
  assumes "\<exists>m. m < uuid_n s \<and> i = src_uuid s m" "map_of (nd_video_jobs s) i = Some v" "1 \<le> m" "m \<le> n"
    "map_of (nd_pollers s) k = Some (i, job, m)" "\<And>k' r. (k', i, r) \<in> set (nd_pollers s) \<Longrightarrow> k' = k"
  shows "phase i k n s"
  using assms unfolding phase_def by fastforce

lemma endedI:
  assumes "\<exists>m. m < uuid_n s \<and> i = src_uuid s m" "map_of (nd_video_jobs s) i = Some v"
    "video_is_terminal (vj_status v)" "\<And>k' r. (k', i, r) \<notin> set (nd_pollers s)"
  shows "phase i k n s"
  using assms unfolding phase_def by fastforce

text \<open>A tick adds no poller of a job.\<close>

lemma ticked_entries:
  "ticked k s t \<Longrightarrow> (k', i, r) \<in> set (nd_pollers t) \<Longrightarrow> \<exists>r'. (k', i, r') \<in> set (nd_pollers s)"
  by (cases r) (auto simp: ticked_def split: option.splits; blast)

text \<open>A tick of another poller.\<close>

lemma ticked_other:
  assumes "ticked k' s t" "k' \<noteq> k" "\<And>r. (k', i, r) \<notin> set (nd_pollers s)"
  shows "map_of (nd_pollers t) k = map_of (nd_pollers s) k" "map_of (nd_video_jobs t) i = map_of (nd_video_jobs s) i"
proof -
  have "map_of (nd_pollers s) k' = Some (j, r) \<Longrightarrow> j \<noteq> i" for j r
    using assms(3) map_of_SomeD by fastforce
  then show "map_of (nd_pollers t) k = map_of (nd_pollers s) k" "map_of (nd_video_jobs t) i = map_of (nd_video_jobs s) i"
    using assms(1,2) by (auto simp: ticked_def filtered_pollers counted_pollers split: option.splits)
qed

lemma ticked_used:
  assumes "phase i k n s" and "src_uuid t = src_uuid s" and "uuid_n s \<le> uuid_n t"
  shows "\<exists>m. m < uuid_n t \<and> i = src_uuid t m"
  using phase_used [OF assms(1)] assms(2,3) by (metis less_le_trans)

lemma ticked_phase:
  assumes "phase i k n s" and "ticked k' s t" and "src_uuid t = src_uuid s" and "uuid_n s \<le> uuid_n t"
  shows "phase i k (if k' = k then n - 1 else n) t"
  using assms(1)
proof (cases rule: phase_cases)
  case (ended v)
  have "map_of (nd_video_jobs t) i = Some v"
  proof (cases "map_of (nd_pollers s) k'")
    case None
    then show ?thesis using assms(2) ended by (simp add: ticked_def)
  next
    case (Some e)
    then have "fst e \<noteq> i" using ended(3) [of k' "fst e" "snd e"] by (auto dest: map_of_SomeD)
    then show ?thesis using assms(2) ended Some by (auto simp: ticked_def)
  qed
  then show ?thesis
    using endedI [OF ticked_used [OF assms(1,3,4)] _ ended(2)] ticked_entries [OF assms(2)] ended(3) by blast
next
  case (runs v job m)
  have sole: "(j, i, r) \<in> set (nd_pollers t) \<Longrightarrow> j = k" for j r
    using ticked_entries [OF assms(2)] phase_sole [OF assms(1)] by blast
  show ?thesis
  proof (cases "k' = k")
    case False
    then have "\<And>r. (k', i, r) \<notin> set (nd_pollers s)" using phase_sole [OF assms(1)] by blast
    from ticked_other [OF assms(2) False this] runs False show ?thesis
      by (auto intro: runsI [OF ticked_used [OF assms(1,3,4)]] sole)
  next
    case True
    then obtain f where f: "nd_video_jobs t = jobs_changed i f (nd_video_jobs s)"
      "nd_pollers t = filter (\<lambda>(j, _). j \<noteq> k) (nd_pollers s) \<and> video_is_terminal (vj_status (f v))
       \<or> 1 < m \<and> nd_pollers t = map (\<lambda>(j, i, job, q). (j, i, job, if j = k then m - 1 else q)) (nd_pollers s)"
      using assms(2) runs by (auto simp: ticked_def)
    have job: "map_of (nd_video_jobs t) i = Some (f v)" using f(1) runs by simp
    from f(2) show ?thesis
    proof
      assume g: "nd_pollers t = filter (\<lambda>(j, _). j \<noteq> k) (nd_pollers s) \<and> video_is_terminal (vj_status (f v))"
      then have "(j, i, r) \<notin> set (nd_pollers t)" for j r using sole [of j r] by auto
      then show ?thesis using endedI [OF ticked_used [OF assms(1,3,4)] job] g by blast
    next
      assume g: "1 < m \<and> nd_pollers t = map (\<lambda>(j, i, job, q). (j, i, job, if j = k then m - 1 else q)) (nd_pollers s)"
      then have poller: "map_of (nd_pollers t) k = Some (i, job, m - 1)"
        using runs by (simp add: counted_pollers del: One_nat_def)
      show ?thesis
        by (rule runsI [OF ticked_used [OF assms(1,3,4)] job _ _ poller sole]) (use g runs(3) True in auto)
    qed
  qed
qed

lemma added_phase:
  assumes "phase i k n s" and "adds_video s t" and "src_uuid t = src_uuid s" and "uuid_n s \<le> uuid_n t"
    and "inj_on (src_uuid s) {..<uuid_n t}"
  shows "phase i k n t"
proof -
  obtain u where u: "u < uuid_n s" "i = src_uuid s u" using phase_used [OF assms(1)] by blast
  have used: "\<exists>m. m < uuid_n t \<and> i = src_uuid t m" by (rule ticked_used [OF assms(1,3,4)])
  from assms(2) show ?thesis unfolding adds_video_def
  proof (elim disjE exE conjE)
    assume "nd_video_jobs t = nd_video_jobs s" "nd_pollers t = nd_pollers s"
    then show ?thesis using assms(1) used by (simp add: phase_def)
  next
    fix m v job
    assume t: "uuid_n s \<le> m" "m < uuid_n t" "nd_video_jobs t = AList.update (src_uuid s m) v (nd_video_jobs s)"
      "nd_pollers t = nd_pollers s @ [(nd_spawned s, src_uuid s m, job, 120)]"
    have new: "src_uuid s m \<noteq> i"
      using u t(1,2) inj_onD [OF assms(5), of m u] by auto
    have jobs: "map_of (nd_video_jobs t) i = map_of (nd_video_jobs s) i"
      using new t(3) by (simp add: update_conv')
    have entries: "(j, i, r) \<in> set (nd_pollers t) \<longleftrightarrow> (j, i, r) \<in> set (nd_pollers s)" for j r
      using new t(4) by auto
    from assms(1) show ?thesis
    proof (cases rule: phase_cases)
      case (runs v job m)
      have "map_of (nd_pollers t) k = Some (i, job, m)" using runs(4) t(4) by (simp add: map_add_def)
      then show ?thesis
        using runsI [OF used _ runs(2,3)] jobs runs(1) entries phase_sole [OF assms(1)] by metis
    next
      case (ended v)
      then show ?thesis using endedI [OF used _ ended(2)] jobs entries by metis
    qed
  qed
qed

lemma event_phase:
  assumes "phase i k n s" and "inj_on (src_uuid s) {..<uuid_n (snd (node_do p e s))}"
  shows "phase i k (if e = PollerTick k then n - 1 else n) (snd (node_do p e s))"
proof (cases "Videos \<in> event_changes e")
  case False
  then have "nd_video_jobs (snd (node_do p e s)) = nd_video_jobs s"
    "nd_pollers (snd (node_do p e s)) = nd_pollers s"
    using event_frame [of e s p] by (simp_all add: frame_def)
  moreover have "e \<noteq> PollerTick k" using False by auto
  ultimately show ?thesis
    using assms(1) ticked_used [OF assms(1) event_draws(1,2)] by (simp add: phase_def)
next
  case True
  show ?thesis
  proof (cases e)
    case (Request h r)
    then obtain v where r: "r = PostVideoCreate v" using True by (cases r) simp_all
    have "adds_video s (snd (node_do p e s))"
      using Request r video_create_adds [of s p h v] by (simp add: node_do_def)
    from added_phase [OF assms(1) this event_draws(1,2) assms(2)] show ?thesis using Request by simp
  next
    case (PollerTick k')
    have "ticked k' s (snd (node_do p e s))"
      using PollerTick tick_ticked [of k' s p] by (simp add: node_do_def)
    from ticked_phase [OF assms(1) this event_draws(1,2)] show ?thesis using PollerTick by simp
  qed (use True in simp_all)
qed

section \<open>Runs\<close>

lemma run_phase:
  assumes "phase i k n s" and "inj_on (src_uuid s) {..<uuid_n (node_run p fs s)}"
  shows "phase i k (n - count_list fs (PollerTick k)) (node_run p fs s)"
  using assms
proof (induction fs arbitrary: n s)
  case Nil
  then show ?case by simp
next
  case (Cons e fs)
  let ?t = "snd (node_do p e s)"
  have distinct: "inj_on (src_uuid s) {..<uuid_n (node_run p fs ?t)}" using Cons.prems(2) by simp
  have "uuid_n ?t \<le> uuid_n (node_run p fs ?t)" by (rule run_draws)
  then have "{..<uuid_n ?t} \<subseteq> {..<uuid_n (node_run p fs ?t)}" by auto
  from event_phase [OF Cons.prems(1) inj_on_subset [OF distinct this]]
  have "phase i k ((if e = PollerTick k then n - 1 else n) - count_list fs (PollerTick k)) (node_run p fs ?t)"
    by (rule Cons.IH) (simp add: event_draws distinct)
  then show ?case by (auto split: if_splits)
qed

text \<open>Every known job has a phase.\<close>

definition jobs_phased :: "'s node \<Rightarrow> bool" where
  "jobs_phased s \<longleftrightarrow> (\<forall>i v. map_of (nd_video_jobs s) i = Some v \<longrightarrow> (\<exists>k. phase i k 120 s))
     \<and> (\<forall>(k, i, job, n) \<in> set (nd_pollers s). map_of (nd_video_jobs s) i \<noteq> None \<and> k < nd_spawned s)"

lemma created_phase:
  assumes "jobs_phased s" and "map_of (nd_video_jobs s) i = None" and "uuid_n s \<le> m" "m < uuid_n t"
    and "i = src_uuid s m" "src_uuid t = src_uuid s"
    and "nd_video_jobs t = AList.update i v (nd_video_jobs s)"
    and "nd_pollers t = nd_pollers s @ [(nd_spawned s, i, job, 120)]"
  shows "phase i (nd_spawned s) 120 t"
proof (rule runsI [of t i v 120])
  have old: "(k, i, r) \<notin> set (nd_pollers s)" for k r
    using assms(1,2) unfolding jobs_phased_def by fastforce
  then show "(k', i, r) \<in> set (nd_pollers t) \<Longrightarrow> k' = nd_spawned s" for k' r
    using assms(8) by auto
  have "map_of (nd_pollers s) (nd_spawned s) = None"
  proof (cases "map_of (nd_pollers s) (nd_spawned s)")
    case (Some e)
    then have "(nd_spawned s, fst e, fst (snd e), snd (snd e)) \<in> set (nd_pollers s)" by (simp add: map_of_SomeD)
    then show ?thesis using assms(1) unfolding jobs_phased_def by fastforce
  qed
  then show "map_of (nd_pollers t) (nd_spawned s) = Some (i, job, 120)"
    using assms(8) by (simp add: map_add_def)
qed (use assms in \<open>auto simp: update_conv'\<close>)

lemma phase_mono:
  assumes "phase i k n s" and "n \<le> n'"
  shows "phase i k n' s"
  using assms(1)
proof (cases rule: phase_cases)
  case (runs v job m)
  show ?thesis
    by (rule runsI [OF phase_used [OF assms(1)] runs(1,2) _ runs(4) phase_sole [OF assms(1)]])
      (use runs(3) assms(2) in auto)
next
  case (ended v)
  show ?thesis using endedI [OF phase_used [OF assms(1)] ended(1,2)] ended(3) by blast
qed

lemma event_phase_kept:
  assumes "phase i k 120 s" and "inj_on (src_uuid s) {..<uuid_n (snd (node_do p e s))}"
  shows "\<exists>k. phase i k 120 (snd (node_do p e s))"
  by (rule exI, rule phase_mono [OF event_phase [OF assms]]) simp

lemma adds_jobs_phased:
  assumes "jobs_phased s" and "adds_video s t" and "src_uuid t = src_uuid s" and "uuid_n s \<le> uuid_n t"
    and "inj_on (src_uuid s) {..<uuid_n t}"
  shows "jobs_phased t"
  using assms(2) unfolding adds_video_def
proof (elim disjE exE conjE)
  assume "nd_video_jobs t = nd_video_jobs s" "nd_pollers t = nd_pollers s" "nd_spawned t = nd_spawned s"
  then show ?thesis
    using assms(1) added_phase [OF _ assms(2-5)] unfolding jobs_phased_def by metis
next
  fix m v job
  assume t: "uuid_n s \<le> m" "m < uuid_n t" "nd_video_jobs t = AList.update (src_uuid s m) v (nd_video_jobs s)"
    "nd_pollers t = nd_pollers s @ [(nd_spawned s, src_uuid s m, job, 120)]" "nd_spawned t = Suc (nd_spawned s)"
  have jobs: "\<exists>k. phase i k 120 t" if i: "map_of (nd_video_jobs t) i = Some w" for i w
  proof (cases "map_of (nd_video_jobs s) i")
    case (Some w')
    then show ?thesis using assms(1) added_phase [OF _ assms(2-5)] unfolding jobs_phased_def by metis
  next
    case None
    then have "i = src_uuid s m" using i t(3) by (auto simp: update_conv' split: if_splits)
    from created_phase [OF assms(1) None t(1,2) this assms(3)] t(3,4) this show ?thesis by blast
  qed
  have "map_of (nd_video_jobs t) i \<noteq> None \<and> k < nd_spawned t" if "(k, i, r) \<in> set (nd_pollers t)" for k i r
    using that assms(1) t(3-5) unfolding jobs_phased_def by (fastforce simp: update_conv')
  with jobs show ?thesis unfolding jobs_phased_def by auto
qed

lemma ticked_jobs:
  "ticked k s t \<Longrightarrow> map_of (nd_video_jobs t) i = None \<longleftrightarrow> map_of (nd_video_jobs s) i = None"
  by (auto simp: ticked_def split: option.splits if_splits)

lemma event_jobs_phased:
  assumes "jobs_phased s" and "inj_on (src_uuid s) {..<uuid_n (snd (node_do p e s))}"
  shows "jobs_phased (snd (node_do p e s))" (is "jobs_phased ?t")
proof (cases "\<exists>h v. e = Request h (PostVideoCreate v)")
  case True
  then obtain h v where e: "e = Request h (PostVideoCreate v)" by blast
  have "adds_video s ?t" using e video_create_adds [of s p h v] by (simp add: node_do_def)
  from adds_jobs_phased [OF assms(1) this event_draws(1,2) assms(2)] show ?thesis .
next
  case False
  have "(\<forall>i. map_of (nd_video_jobs ?t) i = None \<longleftrightarrow> map_of (nd_video_jobs s) i = None)
    \<and> (\<forall>k i r. (k, i, r) \<in> set (nd_pollers ?t) \<longrightarrow> (\<exists>r'. (k, i, r') \<in> set (nd_pollers s)))"
  proof (cases "\<exists>k. e = PollerTick k")
    case True
    then obtain k where "e = PollerTick k" by blast
    then have t: "ticked k s ?t" using tick_ticked [of k s p] by (simp add: node_do_def)
    show ?thesis using ticked_jobs [OF t] ticked_entries [OF t] by blast
  next
    case no_tick: False
    have "Videos \<notin> event_changes e"
    proof (cases e)
      case (Request h r)
      then show ?thesis using False by (cases r) simp_all
    qed (use no_tick in simp_all)
    then show ?thesis using event_frame [of e s p] by (auto simp: frame_def)
  qed
  note same = this [THEN conjunct1, rule_format] this [THEN conjunct2, rule_format]
  have "\<exists>k. phase i k 120 ?t" if "map_of (nd_video_jobs ?t) i = Some v" for i v
  proof -
    from that same(1) [of i] obtain w where "map_of (nd_video_jobs s) i = Some w" by fastforce
    then obtain k where "phase i k 120 s" using assms(1) unfolding jobs_phased_def by blast
    from event_phase_kept [OF this assms(2)] show ?thesis .
  qed
  moreover have "map_of (nd_video_jobs ?t) i \<noteq> None \<and> k < nd_spawned ?t"
    if entry: "(k, i, r) \<in> set (nd_pollers ?t)" for k i r
  proof -
    obtain r' where "(k, i, r') \<in> set (nd_pollers s)" using same(2) [OF entry] by blast
    then have "map_of (nd_video_jobs s) i \<noteq> None \<and> k < nd_spawned s"
      using assms(1) unfolding jobs_phased_def by (cases r') fastforce
    then show ?thesis using same(1) [of i] event_draws(3) [of s p e] by (metis less_le_trans)
  qed
  ultimately show ?thesis unfolding jobs_phased_def by auto
qed

lemma run_jobs_phased:
  assumes "jobs_phased s" and "inj_on (src_uuid s) {..<uuid_n (node_run p es s)}"
  shows "jobs_phased (node_run p es s)"
  using assms
proof (induction es arbitrary: s)
  case (Cons e es)
  let ?t = "snd (node_do p e s)"
  have distinct: "inj_on (src_uuid s) {..<uuid_n (node_run p es ?t)}" using Cons.prems(2) by simp
  have "{..<uuid_n ?t} \<subseteq> {..<uuid_n (node_run p es ?t)}" using run_draws(2) [of ?t p es] by auto
  from event_jobs_phased [OF Cons.prems(1) inj_on_subset [OF distinct this]]
  show ?case using Cons.IH [of ?t] distinct by (simp add: event_draws)
qed simp

lemma new_jobs_phased: "jobs_phased (new_node a c sec net host instants timing)"
  by (simp add: jobs_phased_def new_node_def task_store.defs)

section \<open>Every job ends\<close>

text \<open>C10: a video job ends. In any run in which no id is drawn twice, once the poller of a job has
  had 120 ticks the job has succeeded or failed and no poller is left for it, whatever the
  provider answers, however often it cannot be reached, and whatever other requests and
  background tasks run in between.\<close>

theorem video_jobs_end:
  assumes "s = node_run p es (new_node a c sec net host instants timing)"
    and "map_of (nd_video_jobs s) i = Some v"
    and "inj_on (src_uuid s) {..<uuid_n (node_run p fs s)}"
    and "\<And>k job n. map_of (nd_pollers s) k = Some (i, job, n) \<Longrightarrow> 120 \<le> count_list fs (PollerTick k)"
  shows "(\<exists>w. map_of (nd_video_jobs (node_run p fs s)) i = Some w \<and> video_is_terminal (vj_status w))
    \<and> i \<notin> (\<lambda>(k, i, job, n). i) ` set (nd_pollers (node_run p fs s))"
proof -
  let ?s0 = "new_node a c sec net host instants timing"
  have "inj_on (src_uuid ?s0) {..<uuid_n s}"
    using assms(3) run_draws(1) [of p es ?s0] run_draws(2) [of s p fs] assms(1)
    by (metis (no_types, lifting) inj_on_subset lessThan_subset_iff)
  then have "jobs_phased s" using run_jobs_phased [OF new_jobs_phased] assms(1) by metis
  then obtain k where k: "phase i k 120 s" using assms(2) unfolding jobs_phased_def by blast
  have "phase i k 0 (node_run p fs s)"
    using k
  proof (cases rule: phase_cases)
    case (runs w job m)
    then have "120 \<le> count_list fs (PollerTick k)" using assms(4) by blast
    then show ?thesis using run_phase [OF k assms(3)] by simp
  next
    case (ended w)
    have "phase i k 0 s" using endedI [OF phase_used [OF k] ended(1,2)] ended(3) by blast
    from run_phase [OF this assms(3)] show ?thesis by simp
  qed
  then show ?thesis by (cases rule: phase_cases) auto
qed

section \<open>A concrete job\<close>

text \<open>A provider that answers everything with a job id and success; the registry is stored.\<close>

definition video_entry :: provider_entry where
  "video_entry = \<lparr> pe_kind = CloudVideo, pe_base_url = ''https://video.example/v1'', pe_model = ''m'',
     pe_secret_ref = ''k'', pe_auth = Bearer, pe_enabled = True, pe_video_dialect = OpenAiCompat, pe_extra = [] \<rparr>"

definition video_answer :: json where
  "video_answer = JObject [(''id'', JString ''j''), (''status'', JString ''succeeded''),
     (''video_gen'', JArray [entry_to_json video_entry])]"

definition video_parts :: "secrets node_parts" where
  "video_parts = sample_parts\<lparr>np_crates := toy_crates\<lparr>x_json_parse := (\<lambda>_. Some video_answer)\<rparr>\<rparr>"

definition answering_network :: network where
  "answering_network = \<lparr> nw_answer = (\<lambda>_. Inr \<lparr> rsp_status = 200, rsp_body = Some ''b'' \<rparr>), nw_sent = [] \<rparr>"

definition video_node :: "secrets node" where
  "video_node = new_node sample_ambient sample_local [(''model_registry'', ''b''), (''k'', ''v'')]
     answering_network sample_host (\<lambda>n. int n) (\<lambda>_. InTime)"

definition video_input :: video_create_input where
  "video_input = \<lparr> vc_first_frame_url = ''http://a'', vc_last_frame_url = None, vc_prompt = None,
     vc_duration_seconds = None \<rparr>"

lemma video_registry: "registry_of_json video_answer = Some (empty_registry\<lparr>mr_video_gen := [video_entry]\<rparr>)"
  by (simp add: registry_of_json_def video_answer_def field_default_def json_get_def is_object_def
      de_array_def entry_reads_back empty_registry_def)

definition video_ready :: "secrets node \<Rightarrow> bool" where
  "video_ready s \<longleftrightarrow> nd_secrets s = [(''model_registry'', ''b''), (''k'', ''v'')] \<and> nd_timing s = (\<lambda>_. InTime)
     \<and> nd_registry s \<in> {None, Some (empty_registry\<lparr>mr_video_gen := [video_entry]\<rparr>)}
     \<and> nw_answer (nd_network s) = (\<lambda>_. Inr \<lparr> rsp_status = 200, rsp_body = Some ''b'' \<rparr>)"

lemma video_resolved:
  assumes "video_ready s"
  shows "\<exists>t. resolve_cloud_video video_parts s = (Inr \<lparr> vp_base_url = ''https://video.example/v1'', vp_model = ''m'',
      vp_api_key = ''v'', vp_auth = Bearer, vp_dialect = OpenAiCompat, vp_extra = [] \<rparr>, t)
    \<and> uuid_n t = uuid_n s \<and> video_ready t"
  using assms
  by (auto simp: resolve_cloud_video_def resolve_capability_def load_persisted_model_registry_def act_simps
      match_res_def get_secret_for_status_def timely_def Let_def video_parts_def sample_parts_def
      memory_store_def secret_model_registry_def video_registry entries_for_def video_entry_def video_ready_def
      resolve_secret_ref_def secret_openai_config_def get_secret_def map_error_def unwrap_or_def)

lemma video_reads:
  "video_create_response_of_json video_answer = Some (Some ''j'')"
  "map_option vs_status (video_status_response_of_json video_answer) = Some (Some ''succeeded'')"
  by code_simp+

lemma video_called:
  assumes "video_ready s"
  shows "fst (call_provider video_parts f g r s) = Inr (Some ''b'')"
    and "uuid_n (snd (call_provider video_parts f g r s)) = uuid_n s"
    and "video_ready (snd (call_provider video_parts f g r s))"
  using assms by (simp_all add: call_provider_def http_send_def video_parts_def sample_parts_def toy_crates_def
      act_simps net_send_def is_success_def video_ready_def)

lemma video_works:
  assumes "video_ready s"
  shows "\<exists>t. video_create_job video_parts q a b d s = (Inr ''j'', t) \<and> uuid_n t = uuid_n s \<and> video_ready t"
    and "\<exists>url e t. video_poll_status video_parts ''j'' s = (Inr (VideoSucceeded, url, e), t)
      \<and> uuid_n t = uuid_n s \<and> video_ready t"
proof -
  obtain t where t: "resolve_cloud_video video_parts s = (Inr \<lparr> vp_base_url = ''https://video.example/v1'',
      vp_model = ''m'', vp_api_key = ''v'', vp_auth = Bearer, vp_dialect = OpenAiCompat, vp_extra = [] \<rparr>, t)"
    "uuid_n t = uuid_n s" "video_ready t"
    using video_resolved [OF assms] by blast
  note called = video_called [OF t(3)]
  have parsed: "x_json_parse (np_crates video_parts) b = Some video_answer" for b
    by (simp add: video_parts_def)
  obtain r where r: "video_status_response_of_json video_answer = Some r" "vs_status r = Some ''succeeded''"
    using video_reads(2) by auto
  have status: "map_video_status ''succeeded'' = VideoSucceeded"
    by code_simp
  show "\<exists>t. video_create_job video_parts q a b d s = (Inr ''j'', t) \<and> uuid_n t = uuid_n s \<and> video_ready t"
    using t(2) by (simp add: video_create_job_def andthen_run t(1) called read_json_def
        act_simps parsed video_reads(1))
  show "\<exists>url e t. video_poll_status video_parts ''j'' s = (Inr (VideoSucceeded, url, e), t)
      \<and> uuid_n t = uuid_n s \<and> video_ready t"
    using t(2) r by (simp add: video_poll_status_def andthen_run t(1) called read_json_def
        act_simps parsed status)
qed

definition video_events :: "node_event list" where
  "video_events = [Request bridge_headers (PostVideoCreate video_input)]"

lemma video_node_runs:
  defines "s \<equiv> node_run video_parts video_events video_node"
  shows "nd_pollers s = [(0, 1, ''j'', 120)]" "uuid_n s = 1" "map_of (nd_video_jobs s) 1 \<noteq> None" "video_ready s"
    "src_uuid s = (\<lambda>n. word_of_nat (n + 1))"
proof -
  have gate: "require_bridge_or_operator_token (np_config video_parts) bridge_headers = Inr ()"
    "require_valid_lease_with_feature video_parts OzonRead = ret ()"
    by (simp_all add: bridge_token_iff sample_access video_parts_def require_valid_lease_with_feature_def
        sample_parts_def sample_local_def bridge_headers_def)
  have first: "trim ''http://a'' = ''http://a''" by code_simp
  have node: "video_ready video_node" "uuid_n video_node = 0" "src_uuid video_node = (\<lambda>n. word_of_nat (n + 1))"
    "nd_pollers video_node = []" "nd_spawned video_node = 0" "nd_video_jobs video_node = []"
    by (simp_all add: video_ready_def video_node_def new_node_def task_store.defs store_new_def ambient.defs
        sample_ambient_def answering_network_def)
  obtain t where t: "video_create_job video_parts [] ''http://a'' None 8 video_node = (Inr ''j'', t)"
    "uuid_n t = 0" "video_ready t"
    using video_works(1) [OF node(1)] node(2) by metis
  have same: "nd_pollers t = []" "nd_spawned t = 0" "nd_video_jobs t = []" "src_uuid t = (\<lambda>n. word_of_nat (n + 1))"
    using keeps_snd [OF keeps_video_calls(1), of video_node video_parts "[]" "''http://a''" None 8] t(1) node
    by (simp_all add: calm_def tables_def)
  show "nd_pollers s = [(0, 1, ''j'', 120)]" "uuid_n s = 1" "map_of (nd_video_jobs s) 1 \<noteq> None" "video_ready s"
    "src_uuid s = (\<lambda>n. word_of_nat (n + 1))"
    using t same unfolding s_def video_events_def
    by (simp_all add: node_do_def answered_def video_create_def andthen_run gate act_simps video_input_def first
        unwrap_or_def clamp_video_duration_def video_default_duration_secs_def ensure_def Let_def
        spawn_video_poller_def video_poll_max_attempts_def video_ready_def)
qed

definition video_ticks :: "node_event list" where
  "video_ticks = replicate 120 (PollerTick 0)"

lemma no_poller_no_tick:
  "nd_pollers t = [] \<Longrightarrow> node_run p (replicate n (PollerTick k)) t = t"
  by (induction n) (simp_all add: node_do_def poller_tick_def act_simps)

lemma video_ticks_run: "uuid_n (node_run video_parts video_ticks (node_run video_parts video_events video_node)) = 1"
proof -
  let ?s = "node_run video_parts video_events video_node"
  let ?t = "snd (node_do video_parts (PollerTick 0) ?s)"
  note s = video_node_runs
  obtain url e t where t: "video_poll_status video_parts ''j'' ?s = (Inr (VideoSucceeded, url, e), t)" "uuid_n t = 1"
    using video_works(2) [OF s(4)] s(2) by metis
  have same: "nd_pollers t = [(0, 1, ''j'', 120)]" "nd_video_jobs t = nd_video_jobs ?s"
    using keeps_snd [OF keeps_video_calls(2), of ?s video_parts "''j''"] t(1) s(1)
    by (simp_all add: calm_def tables_def)
  have "nd_pollers ?t = [] \<and> uuid_n ?t = 1"
    using s(1-3) t same by (auto simp: node_do_def poller_tick_def poll_attempt_def job_known_def act_simps
        match_res_def change_job_run video_is_terminal_def drop_poller_def)
  moreover have "node_run video_parts video_ticks ?s = node_run video_parts (replicate 119 (PollerTick 0)) ?t"
    by (simp add: video_ticks_def numeral_eq_Suc)
  ultimately show ?thesis by (simp add: no_poller_no_tick)
qed

lemma video_jobs_end_witness:
  "\<exists>w. map_of (nd_video_jobs (node_run video_parts video_ticks (node_run video_parts video_events video_node))) 1 = Some w
     \<and> video_is_terminal (vj_status w)"
proof -
  let ?s = "node_run video_parts video_events video_node"
  note s = video_node_runs
  obtain v where v: "map_of (nd_video_jobs ?s) 1 = Some v" using s(3) by blast
  have "inj_on (src_uuid ?s) {..<uuid_n (node_run video_parts video_ticks ?s)}"
    by (simp add: video_ticks_run inj_on_def)
  moreover have "count_list (replicate n e) e = n" for n and e :: node_event by (induction n) simp_all
  then have "120 \<le> count_list video_ticks (PollerTick k)" if "map_of (nd_pollers ?s) k = Some (1, job, n)" for k job n
    using that s(1) by (simp add: video_ticks_def split: if_splits)
  ultimately show ?thesis
    using video_jobs_end [OF _ v, unfolded video_node_def, OF refl] unfolding video_node_def by blast
qed

end
