(* ===== verification/NodePolling.thy ===== *)
theory NodePolling
  imports NodeFrame NodeSamples
begin

text \<open>
  The schedule of background reads (\<open>apps/local-node/src/main.rs\<close>). What controls polling is
  the switch, the interval, the limit, the handle of the worker and the workers that run. In
  every run that serves one request at a time these stay in step; two enables that overlap
  between their waits leave a worker that no handle names.
\<close>

section \<open>Steps that leave the control alone\<close>

definition control :: "'s node \<Rightarrow> bool \<times> u64 \<times> u16 \<times> nat option \<times> (nat \<times> u16) list \<times> nat" where
  "control s = (sch_enabled (nd_schedule s), sch_interval_secs (nd_schedule s), sch_limit (nd_schedule s),
     sch_worker (nd_schedule s), nd_workers s, nd_spawned s)"

definition steady :: "'s node \<Rightarrow> 's node \<Rightarrow> bool" where
  "steady s t \<longleftrightarrow> control t = control s"

interpretation steady: step_relation steady
  by unfold_locales (simp_all add: steady_def)

lemma calm_steady: "keeps calm m \<Longrightarrow> keeps steady m"
  by (erule keeps_mono) (simp add: calm_def tables_def steady_def control_def)

lemma steady_change [keeps_intros]:
  "(\<And>c. sch_enabled (f c) = sch_enabled c \<and> sch_interval_secs (f c) = sch_interval_secs c
     \<and> sch_limit (f c) = sch_limit c \<and> sch_worker (f c) = sch_worker c)
   \<Longrightarrow> keeps steady (change_schedule f)"
  by (simp add: keeps_def change_schedule_def act_simps steady_def control_def)

lemma steady_log [keeps_intros]: "keeps steady (log_schedule p a b c :: ('s node, 'e, unit) act)"
  unfolding log_schedule_def by (intro keeps_intros silent_is_calm [THEN calm_steady]) simp

lemma steady_read [keeps_intros]: "keeps steady (execute_ecommerce_read_once p l)"
  unfolding execute_ecommerce_read_once_def
  by (intro keeps_intros silent_is_calm [THEN calm_steady] keeps_reads [THEN calm_steady]) simp_all

section \<open>The invariant\<close>

text \<open>The bounds hold, the schedule is enabled exactly while a worker runs, and that is the one
  the handle names, with the limit of the schedule.\<close>

fun control_ok :: "bool \<times> u64 \<times> u16 \<times> nat option \<times> (nat \<times> u16) list \<times> nat \<Rightarrow> bool" where
  "control_ok (enabled, interval, limit, worker, workers, spawned) \<longleftrightarrow>
     60 \<le> interval \<and> interval \<le> 86400 \<and> 1 \<le> limit \<and> limit \<le> 100
     \<and> workers = (case worker of None \<Rightarrow> [] | Some k \<Rightarrow> [(k, limit)]) \<and> (enabled \<longleftrightarrow> worker \<noteq> None)"

definition schedule_ok :: "'s node \<Rightarrow> bool" where
  "schedule_ok s \<longleftrightarrow> control_ok (control s)"

lemma steady_ok: "steady s t \<Longrightarrow> schedule_ok t = schedule_ok s"
  by (simp add: steady_def schedule_ok_def)

lemma control_log:
  "control (snd ((log_schedule p a b c :: ('s node, 'e, unit) act) s)) = control s"
  using keeps_snd [OF steady_log] by (simp add: steady_def)

lemma control_stop:
  assumes "schedule_ok s" and "control s = (e, i, l, k, ws, n)"
  shows "control (snd ((stop_existing_schedule_worker :: ('s node, 'e, unit) act) s)) = (e, i, l, None, [], n)"
  using assms by (auto simp: schedule_ok_def stop_existing_schedule_worker_def act_simps control_def
      split: option.splits)

lemma fst_log: "fst (log_schedule p a b c s) = Inr ()"
  by (simp add: log_schedule_def change_schedule_def act_simps)

lemma control_changed:
  "control (snd ((andthen (change_schedule f) (\<lambda>_. log_schedule p a b c) :: ('s node, 'e, unit) act) s))
     = control (s\<lparr>nd_schedule := f (nd_schedule s)\<rparr>)"
  by (simp add: andthen_run change_schedule_def act_simps(5) control_log)

lemma never_fails:
  "fst (stop_existing_schedule_worker s) = Inr ()" "fst (enable_schedule p i l s) = Inr ()"
  "fst (spawn_worker q s) = Inr ()"
  by (simp_all add: spawn_worker_def stop_existing_schedule_worker_def enable_schedule_def change_schedule_def act_simps fst_log)

lemma after_success: "fst (m s) = Inr a \<Longrightarrow> snd (andthen m f s) = snd (f a (snd (m s)))"
  by (simp add: andthen_run)

lemma stop_ok:
  assumes "schedule_ok s"
  shows "schedule_ok (snd ((stop_ecommerce_schedule p why :: ('s, unit) node_act) s))"
proof -
  let ?t = "snd ((stop_existing_schedule_worker :: ('s, unit) node_act) s)"
  obtain e i l k ws n where c: "control s = (e, i, l, k, ws, n)" by (metis prod_cases6)
  note control_stop [OF assms c, where 'e = node_error]
  then have "control (snd ((stop_ecommerce_schedule p why :: ('s, unit) node_act) s)) = (False, i, l, None, [], n)"
    by (simp add: stop_ecommerce_schedule_def after_success never_fails control_changed) (simp add: control_def)
  then show ?thesis using assms c by (simp add: schedule_ok_def)
qed

lemma start_ok:
  assumes "schedule_ok s" "60 \<le> i" "i \<le> 86400" "1 \<le> l" "l \<le> 100"
  shows "schedule_ok (snd ((start_ecommerce_schedule p i l :: ('s, unit) node_act) s))"
proof -
  let ?t = "snd ((stop_existing_schedule_worker :: ('s, unit) node_act) s)"
  let ?u = "snd ((enable_schedule p i l :: ('s, unit) node_act) ?t)"
  obtain e i0 l0 k ws n where c: "control s = (e, i0, l0, k, ws, n)" by (metis prod_cases6)
  note control_stop [OF assms(1) c, where 'e = node_error]
  then have "control ?u = (True, i, l, None, [], n)"
    by (simp add: enable_schedule_def control_changed) (simp add: control_def)
  moreover have "snd ((start_ecommerce_schedule p i l :: ('s, unit) node_act) s) =
      snd ((spawn_worker l :: ('s, unit) node_act) ?u)"
    by (simp add: start_ecommerce_schedule_def after_success never_fails)
  ultimately show ?thesis
    using assms(2-) by (simp add: spawn_worker_def act_simps schedule_ok_def control_def)
qed

lemma configure_ok:
  assumes "schedule_ok s"
  shows "schedule_ok (snd (configure_ecommerce_schedule p h b i l s))"
proof -
  let ?i = "clamp_interval (unwrap_or i (lcf_default_interval_secs (np_config p)))"
  let ?l = "clamp_limit (unwrap_or l (lcf_default_limit (np_config p)))"
  have read: "schedule_ok (snd (execute_ecommerce_read_once p ?l s))"
    using steady_ok [OF keeps_snd [OF steady_read, of s p ?l]] assms by simp
  show ?thesis
    using assms read start_ok [OF read, of ?i ?l] stop_ok [OF assms] clamp_interval_range [of ?i]
      clamp_interval_range clamp_limit_range
    by (auto simp: configure_ecommerce_schedule_def Let_def andthen_run act_simps(1-4)
        schedule_response_of_def split: sum.split)
qed

lemma tick_ok:
  assumes "schedule_ok s"
  shows "schedule_ok (snd ((worker_tick p k :: ('s, unit) node_act) s))"
proof (cases "sch_enabled (nd_schedule s)")
  case False
  then have "nd_workers s = []" using assms by (simp add: schedule_ok_def control_def)
  then show ?thesis using assms by (simp add: worker_tick_def act_simps)
next
  case True
  have "keeps steady (match_res (execute_ecommerce_read_once p limit) (\<lambda>_. ret ())
      (\<lambda>e. andthen (change_schedule (\<lambda>c. c\<lparr>sch_last_error := Some (ne_message e)\<rparr>))
        (\<lambda>_. log_schedule p ''scheduler'' ''schedule.read_failed'' (ne_message e))) :: ('s, unit) node_act)" for limit
    by (intro keeps_intros) simp
  from steady_ok [OF keeps_snd [OF this]] True assms show ?thesis
    by (simp add: worker_tick_def andthen_run act_simps(4) act_simps(1) split: option.split)
qed

lemma run_now_ok:
  assumes "schedule_ok s"
  shows "schedule_ok (snd (run_ecommerce_schedule_now p h s))"
proof -
  have "keeps steady (run_ecommerce_schedule_now p h)"
    unfolding run_ecommerce_schedule_now_def by (intro keeps_intros)
  from steady_ok [OF keeps_snd [OF this]] assms show ?thesis by simp
qed

lemma event_schedule_ok:
  assumes "schedule_ok s"
  shows "schedule_ok (snd (node_do p e s))"
proof (cases "Polling \<in> event_changes e")
  case False
  then show ?thesis
    using event_frame [of e s p] assms by (simp add: frame_def schedule_ok_def control_def)
next
  case True
  show ?thesis
  proof (cases e)
    case (Request h r)
    then show ?thesis using True assms
      by (cases r) (simp_all add: node_do_def configure_ok run_now_ok)
  qed (use True assms in \<open>simp_all add: node_do_def tick_ok\<close>)
qed

lemma new_schedule_ok: "schedule_ok (new_node a c sec net host instants timing)"
  using clamp_interval_range clamp_limit_range
  by (simp add: schedule_ok_def control_def new_node_def task_store.defs default_schedule_def)

lemma run_schedule_ok:
  "schedule_ok (node_run p es (new_node a c sec net host instants timing))"
  by (rule node_run_invariant [where I = schedule_ok]) (rule new_schedule_ok event_schedule_ok, assumption?)+

text \<open>Two enables that both pass the stop before either of them starts its worker.\<close>

definition overlapping_enables ::
  "'s node_parts \<Rightarrow> u64 \<Rightarrow> u16 \<Rightarrow> u64 \<Rightarrow> u16 \<Rightarrow> ('s, unit) node_act" where
  "overlapping_enables p i l j m =
     andthen stop_existing_schedule_worker (\<lambda>_.
     andthen stop_existing_schedule_worker (\<lambda>_.
     andthen (enable_schedule p i l) (\<lambda>_.
     andthen (enable_schedule p j m) (\<lambda>_.
     andthen (spawn_worker l) (\<lambda>_. spawn_worker m)))))"

lemma control_steps:
  assumes "control s = (e, i, l, k, ws, n)"
  shows "control (snd ((stop_existing_schedule_worker :: ('s, unit) node_act) s)) =
      (e, i, l, None, (case k of None \<Rightarrow> ws | Some j \<Rightarrow> filter (\<lambda>(m, _). m \<noteq> j) ws), n)"
    and "control (snd ((enable_schedule p i' l' :: ('s, unit) node_act) s)) = (True, i', l', k, ws, n)"
    and "control (snd ((spawn_worker q :: ('s, unit) node_act) s)) = (e, i, l, Some n, ws @ [(n, q)], Suc n)"
    and "control (snd ((stop_ecommerce_schedule p why :: ('s, unit) node_act) s)) =
      (False, i, l, None, (case k of None \<Rightarrow> ws | Some j \<Rightarrow> filter (\<lambda>(m, _). m \<noteq> j) ws), n)"
proof -
  show c: "control (snd ((stop_existing_schedule_worker :: ('s, unit) node_act) s)) =
      (e, i, l, None, (case k of None \<Rightarrow> ws | Some j \<Rightarrow> filter (\<lambda>(m, _). m \<noteq> j) ws), n)"
    using assms by (auto simp: stop_existing_schedule_worker_def act_simps control_def split: option.splits)
  show "control (snd ((enable_schedule p i' l' :: ('s, unit) node_act) s)) = (True, i', l', k, ws, n)"
    using assms by (simp add: enable_schedule_def control_changed) (simp add: control_def)
  show "control (snd ((spawn_worker q :: ('s, unit) node_act) s)) = (e, i, l, Some n, ws @ [(n, q)], Suc n)"
    using assms by (simp add: spawn_worker_def act_simps control_def)
  show "control (snd ((stop_ecommerce_schedule p why :: ('s, unit) node_act) s)) =
      (False, i, l, None, (case k of None \<Rightarrow> ws | Some j \<Rightarrow> filter (\<lambda>(m, _). m \<noteq> j) ws), n)"
    using c by (simp add: stop_ecommerce_schedule_def after_success never_fails control_changed)
      (simp add: control_def)
qed

lemma control_start:
  assumes "control s = (e, i, l, None, ws, n)"
  shows "control (snd ((start_ecommerce_schedule p i' q :: ('s, unit) node_act) s))
     = (True, i', q, Some n, ws @ [(n, q)], Suc n)"
  using control_steps(3) [OF control_steps(2) [OF control_steps(1) [OF assms]]]
  by (simp add: start_ecommerce_schedule_def after_success never_fails)

lemma control_overlapping:
  assumes "control s = (e, i0, l0, k, ws, n)" and "schedule_ok s"
  shows "control (snd (overlapping_enables p i l j m s)) =
    (True, j, m, Some (Suc n), [(n, l), (Suc n, m)], Suc (Suc n))"
proof -
  note stop = control_steps(1) [OF assms(1)]
  note enables = control_steps(2) [OF control_steps(2) [OF control_steps(1) [OF stop]]]
  note control_steps(3) [OF control_steps(3) [OF enables]]
  moreover have "(case k of None \<Rightarrow> ws | Some j \<Rightarrow> filter (\<lambda>(m, _). m \<noteq> j) ws) = []"
    using assms by (auto simp: schedule_ok_def split: option.splits)
  ultimately show ?thesis
    by (simp add: overlapping_enables_def after_success never_fails)
qed

section \<open>Properties\<close>

text \<open>C19: in every run that serves one request at a time the schedule polls at least once a
  minute and at most once a day apart, asks for one to a hundred products, and a worker runs
  exactly while the schedule is enabled: one worker, with the limit of the schedule.\<close>

theorem schedule_in_step:
  "let s = node_run p es (new_node a c sec net host instants timing); sched = nd_schedule s in
     60 \<le> sch_interval_secs sched \<and> sch_interval_secs sched \<le> 86400
   \<and> 1 \<le> sch_limit sched \<and> sch_limit sched \<le> 100
   \<and> nd_workers s = (if sch_enabled sched then [(the (sch_worker sched), sch_limit sched)] else [])"
  using run_schedule_ok [of p es a c sec net host instants timing]
  by (auto simp: Let_def schedule_ok_def control_def split: option.splits)



end
