(* ===== verification/NodeWrites.thy ===== *)
theory NodeWrites
  imports NodeFrame NodeSamples
begin

text \<open>
  What the tools of the bridge may write to the shop (modules 2 and 3 of
  \<open>apps/local-node/src/main.rs\<close>): the attributes of a copy update are justified by the proposal
  and the dictionary of the category, nothing is written without the confirmation of the
  request, and a push needs no approval of the operator.
\<close>

section \<open>Matching\<close>

definition filled_values :: "string list \<Rightarrow> string list" where
  "filled_values raws = filter (\<lambda>v. v \<noteq> []) (map trim raws)"

definition not_in_dictionary :: "string \<Rightarrow> string \<Rightarrow> dropped_item" where
  "not_in_dictionary name v =
     \<lparr> dp_name = name, dp_value = Some v, dp_reason = ''value not in attribute dictionary'' \<rparr>"

text \<open>The loop over the values as a map and a filter.\<close>

lemma match_values_run:
  "match_values x ds a name raws found out =
     (found @ List.map_filter (match_value x ds a) (filled_values raws),
      out\<lparr>mo_dropped := mo_dropped out @
        map (not_in_dictionary name) (filter (\<lambda>v. match_value x ds a v = None) (filled_values raws))\<rparr>)"
proof (induction raws arbitrary: found out)
  case Nil
  then show ?case by (simp add: filled_values_def List.map_filter_simps)
next
  case (Cons raw raws)
  then show ?case
    by (simp add: filled_values_def List.map_filter_simps Let_def drop_item_def not_in_dictionary_def
        split: option.split)
qed

text \<open>A resolved attribute is justified by an attribute of the proposal: the dictionary names it, and
  each value of it is a value of the proposal, by its id where the attribute has a dictionary.\<close>

definition justified_value ::
  "crates \<Rightarrow> value_dictionaries \<Rightarrow> category_attribute \<Rightarrow> string \<Rightarrow> resolved_value \<Rightarrow> bool" where
  "justified_value x ds c w v \<longleftrightarrow>
     (if is_dictionary c
      then \<exists>es e. ds (ca_id c) = Some es \<and> e \<in> set es \<and> v = DictionaryValue (av_value_id e)
        \<and> module3_normalize x (av_value e) = module3_normalize x w
      else v = FreeText w)"

definition justified ::
  "crates \<Rightarrow> m3_attribute list \<Rightarrow> category_attribute list \<Rightarrow> value_dictionaries \<Rightarrow> resolved_attribute \<Rightarrow> bool" where
  "justified x proposal dictionary ds r \<longleftrightarrow> (\<exists>a \<in> set proposal. \<exists>c \<in> set dictionary.
     ra_attribute_id r = ca_id c \<and> module3_normalize x (ca_name c) = module3_normalize x (trim (ma_name a))
     \<and> ra_values r \<noteq> []
     \<and> (\<forall>v \<in> set (ra_values r). \<exists>w \<in> set (filled_values (ma_values a)). justified_value x ds c w v))"

lemma find_SomeD: "find P xs = Some y \<Longrightarrow> y \<in> set xs \<and> P y"
  by (auto simp: find_Some_iff)

lemma match_value_justified: "match_value x ds c w = Some (v, shown) \<Longrightarrow> justified_value x ds c w v"
  by (force simp: match_value_def justified_value_def bind_eq_Some_conv dest: find_SomeD split: if_splits)

lemma definition_of_Some:
  "definition_of x dictionary name = Some c \<Longrightarrow>
     c \<in> set dictionary \<and> module3_normalize x (ca_name c) = module3_normalize x name"
  by (auto simp: definition_of_def dest: find_SomeD)

definition outcome_ok ::
  "crates \<Rightarrow> m3_attribute list \<Rightarrow> category_attribute list \<Rightarrow> value_dictionaries \<Rightarrow> match_outcome \<Rightarrow> bool" where
  "outcome_ok x proposal dictionary ds out \<longleftrightarrow> (\<forall>r \<in> set (mo_resolved out). justified x proposal dictionary ds r)
     \<and> map mt_attribute_id (mo_matched out) = map ra_attribute_id (mo_resolved out)"

lemma match_attribute_ok:
  assumes "outcome_ok x proposal dictionary ds out" and "a \<in> set proposal"
  shows "outcome_ok x proposal dictionary ds (match_attribute x dictionary ds a out)"
proof -
  let ?found = "\<lambda>c. List.map_filter (match_value x ds c) (filled_values (ma_values a))"
  have "justified x proposal dictionary ds \<lparr> ra_attribute_id = ca_id c, ra_values = map fst (?found c) \<rparr>"
    if "definition_of x dictionary (trim (ma_name a)) = Some c" "?found c \<noteq> []" for c
  proof -
    have "\<exists>w \<in> set (filled_values (ma_values a)). justified_value x ds c w v" if v: "v \<in> set (map fst (?found c))" for v
    proof -
      obtain r where r: "r \<in> set (?found c)" "v = fst r" using v by auto
      then obtain w where "w \<in> set (filled_values (ma_values a))" "match_value x ds c w = Some r"
        by (auto simp: List.map_filter_def)
      then show ?thesis using match_value_justified [of x ds c w "fst r" "snd r"] r(2) by auto
    qed
    then show ?thesis
      unfolding justified_def using assms(2) definition_of_Some [OF that(1)] that(2) by fastforce
  qed
  then show ?thesis
    using assms(1) by (auto simp: match_attribute_def Let_def drop_item_def match_values_run outcome_ok_def
        split: option.split)
qed

lemma match_attributes_ok: "outcome_ok x proposal dictionary ds (module3_match_attributes x proposal dictionary ds)"
proof -
  have "outcome_ok x proposal dictionary ds (fold (match_attribute x dictionary ds) as out)"
    if "outcome_ok x proposal dictionary ds out" "set as \<subseteq> set proposal" for as out
    using that by (induction as arbitrary: out) (auto simp: match_attribute_ok)
  from this [of no_outcome proposal] show ?thesis
    by (simp add: module3_match_attributes_def no_outcome_def outcome_ok_def)
qed

text \<open>A value of an attribute is accounted for: it is written, or reported as dropped, by itself or
  with the whole attribute.\<close>

definition accounted ::
  "crates \<Rightarrow> category_attribute list \<Rightarrow> value_dictionaries \<Rightarrow> m3_attribute \<Rightarrow> string \<Rightarrow> match_outcome \<Rightarrow> bool" where
  "accounted x dictionary ds a w out \<longleftrightarrow>
     (\<exists>c. definition_of x dictionary (trim (ma_name a)) = Some c \<and> (\<exists>r \<in> set (mo_resolved out).
        ra_attribute_id r = ca_id c \<and> (\<exists>v \<in> set (ra_values r). justified_value x ds c w v)))
     \<or> (\<exists>d \<in> set (mo_dropped out). dp_name d = trim (ma_name a) \<and> dp_value d \<in> {None, Some w})"

lemma match_attribute_grows:
  "set (mo_resolved out) \<subseteq> set (mo_resolved (match_attribute x dictionary ds a out))"
  "set (mo_dropped out) \<subseteq> set (mo_dropped (match_attribute x dictionary ds a out))"
  by (auto simp: match_attribute_def Let_def drop_item_def match_values_run split: option.split)

lemma accounted_mono:
  "accounted x dictionary ds a w out \<Longrightarrow> accounted x dictionary ds a w (match_attribute x dictionary ds b out)"
  using match_attribute_grows unfolding accounted_def by (meson subsetD)

lemma match_attribute_accounts:
  assumes "w \<in> set (filled_values (ma_values a))"
  shows "accounted x dictionary ds a w (match_attribute x dictionary ds a out)"
proof (cases "trim (ma_name a) = [] \<or> definition_of x dictionary (trim (ma_name a)) = None")
  case True
  then show ?thesis by (auto simp: match_attribute_def Let_def drop_item_def accounted_def)
next
  case False
  then obtain c where c: "definition_of x dictionary (trim (ma_name a)) = Some c" "trim (ma_name a) \<noteq> []" by auto
  let ?found = "List.map_filter (match_value x ds c) (filled_values (ma_values a))"
  show ?thesis
  proof (cases "match_value x ds c w")
    case None
    then have "not_in_dictionary (trim (ma_name a)) w \<in> set (mo_dropped (match_attribute x dictionary ds a out))"
      using c assms by (auto simp: match_attribute_def match_values_run drop_item_def Let_def)
    then show ?thesis unfolding accounted_def by (force simp: not_in_dictionary_def)
  next
    case (Some r)
    then have "r \<in> set ?found" using assms by (force simp: List.map_filter_def)
    then have "\<lparr> ra_attribute_id = ca_id c, ra_values = map fst ?found \<rparr>
        \<in> set (mo_resolved (match_attribute x dictionary ds a out))" "fst r \<in> set (map fst ?found)"
      using c by (auto simp: match_attribute_def match_values_run Let_def)
    moreover have "justified_value x ds c w (fst r)"
      using match_value_justified [of x ds c w "fst r" "snd r"] Some by simp
    ultimately show ?thesis using c unfolding accounted_def by (metis resolved_attribute.select_convs)
  qed
qed

lemma match_attributes_account:
  assumes "a \<in> set proposal" and "w \<in> set (filled_values (ma_values a))"
  shows "accounted x dictionary ds a w (module3_match_attributes x proposal dictionary ds)"
proof -
  have kept: "accounted x dictionary ds a w (fold (match_attribute x dictionary ds) as out)"
    if "accounted x dictionary ds a w out" for as out
    using that by (induction as arbitrary: out) (simp_all add: accounted_mono)
  have "accounted x dictionary ds a w (fold (match_attribute x dictionary ds) as out)" if "a \<in> set as" for as out
    using that by (induction as arbitrary: out) (auto intro: kept match_attribute_accounts [OF assms(2)])
  then show ?thesis using assms(1) by (simp add: module3_match_attributes_def)
qed


definition graphite_proposal :: "m3_attribute list" where
  "graphite_proposal = [\<lparr> ma_name = '' Color'', ma_values = [''graphite '', ''Plaid''] \<rparr>]"

definition mock_dictionary :: "category_attribute list" where
  "mock_dictionary = [\<lparr> ca_id = 10096, ca_name = ''Color'', ca_is_collection = False, ca_dictionary_id = 901,
     ca_attribute_type = None \<rparr>]"

definition mock_values :: value_dictionaries where
  "mock_values _ = Some [\<lparr> av_value_id = 5001, av_value = ''Graphite'' \<rparr>]"

lemma graphite_matched:
  "mo_resolved (module3_match_attributes toy_crates graphite_proposal mock_dictionary mock_values) =
     [\<lparr> ra_attribute_id = 10096, ra_values = [DictionaryValue 5001] \<rparr>]"
  by code_simp


section \<open>Without confirmation\<close>

text \<open>The parts with another connector for writing copies and images.\<close>

definition other_writer ::
  "'s node_parts \<Rightarrow> (ozon_credentials \<Rightarrow> copy_update \<Rightarrow> copy_update_result ozon)
   \<Rightarrow> (ozon_credentials \<Rightarrow> string \<Rightarrow> string list \<Rightarrow> pictures_import ozon) \<Rightarrow> 's node_parts" where
  "other_writer p update import =
     p\<lparr>np_writer := (np_writer p)\<lparr>wc_update_copy := update, wc_pictures_import := import\<rparr>\<rparr>"

lemma other_writer_fields [simp]:
  "np_crates (other_writer p u i) = np_crates p" "np_config (other_writer p u i) = np_config p"
  "np_env (other_writer p u i) = np_env p" "np_secrets (other_writer p u i) = np_secrets p"
  "np_reader (other_writer p u i) = np_reader p" "np_ioreg (other_writer p u i) = np_ioreg p"
  "wc_category_attributes (np_writer (other_writer p u i)) = wc_category_attributes (np_writer p)"
  "wc_attribute_values (np_writer (other_writer p u i)) = wc_attribute_values (np_writer p)"
  by (simp_all add: other_writer_def)

lemma other_writer_gate: "batch_gate (other_writer p u i) h none verb b = batch_gate p h none verb b"
  by (simp add: batch_gate_def require_valid_lease_with_feature_def load_cloud_lease_def get_secret_def
      validate_cloud_lease_with_feature_def validate_cloud_lease_def load_or_create_device_fingerprint_def
      put_secret_def load_ozon_credentials_def cong: option.case_cong if_cong)

lemma other_writer_push: "module3_push_one (other_writer p u i) c t False = module3_push_one p c t False"
  by (simp add: module3_push_one_def)

text \<open>C15: a push of product copy that the request does not confirm never writes: whatever the
  connector does when asked to write, the answer and the state after the push are the same.\<close>

theorem unconfirmed_push_never_writes:
  "module3_push (other_writer p update import) h ts False = module3_push p h ts False"
  by (simp add: module3_push_def other_writer_gate other_writer_push)

section \<open>Without approval\<close>

lemma relist_push_one_run:
  assumes "rc_product_get (np_reader p) c (normalized
      \<lparr> lk_product_id = Some (rpt_product_id t), lk_offer_id = None, lk_sku = None \<rparr>) (nd_network s) = (Inr d, n)"
    and "starts_with (trim (rpt_new_primary_url t)) ''http''"
  shows "nd_network (snd (relist_push_one p c t s)) = snd (wc_pictures_import (np_writer p) c (pd_product_id d)
    (merge_unique [trim (rpt_new_primary_url t)] (map pi_url (pd_images d))) n)"
  using assms by (simp add: relist_push_one_def Let_def attempt_def act_simps res_simps split: sum.split)

text \<open>C25: a push of a primary image needs no approval of the operator: with the token of the bridge
  and a lease it imports the images into the shop right away, and no task is made or consulted;
  the manifest promises that the bridge cannot execute writes.\<close>

theorem bridge_pushes_without_approval:
  assumes "h ''x-openclaw-token'' = Some (lcf_openclaw_token (np_config p))"
    and "require_valid_lease_with_feature p OzonRead s = (Inr (), s1)"
    and "load_ozon_credentials p s1 = (Inr c, s2)"
    and "rc_product_get (np_reader p) c (normalized
      \<lparr> lk_product_id = Some (rpt_product_id t), lk_offer_id = None, lk_sku = None \<rparr>) (nd_network s2) = (Inr d, n)"
    and "starts_with (trim (rpt_new_primary_url t)) ''http''"
  shows "nd_network (snd (relist_push p h [t] s)) = snd (wc_pictures_import (np_writer p) c (pd_product_id d)
      (merge_unique [trim (rpt_new_primary_url t)] (map pi_url (pd_images d))) n)
    \<and> ts_inner (snd (relist_push p h [t] s)) = ts_inner s \<and> ts_audit (snd (relist_push p h [t] s)) = ts_audit s"
proof -
  have "require_bridge_or_operator_token (np_config p) h = Inr ()"
    using assms(1) by (simp add: bridge_token_iff)
  then have gate: "batch_gate p h ''nothing to push'' ''push'' [t] s = (Inr c, s2)"
    using assms(2,3) by (simp add: batch_gate_def andthen_run act_simps(3) relist_max_batch_def res_simps)
  have "nd_network (snd (relist_push p h [t] s)) = nd_network (snd (relist_push_one p c t s2))"
    by (simp add: relist_push_def andthen_run gate act_simps(1,2) match_res_def split: sum.split prod.split)
  moreover have "calm s (snd (relist_push p h [t] s))" by (rule keeps_snd) (intro keeps_intros)
  ultimately show ?thesis
    using relist_push_one_run [OF assms(4,5)] by (simp add: calm_def tables_def)
qed

definition sample_target :: relist_push_target where
  "sample_target = \<lparr> rpt_product_id = ''mock-product-1'', rpt_new_primary_url = ''http://a/b.png'' \<rparr>"

lemma mock_product_found:
  "is_ok (fst (rc_product_get mock_read_connector debug_mock_ozon_credentials (normalized
     \<lparr> lk_product_id = Some (rpt_product_id sample_target), lk_offer_id = None, lk_sku = None \<rparr>) sample_network))"
  by code_simp

lemma bridge_pushes_without_approval_witness:
  "ts_inner (snd (relist_push sample_parts bridge_headers [sample_target] sample_node)) = []"
proof -
  have gate: "bridge_headers ''x-openclaw-token'' = Some (lcf_openclaw_token (np_config sample_parts))"
    "require_valid_lease_with_feature sample_parts OzonRead sample_node = (Inr (), sample_node)"
    "load_ozon_credentials sample_parts sample_node = (Inr debug_mock_ozon_credentials, sample_node)"
    by (simp_all add: sample_access require_valid_lease_with_feature_def load_ozon_credentials_def act_simps
        sample_parts_def sample_local_def)
  have node: "nd_network sample_node = sample_network" "ts_inner sample_node = []" "np_reader sample_parts = mock_read_connector"
    by (simp_all add: sample_node_def new_node_def task_store.defs store_new_def ambient.defs sample_parts_def)
  obtain d n where "rc_product_get (np_reader sample_parts) debug_mock_ozon_credentials (normalized
     \<lparr> lk_product_id = Some (rpt_product_id sample_target), lk_offer_id = None, lk_sku = None \<rparr>)
     (nd_network sample_node) = (Inr d, n)"
    using mock_product_found unfolding node by (auto simp: is_ok_iff prod_eq_iff)
  moreover have "starts_with (trim (rpt_new_primary_url sample_target)) ''http''" by code_simp
  ultimately show ?thesis using bridge_pushes_without_approval [where h = bridge_headers, OF gate] node(2) by metis
qed

end
