(* ===== verification/IssuerConfig.thy ===== *)
theory IssuerConfig
  imports NodeApi Utf8
begin

text \<open>
  The issuer of Nebula identities for development (\<open>apps/nebula-dev-issuer/src/main.rs\<close>): its
  configuration from the environment with the registered clients and the one user it knows, and
  the sign-in page.
\<close>

section \<open>Configuration\<close>

definition default_client_id :: string where
  "default_client_id = ''ozon_rust_suite_portal''"

definition default_redirect_uri :: string where
  "default_redirect_uri = ''http://127.0.0.1:5171/auth/callback''"

definition default_demo_email :: string where
  "default_demo_email = ''demo@nebula.local''"

definition default_demo_name :: string where
  "default_demo_name = ''Nebula Dev User''"

definition default_nebula_id :: string where
  "default_nebula_id = ''NEBULA-2026-OZONLOCAL0001''"

record public_client =
  pc_redirect_uris :: "string list"
  pc_scopes :: "string list"

record demo_user =
  du_id :: uuid
  du_username :: string
  du_password :: string
  du_name :: string
  du_email :: string
  du_phone :: "string option"
  du_nebula_id :: nebula_id

record issuer_config =
  icf_bind :: string
  icf_issuer :: string
  icf_access_token_ttl :: u64
  icf_refresh_token_ttl :: u64
  icf_allow_headless_authorize :: bool
  icf_clients :: "(string \<times> public_client) list"
  icf_demo_user :: demo_user

definition env_or :: "environment \<Rightarrow> string \<Rightarrow> string \<Rightarrow> string" where
  "env_or env name fallback = unwrap_or (env name) fallback"

definition env_bool :: "environment \<Rightarrow> string \<Rightarrow> bool \<Rightarrow> bool" where
  "env_bool env name fallback =
     (case env name of None \<Rightarrow> fallback
      | Some v \<Rightarrow> to_lowercase v \<notin> {''0'', ''false'', ''no''})"

definition split_env_list :: "environment \<Rightarrow> string \<Rightarrow> string list option" where
  "split_env_list env name =
     map_option (\<lambda>v. filter (\<lambda>p. p \<noteq> []) (map trim (split_on (CHR '','') v))) (env name)"

definition public_client_of_json :: "public_client de" where
  "public_client_of_json j =
     (case (field ''redirect_uris'' (de_array de_string) j, field ''scopes'' (de_array de_string) j) of
        (Some u, Some s) \<Rightarrow> Some \<lparr> pc_redirect_uris = u, pc_scopes = s \<rparr>
      | _ \<Rightarrow> None)"

text \<open>The clients as a table: of two entries with the same name the later one counts.\<close>

definition parse_clients :: "crates \<Rightarrow> environment \<Rightarrow> string + (string \<times> public_client) list" where
  "parse_clients x env =
     (case env ''NEBULA_DEV_PUBLIC_CLIENTS_JSON'' of
        Some raw \<Rightarrow>
          (case Option.bind (x_json_parse x raw) (de_map public_client_of_json) of
             Some entries \<Rightarrow> Inr (rev entries)
           | None \<Rightarrow> Inl (x_json_error x raw))
      | None \<Rightarrow> Inr
          [(env_or env ''NEBULA_DEV_CLIENT_ID'' default_client_id,
            \<lparr> pc_redirect_uris = unwrap_or (split_env_list env ''NEBULA_DEV_REDIRECT_URIS'')
                [env_or env ''NEBULA_DEV_REDIRECT_URI'' default_redirect_uri,
                 ''http://localhost:5171/auth/callback'', ''skybridge://auth/nebula''],
              pc_scopes = unwrap_or (split_env_list env ''NEBULA_DEV_SCOPES'')
                [''openid'', ''profile'', ''email'', ''offline_access''] \<rparr>)])"

definition demo_user_from_env :: "crates \<Rightarrow> environment \<Rightarrow> string + demo_user" where
  "demo_user_from_env x env =
     bind_res (map_err (\<lambda>_. ''NEBULA_DEV_NEBULA_ID is not a valid Nebula ID'')
       (nebula_parse (env_or env ''NEBULA_DEV_NEBULA_ID'' default_nebula_id))) (\<lambda>nebula_id. Inr
       \<lparr> du_id = unwrap_or (Option.bind (env ''NEBULA_DEV_USER_ID'') (x_uuid_parse x))
           0x11111111111141118111111111111111,
         du_username = env_or env ''NEBULA_DEV_USERNAME'' ''demo'',
         du_password = env_or env ''NEBULA_DEV_PASSWORD'' ''demo-pass'',
         du_name = env_or env ''NEBULA_DEV_DISPLAY_NAME'' default_demo_name,
         du_email = env_or env ''NEBULA_DEV_EMAIL'' default_demo_email,
         du_phone = (case env ''NEBULA_DEV_PHONE'' of None \<Rightarrow> None
           | Some v \<Rightarrow> if trim v = [] then None else Some v),
         du_nebula_id = nebula_id \<rparr>)"

definition issuer_from_env :: "crates \<Rightarrow> environment \<Rightarrow> string + issuer_config" where
  "issuer_from_env x env =
     (let bind = env_or env ''NEBULA_DEV_BIND'' ''127.0.0.1:8788'' in
      bind_res (parse_clients x env) (\<lambda>clients.
      bind_res (demo_user_from_env x env) (\<lambda>user. Inr
        \<lparr> icf_bind = bind,
          icf_issuer = trim_end_matches (CHR ''/'') (env_or env ''NEBULA_DEV_ISSUER'' (''http://'' @ bind)),
          icf_access_token_ttl = env_u64 env ''NEBULA_DEV_ACCESS_TOKEN_TTL_SEC'' 900,
          icf_refresh_token_ttl = env_u64 env ''NEBULA_DEV_REFRESH_TOKEN_TTL_SEC'' (60 * 60 * 24 * 30),
          icf_allow_headless_authorize = env_bool env ''NEBULA_DEV_ALLOW_HEADLESS_AUTHORIZE'' True,
          icf_clients = clients, icf_demo_user = user \<rparr>)))"

section \<open>The sign-in page\<close>

text \<open>\<open>str::replace\<close> of one character.\<close>

definition replace_char :: "char \<Rightarrow> string \<Rightarrow> string \<Rightarrow> string" where
  "replace_char c new s = concat (map (\<lambda>d. if d = c then new else [d]) s)"

definition html_escape :: "string \<Rightarrow> string" where
  "html_escape v =
     replace_char (CHR 0x22) ''&quot;'' (replace_char (CHR ''>'') ''&gt;''
       (replace_char (CHR ''<'') ''&lt;'' (replace_char (CHR ''&'') ''&amp;'' v)))"

text \<open>The page up to the first value that is filled in.\<close>

definition page_head :: string where
  "page_head =
     ''<!doctype html>'' @ [CHR 0x0A] @ ''<html lang=\"en\">'' @ [CHR 0x0A] @ ''  <head>'' @ [CHR 0x0A] @
     ''    <meta charset=\"utf-8\" />'' @ [CHR 0x0A] @
     ''    <meta name=\"viewport\" content=\"width=device-width, initial-scale=1\" />'' @ [CHR 0x0A] @
     ''    <title>Nebula Dev Sign In</title>'' @ [CHR 0x0A] @ ''    <style>'' @ [CHR 0x0A] @
     ''      * { box-sizing: border-box; }'' @ [CHR 0x0A] @
     ''      body { margin: 0; min-height: 100vh; font-family: -apple-system,'' @
     '' BlinkMacSystemFont, \"Segoe UI\", sans-serif; background: #f6f8fb; color: #111827;'' @
     '' display: grid; place-items: center; padding: 24px; }'' @ [CHR 0x0A] @
     ''      .card { width: min(440px, 100%); background: #ffffff; border: 1px solid #d9e0ea;'' @
     '' border-radius: 8px; padding: 24px; box-shadow: 0 20px 60px rgba(15, 23, 42, 0.12); }'' @
     [CHR 0x0A] @ ''      h1 { margin: 0 0 8px; font-size: 24px; letter-spacing: 0; }'' @ [CHR 0x0A] @
     ''      p { margin: 0 0 20px; color: #5b6472; line-height: 1.5; }'' @ [CHR 0x0A] @
     ''      label { display: block; margin: 14px 0 6px; font-size: 13px; font-weight: 700;'' @
     '' color: #374151; }'' @ [CHR 0x0A] @
     ''      input { width: 100%; border: 1px solid #cbd5e1; border-radius: 6px; padding: 11px'' @
     '' 12px; font: inherit; }'' @ [CHR 0x0A] @
     ''      button { width: 100%; margin-top: 18px; border: none; border-radius: 6px; padding:'' @
     '' 12px; font-weight: 800; cursor: pointer; color: #ffffff; background: #2563eb; }'' @ [CHR 0x0A] @
     ''      .meta { margin-top: 18px; padding-top: 16px; border-top: 1px solid #e5e7eb;'' @
     '' font-size: 12px; color: #64748b; line-height: 1.6; }'' @ [CHR 0x0A] @
     ''      .error { margin: 12px 0 0; color: #b91c1c; font-size: 13px; }'' @ [CHR 0x0A] @
     ''      code { color: #1d4ed8; overflow-wrap: anywhere; }'' @ [CHR 0x0A] @ ''    </style>'' @
     [CHR 0x0A] @ ''  </head>'' @ [CHR 0x0A] @ ''  <body>'' @ [CHR 0x0A] @ ''    <main class=\"card\">'' @
     [CHR 0x0A] @ ''      <h1>Nebula Dev Sign In</h1>'' @ [CHR 0x0A] @
     ''      <p>Local public-client OAuth 2.1 + PKCE issuer for Ozon Rust Suite development.</p>'' @
     [CHR 0x0A] @ ''      <form method=\"post\" action=\"/oauth/authorize\">'' @ [CHR 0x0A] @
     ''        <input type=\"hidden\" name=\"request_id\" value=\"''"

definition error_block :: "string option \<Rightarrow> string" where
  "error_block m = (case m of None \<Rightarrow> []
     | Some t \<Rightarrow> ''<div class=\"error\">'' @ html_escape t @ ''</div>'')"

definition render_authorize_page ::
  "string \<Rightarrow> string \<Rightarrow> string \<Rightarrow> string \<Rightarrow> demo_user \<Rightarrow> string option \<Rightarrow> string" where
  "render_authorize_page request_id client_id redirect_uri scope user message =
     (let error = error_block message in page_head @
     html_escape request_id @ ''\" />'' @ [CHR 0x0A] @
     ''        <label for=\"username\">Username</label>'' @ [CHR 0x0A] @
     ''        <input id=\"username\" name=\"username\" type=\"text\" value=\"'' @
     html_escape (du_username user) @ ''\" autocomplete=\"username\" />'' @ [CHR 0x0A] @
     ''        <label for=\"password\">Password</label>'' @ [CHR 0x0A] @
     ''        <input id=\"password\" name=\"password\" type=\"password\" value=\"'' @
     html_escape (du_password user) @ ''\" autocomplete=\"current-password\" />'' @ [CHR 0x0A] @
     ''        <button type=\"submit\">Authorize</button>'' @ [CHR 0x0A] @ ''      </form>'' @ [CHR 0x0A] @
     ''      '' @ error @ [CHR 0x0A] @ ''      <div class=\"meta\">'' @ [CHR 0x0A] @
     ''        Client: <code>'' @ html_escape client_id @ ''</code><br />'' @ [CHR 0x0A] @
     ''        Redirect URI: <code>'' @ html_escape redirect_uri @ ''</code><br />'' @ [CHR 0x0A] @
     ''        Scope: <code>'' @ html_escape scope @ ''</code>'' @ [CHR 0x0A] @ ''      </div>'' @
     [CHR 0x0A] @ ''    </main>'' @ [CHR 0x0A] @ ''  </body>'' @ [CHR 0x0A] @ ''</html>'')"

text \<open>Nothing that is filled in can open or close a tag or an attribute.\<close>

lemma set_replace_char: "set (replace_char c new s) \<subseteq> (set s - {c}) \<union> set new"
  by (auto simp: replace_char_def split: if_splits)

lemma not_in_replace_char: "d \<notin> set new \<Longrightarrow> d = c \<or> d \<notin> set s \<Longrightarrow> d \<notin> set (replace_char c new s)"
  using set_replace_char by fastforce

lemma html_escape_safe: "set (html_escape v) \<inter> {CHR ''<'', CHR ''>'', CHR 0x22} = {}"
  by (simp add: html_escape_def not_in_replace_char)

end
