(* ===== verification/Issuer.thy ===== *)
theory Issuer
  imports IssuerConfig
begin

text \<open>
  The handlers of the issuer (\<open>apps/nebula-dev-issuer/src/main.rs\<close>): authorization requests and
  codes, access and refresh tokens, and the profile they open. The store is four tables behind
  one lock; a panic while the lock is held for writing poisons it. An instant is a number of
  nanoseconds; adding a duration panics past the last instant the platform can represent.
\<close>

section \<open>State\<close>

record authorize_request =
  ar_client_id :: string
  ar_redirect_uri :: string
  ar_scope :: string
  ar_state :: string
  ar_code_challenge :: string
  ar_expires_at :: int

record authorization_code =
  cd_client_id :: string
  cd_redirect_uri :: string
  cd_scope :: string
  cd_code_challenge :: string
  cd_user :: demo_user
  cd_expires_at :: int
  cd_used :: bool

record token_record =
  tr_user :: demo_user
  tr_expires_at :: int

record refresh_token_record =
  rt_user :: demo_user
  rt_client_id :: string
  rt_scope :: string
  rt_expires_at :: int
  rt_revoked :: bool

text \<open>\<open>is_instant\<close> are the readings of \<open>Instant::now\<close>, and \<open>is_random k n\<close> are the \<open>n\<close> bytes of
  the \<open>k\<close>-th draw of \<open>fill_bytes\<close>.\<close>

record issuer =
  is_requests :: "(string \<times> authorize_request) list"
  is_codes :: "(string \<times> authorization_code) list"
  is_access :: "(string \<times> token_record) list"
  is_refresh :: "(string \<times> refresh_token_record) list"
  is_poisoned :: bool
  is_instant :: "nat \<Rightarrow> int"
  is_instant_n :: nat
  is_random :: "nat \<Rightarrow> nat \<Rightarrow> string"
  is_random_n :: nat

record issuer_parts =
  ip_crates :: crates
  ip_config :: issuer_config
  ip_last_instant :: int

definition new_issuer :: "(nat \<Rightarrow> int) \<Rightarrow> (nat \<Rightarrow> nat \<Rightarrow> string) \<Rightarrow> issuer" where
  "new_issuer instants random =
     \<lparr> is_requests = [], is_codes = [], is_access = [], is_refresh = [], is_poisoned = False,
       is_instant = instants, is_instant_n = 0, is_random = random, is_random_n = 0 \<rparr>"

text \<open>A handler answers, refuses with a status and an OAuth error, or panics.\<close>

datatype issuer_failure = Refused nat string | Aborted

type_synonym 'a issuer_act = "(issuer, issuer_failure, 'a) act"

definition tick :: "int issuer_act" where
  "tick s = (Inr (is_instant s (is_instant_n s)), s\<lparr>is_instant_n := Suc (is_instant_n s)\<rparr>)"

definition random_token :: "issuer_parts \<Rightarrow> nat \<Rightarrow> string issuer_act" where
  "random_token p n s = (Inr (x_base64url_encode (ip_crates p) (is_random s (is_random_n s) n)),
     s\<lparr>is_random_n := Suc (is_random_n s)\<rparr>)"

text \<open>\<open>Instant::now() + duration\<close>.\<close>

definition after_now :: "issuer_parts \<Rightarrow> int \<Rightarrow> int issuer_act" where
  "after_now p d = andthen tick (\<lambda>now. if now + d \<le> ip_last_instant p then ret (now + d) else throw Aborted)"

text \<open>\<open>store.write().expect(..)\<close> for the extent of a guard, and \<open>store.read().expect(..)\<close>.\<close>

definition write_store :: "'a issuer_act \<Rightarrow> 'a issuer_act" where
  "write_store m s =
     (if is_poisoned s then (Inl Aborted, s)
      else case m s of
        (Inl Aborted, t) \<Rightarrow> (Inl Aborted, t\<lparr>is_poisoned := True\<rparr>)
      | r \<Rightarrow> r)"

definition read_store :: "(issuer \<Rightarrow> 'a) \<Rightarrow> 'a issuer_act" where
  "read_store f = andthen (gets is_poisoned) (\<lambda>b. if b then throw Aborted else gets f)"

definition purge_expired :: "unit issuer_act" where
  "purge_expired =
     andthen (gets is_poisoned) (\<lambda>b.
     if b then ret ()
     else andthen tick (\<lambda>now. modify (\<lambda>s. s\<lparr>
       is_requests := filter (\<lambda>(k, v). ar_expires_at v > now) (is_requests s),
       is_codes := filter (\<lambda>(k, v). cd_expires_at v > now \<and> \<not> cd_used v) (is_codes s),
       is_access := filter (\<lambda>(k, v). tr_expires_at v > now) (is_access s),
       is_refresh := filter (\<lambda>(k, v). rt_expires_at v > now \<and> \<not> rt_revoked v) (is_refresh s)\<rparr>)))"

section \<open>Requests for authorization\<close>

record authorize_query =
  aq_response_type :: "string option"
  aq_client_id :: "string option"
  aq_redirect_uri :: "string option"
  aq_scope :: "string option"
  aq_state :: "string option"
  aq_code_challenge :: "string option"
  aq_code_challenge_method :: "string option"

definition normalize_scope :: "string \<Rightarrow> string list \<Rightarrow> string + string" where
  "normalize_scope scope allowed =
     (let requested = split_whitespace scope in
      if requested = [] then Inl ''invalid_scope''
      else if \<exists>i \<in> set requested. i \<notin> set allowed then Inl ''invalid_scope''
      else Inr (join '' '' requested))"

definition validate_authorize_request ::
  "issuer_parts \<Rightarrow> authorize_query \<Rightarrow> authorize_request issuer_act" where
  "validate_authorize_request p q =
     (let refuse = (\<lambda>e. throw (Refused 400 e));
          client_id = unwrap_or (aq_client_id q) []; redirect_uri = unwrap_or (aq_redirect_uri q) [];
          code_challenge = unwrap_or (aq_code_challenge q) [] in
      if aq_response_type q \<noteq> Some ''code'' then refuse ''unsupported_response_type''
      else if trim client_id = [] then refuse ''invalid_client''
      else if trim redirect_uri = [] then refuse ''invalid_redirect_uri''
      else if trim (unwrap_or (aq_state q) []) = [] then refuse ''invalid_state''
      else if trim code_challenge = [] then refuse ''invalid_code_challenge''
      else if map_option to_uppercase (aq_code_challenge_method q) \<noteq> Some ''S256''
      then refuse ''invalid_code_challenge_method''
      else (case map_of (icf_clients (ip_config p)) (trim client_id) of
          None \<Rightarrow> refuse ''unauthorized_client''
        | Some client \<Rightarrow>
            if trim redirect_uri \<notin> set (pc_redirect_uris client) then refuse ''redirect_uri_mismatch''
            else andthen (lift (map_err (Refused 400)
                (normalize_scope (unwrap_or (aq_scope q) ''openid profile email'') (pc_scopes client)))) (\<lambda>scope.
              andthen (after_now p (seconds (10 * 60))) (\<lambda>expires_at. ret
                \<lparr> ar_client_id = trim client_id, ar_redirect_uri = trim redirect_uri, ar_scope = scope,
                  ar_state = trim (unwrap_or (aq_state q) []), ar_code_challenge = trim code_challenge,
                  ar_expires_at = expires_at \<rparr>))))"

text \<open>An answer of the two browser routes: a page with its status, or a redirect.\<close>

datatype browser_answer = Page nat string | RedirectTo string

definition page_for :: "issuer_parts \<Rightarrow> string \<Rightarrow> authorize_request \<Rightarrow> string option \<Rightarrow> string" where
  "page_for p request_id r message = render_authorize_page request_id (ar_client_id r) (ar_redirect_uri r)
     (ar_scope r) (icf_demo_user (ip_config p)) message"

definition unknown_request :: "authorize_request issuer_act" where
  "unknown_request = andthen tick (\<lambda>now. ret
     \<lparr> ar_client_id = ''unknown'', ar_redirect_uri = ''unknown'', ar_scope = ''unknown'',
       ar_state = ''unknown'', ar_code_challenge = ''unknown'', ar_expires_at = now \<rparr>)"

definition authorize_page :: "issuer_parts \<Rightarrow> authorize_query \<Rightarrow> browser_answer issuer_act" where
  "authorize_page p q =
     andthen purge_expired (\<lambda>_.
     andthen (validate_authorize_request p q) (\<lambda>request.
     andthen (random_token p 16) (\<lambda>request_id.
     andthen (write_store (modify (\<lambda>s. s\<lparr>is_requests := AList.update request_id request (is_requests s)\<rparr>))) (\<lambda>_.
       ret (Page 200 (page_for p request_id request None))))))"

definition issue_authorization_code :: "issuer_parts \<Rightarrow> authorize_request \<Rightarrow> string issuer_act" where
  "issue_authorization_code p r =
     andthen (random_token p 24) (\<lambda>code.
     andthen (write_store (
       andthen (after_now p (seconds (5 * 60))) (\<lambda>expires_at.
       modify (\<lambda>s. s\<lparr>is_codes := AList.update code
         \<lparr> cd_client_id = ar_client_id r, cd_redirect_uri = ar_redirect_uri r, cd_scope = ar_scope r,
           cd_code_challenge = ar_code_challenge r, cd_user = icf_demo_user (ip_config p),
           cd_expires_at = expires_at, cd_used = False \<rparr> (is_codes s)\<rparr>)))) (\<lambda>_.
       ret code))"

definition make_redirect_url :: "crates \<Rightarrow> authorize_request \<Rightarrow> string \<Rightarrow> issuer_failure + string" where
  "make_redirect_url x r auth_code =
     (case x_url_parse x (ar_redirect_uri r) of
        None \<Rightarrow> Inl Aborted
      | Some _ \<Rightarrow> Inr (x_url_with_query x
          (x_url_with_query x (ar_redirect_uri r) ''code'' auth_code) ''state'' (ar_state r)))"

definition right_password :: "issuer_parts \<Rightarrow> string \<Rightarrow> string \<Rightarrow> bool" where
  "right_password p username password \<longleftrightarrow>
     trim username = du_username (icf_demo_user (ip_config p))
   \<and> password = du_password (icf_demo_user (ip_config p))"

definition authorize_submit ::
  "issuer_parts \<Rightarrow> string \<Rightarrow> string \<Rightarrow> string \<Rightarrow> browser_answer issuer_act" where
  "authorize_submit p request_id username password =
     andthen purge_expired (\<lambda>_.
     andthen (read_store (\<lambda>s. map_of (is_requests s) request_id)) (\<lambda>found.
     case found of
       None \<Rightarrow> andthen unknown_request (\<lambda>r. ret (Page 200 (page_for p ''expired'' r
         (Some ''Authorization request expired. Please restart login.''))))
     | Some request \<Rightarrow>
         if \<not> right_password p username password
         then ret (Page 401 (page_for p request_id request (Some ''Invalid username or password.'')))
         else andthen (issue_authorization_code p request) (\<lambda>code.
           andthen (write_store (modify (\<lambda>s. s\<lparr>is_requests := AList.delete request_id (is_requests s)\<rparr>))) (\<lambda>_.
           andthen (lift (make_redirect_url (ip_crates p) request code)) (\<lambda>u. ret (RedirectTo u))))))"

record dev_authorize_response =
  da_code :: string
  da_state :: string
  da_redirect_to :: string

definition dev_authorize ::
  "issuer_parts \<Rightarrow> authorize_query \<Rightarrow> string \<Rightarrow> string \<Rightarrow> dev_authorize_response issuer_act" where
  "dev_authorize p q username password =
     (if \<not> icf_allow_headless_authorize (ip_config p) then throw (Refused 404 ''not_found'')
      else andthen purge_expired (\<lambda>_.
        andthen (validate_authorize_request p q) (\<lambda>request.
        if \<not> right_password p username password then throw (Refused 401 ''invalid_credentials'')
        else andthen (issue_authorization_code p request) (\<lambda>code.
          andthen (lift (make_redirect_url (ip_crates p) request code)) (\<lambda>redirect_to.
            ret \<lparr> da_code = code, da_state = ar_state request, da_redirect_to = redirect_to \<rparr>)))))"

section \<open>Tokens\<close>

record token_request =
  tq_grant_type :: string
  tq_client_id :: string
  tq_code :: string
  tq_redirect_uri :: string
  tq_code_verifier :: string
  tq_refresh_token :: string

record token_response =
  tp_access_token :: string
  tp_token_type :: string
  tp_expires_in :: u64
  tp_refresh_token :: "string option"
  tp_scope :: string

definition code_challenge :: "crates \<Rightarrow> string \<Rightarrow> string" where
  "code_challenge x verifier = x_base64url_encode x (x_sha256 x verifier)"

definition issue_token_payload ::
  "issuer_parts \<Rightarrow> demo_user \<Rightarrow> string \<Rightarrow> string \<Rightarrow> token_response issuer_act" where
  "issue_token_payload p user client_id scope =
     andthen (random_token p 32) (\<lambda>access_token.
     andthen (if ''offline_access'' \<in> set (split_whitespace scope)
       then andthen (random_token p 32) (\<lambda>t. ret (Some t)) else ret None) (\<lambda>refresh_token.
     andthen (write_store (
       andthen (after_now p (seconds (uint (icf_access_token_ttl (ip_config p))))) (\<lambda>expires_at.
       andthen (modify (\<lambda>s. s\<lparr>is_access := AList.update access_token
         \<lparr> tr_user = user, tr_expires_at = expires_at \<rparr> (is_access s)\<rparr>)) (\<lambda>_.
       case refresh_token of
         None \<Rightarrow> ret ()
       | Some t \<Rightarrow>
           andthen (after_now p (seconds (uint (icf_refresh_token_ttl (ip_config p))))) (\<lambda>expires_at.
             modify (\<lambda>s. s\<lparr>is_refresh := AList.update t
               \<lparr> rt_user = user, rt_client_id = client_id, rt_scope = scope,
                 rt_expires_at = expires_at, rt_revoked = False \<rparr> (is_refresh s)\<rparr>)))))) (\<lambda>_.
       ret \<lparr> tp_access_token = access_token, tp_token_type = ''Bearer'',
         tp_expires_in = icf_access_token_ttl (ip_config p), tp_refresh_token = refresh_token,
         tp_scope = scope \<rparr>)))"

definition invalid_grant :: "'a issuer_act" where
  "invalid_grant = throw (Refused 400 ''invalid_grant'')"

text \<open>The part of an exchange that holds the lock.\<close>

definition spend_code :: "issuer_parts \<Rightarrow> token_request \<Rightarrow> authorization_code issuer_act" where
  "spend_code p i =
     (let code = trim (tq_code i) in
      andthen (gets (\<lambda>s. map_of (is_codes s) code)) (\<lambda>found.
      case found of
        None \<Rightarrow> invalid_grant
      | Some r \<Rightarrow>
          andthen (if cd_used r then ret True else andthen tick (\<lambda>now. ret (cd_expires_at r \<le> now))) (\<lambda>spent.
          if spent then invalid_grant
          else if cd_client_id r \<noteq> tq_client_id i \<or> cd_redirect_uri r \<noteq> tq_redirect_uri i then invalid_grant
          else if trim (tq_code_verifier i) = []
            \<or> code_challenge (ip_crates p) (trim (tq_code_verifier i)) \<noteq> cd_code_challenge r
          then throw (Refused 400 ''invalid_code_verifier'')
          else andthen (modify (\<lambda>s. s\<lparr>is_codes := AList.update code (r\<lparr>cd_used := True\<rparr>) (is_codes s)\<rparr>)) (\<lambda>_.
            ret r))))"

definition exchange_authorization_code :: "issuer_parts \<Rightarrow> token_request \<Rightarrow> token_response issuer_act" where
  "exchange_authorization_code p i =
     andthen (write_store (spend_code p i)) (\<lambda>r.
       issue_token_payload p (cd_user r) (cd_client_id r) (cd_scope r))"

definition spend_refresh_token :: "issuer_parts \<Rightarrow> token_request \<Rightarrow> refresh_token_record issuer_act" where
  "spend_refresh_token p i =
     (let refresh_token = trim (tq_refresh_token i) in
      andthen (gets (\<lambda>s. map_of (is_refresh s) refresh_token)) (\<lambda>found.
      case found of
        None \<Rightarrow> invalid_grant
      | Some r \<Rightarrow>
          andthen (if rt_revoked r then ret True else andthen tick (\<lambda>now. ret (rt_expires_at r \<le> now))) (\<lambda>spent.
          if spent \<or> rt_client_id r \<noteq> tq_client_id i then invalid_grant
          else andthen (modify (\<lambda>s. s\<lparr>is_refresh :=
              AList.update refresh_token (r\<lparr>rt_revoked := True\<rparr>) (is_refresh s)\<rparr>)) (\<lambda>_. ret r))))"

definition refresh_access_token :: "issuer_parts \<Rightarrow> token_request \<Rightarrow> token_response issuer_act" where
  "refresh_access_token p i =
     andthen (write_store (spend_refresh_token p i)) (\<lambda>r.
       issue_token_payload p (rt_user r) (rt_client_id r) (rt_scope r))"

definition issuer_token :: "issuer_parts \<Rightarrow> token_request \<Rightarrow> token_response issuer_act" where
  "issuer_token p i =
     andthen purge_expired (\<lambda>_.
     if map_of (icf_clients (ip_config p)) (trim (tq_client_id i)) = None
     then throw (Refused 401 ''unauthorized_client'')
     else if tq_grant_type i = ''authorization_code'' then exchange_authorization_code p i
     else if tq_grant_type i = ''refresh_token'' then refresh_access_token p i
     else throw (Refused 400 ''unsupported_grant_type''))"

definition revoke :: "string \<Rightarrow> bool issuer_act" where
  "revoke token =
     andthen (write_store (modify (\<lambda>s. s\<lparr>
       is_access := AList.delete (trim token) (is_access s),
       is_refresh := (case map_of (is_refresh s) (trim token) of None \<Rightarrow> is_refresh s
         | Some r \<Rightarrow> AList.update (trim token) (r\<lparr>rt_revoked := True\<rparr>) (is_refresh s))\<rparr>))) (\<lambda>_. ret True)"

section \<open>The profile\<close>

definition issuer_bearer :: "headers \<Rightarrow> string option" where
  "issuer_bearer h =
     Option.bind (h ''authorization'') (\<lambda>v. Option.bind (strip_prefix ''Bearer '' v) (\<lambda>t.
       if trim t = [] then None else Some (trim t)))"

definition access_token_record :: "headers \<Rightarrow> token_record option issuer_act" where
  "access_token_record h =
     (case issuer_bearer h of
        None \<Rightarrow> ret None
      | Some token \<Rightarrow>
          andthen (gets (\<lambda>s. if is_poisoned s then None else map_of (is_access s) token)) (\<lambda>found.
          case found of
            None \<Rightarrow> ret None
          | Some r \<Rightarrow> andthen tick (\<lambda>now. ret (if tr_expires_at r > now then Some r else None))))"

definition require_access :: "headers \<Rightarrow> token_record issuer_act" where
  "require_access h =
     andthen purge_expired (\<lambda>_.
     andthen (access_token_record h) (\<lambda>found.
       lift (ok_or (Refused 401 ''invalid_token'') found)))"

record user_info =
  ui_sub :: string
  ui_preferred_username :: string
  ui_name :: string
  ui_email :: string
  ui_nebula_id :: string

definition user_info_of :: "crates \<Rightarrow> demo_user \<Rightarrow> user_info" where
  "user_info_of x u =
     \<lparr> ui_sub = x_uuid_string x (du_id u), ui_preferred_username = du_username u, ui_name = du_name u,
       ui_email = du_email u, ui_nebula_id = nebula_str (du_nebula_id u) \<rparr>"

definition userinfo :: "issuer_parts \<Rightarrow> headers \<Rightarrow> user_info issuer_act" where
  "userinfo p h = andthen (require_access h) (\<lambda>r. ret (user_info_of (ip_crates p) (tr_user r)))"

definition profile_to_json :: "crates \<Rightarrow> demo_user \<Rightarrow> json" where
  "profile_to_json x u = JObject
     [(''id'', JString (x_uuid_string x (du_id u))), (''email'', JString (du_email u)),
      (''phone'', (case du_phone u of None \<Rightarrow> JNull | Some v \<Rightarrow> JString v)),
      (''nebula_id'', JString (nebula_str (du_nebula_id u))), (''full_name'', JString (du_name u))]"

definition profile_page :: "crates \<Rightarrow> demo_user \<Rightarrow> json" where
  "profile_page x u = JObject [(''data'', profile_to_json x u)]"

definition get_user_profile :: "issuer_parts \<Rightarrow> headers \<Rightarrow> json issuer_act" where
  "get_user_profile p h = andthen (require_access h) (\<lambda>r.
     ret (profile_page (ip_crates p) (tr_user r)))"

definition issuer_generate_nebula_id :: "issuer_parts \<Rightarrow> headers \<Rightarrow> json issuer_act" where
  "issuer_generate_nebula_id p h = andthen (require_access h) (\<lambda>_.
     ret (JObject [(''data'', JObject [(''nebula_id'',
       JString (nebula_str (du_nebula_id (icf_demo_user (ip_config p)))))])]))"

section \<open>The router\<close>

record issuer_health =
  ih_service :: string
  ih_status :: string
  ih_mode :: string
  ih_issuer :: string
  ih_headless_authorize_enabled :: bool
  ih_clients :: "string list"

text \<open>The code lists the clients in the order of its hash table.\<close>

definition issuer_health_of :: "issuer_config \<Rightarrow> issuer_health" where
  "issuer_health_of c =
     \<lparr> ih_service = ''ozon-nebula-dev-issuer'', ih_status = ''ok'', ih_mode = ''public_client_pkce_dev'',
       ih_issuer = icf_issuer c, ih_headless_authorize_enabled = icf_allow_headless_authorize c,
       ih_clients = remdups (map fst (icf_clients c)) \<rparr>"

record openid_configuration =
  oc_issuer :: string
  oc_authorization_endpoint :: string
  oc_token_endpoint :: string
  oc_userinfo_endpoint :: string
  oc_revocation_endpoint :: string
  oc_response_types_supported :: "string list"
  oc_grant_types_supported :: "string list"
  oc_token_endpoint_auth_methods_supported :: "string list"
  oc_code_challenge_methods_supported :: "string list"
  oc_scopes_supported :: "string list"

definition openid_configuration_of :: "issuer_config \<Rightarrow> openid_configuration" where
  "openid_configuration_of c =
     \<lparr> oc_issuer = icf_issuer c, oc_authorization_endpoint = icf_issuer c @ ''/oauth/authorize'',
       oc_token_endpoint = icf_issuer c @ ''/oauth/token'',
       oc_userinfo_endpoint = icf_issuer c @ ''/oauth/userinfo'',
       oc_revocation_endpoint = icf_issuer c @ ''/oauth/revoke'',
       oc_response_types_supported = [''code''],
       oc_grant_types_supported = [''authorization_code'', ''refresh_token''],
       oc_token_endpoint_auth_methods_supported = [''none''],
       oc_code_challenge_methods_supported = [''S256''],
       oc_scopes_supported = [''openid'', ''profile'', ''email'', ''offline_access''] \<rparr>"

datatype issuer_request =
    GetIssuerHealth
  | GetOpenidConfiguration
  | GetAuthorize authorize_query
  | PostAuthorize string string string
  | PostDevAuthorize authorize_query string string
  | PostToken token_request
  | GetUserinfo headers
  | PostRevoke string
  | GetUserProfile headers
  | PostGenerateNebulaId headers

definition replied :: "'a issuer_act \<Rightarrow> unit issuer_act" where
  "replied m = andthen m (\<lambda>_. ret ())"

fun issuer_serve :: "issuer_parts \<Rightarrow> issuer_request \<Rightarrow> unit issuer_act" where
  "issuer_serve p GetIssuerHealth = ret ()"
| "issuer_serve p GetOpenidConfiguration = ret ()"
| "issuer_serve p (GetAuthorize q) = replied (authorize_page p q)"
| "issuer_serve p (PostAuthorize i u w) = replied (authorize_submit p i u w)"
| "issuer_serve p (PostDevAuthorize q u w) = replied (dev_authorize p q u w)"
| "issuer_serve p (PostToken i) = replied (issuer_token p i)"
| "issuer_serve p (GetUserinfo h) = replied (userinfo p h)"
| "issuer_serve p (PostRevoke t) = replied (revoke t)"
| "issuer_serve p (GetUserProfile h) = replied (get_user_profile p h)"
| "issuer_serve p (PostGenerateNebulaId h) = replied (issuer_generate_nebula_id p h)"

text \<open>A run, one request at a time.\<close>

fun issuer_run :: "issuer_parts \<Rightarrow> issuer_request list \<Rightarrow> issuer \<Rightarrow> issuer" where
  "issuer_run p [] s = s"
| "issuer_run p (r # rs) s = issuer_run p rs (snd (issuer_serve p r s))"

lemma issuer_run_append: "issuer_run p (rs @ qs) s = issuer_run p qs (issuer_run p rs s)"
  by (induction rs arbitrary: s) simp_all

end
