(* ===== verification/IssuerSamples.thy ===== *)
theory IssuerSamples
  imports Issuer "HOL-Library.Code_Target_Nat"
begin

text \<open>
  A concrete issuer and a login, for the witnesses of the theorems about the issuer of identities.
\<close>

text \<open>An issuer configured by its defaults, whose first draw is 0 and every other one 1.\<close>

definition sample_env :: environment where
  "sample_env = (\<lambda>name. if name = ''NEBULA_DEV_USER_ID'' then Some ''ii'' else None)"

definition demo_default :: demo_user where
  "demo_default = \<lparr> du_id = 2, du_username = ''demo'', du_password = ''demo-pass'', du_name = default_demo_name,
     du_email = default_demo_email, du_phone = None, du_nebula_id = NebulaId default_nebula_id \<rparr>"

definition login_crates :: crates where
  "login_crates = toy_crates\<lparr>x_json_parse := (\<lambda>_. Some (profile_page toy_crates demo_default))\<rparr>"

definition sample_issuer :: issuer_parts where
  "sample_issuer = \<lparr> ip_crates = login_crates,
     ip_config = (case issuer_from_env login_crates sample_env of Inr c \<Rightarrow> c), ip_last_instant = 2 ^ 63 * 10 ^ 9 \<rparr>"

definition sample_query :: authorize_query where
  "sample_query = \<lparr> aq_response_type = Some ''code'', aq_client_id = Some default_client_id,
     aq_redirect_uri = Some default_redirect_uri, aq_scope = Some ''openid offline_access'',
     aq_state = Some ''st'', aq_code_challenge = Some ''v'', aq_code_challenge_method = Some ''S256'' \<rparr>"

definition sample_exchange :: token_request where
  "sample_exchange = \<lparr> tq_grant_type = ''authorization_code'', tq_client_id = default_client_id,
     tq_code = ''0'', tq_redirect_uri = default_redirect_uri, tq_code_verifier = ''verifier'', tq_refresh_token = [] \<rparr>"

definition fresh_issuer :: issuer where
  "fresh_issuer = new_issuer (\<lambda>_. 0) (\<lambda>k n. if k = 0 then ''0'' else ''1'')"

definition sample_login :: "issuer_request list" where
  "sample_login = [PostDevAuthorize sample_query ''demo'' ''demo-pass'']"

lemmas login_defs = sample_issuer_def sample_query_def sample_exchange_def fresh_issuer_def sample_login_def
  login_crates_def sample_env_def

lemma sample_config: "issuer_from_env login_crates sample_env = Inr (ip_config sample_issuer)"
  by code_simp

lemma sample_crates: "ip_crates sample_issuer = login_crates"
  by (simp add: sample_issuer_def)

lemma sample_user: "icf_demo_user (ip_config sample_issuer) = demo_default"
  by code_simp

lemma sample_exchanged:
  "is_ok (fst (issuer_token sample_issuer sample_exchange (issuer_run sample_issuer sample_login fresh_issuer)))"
  by code_simp

lemma sample_draws:
  "is_random_n (issuer_run sample_issuer sample_login fresh_issuer) = 1"
  "is_random (issuer_run sample_issuer sample_login fresh_issuer) n m = (if n = 0 then ''0'' else ''1'')"
  "x_base64url_encode (ip_crates sample_issuer) t = t"
  by code_simp+

lemma sample_code: "trim (tq_code sample_exchange) = ''0''"
  by code_simp

end
