(* ===== verification/Triples.thy ===== *)
theory Triples
  imports Effect
begin

text \<open>
  Operations that keep an invariant, with what is known of their answer: \<open>safe I m P\<close> says that
  every run of \<open>m\<close> from a state in \<open>I\<close> ends in \<open>I\<close>, also one that fails, and that an answer
  satisfies \<open>P\<close>. One rule for each combinator.
\<close>

definition safe :: "('s \<Rightarrow> bool) \<Rightarrow> ('s, 'e, 'a) act \<Rightarrow> ('a \<Rightarrow> bool) \<Rightarrow> bool" where
  "safe I m P \<longleftrightarrow> (\<forall>s. I s \<longrightarrow> I (snd (m s)) \<and> (\<forall>a. fst (m s) = Inr a \<longrightarrow> P a))"

named_theorems safe_intros "operations that keep an invariant"

lemma safeI: "(\<And>s. I s \<Longrightarrow> I (snd (m s)) \<and> (\<forall>a. fst (m s) = Inr a \<longrightarrow> P a)) \<Longrightarrow> safe I m P"
  by (simp add: safe_def)

lemma safe_state: "safe I m P \<Longrightarrow> I s \<Longrightarrow> I (snd (m s))"
  by (simp add: safe_def)

lemma safe_answer: "safe I m P \<Longrightarrow> I s \<Longrightarrow> m s = (Inr a, t) \<Longrightarrow> I t \<and> P a"
  by (auto simp: safe_def dest!: spec [of _ s])

lemma safe_weaken: "safe I m P \<Longrightarrow> (\<And>a. P a \<Longrightarrow> Q a) \<Longrightarrow> safe I m Q"
  by (simp add: safe_def)

lemma safe_any: "safe I m P \<Longrightarrow> safe I m (\<lambda>_. True)"
  by (simp add: safe_def)

lemma safe_ret [safe_intros]: "P a \<Longrightarrow> safe I (ret a) P"
  by (simp add: safe_def act_simps)

lemma safe_throw [safe_intros]: "safe I (throw e) P"
  by (simp add: safe_def act_simps)

lemma safe_lift: "(\<And>a. r = Inr a \<Longrightarrow> P a) \<Longrightarrow> safe I (lift r) P"
  by (simp add: safe_def act_simps)

lemma safe_gets: "(\<And>s. I s \<Longrightarrow> P (f s)) \<Longrightarrow> safe I (gets f) P"
  by (simp add: safe_def act_simps)

lemma safe_modify: "(\<And>s. I s \<Longrightarrow> I (g s)) \<Longrightarrow> safe I (modify g) (\<lambda>_. True)"
  by (simp add: safe_def act_simps)

lemma safe_andthen:
  assumes "safe I m P" and "\<And>a. P a \<Longrightarrow> safe I (f a) Q"
  shows "safe I (andthen m f) Q"
  using assms by (auto simp: safe_def andthen_run split: sum.split)

text \<open>Where the answer does not matter.\<close>

lemma safe_then [safe_intros]:
  "safe I m (\<lambda>_. True) \<Longrightarrow> (\<And>a. safe I (f a) Q) \<Longrightarrow> safe I (andthen m f) Q"
  by (rule safe_andthen)

lemma safe_if [safe_intros]:
  "(b \<Longrightarrow> safe I m P) \<Longrightarrow> (\<not> b \<Longrightarrow> safe I n P) \<Longrightarrow> safe I (if b then m else n) P"
  by simp

lemma safe_case_option [safe_intros]:
  "(x = None \<Longrightarrow> safe I m P) \<Longrightarrow> (\<And>a. x = Some a \<Longrightarrow> safe I (f a) P) \<Longrightarrow>
    safe I (case x of None \<Rightarrow> m | Some a \<Rightarrow> f a) P"
  by (cases x) simp_all

end
