(* ===== verification/IssuerLaws.thy ===== *)
theory IssuerLaws
  imports IssuerSamples Triples
begin

text \<open>
  What the issuer of identities promises (\<open>apps/nebula-dev-issuer/src/main.rs\<close>): a token is only
  handed out after a login with the password, to the client that asked and against the verifier
  of its challenge, with no more than the registered scopes; and a code or refresh token that
  was spent is never accepted again.
\<close>

section \<open>Helpers\<close>

lemma set_update: "set (AList.update k v al) \<subseteq> insert (k, v) (set al)"
  by (induction al) auto

lemma set_updateD: "(a, b) \<in> set (AList.update k v al) \<Longrightarrow> (a, b) = (k, v) \<or> (a, b) \<in> set al"
  using set_update by fastforce

lemma set_deleteD: "(a, b) \<in> set (AList.delete k al) \<Longrightarrow> (a, b) \<in> set al"
  by (auto simp: AList.delete_eq)

lemma safe_write_store [safe_intros]:
  assumes "safe I m P" and "\<And>s. I s \<Longrightarrow> I (s\<lparr>is_poisoned := True\<rparr>)"
  shows "safe I (write_store m) P"
  using assms by (auto simp: safe_def write_store_def split: prod.splits sum.splits issuer_failure.splits)

lemma safe_read_store: "(\<And>s. I s \<Longrightarrow> P (f s)) \<Longrightarrow> safe I (read_store f) P"
  unfolding read_store_def by (rule safe_andthen [where P = "\<lambda>_. True"]) (auto intro: safe_intros safe_gets)

lemma safe_replied: "safe I m P \<Longrightarrow> safe I (replied m) (\<lambda>_. True)"
  unfolding replied_def by (rule safe_then [OF safe_any]) (auto intro: safe_ret)

text \<open>Invariants of the tables and of the source of randomness alone.\<close>

definition table_inv :: "(issuer \<Rightarrow> bool) \<Rightarrow> bool" where
  "table_inv I \<longleftrightarrow> (\<forall>s n b. I s \<longrightarrow> I (s\<lparr>is_instant_n := n\<rparr>) \<and> I (s\<lparr>is_poisoned := b\<rparr>))"

lemma safe_tick: "table_inv I \<Longrightarrow> safe I tick (\<lambda>_. True)"
  by (simp add: safe_def tick_def table_inv_def)

lemma safe_after_now: "table_inv I \<Longrightarrow> safe I (after_now p d) (\<lambda>_. True)"
  unfolding after_now_def by (blast intro: safe_intros safe_tick)

lemma table_inv_poisoned: "table_inv I \<Longrightarrow> I s \<Longrightarrow> I (s\<lparr>is_poisoned := True\<rparr>)"
  by (simp add: table_inv_def)

section \<open>Where tokens come from\<close>

text \<open>The query that led to a request or code: its client is registered, with that redirect URI
  and with every scope that is granted.\<close>

definition scope_of :: "issuer_parts \<Rightarrow> string \<Rightarrow> string \<Rightarrow> bool" where
  "scope_of p client_id scope \<longleftrightarrow> (\<exists>client ws. map_of (icf_clients (ip_config p)) client_id = Some client
     \<and> scope = join '' '' ws \<and> ws \<noteq> [] \<and> set ws \<subseteq> set (pc_scopes client))"

definition describes :: "issuer_parts \<Rightarrow> authorize_query \<Rightarrow> string \<Rightarrow> string \<Rightarrow> string \<Rightarrow> string \<Rightarrow> bool" where
  "describes p q client_id redirect_uri scope challenge \<longleftrightarrow>
     client_id = trim (unwrap_or (aq_client_id q) [])
   \<and> redirect_uri = trim (unwrap_or (aq_redirect_uri q) [])
   \<and> challenge = trim (unwrap_or (aq_code_challenge q) [])
   \<and> (\<exists>client. map_of (icf_clients (ip_config p)) client_id = Some client
       \<and> redirect_uri \<in> set (pc_redirect_uris client))
   \<and> scope_of p client_id scope"

text \<open>The tables, given the queries \<open>Q\<close> that were made and whether somebody logged in.\<close>

definition request_ok :: "issuer_parts \<Rightarrow> authorize_query set \<Rightarrow> authorize_request \<Rightarrow> bool" where
  "request_ok p Q r \<longleftrightarrow>
     (\<exists>q \<in> Q. describes p q (ar_client_id r) (ar_redirect_uri r) (ar_scope r) (ar_code_challenge r))"

definition code_ok :: "issuer_parts \<Rightarrow> authorize_query set \<Rightarrow> bool \<Rightarrow> authorization_code \<Rightarrow> bool" where
  "code_ok p Q L c \<longleftrightarrow> L \<and> cd_user c = icf_demo_user (ip_config p)
     \<and> (\<exists>q \<in> Q. describes p q (cd_client_id c) (cd_redirect_uri c) (cd_scope c) (cd_code_challenge c))"

definition access_ok :: "issuer_parts \<Rightarrow> bool \<Rightarrow> token_record \<Rightarrow> bool" where
  "access_ok p L r \<longleftrightarrow> L \<and> tr_user r = icf_demo_user (ip_config p)"

definition refresh_ok :: "issuer_parts \<Rightarrow> bool \<Rightarrow> refresh_token_record \<Rightarrow> bool" where
  "refresh_ok p L r \<longleftrightarrow> L \<and> rt_user r = icf_demo_user (ip_config p) \<and> scope_of p (rt_client_id r) (rt_scope r)"

definition sound :: "issuer_parts \<Rightarrow> authorize_query set \<Rightarrow> bool \<Rightarrow> issuer \<Rightarrow> bool" where
  "sound p Q L s \<longleftrightarrow>
     (\<forall>(k, r) \<in> set (is_requests s). request_ok p Q r) \<and> (\<forall>(k, c) \<in> set (is_codes s). code_ok p Q L c)
   \<and> (\<forall>(k, r) \<in> set (is_access s). access_ok p L r) \<and> (\<forall>(k, r) \<in> set (is_refresh s). refresh_ok p L r)"

lemma sound_mono: "sound p Q L s \<Longrightarrow> Q \<subseteq> Q' \<Longrightarrow> (L \<Longrightarrow> L') \<Longrightarrow> sound p Q' L' s"
  unfolding sound_def request_ok_def code_ok_def access_ok_def refresh_ok_def by fast

lemma sound_tables: "table_inv (sound p Q L)"
  by (simp add: table_inv_def sound_def)

lemmas sound_basics = safe_tick [OF sound_tables] safe_after_now [OF sound_tables]
  table_inv_poisoned [OF sound_tables]

lemma sound_random: "safe (sound p Q L) (random_token p n) (\<lambda>_. True)"
  by (simp add: safe_def random_token_def sound_def)

text \<open>One rule for each change of a table.\<close>

lemma sound_changes:
  "request_ok p Q r \<Longrightarrow> safe (sound p Q L) (modify (\<lambda>s. s\<lparr>is_requests := AList.update k r (is_requests s)\<rparr>)) (\<lambda>_. True)"
  "safe (sound p Q L) (modify (\<lambda>s. s\<lparr>is_requests := AList.delete k (is_requests s)\<rparr>)) (\<lambda>_. True)"
  "code_ok p Q L c \<Longrightarrow> safe (sound p Q L) (modify (\<lambda>s. s\<lparr>is_codes := AList.update k c (is_codes s)\<rparr>)) (\<lambda>_. True)"
  "access_ok p L a \<Longrightarrow> safe (sound p Q L) (modify (\<lambda>s. s\<lparr>is_access := AList.update k a (is_access s)\<rparr>)) (\<lambda>_. True)"
  "refresh_ok p L f \<Longrightarrow> safe (sound p Q L) (modify (\<lambda>s. s\<lparr>is_refresh := AList.update k f (is_refresh s)\<rparr>)) (\<lambda>_. True)"
  by (rule safe_modify; auto simp: sound_def dest!: set_updateD set_deleteD)+

lemma sound_purge: "safe (sound p Q L) purge_expired (\<lambda>_. True)"
  unfolding purge_expired_def
  by (intro safe_intros sound_basics safe_gets safe_modify TrueI) (auto simp: sound_def)

text \<open>What a lookup finds.\<close>

lemma sound_found:
  "safe (sound p Q L) (gets (\<lambda>s. map_of (is_codes s) k)) (\<lambda>x. \<forall>c. x = Some c \<longrightarrow> code_ok p Q L c)"
  "safe (sound p Q L) (gets (\<lambda>s. map_of (is_refresh s) k)) (\<lambda>x. \<forall>r. x = Some r \<longrightarrow> refresh_ok p L r)"
  "safe (sound p Q L) (gets (\<lambda>s. if is_poisoned s then None else map_of (is_access s) k))
    (\<lambda>x. \<forall>r. x = Some r \<longrightarrow> access_ok p L r)"
  "safe (sound p Q L) (read_store (\<lambda>s. map_of (is_requests s) k)) (\<lambda>x. \<forall>r. x = Some r \<longrightarrow> request_ok p Q r)"
  by (rule safe_gets safe_read_store; auto simp: sound_def dest!: map_of_SomeD)+

lemma normalize_scope_words: "normalize_scope scope allowed = Inr t \<Longrightarrow>
    \<exists>ws. t = join '' '' ws \<and> ws \<noteq> [] \<and> set ws \<subseteq> set allowed"
  by (auto simp: normalize_scope_def Let_def split: if_splits)

lemma sound_validate: "q \<in> Q \<Longrightarrow> safe (sound p Q L) (validate_authorize_request p q) (request_ok p Q)"
  unfolding validate_authorize_request_def Let_def
  apply (intro safe_if safe_throw safe_case_option)
  apply (rule safe_andthen [where P = "\<lambda>scope. scope_of p (trim (unwrap_or (aq_client_id q) [])) scope"])
   apply (rule safe_lift)
   apply (auto simp: scope_of_def map_err_Inr dest!: normalize_scope_words) []
  apply (intro safe_intros sound_basics)
  apply (auto simp: request_ok_def describes_def)
  done

lemma sound_page: "q \<in> Q \<Longrightarrow> safe (sound p Q L) (authorize_page p q) (\<lambda>_. True)"
  unfolding authorize_page_def
  by (rule safe_then [OF sound_purge], rule safe_andthen [OF sound_validate])
    (auto intro!: safe_intros sound_random sound_changes sound_basics)

lemma sound_issue: "request_ok p Q r \<Longrightarrow> L \<Longrightarrow> safe (sound p Q L) (issue_authorization_code p r) (\<lambda>_. True)"
  unfolding issue_authorization_code_def
  by (intro safe_intros sound_random sound_changes sound_basics TrueI) (auto simp: request_ok_def code_ok_def)

lemma sound_submit: "(right_password p u w \<Longrightarrow> L) \<Longrightarrow> safe (sound p Q L) (authorize_submit p i u w) (\<lambda>_. True)"
  unfolding authorize_submit_def unknown_request_def
  by (rule safe_then [OF sound_purge], rule safe_andthen [OF sound_found(4)])
    (auto intro!: safe_intros sound_issue sound_changes sound_basics safe_lift)

lemma sound_dev: "q \<in> Q \<Longrightarrow> (icf_allow_headless_authorize (ip_config p) \<Longrightarrow> right_password p u w \<Longrightarrow> L) \<Longrightarrow> safe (sound p Q L) (dev_authorize p q u w) (\<lambda>_. True)"
  unfolding dev_authorize_def
  by (intro safe_if safe_throw, rule safe_then [OF sound_purge], rule safe_andthen [OF sound_validate])
    (auto intro!: safe_intros sound_issue sound_basics safe_lift)

lemma sound_issue_tokens:
  "L \<Longrightarrow> u = icf_demo_user (ip_config p) \<Longrightarrow> scope_of p client_id scope \<Longrightarrow>
    safe (sound p Q L) (issue_token_payload p u client_id scope) (\<lambda>r. tp_scope r = scope)"
  unfolding issue_token_payload_def
  by (intro safe_intros sound_random sound_changes sound_basics TrueI) (auto simp: access_ok_def refresh_ok_def)

definition proven :: "issuer_parts \<Rightarrow> token_request \<Rightarrow> authorization_code \<Rightarrow> bool" where
  "proven p i c \<longleftrightarrow> cd_client_id c = tq_client_id i \<and> cd_redirect_uri c = tq_redirect_uri i
     \<and> cd_code_challenge c = code_challenge (ip_crates p) (trim (tq_code_verifier i))"

lemma sound_spend_code: "safe (sound p Q L) (spend_code p i) (\<lambda>c. code_ok p Q L c \<and> proven p i c)"
  unfolding spend_code_def Let_def invalid_grant_def
  by (rule safe_andthen [OF sound_found(1)])
    (intro safe_intros sound_basics sound_changes TrueI; auto simp: code_ok_def proven_def)

lemma sound_spend_refresh:
  "safe (sound p Q L) (spend_refresh_token p i) (\<lambda>r. refresh_ok p L r \<and> rt_client_id r = tq_client_id i)"
  unfolding spend_refresh_token_def Let_def invalid_grant_def
  by (rule safe_andthen [OF sound_found(2)])
    (intro safe_intros sound_basics sound_changes TrueI; auto simp: refresh_ok_def)

text \<open>What a token that is handed out proves.\<close>

definition earned :: "issuer_parts \<Rightarrow> authorize_query set \<Rightarrow> bool \<Rightarrow> token_request \<Rightarrow> token_response \<Rightarrow> bool" where
  "earned p Q L i r \<longleftrightarrow> L \<and> scope_of p (tq_client_id i) (tp_scope r)
   \<and> (tq_grant_type i = ''authorization_code'' \<longrightarrow> (\<exists>q \<in> Q. describes p q (tq_client_id i) (tq_redirect_uri i)
       (tp_scope r) (code_challenge (ip_crates p) (trim (tq_code_verifier i)))))"

lemma sound_exchange: "safe (sound p Q L) (exchange_authorization_code p i) (earned p Q L i)"
  unfolding exchange_authorization_code_def
proof (rule safe_andthen [OF safe_write_store [OF sound_spend_code sound_basics(3)]], assumption)
  fix c assume c: "code_ok p Q L c \<and> proven p i c"
  then have "scope_of p (cd_client_id c) (cd_scope c)" by (auto simp: code_ok_def describes_def)
  with c show "safe (sound p Q L) (issue_token_payload p (cd_user c) (cd_client_id c) (cd_scope c)) (earned p Q L i)"
    by (intro safe_weaken [OF sound_issue_tokens]) (auto simp: earned_def code_ok_def proven_def)
qed

lemma sound_refresh:
  assumes "tq_grant_type i \<noteq> ''authorization_code''"
  shows "safe (sound p Q L) (refresh_access_token p i) (earned p Q L i)"
  unfolding refresh_access_token_def
  by (rule safe_andthen [OF safe_write_store [OF sound_spend_refresh sound_basics(3)]], assumption,
      rule safe_weaken [OF sound_issue_tokens])
    (use assms in \<open>auto simp: earned_def refresh_ok_def\<close>)

lemma sound_token: "safe (sound p Q L) (issuer_token p i) (earned p Q L i)"
  unfolding issuer_token_def
  by (intro safe_then [OF sound_purge] safe_if safe_throw sound_exchange sound_refresh) simp

lemma sound_revoke: "safe (sound p Q L) (revoke t) (\<lambda>_. True)"
  unfolding revoke_def
  by (intro safe_intros safe_modify sound_basics TrueI)
    (auto simp: sound_def refresh_ok_def split: option.splits dest!: set_updateD set_deleteD map_of_SomeD)

lemma sound_access: "safe (sound p Q L) (require_access h) (access_ok p L)"
proof -
  have "safe (sound p Q L) (access_token_record h) (\<lambda>x. \<forall>r. x = Some r \<longrightarrow> access_ok p L r)"
    unfolding access_token_record_def
    by (intro safe_case_option safe_andthen [OF sound_found(3)] safe_ret safe_then sound_basics) auto
  then show ?thesis
    unfolding require_access_def
    by (intro safe_then [OF sound_purge]) (erule safe_andthen, rule safe_lift, auto simp: ok_or_Inr)
qed

section \<open>Runs\<close>

fun asked_by :: "issuer_request \<Rightarrow> authorize_query set" where
  "asked_by (GetAuthorize q) = {q}"
| "asked_by (PostDevAuthorize q u w) = {q}"
| "asked_by e = {}"

definition asked :: "issuer_request list \<Rightarrow> authorize_query set" where
  "asked es = (\<Union>e \<in> set es. asked_by e)"

fun login :: "issuer_parts \<Rightarrow> issuer_request \<Rightarrow> bool" where
  "login p (PostAuthorize i u w) = right_password p u w"
| "login p (PostDevAuthorize q u w) = (icf_allow_headless_authorize (ip_config p) \<and> right_password p u w)"
| "login p e = False"

definition logged_in :: "issuer_parts \<Rightarrow> issuer_request list \<Rightarrow> bool" where
  "logged_in p es \<longleftrightarrow> (\<exists>e \<in> set es. login p e)"

lemma sound_serve:
  assumes "asked_by e \<subseteq> Q" and "login p e \<Longrightarrow> L"
  shows "safe (sound p Q L) (issuer_serve p e) (\<lambda>_. True)"
  using assms
  by (cases e) (auto intro!: safe_ret safe_replied sound_page sound_submit sound_dev sound_token sound_revoke
      safe_then [OF safe_any [OF sound_access]] simp: userinfo_def get_user_profile_def issuer_generate_nebula_id_def)

lemma sound_run: "sound p (asked es) (logged_in p es) (issuer_run p es (new_issuer a b))"
proof (induction es rule: rev_induct)
  case Nil
  then show ?case by (simp add: sound_def new_issuer_def)
next
  case (snoc e es)
  then have "sound p (asked (es @ [e])) (logged_in p (es @ [e])) (issuer_run p es (new_issuer a b))"
    by (rule sound_mono) (auto simp: asked_def logged_in_def)
  then show ?case
    using safe_state [OF sound_serve [of e "asked (es @ [e])" p "logged_in p (es @ [e])"]]
    by (simp add: issuer_run_append asked_def logged_in_def)
qed



section \<open>What is spent stays spent\<close>

text \<open>The keys of both tables are distinct, no later draw gives one of the codes \<open>C\<close> or refresh tokens
  \<open>R\<close> again, and if \<open>d\<close>, these are used up as far as they are still in the tables.\<close>

definition used_up :: "issuer_parts \<Rightarrow> bool \<Rightarrow> string set \<Rightarrow> string set \<Rightarrow> issuer \<Rightarrow> bool" where
  "used_up p d C R s \<longleftrightarrow> distinct (map fst (is_codes s)) \<and> distinct (map fst (is_refresh s))
   \<and> (\<forall>n \<ge> is_random_n s. x_base64url_encode (ip_crates p) (is_random s n 24) \<notin> C
       \<and> x_base64url_encode (ip_crates p) (is_random s n 32) \<notin> R)
   \<and> (d \<longrightarrow> (\<forall>(k, c) \<in> set (is_codes s). k \<in> C \<longrightarrow> cd_used c) \<and> (\<forall>(k, r) \<in> set (is_refresh s). k \<in> R \<longrightarrow> rt_revoked r))"

lemma used_up_tables: "table_inv (used_up p d C R)"
  by (simp add: table_inv_def used_up_def)

lemmas used_up_basics = safe_tick [OF used_up_tables] safe_after_now [OF used_up_tables]
  table_inv_poisoned [OF used_up_tables]

lemma used_up_random: "safe (used_up p d C R) (random_token p n)
    (\<lambda>t. (n = 24 \<longrightarrow> t \<notin> C) \<and> (n = 32 \<longrightarrow> t \<notin> R))"
  by (auto simp: safe_def random_token_def used_up_def)

lemma distinct_filter_keys: "distinct (map fst al) \<Longrightarrow> distinct (map fst (filter P al))"
  by (simp add: distinct_map inj_on_filter_key_eq inj_on_subset [where A = "set al"])

lemma used_up_changes:
  "safe (used_up p d C R) (modify (\<lambda>s. s\<lparr>is_requests := f (is_requests s)\<rparr>)) (\<lambda>_. True)"
  "safe (used_up p d C R) (modify (\<lambda>s. s\<lparr>is_access := g (is_access s)\<rparr>)) (\<lambda>_. True)"
  "k \<notin> C \<or> cd_used c \<Longrightarrow> safe (used_up p d C R) (modify (\<lambda>s. s\<lparr>is_codes := AList.update k c (is_codes s)\<rparr>)) (\<lambda>_. True)"
  "k \<notin> R \<or> rt_revoked r \<Longrightarrow> safe (used_up p d C R) (modify (\<lambda>s. s\<lparr>is_refresh := AList.update k r (is_refresh s)\<rparr>)) (\<lambda>_. True)"
  by (rule safe_modify; auto simp: used_up_def distinct_update dest!: set_updateD)+

lemma used_up_purge: "safe (used_up p d C R) purge_expired (\<lambda>_. True)"
  unfolding purge_expired_def
  by (intro safe_intros used_up_basics safe_gets safe_modify TrueI) (auto simp: used_up_def distinct_filter_keys)

text \<open>A lookup of something used up finds it marked, if it finds it at all.\<close>

lemma used_up_found:
  "k \<in> C \<Longrightarrow> safe (used_up p True C R) (gets (\<lambda>s. map_of (is_codes s) k)) (\<lambda>x. \<forall>c. x = Some c \<longrightarrow> cd_used c)"
  "k \<in> R \<Longrightarrow> safe (used_up p True C R) (gets (\<lambda>s. map_of (is_refresh s) k)) (\<lambda>x. \<forall>r. x = Some r \<longrightarrow> rt_revoked r)"
  by (rule safe_gets; auto simp: used_up_def dest!: map_of_SomeD)+

lemma used_up_validate: "safe (used_up p d C R) (validate_authorize_request p q) (\<lambda>_. True)"
  unfolding validate_authorize_request_def Let_def
  by (intro safe_intros safe_lift used_up_basics TrueI)

lemma used_up_page: "safe (used_up p d C R) (authorize_page p q) (\<lambda>_. True)"
  unfolding authorize_page_def
  by (intro safe_intros safe_any [OF used_up_random] used_up_purge used_up_validate used_up_changes used_up_basics TrueI)

lemma used_up_issue: "safe (used_up p d C R) (issue_authorization_code p r) (\<lambda>_. True)"
  unfolding issue_authorization_code_def
  by (rule safe_andthen [OF used_up_random]) (intro safe_intros used_up_changes used_up_basics TrueI; simp)

lemma used_up_submit: "safe (used_up p d C R) (authorize_submit p i u w) (\<lambda>_. True)"
  unfolding authorize_submit_def unknown_request_def
  by (intro safe_intros used_up_purge used_up_issue used_up_changes used_up_basics safe_lift safe_read_store TrueI)

lemma used_up_dev: "safe (used_up p d C R) (dev_authorize p q u w) (\<lambda>_. True)"
  unfolding dev_authorize_def
  by (intro safe_intros used_up_purge used_up_validate used_up_issue safe_lift TrueI)

lemma used_up_refresh_draw:
  "safe (used_up p d C R) (if b then andthen (random_token p 32) (\<lambda>t. ret (Some t)) else ret None)
    (\<lambda>x. \<forall>t. x = Some t \<longrightarrow> t \<notin> R)"
  by (intro safe_if safe_andthen [OF used_up_random] safe_ret) simp_all

lemma used_up_issue_tokens: "safe (used_up p d C R) (issue_token_payload p u c sc) (\<lambda>_. True)"
  unfolding issue_token_payload_def
  by (rule safe_then [OF safe_any [OF used_up_random]], rule safe_andthen [OF used_up_refresh_draw])
    (intro safe_intros used_up_changes used_up_basics TrueI; simp)

lemma used_up_spend:
  "safe (used_up p d C R) (spend_code p i) (\<lambda>_. True)"
  "safe (used_up p d C R) (spend_refresh_token p i) (\<lambda>_. True)"
  unfolding spend_code_def spend_refresh_token_def Let_def invalid_grant_def
  by (intro safe_intros safe_gets used_up_changes used_up_basics TrueI; simp)+

lemma used_up_token: "safe (used_up p d C R) (issuer_token p i) (\<lambda>_. True)"
  unfolding issuer_token_def exchange_authorization_code_def refresh_access_token_def
  by (intro safe_intros used_up_purge used_up_spend used_up_issue_tokens used_up_basics)

lemma used_up_revoke: "safe (used_up p d C R) (revoke t) (\<lambda>_. True)"
  unfolding revoke_def
  by (intro safe_intros safe_modify used_up_basics TrueI)
    (auto simp: used_up_def distinct_update split: option.splits dest!: set_updateD)

lemma used_up_access: "safe (used_up p d C R) (require_access h) (\<lambda>_. True)"
  unfolding require_access_def access_token_record_def
  by (intro safe_intros used_up_purge safe_gets safe_lift used_up_basics TrueI)

lemma used_up_serve: "safe (used_up p d C R) (issuer_serve p e) (\<lambda>_. True)"
  by (cases e) (auto intro!: safe_ret safe_replied used_up_page used_up_submit used_up_dev used_up_token used_up_revoke
      safe_then [OF used_up_access] simp: userinfo_def get_user_profile_def issuer_generate_nebula_id_def)

lemma used_up_run: "used_up p d C R s \<Longrightarrow> used_up p d C R (issuer_run p es s)"
  by (induction es arbitrary: s) (simp_all add: safe_state [OF used_up_serve])

text \<open>Spending uses up, and what is used up cannot be spent.\<close>

lemma update_value: "distinct (map fst al) \<Longrightarrow> (k, c) \<in> set (AList.update k v al) \<Longrightarrow> c = v"
  by (metis distinct_update map_of_is_SomeI option.inject update_conv' fun_upd_same)

lemma write_store_Inr: "write_store m s = (Inr a, t) \<longleftrightarrow> \<not> is_poisoned s \<and> m s = (Inr a, t)"
  by (auto simp: write_store_def split: prod.splits sum.splits issuer_failure.splits)

lemma tick_Inr: "tick s = (Inr a, t) \<longleftrightarrow> a = is_instant s (is_instant_n s) \<and> t = s\<lparr>is_instant_n := Suc (is_instant_n s)\<rparr>"
  by (auto simp: tick_def)

lemma spend_code_uses:
  assumes "used_up p False {trim (tq_code i)} {} s" and "spend_code p i s = (Inr c, t)"
  shows "used_up p True {trim (tq_code i)} {} t"
  using assms
  by (auto simp: spend_code_def Let_def invalid_grant_def used_up_def run_inv tick_Inr distinct_update
      dest: update_value split: option.splits if_splits)

lemma spend_refresh_uses:
  assumes "used_up p False {} {trim (tq_refresh_token i)} s" and "spend_refresh_token p i s = (Inr c, t)"
  shows "used_up p True {} {trim (tq_refresh_token i)} t"
  using assms
  by (auto simp: spend_refresh_token_def Let_def invalid_grant_def used_up_def run_inv tick_Inr distinct_update
      dest: update_value split: option.splits if_splits)

lemma used_up_refused:
  "trim (tq_code i) \<in> C \<Longrightarrow> safe (used_up p True C R) (spend_code p i) (\<lambda>_. False)"
  "trim (tq_refresh_token i) \<in> R \<Longrightarrow> safe (used_up p True C R) (spend_refresh_token p i) (\<lambda>_. False)"
  unfolding spend_code_def spend_refresh_token_def Let_def invalid_grant_def
  by (rule safe_andthen [OF used_up_found(1)] safe_andthen [OF used_up_found(2)], assumption,
      intro safe_case_option safe_throw safe_andthen [where P = "\<lambda>b. b" for b :: bool], auto intro: safe_intros)+

text \<open>The code or refresh token a request presents, as the dead codes and the dead refresh tokens.\<close>

definition credential :: "token_request \<Rightarrow> string" where
  "credential i = trim (if tq_grant_type i = ''authorization_code'' then tq_code i else tq_refresh_token i)"

definition dead_codes :: "token_request \<Rightarrow> string set" where
  "dead_codes i = (if tq_grant_type i = ''authorization_code'' then {credential i} else {})"

definition dead_refresh :: "token_request \<Rightarrow> string set" where
  "dead_refresh i = (if tq_grant_type i = ''authorization_code'' then {} else {credential i})"

lemma token_uses:
  assumes "used_up p False (dead_codes i) (dead_refresh i) s" and "issuer_token p i s = (Inr r, t)"
  shows "used_up p True (dead_codes i) (dead_refresh i) t"
proof -
  obtain s1 where s1: "purge_expired s = (Inr (), s1)"
    and rest: "(if tq_grant_type i = ''authorization_code'' then exchange_authorization_code p i
      else refresh_access_token p i) s1 = (Inr r, t)"
    using assms(2) unfolding issuer_token_def by (auto simp: run_inv split: if_splits)
  have "used_up p False (dead_codes i) (dead_refresh i) s1"
    using safe_answer [OF used_up_purge assms(1) s1] by simp
  with rest show ?thesis
    using spend_code_uses [of p i s1] spend_refresh_uses [of p i s1]
      safe_answer [OF used_up_issue_tokens]
    by (fastforce simp: exchange_authorization_code_def refresh_access_token_def run_inv write_store_Inr
        dead_codes_def dead_refresh_def credential_def split: if_splits)
qed

lemma dead_token_refused:
  assumes "credential i \<in> (if tq_grant_type i = ''authorization_code'' then C else R)"
  shows "safe (used_up p True C R) (issuer_token p i) (\<lambda>_. False)"
  using assms unfolding issuer_token_def exchange_authorization_code_def refresh_access_token_def credential_def
  by (intro safe_then [OF used_up_purge] safe_if safe_throw safe_andthen [where P = "\<lambda>_. False"]
      safe_write_store used_up_refused used_up_basics) auto

text \<open>C21: a code that was exchanged and a refresh token that was used never give tokens again, in any
  continuation of the run, provided no later draw gives the same string.\<close>

theorem grants_are_single_use:
  assumes "s = issuer_run p es (new_issuer a b)" and "issuer_token p i s = (Inr r, t)"
    and "\<forall>n \<ge> is_random_n s. \<forall>m. x_base64url_encode (ip_crates p) (is_random s n m) \<noteq> credential i"
    and "tq_grant_type j = tq_grant_type i" and "credential j = credential i"
  shows "\<not> is_ok (fst (issuer_token p j (issuer_run p fs t)))"
proof -
  have "used_up p False {} {} s"
    unfolding assms(1) by (rule used_up_run) (simp add: used_up_def new_issuer_def)
  then have "used_up p False (dead_codes i) (dead_refresh i) s"
    using assms(3) by (auto simp: used_up_def dead_codes_def dead_refresh_def)
  then have "used_up p True (dead_codes i) (dead_refresh i) (issuer_run p fs t)"
    using assms(2) by (intro used_up_run token_uses)
  moreover have "safe (used_up p True (dead_codes i) (dead_refresh i)) (issuer_token p j) (\<lambda>_. False)"
    by (rule dead_token_refused) (simp add: assms(4,5) dead_codes_def dead_refresh_def)
  ultimately show ?thesis by (auto simp: safe_def is_ok_iff)
qed

lemma grants_are_single_use_witness:
  "\<exists>r t. issuer_token sample_issuer sample_exchange (issuer_run sample_issuer sample_login fresh_issuer) = (Inr r, t)
    \<and> \<not> is_ok (fst (issuer_token sample_issuer sample_exchange t))"
proof -
  let ?s = "issuer_run sample_issuer sample_login fresh_issuer"
  obtain r t where r: "issuer_token sample_issuer sample_exchange ?s = (Inr r, t)"
    using sample_exchanged by (auto simp: is_ok_iff prod_eq_iff)
  have "\<forall>n \<ge> is_random_n ?s. \<forall>m. x_base64url_encode (ip_crates sample_issuer) (is_random ?s n m) \<noteq> credential sample_exchange"
    using sample_code by (simp add: sample_draws credential_def sample_exchange_def)
  from grants_are_single_use [OF refl r [unfolded fresh_issuer_def] this [unfolded fresh_issuer_def] refl refl,
      of "[]"] r
  show ?thesis by auto
qed

end
