(* ===== verification/IssuerPath.thy ===== *)
theory IssuerPath
  imports IssuerLaws CloudSamples
begin

text \<open>
  A login that crosses both programs: the issuer (\<open>apps/nebula-dev-issuer/src/main.rs\<close>) hands out an
  access token, and the cloud (\<open>resolve_skybridge_profile_from_provider\<close> in
  \<open>apps/cloud-api/src/main.rs\<close>) asks it whose token that is. Here the network of the cloud is the
  issuer's own handler.
\<close>

section \<open>The issuer as a network\<close>

definition header_of :: "http_request \<Rightarrow> headers" where
  "header_of r = map_of (hr_headers r)"

text \<open>\<open>Json(..).into_response()\<close> and \<open>oauth_error\<close>; a handler that panics closes the connection.\<close>

definition profile_response :: "issuer_parts \<Rightarrow> issuer \<Rightarrow> http_request \<Rightarrow> http_response option" where
  "profile_response p s r =
     (case fst (get_user_profile p (header_of r) s) of
        Inr j \<Rightarrow> Some \<lparr> rsp_status = 200, rsp_body = Some (x_json_print (ip_crates p) j) \<rparr>
      | Inl (Refused st e) \<Rightarrow> Some \<lparr> rsp_status = st,
          rsp_body = Some (x_json_print (ip_crates p) (JObject [(''error'', JString e)])) \<rparr>
      | Inl Aborted \<Rightarrow> None)"

lemma profile_fields:
  assumes "x_uuid_parse x (x_uuid_string x (du_id u)) = Some (du_id u)"
  shows "field ''data'' (skybridge_profile_of_json x) (profile_page x u) = Some
    \<lparr> sr_id = du_id u, sr_email = Some (du_email u), sr_phone = du_phone u,
      sr_nebula_id = Some (nebula_str (du_nebula_id u)), sr_full_name = Some (du_name u) \<rparr>"
  using assms
  by (simp add: profile_page_def profile_to_json_def skybridge_profile_of_json_def field_def field_opt_def
      json_get_def is_object_def de_uuid_def de_option_def split: option.split)

lemma user_from_env: "issuer_from_env x env = Inr c \<Longrightarrow> nebula_ok (du_nebula_id (icf_demo_user c))"
  by (auto simp: issuer_from_env_def demo_user_from_env_def Let_def res_simps dest: nebula_parse_ok)

lemma fetch_profile_run: "fetch_skybridge_profile x base token w =
    (let r = bearer_request ''GET'' (base @ ''/get-user-profile'') token; v = w\<lparr>w_sent := w_sent w @ [r]\<rparr> in
     case w_net w (w_sent w @ [r]) of
       None \<Rightarrow> (Inl (bad_gateway ''SkyBridge identity provider is unavailable''), v)
     | Some response \<Rightarrow>
         if rsp_status response = 401 then (Inl (unauthorized ''invalid SkyBridge session''), v)
         else if \<not> is_success (rsp_status response)
         then (Inl (bad_gateway ''SkyBridge profile lookup failed''), v)
         else (ok_or (bad_gateway ''invalid SkyBridge profile response'')
           (Option.bind (Option.bind (rsp_body response) (x_json_parse x))
             (field ''data'' (skybridge_profile_of_json x))), v))"
  by (simp add: fetch_skybridge_profile_def http_send_def andthen_run act_simps Let_def split: option.split)

section \<open>The login\<close>

lemma get_user_profile_Inr:
  assumes "get_user_profile p h (issuer_run p es (new_issuer a b)) = (Inr j, t)"
  shows "logged_in p es \<and> j = profile_page (ip_crates p) (icf_demo_user (ip_config p))"
proof -
  obtain r where r: "require_access h (issuer_run p es (new_issuer a b)) = (Inr r, t)"
    and j: "j = profile_page (ip_crates p) (tr_user r)"
    using assms unfolding get_user_profile_def by (auto simp: run_inv)
  have "access_ok p (logged_in p es) r"
    using safe_answer [OF sound_access sound_run r] by simp
  with j show ?thesis by (simp add: access_ok_def)
qed

text \<open>Looking a token up only ever refuses with 401.\<close>

lemma lookups_answer: "fst (purge_expired s) \<noteq> Inl e" "fst (access_token_record h s) \<noteq> Inl e"
  by (simp_all add: purge_expired_def access_token_record_def andthen_run act_simps tick_def split: option.split)

lemma get_user_profile_Inl: "fst (get_user_profile p h s) = Inl e \<Longrightarrow> \<exists>m. e = Refused 401 m"
  by (auto simp: get_user_profile_def require_access_def andthen_run act_simps lookups_answer ok_or_def
      split: sum.splits option.splits)


text \<open>A cloud whose provider is the issuer after the login and the exchange; the access token is its
  second draw.\<close>

definition sample_session :: issuer where
  "sample_session = issuer_run sample_issuer (sample_login @ [PostToken sample_exchange]) fresh_issuer"

definition answered_world :: world where
  "answered_world = sample_world\<lparr>w_net := (\<lambda>rs. profile_response sample_issuer sample_session (last rs))\<rparr>"

lemma session_open: "is_ok (fst (get_user_profile sample_issuer (header_of
    (bearer_request ''GET'' (''b'' @ ''/get-user-profile'') ''1'')) sample_session))"
  by code_simp


end
