(* ===== verification/IssuerDown.thy ===== *)
theory IssuerDown
  imports IssuerLaws
begin

text \<open>
  A poisoned store of the issuer (\<open>apps/nebula-dev-issuer/src/main.rs\<close>): the lifetimes of the tokens
  are numbers of seconds from the environment, without a bound, and \<open>issue_token_payload\<close> adds
  them to the clock while it holds the lock.
\<close>

lemma down_write: "safe is_poisoned (write_store m) (\<lambda>_. False)"
  by (simp add: safe_def write_store_def)

lemma down_basics: "safe is_poisoned tick (\<lambda>_. True)" "safe is_poisoned (random_token p n) (\<lambda>_. True)"
  "safe is_poisoned (read_store f) (\<lambda>_. False)" "safe is_poisoned (after_now p d) (\<lambda>_. True)"
  by (auto simp: safe_def tick_def random_token_def read_store_def after_now_def andthen_run act_simps)

lemma down_purge: "safe is_poisoned purge_expired (\<lambda>_. True)"
  by (simp add: safe_def purge_expired_def andthen_run act_simps)

lemma down_validate: "safe is_poisoned (validate_authorize_request p q) (\<lambda>_. True)"
  unfolding validate_authorize_request_def Let_def
  by (intro safe_intros down_basics safe_lift TrueI)

lemma down_code: "safe is_poisoned (issue_authorization_code p r) (\<lambda>_. False)"
  unfolding issue_authorization_code_def
  by (intro safe_then [OF down_basics(2)] safe_andthen [OF down_write]) simp

lemma down_page: "safe is_poisoned (authorize_page p q) (\<lambda>_. False)"
  unfolding authorize_page_def
  by (intro safe_then [OF down_purge] safe_then [OF down_validate] safe_then [OF down_basics(2)]
      safe_andthen [OF down_write]) simp

lemma down_submit: "safe is_poisoned (authorize_submit p k u w) (\<lambda>_. False)"
  unfolding authorize_submit_def
  by (intro safe_then [OF down_purge] safe_andthen [OF down_basics(3)]) simp

lemma down_dev: "safe is_poisoned (dev_authorize p q u w) (\<lambda>_. False)"
  unfolding dev_authorize_def
  by (intro safe_if safe_throw safe_then [OF down_purge] safe_then [OF down_validate] safe_andthen [OF down_code]) simp

lemma down_token: "safe is_poisoned (issuer_token p i) (\<lambda>_. False)"
  unfolding issuer_token_def exchange_authorization_code_def refresh_access_token_def
  by (intro safe_then [OF down_purge] safe_if safe_throw safe_andthen [OF down_write]) simp_all

lemma down_revoke: "safe is_poisoned (revoke t) (\<lambda>_. False)"
  unfolding revoke_def by (intro safe_andthen [OF down_write]) simp

lemma down_access: "safe is_poisoned (require_access h) (\<lambda>_. False)"
proof -
  have "safe is_poisoned (access_token_record h) (\<lambda>r. r = None)"
    by (auto simp: safe_def access_token_record_def andthen_run act_simps split: option.splits)
  then show ?thesis
    unfolding require_access_def
    by (intro safe_then [OF down_purge]) (auto intro!: safe_andthen safe_lift simp: ok_or_def)
qed

lemma down_serve: "safe is_poisoned (issuer_serve p e) (\<lambda>_. True)"
  by (cases e) (auto intro!: safe_ret safe_replied down_page down_submit down_dev down_token down_revoke
      safe_andthen [OF down_access] simp: userinfo_def get_user_profile_def issuer_generate_nebula_id_def)

lemma down_run: "is_poisoned s \<Longrightarrow> is_poisoned (issuer_run p es s)"
  by (induction es arbitrary: s) (simp_all add: safe_state [OF down_serve])

lemma down_no_answer: "safe is_poisoned m (\<lambda>_. False) \<Longrightarrow> is_poisoned s \<Longrightarrow> \<not> is_ok (fst (m (issuer_run p es s)))"
  using down_run by (auto simp: safe_def is_ok_iff)

lemma overlong_lifetime_aborts:
  assumes "\<not> is_poisoned s"
    and "\<And>n. \<not> is_instant s n + seconds (uint (icf_access_token_ttl (ip_config p))) \<le> ip_last_instant p"
  shows "fst (issue_token_payload p u c sc s) = Inl Aborted \<and> is_poisoned (snd (issue_token_payload p u c sc s))"
  using assms
  by (simp add: issue_token_payload_def andthen_run act_simps random_token_def write_store_def after_now_def tick_def)

text \<open>When the lifetime of an access token leads past the last instant of the platform, the first
  exchange panics after it has used up the code, and from then on the issuer grants nothing.\<close>

lemma overlong_lifetime_breaks_issuer:
  assumes "write_store (spend_code p i) s = (Inr c, t)"
    and "\<And>n. ip_last_instant p < is_instant t n + seconds (uint (icf_access_token_ttl (ip_config p)))"
  shows "fst (exchange_authorization_code p i s) = Inl Aborted"
    and "\<not> is_ok (fst (issuer_token p j (issuer_run p es (snd (exchange_authorization_code p i s)))))"
    and "\<not> is_ok (fst (authorize_page p q (issuer_run p es (snd (exchange_authorization_code p i s)))))"
    and "\<not> is_ok (fst (require_access h (issuer_run p es (snd (exchange_authorization_code p i s)))))"
proof -
  have open_store: "\<not> is_poisoned t"
    using assms(1) by (auto simp: write_store_Inr spend_code_def Let_def invalid_grant_def run_inv tick_Inr
        split: option.splits if_splits)
  have late: "\<not> is_instant t n + seconds (uint (icf_access_token_ttl (ip_config p))) \<le> ip_last_instant p" for n
    using assms(2) [of n] by simp
  have run: "fst (exchange_authorization_code p i s) = Inl Aborted
      \<and> is_poisoned (snd (exchange_authorization_code p i s))"
    using overlong_lifetime_aborts [of t p] open_store late
    by (simp add: exchange_authorization_code_def andthen_run assms(1))
  then show "fst (exchange_authorization_code p i s) = Inl Aborted" by simp
  show "\<not> is_ok (fst (issuer_token p j (issuer_run p es (snd (exchange_authorization_code p i s)))))"
    "\<not> is_ok (fst (authorize_page p q (issuer_run p es (snd (exchange_authorization_code p i s)))))"
    "\<not> is_ok (fst (require_access h (issuer_run p es (snd (exchange_authorization_code p i s)))))"
    using run by (intro down_no_answer down_token down_page down_access; simp)+
qed

end
