(* ===== verification/Shell.thy ===== *)
theory Shell
  imports NodeStatus
begin

text \<open>
  The desktop shell (\<open>apps/local-node/src-tauri/src/main.rs\<close>): it looks for a running local node it
  may adopt, and starts one as its sidecar otherwise. Here are its configuration, the line in which
  a node reports its ports, and the probing of running nodes; the supervisor of the sidecar is in
  \<open>Supervisor\<close>. The window, the tray and the log file are not modelled.
\<close>

section \<open>Constants and configuration\<close>

definition skill_api_default :: string where
  "skill_api_default = ''http://127.0.0.1:8790''"

definition agent_api_default :: string where
  "agent_api_default = ''http://127.0.0.1:17870''"

definition shell_port_candidates :: "(nat \<times> nat) list" where
  "shell_port_candidates = [(8790, 17870), (8791, 17871), (8890, 17970), (18790, 27870)]"

lemma ports_in_sync: "shell_port_candidates = port_candidates"
  by (simp add: shell_port_candidates_def port_candidates_def)

definition rapid_failure_uptime_ms :: nat where
  "rapid_failure_uptime_ms = 8000"

definition max_rapid_failures :: u32 where
  "max_rapid_failures = 6"

definition restart_base_delay_secs :: u64 where
  "restart_base_delay_secs = 2"

definition restart_max_delay_secs :: u64 where
  "restart_max_delay_secs = 30"

record runtime_config =
  rc_skill_api :: string
  rc_agent_api :: string
  rc_local_token :: string
  rc_openclaw_token :: string
  rc_connector_mode :: string
  rc_sidecar_log_path :: string
  rc_secret_store_path :: string

record stored_secrets =
  sts_local_token :: string
  sts_openclaw_token :: string

definition shell_config :: "environment \<Rightarrow> bool \<Rightarrow> string \<Rightarrow> string \<Rightarrow> stored_secrets \<Rightarrow> runtime_config" where
  "shell_config env debug log store secrets =
     \<lparr> rc_skill_api = skill_api_default, rc_agent_api = agent_api_default,
       rc_local_token = unwrap_or (env ''OZON_LOCAL_TOKEN'') (sts_local_token secrets),
       rc_openclaw_token = unwrap_or (env ''OZON_OPENCLAW_TOKEN'') (sts_openclaw_token secrets),
       rc_connector_mode = unwrap_or (env ''OZON_CONNECTOR_MODE'') (if debug then ''mock'' else ''real''),
       rc_sidecar_log_path = log, rc_secret_store_path = store \<rparr>"

text \<open>\<open>load_or_create_secrets\<close>: \<open>raw\<close> is what the file holds if it can be read, \<open>pretty\<close> the printer,
  and \<open>store\<close> whether the directory and the file can be made, with their permissions.\<close>

definition valid_secret :: "string \<Rightarrow> bool" where
  "valid_secret v \<longleftrightarrow> 32 \<le> length v"

definition generate_secret :: "('z ambient_scheme, 'e, string) act" where
  "generate_secret = sample_alnum 48"

definition stored_secrets_of_json :: "stored_secrets de" where
  "stored_secrets_of_json j =
     Option.bind (field ''local_token'' de_string j) (\<lambda>l.
     Option.bind (field ''openclaw_token'' de_string j) (\<lambda>o'.
       Some \<lparr> sts_local_token = l, sts_openclaw_token = o' \<rparr>))"

definition stored_secrets_to_json :: "stored_secrets \<Rightarrow> json" where
  "stored_secrets_to_json c = JObject
     [(''local_token'', JString (sts_local_token c)), (''openclaw_token'', JString (sts_openclaw_token c))]"

definition usable_secrets :: "crates \<Rightarrow> string option \<Rightarrow> stored_secrets option" where
  "usable_secrets x raw =
     Option.bind (Option.bind (Option.bind raw (x_json_parse x)) stored_secrets_of_json) (\<lambda>c.
       if valid_secret (sts_local_token c) \<and> valid_secret (sts_openclaw_token c) then Some c else None)"

definition load_or_create_secrets ::
  "crates \<Rightarrow> (json \<Rightarrow> string) \<Rightarrow> (string \<Rightarrow> string + unit) \<Rightarrow> string option
    \<Rightarrow> ('z ambient_scheme, string, stored_secrets \<times> string option) act" where
  "load_or_create_secrets x pretty store raw =
     (case usable_secrets x raw of
        Some c \<Rightarrow> ret (c, raw)
      | None \<Rightarrow>
          andthen generate_secret (\<lambda>l.
          andthen generate_secret (\<lambda>o'.
          let c = \<lparr> sts_local_token = l, sts_openclaw_token = o' \<rparr>; content = pretty (stored_secrets_to_json c) in
          andthen (lift (store content)) (\<lambda>_. ret (c, Some content)))))"

text \<open>The tokens survive the next start.\<close>

lemma secrets_survive:
  assumes "load_or_create_secrets x pretty store raw s = (Inr (c, file), t)"
    and "\<And>j. x_json_parse x (pretty j) = Some j"
  shows "load_or_create_secrets x pretty store' file u = (Inr (c, file), u)
    \<and> valid_secret (sts_local_token c) \<and> valid_secret (sts_openclaw_token c)"
proof (cases "usable_secrets x raw")
  case (Some d)
  then show ?thesis
    using assms(1) by (auto simp: load_or_create_secrets_def act_simps usable_secrets_def split: if_splits Option.bind_splits)
next
  case None
  have "field k de_string (JObject xs) = (case map_of xs k of Some (JString v) \<Rightarrow> Some v | _ \<Rightarrow> None)" for k xs
    by (auto simp: field_def json_get_def split: option.split json.split)
  then show ?thesis
    using assms None
    by (auto simp: load_or_create_secrets_def generate_secret_def sample_alnum_def Let_def andthen_run act_simps
        usable_secrets_def stored_secrets_to_json_def stored_secrets_of_json_def valid_secret_def split: sum.splits)
qed

text \<open>\<open>Url::fragment\<close> is not among the parts of an URL the other programs read.\<close>

definition validate_openclaw_binding_url ::
  "crates \<Rightarrow> (string \<Rightarrow> string option) \<Rightarrow> string \<Rightarrow> string + unit" where
  "validate_openclaw_binding_url x url_fragment bind_url =
     bind_res (ok_or ''invalid binding URL'' (x_url_parse x bind_url)) (\<lambda>u.
     bind_res (ensure (url_path u = ''/openclaw/import'') ''binding URL path is not allowed'') (\<lambda>_.
     let h = unwrap_or (url_host u) [] in
     bind_res (ensure
         (url_scheme u = ''https'' \<and> h \<in> {''ozonclaw.jl696.cn'', ''www.ozonclaw.jl696.cn''} \<and> url_port u = Some 443
        \<or> url_scheme u = ''http'' \<and> h \<in> {''127.0.0.1'', ''localhost''} \<and> url_port u = Some 18789)
       ''binding URL origin is not allowed'') (\<lambda>_.
     bind_res (ok_or ''binding URL is missing pairing fragment'' (url_fragment bind_url)) (\<lambda>f.
       ensure (\<exists>part \<in> set (split_on (CHR ''&'') f). starts_with part ''ozon66_pairing_code='')
         ''binding URL is missing pairing code''))))"

section \<open>Text\<close>

definition is_address_in_use :: "string \<Rightarrow> bool" where
  "is_address_in_use reason \<longleftrightarrow> contains reason ''os error 48'' \<or> contains reason ''os error 10048''
     \<or> contains reason ''os error 10013'' \<or> contains reason ''Address already in use''
     \<or> contains reason ''Only one usage of each socket address''"

definition parse_u16 :: "string \<Rightarrow> nat option" where
  "parse_u16 s = (case parse_unsigned (2 ^ 16 - 1) s of Inl _ \<Rightarrow> None | Inr n \<Rightarrow> Some n)"

fun reported_ports :: "nat option \<Rightarrow> nat option \<Rightarrow> string list \<Rightarrow> nat option \<times> nat option" where
  "reported_ports skill agent [] = (skill, agent)"
| "reported_ports skill agent (token # tokens) =
     (case strip_prefix ''skill='' token of
        Some v \<Rightarrow> reported_ports (parse_u16 v) agent tokens
      | None \<Rightarrow> (case strip_prefix ''agent='' token of
          Some v \<Rightarrow> reported_ports skill (parse_u16 v) tokens
        | None \<Rightarrow> reported_ports skill agent tokens))"

definition loopback_url :: "nat \<Rightarrow> string" where
  "loopback_url port = ''http://127.0.0.1:'' @ show_nat port"

definition parse_reported_ports :: "crates \<Rightarrow> string \<Rightarrow> (string \<times> string) option" where
  "parse_reported_ports x line =
     Option.bind (strip_prefix ''LOCAL_NODE_PORTS'' (trim (x_utf8_lossy x line))) (\<lambda>rest.
       case reported_ports None None (split_whitespace rest) of
         (Some skill, Some agent) \<Rightarrow> Some (loopback_url skill, loopback_url agent)
       | _ \<Rightarrow> None)"

definition restart_delay_secs :: "u32 \<Rightarrow> u64" where
  "restart_delay_secs failures =
     (let shift = min (unat failures - 1) 8; delay = unat restart_base_delay_secs * 2 ^ shift in
      min (word_of_nat (min delay (2 ^ 64 - 1))) restart_max_delay_secs)"

section \<open>Probing\<close>

text \<open>The wire: what is answered to a request, given all that were sent, or \<open>None\<close> when the
  connection, a write or the read fails. The nonce is drawn from the \<open>Alphanumeric\<close> sampler.\<close>

record wire = ambient +
  wr_answer :: "(string \<times> string) list \<Rightarrow> string option"
  wr_sent :: "(string \<times> string) list"

type_synonym ('z, 'a) probing = "('z wire_scheme, unit, 'a) act"

fun split_at_blank_line :: "string \<Rightarrow> (string \<times> string) option" where
  "split_at_blank_line [] = None"
| "split_at_blank_line (c # s) =
     (case strip_prefix [CHR 0x0D, CHR 0x0A, CHR 0x0D, CHR 0x0A] (c # s) of
        Some body \<Rightarrow> Some ([], body)
      | None \<Rightarrow> map_option (\<lambda>(h, b). (c # h, b)) (split_at_blank_line s))"

definition parse_http_status :: "string \<Rightarrow> nat option" where
  "parse_http_status hs =
     (case lines_of hs of [] \<Rightarrow> None
      | line # _ \<Rightarrow> (case split_whitespace line of
          _ # status # _ \<Rightarrow> parse_u16 status
        | _ \<Rightarrow> None))"

definition crlf :: string where
  "crlf = [CHR 0x0D, CHR 0x0A]"

definition probe_request :: "string \<Rightarrow> (string \<times> string) option \<Rightarrow> string" where
  "probe_request path header =
     ''GET '' @ path @ '' HTTP/1.1'' @ crlf @ ''Host: 127.0.0.1'' @ crlf @ ''Connection: close'' @ crlf
     @ (case header of None \<Rightarrow> [] | Some (n, v) \<Rightarrow> n @ '': '' @ v @ crlf) @ crlf"

definition read_response :: "string \<Rightarrow> (nat \<times> string) option" where
  "read_response raw =
     Option.bind (split_at_blank_line raw) (\<lambda>(hs, body).
     Option.bind (parse_http_status hs) (\<lambda>status. Some (status, body)))"

definition probe_http_endpoint ::
  "string \<Rightarrow> string \<Rightarrow> (string \<times> string) option \<Rightarrow> ('z, (nat \<times> string) option) probing" where
  "probe_http_endpoint addr path header s =
     (let sent = wr_sent s @ [(addr, probe_request path header)] in
      (Inr (Option.bind (wr_answer s sent) read_response), s\<lparr>wr_sent := sent\<rparr>))"

definition health_accepted :: "crates \<Rightarrow> (nat \<times> string) option \<Rightarrow> bool" where
  "health_accepted x answer \<longleftrightarrow>
     (case answer of None \<Rightarrow> False
      | Some (status, body) \<Rightarrow> status = 200 \<and>
          (case x_json_parse x (trim body) of None \<Rightarrow> False
           | Some j \<Rightarrow> field_opt ''service'' de_string j = Some (Some ''ozon-local-node'')
               \<and> field_opt ''status'' de_string j = Some (Some ''ok'')))"

definition probe_health_endpoint :: "crates \<Rightarrow> string \<Rightarrow> ('z, bool) probing" where
  "probe_health_endpoint x addr =
     andthen (probe_http_endpoint addr ''/health'' None) (\<lambda>answer. ret (health_accepted x answer))"

definition shell_attest_proof :: "crates \<Rightarrow> string \<Rightarrow> string \<Rightarrow> string" where
  "shell_attest_proof x token nonce = hex_lower (the (x_hmac_sha256 x token nonce))"

lemma proofs_in_sync: "shell_attest_proof = attest_proof"
  by (simp add: fun_eq_iff shell_attest_proof_def attest_proof_def)

definition proof_accepted :: "crates \<Rightarrow> string \<Rightarrow> string \<Rightarrow> (nat \<times> string) option \<Rightarrow> bool" where
  "proof_accepted x local_token nonce answer \<longleftrightarrow>
     (case answer of None \<Rightarrow> False
      | Some (status, body) \<Rightarrow> status = 200 \<and>
          (case Option.bind (x_json_parse x (trim body)) (field_opt ''proof'' de_string) of
             Some (Some proof) \<Rightarrow> constant_time_eq proof (shell_attest_proof x local_token nonce)
           | _ \<Rightarrow> False))"

definition generate_nonce :: "('z, string) probing" where
  "generate_nonce = sample_alnum 32"

definition probe_attest_endpoint :: "crates \<Rightarrow> string \<Rightarrow> string \<Rightarrow> ('z, bool) probing" where
  "probe_attest_endpoint x local_token skill_addr =
     andthen generate_nonce (\<lambda>nonce.
     andthen (probe_http_endpoint skill_addr ''/attest'' (Some (''x-attest-nonce'', nonce))) (\<lambda>answer.
       ret (proof_accepted x local_token nonce answer)))"

definition loopback_addr :: "nat \<Rightarrow> string" where
  "loopback_addr port = ''127.0.0.1:'' @ show_nat port"

text \<open>\<open>a && b\<close> with effects.\<close>

definition and_also :: "('s, 'e, bool) act \<Rightarrow> ('s, 'e, bool) act \<Rightarrow> ('s, 'e, bool) act" where
  "and_also m n = andthen m (\<lambda>b. if b then n else ret False)"

fun probe_candidates :: "crates \<Rightarrow> string \<Rightarrow> (nat \<times> nat) list \<Rightarrow> ('z, (string \<times> string) option) probing" where
  "probe_candidates x local_token [] = ret None"
| "probe_candidates x local_token ((skill_port, agent_port) # ports) =
     (let skill = loopback_addr skill_port; agent = loopback_addr agent_port in
      andthen (and_also (probe_health_endpoint x skill) (and_also (probe_health_endpoint x agent)
          (probe_attest_endpoint x local_token skill))) (\<lambda>ready.
        if ready then ret (Some (''http://'' @ skill, ''http://'' @ agent))
        else probe_candidates x local_token ports))"

definition probe_existing_local_node :: "crates \<Rightarrow> string \<Rightarrow> ('z, (string \<times> string) option) probing" where
  "probe_existing_local_node x local_token = probe_candidates x local_token shell_port_candidates"

end
