(* ===== verification/Supervisor.thy ===== *)
theory Supervisor
  imports Shell
begin

text \<open>
  The supervisor of the sidecar in the desktop shell (\<open>apps/local-node/src-tauri/src/main.rs\<close>):
  \<open>start_managed_sidecar\<close>, \<open>stop_current_sidecar\<close>, \<open>handle_sidecar_exit\<close> and what they schedule. The
  slot of the child and the snapshot have a lock each; a job is what a thread does under one of
  them, or between them. Nothing under a lock panics, so no lock is ever poisoned. A process
  stays alive when its handle is dropped, and ends when it is killed or dies.
\<close>

section \<open>State\<close>

record snapshot =
  sn_pid :: "nat option"
  sn_status :: string
  sn_restart_count :: u32
  sn_last_started_at_ms :: "u64 option"
  sn_last_exit :: "string option"
  sn_last_error :: "string option"
  sn_desired_running :: bool
  sn_consecutive_failures :: u32
  sn_effective_skill_api :: "string option"
  sn_effective_agent_api :: "string option"

datatype sidecar_exit = RestartAfter u64 | GiveUp | StopThere

datatype job =
    StartCheck
  | StartProbe
  | StartSpawn
  | StartClaim nat
  | StartRecord nat
  | Receive nat "string option"
  | ExitDecide nat string
  | ExitTake sidecar_exit
  | SleepThenStart u64
  | StopTake string
  | StopRecord string "nat option"
  | StopKill "nat option"

text \<open>\<open>sh_spawn k\<close> is what the \<open>k\<close>-th spawn gives, \<open>sh_now\<close> are the readings of the clock in milliseconds.\<close>

record shell = wire +
  sh_child :: "nat option"
  sh_snapshot :: snapshot
  sh_jobs :: "job list"
  sh_alive :: "nat set"
  sh_spawn :: "nat \<Rightarrow> string + nat"
  sh_spawn_n :: nat
  sh_now :: "nat \<Rightarrow> u64"
  sh_now_n :: nat
  sh_log :: "string list"

record shell_parts =
  sp_crates :: crates
  sp_config :: runtime_config

type_synonym 'a shell_act = "(shell, unit, 'a) act"

definition fresh_snapshot :: snapshot where
  "fresh_snapshot =
     \<lparr> sn_pid = None, sn_status = ''starting'', sn_restart_count = 0, sn_last_started_at_ms = None,
       sn_last_exit = None, sn_last_error = None, sn_desired_running = True, sn_consecutive_failures = 0,
       sn_effective_skill_api = None, sn_effective_agent_api = None \<rparr>"

definition now_ms :: "u64 shell_act" where
  "now_ms s = (Inr (sh_now s (sh_now_n s)), s\<lparr>sh_now_n := Suc (sh_now_n s)\<rparr>)"

definition on_snapshot :: "(snapshot \<Rightarrow> snapshot) \<Rightarrow> unit shell_act" where
  "on_snapshot f = modify (\<lambda>s. s\<lparr>sh_snapshot := f (sh_snapshot s)\<rparr>)"

text \<open>The lines given to the log; whether the disk takes them is not modelled.\<close>

definition append_sidecar_log :: "string \<Rightarrow> unit shell_act" where
  "append_sidecar_log line = andthen now_ms (\<lambda>now.
     modify (\<lambda>s. s\<lparr>sh_log := sh_log s @ [''['' @ show_nat (unat now) @ ''] '' @ line]\<rparr>))"

definition kill :: "nat \<Rightarrow> unit shell_act" where
  "kill pid = modify (\<lambda>s. s\<lparr>sh_alive := sh_alive s - {pid}\<rparr>)"

definition take_child :: "nat option shell_act" where
  "take_child = andthen (gets sh_child) (\<lambda>c. andthen (modify (\<lambda>s. s\<lparr>sh_child := None\<rparr>)) (\<lambda>_. ret c))"

record local_node_runtime =
  lr_skill_api :: string
  lr_agent_api :: string
  lr_local_token :: string
  lr_connector_mode :: string
  lr_sidecar_pid :: "nat option"
  lr_sidecar_status :: string
  lr_sidecar_restart_count :: u32
  lr_sidecar_last_started_at_ms :: "u64 option"
  lr_sidecar_last_exit :: "string option"
  lr_sidecar_last_error :: "string option"
  lr_sidecar_log_path :: string

definition runtime_of :: "runtime_config \<Rightarrow> snapshot \<Rightarrow> local_node_runtime" where
  "runtime_of c n =
     \<lparr> lr_skill_api = unwrap_or (sn_effective_skill_api n) (rc_skill_api c),
       lr_agent_api = unwrap_or (sn_effective_agent_api n) (rc_agent_api c),
       lr_local_token = rc_local_token c, lr_connector_mode = rc_connector_mode c,
       lr_sidecar_pid = sn_pid n, lr_sidecar_status = sn_status n,
       lr_sidecar_restart_count = sn_restart_count n, lr_sidecar_last_started_at_ms = sn_last_started_at_ms n,
       lr_sidecar_last_exit = sn_last_exit n, lr_sidecar_last_error = sn_last_error n,
       lr_sidecar_log_path = rc_sidecar_log_path c \<rparr>"

section \<open>Starting\<close>

definition start_check :: "job list shell_act" where
  "start_check = andthen (gets sh_child) (\<lambda>c. ret (if c \<noteq> None then [] else [StartProbe]))"

definition start_probe :: "shell_parts \<Rightarrow> job list shell_act" where
  "start_probe p =
     andthen (gets (\<lambda>s. sn_desired_running (sh_snapshot s))) (\<lambda>desired.
     if \<not> desired then ret []
     else andthen (probe_existing_local_node (sp_crates p) (rc_local_token (sp_config p))) (\<lambda>found.
       case found of
         Some (skill_api, agent_api) \<Rightarrow>
           andthen (on_snapshot (\<lambda>n. n\<lparr>sn_pid := None, sn_status := ''external'', sn_last_error := None,
             sn_last_exit := None, sn_effective_skill_api := Some skill_api,
             sn_effective_agent_api := Some agent_api\<rparr>)) (\<lambda>_.
           andthen (append_sidecar_log (''attached to existing ozon-local-node on '' @ skill_api @ '' / '' @ agent_api)) (\<lambda>_.
             ret []))
       | None \<Rightarrow>
           andthen (on_snapshot (\<lambda>n. n\<lparr>sn_status := ''starting'', sn_last_error := None\<rparr>)) (\<lambda>_. ret [StartSpawn])))"

definition start_spawn :: "job list shell_act" where
  "start_spawn =
     andthen (gets (\<lambda>s. sh_spawn s (sh_spawn_n s))) (\<lambda>r.
     andthen (modify (\<lambda>s. s\<lparr>sh_spawn_n := Suc (sh_spawn_n s)\<rparr>)) (\<lambda>_.
     case r of
       Inr pid \<Rightarrow> andthen (modify (\<lambda>s. s\<lparr>sh_alive := insert pid (sh_alive s)\<rparr>)) (\<lambda>_. ret [StartClaim pid])
     | Inl e \<Rightarrow>
         andthen (append_sidecar_log (''failed to start: '' @ e)) (\<lambda>_.
         andthen (on_snapshot (\<lambda>n. n\<lparr>sn_pid := None, sn_status := ''failed'', sn_last_error := Some e\<rparr>)) (\<lambda>_.
           ret []))))"

definition start_claim :: "nat \<Rightarrow> job list shell_act" where
  "start_claim pid =
     andthen (gets sh_child) (\<lambda>c.
     if c \<noteq> None then andthen (kill pid) (\<lambda>_. ret [])
     else andthen (modify (\<lambda>s. s\<lparr>sh_child := Some pid\<rparr>)) (\<lambda>_. ret [StartRecord pid]))"

definition start_record :: "nat \<Rightarrow> job list shell_act" where
  "start_record pid =
     andthen now_ms (\<lambda>now.
     andthen (on_snapshot (\<lambda>n. n\<lparr>
       sn_restart_count := (if sn_last_started_at_ms n \<noteq> None then sn_restart_count n + 1 else sn_restart_count n),
       sn_pid := Some pid, sn_status := ''running'', sn_last_started_at_ms := Some now, sn_last_error := None\<rparr>)) (\<lambda>_.
     andthen (append_sidecar_log (''started pid='' @ show_nat pid)) (\<lambda>_.
       ret [Receive pid None])))"

section \<open>Stopping and exits\<close>

definition stop_take :: "string \<Rightarrow> job list shell_act" where
  "stop_take why = andthen take_child (\<lambda>c. ret [StopRecord why c])"

definition stop_record :: "string \<Rightarrow> nat option \<Rightarrow> job list shell_act" where
  "stop_record why c =
     andthen (on_snapshot (\<lambda>n. n\<lparr>sn_pid := None, sn_status := ''restarting'', sn_last_exit := Some why,
       sn_last_error := None, sn_desired_running := True, sn_consecutive_failures := 0\<rparr>)) (\<lambda>_. ret [StopKill c])"

text \<open>\<open>restart_local_node\<close> goes on to start.\<close>

definition stop_kill :: "nat option \<Rightarrow> job list shell_act" where
  "stop_kill c = (case c of None \<Rightarrow> ret [StartCheck] | Some pid \<Rightarrow> andthen (kill pid) (\<lambda>_. ret [StartCheck]))"

definition blocked_message :: "string \<Rightarrow> u32 \<Rightarrow> string" where
  "blocked_message reason failures =
     (if is_address_in_use reason
      then utf8 [229, 143, 166, 228, 184, 128, 228, 184, 170] @ '' Ozon '' @ utf8 [230, 156, 172, 229,
         156, 176, 232, 138, 130, 231, 130, 185, 229, 183, 178, 229, 141, 160, 231, 148, 168, 230, 156,
         172, 230, 156, 186, 231, 171, 175, 229, 143, 163, 239, 188, 136, 229, 164, 154, 229, 141, 138,
         230, 152, 175, 228, 184, 138, 230, 172, 161, 230, 178, 161, 233, 128, 128, 229, 185, 178, 229,
         135, 128, 231, 149, 153, 228, 184, 139, 231, 154, 132, 230, 174, 139, 231, 149, 153, 232, 191,
         155, 231, 168, 139, 239, 188, 140, 230, 136, 150, 229, 188, 128, 228, 186, 134, 228, 184, 164,
         228, 187, 189] @ '' App'' @ utf8 [239, 188, 137, 227, 128, 130, 232, 175, 183, 229, 156, 168,
         228, 187, 187, 229, 138, 161, 231, 174, 161, 231, 144, 134, 229, 153, 168, 231, 187, 147, 230,
         157, 159, 230, 137, 128, 230, 156, 137] @ '' ozon-local-node '' @ utf8 [232, 191, 155, 231,
         168, 139, 229, 144, 142, 231, 130, 185, 233, 135, 141, 229, 144, 175, 232, 138, 130, 231, 130,
         185, 227, 128, 130]
      else utf8 [230, 156, 172, 229, 156, 176, 232, 138, 130, 231, 130, 185, 232, 191, 158, 231, 187, 173]
         @ '' '' @ show_nat (unat failures)
         @ '' '' @ utf8 [230, 172, 161, 229, 191, 171, 233, 128, 159, 233, 128, 128, 229, 135, 186, 239,
         188, 140, 229, 183, 178, 229, 129, 156, 230, 173, 162, 232, 135, 170, 229, 138, 168, 233, 135,
         141, 229, 144, 175, 227, 128, 130, 230, 156, 128, 229, 144, 142, 233, 128, 128, 229, 135, 186,
         239, 188, 154] @ reason)"

definition is_rapid :: "u64 option \<Rightarrow> u64 \<Rightarrow> bool" where
  "is_rapid started now = (case started of None \<Rightarrow> True | Some t \<Rightarrow> unat now - unat t < rapid_failure_uptime_ms)"

definition saturating_suc :: "u32 \<Rightarrow> u32" where
  "saturating_suc n = (if n = - 1 then n else n + 1)"

definition after_exit :: "string \<Rightarrow> bool \<Rightarrow> snapshot \<Rightarrow> sidecar_exit \<times> snapshot" where
  "after_exit reason rapid n =
     (let failures = (if rapid then saturating_suc (sn_consecutive_failures n) else 0);
          m = n\<lparr>sn_pid := None, sn_consecutive_failures := failures, sn_last_exit := Some reason, sn_last_error := None\<rparr> in
      if \<not> sn_desired_running m then (StopThere, m\<lparr>sn_status := ''stopped''\<rparr>)
      else if max_rapid_failures \<le> failures
      then (GiveUp, m\<lparr>sn_status := ''blocked'', sn_last_error := Some (blocked_message reason failures)\<rparr>)
      else (RestartAfter (restart_delay_secs failures), m\<lparr>sn_status := ''restarting''\<rparr>))"

definition exit_decide :: "nat \<Rightarrow> string \<Rightarrow> job list shell_act" where
  "exit_decide pid reason =
     andthen (gets sh_snapshot) (\<lambda>n.
     if sn_pid n \<noteq> Some pid then ret []
     else andthen (if sn_last_started_at_ms n = None then ret True
         else andthen now_ms (\<lambda>now. ret (is_rapid (sn_last_started_at_ms n) now))) (\<lambda>rapid.
       case after_exit reason rapid n of (decision, m) \<Rightarrow>
         andthen (on_snapshot (\<lambda>_. m)) (\<lambda>_. ret [ExitTake decision])))"

definition exit_take :: "sidecar_exit \<Rightarrow> job list shell_act" where
  "exit_take decision =
     andthen take_child (\<lambda>_. ret (case decision of RestartAfter d \<Rightarrow> [SleepThenStart d] | _ \<Rightarrow> []))"

section \<open>The receiver of a sidecar's events\<close>

datatype command_event = Stdout string | Stderr string | Terminated string | CommandError string

definition log_output :: "crates \<Rightarrow> string \<Rightarrow> string \<Rightarrow> unit shell_act" where
  "log_output x label line = (let t = trim (x_utf8_lossy x line) in
     if t = [] then ret () else append_sidecar_log (label @ '': '' @ t))"

definition receive :: "crates \<Rightarrow> nat \<Rightarrow> string option \<Rightarrow> command_event \<Rightarrow> job list shell_act" where
  "receive x pid pending ev =
     (case ev of
        Stdout line \<Rightarrow>
          andthen (log_output x ''stdout'' line) (\<lambda>_.
          andthen (case parse_reported_ports x line of None \<Rightarrow> ret ()
            | Some (skill_api, agent_api) \<Rightarrow> on_snapshot (\<lambda>n. n\<lparr>sn_effective_skill_api := Some skill_api,
                sn_effective_agent_api := Some agent_api\<rparr>)) (\<lambda>_. ret [Receive pid pending]))
      | Stderr line \<Rightarrow> andthen (log_output x ''stderr'' line) (\<lambda>_. ret [Receive pid pending])
      | Terminated payload \<Rightarrow> (let reason = ''terminated: '' @ payload in
          andthen (append_sidecar_log reason) (\<lambda>_. ret [Receive pid (Some reason)]))
      | CommandError e \<Rightarrow> (let reason = ''error: '' @ e in
          andthen (append_sidecar_log reason) (\<lambda>_. ret [Receive pid (Some reason)])))"

text \<open>The channel is closed.\<close>

definition receive_closed :: "nat \<Rightarrow> string option \<Rightarrow> job list shell_act" where
  "receive_closed pid pending = ret (case pending of None \<Rightarrow> [] | Some reason \<Rightarrow> [ExitDecide pid reason])"

section \<open>Runs\<close>

text \<open>One job, up to the next lock. A receiver only goes on with an event of its process.\<close>

fun run_job :: "shell_parts \<Rightarrow> job \<Rightarrow> job list shell_act" where
  "run_job p StartCheck = start_check"
| "run_job p StartProbe = start_probe p"
| "run_job p StartSpawn = start_spawn"
| "run_job p (StartClaim pid) = start_claim pid"
| "run_job p (StartRecord pid) = start_record pid"
| "run_job p (Receive pid pending) = receive_closed pid pending"
| "run_job p (ExitDecide pid reason) = exit_decide pid reason"
| "run_job p (ExitTake decision) = exit_take decision"
| "run_job p (SleepThenStart d) = ret [StartCheck]"
| "run_job p (StopTake why) = stop_take why"
| "run_job p (StopRecord why c) = stop_record why c"
| "run_job p (StopKill c) = stop_kill c"

text \<open>What can happen: the \<open>k\<close>-th job runs (a receiver sees its channel closed, a sleeper wakes up), a
  receiver gets an event, a process dies, the operator asks for a restart, the window is closed.\<close>

datatype shell_event =
    Advance nat
  | Hear nat command_event
  | Dies nat
  | RestartClicked
  | Quit

definition drop_nth :: "nat \<Rightarrow> 'a list \<Rightarrow> 'a list" where
  "drop_nth k xs = take k xs @ drop (Suc k) xs"

definition with_jobs :: "nat \<Rightarrow> job list shell_act \<Rightarrow> shell \<Rightarrow> shell" where
  "with_jobs k m s = (let t = s\<lparr>sh_jobs := drop_nth k (sh_jobs s)\<rparr> in
     case m t of (Inr js, u) \<Rightarrow> u\<lparr>sh_jobs := sh_jobs u @ js\<rparr> | (Inl _, u) \<Rightarrow> u)"

text \<open>\<open>Drop for SidecarState\<close>.\<close>

definition quit_shell :: "unit shell_act" where
  "quit_shell =
     andthen (on_snapshot (\<lambda>n. n\<lparr>sn_desired_running := False, sn_status := ''stopped''\<rparr>)) (\<lambda>_.
     andthen take_child (\<lambda>c. case c of None \<Rightarrow> ret () | Some pid \<Rightarrow> kill pid))"

definition shell_do :: "shell_parts \<Rightarrow> shell_event \<Rightarrow> shell \<Rightarrow> shell" where
  "shell_do p e s =
     (case e of
        Advance k \<Rightarrow> (if k < length (sh_jobs s) then with_jobs k (run_job p (sh_jobs s ! k)) s else s)
      | Hear k ev \<Rightarrow> (if k < length (sh_jobs s) then
            (case sh_jobs s ! k of Receive pid pending \<Rightarrow> with_jobs k (receive (sp_crates p) pid pending ev) s | _ \<Rightarrow> s)
          else s)
      | Dies pid \<Rightarrow> s\<lparr>sh_alive := sh_alive s - {pid}\<rparr>
      | RestartClicked \<Rightarrow> s\<lparr>sh_jobs := sh_jobs s @ [StopTake ''manual restart requested'']\<rparr>
      | Quit \<Rightarrow> snd (quit_shell s))"

fun shell_run :: "shell_parts \<Rightarrow> shell_event list \<Rightarrow> shell \<Rightarrow> shell" where
  "shell_run p [] s = s"
| "shell_run p (e # es) s = shell_run p es (shell_do p e s)"

lemma shell_run_append: "shell_run p (es @ fs) s = shell_run p fs (shell_run p es s)"
  by (induction es arbitrary: s) simp_all

text \<open>The shell when it has started: \<open>setup\<close> calls \<open>start_managed_sidecar\<close>.\<close>

definition new_shell :: "ambient \<Rightarrow> ((string \<times> string) list \<Rightarrow> string option) \<Rightarrow> (nat \<Rightarrow> string + nat)
    \<Rightarrow> (nat \<Rightarrow> u64) \<Rightarrow> shell" where
  "new_shell a answer spawn now = ambient.extend a
     \<lparr> wr_answer = answer, wr_sent = [], sh_child = None, sh_snapshot = fresh_snapshot, sh_jobs = [StartCheck],
       sh_alive = {}, sh_spawn = spawn, sh_spawn_n = 0, sh_now = now, sh_now_n = 0, sh_log = [] \<rparr>"

end
