(* ===== verification/ShellLaws.thy ===== *)
theory ShellLaws
  imports Supervisor "HOL-Library.Code_Target_Nat"
begin

text \<open>
  What the supervisor of the desktop shell (\<open>apps/local-node/src-tauri/src/main.rs\<close>) promises: how
  long it waits before a restart, that a sidecar that keeps failing is given up, and how an exit
  that crosses a manual restart loses a running sidecar.
\<close>

section \<open>The delay\<close>

lemma delay_min: "unat (2 :: u64) = 2" "unat (min a 30 :: u64) = min (unat a) 30"
  by (simp_all add: min_def word_le_nat_alt)

lemma restart_delay: "unat (restart_delay_secs n) = min (2 * 2 ^ min (unat n - 1) 8) 30"
proof -
  let ?d = "(2::nat) * 2 ^ min (unat n - 1) 8"
  have "?d \<le> 2 * 2 ^ 8" by (intro mult_left_mono power_increasing) auto
  then have "?d < 2 ^ LENGTH(64)" "min ?d (2 ^ 64 - 1) = ?d" by simp_all
  moreover from this(1) have "unat (word_of_nat ?d :: u64) = ?d" unfolding unat_of_nat by (rule mod_less)
  ultimately show ?thesis
    by (simp only: restart_delay_secs_def Let_def restart_base_delay_secs_def restart_max_delay_secs_def
        delay_min)
qed

lemma restart_delay_bounds: "2 \<le> unat (restart_delay_secs n) \<and> unat (restart_delay_secs n) \<le> 30"
  by (simp add: restart_delay)

section \<open>Giving up\<close>

text \<open>Probing changes nothing of the supervisor.\<close>

definition still :: "shell \<Rightarrow> shell \<Rightarrow> bool" where
  "still s t \<longleftrightarrow> sh_child t = sh_child s \<and> sh_snapshot t = sh_snapshot s \<and> sh_jobs t = sh_jobs s
     \<and> sh_alive t = sh_alive s \<and> sh_spawn t = sh_spawn s \<and> sh_spawn_n t = sh_spawn_n s
     \<and> sh_now t = sh_now s \<and> sh_now_n t = sh_now_n s \<and> wr_answer t = wr_answer s"

interpretation still: step_relation still
  by unfold_locales (auto simp: still_def)

lemma still_probe_http: "keeps still (probe_http_endpoint addr path header)"
  by (simp add: keeps_def probe_http_endpoint_def Let_def still_def)

lemma still_nonce: "keeps still generate_nonce"
  by (simp add: keeps_def generate_nonce_def sample_alnum_def still_def)

lemma still_candidates: "keeps still (probe_candidates x token ports)"
proof (induction ports)
  case (Cons a ports)
  then show ?case
    unfolding probe_candidates.simps Let_def and_also_def probe_health_endpoint_def probe_attest_endpoint_def
    by (cases a) (auto intro!: keeps_intros still_probe_http still_nonce
        simp: probe_candidates.simps Let_def and_also_def probe_health_endpoint_def probe_attest_endpoint_def)
qed (simp add: keeps_intros)

lemma still_probe: "still s (snd (probe_existing_local_node x token s))"
  using still_candidates by (simp add: probe_existing_local_node_def keeps_def)

lemma probe_never_fails: "\<exists>r. fst (probe_existing_local_node x token s) = Inr r"
proof -
  have http: "fst (probe_http_endpoint a b c u) \<noteq> Inl e" for a b c e and u :: "'z wire_scheme"
    by (simp add: probe_http_endpoint_def Let_def)
  have nonce: "fst (generate_nonce u) \<noteq> Inl e" for e and u :: "'z wire_scheme"
    by (simp add: generate_nonce_def sample_alnum_def)
  have "fst (probe_candidates x token ports s) \<noteq> Inl e" for ports e
    by (induction ports arbitrary: s)
      (auto simp: Let_def and_also_def probe_health_endpoint_def probe_attest_endpoint_def andthen_run act_simps
        http nonce split: sum.splits if_splits)
  then show ?thesis unfolding probe_existing_local_node_def by (metis sum.exhaust)
qed

text \<open>A step without a restart by the operator, in which an exit that is handled is a rapid one.\<close>

definition rapid_step :: "shell_event \<Rightarrow> shell \<Rightarrow> bool" where
  "rapid_step e s \<longleftrightarrow>
     (case e of
        Advance k \<Rightarrow> k < length (sh_jobs s) \<longrightarrow> (case sh_jobs s ! k of
          ExitDecide pid reason \<Rightarrow> is_rapid (sn_last_started_at_ms (sh_snapshot s)) (sh_now s (sh_now_n s))
        | _ \<Rightarrow> True)
      | RestartClicked \<Rightarrow> False
      | _ \<Rightarrow> True)"

fun all_rapid :: "shell_parts \<Rightarrow> shell_event list \<Rightarrow> shell \<Rightarrow> bool" where
  "all_rapid p [] s = True"
| "all_rapid p (e # es) s = (rapid_step e s \<and> all_rapid p es (shell_do p e s))"

text \<open>One thread of control at a time, and as many starts as failures, and one more while the sidecar
  started last has not exited.\<close>

fun stage_ok :: "job \<Rightarrow> nat \<Rightarrow> nat \<Rightarrow> bool" where
  "stage_ok StartCheck f n = (f < 6 \<and> n = f)"
| "stage_ok StartProbe f n = (f < 6 \<and> n = f)"
| "stage_ok StartSpawn f n = (f < 6 \<and> n = f)"
| "stage_ok (SleepThenStart d) f n = (f < 6 \<and> n = f)"
| "stage_ok (StartClaim pid) f n = (f < 6 \<and> n = Suc f)"
| "stage_ok (StartRecord pid) f n = (f < 6 \<and> n = Suc f)"
| "stage_ok (Receive pid pending) f n = (f < 6 \<and> n = Suc f)"
| "stage_ok (ExitDecide pid reason) f n = (f < 6 \<and> n = Suc f)"
| "stage_ok (ExitTake (RestartAfter d)) f n = (f < 6 \<and> n = f)"
| "stage_ok (ExitTake _) f n = (n \<le> 6)"
| "stage_ok _ f n = False"

definition stages_ok :: "job list \<Rightarrow> nat \<Rightarrow> nat \<Rightarrow> bool" where
  "stages_ok js f n \<longleftrightarrow> (case js of [] \<Rightarrow> n \<le> 6 | [j] \<Rightarrow> stage_ok j f n | _ \<Rightarrow> False)"

definition failures :: "shell \<Rightarrow> nat" where
  "failures s = unat (sn_consecutive_failures (sh_snapshot s))"

definition one_thread :: "shell \<Rightarrow> bool" where
  "one_thread s \<longleftrightarrow> stages_ok (sh_jobs s) (failures s) (sh_spawn_n s)"

lemma unat_saturating_suc: "unat n < 6 \<Longrightarrow> unat (saturating_suc n) = Suc (unat n)"
proof -
  assume "unat n < 6"
  moreover have "unat (- 1 :: u32) = 2 ^ 32 - 1" by code_simp
  ultimately have "n \<noteq> - 1" by auto
  with \<open>unat n < 6\<close> show ?thesis by (simp add: saturating_suc_def unat_plus_if')
qed

text \<open>A job that leaves one job or none in its place.\<close>

lemma with_jobs_0: "with_jobs 0 m s = (case m (s\<lparr>sh_jobs := tl (sh_jobs s)\<rparr>) of
    (Inr js, u) \<Rightarrow> u\<lparr>sh_jobs := sh_jobs u @ js\<rparr> | (Inl _, u) \<Rightarrow> u)"
  by (cases "sh_jobs s") (simp_all add: with_jobs_def drop_nth_def Let_def)

lemmas job_runs = andthen_run act_simps with_jobs_0 one_thread_def stages_ok_def failures_def on_snapshot_def
  now_ms_def append_sidecar_log_def kill_def take_child_def

lemma one_thread_probe:
  assumes "sh_jobs s = [StartProbe]" and "one_thread s"
  shows "one_thread (with_jobs 0 (start_probe p) s)"
proof -
  let ?t = "s\<lparr>sh_jobs := []\<rparr>" and ?m = "probe_existing_local_node (sp_crates p) (rc_local_token (sp_config p))"
  obtain r where r: "fst (?m ?t) = Inr r" using probe_never_fails by blast
  have st: "sh_snapshot (snd (?m ?t)) = sh_snapshot s" "sh_jobs (snd (?m ?t)) = []" "sh_spawn_n (snd (?m ?t)) = sh_spawn_n s"
    using still_probe [of ?t "sp_crates p" "rc_local_token (sp_config p)"] by (auto simp: still_def)
  show ?thesis
    using assms st by (auto simp: start_probe_def job_runs r split: option.splits)
qed

lemma one_thread_exit:
  assumes "sh_jobs s = [ExitDecide pid reason]" and "one_thread s"
    and "is_rapid (sn_last_started_at_ms (sh_snapshot s)) (sh_now s (sh_now_n s))"
  shows "one_thread (with_jobs 0 (exit_decide pid reason) s)"
  using assms
  by (auto simp: exit_decide_def job_runs after_exit_def Let_def unat_saturating_suc word_le_nat_alt
      max_rapid_failures_def is_rapid_def)

lemma one_thread_job:
  assumes "sh_jobs s = [j]" and "one_thread s"
    and "\<And>pid reason. j = ExitDecide pid reason \<Longrightarrow> is_rapid (sn_last_started_at_ms (sh_snapshot s)) (sh_now s (sh_now_n s))"
  shows "one_thread (with_jobs 0 (run_job p j) s)"
proof (cases j)
  case StartProbe then show ?thesis using assms one_thread_probe by simp
next
  case (ExitDecide pid reason) then show ?thesis using assms one_thread_exit by simp
qed (use assms in \<open>auto simp: job_runs start_check_def start_spawn_def start_claim_def start_record_def
    receive_closed_def exit_take_def split: sum.splits option.splits sidecar_exit.splits\<close>)

lemma quit_keeps:
  "sh_jobs (snd (quit_shell s)) = sh_jobs s" "sh_spawn_n (snd (quit_shell s)) = sh_spawn_n s"
  "failures (snd (quit_shell s)) = failures s"
  by (simp_all add: quit_shell_def job_runs split: option.split)

lemma failures_alive: "failures (s\<lparr>sh_alive := a\<rparr>) = failures s"
  by (simp add: failures_def)

lemma one_thread_step:
  assumes "one_thread s" and "rapid_step e s"
  shows "one_thread (shell_do p e s)"
proof (cases e)
  case (Advance k)
  show ?thesis
  proof (cases "k < length (sh_jobs s)")
    case True
    then obtain j where j: "sh_jobs s = [j]" "k = 0"
      using assms(1) by (auto simp: one_thread_def stages_ok_def split: list.splits)
    have "one_thread (with_jobs 0 (run_job p j) s)"
      by (rule one_thread_job [OF j(1) assms(1)]) (use assms(2) Advance j in \<open>simp add: rapid_step_def\<close>)
    then show ?thesis using Advance j by (simp add: shell_do_def)
  qed (use Advance assms(1) in \<open>simp add: shell_do_def\<close>)
next
  case (Hear k ev)
  show ?thesis
  proof (cases "k < length (sh_jobs s)")
    case True
    then obtain j where j: "sh_jobs s = [j]" "k = 0"
      using assms(1) by (auto simp: one_thread_def stages_ok_def split: list.splits)
    then show ?thesis
      using assms(1) Hear
      by (auto simp: shell_do_def receive_def log_output_def Let_def job_runs split: job.splits command_event.splits option.splits)
  qed (use Hear assms(1) in \<open>simp add: shell_do_def\<close>)
next
  case RestartClicked
  then show ?thesis using assms(2) by (simp add: rapid_step_def)
qed (use assms(1) in \<open>simp_all add: shell_do_def one_thread_def quit_keeps failures_alive\<close>)

lemma one_thread_run: "one_thread s \<Longrightarrow> all_rapid p es s \<Longrightarrow> one_thread (shell_run p es s)"
  by (induction es arbitrary: s) (simp_all add: one_thread_step)

text \<open>C28: while the operator does not step in, a sidecar that exits within eight seconds of every start
  is started six times at most; in between there never is more than one thread at work.\<close>

theorem failing_sidecar_is_given_up:
  assumes "all_rapid p es (new_shell a answer spawn now)"
  shows "sh_spawn_n (shell_run p es (new_shell a answer spawn now)) \<le> 6
    \<and> length (sh_jobs (shell_run p es (new_shell a answer spawn now))) \<le> 1"
proof -
  let ?s = "shell_run p es (new_shell a answer spawn now)"
  have "one_thread (new_shell a answer spawn now)"
    by (simp add: one_thread_def stages_ok_def failures_def new_shell_def fresh_snapshot_def ambient.defs)
  with assms have "stages_ok (sh_jobs ?s) (failures ?s) (sh_spawn_n ?s)"
    using one_thread_run by (simp add: one_thread_def)
  moreover have "stage_ok j f n \<Longrightarrow> n \<le> 6" for j f n
    by (induction j f n rule: stage_ok.induct) auto
  ultimately show ?thesis
    by (auto simp: stages_ok_def split: list.splits)
qed

lemma candidates_nothing:
  fixes s :: shell
  assumes "\<forall>h. wr_answer s h = None"
  shows "fst (probe_candidates x token ports s) = Inr None"
  using assms
  by (induction ports arbitrary: s)
    (auto simp: Let_def and_also_def probe_health_endpoint_def probe_http_endpoint_def andthen_run act_simps
      health_accepted_def)

lemma probe_nothing:
  fixes s :: shell
  shows "\<forall>h. wr_answer s h = None \<Longrightarrow> fst (probe_existing_local_node x token s) = Inr None"
  by (simp add: probe_existing_local_node_def candidates_nothing)

text \<open>A sidecar that dies at once, and an operator who does not step in: one start after the other.\<close>

definition doomed_parts :: shell_parts where
  "doomed_parts =
     \<lparr> sp_crates = toy_crates,
       sp_config = shell_config (\<lambda>_. None) True ''log'' ''store''
         \<lparr> sts_local_token = ''local'', sts_openclaw_token = ''bridge'' \<rparr> \<rparr>"

definition doomed_shell :: shell where
  "doomed_shell = new_shell
     \<lparr> src_clock = (\<lambda>_. 0), clock_n = 0, src_uuid = (\<lambda>_. 0), uuid_n = 0, src_alnum = (\<lambda>_. CHR ''a''), alnum_n = 0,
       src_os = (\<lambda>_. []), os_n = 0 \<rparr>
     (\<lambda>_. None) Inr (\<lambda>_. 5)"

definition one_life :: "shell_event list" where
  "one_life = [Advance 0, Advance 0, Advance 0, Advance 0, Advance 0, Hear 0 (Terminated ''code 1''), Advance 0,
     Advance 0]"

text \<open>On a clock that stands still every exit is a rapid one.\<close>

lemma now_with_jobs:
  assumes "\<And>u. sh_now (snd (m u)) = sh_now u"
  shows "sh_now (with_jobs k m s) = sh_now s"
proof -
  let ?t = "s\<lparr>sh_jobs := drop_nth k (sh_jobs s)\<rparr>"
  obtain r u where u: "m ?t = (r, u)" by (cases "m ?t")
  then have "sh_now u = sh_now s" using assms [of ?t] by simp
  then show ?thesis using u by (simp add: with_jobs_def Let_def split: sum.split)
qed

lemma now_probe:
  fixes s :: shell
  shows "sh_now (snd (probe_existing_local_node x token s)) = sh_now s"
  using still_probe [of s x token] by (simp add: still_def)

lemma now_job: "sh_now (snd (run_job p j s)) = sh_now s"
proof (cases j)
  case StartProbe
  then show ?thesis
    using now_probe [of "sp_crates p" "rc_local_token (sp_config p)" s]
    by (auto simp: start_probe_def job_runs split: sum.splits option.splits prod.splits)
qed (auto simp: job_runs start_check_def start_spawn_def start_claim_def start_record_def receive_closed_def
    exit_decide_def exit_take_def stop_take_def stop_record_def stop_kill_def split: sum.splits option.splits prod.splits)

lemma now_receive: "sh_now (snd (receive x pid pending ev s)) = sh_now s"
  by (auto simp: receive_def log_output_def Let_def job_runs split: command_event.splits option.splits)

lemma now_do: "sh_now (shell_do p e s) = sh_now s"
  by (cases e) (auto simp: shell_do_def now_with_jobs now_job now_receive quit_shell_def job_runs split: job.splits option.splits)

lemma still_clock_rapid:
  "sh_now s = (\<lambda>_. 5) \<Longrightarrow> RestartClicked \<notin> set es \<Longrightarrow> all_rapid p es s"
proof (induction es arbitrary: s)
  case (Cons e es)
  have "is_rapid started 5" for started
    by (auto simp: is_rapid_def rapid_failure_uptime_ms_def split: option.split)
  then have "rapid_step e s" using Cons.prems by (auto simp: rapid_step_def split: shell_event.split job.split)
  then show ?case using Cons by (simp add: now_do)
qed simp

text \<open>One life of the doomed sidecar, step by step: its jobs, its handle, its pid, the failures so far and
  the starts so far.\<close>

definition doomed :: "job list \<Rightarrow> nat option \<Rightarrow> nat option \<Rightarrow> nat \<Rightarrow> nat \<Rightarrow> shell \<Rightarrow> bool" where
  "doomed js c q f n s \<longleftrightarrow> sh_jobs s = js \<and> sh_child s = c \<and> sn_pid (sh_snapshot s) = q \<and> failures s = f
     \<and> sh_spawn_n s = n \<and> sn_desired_running (sh_snapshot s) \<and> (\<forall>h. wr_answer s h = None)
     \<and> sh_spawn s = Inr \<and> sh_now s = (\<lambda>_. 5)"

lemmas doomed_step = doomed_def failures_def shell_do_def with_jobs_0 andthen_run act_simps take_child_def
  on_snapshot_def now_ms_def append_sidecar_log_def

lemma doomed_start:
  "doomed [StartCheck] None q f n s \<Longrightarrow> doomed [StartProbe] None q f n (shell_do p (Advance 0) s)"
  "doomed [StartSpawn] None q f n s \<Longrightarrow> doomed [StartClaim n] None q f (Suc n) (shell_do p (Advance 0) s)"
  "doomed [StartClaim k] None q f n s \<Longrightarrow> doomed [StartRecord k] (Some k) q f n (shell_do p (Advance 0) s)"
  "doomed [StartRecord k] c q f n s \<Longrightarrow> doomed [Receive k None] c (Some k) f n (shell_do p (Advance 0) s)"
  by (simp_all add: doomed_step start_check_def start_spawn_def start_claim_def start_record_def)

lemma doomed_probe:
  assumes "doomed [StartProbe] None q f n s"
  shows "doomed [StartSpawn] None q f n (shell_do p (Advance 0) s)"
proof -
  let ?s = "s\<lparr>sh_jobs := []\<rparr>" and ?m = "probe_existing_local_node (sp_crates p) (rc_local_token (sp_config p))"
  have "fst (?m ?s) = Inr None" using assms by (intro probe_nothing) (simp add: doomed_def)
  moreover have "still ?s (snd (?m ?s))" by (rule still_probe)
  ultimately show ?thesis using assms by (simp add: doomed_step start_probe_def still_def)
qed

lemma doomed_exit:
  "doomed [Receive k None] c q f n s \<Longrightarrow>
    doomed [Receive k (Some ''terminated: code 1'')] c q f n (shell_do p (Hear 0 (Terminated ''code 1'')) s)"
  "doomed [Receive k (Some why)] c q f n s \<Longrightarrow> doomed [ExitDecide k why] c q f n (shell_do p (Advance 0) s)"
  by (simp_all add: doomed_step receive_def receive_closed_def Let_def)

definition verdict :: "nat \<Rightarrow> sidecar_exit" where
  "verdict f = (if f < 6 then RestartAfter (restart_delay_secs (word_of_nat f)) else GiveUp)"

lemma doomed_decide:
  assumes "doomed [ExitDecide k why] c (Some k) f n s" and "f < 6"
  shows "doomed [ExitTake (verdict (Suc f))] c None (Suc f) n (shell_do p (Advance 0) s)"
proof -
  have "is_rapid started 5" for started
    by (auto simp: is_rapid_def rapid_failure_uptime_ms_def split: option.split)
  moreover have "saturating_suc (sn_consecutive_failures (sh_snapshot s)) = word_of_nat (Suc f)"
    using assms unat_saturating_suc [of "sn_consecutive_failures (sh_snapshot s)"]
    by (simp add: doomed_def failures_def word_unat_eq_iff unat_of_nat del: of_nat_Suc)
  moreover have "unat (word_of_nat (Suc f) :: u32) = Suc f"
    using assms(2) by (simp add: unat_of_nat del: of_nat_Suc)
  ultimately show ?thesis
    using assms by (simp add: doomed_step exit_decide_def after_exit_def Let_def verdict_def word_le_nat_alt
        max_rapid_failures_def not_less)
qed

lemma doomed_life:
  assumes "doomed [StartCheck] None q f n s" and "f < 6"
  shows "doomed [ExitTake (verdict (Suc f))] (Some n) None (Suc f) (Suc n) (shell_run p one_life s)"
  unfolding one_life_def shell_run.simps
  by (rule doomed_decide [OF doomed_exit(2) [OF doomed_exit(1) [OF doomed_start(4) [OF doomed_start(3)
    [OF doomed_start(2) [OF doomed_probe [OF doomed_start(1) [OF assms(1)]]]]]]] assms(2)])

lemma doomed_restart:
  assumes "doomed [ExitTake (RestartAfter d)] c q f n s"
  shows "doomed [StartCheck] None q f n (shell_run p [Advance 0, Advance 0] s)"
  using assms by (simp add: doomed_step exit_take_def)

text \<open>The lives after the first one.\<close>

fun lives :: "nat \<Rightarrow> shell_event list" where
  "lives 0 = []"
| "lives (Suc k) = one_life @ [Advance 0, Advance 0] @ lives k"

lemma doomed_lives:
  "doomed [StartCheck] None q f n s \<Longrightarrow> f + k < 6 \<Longrightarrow>
    \<exists>q. doomed [StartCheck] None q (f + k) (n + k) (shell_run p (lives k) s)"
proof (induction k arbitrary: q f n s)
  case (Suc k)
  then have "doomed [ExitTake (RestartAfter (restart_delay_secs (word_of_nat (Suc f))))] (Some n) None (Suc f) (Suc n)
      (shell_run p one_life s)"
    using doomed_life [of q f n s p] by (simp add: verdict_def)
  from doomed_restart [OF this] Suc show ?case
    using Suc.IH [of None "Suc f" "Suc n"] unfolding lives.simps shell_run_append by simp
qed auto

lemma doomed_new: "doomed [StartCheck] None None 0 0 doomed_shell"
  by (simp add: doomed_def doomed_shell_def new_shell_def fresh_snapshot_def failures_def ambient.defs)

lemma failing_sidecar_is_given_up_witness:
  "let es = lives 5 @ one_life; s = shell_run doomed_parts es doomed_shell in
    all_rapid doomed_parts es doomed_shell \<and> sh_spawn_n s = 6 \<and> sh_spawn_n s \<le> 6 \<and> length (sh_jobs s) \<le> 1
    \<and> sh_jobs s = [ExitTake GiveUp]"
proof -
  let ?es = "lives 5 @ one_life"
  have "RestartClicked \<notin> set (lives k)" for k by (induction k) (auto simp: one_life_def)
  then have rapid: "all_rapid doomed_parts ?es doomed_shell"
    by (intro still_clock_rapid) (auto simp: one_life_def doomed_shell_def new_shell_def ambient.defs)
  obtain q where "doomed [StartCheck] None q 5 5 (shell_run doomed_parts (lives 5) doomed_shell)"
    using doomed_lives [OF doomed_new, of 5] by auto
  from doomed_life [OF this] show ?thesis
    using failing_sidecar_is_given_up [OF rapid [unfolded doomed_shell_def]]
    by (simp add: Let_def shell_run_append doomed_def doomed_shell_def verdict_def rapid [unfolded doomed_shell_def])
qed

section \<open>A restart that crosses an exit\<close>

text \<open>The sidecar \<open>old\<close> has exited and its exit is decided, but the handle is not taken yet, when the
  operator asks for a restart. The restart runs to its end, and then the handler of the old exit
  takes the handle of the new sidecar.\<close>

definition crossing :: "shell_event list" where
  "crossing = RestartClicked # map Advance [1, 1, 1, 1, 1, 1, 1, 1, 0]"

text \<open>Stopping: from the click to the check before the new start.\<close>

lemmas one_advance = shell_do_def with_jobs_def drop_nth_def Let_def andthen_run act_simps take_child_def on_snapshot_def
  kill_def

lemma stop_stages:
  assumes "sh_jobs s = [e]" and "sh_child s = Some old"
  shows "\<exists>n. shell_run p [RestartClicked, Advance 1, Advance 1, Advance 1, Advance 1] s
    = s\<lparr>sh_jobs := [e, StartProbe], sh_child := None, sh_snapshot := n, sh_alive := sh_alive s - {old}\<rparr>
    \<and> sn_desired_running n"
proof -
  let ?why = "''manual restart requested''"
  obtain n where n: "n = (sh_snapshot s)\<lparr>sn_pid := None, sn_status := ''restarting'', sn_last_exit := Some ?why,
    sn_last_error := None, sn_desired_running := True, sn_consecutive_failures := 0\<rparr>" by blast
  have "shell_do p RestartClicked s = s\<lparr>sh_jobs := [e, StopTake ?why]\<rparr>"
    using assms by (simp add: shell_do_def)
  moreover have "shell_do p (Advance 1) (s\<lparr>sh_jobs := [e, StopTake ?why]\<rparr>)
      = s\<lparr>sh_jobs := [e, StopRecord ?why (Some old)], sh_child := None\<rparr>"
    using assms by (simp add: one_advance stop_take_def)
  moreover have "shell_do p (Advance 1) (s\<lparr>sh_jobs := [e, StopRecord ?why (Some old)], sh_child := None\<rparr>)
      = s\<lparr>sh_jobs := [e, StopKill (Some old)], sh_child := None, sh_snapshot := n\<rparr>"
    by (simp add: one_advance stop_record_def n)
  moreover have "shell_do p (Advance 1) (s\<lparr>sh_jobs := [e, StopKill (Some old)], sh_child := None, sh_snapshot := n\<rparr>)
      = s\<lparr>sh_jobs := [e, StartCheck], sh_child := None, sh_snapshot := n, sh_alive := sh_alive s - {old}\<rparr>"
    by (simp add: one_advance stop_kill_def)
  moreover have "shell_do p (Advance 1) (s\<lparr>sh_jobs := [e, StartCheck], sh_child := None, sh_snapshot := n,
        sh_alive := sh_alive s - {old}\<rparr>)
      = s\<lparr>sh_jobs := [e, StartProbe], sh_child := None, sh_snapshot := n, sh_alive := sh_alive s - {old}\<rparr>"
    by (simp add: one_advance start_check_def)
  moreover have "sn_desired_running n" by (simp add: n)
  ultimately show ?thesis by (intro exI [of _ n]) simp
qed

text \<open>Starting: when no node answers, the new process is in the slot and in the snapshot.\<close>

lemma probe_stage:
  assumes "sh_jobs s = [e, StartProbe]" and "sn_desired_running (sh_snapshot s)" and "\<And>h. wr_answer s h = None"
  shows "\<exists>t. shell_do p (Advance 1) s = t \<and> sh_jobs t = [e, StartSpawn] \<and> sh_child t = sh_child s
    \<and> sh_alive t = sh_alive s \<and> sh_spawn t = sh_spawn s \<and> sh_spawn_n t = sh_spawn_n s"
proof -
  let ?s = "s\<lparr>sh_jobs := [e]\<rparr>" and ?m = "probe_existing_local_node (sp_crates p) (rc_local_token (sp_config p))"
  have "fst (?m ?s) = Inr None" using assms(3) by (intro probe_nothing) simp
  moreover have "still ?s (snd (?m ?s))" by (rule still_probe)
  ultimately show ?thesis using assms by (simp add: one_advance start_probe_def still_def)
qed

lemma start_stages:
  assumes "sh_jobs s = [e, StartProbe]" and "sn_desired_running (sh_snapshot s)" and "\<And>h. wr_answer s h = None"
    and "sh_child s = None" and "sh_spawn s (sh_spawn_n s) = Inr new"
  shows "\<exists>t. shell_run p [Advance 1, Advance 1, Advance 1, Advance 1] s = t
    \<and> sh_jobs t = [e, Receive new None] \<and> sh_child t = Some new \<and> sh_alive t = insert new (sh_alive s)
    \<and> sn_pid (sh_snapshot t) = Some new \<and> sn_status (sh_snapshot t) = ''running''"
proof -
  obtain t where t: "shell_do p (Advance 1) s = t" "sh_jobs t = [e, StartSpawn]" "sh_child t = None"
    "sh_alive t = sh_alive s" "sh_spawn t (sh_spawn_n t) = Inr new"
    using probe_stage [OF assms(1-3)] assms(4,5) by auto
  obtain u where u: "shell_do p (Advance 1) t = u" "sh_jobs u = [e, StartClaim new]" "sh_child u = None"
    "sh_alive u = insert new (sh_alive s)"
    using t by (simp add: one_advance start_spawn_def)
  obtain v where v: "shell_do p (Advance 1) u = v" "sh_jobs v = [e, StartRecord new]" "sh_child v = Some new"
    "sh_alive v = insert new (sh_alive s)"
    using u by (simp add: one_advance start_claim_def)
  show ?thesis
    using t(1) u(1) v by (simp add: one_advance start_record_def now_ms_def append_sidecar_log_def)
qed

text \<open>C29: then the new sidecar runs, the snapshot shows it running, but its handle is gone: closing the
  window does not end it. The shell exists to prevent just these left-over processes.\<close>

theorem crossing_restart_loses_sidecar:
  assumes "sh_jobs s = [ExitTake (RestartAfter d)]" and "sh_child s = Some old" and "old \<noteq> new"
    and "\<And>h. wr_answer s h = None" and "sh_spawn s (sh_spawn_n s) = Inr new"
  shows "let t = shell_run p crossing s in
      new \<in> sh_alive t \<and> sn_pid (sh_snapshot t) = Some new \<and> sn_status (sh_snapshot t) = ''running''
    \<and> sh_child t = None \<and> new \<in> sh_alive (shell_do p Quit t)"
proof -
  let ?e = "ExitTake (RestartAfter d)"
  obtain n where n: "shell_run p [RestartClicked, Advance 1, Advance 1, Advance 1, Advance 1] s
      = s\<lparr>sh_jobs := [?e, StartProbe], sh_child := None, sh_snapshot := n, sh_alive := sh_alive s - {old}\<rparr>"
    "sn_desired_running n"
    using stop_stages [OF assms(1,2)] by blast
  obtain t where t: "shell_run p [Advance 1, Advance 1, Advance 1, Advance 1]
      (s\<lparr>sh_jobs := [?e, StartProbe], sh_child := None, sh_snapshot := n, sh_alive := sh_alive s - {old}\<rparr>) = t"
    "sh_jobs t = [?e, Receive new None]" "sh_child t = Some new" "new \<in> sh_alive t"
    "sn_pid (sh_snapshot t) = Some new" "sn_status (sh_snapshot t) = ''running''"
    using start_stages [of "s\<lparr>sh_jobs := [?e, StartProbe], sh_child := None, sh_snapshot := n,
      sh_alive := sh_alive s - {old}\<rparr>" ?e new p] n(2) assms(4,5) by auto
  have c: "crossing = [RestartClicked, Advance 1, Advance 1, Advance 1, Advance 1]
      @ [Advance 1, Advance 1, Advance 1, Advance 1] @ [Advance 0]"
    by (simp add: crossing_def)
  have "shell_run p crossing s = shell_run p [Advance 0] t"
    unfolding c shell_run_append n(1) t(1) ..
  then show ?thesis
    using t(2-) by (simp add: shell_run.simps one_advance exit_take_def quit_shell_def)
qed

lemma crossing_restart_loses_sidecar_witness:
  "let s = shell_run doomed_parts one_life doomed_shell; t = shell_run doomed_parts crossing s in
    sh_child s = Some 0 \<and> 1 \<in> sh_alive t \<and> sh_child t = None \<and> 1 \<in> sh_alive (shell_do doomed_parts Quit t)"
proof -
  let ?s = "shell_run doomed_parts one_life doomed_shell"
  have s: "sh_jobs ?s = [ExitTake (RestartAfter (restart_delay_secs 1))]" "sh_child ?s = Some 0"
      "\<And>h. wr_answer ?s h = None" "sh_spawn ?s (sh_spawn_n ?s) = Inr 1"
    using doomed_life [OF doomed_new, of doomed_parts] by (simp_all add: doomed_def verdict_def)
  then show ?thesis
    using crossing_restart_loses_sidecar [OF s(1,2) _ s(3,4), of doomed_parts] by (simp add: Let_def)
qed

end
