(* ===== verification/ShellPath.thy ===== *)
theory ShellPath
  imports Shell NodeSamples
begin

text \<open>
  Where the desktop shell (\<open>apps/local-node/src-tauri/src/main.rs\<close>) and the local node
  (\<open>apps/local-node/src/main.rs\<close>) meet: the line in which the node reports its ports, and the
  challenge by which the shell decides that a running node is its own.
\<close>

section \<open>Reported ports\<close>

lemma parse_unsigned_digits_append: "parse_unsigned_digits hi acc (s @ t) =
    (case parse_unsigned_digits hi acc s of Inl e \<Rightarrow> Inl e | Inr m \<Rightarrow> parse_unsigned_digits hi m t)"
  by (induction hi acc s rule: parse_unsigned_digits.induct) auto

lemma parse_unsigned_show_nat: "n \<le> hi \<Longrightarrow> parse_unsigned hi (show_nat n) = Inr n"
proof -
  have digits: "n \<le> hi \<Longrightarrow> parse_unsigned_digits hi 0 (show_nat n) = Inr n" for n
  proof (induction n rule: show_nat.induct)
    case (1 n)
    show ?case
    proof (cases "n < 10")
      case True
      then show ?thesis using 1 by (simp add: show_nat.simps [of n] digit_char_digit)
    next
      case False
      then have "parse_unsigned_digits hi 0 (show_nat (n div 10)) = Inr (n div 10)" using 1 by simp
      then show ?thesis
        using False 1(2) div_mult_mod_eq [of n 10]
        by (simp add: show_nat.simps [of n] parse_unsigned_digits_append digit_char_digit)
    qed
  qed
  obtain c cs where c: "show_nat n = c # cs" using show_nat_nonempty by (cases "show_nat n") auto
  then have "is_ascii_digit c" using show_nat_digits [of c n] by simp
  moreover have "\<not> is_ascii_digit (CHR ''+'')" "\<not> is_ascii_digit (CHR ''-'')" by code_simp+
  ultimately have "c \<noteq> CHR ''+''" "c \<noteq> CHR ''-''" by blast+
  then show "n \<le> hi \<Longrightarrow> parse_unsigned hi (show_nat n) = Inr n"
    using digits [of n] c by (simp add: parse_unsigned_def del: parse_unsigned_digits.simps)
qed

text \<open>Strings of single-byte characters that are no white space.\<close>

definition plain :: "string \<Rightarrow> bool" where
  "plain s \<longleftrightarrow> (\<forall>c \<in> set s. \<not> is_continuation c \<and> \<not> is_white_space [c])"

lemma chars_plain: "\<forall>c \<in> set s. \<not> is_continuation c \<Longrightarrow> chars s = map (\<lambda>c. [c]) s"
  by (induction s rule: chars.induct) (auto simp: dropWhile_eq_self_iff takeWhile_eq_Nil_iff hd_in_set dest: hd_in_set)

lemma split_ws_plain: "plain s \<Longrightarrow> split_ws (map (\<lambda>c. [c]) s @ r) acc = split_ws r (acc @ s)"
  by (induction s arbitrary: acc) (simp_all add: plain_def)

lemma plain_show_nat: "plain (show_nat n)"
proof -
  have "\<not> is_continuation c \<and> \<not> is_white_space [c]" if "is_ascii_digit c" for c
    using that by (auto simp: is_ascii_digit_def is_continuation_def is_white_space_def white_space_def)
  then show ?thesis by (auto simp: plain_def dest: show_nat_digits)
qed

text \<open>\<open>println!\<close> in \<open>run\<close> of the local node.\<close>

definition announce_ports :: "nat \<Rightarrow> nat \<Rightarrow> string" where
  "announce_ports skill agent =
     ''LOCAL_NODE_PORTS skill='' @ show_nat skill @ '' agent='' @ show_nat agent @ [CHR 0x0A]"

lemma last_show_nat: "\<exists>u d. show_nat n = u @ [d] \<and> is_ascii_digit d"
  using show_nat_nonempty [of n] show_nat_digits [of _ n]
  by (intro exI [of _ "butlast (show_nat n)"] exI [of _ "last (show_nat n)"]) simp

lemma trim_line:
  assumes "strip_one white_space (s @ [CHR 0x0A]) = None" and "s = u @ [d]" and "is_ascii_digit d"
  shows "trim (s @ [CHR 0x0A]) = s"
proof -
  have "\<forall>e \<in> set (map rev white_space). e \<noteq> [] \<and> \<not> is_ascii_digit (hd e)"
    by code_simp
  then have "strip_one (map rev white_space) (d # rev u) = None"
    using assms(3) unfolding strip_one_None by (metis hd_append2 list.sel(1) prefixE)
  then have "strip_all (map rev white_space) (d # rev u) = d # rev u" by (rule strip_all_id)
  moreover have "strip_one (map rev white_space) (CHR 0x0A # d # rev u) = Some (d # rev u)"
    by (simp add: white_space_def)
  ultimately have "strip_all (map rev white_space) (CHR 0x0A # d # rev u) = d # rev u"
    by (simp add: strip_all.simps [of _ "CHR 0x0A # d # rev u"])
  then show ?thesis
    using assms(2) strip_all_id [OF assms(1)] by (simp add: trim_def trim_start_def trim_end_def)
qed

lemma trim_announcement: "trim (announce_ports a b)
    = ''LOCAL_NODE_PORTS'' @ '' skill='' @ show_nat a @ '' agent='' @ show_nat b"
proof -
  obtain u d where d: "show_nat b = u @ [d]" "is_ascii_digit d" using last_show_nat by blast
  let ?s = "''LOCAL_NODE_PORTS skill='' @ show_nat a @ '' agent='' @ show_nat b"
  have "strip_one white_space (?s @ [CHR 0x0A]) = None"
    by (simp add: strip_one_None white_space_def)
  from trim_line [OF this, of "''LOCAL_NODE_PORTS skill='' @ show_nat a @ '' agent='' @ u" d] d
  show ?thesis by (simp add: announce_ports_def)
qed

lemma split_words:
  assumes "plain a" and "plain b" and "a \<noteq> []" and "b \<noteq> []"
  shows "split_whitespace ('' '' @ a @ '' '' @ b) = [a, b]"
proof -
  have sp: "is_white_space [CHR '' '']" "\<not> is_continuation (CHR '' '')" by code_simp+
  have "chars ('' '' @ a @ '' '' @ b) = [CHR '' ''] # map (\<lambda>c. [c]) a @ [CHR '' ''] # map (\<lambda>c. [c]) b @ []"
    using assms(1,2) sp(2) by (subst chars_plain) (auto simp: plain_def)
  then show ?thesis
    using assms sp(1) by (simp add: split_whitespace_def split_ws_plain del: append_Nil2)
qed

text \<open>Whatever ports the node binds, the shell reads the line that announces them as the two
  addresses of just these ports.\<close>

lemma announced_ports_read_back:
  assumes "x_utf8_lossy x (announce_ports a b) = announce_ports a b" and "a < 2 ^ 16" and "b < 2 ^ 16"
  shows "parse_reported_ports x (announce_ports a b) = Some (loopback_url a, loopback_url b)"
proof -
  have plain: "plain (''skill='' @ show_nat a)" "plain (''agent='' @ show_nat b)"
    using plain_show_nat by (auto simp: plain_def is_continuation_def is_white_space_def white_space_def)
  have "strip_prefix ''LOCAL_NODE_PORTS'' (trim (announce_ports a b))
      = Some ('' '' @ (''skill='' @ show_nat a) @ '' '' @ (''agent='' @ show_nat b))"
    by (simp add: trim_announcement strip_prefix_Some)
  moreover have "split_whitespace ('' '' @ (''skill='' @ show_nat a) @ '' '' @ (''agent='' @ show_nat b))
      = [''skill='' @ show_nat a, ''agent='' @ show_nat b]"
    by (intro split_words plain) simp_all
  ultimately show ?thesis
    using assms by (simp only: parse_reported_ports_def) (simp add: strip_prefix_def parse_u16_def parse_unsigned_show_nat)
qed

lemma announced_ports_read_back_witness:
  "parse_reported_ports toy_crates (announce_ports 8791 17871) = Some (loopback_url 8791, loopback_url 17871)"
  by (rule announced_ports_read_back) (simp_all add: toy_crates_def)

section \<open>Attestation\<close>

definition health_request :: string where
  "health_request = probe_request ''/health'' None"

definition challenge :: "string \<Rightarrow> string" where
  "challenge nonce = probe_request ''/attest'' (Some (''x-attest-nonce'', nonce))"

text \<open>The nonce that starts at the \<open>k\<close>-th draw.\<close>

definition nonce_at :: "'z wire_scheme \<Rightarrow> nat \<Rightarrow> string" where
  "nonce_at s k = map (src_alnum s) [k..<k + 32]"

text \<open>What the shell sends while it probes: requests for the health, and challenges.\<close>

definition harmless :: "'z wire_scheme \<Rightarrow> string \<times> string \<Rightarrow> bool" where
  "harmless s r \<longleftrightarrow> (\<exists>q. fst r = loopback_addr q)
     \<and> (snd r = health_request \<or> (\<exists>k \<ge> alnum_n s. snd r = challenge (nonce_at s k)))"

definition probed :: "'z wire_scheme \<Rightarrow> 'z wire_scheme \<Rightarrow> bool" where
  "probed s t \<longleftrightarrow> wr_answer t = wr_answer s \<and> src_alnum t = src_alnum s \<and> alnum_n s \<le> alnum_n t
     \<and> (\<exists>rs. wr_sent t = wr_sent s @ rs \<and> (\<forall>r \<in> set rs. harmless s r))"

lemma harmless_later: "src_alnum t = src_alnum s \<Longrightarrow> alnum_n s \<le> alnum_n t \<Longrightarrow> harmless t r \<Longrightarrow> harmless s r"
  unfolding harmless_def nonce_at_def by (metis order_trans)

lemma probed_trans:
  assumes "probed s t" and "probed t u"
  shows "probed s u"
proof -
  obtain rs qs where rs: "wr_sent t = wr_sent s @ rs" "\<forall>r \<in> set rs. harmless s r"
    and qs: "wr_sent u = wr_sent t @ qs" "\<forall>r \<in> set qs. harmless t r"
    using assms by (auto simp: probed_def)
  have "harmless s r" if "r \<in> set qs" for r
    using that qs(2) assms(1) harmless_later [of t s r] by (simp add: probed_def)
  then show ?thesis
    using assms rs qs(1) by (auto simp: probed_def)
qed

interpretation probed: step_relation probed
  by unfold_locales (simp add: probed_def, rule probed_trans)

lemma probed_health: "keeps probed (probe_health_endpoint x (loopback_addr q))"
  unfolding probe_health_endpoint_def
  by (intro keeps_intros) (auto simp: keeps_def probe_http_endpoint_def probed_def harmless_def health_request_def Let_def)

lemma probed_attest: "keeps probed (probe_attest_endpoint x token (loopback_addr q))"
  by (auto simp: keeps_def probe_attest_endpoint_def generate_nonce_def sample_alnum_def probe_http_endpoint_def
      andthen_run act_simps probed_def harmless_def challenge_def nonce_at_def Let_def)

lemma probed_candidates: "keeps probed (probe_candidates x token ports)"
proof (induction ports)
  case (Cons a ports)
  then show ?case
    unfolding and_also_def
    by (cases a) (auto intro!: keeps_intros probed_health probed_attest simp: Let_def and_also_def)
qed (simp add: keeps_intros)

text \<open>An answer that carries the proof.\<close>

definition carries_proof :: "crates \<Rightarrow> string \<Rightarrow> string \<Rightarrow> string \<Rightarrow> bool" where
  "carries_proof x token nonce raw \<longleftrightarrow> (\<exists>body j. read_response raw = Some (200, body)
     \<and> x_json_parse x (trim body) = Some j \<and> field_opt ''proof'' de_string j = Some (Some (attest_proof x token nonce)))"

lemma proof_accepted_iff: "proof_accepted x token nonce answer \<longleftrightarrow>
    (\<exists>body j. answer = Some (200, body) \<and> x_json_parse x (trim body) = Some j
      \<and> field_opt ''proof'' de_string j = Some (Some (attest_proof x token nonce)))"
  by (auto simp: proof_accepted_def constant_time_eq_iff proofs_in_sync split: option.splits Option.bind_splits)

lemma attest_endpoint_True:
  assumes "probe_attest_endpoint x token addr s = (Inr True, t)"
  shows "\<exists>h raw. wr_answer s (h @ [(addr, challenge (nonce_at s (alnum_n s)))]) = Some raw
    \<and> carries_proof x token (nonce_at s (alnum_n s)) raw"
  using assms
  by (auto simp: probe_attest_endpoint_def generate_nonce_def sample_alnum_def probe_http_endpoint_def andthen_run
      act_simps proof_accepted_iff carries_proof_def challenge_def nonce_at_def Let_def bind_eq_Some_conv)

lemma and_also_True: "and_also m n s = (Inr True, t) \<longleftrightarrow> (\<exists>u. m s = (Inr True, u) \<and> n u = (Inr True, t))"
  by (auto simp: and_also_def run_inv split: if_splits)

definition attested :: "crates \<Rightarrow> string \<Rightarrow> 'z wire_scheme \<Rightarrow> nat \<Rightarrow> bool" where
  "attested x token s port \<longleftrightarrow> (\<exists>k \<ge> alnum_n s. \<exists>h raw.
     wr_answer s (h @ [(loopback_addr port, challenge (nonce_at s k))]) = Some raw
   \<and> carries_proof x token (nonce_at s k) raw)"

lemma attested_later: "probed s t \<Longrightarrow> attested x token t port \<Longrightarrow> attested x token s port"
  unfolding attested_def probed_def nonce_at_def by (metis order_trans)

lemma candidates_attested:
  "probe_candidates x token ports s = (Inr (Some (skill, agent)), t) \<Longrightarrow>
    \<exists>(a, b) \<in> set ports. skill = loopback_url a \<and> agent = loopback_url b \<and> attested x token s a"
proof (induction ports arbitrary: s)
  case (Cons c ports)
  obtain a b where c: "c = (a, b)" by (cases c)
  let ?m = "and_also (probe_health_endpoint x (loopback_addr a)) (and_also (probe_health_endpoint x (loopback_addr b))
      (probe_attest_endpoint x token (loopback_addr a)))"
  obtain ready u where u: "?m s = (Inr ready, u)"
    and rest: "(if ready then ret (Some (''http://'' @ loopback_addr a, ''http://'' @ loopback_addr b))
      else probe_candidates x token ports) u = (Inr (Some (skill, agent)), t)"
    using Cons.prems by (auto simp: c Let_def run_inv)
  have "keeps probed ?m"
    unfolding and_also_def by (intro keeps_intros probed_health probed_attest)
  then have su: "probed s u" using u by (metis keeps_def snd_conv)
  show ?case
  proof (cases ready)
    case True
    then obtain v w where v: "probe_health_endpoint x (loopback_addr a) s = (Inr True, v)"
      "probe_health_endpoint x (loopback_addr b) v = (Inr True, w)"
      "probe_attest_endpoint x token (loopback_addr a) w = (Inr True, u)"
      using u by (auto simp: and_also_True)
    have "attested x token w a" using attest_endpoint_True [OF v(3)] by (auto simp: attested_def)
    moreover have "probed s v" "probed v w"
      using v(1,2) probed_health [of x a] probed_health [of x b] by (metis keeps_def snd_conv)+
    ultimately show ?thesis
      using True rest by (auto simp: c act_simps loopback_url_def loopback_addr_def intro: attested_later)
  next
    case False
    then show ?thesis using Cons.IH [of u] rest su by (auto simp: c intro: attested_later)
  qed
qed (simp add: act_simps)

text \<open>C16: the shell adopts a running node only when, at the port it adopts, a challenge with a nonce drawn for
  this probe was answered with its keyed hash under the operator token. And while it probes it
  sends nothing but requests for the health and challenges, in which the token does not occur.\<close>

theorem adopted_node_proved_token:
  assumes "probe_existing_local_node x token s = (Inr (Some (skill, agent)), t)"
  shows "(\<exists>(a, b) \<in> set port_candidates. skill = loopback_url a \<and> agent = loopback_url b \<and> attested x token s a)
    \<and> (\<exists>rs. wr_sent t = wr_sent s @ rs \<and> (\<forall>r \<in> set rs. harmless s r))"
proof -
  have "probed s t"
    using probed_candidates [of x token] assms unfolding probe_existing_local_node_def by (metis keeps_def snd_conv)
  then show ?thesis
    using candidates_attested [OF assms [unfolded probe_existing_local_node_def]] by (simp add: ports_in_sync probed_def)
qed

section \<open>The node at the other end\<close>

definition health_to_json :: "health_status \<Rightarrow> json" where
  "health_to_json h = JObject
     [(''service'', JString (hs_service h)), (''status'', JString (hs_status h)),
      (''skill_port'', JInt (int (hs_skill_port h))), (''agent_port'', JInt (int (hs_agent_port h))),
      (''protocol_version'', JString (hs_protocol_version h)), (''build_commit'', JString (hs_build_commit h)),
      (''package_version'', JString (hs_package_version h)), (''supervisor'', JString (hs_supervisor h)),
      (''features'', JArray (map (\<lambda>f. JString (feature_serde f)) (hs_features h))),
      (''real_ozon_enabled'', JBool (hs_real_ozon_enabled h))]"

definition attest_to_json :: "string \<Rightarrow> json" where
  "attest_to_json proof = JObject [(''proof'', JString proof)]"

text \<open>The bytes of an answer: the head as the server writes it, an empty line, the body.\<close>

definition http_answer :: "nat \<Rightarrow> string \<Rightarrow> string" where
  "http_answer status body = ''HTTP/1.1 '' @ show_nat status @ crlf @ ''content-type: application/json'' @ crlf
     @ crlf @ body"

definition challenge_head :: string where
  "challenge_head = ''GET /attest HTTP/1.1'' @ crlf @ ''Host: 127.0.0.1'' @ crlf @ ''Connection: close'' @ crlf
     @ ''x-attest-nonce: ''"

text \<open>The two unprotected routes of the node, by the bytes of the request.\<close>

definition node_answers :: "'s node_parts \<Rightarrow> string \<Rightarrow> string option" where
  "node_answers p request =
     (if request = health_request
      then Some (http_answer 200 (x_json_print (np_crates p) (health_to_json (node_health p))))
      else Option.bind (strip_prefix challenge_head request) (\<lambda>rest.
        case attest p [''x-attest-nonce'' \<mapsto> take (length rest - 4) rest] of
          Inr proof \<Rightarrow> Some (http_answer 200 (x_json_print (np_crates p) (attest_to_json proof)))
        | Inl e \<Rightarrow> Some (http_answer (ne_status e) [])))"

lemma read_http_answer: "read_response (http_answer 200 body) = Some (200, body)"
proof -
  have "show_nat 200 = ''200''" by code_simp
  then have "split_at_blank_line (http_answer 200 body)
      = Some (''HTTP/1.1 200'' @ crlf @ ''content-type: application/json'', body)"
    by (simp add: http_answer_def crlf_def strip_prefix_def)
  moreover have "parse_http_status (''HTTP/1.1 200'' @ crlf @ ''content-type: application/json'') = Some 200"
    by code_simp
  ultimately show ?thesis by (simp add: read_response_def)
qed

lemma challenge_split: "challenge nonce = challenge_head @ nonce @ crlf @ crlf"
  by (simp add: challenge_def challenge_head_def probe_request_def)

lemma challenge_no_health: "challenge nonce \<noteq> health_request"
  by (simp add: challenge_def health_request_def probe_request_def)

text \<open>What the shell needs of the crates: the two bodies are read back as they were printed.\<close>

definition body_readable :: "crates \<Rightarrow> json \<Rightarrow> bool" where
  "body_readable x j \<longleftrightarrow> x_json_parse x (trim (x_json_print x j)) = Some j"

definition good_nonce :: "string \<Rightarrow> bool" where
  "good_nonce n \<longleftrightarrow> trim n = n \<and> n \<noteq> [] \<and> length n \<le> 256"

lemma node_health_accepted:
  assumes "np_crates p = x" and "body_readable x (health_to_json (node_health p))"
  shows "health_accepted x (Option.bind (node_answers p health_request) read_response)"
  using assms
  by (simp add: node_answers_def read_http_answer health_accepted_def body_readable_def field_opt_def is_object_def
      json_get_def health_to_json_def node_health_def de_option_def)

lemma node_proof_accepted:
  assumes "np_crates p = x" and "good_nonce n"
    and "body_readable x (attest_to_json (attest_proof x (lcf_operator_token (np_config p)) n))"
  shows "proof_accepted x token n (Option.bind (node_answers p (challenge n)) read_response)
    \<longleftrightarrow> attest_proof x (lcf_operator_token (np_config p)) n = attest_proof x token n"
proof -
  have "attest p [''x-attest-nonce'' \<mapsto> n] = Inr (attest_proof x (lcf_operator_token (np_config p)) n)"
    using assms(1,2) by (simp add: attest_def filled_trim_def good_nonce_def ok_or_def bind_res_def ensure_def)
  moreover have "strip_prefix challenge_head (challenge n) = Some (n @ crlf @ crlf)"
    by (simp add: challenge_split strip_prefix_Some)
  ultimately have "Option.bind (node_answers p (challenge n)) read_response
      = Some (200, x_json_print x (attest_to_json (attest_proof x (lcf_operator_token (np_config p)) n)))"
    using assms(1) by (simp add: node_answers_def challenge_no_health crlf_def read_http_answer)
  then show ?thesis
    using assms(3) by (auto simp: proof_accepted_iff body_readable_def attest_to_json_def field_opt_def is_object_def
        json_get_def de_option_def)
qed

lemma health_endpoint_run: "probe_health_endpoint x a s =
    (Inr (health_accepted x (Option.bind (wr_answer s (wr_sent s @ [(a, health_request)])) read_response)),
     s\<lparr>wr_sent := wr_sent s @ [(a, health_request)]\<rparr>)"
  by (simp add: probe_health_endpoint_def probe_http_endpoint_def health_request_def Let_def andthen_run act_simps)

lemma attest_endpoint_run: "probe_attest_endpoint x token a s = (let n = nonce_at s (alnum_n s) in
    (Inr (proof_accepted x token n (Option.bind (wr_answer s (wr_sent s @ [(a, challenge n)])) read_response)),
     s\<lparr>alnum_n := alnum_n s + 32, wr_sent := wr_sent s @ [(a, challenge n)]\<rparr>))"
  by (simp add: probe_attest_endpoint_def generate_nonce_def sample_alnum_def probe_http_endpoint_def challenge_def
      nonce_at_def Let_def andthen_run act_simps)

text \<open>The first pair of ports is served by \<open>f\<close>, and nothing listens at the others.\<close>

definition served_by :: "(string \<Rightarrow> string option) \<Rightarrow> nat \<Rightarrow> nat \<Rightarrow> 'z wire_scheme \<Rightarrow> bool" where
  "served_by f a b s \<longleftrightarrow> (\<forall>h. h \<noteq> [] \<longrightarrow> fst (last h) \<in> {loopback_addr a, loopback_addr b} \<longrightarrow> wr_answer s h = f (snd (last h)))"

definition silent_ports :: "(nat \<times> nat) list \<Rightarrow> 'z wire_scheme \<Rightarrow> bool" where
  "silent_ports ports s \<longleftrightarrow>
     (\<forall>h. h \<noteq> [] \<longrightarrow> fst (last h) \<in> (\<lambda>(a, b). loopback_addr a) ` set ports \<longrightarrow> wr_answer s h = None)"

lemma loopback_url_addr: "loopback_url a = ''http://'' @ loopback_addr a"
  by (simp add: loopback_url_def loopback_addr_def)

lemma candidates_silent: "silent_ports ports s \<Longrightarrow> fst (probe_candidates x token ports s) = Inr None"
proof (induction ports arbitrary: s)
  case (Cons c ports)
  obtain a b where c: "c = (a, b)" by (cases c)
  have "\<not> health_accepted x (Option.bind (wr_answer s (wr_sent s @ [(loopback_addr a, health_request)])) read_response)"
    using Cons.prems by (simp add: silent_ports_def c health_accepted_def)
  moreover have "silent_ports ports (s\<lparr>wr_sent := q\<rparr>)" for q
    using Cons.prems by (simp add: silent_ports_def)
  ultimately show ?case
    using Cons.IH by (simp add: c Let_def and_also_def andthen_run act_simps health_endpoint_run)
qed (simp add: act_simps)

text \<open>A node that answers at the first pair of ports is adopted exactly when it gives the right proof.\<close>

definition gives_proof :: "'s node_parts \<Rightarrow> string \<Rightarrow> 'z wire_scheme \<Rightarrow> bool" where
  "gives_proof p token s \<longleftrightarrow> (let n = nonce_at s (alnum_n s) in
     attest_proof (np_crates p) (lcf_operator_token (np_config p)) n = attest_proof (np_crates p) token n)"

text \<open>What the exchange needs of the crates and of the draws.\<close>

definition exchange_readable :: "'s node_parts \<Rightarrow> 'z wire_scheme \<Rightarrow> bool" where
  "exchange_readable p s \<longleftrightarrow> (let n = nonce_at s (alnum_n s) in
     body_readable (np_crates p) (health_to_json (node_health p)) \<and> good_nonce n
   \<and> body_readable (np_crates p) (attest_to_json (attest_proof (np_crates p) (lcf_operator_token (np_config p)) n)))"

lemma candidates_served:
  assumes "served_by (node_answers p) a b s" and "exchange_readable p s"
    and "\<not> gives_proof p token s \<Longrightarrow> silent_ports ports s"
  shows "fst (probe_candidates (np_crates p) token ((a, b) # ports) s)
    = Inr (if gives_proof p token s then Some (loopback_url a, loopback_url b) else None)"
proof -
  let ?x = "np_crates p" and ?n = "nonce_at s (alnum_n s)"
  have answers: "wr_answer s h = node_answers p (snd (last h))" if "h \<noteq> []" "fst (last h) \<in> {loopback_addr a, loopback_addr b}" for h
    using assms(1) that unfolding served_by_def by blast
  have silent: "silent_ports ports (s\<lparr>alnum_n := k, wr_sent := q\<rparr>)" if "\<not> gives_proof p token s" for k q
    using assms(3) that by (simp add: silent_ports_def)
  have nonce: "nonce_at (s\<lparr>wr_sent := q\<rparr>) k = nonce_at s k" for q k
    by (simp add: nonce_at_def)
  have health: "health_accepted ?x (Option.bind (node_answers p health_request) read_response)"
    and accepted: "proof_accepted ?x token ?n (Option.bind (node_answers p (challenge ?n)) read_response) = gives_proof p token s"
    using assms(2) node_health_accepted [OF refl, of p] node_proof_accepted [OF refl, of ?n p token]
    by (simp_all add: exchange_readable_def gives_proof_def Let_def)
  show ?thesis
    by (simp add: Let_def and_also_def andthen_run act_simps health_endpoint_run attest_endpoint_run answers nonce
        health accepted candidates_silent [OF silent] loopback_url_addr)
qed


text \<open>The proof does not say where it was made. A process at the first pair of ports that knows no
  token, and passes every request on to the node that listens at the second pair, is adopted in
  place of the node, although the shell's comment says that a squatter cannot answer.\<close>

lemma forwarder_is_adopted:
  assumes "served_by (node_answers p) 8791 17871 s"
    and "\<And>h. h \<noteq> [] \<Longrightarrow> fst (last h) \<in> {loopback_addr 8790, loopback_addr 17870} \<Longrightarrow>
      wr_answer s h = wr_answer s [(loopback_addr 8791, snd (last h))]"
    and "exchange_readable p s" and "lcf_operator_token (np_config p) = token"
  shows "fst (probe_existing_local_node (np_crates p) token s) = Inr (Some (skill_api_default, agent_api_default))"
proof -
  have "loopback_url 8790 = skill_api_default" "loopback_url 17870 = agent_api_default"
    by code_simp+
  moreover have "wr_answer s [(loopback_addr 8791, r)] = node_answers p r" for r
    using assms(1) unfolding served_by_def by (metis fst_conv insertI1 last.simps not_Cons_self2 snd_conv)
  then have "served_by (node_answers p) 8790 17870 s"
    using assms(2) unfolding served_by_def by metis
  moreover have "gives_proof p token s" using assms(4) by (simp add: gives_proof_def)
  ultimately show ?thesis
    using candidates_served [of p 8790 17870 s token "tl shell_port_candidates"] assms(3)
    by (simp add: probe_existing_local_node_def shell_port_candidates_def)
qed

section \<open>A sample node, for the witnesses\<close>

text \<open>Crates that read back the two answers of the sample node, and nonces of the letter \<open>a\<close>.\<close>

definition reading_crates :: crates where
  "reading_crates = toy_crates\<lparr>
     x_json_print := (\<lambda>j. case j of JObject [(_, JString proof)] \<Rightarrow> proof | _ \<Rightarrow> ''health''),
     x_json_parse := (\<lambda>s. Some (if s = ''health'' then health_to_json (node_health sample_parts) else attest_to_json s))\<rparr>"

definition own_parts :: "secrets node_parts" where
  "own_parts = sample_parts\<lparr>np_crates := reading_crates\<rparr>"

definition wire_to :: "(string \<Rightarrow> string option) \<Rightarrow> nat list \<Rightarrow> wire" where
  "wire_to f ports = ambient.extend (sample_ambient\<lparr>src_alnum := (\<lambda>_. CHR ''a''), alnum_n := 0\<rparr>)
     \<lparr> wr_answer = (\<lambda>h. if h \<noteq> [] \<and> fst (last h) \<in> set (map loopback_addr ports) then f (snd (last h)) else None),
       wr_sent = [] \<rparr>"

definition own_wire :: wire where
  "own_wire = wire_to (node_answers own_parts) [8790, 17870]"

definition forwarding_wire :: wire where
  "forwarding_wire = wire_to (node_answers own_parts) [8790, 17870, 8791, 17871]"

lemma own_parts_crates: "np_crates own_parts = reading_crates" "lcf_operator_token (np_config own_parts) = ''operator''"
  by (simp_all add: own_parts_def sample_access)

lemma own_readable: "exchange_readable own_parts (wire_to f ports)"
proof -
  have nonce: "nonce_at (wire_to f ports) (alnum_n (wire_to f ports)) = replicate 32 (CHR ''a'')"
    by (simp add: nonce_at_def wire_to_def ambient.defs map_replicate_trivial map_replicate_const)
  have "good_nonce (replicate 32 (CHR ''a''))" by code_simp
  moreover have "body_readable reading_crates (health_to_json (node_health own_parts))" by code_simp
  moreover have "body_readable reading_crates (attest_to_json (attest_proof reading_crates ''operator'' (replicate 32 (CHR ''a''))))"
    by code_simp
  ultimately show ?thesis
    by (simp only: exchange_readable_def Let_def nonce own_parts_crates)
qed

lemma wire_to_answers: "h \<noteq> [] \<Longrightarrow> wr_answer (wire_to f ports) h
    = (if fst (last h) \<in> loopback_addr ` set ports then f (snd (last h)) else None)"
  by (simp add: wire_to_def ambient.defs)

lemma own_wire_served: "served_by (node_answers own_parts) 8790 17870 own_wire"
  "silent_ports (tl shell_port_candidates) own_wire"
  "served_by (node_answers own_parts) 8791 17871 forwarding_wire"
proof -
  have "loopback_addr a = loopback_addr b \<longleftrightarrow> a = b" for a b
    by (auto simp: loopback_addr_def dest: arg_cong [where f = "parse_unsigned (max a b)"] simp: parse_unsigned_show_nat)
  then show "served_by (node_answers own_parts) 8790 17870 own_wire"
    "silent_ports (tl shell_port_candidates) own_wire"
    "served_by (node_answers own_parts) 8791 17871 forwarding_wire"
    by (auto simp: served_by_def silent_ports_def own_wire_def forwarding_wire_def wire_to_answers shell_port_candidates_def)
qed

lemma own_wire_readable: "exchange_readable own_parts own_wire" "exchange_readable own_parts forwarding_wire"
  by (simp_all add: own_wire_def forwarding_wire_def own_readable)

lemma own_node_found:
  "fst (probe_existing_local_node reading_crates ''operator'' own_wire) = Inr (Some (loopback_url 8790, loopback_url 17870))"
  using candidates_served [OF own_wire_served(1) own_wire_readable(1), of "''operator''" "tl shell_port_candidates"]
    own_wire_served(2)
  by (simp add: probe_existing_local_node_def shell_port_candidates_def gives_proof_def own_parts_crates)

lemma adopted_node_proved_token_witness:
  "attested reading_crates ''operator'' own_wire 8790"
proof -
  obtain t where t: "probe_existing_local_node reading_crates ''operator'' own_wire
      = (Inr (Some (loopback_url 8790, loopback_url 17870)), t)"
    using own_node_found by (metis prod.collapse)
  have "loopback_url 8790 = loopback_url a \<Longrightarrow> a = 8790" for a
    by (auto simp: loopback_url_def dest: arg_cong [where f = "parse_unsigned (max 8790 a)"] simp: parse_unsigned_show_nat)
  then show ?thesis using adopted_node_proved_token [OF t] by auto
qed


lemma forwarder_is_adopted_witness:
  "fst (probe_existing_local_node reading_crates ''operator'' forwarding_wire)
    = Inr (Some (skill_api_default, agent_api_default))"
proof -
  have "wr_answer forwarding_wire h = wr_answer forwarding_wire [(loopback_addr 8791, snd (last h))]"
    if "h \<noteq> []" "fst (last h) \<in> {loopback_addr 8790, loopback_addr 17870}" for h
    using that by (auto simp: forwarding_wire_def wire_to_answers)
  from forwarder_is_adopted [OF own_wire_served(3) this own_wire_readable(2), of "''operator''"] show ?thesis
    by (simp add: own_parts_crates)
qed

end
