(* ===== verification/QaReport.thy ===== *)
theory QaReport
  imports NodeLease Utf8 Complex_Main "HOL-Library.Log_Nat"
begin

text \<open>
  What the QA tool (\<open>tools/ozon-suite-qa/src/main.rs\<close>) computes from its measurements: latency
  percentiles, rates and the growth of the memory of a process. A finite \<open>f64\<close> is the rational it
  stands for, and every operation on them rounds as IEEE 754 does; the numbers here are far from
  the largest and the smallest \<open>f64\<close>.
\<close>

section \<open>\<open>f64\<close>\<close>

type_synonym f64 = rat

definition power_of_2 :: "int \<Rightarrow> f64" where
  "power_of_2 e = (if 0 \<le> e then 2 ^ nat e else 1 / 2 ^ nat (- e))"

text \<open>The exponent of the leading bit of a number other than zero.\<close>

definition leading_bit :: "f64 \<Rightarrow> int" where
  "leading_bit v =
     (case quotient_of \<bar>v\<bar> of (n, d) \<Rightarrow>
       let k = int (floorlog 2 (nat n)) - int (floorlog 2 (nat d)) in
       if power_of_2 k \<le> \<bar>v\<bar> then k else k - 1)"

definition round_half_even :: "rat \<Rightarrow> int" where
  "round_half_even v =
     (let n = \<lfloor>v\<rfloor>; f = v - of_int n in
      if f < 1 / 2 then n else if 1 / 2 < f then n + 1 else if even n then n else n + 1)"

definition to_f64 :: "rat \<Rightarrow> f64" where
  "to_f64 v = (if v = 0 then 0
     else let u = power_of_2 (leading_bit v - 52) in of_int (round_half_even (v / u)) * u)"

definition f64_mul :: "f64 \<Rightarrow> f64 \<Rightarrow> f64" where
  "f64_mul a b = to_f64 (a * b)"

definition f64_div :: "f64 \<Rightarrow> f64 \<Rightarrow> f64" where
  "f64_div a b = to_f64 (a / b)"

definition f64_add :: "f64 \<Rightarrow> f64 \<Rightarrow> f64" where
  "f64_add a b = to_f64 (a + b)"

definition f64_of_nat :: "nat \<Rightarrow> f64" where
  "f64_of_nat n = to_f64 (of_nat n)"

text \<open>\<open>f64::round\<close> goes away from zero at the half.\<close>

definition f64_round :: "f64 \<Rightarrow> f64" where
  "f64_round v = (if v < 0 then - of_int \<lfloor>1 / 2 - v\<rfloor> else of_int \<lfloor>v + 1 / 2\<rfloor>)"

section \<open>Reports\<close>

datatype scenario = HealthScenario | ManifestScenario | CountScenario | ListScenario | GetScenario | HandoffScenario

record request_sample =
  sa_ok :: bool
  sa_elapsed_ms :: nat

record step_report =
  st_name :: string
  st_ok :: bool
  st_status :: "nat option"
  st_elapsed_ms :: nat
  st_detail :: string

record metrics_report =
  me_scenario :: scenario
  me_requests :: nat
  me_concurrency :: nat
  me_success :: nat
  me_failed :: nat
  me_elapsed_ms :: nat
  me_requests_per_sec :: f64
  me_min_ms :: nat
  me_p50_ms :: nat
  me_p95_ms :: nat
  me_p99_ms :: nat
  me_max_ms :: nat

record memory_report =
  mr_pid :: u32
  mr_samples :: nat
  mr_start_rss_mb :: f64
  mr_end_rss_mb :: f64
  mr_peak_rss_mb :: f64
  mr_growth_mb :: f64
  mr_growth_limit_mb :: f64

record command_report =
  co_command :: string
  co_ok :: bool
  co_started_at :: string
  co_finished_at :: string
  co_duration_ms :: nat
  co_steps :: "step_report list"
  co_metrics :: "metrics_report option"
  co_memory :: "memory_report option"
  co_summary :: string

definition percentile :: "nat list \<Rightarrow> f64 \<Rightarrow> nat" where
  "percentile values p =
     (if values = [] then 0
      else let rank = nat \<lceil>f64_mul (f64_div p 100) (f64_of_nat (length values - 1))\<rceil> in
        values ! min rank (length values - 1))"

text \<open>A duration is its nanoseconds.\<close>

definition as_millis :: "nat \<Rightarrow> nat" where
  "as_millis d = d div 10 ^ 6"

definition as_secs_f64 :: "nat \<Rightarrow> f64" where
  "as_secs_f64 d = f64_add (f64_of_nat (d div 10 ^ 9)) (f64_div (f64_of_nat (d mod 10 ^ 9)) (10 ^ 9))"

definition metrics_from_samples :: "scenario \<Rightarrow> request_sample list \<Rightarrow> nat \<Rightarrow> nat \<Rightarrow> metrics_report" where
  "metrics_from_samples sc samples concurrency elapsed =
     (let requests = length samples; success = length (filter sa_ok samples);
          latencies = sort (map sa_elapsed_ms samples);
          elapsed_secs = max (as_secs_f64 elapsed) (to_f64 (1 / 1000)) in
      \<lparr> me_scenario = sc, me_requests = requests, me_concurrency = concurrency, me_success = success,
        me_failed = requests - success, me_elapsed_ms = as_millis elapsed,
        me_requests_per_sec = f64_div (f64_of_nat requests) elapsed_secs,
        me_min_ms = (case latencies of [] \<Rightarrow> 0 | v # _ \<Rightarrow> v),
        me_p50_ms = percentile latencies 50, me_p95_ms = percentile latencies 95, me_p99_ms = percentile latencies 99,
        me_max_ms = (if latencies = [] then 0 else last latencies) \<rparr>)"

definition round2 :: "f64 \<Rightarrow> f64" where
  "round2 v = f64_div (f64_round (f64_mul v 100)) 100"

definition kib_to_mb :: "u64 option \<Rightarrow> f64" where
  "kib_to_mb v = f64_div (f64_of_nat (unat (unwrap_or v 0))) 1024"

definition memory_report_of :: "u32 \<Rightarrow> u64 list \<Rightarrow> f64 \<Rightarrow> memory_report" where
  "memory_report_of pid samples limit =
     (let start = kib_to_mb (case samples of [] \<Rightarrow> None | v # _ \<Rightarrow> Some v);
          end_mb = kib_to_mb (if samples = [] then None else Some (last samples));
          peak = kib_to_mb (if samples = [] then None else Some (foldl max (hd samples) (tl samples))) in
      \<lparr> mr_pid = pid, mr_samples = length samples, mr_start_rss_mb = round2 start, mr_end_rss_mb = round2 end_mb,
        mr_peak_rss_mb = round2 peak, mr_growth_mb = round2 (f64_add end_mb (- start)), mr_growth_limit_mb = limit \<rparr>)"

definition none_or :: "('a \<Rightarrow> bool) \<Rightarrow> 'a option \<Rightarrow> bool" where
  "none_or q v = (case v of None \<Rightarrow> True | Some a \<Rightarrow> q a)"

definition within_limit :: "memory_report \<Rightarrow> bool" where
  "within_limit r \<longleftrightarrow> mr_growth_mb r \<le> mr_growth_limit_mb r"

text \<open>\<open>read_rss_kib\<close> on Linux, from the text of \<open>/proc/<pid>/status\<close>.\<close>

fun rss_of_lines :: "u32 \<Rightarrow> string list \<Rightarrow> string + u64" where
  "rss_of_lines pid [] = Inl (''VmRSS not found for pid '' @ show_nat (unat pid))"
| "rss_of_lines pid (line # ls) =
     (case strip_prefix ''VmRSS:'' line of
        None \<Rightarrow> rss_of_lines pid ls
      | Some rest \<Rightarrow> (case split_whitespace rest of
          [] \<Rightarrow> Inl ''VmRSS line is empty''
        | v # _ \<Rightarrow> bind_res (parse_unsigned (2 ^ 64 - 1) v) (\<lambda>n. Inr (word_of_nat n))))"

definition rss_of_status :: "u32 \<Rightarrow> string + string \<Rightarrow> string + u64" where
  "rss_of_status pid status = bind_res status (\<lambda>s. rss_of_lines pid (lines_of s))"

definition summarize_body :: "json \<Rightarrow> string" where
  "summarize_body body =
     (case Option.bind (json_get body ''error'') as_str of Some e \<Rightarrow> e
      | None \<Rightarrow> (case Option.bind (json_get body ''status'') as_str of Some s \<Rightarrow> ''status='' @ s
      | None \<Rightarrow> (case Option.bind (json_get body ''total'') as_u64 of Some n \<Rightarrow> ''total='' @ show_nat (unat n)
      | None \<Rightarrow> (case Option.bind (json_get body ''count'') as_u64 of Some n \<Rightarrow> ''count='' @ show_nat (unat n)
      | None \<Rightarrow> (case json_get body ''product'' of
          Some product \<Rightarrow>
            ''offer_id='' @ unwrap_or (Option.bind (json_get product ''offer_id'') as_str) ''unknown''
            @ ''; images='' @ show_nat (case Option.bind (json_get product ''images'') as_array of None \<Rightarrow> 0 | Some l \<Rightarrow> length l)
        | None \<Rightarrow> (case Option.bind (json_get body ''prompt'') as_str of
            Some q \<Rightarrow> ''prompt_chars='' @ show_nat (length (chars q))
          | None \<Rightarrow> ''ok''))))))"

end
