(* ===== verification/QaTool.thy ===== *)
theory QaTool
  imports QaReport
begin

text \<open>
  The QA tool (\<open>tools/ozon-suite-qa/src/main.rs\<close>): the requests it sends to a running local node,
  its six commands and what they report. The loops that end with a deadline take the number of
  rounds they may make, and say so when it is used up; \<open>run_perf\<close> takes the order in which its
  workers run. A request and its answer are one step.
\<close>

section \<open>Arguments and state\<close>

record qa_lookup =
  lo_offer_id :: "string option"
  lo_product_id :: "string option"
  lo_sku :: "string option"

record runner =
  ru_base_url :: string
  ru_local_token :: string
  ru_openclaw_token :: string

datatype auth = NoAuth | LocalAuth | BridgeAuth

record probe_result =
  pb_status :: nat
  pb_body :: json

record scenario_input =
  si_list_limit :: u16
  si_lookup :: "qa_lookup option"

text \<open>The options of a lookup every command takes, and the arguments of the commands.\<close>

record lookup_args =
  la_offer_id :: "string option"
  la_product_id :: "string option"
  la_sku :: "string option"

record smoke_args = lookup_args +
  sm_list_limit :: u16

record perf_args = lookup_args +
  pa_scenario :: scenario
  pa_requests :: u64
  pa_concurrency :: u64
  pa_list_limit :: u16

record stability_args = lookup_args +
  sb_scenario :: scenario
  sb_duration_secs :: u64
  sb_interval_ms :: u64
  sb_list_limit :: u16

record memory_args = lookup_args +
  ma_pid :: u32
  ma_scenario :: scenario
  ma_duration_secs :: u64
  ma_interval_ms :: u64
  ma_growth_limit_mb :: f64
  ma_list_limit :: u16

record all_args = lookup_args +
  aa_pid :: "u32 option"

text \<open>\<open>qa_instant\<close> are the readings of \<open>Instant::now\<close> in nanoseconds, \<open>qa_proc\<close> those of
  \<open>/proc/<pid>/status\<close>.\<close>

record qa = ambient +
  qa_net :: network
  qa_instant :: "nat \<Rightarrow> int"
  qa_instant_n :: nat
  qa_proc :: "nat \<Rightarrow> string + string"
  qa_proc_n :: nat

text \<open>A command fails, or it did not come to an end in the rounds it was given.\<close>

datatype qa_stop = Failed string | Unfinished

type_synonym 'a qa_act = "(qa, qa_stop, 'a) act"

definition instant_now :: "int qa_act" where
  "instant_now s = (Inr (qa_instant s (qa_instant_n s)), s\<lparr>qa_instant_n := Suc (qa_instant_n s)\<rparr>)"

definition elapsed :: "int \<Rightarrow> nat qa_act" where
  "elapsed started = andthen instant_now (\<lambda>now. ret (nat (now - started)))"

definition rfc3339_now :: "crates \<Rightarrow> string qa_act" where
  "rfc3339_now x = andthen utc_now (\<lambda>now. ret (x_to_rfc3339 x now))"

definition runner_from :: "environment \<Rightarrow> string \<Rightarrow> string option \<Rightarrow> string option \<Rightarrow> runner" where
  "runner_from env base_url local_token openclaw_token =
     \<lparr> ru_base_url = trim_end_matches (CHR ''/'') base_url,
       ru_local_token = unwrap_or (if local_token = None then env ''OZON_LOCAL_TOKEN'' else local_token) ''dev-local-token'',
       ru_openclaw_token =
         unwrap_or (if openclaw_token = None then env ''OZON_OPENCLAW_TOKEN'' else openclaw_token) ''dev-openclaw-token'' \<rparr>"

section \<open>Requests\<close>

definition auth_headers :: "runner \<Rightarrow> auth \<Rightarrow> (string \<times> string) list" where
  "auth_headers r a =
     (case a of NoAuth \<Rightarrow> []
      | LocalAuth \<Rightarrow> [(''x-local-token'', ru_local_token r)]
      | BridgeAuth \<Rightarrow> [(''x-openclaw-token'', ru_openclaw_token r)])"

definition qa_request :: "crates \<Rightarrow> runner \<Rightarrow> string \<Rightarrow> string \<Rightarrow> auth \<Rightarrow> json option \<Rightarrow> http_request" where
  "qa_request x r verb path a body =
     \<lparr> hr_method = verb, hr_url = ru_base_url r @ path,
       hr_headers = auth_headers r a @ (case body of None \<Rightarrow> [] | Some _ \<Rightarrow> [(''content-type'', ''application/json'')]),
       hr_body = (case body of None \<Rightarrow> NoBody | Some j \<Rightarrow> TextBody (x_json_print x j)) \<rparr>"

definition read_answer :: "crates \<Rightarrow> http_response \<Rightarrow> probe_result" where
  "read_answer x rsp = (let t = unwrap_or (rsp_body rsp) [] in
     \<lparr> pb_status = rsp_status rsp, pb_body = unwrap_or (x_json_parse x t) (JObject [(''raw'', JString t)]) \<rparr>)"

definition qa_send :: "crates \<Rightarrow> http_request \<Rightarrow> probe_result qa_act" where
  "qa_send x q =
     (case x_request_error x q of
        Some e \<Rightarrow> throw (Failed e)
      | None \<Rightarrow> (\<lambda>s. case net_send q (qa_net s) of
          (Inr (Inr rsp), n) \<Rightarrow> (Inr (read_answer x rsp), s\<lparr>qa_net := n\<rparr>)
        | (Inr (Inl e), n) \<Rightarrow> (Inl (Failed e), s\<lparr>qa_net := n\<rparr>)
        | (Inl e, n) \<Rightarrow> (Inl e, s\<lparr>qa_net := n\<rparr>)))"

definition qa_get :: "crates \<Rightarrow> runner \<Rightarrow> string \<Rightarrow> auth \<Rightarrow> probe_result qa_act" where
  "qa_get x r path a = qa_send x (qa_request x r ''GET'' path a None)"

definition qa_post :: "crates \<Rightarrow> runner \<Rightarrow> string \<Rightarrow> auth \<Rightarrow> json \<Rightarrow> probe_result qa_act" where
  "qa_post x r path a body = qa_send x (qa_request x r ''POST'' path a (Some body))"

definition explicit_lookup :: "string option \<Rightarrow> string option \<Rightarrow> string option \<Rightarrow> qa_lookup option" where
  "explicit_lookup offer_id product_id sku =
     (if offer_id = None \<and> product_id = None \<and> sku = None then None
      else Some \<lparr> lo_offer_id = offer_id, lo_product_id = product_id, lo_sku = sku \<rparr>)"

definition text_entry :: "string \<Rightarrow> string option \<Rightarrow> (string \<times> json) list" where
  "text_entry k v = (case v of None \<Rightarrow> [] | Some t \<Rightarrow> [(k, JString t)])"

text \<open>The entries of a JSON map are ordered by their names.\<close>

definition lookup_entries :: "qa_lookup \<Rightarrow> (string \<times> json) list" where
  "lookup_entries l = text_entry ''offer_id'' (lo_offer_id l) @ text_entry ''product_id'' (lo_product_id l)
     @ text_entry ''sku'' (lo_sku l)"

definition lookup_json :: "qa_lookup \<Rightarrow> json" where
  "lookup_json l = JObject (lookup_entries l)"

definition poster_lookup_json :: "qa_lookup \<Rightarrow> string \<Rightarrow> json" where
  "poster_lookup_json l theme =
     JObject ((''locale'', JString ''zh-CN'') # lookup_entries l @ [(''theme'', JString theme)])"

definition scenario_input_of :: "u16 \<Rightarrow> 'z lookup_args_scheme \<Rightarrow> scenario_input" where
  "scenario_input_of limit a = \<lparr> si_list_limit = limit,
     si_lookup = explicit_lookup (la_offer_id a) (la_product_id a) (la_sku a) \<rparr>"

definition scenario_call :: "crates \<Rightarrow> runner \<Rightarrow> scenario \<Rightarrow> scenario_input \<Rightarrow> probe_result qa_act" where
  "scenario_call x r sc i =
     (case sc of
        HealthScenario \<Rightarrow> qa_get x r ''/health'' NoAuth
      | ManifestScenario \<Rightarrow> qa_get x r ''/openclaw/manifest'' NoAuth
      | CountScenario \<Rightarrow> qa_post x r ''/tools/ozon.products.count'' BridgeAuth (JObject [])
      | ListScenario \<Rightarrow> qa_post x r ''/tools/ozon.products.list'' BridgeAuth
          (JObject [(''limit'', JInt (uint (si_list_limit i)))])
      | GetScenario \<Rightarrow> (case si_lookup i of
          Some l \<Rightarrow> qa_post x r ''/tools/ozon.products.get'' BridgeAuth (lookup_json l)
        | None \<Rightarrow> throw (Failed ''product_get scenario requires --offer-id, --product-id, or --sku''))
      | HandoffScenario \<Rightarrow> (case si_lookup i of
          Some l \<Rightarrow> qa_post x r ''/poster/handoff'' BridgeAuth (poster_lookup_json l ''studio'')
        | None \<Rightarrow> throw (Failed ''poster_handoff scenario requires --offer-id, --product-id, or --sku'')))"

definition run_scenario :: "crates \<Rightarrow> runner \<Rightarrow> scenario \<Rightarrow> scenario_input \<Rightarrow> request_sample qa_act" where
  "run_scenario x r sc i =
     andthen instant_now (\<lambda>started.
     match_res (scenario_call x r sc i)
       (\<lambda>a. andthen (elapsed started) (\<lambda>d. ret \<lparr> sa_ok = is_success (pb_status a), sa_elapsed_ms = as_millis d \<rparr>))
       (\<lambda>_. andthen (elapsed started) (\<lambda>d. ret \<lparr> sa_ok = False, sa_elapsed_ms = as_millis d \<rparr>)))"

section \<open>Smoke\<close>

definition stop_text :: "qa_stop \<Rightarrow> string" where
  "stop_text e = (case e of Failed t \<Rightarrow> t | Unfinished \<Rightarrow> [])"

definition step_of_answer :: "string \<Rightarrow> int \<Rightarrow> probe_result \<Rightarrow> step_report qa_act" where
  "step_of_answer name started a = andthen (elapsed started) (\<lambda>d. ret
     \<lparr> st_name = name, st_ok = is_success (pb_status a), st_status = Some (pb_status a),
       st_elapsed_ms = as_millis d, st_detail = summarize_body (pb_body a) \<rparr>)"

definition step_of_error :: "string \<Rightarrow> int \<Rightarrow> qa_stop \<Rightarrow> step_report qa_act" where
  "step_of_error name started e = andthen (elapsed started) (\<lambda>d. ret
     \<lparr> st_name = name, st_ok = False, st_status = None, st_elapsed_ms = as_millis d, st_detail = stop_text e \<rparr>)"

definition run_step :: "string \<Rightarrow> probe_result qa_act \<Rightarrow> step_report qa_act" where
  "run_step name f = andthen instant_now (\<lambda>started.
     match_res f (step_of_answer name started) (step_of_error name started))"

definition sample_of_list :: "json \<Rightarrow> qa_lookup option" where
  "sample_of_list body =
     (case Option.bind (json_get body ''products'') as_array of
        Some (item # _) \<Rightarrow> map_option (\<lambda>o'. \<lparr> lo_offer_id = Some o', lo_product_id = None, lo_sku = None \<rparr>)
          (Option.bind (json_get item ''offer_id'') as_str)
      | _ \<Rightarrow> None)"

definition report :: "crates \<Rightarrow> string \<Rightarrow> string \<Rightarrow> int \<Rightarrow> step_report list \<Rightarrow> metrics_report option
    \<Rightarrow> memory_report option \<Rightarrow> string \<Rightarrow> command_report qa_act" where
  "report x name started_at started steps metrics memory ok_summary =
     (let good = (\<forall>s \<in> set steps. st_ok s) \<and> none_or (\<lambda>m. me_failed m = 0) metrics \<and> none_or within_limit memory in
      andthen (rfc3339_now x) (\<lambda>finished_at.
      andthen (elapsed started) (\<lambda>d. ret
        \<lparr> co_command = name, co_ok = good, co_started_at = started_at, co_finished_at = finished_at,
          co_duration_ms = as_millis d, co_steps = steps, co_metrics = metrics, co_memory = memory,
          co_summary = (if good then ok_summary else ''one or more checks failed'') \<rparr>)))"

definition list_step :: "crates \<Rightarrow> runner \<Rightarrow> u16 \<Rightarrow> qa_lookup option \<Rightarrow> (qa_lookup option \<times> step_report) qa_act" where
  "list_step x r limit given =
     andthen instant_now (\<lambda>list_started.
     match_res (qa_post x r ''/tools/ozon.products.list'' BridgeAuth (JObject [(''limit'', JInt (uint limit))]))
       (\<lambda>a. andthen (step_of_answer ''ozon.products.list'' list_started a) (\<lambda>step.
         ret (if given = None then sample_of_list (pb_body a) else given, step)))
       (\<lambda>e. andthen (step_of_error ''ozon.products.list'' list_started e) (\<lambda>step. ret (given, step))))"

definition product_steps :: "crates \<Rightarrow> runner \<Rightarrow> qa_lookup option \<Rightarrow> step_report list qa_act" where
  "product_steps x r lookup =
     (case lookup of
        Some l \<Rightarrow>
          andthen (run_step ''ozon.products.get'' (qa_post x r ''/tools/ozon.products.get'' BridgeAuth (lookup_json l))) (\<lambda>g.
          andthen (run_step ''poster.handoff'' (qa_post x r ''/poster/handoff'' BridgeAuth (poster_lookup_json l ''studio''))) (\<lambda>h.
            ret [g, h]))
      | None \<Rightarrow> ret [\<lparr> st_name = ''poster.handoff'', st_ok = False, st_status = None, st_elapsed_ms = 0,
          st_detail = ''no explicit lookup and product list returned no sample offer_id'' \<rparr>])"

definition smoke :: "crates \<Rightarrow> runner \<Rightarrow> smoke_args \<Rightarrow> command_report qa_act" where
  "smoke x r a =
     andthen (rfc3339_now x) (\<lambda>started_at.
     andthen instant_now (\<lambda>started.
     andthen (run_step ''health'' (qa_get x r ''/health'' NoAuth)) (\<lambda>health.
     andthen (run_step ''openclaw.manifest'' (qa_get x r ''/openclaw/manifest'' NoAuth)) (\<lambda>manifest.
     andthen (run_step ''config.status'' (qa_get x r ''/config/status'' LocalAuth)) (\<lambda>config.
     andthen (run_step ''ozon.products.count''
       (qa_post x r ''/tools/ozon.products.count'' BridgeAuth (JObject []))) (\<lambda>product_count.
     andthen (list_step x r (sm_list_limit a) (explicit_lookup (la_offer_id a) (la_product_id a) (la_sku a))) (\<lambda>(lookup, list_report).
     andthen (product_steps x r lookup) (\<lambda>products.
       report x ''smoke'' started_at started ([health, manifest, config, product_count, list_report] @ products)
         None None ''read-only smoke checks completed''))))))))"

section \<open>Load\<close>

text \<open>A worker of \<open>run_perf\<close> is about to draw a number, or to send the request it drew, or done.\<close>

datatype worker_phase = Drawing | Calling | Ended

type_synonym worker = "worker_phase \<times> request_sample list"

definition worker_step :: "crates \<Rightarrow> runner \<Rightarrow> scenario \<Rightarrow> scenario_input \<Rightarrow> u64
    \<Rightarrow> worker \<Rightarrow> u64 \<Rightarrow> (worker \<times> u64) qa_act" where
  "worker_step x r sc i requests w counter =
     (case w of
        (Drawing, samples) \<Rightarrow> ret ((if requests \<le> counter then Ended else Calling, samples), counter + 1)
      | (Calling, samples) \<Rightarrow> andthen (run_scenario x r sc i) (\<lambda>sample. ret ((Drawing, samples @ [sample]), counter))
      | (Ended, samples) \<Rightarrow> ret (w, counter))"

fun run_workers :: "crates \<Rightarrow> runner \<Rightarrow> scenario \<Rightarrow> scenario_input \<Rightarrow> u64
    \<Rightarrow> nat list \<Rightarrow> worker list \<Rightarrow> u64 \<Rightarrow> (worker list \<times> u64) qa_act" where
  "run_workers x r sc i requests [] ws counter = ret (ws, counter)"
| "run_workers x r sc i requests (k # ks) ws counter =
     (if k < length ws then
        andthen (worker_step x r sc i requests (ws ! k) counter) (\<lambda>(w, c).
          run_workers x r sc i requests ks (ws[k := w]) c)
      else run_workers x r sc i requests ks ws counter)"

definition run_perf :: "crates \<Rightarrow> runner \<Rightarrow> nat list \<Rightarrow> scenario \<Rightarrow> u64 \<Rightarrow> u64 \<Rightarrow> scenario_input
    \<Rightarrow> metrics_report qa_act" where
  "run_perf x r order sc requests concurrency i =
     andthen instant_now (\<lambda>started.
     andthen (run_workers x r sc i requests order (replicate (unat concurrency) (Drawing, [])) 0) (\<lambda>(ws, _).
     if \<exists>w \<in> set ws. fst w \<noteq> Ended then throw Unfinished
     else andthen (elapsed started) (\<lambda>d.
       ret (metrics_from_samples sc (concat (map snd ws)) (unat concurrency) d))))"

definition perf :: "crates \<Rightarrow> runner \<Rightarrow> nat list \<Rightarrow> perf_args \<Rightarrow> command_report qa_act" where
  "perf x r order a =
     andthen (rfc3339_now x) (\<lambda>started_at.
     andthen instant_now (\<lambda>started.
     andthen (run_perf x r order (pa_scenario a) (pa_requests a) (max (pa_concurrency a) 1)
       (scenario_input_of (pa_list_limit a) a)) (\<lambda>metrics.
     andthen (rfc3339_now x) (\<lambda>finished_at.
     andthen (elapsed started) (\<lambda>d. let good = me_failed metrics = 0 in ret
       \<lparr> co_command = ''perf'', co_ok = good, co_started_at = started_at, co_finished_at = finished_at,
         co_duration_ms = as_millis d, co_steps = [], co_metrics = Some metrics, co_memory = None,
         co_summary = (if good then ''performance run completed without HTTP failures''
           else ''performance run saw HTTP failures'') \<rparr>)))))"

section \<open>Stability and memory\<close>

text \<open>\<open>while Instant::now() < deadline\<close>, with at most \<open>n\<close> rounds.\<close>

fun until_deadline :: "nat \<Rightarrow> int \<Rightarrow> 'a qa_act \<Rightarrow> 'a list qa_act" where
  "until_deadline 0 deadline m = throw Unfinished"
| "until_deadline (Suc n) deadline m =
     andthen instant_now (\<lambda>now.
     if now < deadline then andthen m (\<lambda>a. andthen (until_deadline n deadline m) (\<lambda>as. ret (a # as)))
     else ret [])"

text \<open>A deadline past the last instant of the platform, where the code panics, is not modelled.\<close>

definition deadline_after :: "u64 \<Rightarrow> int qa_act" where
  "deadline_after secs = andthen instant_now (\<lambda>now. ret (now + uint secs * 10 ^ 9))"

definition stability :: "crates \<Rightarrow> runner \<Rightarrow> nat \<Rightarrow> stability_args \<Rightarrow> command_report qa_act" where
  "stability x r n a =
     andthen (rfc3339_now x) (\<lambda>started_at.
     andthen instant_now (\<lambda>started.
     andthen (deadline_after (sb_duration_secs a)) (\<lambda>deadline.
     andthen (until_deadline n deadline
       (run_scenario x r (sb_scenario a) (scenario_input_of (sb_list_limit a) a))) (\<lambda>samples.
     andthen (elapsed started) (\<lambda>d.
     let failures = length (filter (\<lambda>s. \<not> sa_ok s) samples);
         metrics = metrics_from_samples (sb_scenario a) samples 1 d; good = failures = 0 in
     andthen (rfc3339_now x) (\<lambda>finished_at.
     andthen (elapsed started) (\<lambda>d. ret
       \<lparr> co_command = ''stability'', co_ok = good, co_started_at = started_at, co_finished_at = finished_at,
         co_duration_ms = as_millis d, co_steps = [], co_metrics = Some metrics, co_memory = None,
         co_summary = (if good then ''stability run completed without HTTP failures''
           else ''stability run saw '' @ show_nat failures @ '' failed cycles'') \<rparr>)))))))"

definition read_rss_kib :: "u32 \<Rightarrow> u64 qa_act" where
  "read_rss_kib pid s =
     (case rss_of_status pid (qa_proc s (qa_proc_n s)) of
        Inr v \<Rightarrow> (Inr v, s\<lparr>qa_proc_n := Suc (qa_proc_n s)\<rparr>)
      | Inl e \<Rightarrow> (Inl (Failed ''failed to sample target RSS''), s\<lparr>qa_proc_n := Suc (qa_proc_n s)\<rparr>))"

definition memory_check :: "crates \<Rightarrow> runner \<Rightarrow> nat \<Rightarrow> memory_args \<Rightarrow> string \<Rightarrow> command_report qa_act" where
  "memory_check x r n a name =
     andthen (rfc3339_now x) (\<lambda>started_at.
     andthen instant_now (\<lambda>started.
     andthen (deadline_after (ma_duration_secs a)) (\<lambda>deadline.
     andthen (until_deadline n deadline
       (andthen (read_rss_kib (ma_pid a)) (\<lambda>rss.
        andthen (run_scenario x r (ma_scenario a) (scenario_input_of (ma_list_limit a) a)) (\<lambda>sample.
          ret (rss, sample))))) (\<lambda>rounds.
     andthen (read_rss_kib (ma_pid a)) (\<lambda>rss.
     andthen (elapsed started) (\<lambda>d.
     let memory = memory_report_of (ma_pid a) (map fst rounds @ [rss]) (ma_growth_limit_mb a);
         metrics = metrics_from_samples (ma_scenario a) (map snd rounds) 1 d;
         good = me_failed metrics = 0 \<and> mr_growth_mb memory \<le> ma_growth_limit_mb a in
     andthen (rfc3339_now x) (\<lambda>finished_at.
     andthen (elapsed started) (\<lambda>d. ret
       \<lparr> co_command = name, co_ok = good, co_started_at = started_at, co_finished_at = finished_at,
         co_duration_ms = as_millis d, co_steps = [], co_metrics = Some metrics, co_memory = Some memory,
         co_summary = (if good then ''RSS growth stayed within the configured leak threshold''
           else ''HTTP checks failed or RSS growth exceeded the leak threshold'') \<rparr>))))))))"

definition memory :: "crates \<Rightarrow> runner \<Rightarrow> nat \<Rightarrow> memory_args \<Rightarrow> command_report qa_act" where
  "memory x r n a = memory_check x r n a ''memory''"

definition leak :: "crates \<Rightarrow> runner \<Rightarrow> nat \<Rightarrow> memory_args \<Rightarrow> command_report qa_act" where
  "leak x r n a = memory_check x r n a ''leak''"

section \<open>All checks\<close>

definition all_memory :: "crates \<Rightarrow> runner \<Rightarrow> nat \<Rightarrow> all_args \<Rightarrow> memory_report option qa_act" where
  "all_memory x r n a =
     (case aa_pid a of
        None \<Rightarrow> ret None
      | Some pid \<Rightarrow> andthen (memory x r n
          \<lparr> la_offer_id = la_offer_id a, la_product_id = la_product_id a, la_sku = la_sku a, ma_pid = pid,
            ma_scenario = HealthScenario, ma_duration_secs = 10, ma_interval_ms = 500,
            ma_growth_limit_mb = 64, ma_list_limit = 3 \<rparr>) (\<lambda>c. ret (co_memory c)))"

definition all_checks :: "crates \<Rightarrow> runner \<Rightarrow> nat list \<Rightarrow> nat \<Rightarrow> all_args \<Rightarrow> command_report qa_act" where
  "all_checks x r order n a =
     andthen (rfc3339_now x) (\<lambda>started_at.
     andthen instant_now (\<lambda>started.
     andthen (smoke x r \<lparr> la_offer_id = la_offer_id a, la_product_id = la_product_id a, la_sku = la_sku a,
       sm_list_limit = 3 \<rparr>) (\<lambda>smoke_report.
     andthen (perf x r order \<lparr> la_offer_id = la_offer_id a, la_product_id = la_product_id a, la_sku = la_sku a,
       pa_scenario = HealthScenario, pa_requests = 30, pa_concurrency = 4, pa_list_limit = 3 \<rparr>) (\<lambda>perf_report.
     andthen (stability x r n \<lparr> la_offer_id = la_offer_id a, la_product_id = la_product_id a, la_sku = la_sku a,
       sb_scenario = HealthScenario, sb_duration_secs = 10, sb_interval_ms = 500, sb_list_limit = 3 \<rparr>) (\<lambda>stability_report.
     andthen (all_memory x r n a) (\<lambda>memory_value.
     let good = (\<forall>s \<in> set (co_steps smoke_report). st_ok s) \<and> co_ok perf_report \<and> co_ok stability_report
       \<and> none_or within_limit memory_value in
     andthen (rfc3339_now x) (\<lambda>finished_at.
     andthen (elapsed started) (\<lambda>d. ret
       \<lparr> co_command = ''all'', co_ok = good, co_started_at = started_at, co_finished_at = finished_at,
         co_duration_ms = as_millis d, co_steps = co_steps smoke_report, co_metrics = co_metrics perf_report,
         co_memory = memory_value,
         co_summary = (if good then ''combined smoke, perf, stability, and optional memory checks passed''
           else ''one or more combined checks failed'') \<rparr>))))))))"

section \<open>The command line\<close>

datatype command_kind =
    Smoke smoke_args
  | Perf perf_args
  | Stability stability_args
  | Memory memory_args
  | Leak memory_args
  | AllChecks all_args

text \<open>The report is printed in any case.\<close>

definition qa_command :: "crates \<Rightarrow> runner \<Rightarrow> nat list \<Rightarrow> nat \<Rightarrow> command_kind \<Rightarrow> command_report qa_act" where
  "qa_command x r order n c =
     (case c of
        Smoke a \<Rightarrow> smoke x r a
      | Perf a \<Rightarrow> perf x r order a
      | Stability a \<Rightarrow> stability x r n a
      | Memory a \<Rightarrow> memory x r n a
      | Leak a \<Rightarrow> leak x r n a
      | AllChecks a \<Rightarrow> all_checks x r order n a)"

definition qa_main :: "crates \<Rightarrow> runner \<Rightarrow> nat list \<Rightarrow> nat \<Rightarrow> command_kind \<Rightarrow> (command_report \<times> (string + unit)) qa_act" where
  "qa_main x r order n c =
     andthen (qa_command x r order n c) (\<lambda>report.
       ret (report, if co_ok report then Inr () else Inl (co_command report @ '' failed: '' @ co_summary report)))"

end
