(* ===== verification/QaLaws.thy ===== *)
theory QaLaws
  imports QaTool
begin

text \<open>
  What the reports of the QA tool (\<open>tools/ozon-suite-qa/src/main.rs\<close>) rest on: the load test makes
  exactly the requests it was asked for, in whatever order its workers run, and its percentiles are
  latencies that were measured.
\<close>

section \<open>The load test\<close>

definition calling :: "worker \<Rightarrow> nat" where
  "calling w = length (snd w) + (if fst w = Calling then 1 else 0)"

definition ended :: "worker \<Rightarrow> nat" where
  "ended w = (if fst w = Ended then 1 else 0)"

definition steps_left :: "worker \<Rightarrow> nat" where
  "steps_left w = (case fst w of Drawing \<Rightarrow> 1 | Calling \<Rightarrow> 2 | Ended \<Rightarrow> 0)"

lemma sum_list_update_add:
  fixes f :: "'a \<Rightarrow> nat"
  shows "k < length xs \<Longrightarrow> sum_list (map f (xs[k := y])) + f (xs ! k) = sum_list (map f xs) + f y"
  by (induction xs arbitrary: k) (auto split: nat.split simp: less_Suc_eq_0_disj)

lemma sum_list_ended: "sum_list (map ended ws) \<le> length ws"
  by (induction ws) (auto simp: ended_def)

lemma sum_list_ended_all: "sum_list (map ended ws) = length ws \<longleftrightarrow> (\<forall>w \<in> set ws. fst w = Ended)"
proof (induction ws)
  case (Cons w ws)
  then show ?case using sum_list_ended [of ws] by (cases "fst w = Ended") (auto simp: ended_def [of w])
qed simp

text \<open>Numbers drawn below the bound belong to a request, the others end a worker.\<close>

definition drawn_ok :: "nat \<Rightarrow> worker list \<Rightarrow> nat \<Rightarrow> bool" where
  "drawn_ok n ws c \<longleftrightarrow> sum_list (map calling ws) = min c n \<and> sum_list (map ended ws) = c - n"

lemma run_scenario_answers: "\<exists>a. fst (run_scenario x r sc i s) = Inr a"
  by (auto simp: run_scenario_def andthen_run match_res_def elapsed_def instant_now_def act_simps split: prod.split sum.split)

definition potential :: "nat \<Rightarrow> worker list \<Rightarrow> nat \<Rightarrow> nat" where
  "potential n ws c = 2 * (n - c) + sum_list (map steps_left ws)"

lemma worker_step_run:
  assumes "k < length ws" and "drawn_ok (unat n) ws (unat c)" and "unat n + length ws < 2 ^ 64"
  shows "\<exists>w d t. worker_step x r sc i n (ws ! k) c s = (Inr (w, d), t) \<and> drawn_ok (unat n) (ws[k := w]) (unat d)
    \<and> potential (unat n) (ws[k := w]) (unat d)
      = (if fst (ws ! k) = Ended then potential (unat n) ws (unat c) else potential (unat n) ws (unat c) - 1)"
proof -
  obtain ph sm where w: "ws ! k = (ph, sm)" by (cases "ws ! k")
  note up = sum_list_update_add [OF assms(1)]
  show ?thesis
  proof (cases ph)
    case Drawing
    have "sum_list (map ended ws) < length ws"
      using assms(1) w Drawing sum_list_ended [of ws] sum_list_ended_all [of ws]
      by (metis fst_conv le_neq_implies_less nth_mem worker_phase.distinct(3))
    then have "unat c < unat n + length ws" using assms(2) by (auto simp: drawn_ok_def)
    then have d: "unat (c + 1) = Suc (unat c)" using assms(3) by (simp add: unat_plus_if')
    show ?thesis
    proof (cases "unat n \<le> unat c")
      case True
      then show ?thesis
        using assms(2) w Drawing up [of calling "(Ended, sm)"] up [of ended "(Ended, sm)"] up [of steps_left "(Ended, sm)"]
        by (simp add: worker_step_def act_simps drawn_ok_def potential_def d calling_def [of "(_, _)"]
            ended_def [of "(_, _)"] steps_left_def [of "(_, _)"] word_le_nat_alt Suc_diff_le)
    next
      case False
      then show ?thesis
        using assms(2) w Drawing up [of calling "(Calling, sm)"] up [of ended "(Calling, sm)"] up [of steps_left "(Calling, sm)"]
        by (simp add: worker_step_def act_simps drawn_ok_def potential_def d calling_def [of "(_, _)"]
            ended_def [of "(_, _)"] steps_left_def [of "(_, _)"] word_le_nat_alt del: sum_list_eq_0_iff)
    qed
  next
    case Calling
    obtain a where "fst (run_scenario x r sc i s) = Inr a" using run_scenario_answers by blast
    then show ?thesis
      using assms(2) w Calling up [of calling "(Drawing, sm @ [a])"] up [of ended "(Drawing, sm @ [a])"]
        up [of steps_left "(Drawing, sm @ [a])"]
      by (simp add: worker_step_def andthen_run act_simps drawn_ok_def potential_def calling_def [of "(_, _)"]
          ended_def [of "(_, _)"] steps_left_def [of "(_, _)"])
  next
    case Ended
    then show ?thesis using assms w list_update_id [of ws k] by (simp add: worker_step_def act_simps)
  qed
qed

text \<open>Any order of the workers keeps the count, and each turn of one that is not done uses up a step.\<close>

lemma run_workers_run:
  assumes "drawn_ok (unat n) ws (unat c)" and "unat n + length ws < 2 ^ 64"
  shows "\<exists>vs d t. run_workers x r sc i n ks ws c s = (Inr (vs, d), t) \<and> drawn_ok (unat n) vs (unat d)
    \<and> length vs = length ws \<and> potential (unat n) vs (unat d) \<le> potential (unat n) ws (unat c)
    \<and> ((\<exists>k \<in> set ks. k < length ws \<and> fst (ws ! k) \<noteq> Ended) \<longrightarrow>
      potential (unat n) vs (unat d) < potential (unat n) ws (unat c) \<or> potential (unat n) vs (unat d) = 0)"
  using assms
proof (induction ks arbitrary: ws c s)
  case (Cons k ks)
  show ?case
  proof (cases "k < length ws")
    case True
    obtain w d t where step: "worker_step x r sc i n (ws ! k) c s = (Inr (w, d), t)" "drawn_ok (unat n) (ws[k := w]) (unat d)"
      "potential (unat n) (ws[k := w]) (unat d)
        = (if fst (ws ! k) = Ended then potential (unat n) ws (unat c) else potential (unat n) ws (unat c) - 1)"
      using worker_step_run [OF True Cons.prems] by blast
    obtain vs e u where rest: "run_workers x r sc i n ks (ws[k := w]) d t = (Inr (vs, e), u)" "drawn_ok (unat n) vs (unat e)"
      "length vs = length ws" "potential (unat n) vs (unat e) \<le> potential (unat n) (ws[k := w]) (unat d)"
      "(\<exists>j \<in> set ks. j < length ws \<and> fst (ws[k := w] ! j) \<noteq> Ended) \<longrightarrow>
        potential (unat n) vs (unat e) < potential (unat n) (ws[k := w]) (unat d) \<or> potential (unat n) vs (unat e) = 0"
      using Cons.IH [OF step(2)] Cons.prems(2) by (metis length_list_update)
    have "potential (unat n) vs (unat e) < potential (unat n) ws (unat c) \<or> potential (unat n) vs (unat e) = 0"
      if waiting: "\<exists>j \<in> set (k # ks). j < length ws \<and> fst (ws ! j) \<noteq> Ended"
    proof (cases "fst (ws ! k) = Ended")
      case True
      then obtain j where j: "j \<in> set ks" "j < length ws" "fst (ws ! j) \<noteq> Ended" using waiting True by (metis set_ConsD)
      then have "fst (ws[k := w] ! j) \<noteq> Ended" using True by (cases "j = k") auto
      then show ?thesis using j rest(5) step(3) True by auto
    next
      case False
      then show ?thesis using rest(4) step(3) by auto
    qed
    then show ?thesis
      using True step(1,3) rest(1-4) by (auto simp: andthen_run act_simps split: if_splits)
  next
    case False
    then show ?thesis using Cons.IH [OF Cons.prems] by auto
  qed
qed (auto simp: act_simps)

lemma run_workers_append: "run_workers x r sc i n (ks @ js) ws c
    = andthen (run_workers x r sc i n ks ws c) (\<lambda>(vs, d). run_workers x r sc i n js vs d)"
  by (induction ks arbitrary: ws c) (auto simp: fun_eq_iff andthen_run act_simps split: sum.split)

lemma no_steps_left: "potential n ws c = 0 \<Longrightarrow> \<forall>w \<in> set ws. fst w = Ended"
  unfolding potential_def steps_left_def by (metis (mono_tags, lifting) add_is_0 imageI list.set_map
      sum_list_eq_0_iff worker_phase.exhaust worker_phase.simps(7,8) zero_neq_numeral zero_neq_one)

text \<open>Enough rounds end every worker.\<close>

lemma rounds_end:
  assumes "drawn_ok (unat n) ws (unat c)" and "unat n + length ws < 2 ^ 64" and "potential (unat n) ws (unat c) \<le> N"
    and "ws \<noteq> []"
  shows "\<exists>vs d t. run_workers x r sc i n (concat (replicate N [0..<length ws])) ws c s = (Inr (vs, d), t)
    \<and> (\<forall>w \<in> set vs. fst w = Ended)"
  using assms
proof (induction N arbitrary: ws c s)
  case 0
  then show ?case using no_steps_left by (auto simp: act_simps)
next
  case (Suc N)
  obtain vs d t where one: "run_workers x r sc i n [0..<length ws] ws c s = (Inr (vs, d), t)" "drawn_ok (unat n) vs (unat d)"
    "length vs = length ws" "potential (unat n) vs (unat d) \<le> potential (unat n) ws (unat c)"
    "(\<exists>k \<in> set [0..<length ws]. k < length ws \<and> fst (ws ! k) \<noteq> Ended) \<longrightarrow>
      potential (unat n) vs (unat d) < potential (unat n) ws (unat c) \<or> potential (unat n) vs (unat d) = 0"
    using run_workers_run [OF Suc.prems(1,2)] by blast
  have "potential (unat n) vs (unat d) \<le> N"
  proof (cases "\<forall>w \<in> set ws. fst w = Ended")
    case True
    then have "sum_list (map ended ws) = length ws" using sum_list_ended_all by blast
    moreover have "sum_list (map steps_left ws) = 0" using True by (simp add: steps_left_def)
    ultimately have "potential (unat n) ws (unat c) = 0"
      using Suc.prems(1,4) by (cases ws) (auto simp: drawn_ok_def potential_def)
    then show ?thesis using one(4) by simp
  next
    case False
    then have "\<exists>k \<in> set [0..<length ws]. k < length ws \<and> fst (ws ! k) \<noteq> Ended"
      by (simp add: in_set_conv_nth Bex_def) (metis fst_conv)
    then show ?thesis using one(5) Suc.prems(3) by auto
  qed
  moreover have "vs \<noteq> []" using one(3) Suc.prems(4) by auto
  ultimately show ?case
    using Suc.IH [OF one(2)] Suc.prems(2) one(1,3)
    by (simp only: replicate_Suc concat.simps run_workers_append andthen_run) auto
qed

lemma calling_all_ended: "\<forall>w \<in> set ws. fst w = Ended \<Longrightarrow> sum_list (map calling ws) = length (concat (map snd ws))"
  by (induction ws) (auto simp: calling_def)

lemma ended_draws:
  assumes "drawn_ok n ws c" and "\<forall>w \<in> set ws. fst w = Ended" and "ws \<noteq> []"
  shows "length (concat (map snd ws)) = n"
proof -
  have "0 < c - n" using assms sum_list_ended_all [of ws] by (auto simp: drawn_ok_def)
  then show ?thesis using assms(1) calling_all_ended [OF assms(2)] by (simp add: drawn_ok_def)
qed

lemma new_workers: "drawn_ok n (replicate c (Drawing, [])) 0" "potential n (replicate c (Drawing, [])) 0 = 2 * n + c"
  by (simp_all add: drawn_ok_def potential_def calling_def ended_def steps_left_def sum_list_replicate)

lemma metrics_counts: "me_requests (metrics_from_samples sc sm c d) = length sm"
  "me_success (metrics_from_samples sc sm c d) + me_failed (metrics_from_samples sc sm c d) = length sm"
  by (simp_all add: metrics_from_samples_def Let_def)


text \<open>Three requests by two workers to a node that does not answer.\<close>

definition idle_tool :: qa where
  "idle_tool = ambient.extend
     \<lparr> src_clock = (\<lambda>_. 0), clock_n = 0, src_uuid = (\<lambda>_. 0), uuid_n = 0, src_alnum = (\<lambda>_. CHR ''a''), alnum_n = 0,
       src_os = (\<lambda>_. []), os_n = 0 \<rparr>
     \<lparr> qa_net = \<lparr> nw_answer = (\<lambda>_. Inl ''refused''), nw_sent = [] \<rparr>, qa_instant = int, qa_instant_n = 0,
       qa_proc = (\<lambda>_. Inl ''no file''), qa_proc_n = 0 \<rparr>"


section \<open>Loops with a deadline\<close>

definition clock_forward :: "qa \<Rightarrow> qa \<Rightarrow> bool" where
  "clock_forward s t \<longleftrightarrow> qa_instant t = qa_instant s \<and> qa_instant_n s \<le> qa_instant_n t"

interpretation clock_forward: step_relation clock_forward
  by unfold_locales (auto simp: clock_forward_def)

definition ends :: "'a qa_act \<Rightarrow> bool" where
  "ends m \<longleftrightarrow> (\<forall>s. fst (m s) \<noteq> Inl Unfinished)"

lemma until_deadline_ends:
  assumes "keeps clock_forward m" and "ends m"
  shows "\<forall>k \<ge> K. deadline \<le> qa_instant s k \<Longrightarrow> K - qa_instant_n s < n \<Longrightarrow>
    fst (until_deadline n deadline m s) \<noteq> Inl Unfinished"
proof (induction n arbitrary: s)
  case (Suc n)
  let ?s = "s\<lparr>qa_instant_n := Suc (qa_instant_n s)\<rparr>"
  show ?case
  proof (cases "qa_instant s (qa_instant_n s) < deadline")
    case True
    obtain res u where m: "m ?s = (res, u)" by (cases "m ?s")
    have "clock_forward ?s u" "res \<noteq> Inl Unfinished"
      using assms m by (metis keeps_def snd_conv) (use assms(2) m in \<open>metis ends_def fst_conv\<close>)
    moreover from this have "qa_instant u = qa_instant s" "Suc (qa_instant_n s) \<le> qa_instant_n u"
      by (simp_all add: clock_forward_def)
    moreover have "qa_instant_n s < K" using True Suc.prems(1) by (meson leD not_le_imp_less)
    ultimately have "fst (until_deadline n deadline m u) \<noteq> Inl Unfinished"
      using Suc.prems by (intro Suc.IH) auto
    then show ?thesis
      using True m \<open>res \<noteq> Inl Unfinished\<close>
      by (auto simp: instant_now_def andthen_run act_simps split: sum.split)
  qed (simp add: instant_now_def andthen_run act_simps)
qed simp

lemma forward_sources [keeps_intros]:
  "keeps clock_forward instant_now" "keeps clock_forward (elapsed i)" "keeps clock_forward (rfc3339_now x)"
  "keeps clock_forward (read_rss_kib pid)" "keeps clock_forward (qa_send x q)"
  by (auto simp: keeps_def clock_forward_def instant_now_def elapsed_def rfc3339_now_def utc_now_def read_rss_kib_def
      qa_send_def net_send_def andthen_run act_simps split: sum.split option.split)

lemma forward_scenario: "keeps clock_forward (run_scenario x r sc i)"
  by (cases sc) (auto simp: run_scenario_def scenario_call_def qa_get_def qa_post_def intro!: keeps_intros split: option.split)

lemma scenario_ends: "ends (run_scenario x r sc i)"
  unfolding ends_def using run_scenario_answers by (metis Inl_Inr_False)

text \<open>When the clock passes every instant, enough rounds bring a stability run to its report.\<close>

lemma stability_ends:
  assumes "\<And>b. \<exists>K. \<forall>k \<ge> K. b \<le> qa_instant s k"
  shows "\<exists>n. fst (stability x r n a s) \<noteq> Inl Unfinished"
proof -
  let ?m = "run_scenario x r (sb_scenario a) (scenario_input_of (sb_list_limit a) a)"
  let ?u = "s\<lparr>clock_n := Suc (clock_n s), qa_instant_n := Suc (Suc (qa_instant_n s))\<rparr>"
    and ?d = "qa_instant s (Suc (qa_instant_n s)) + uint (sb_duration_secs a) * 10 ^ 9"
  obtain K where "\<forall>k \<ge> K. ?d \<le> qa_instant s k" using assms by blast
  then have "fst (until_deadline (Suc K) ?d ?m ?u) \<noteq> Inl Unfinished"
    by (intro until_deadline_ends [OF forward_scenario scenario_ends, of K]) simp_all
  then have "fst (stability x r (Suc K) a s) \<noteq> Inl Unfinished"
    by (auto simp: stability_def instant_now_def deadline_after_def elapsed_def rfc3339_now_def utc_now_def
        Let_def andthen_run act_simps simp del: until_deadline.simps split: sum.split)
  then show ?thesis ..
qed

section \<open>Percentiles\<close>

lemma percentile_measured: "values \<noteq> [] \<Longrightarrow> percentile values p \<in> set values"
proof -
  assume "values \<noteq> []"
  then have "min k (length values - 1) < length values" for k by (simp add: min_less_iff_disj)
  then show ?thesis using \<open>values \<noteq> []\<close> by (simp only: percentile_def Let_def if_False nth_mem)
qed

lemma sorted_bounds: "sorted vs \<Longrightarrow> v \<in> set vs \<Longrightarrow> hd vs \<le> v \<and> v \<le> last (vs :: nat list)"
  by (induction vs) (auto dest: last_in_set)

lemma percentile_bounds:
  assumes "sm \<noteq> []"
  shows "\<forall>p \<in> {me_p50_ms, me_p95_ms, me_p99_ms}. p (metrics_from_samples sc sm c d) \<in> sa_elapsed_ms ` set sm
    \<and> me_min_ms (metrics_from_samples sc sm c d) \<le> p (metrics_from_samples sc sm c d)
    \<and> p (metrics_from_samples sc sm c d) \<le> me_max_ms (metrics_from_samples sc sm c d)"
proof -
  let ?l = "sort (map sa_elapsed_ms sm)"
  have "length ?l \<noteq> 0" using assms by simp
  then have l: "?l \<noteq> []" "set ?l = sa_elapsed_ms ` set sm" "sorted ?l" unfolding length_0_conv by auto
  then have "percentile ?l p \<in> set ?l \<and> hd ?l \<le> percentile ?l p \<and> percentile ?l p \<le> last ?l" for p
    using percentile_measured sorted_bounds by blast
  then show ?thesis
    using l by (auto simp: metrics_from_samples_def Let_def hd_conv_nth split: list.split)
qed

end
