(* ===== verification/QaPath.thy ===== *)
theory QaPath
  imports QaTool NodeWrites
begin

text \<open>
  The QA tool (\<open>tools/ozon-suite-qa/src/main.rs\<close>) calls itself read-only. Here are its calls, as
  requests on the wire and as the requests the local node (\<open>apps/local-node/src/main.rs\<close>) decodes
  from them, and what they can change there.
\<close>

section \<open>Calls\<close>

datatype qa_call =
    CallHealth
  | CallManifest
  | CallConfigStatus
  | CallCount
  | CallList u16
  | CallGet qa_lookup
  | CallHandoff qa_lookup

fun call_request :: "crates \<Rightarrow> runner \<Rightarrow> qa_call \<Rightarrow> http_request" where
  "call_request x r CallHealth = qa_request x r ''GET'' ''/health'' NoAuth None"
| "call_request x r CallManifest = qa_request x r ''GET'' ''/openclaw/manifest'' NoAuth None"
| "call_request x r CallConfigStatus = qa_request x r ''GET'' ''/config/status'' LocalAuth None"
| "call_request x r CallCount = qa_request x r ''POST'' ''/tools/ozon.products.count'' BridgeAuth (Some (JObject []))"
| "call_request x r (CallList limit) = qa_request x r ''POST'' ''/tools/ozon.products.list'' BridgeAuth
     (Some (JObject [(''limit'', JInt (uint limit))]))"
| "call_request x r (CallGet l) = qa_request x r ''POST'' ''/tools/ozon.products.get'' BridgeAuth (Some (lookup_json l))"
| "call_request x r (CallHandoff l) =
     qa_request x r ''POST'' ''/poster/handoff'' BridgeAuth (Some (poster_lookup_json l ''studio''))"

definition node_lookup :: "qa_lookup \<Rightarrow> product_lookup" where
  "node_lookup l = \<lparr> lk_product_id = lo_product_id l, lk_offer_id = lo_offer_id l, lk_sku = lo_sku l \<rparr>"

fun call_decoded :: "qa_call \<Rightarrow> auth \<times> node_request" where
  "call_decoded CallHealth = (NoAuth, GetHealth)"
| "call_decoded CallManifest = (NoAuth, GetManifest)"
| "call_decoded CallConfigStatus = (LocalAuth, GetConfigStatus)"
| "call_decoded CallCount = (BridgeAuth, PostProductsCount)"
| "call_decoded (CallList limit) = (BridgeAuth, PostProductsList
     \<lparr> pli_limit = Some limit, pli_last_id = None, pli_visibility = None, pli_include_archived_if_empty = None \<rparr>)"
| "call_decoded (CallGet l) = (BridgeAuth, PostProductsGet (node_lookup l))"
| "call_decoded (CallHandoff l) = (BridgeAuth, PostPosterHandoff
     \<lparr> prq_lookup = node_lookup l, prq_theme = Some ''studio'', prq_locale = Some ''zh-CN'' \<rparr>)"

definition call_event :: "runner \<Rightarrow> qa_call \<Rightarrow> node_event" where
  "call_event r c = (case call_decoded c of (a, q) \<Rightarrow> Request (map_of (auth_headers r a)) q)"

section \<open>What the tool sends\<close>

definition only_calls :: "crates \<Rightarrow> runner \<Rightarrow> qa \<Rightarrow> qa \<Rightarrow> bool" where
  "only_calls x r s t \<longleftrightarrow>
     (\<exists>cs. nw_sent (qa_net t) = nw_sent (qa_net s) @ map (call_request x r) cs)"

interpretation calls: step_relation "only_calls x r" for x r
proof
  show "only_calls x r s t \<Longrightarrow> only_calls x r t u \<Longrightarrow> only_calls x r s u" for s t u
    unfolding only_calls_def by (metis append.assoc map_append)
qed (simp add: only_calls_def)

lemma calls_sources [keeps_intros]:
  "keeps (only_calls x r) instant_now" "keeps (only_calls x r) (elapsed i)" "keeps (only_calls x r) (rfc3339_now x)"
  "keeps (only_calls x r) (deadline_after d)" "keeps (only_calls x r) (read_rss_kib pid)"
  by (simp_all add: keeps_def only_calls_def instant_now_def elapsed_def rfc3339_now_def deadline_after_def
      read_rss_kib_def utc_now_def andthen_run act_simps split: sum.split)

lemma calls_send: "keeps (only_calls x r) (qa_send x (call_request x r c))"
  by (auto simp: keeps_def only_calls_def qa_send_def net_send_def act_simps split: option.split sum.split
      intro: exI [of _ "[]"] exI [of _ "[c]"])

lemma calls_made [keeps_intros]:
  fixes limit :: u16
  shows "keeps (only_calls x r) (qa_get x r ''/health'' NoAuth)" "keeps (only_calls x r) (qa_get x r ''/openclaw/manifest'' NoAuth)"
  "keeps (only_calls x r) (qa_get x r ''/config/status'' LocalAuth)"
  "keeps (only_calls x r) (qa_post x r ''/tools/ozon.products.count'' BridgeAuth (JObject []))"
  "keeps (only_calls x r) (qa_post x r ''/tools/ozon.products.list'' BridgeAuth (JObject [(''limit'', JInt (uint limit))]))"
  "keeps (only_calls x r) (qa_post x r ''/tools/ozon.products.get'' BridgeAuth (lookup_json l))"
  "keeps (only_calls x r) (qa_post x r ''/poster/handoff'' BridgeAuth (poster_lookup_json l ''studio''))"
  unfolding qa_get_def qa_post_def
  by (rule calls_send [where c = CallHealth, unfolded call_request.simps]
      calls_send [where c = CallManifest, unfolded call_request.simps]
      calls_send [where c = CallConfigStatus, unfolded call_request.simps]
      calls_send [where c = CallCount, unfolded call_request.simps]
      calls_send [where c = "CallList limit", unfolded call_request.simps]
      calls_send [where c = "CallGet l", unfolded call_request.simps]
      calls_send [where c = "CallHandoff l", unfolded call_request.simps])+

lemma calls_scenario [keeps_intros]: "keeps (only_calls x r) (run_scenario x r sc i)"
proof -
  have "keeps (only_calls x r) (scenario_call x r sc i)"
    by (cases sc) (simp_all add: scenario_call_def keeps_intros split: option.split)
  then show ?thesis unfolding run_scenario_def by (intro keeps_intros)
qed

lemma calls_steps [keeps_intros]:
  "keeps (only_calls x r) (step_of_answer name i a)" "keeps (only_calls x r) (step_of_error name i e)"
  "keeps (only_calls x r) f \<Longrightarrow> keeps (only_calls x r) (run_step name f)"
  "keeps (only_calls x r) (list_step x r limit given)" "keeps (only_calls x r) (product_steps x r l)"
  "keeps (only_calls x r) (report x name since i steps ms me summary)"
  unfolding step_of_answer_def step_of_error_def run_step_def list_step_def product_steps_def report_def Let_def
  by (intro keeps_intros; assumption)+

lemma calls_workers [keeps_intros]: "keeps (only_calls x r) (run_workers x r sc i n ks ws c)"
proof (induction ks arbitrary: ws c)
  case (Cons k ks)
  have "keeps (only_calls x r) (worker_step x r sc i n w c)" for w
    by (cases w; cases "fst w") (simp_all add: worker_step_def keeps_intros)
  then show ?case
    unfolding run_workers.simps by (intro keeps_intros Cons.IH)
qed (simp add: keeps_intros)

lemma calls_until [keeps_intros]: "keeps (only_calls x r) m \<Longrightarrow> keeps (only_calls x r) (until_deadline k d m)"
  by (induction k) (auto intro!: keeps_intros)

lemma calls_commands [keeps_intros]:
  "keeps (only_calls x r) (smoke x r sa)" "keeps (only_calls x r) (perf x r order pa)"
  "keeps (only_calls x r) (stability x r k sb)" "keeps (only_calls x r) (memory_check x r k ma name)"
  unfolding smoke_def perf_def run_perf_def stability_def memory_check_def Let_def
  by (intro keeps_intros)+

lemma calls_main: "keeps (only_calls x r) (qa_main x r order k c)"
proof -
  have "keeps (only_calls x r) (all_checks x r order k a)" for a
    unfolding all_checks_def all_memory_def memory_def Let_def by (intro keeps_intros)
  then have "keeps (only_calls x r) (qa_command x r order k c)"
    by (cases c) (simp_all add: qa_command_def memory_def leak_def keeps_intros)
  then show ?thesis unfolding qa_main_def by (intro keeps_intros)
qed

section \<open>What the node does\<close>

lemma calm_call: "calm s (snd (node_do p (call_event r c) s))"
proof -
  have "keeps calm (node_do p (call_event r c))"
    by (cases c) (simp_all add: call_event_def node_do_def answered_def keeps_intros)
  then show ?thesis by (simp add: keeps_def)
qed

lemma calm_calls: "calm s (node_run p (map (call_event r) cs) s)"
proof (induction cs arbitrary: s)
  case (Cons c cs)
  then show ?case using calm_call calm.R_trans by (simp, blast)
qed (simp add: calm.R_refl)

text \<open>A node with another connector for writing serves the calls alike.\<close>

lemma other_writer_shop: "with_shop (other_writer p u i) f = with_shop p f"
  by (simp add: with_shop_def require_valid_lease_with_feature_def load_cloud_lease_def get_secret_def
      validate_cloud_lease_with_feature_def validate_cloud_lease_def load_or_create_device_fingerprint_def
      put_secret_def load_ozon_credentials_def cong: option.case_cong if_cong)

lemma other_writer_lease: "lease_status_of (other_writer p u i) = lease_status_of p"
  by (intro ext) (simp add: lease_status_of_def validate_cloud_lease_with_feature_def validate_cloud_lease_def)

lemma other_writer_inspection:
  "inspect_ozon_credentials (other_writer p u i) = inspect_ozon_credentials p"
  "inspect_openai_config (other_writer p u i) = inspect_openai_config p"
  "inspect_cloud_lease (other_writer p u i) = inspect_cloud_lease p"
  "resolves (other_writer p u i) = resolves p"
  "load_persisted_model_registry (other_writer p u i) = load_persisted_model_registry p"
  "status_of (other_writer p u i) = status_of p"
  by (intro ext; simp add: inspect_ozon_credentials_def inspect_legacy_ozon_credentials_def get_secret_for_status_def
      inspect_openai_config_def inspect_cloud_lease_def other_writer_lease resolves_def resolve_secret_ref_def
      load_persisted_model_registry_def status_of_def skill_url_def manifest_url_of_def load_openai_config_def
      get_secret_def Let_def cong: option.case_cong sum.case_cong if_cong)+

lemma other_writer_capabilities: "inspect_capabilities (other_writer p u i) = inspect_capabilities p"
  by (simp add: inspect_capabilities_def generic_capability_status_def other_writer_inspection cong: option.case_cong)

lemma other_writer_call: "node_do (other_writer p u i) (call_event r c) = node_do p (call_event r c)"
  by (cases c) (simp_all add: call_event_def node_do_def config_status_def ozon_products_count_def
      ozon_products_list_def ozon_products_get_def poster_handoff_def poster_context_def load_product_for_lookup_def
      other_writer_shop other_writer_inspection other_writer_capabilities manifest_url_of_def skill_url_def Let_def
      cong: if_cong)

lemma other_writer_calls:
  "node_run (other_writer p u i) (map (call_event r) cs) s = node_run p (map (call_event r) cs) s"
  by (induction cs arbitrary: s) (simp_all add: other_writer_call)

text \<open>C35: whatever the answers it gets, and in whatever order its workers run, a command of the tool sends
  nothing but its seven calls; and these leave the tasks, their audit log, the schedule, the
  pairings and the video jobs of a node as they are, and never use what a connector has for writing.\<close>

theorem qa_tool_is_read_only:
  "(\<exists>cs. nw_sent (qa_net (snd (qa_main x r order k c w))) = nw_sent (qa_net w) @ map (call_request x r) cs)
   \<and> tables (node_run p (map (call_event r) calls) s) = tables s
   \<and> node_run (other_writer p update import) (map (call_event r) calls) s = node_run p (map (call_event r) calls) s"
proof -
  have "only_calls x r w (snd (qa_main x r order k c w))" using calls_main by (simp add: keeps_def)
  moreover have "calm s (node_run p (map (call_event r) calls) s)" by (rule calm_calls)
  ultimately show ?thesis by (simp add: only_calls_def calm_def other_writer_calls)
qed

end
